(* ===== verification/Prelude.thy ===== *)
theory Prelude
  imports Main "HOL-Library.Char_ord" "HOL-Library.List_Lexorder" "HOL-Library.Word"
begin

text \<open>
  Shared vocabulary of the development.

  A Rust method that takes \<open>&mut self\<close> and returns \<open>Result<T, E>\<close> is an operation: a
  function from the state to a result and the state afterwards.  The state that an
  error leaves behind is kept, because the source does not roll a half-done mutation
  back.  \<open>ok\<close> and \<open>fail\<close> are \<open>Ok\<close> and \<open>Err\<close>; \<open>bindR\<close> is the \<open>?\<close> operator followed by
  the rest of the body; \<open>lift_result\<close> runs a method that only reads \<open>&self\<close>;
  \<open>for_each\<close> is a \<open>for\<close> loop whose body may return early through \<open>?\<close>.

  \<open>preserves P m\<close> says that the operation keeps \<open>P\<close>, on success and on error alike.
  The rules that prove it are collected in \<open>preserves_rules\<close>, so that the invariant
  proof of an operation follows the shape of its definition.
\<close>

named_theorems preserves_rules "introduction rules for the preservation of a state predicate"
named_theorems frame_simps "what an operation leaves unchanged"

type_synonym ('s, 'e, 'a) op = "'s \<Rightarrow> ('e + 'a) \<times> 's"

definition ok :: "'a \<Rightarrow> ('s, 'e, 'a) op" where
  "ok x = (\<lambda>s. (Inr x, s))"

definition fail :: "'e \<Rightarrow> ('s, 'e, 'a) op" where
  "fail e = (\<lambda>s. (Inl e, s))"

definition bindR :: "('s, 'e, 'a) op \<Rightarrow> ('a \<Rightarrow> ('s, 'e, 'b) op) \<Rightarrow> ('s, 'e, 'b) op" where
  "bindR m f = (\<lambda>s. case m s of (Inl e, t) \<Rightarrow> (Inl e, t) | (Inr x, t) \<Rightarrow> f x t)"

definition reads :: "('s \<Rightarrow> ('s, 'e, 'a) op) \<Rightarrow> ('s, 'e, 'a) op" where
  "reads f = (\<lambda>s. f s s)"

definition lift_result :: "('s \<Rightarrow> 'e + 'a) \<Rightarrow> ('s, 'e, 'a) op" where
  "lift_result r = (\<lambda>s. (r s, s))"

definition update :: "('s \<Rightarrow> 's) \<Rightarrow> ('s, 'e, unit) op" where
  "update f = (\<lambda>s. (Inr (), f s))"

definition draw :: "('s \<Rightarrow> 'a \<times> 's) \<Rightarrow> ('s, 'e, 'a) op" where
  "draw f = (\<lambda>s. (Inr (fst (f s)), snd (f s)))"

fun for_each :: "'a list \<Rightarrow> ('a \<Rightarrow> ('s, 'e, 'b) op) \<Rightarrow> ('s, 'e, 'b list) op" where
  "for_each [] f = ok []"
| "for_each (x # xs) f = bindR (f x) (\<lambda>y. bindR (for_each xs f) (\<lambda>ys. ok (y # ys)))"

text \<open>Evaluating an operation at a state.\<close>

lemma run_ok [simp]: "ok x s = (Inr x, s)"
  by (simp add: ok_def)

lemma run_fail [simp]: "fail e s = (Inl e, s)"
  by (simp add: fail_def)

lemma run_reads [simp]: "reads f s = f s s"
  by (simp add: reads_def)

lemma run_lift_result [simp]: "lift_result r s = (r s, s)"
  by (simp add: lift_result_def)

lemma run_update [simp]: "update f s = (Inr (), f s)"
  by (simp add: update_def)

lemma run_draw [simp]: "draw f s = (Inr (fst (f s)), snd (f s))"
  by (simp add: draw_def)

lemma bindR_Inl: "m s = (Inl e, t) \<Longrightarrow> bindR m f s = (Inl e, t)"
  by (simp add: bindR_def)

lemma bindR_Inr: "m s = (Inr x, t) \<Longrightarrow> bindR m f s = f x t"
  by (simp add: bindR_def)

lemma bindR_ok [simp]: "bindR (ok x) f = f x"
  by (simp add: bindR_def ok_def)

lemma bindR_fail [simp]: "bindR (fail e) f = fail e"
  by (auto simp: bindR_def fail_def)

lemma bindR_reads [simp]: "bindR (reads g) f s = bindR (g s) f s"
  by (simp add: bindR_def reads_def)

lemma bindR_update [simp]: "bindR (update g) f s = f () (g s)"
  by (simp add: bindR_def update_def)

lemma bindR_draw [simp]: "bindR (draw g) f s = f (fst (g s)) (snd (g s))"
  by (simp add: bindR_def draw_def)

lemma bindR_lift_result [simp]:
  "bindR (lift_result r) f s = (case r s of Inl e \<Rightarrow> (Inl e, s) | Inr x \<Rightarrow> f x s)"
  by (simp add: bindR_def lift_result_def split: sum.splits)

lemma bindR_assoc [simp]: "bindR (bindR m f) g = bindR m (\<lambda>x. bindR (f x) g)"
  by (auto simp: bindR_def fun_eq_iff split: prod.splits sum.splits)

lemma bindR_InrE:
  assumes "bindR m f s = (Inr y, t)"
  obtains x u where "m s = (Inr x, u)" and "f x u = (Inr y, t)"
  using assms by (auto simp: bindR_def split: prod.splits sum.splits)

lemma bindR_cases:
  assumes "bindR m f s = (r, t)"
  obtains (error) e where "m s = (Inl e, t)" and "r = Inl e"
    | (success) x u where "m s = (Inr x, u)" and "f x u = (r, t)"
  using assms by (auto simp: bindR_def split: prod.splits sum.splits)

lemma fst_bindR_Inl: "fst (m s) = Inl e \<Longrightarrow> fst (bindR m f s) = Inl e"
  by (cases "m s") (auto simp: bindR_def)

section \<open>Preservation of a state predicate\<close>

definition preserves :: "('s \<Rightarrow> bool) \<Rightarrow> ('s, 'e, 'a) op \<Rightarrow> bool" where
  "preserves P m \<longleftrightarrow> (\<forall>s. P s \<longrightarrow> P (snd (m s)))"

lemma preservesI: "(\<And>s. P s \<Longrightarrow> P (snd (m s))) \<Longrightarrow> preserves P m"
  by (simp add: preserves_def)

lemma preservesD: "preserves P m \<Longrightarrow> P s \<Longrightarrow> P (snd (m s))"
  by (simp add: preserves_def)

lemma preserves_run: "preserves P m \<Longrightarrow> m s = (r, t) \<Longrightarrow> P s \<Longrightarrow> P t"
  by (metis preservesD snd_conv)

lemma preserves_ok [preserves_rules]: "preserves P (ok x)"
  by (simp add: preserves_def)

lemma preserves_fail [preserves_rules]: "preserves P (fail e)"
  by (simp add: preserves_def)

lemma preserves_lift_result [preserves_rules]: "preserves P (lift_result r)"
  by (simp add: preserves_def)

lemma preserves_bindR [preserves_rules]:
  "preserves P m \<Longrightarrow> (\<And>x. preserves P (f x)) \<Longrightarrow> preserves P (bindR m f)"
  unfolding preserves_def bindR_def by (auto split: prod.splits sum.splits)

lemma preserves_reads [preserves_rules]:
  "(\<And>s. P s \<Longrightarrow> preserves P (f s)) \<Longrightarrow> preserves P (reads f)"
  by (simp add: preserves_def)

lemma preserves_update: "(\<And>s. P s \<Longrightarrow> P (f s)) \<Longrightarrow> preserves P (update f)"
  by (simp add: preserves_def)

lemma preserves_draw: "(\<And>s. P s \<Longrightarrow> P (snd (f s))) \<Longrightarrow> preserves P (draw f)"
  by (simp add: preserves_def)

lemma preserves_if [preserves_rules]:
  "(b \<Longrightarrow> preserves P m) \<Longrightarrow> (\<not> b \<Longrightarrow> preserves P n) \<Longrightarrow> preserves P (if b then m else n)"
  by simp

lemma preserves_case_option [preserves_rules]:
  "(x = None \<Longrightarrow> preserves P m) \<Longrightarrow> (\<And>y. x = Some y \<Longrightarrow> preserves P (f y)) \<Longrightarrow>
   preserves P (case x of None \<Rightarrow> m | Some y \<Rightarrow> f y)"
  by (simp split: option.splits)

lemma preserves_case_sum [preserves_rules]:
  "(\<And>y. x = Inl y \<Longrightarrow> preserves P (f y)) \<Longrightarrow> (\<And>y. x = Inr y \<Longrightarrow> preserves P (g y)) \<Longrightarrow>
   preserves P (case x of Inl y \<Rightarrow> f y | Inr y \<Rightarrow> g y)"
  by (simp split: sum.splits)

lemma preserves_let [preserves_rules]: "preserves P (f x) \<Longrightarrow> preserves P (let y = x in f y)"
  by simp

lemma preserves_for_each [preserves_rules]:
  "(\<And>x. x \<in> set xs \<Longrightarrow> preserves P (f x)) \<Longrightarrow> preserves P (for_each xs f)"
  by (induction xs) (auto intro!: preserves_rules)

lemma preserves_conj: "preserves P m \<Longrightarrow> preserves Q m \<Longrightarrow> preserves (\<lambda>s. P s \<and> Q s) m"
  by (simp add: preserves_def)

section \<open>Lists and options\<close>

text \<open>\<open>Option::unwrap_or\<close>.\<close>

definition unwrap_or :: "'a option \<Rightarrow> 'a \<Rightarrow> 'a" where
  "unwrap_or x d = (case x of None \<Rightarrow> d | Some y \<Rightarrow> y)"

text \<open>Rust's \<open>iter().position\<close> and \<open>iter().find\<close>.\<close>

fun position :: "('a \<Rightarrow> bool) \<Rightarrow> 'a list \<Rightarrow> nat option" where
  "position p [] = None"
| "position p (x # xs) = (if p x then Some 0 else map_option Suc (position p xs))"

lemma position_Some:
  "position p xs = Some i \<Longrightarrow> i < length xs \<and> p (xs ! i) \<and> (\<forall>j < i. \<not> p (xs ! j))"
proof (induction xs arbitrary: i)
  case Nil
  then show ?case by simp
next
  case (Cons x xs)
  show ?case
  proof (cases i)
    case 0
    with Cons.prems show ?thesis by (auto split: if_splits)
  next
    case (Suc k)
    with Cons.prems have npx: "\<not> p x" and k: "position p xs = Some k"
      by (auto split: if_splits)
    from Cons.IH [OF k] have IH: "k < length xs" "p (xs ! k)" "\<forall>j < k. \<not> p (xs ! j)"
      by auto
    have "\<not> p ((x # xs) ! j)" if "j < Suc k" for j
      using that npx IH(3) by (cases j) auto
    with Suc IH show ?thesis by auto
  qed
qed

lemma position_None: "position p xs = None \<longleftrightarrow> (\<forall>x \<in> set xs. \<not> p x)"
  by (induction xs) auto

lemma position_find: "find p xs = map_option ((!) xs) (position p xs)"
  by (induction xs) (auto simp: option.map_comp comp_def)

text \<open>Rust's \<open>Vec::dedup\<close>: equal neighbours collapse to the first.\<close>

fun dedup :: "'a list \<Rightarrow> 'a list" where
  "dedup (x # y # ys) = (if x = y then dedup (x # ys) else x # dedup (y # ys))"
| "dedup xs = xs"

lemma set_dedup [simp]: "set (dedup xs) = set xs"
  by (induction xs rule: dedup.induct) auto

lemma dedup_Cons: "\<exists>ys. dedup (x # xs) = x # ys"
  by (induction "x # xs" arbitrary: xs rule: dedup.induct) auto

lemma dedup_sorted: "sorted xs \<Longrightarrow> sorted_wrt (<) (dedup (xs :: 'a :: linorder list))"
proof (induction xs rule: dedup.induct)
  case (1 x y ys)
  then show ?case
    by (cases "x = y") (auto simp: order_less_le)
qed auto

lemma sorted_distinct_strict: "sorted_wrt (<) xs \<Longrightarrow> distinct (xs :: 'a :: linorder list)"
  by (induction xs) auto

lemma sum_list_le_length:
  "(\<And>x. x \<in> set xs \<Longrightarrow> f x \<le> (n :: nat)) \<Longrightarrow> (\<Sum>x \<leftarrow> xs. f x) \<le> n * length xs"
  by (induction xs) (auto simp: add_mono)

end
