(* ===== verification/Rust_Text.thy ===== *)
theory Rust_Text
  imports Prelude
begin

text \<open>
  Strings as the Rust code uses them: a \<open>String\<close> is its UTF-8 bytes, one \<open>char\<close> per byte.
  \<open>trim\<close> removes the code points with the Unicode property White_Space, written out here by
  their encodings; \<open>to_ascii_lowercase\<close>, \<open>contains\<close>, \<open>starts_with\<close> and \<open>join\<close> are the
  methods of those names; \<open>dec\<close> and \<open>int_dec\<close> are the \<open>Display\<close> of integers.

  A \<open>Uuid\<close> is its canonical text (lower-case hexadecimal with hyphens), which is what
  \<open>Display\<close> prints; the order of these texts is the byte order of the identifiers.
\<close>

type_synonym uuid = string
type_synonym string_map = "(string \<times> string) list"

definition nl :: string where "nl = [CHR 0x0A]"
definition sq :: string where "sq = [CHR 0x27]"

definition byte :: "char \<Rightarrow> nat" where
  "byte c = of_char c"

text \<open>The length in bytes of the white-space character at the front, 0 if there is none.\<close>

fun ws3 :: "nat \<Rightarrow> nat \<Rightarrow> nat \<Rightarrow> bool" where
  "ws3 a b c \<longleftrightarrow>
     a = 0xE1 \<and> b = 0x9A \<and> c = 0x80 \<or>
     a = 0xE2 \<and> b = 0x80 \<and> (0x80 \<le> c \<and> c \<le> 0x8A \<or> c = 0xA8 \<or> c = 0xA9 \<or> c = 0xAF) \<or>
     a = 0xE2 \<and> b = 0x81 \<and> c = 0x9F \<or>
     a = 0xE3 \<and> b = 0x80 \<and> c = 0x80"

definition ws1 :: "nat \<Rightarrow> bool" where
  "ws1 a \<longleftrightarrow> 9 \<le> a \<and> a \<le> 13 \<or> a = 32"

definition ws2 :: "nat \<Rightarrow> nat \<Rightarrow> bool" where
  "ws2 a b \<longleftrightarrow> a = 0xC2 \<and> (b = 0x85 \<or> b = 0xA0)"

fun ws_front :: "string \<Rightarrow> nat" where
  "ws_front (a # b # c # s) =
     (if ws1 (byte a) then 1 else if ws2 (byte a) (byte b) then 2
      else if ws3 (byte a) (byte b) (byte c) then 3 else 0)"
| "ws_front [a, b] = (if ws1 (byte a) then 1 else if ws2 (byte a) (byte b) then 2 else 0)"
| "ws_front [a] = (if ws1 (byte a) then 1 else 0)"
| "ws_front [] = 0"

fun ws_back :: "string \<Rightarrow> nat" where
  "ws_back (c # b # a # s) =
     (if ws1 (byte c) then 1 else if ws2 (byte b) (byte c) then 2
      else if ws3 (byte a) (byte b) (byte c) then 3 else 0)"
| "ws_back [b, a] = (if ws1 (byte b) then 1 else if ws2 (byte a) (byte b) then 2 else 0)"
| "ws_back [a] = (if ws1 (byte a) then 1 else 0)"
| "ws_back [] = 0"

function strip :: "(string \<Rightarrow> nat) \<Rightarrow> string \<Rightarrow> string" where
  "strip w s = (if w s = 0 \<or> s = [] then s else strip w (drop (w s) s))"
  by pat_completeness auto
termination
  by (relation "measure (\<lambda>(w, s). length s)") auto

declare strip.simps [simp del]

definition trim_start :: "string \<Rightarrow> string" where
  "trim_start s = strip ws_front s"

definition trim_end :: "string \<Rightarrow> string" where
  "trim_end s = rev (strip ws_back (rev s))"

definition trim :: "string \<Rightarrow> string" where
  "trim s = trim_end (trim_start s)"

definition blank :: "string \<Rightarrow> bool" where
  "blank s \<longleftrightarrow> trim s = []"

lemma strip_stop: "w s = 0 \<Longrightarrow> strip w s = s"
  by (simp add: strip.simps)

lemma strip_Nil [simp]: "strip w [] = []"
  by (simp add: strip.simps)

lemma trim_Nil [simp]: "trim [] = []"
  by (simp add: trim_def trim_start_def trim_end_def)

lemma blank_Nil [simp]: "blank []"
  by (simp add: blank_def)

text \<open>Text that begins with a printable ASCII character does not trim to nothing.\<close>

lemma ws_front_0:
  "\<not> ws1 (byte a) \<Longrightarrow> byte a < 0x80 \<Longrightarrow> ws_front (a # s) = 0"
  by (cases "a # s" rule: ws_front.cases) (auto simp: ws2_def)

lemma ws_back_single: "\<not> ws1 (byte a) \<Longrightarrow> byte a < 0x80 \<Longrightarrow> ws_back (s @ [a]) \<le> length s"
  by (cases s rule: ws_back.cases) (auto simp: ws2_def)

lemma strip_back_keeps:
  assumes "\<not> ws1 (byte a)" "byte a < 0x80"
  shows "\<exists>t. strip ws_back (s @ [a]) = t @ [a]"
proof (induction s rule: length_induct)
  case (1 s)
  show ?case
  proof (cases "ws_back (s @ [a]) = 0")
    case True
    then show ?thesis by (auto simp: strip_stop)
  next
    case False
    let ?n = "ws_back (s @ [a])"
    from ws_back_single [OF assms] have le: "?n \<le> length s" .
    with False have "length (drop ?n s) < length s" by simp
    with 1 obtain t where "strip ws_back (drop ?n s @ [a]) = t @ [a]" by blast
    with le False show ?thesis by (simp add: strip.simps [of ws_back "s @ [a]"])
  qed
qed

lemma not_blank_Cons:
  assumes "\<not> ws1 (byte a)" "byte a < 0x80"
  shows "\<not> blank (a # s)"
  using strip_back_keeps [OF assms, of "rev s"] ws_front_0 [OF assms, of s]
  by (auto simp: blank_def trim_def trim_start_def trim_end_def strip_stop)

section \<open>ASCII case, search, joining\<close>

definition lower_char :: "char \<Rightarrow> char" where
  "lower_char c = (if 65 \<le> byte c \<and> byte c \<le> 90 then char_of (byte c + 32) else c)"

definition to_ascii_lowercase :: "string \<Rightarrow> string" where
  "to_ascii_lowercase s = map lower_char s"

definition starts_with :: "string \<Rightarrow> string \<Rightarrow> bool" where
  "starts_with s p \<longleftrightarrow> take (length p) s = p"

fun contains :: "string \<Rightarrow> string \<Rightarrow> bool" where
  "contains [] p \<longleftrightarrow> p = []"
| "contains (c # s) p \<longleftrightarrow> starts_with (c # s) p \<or> contains s p"

lemma contains_iff: "contains s p \<longleftrightarrow> (\<exists>u v. s = u @ p @ v)"
proof (induction s)
  case (Cons c s)
  have *: "starts_with (c # s) p \<longleftrightarrow> (\<exists>v. c # s = p @ v)"
    unfolding starts_with_def by (metis append_eq_conv_conj append_take_drop_id)
  show ?case
  proof
    assume "contains (c # s) p"
    with * Cons consider v where "c # s = p @ v" | u v where "s = u @ p @ v" by auto
    then show "\<exists>u v. c # s = u @ p @ v"
      by cases (metis append_Nil, metis append_Cons)
  next
    assume "\<exists>u v. c # s = u @ p @ v"
    then obtain u v where "c # s = u @ p @ v" by blast
    then have "(\<exists>v. c # s = p @ v) \<or> (\<exists>u v. s = u @ p @ v)" by (cases u) auto
    with * Cons show "contains (c # s) p" by auto
  qed
qed auto

fun join :: "string \<Rightarrow> string list \<Rightarrow> string" where
  "join sep [] = []"
| "join sep [s] = s"
| "join sep (s # t # ts) = s @ sep @ join sep (t # ts)"

section \<open>Integers in decimal\<close>

definition digit :: "nat \<Rightarrow> char" where
  "digit d = char_of (48 + d)"

fun dec :: "nat \<Rightarrow> string" where
  "dec n = (if n < 10 then [digit n] else dec (n div 10) @ [digit (n mod 10)])"

declare dec.simps [simp del]

definition int_dec :: "int \<Rightarrow> string" where
  "int_dec i = (if i < 0 then ''-'' @ dec (nat (- i)) else dec (nat i))"

definition digit_val :: "char \<Rightarrow> nat option" where
  "digit_val c = (if 48 \<le> byte c \<and> byte c \<le> 57 then Some (byte c - 48) else None)"

fun digits_val :: "nat \<Rightarrow> string \<Rightarrow> nat option" where
  "digits_val acc [] = Some acc"
| "digits_val acc (c # s) =
     (case digit_val c of None \<Rightarrow> None | Some d \<Rightarrow> digits_val (10 * acc + d) s)"

text \<open>\<open>str::parse::<i64>\<close>: an optional sign, at least one digit, no overflow.\<close>

definition parse_i64 :: "string \<Rightarrow> int option" where
  "parse_i64 s =
     (let sign = (case s of c # _ \<Rightarrow> (if c = CHR ''-'' then -1 else 1) | [] \<Rightarrow> 1);
          body = (case s of c # t \<Rightarrow> (if c = CHR ''-'' \<or> c = CHR ''+'' then t else s) | [] \<Rightarrow> [])
      in if body = [] then None
         else case digits_val 0 body of
                None \<Rightarrow> None
              | Some n \<Rightarrow> (let i = sign * int n
                          in if - (2 ^ 63) \<le> i \<and> i < 2 ^ 63 then Some i else None))"

lemma dec_not_Nil [simp]: "dec n \<noteq> []"
  by (subst dec.simps) simp

lemma byte_digit: "d < 10 \<Longrightarrow> byte (digit d) = 48 + d"
  by (simp add: byte_def digit_def)

lemma digits_val_append:
  "digits_val acc (s @ t) = (case digits_val acc s of None \<Rightarrow> None | Some a \<Rightarrow> digits_val a t)"
  by (induction acc s rule: digits_val.induct) (auto split: option.splits)

lemma digit_val_digit: "d < 10 \<Longrightarrow> digit_val (digit d) = Some d"
  by (simp add: digit_val_def byte_digit)

lemma digits_val_dec: "digits_val 0 (dec n) = Some n"
proof (induction n rule: dec.induct)
  case (1 n)
  show ?case
  proof (cases "n < 10")
    case True
    then show ?thesis by (subst dec.simps) (simp add: digit_val_digit)
  next
    case False
    with 1 have "digits_val 0 (dec (n div 10)) = Some (n div 10)" by simp
    with False show ?thesis
      by (subst dec.simps) (simp add: digits_val_append digit_val_digit)
  qed
qed

lemma dec_inject [simp]: "dec m = dec n \<longleftrightarrow> m = n"
  by (metis digits_val_dec option.inject)

end
