(* ===== verification/Float32.thy ===== *)
theory Float32
  imports Rust_Text
begin

unbundle bit_operations_syntax

text \<open>
  IEEE 754 binary32, the \<open>f32\<close> of the scores, rewards, confidences and thresholds.  A
  value is its bit pattern.  Comparisons work on the sign and magnitude of the pattern
  and are false on NaN; \<open>total_cmp\<close> is \<open>f32::total_cmp\<close> (the order of the patterns read
  as sign-magnitude integers, -0 before +0).  Arithmetic is exact on multiples of
  \<open>2^-149\<close> followed by one rounding to nearest, ties to even.
\<close>

type_synonym f32 = "32 word"

definition f32_neg :: "f32 \<Rightarrow> bool" where
  "f32_neg x \<longleftrightarrow> bit x 31"

definition f32_mag :: "f32 \<Rightarrow> nat" where
  "f32_mag x = unat x mod 2 ^ 31"

definition f32_is_nan :: "f32 \<Rightarrow> bool" where
  "f32_is_nan x \<longleftrightarrow> f32_mag x > 0x7F800000"

definition f32_is_finite :: "f32 \<Rightarrow> bool" where
  "f32_is_finite x \<longleftrightarrow> f32_mag x < 0x7F800000"

definition f32_key :: "f32 \<Rightarrow> int" where
  "f32_key x = (if f32_neg x then - int (f32_mag x) else int (f32_mag x))"

definition f32_lt :: "f32 \<Rightarrow> f32 \<Rightarrow> bool" where
  "f32_lt x y \<longleftrightarrow> \<not> f32_is_nan x \<and> \<not> f32_is_nan y \<and> f32_key x < f32_key y"

definition f32_le :: "f32 \<Rightarrow> f32 \<Rightarrow> bool" where
  "f32_le x y \<longleftrightarrow> \<not> f32_is_nan x \<and> \<not> f32_is_nan y \<and> f32_key x \<le> f32_key y"

definition f32_max :: "f32 \<Rightarrow> f32 \<Rightarrow> f32" where
  "f32_max x y = (if f32_is_nan x then y else if f32_is_nan y then x
                  else if f32_lt x y then y else x)"

definition f32_total_key :: "f32 \<Rightarrow> int" where
  "f32_total_key x = (if f32_neg x then - int (f32_mag x) - 1 else int (f32_mag x))"

definition f32_total_le :: "f32 \<Rightarrow> f32 \<Rightarrow> bool" where
  "f32_total_le x y \<longleftrightarrow> f32_total_key x \<le> f32_total_key y"

text \<open>Constants of the source.\<close>

definition f32_0 :: f32 where "f32_0 = 0"
definition f32_1 :: f32 where "f32_1 = 0x3F800000"
definition f32_0_2 :: f32 where "f32_0_2 = 0x3E4CCCCD"
definition f32_0_75 :: f32 where "f32_0_75 = 0x3F400000"
definition f32_0_8 :: f32 where "f32_0_8 = 0x3F4CCCCD"
definition f32_0_85 :: f32 where "f32_0_85 = 0x3F59999A"
definition f32_0_9 :: f32 where "f32_0_9 = 0x3F666666"

section \<open>Rounded arithmetic\<close>

text \<open>The magnitude of a finite value in units of \<open>2^-149\<close>.\<close>

definition mag_units :: "nat \<Rightarrow> nat" where
  "mag_units m = (let e = m div 2 ^ 23; f = m mod 2 ^ 23
                  in if e = 0 then f else (2 ^ 23 + f) * 2 ^ (e - 1))"

definition f32_units :: "f32 \<Rightarrow> int" where
  "f32_units x = (if f32_neg x then - int (mag_units (f32_mag x)) else int (mag_units (f32_mag x)))"

fun bit_length :: "nat \<Rightarrow> nat" where
  "bit_length n = (if n = 0 then 0 else Suc (bit_length (n div 2)))"

declare bit_length.simps [simp del]

definition round_half_even :: "nat \<Rightarrow> nat \<Rightarrow> nat" where
  "round_half_even p q =
     (let n = p div q; r = p mod q
      in if 2 * r < q then n else if 2 * r > q then n + 1 else if even n then n else n + 1)"

text \<open>The pattern of \<open>p / q\<close> units, rounded; too large a value is infinite.\<close>

definition round_mag :: "nat \<Rightarrow> nat \<Rightarrow> nat" where
  "round_mag p q =
     (let k = bit_length (p div q) - 24;
          n = round_half_even p (q * 2 ^ k);
          m = (if n < 2 ^ 23 then n
               else if n = 2 ^ 24 then (k + 2) * 2 ^ 23
               else (k + 1) * 2 ^ 23 + (n - 2 ^ 23))
      in min m 0x7F800000)"

definition f32_of :: "bool \<Rightarrow> nat \<Rightarrow> f32" where
  "f32_of neg m = (if neg then word_of_nat (2 ^ 31 + m) else word_of_nat m)"

definition f32_nan :: f32 where "f32_nan = 0x7FC00000"

definition f32_add :: "f32 \<Rightarrow> f32 \<Rightarrow> f32" where
  "f32_add x y =
     (if f32_is_nan x \<or> f32_is_nan y then f32_nan
      else if \<not> f32_is_finite x then
        (if \<not> f32_is_finite y \<and> f32_neg x \<noteq> f32_neg y then f32_nan else x)
      else if \<not> f32_is_finite y then y
      else let s = f32_units x + f32_units y
           in if s = 0 then f32_of (f32_neg x \<and> f32_neg y) 0
              else f32_of (s < 0) (round_mag (nat \<bar>s\<bar>) 1))"

text \<open>A count converted with \<open>as f32\<close>, and division by such a count.\<close>

definition f32_of_nat :: "nat \<Rightarrow> f32" where
  "f32_of_nat n = f32_of False (round_mag (n * 2 ^ 149) 1)"

definition f32_div_nat :: "f32 \<Rightarrow> nat \<Rightarrow> f32" where
  "f32_div_nat x n =
     (if f32_is_nan x then f32_nan
      else if n = 0 then
        (if f32_mag x = 0 then f32_nan else f32_of (f32_neg x) 0x7F800000)
      else if \<not> f32_is_finite x then x
      else f32_of (f32_neg x)
             (round_mag (mag_units (f32_mag x) * 2 ^ 149) (mag_units (f32_mag (f32_of_nat n)))))"

text \<open>\<open>iter().sum::<f32>()\<close> of a list that is not empty.\<close>

fun f32_sum :: "f32 list \<Rightarrow> f32" where
  "f32_sum [] = f32_0"
| "f32_sum (x # xs) = foldl f32_add x xs"

text \<open>\<open>{:.d}\<close>: fixed-point display with \<open>d\<close> decimals, correctly rounded.\<close>

definition pad_left :: "nat \<Rightarrow> string \<Rightarrow> string" where
  "pad_left w s = replicate (w - length s) (CHR ''0'') @ s"

definition f32_fixed :: "nat \<Rightarrow> f32 \<Rightarrow> string" where
  "f32_fixed d x =
     (if f32_is_nan x then ''NaN''
      else (if f32_neg x then ''-'' else []) @
           (if \<not> f32_is_finite x then ''inf''
            else let n = round_half_even (mag_units (f32_mag x) * 10 ^ d) (2 ^ 149)
                 in dec (n div 10 ^ d) @ ''.'' @ pad_left d (dec (n mod 10 ^ d))))"

section \<open>Order\<close>

lemma f32_mag_less: "f32_mag x < 2 ^ 31"
  by (simp add: f32_mag_def)

lemma unat_f32: "unat x = (if f32_neg x then 2 ^ 31 else 0) + f32_mag x" for x :: f32
proof -
  have "unat x < 2 * 2 ^ 31" using unsigned_less [of x] by simp
  then have "unat x div 2 ^ 31 < 2" by (rule less_mult_imp_div_less)
  then have q: "unat x div 2 ^ 31 = 0 \<or> unat x div 2 ^ 31 = 1" by linarith
  have "bit (unat x) 31 = bit x 31" by (simp add: bit_unsigned_iff bit_imp_le_length)
  then have "bit x 31 \<longleftrightarrow> odd (unat x div 2 ^ 31)"
    by (simp only: bit_iff_odd)
  with q show ?thesis
    unfolding f32_neg_def f32_mag_def using div_mult_mod_eq [of "unat x" "2 ^ 31"]
    by (elim disjE) (simp_all only: odd_one even_zero if_True if_False mult_0 mult_1 add_0, auto)
qed

lemma f32_total_key_inject: "f32_total_key x = f32_total_key y \<longleftrightarrow> x = y"
  using f32_mag_less [of x] f32_mag_less [of y]
  by (auto simp: f32_total_key_def word_unat_eq_iff unat_f32 split: if_splits)

lemma f32_total_le_total: "f32_total_le x y \<or> f32_total_le y x"
  by (auto simp: f32_total_le_def)

lemma f32_total_le_trans: "f32_total_le x y \<Longrightarrow> f32_total_le y z \<Longrightarrow> f32_total_le x z"
  by (auto simp: f32_total_le_def)

lemma f32_total_le_antisym: "f32_total_le x y \<Longrightarrow> f32_total_le y x \<Longrightarrow> x = y"
  by (auto simp: f32_total_le_def f32_total_key_inject [symmetric])

lemma f32_le_trans: "f32_le x y \<Longrightarrow> f32_le y z \<Longrightarrow> f32_le x z"
  by (auto simp: f32_le_def)

lemma f32_not_lt: "\<not> f32_is_nan x \<Longrightarrow> \<not> f32_is_nan y \<Longrightarrow> \<not> f32_lt x y \<longleftrightarrow> f32_le y x"
  by (auto simp: f32_lt_def f32_le_def)

lemma f32_le_max: "f32_le x x \<Longrightarrow> f32_le x (f32_max x y)"
  by (auto simp: f32_max_def f32_le_def f32_lt_def)

lemma f32_le_max2: "f32_le y y \<Longrightarrow> f32_le y (f32_max x y)"
  by (auto simp: f32_max_def f32_le_def f32_lt_def)

text \<open>The comparison of bit patterns is the comparison of the represented values.\<close>

lemma mag_units_mono:
  assumes "m < n"
  shows "mag_units m < mag_units n"
proof -
  let ?e = "m div 2 ^ 23" and ?g = "n div 2 ^ 23"
  have m: "m = ?e * 2 ^ 23 + m mod 2 ^ 23" and n: "n = ?g * 2 ^ 23 + n mod 2 ^ 23"
    by simp_all
  have fm: "m mod 2 ^ 23 < (2 :: nat) ^ 23" by simp
  show ?thesis
  proof (cases "?e = ?g")
    case True
    with assms m n have r: "m mod 2 ^ 23 < n mod 2 ^ 23" by (metis nat_add_left_cancel_less)
    show ?thesis
    proof (cases "?g = 0")
      case True
      with r \<open>?e = ?g\<close> show ?thesis by (simp only: mag_units_def Let_def refl if_True)
    next
      case False
      with r \<open>?e = ?g\<close> show ?thesis
        by (simp only: mag_units_def Let_def if_False mult_less_cancel2) simp
    qed
  next
    case False
    with assms have less: "?e < ?g" by (meson div_le_mono le_neq_implies_less less_imp_le)
    have up: "mag_units m < 2 ^ 24 * 2 ^ (?e - 1)"
    proof (cases "?e = 0")
      case True
      then show ?thesis using fm by (simp add: mag_units_def)
    next
      case False
      then show ?thesis using fm by (simp add: mag_units_def Let_def)
    qed
    have low: "2 ^ 23 * 2 ^ (?g - 1) \<le> mag_units n"
      using less by (simp add: mag_units_def Let_def)
    show ?thesis
    proof (cases "?e = 0")
      case True
      then have "mag_units m < 2 ^ 23" using fm by (simp add: mag_units_def)
      also have "(2 :: nat) ^ 23 \<le> 2 ^ 23 * 2 ^ (?g - 1)" by simp
      finally show ?thesis using low by linarith
    next
      case False
      with less have "(2 :: nat) ^ Suc (?e - 1) \<le> 2 ^ (?g - 1)"
        by (intro power_increasing) auto
      then have "(2 :: nat) ^ 24 * 2 ^ (?e - 1) \<le> 2 ^ 23 * 2 ^ (?g - 1)" by simp
      with up low show ?thesis by linarith
    qed
  qed
qed

lemma mag_units_0 [simp]: "mag_units 0 = 0"
  by (simp add: mag_units_def)

lemma mag_units_pos: "0 < m \<Longrightarrow> 0 < mag_units m"
  using mag_units_mono [of 0 m] by simp

lemma f32_key_units: "f32_key x < f32_key y \<longleftrightarrow> f32_units x < f32_units y"
proof -
  have less: "mag_units m < mag_units n \<longleftrightarrow> m < n" for m n
    by (metis linorder_neqE_nat mag_units_mono order_less_asym)
  have zero: "mag_units m = 0 \<longleftrightarrow> m = 0" for m
    by (metis mag_units_0 mag_units_pos neq0_conv order_less_irrefl)
  show ?thesis
    using less [of "f32_mag x" "f32_mag y"] less [of "f32_mag y" "f32_mag x"]
      zero [of "f32_mag x"] zero [of "f32_mag y"]
    by (auto simp: f32_key_def f32_units_def)
qed

end
