(* ===== verification/Rust_Map.thy ===== *)
theory Rust_Map
  imports Prelude
begin

text \<open>
  \<open>BTreeMap\<close>: an association list in strictly increasing key order, which is what its
  iterators show.  \<open>bt_get\<close>, \<open>bt_insert\<close> and \<open>bt_remove\<close> are the methods of those names,
  \<open>bt_adjust k f\<close> is an update through \<open>get_mut\<close>, \<open>bt_map_values\<close> a loop over
  \<open>values_mut\<close>.  The locale \<open>ordered_map\<close> states what the callers rely on.
\<close>

type_synonym ('k, 'v) btree = "('k \<times> 'v) list"

definition bt_wf :: "('k :: linorder, 'v) btree \<Rightarrow> bool" where
  "bt_wf m \<longleftrightarrow> sorted_wrt (<) (map fst m)"

definition bt_get :: "('k, 'v) btree \<Rightarrow> 'k \<Rightarrow> 'v option" where
  "bt_get m k = map_of m k"

fun bt_insert :: "'k :: linorder \<Rightarrow> 'v \<Rightarrow> ('k, 'v) btree \<Rightarrow> ('k, 'v) btree" where
  "bt_insert k v [] = [(k, v)]"
| "bt_insert k v ((a, b) # m) =
     (if k < a then (k, v) # (a, b) # m
      else if k = a then (k, v) # m
      else (a, b) # bt_insert k v m)"

definition bt_remove :: "'k \<Rightarrow> ('k, 'v) btree \<Rightarrow> ('k, 'v) btree" where
  "bt_remove k m = filter (\<lambda>p. fst p \<noteq> k) m"

definition bt_adjust :: "'k \<Rightarrow> ('v \<Rightarrow> 'v) \<Rightarrow> ('k, 'v) btree \<Rightarrow> ('k, 'v) btree" where
  "bt_adjust k f m = map (\<lambda>p. if fst p = k then (fst p, f (snd p)) else p) m"

definition bt_map_values :: "('v \<Rightarrow> 'w) \<Rightarrow> ('k, 'v) btree \<Rightarrow> ('k, 'w) btree" where
  "bt_map_values f m = map (\<lambda>p. (fst p, f (snd p))) m"

definition bt_values :: "('k, 'v) btree \<Rightarrow> 'v list" where
  "bt_values m = map snd m"

definition bt_keys :: "('k, 'v) btree \<Rightarrow> 'k list" where
  "bt_keys m = map fst m"

definition bt_of_list :: "('k :: linorder \<times> 'v) list \<Rightarrow> ('k, 'v) btree" where
  "bt_of_list ps = foldl (\<lambda>m p. bt_insert (fst p) (snd p) m) [] ps"

locale ordered_map =
  fixes emp :: 'm
    and get :: "'m \<Rightarrow> 'k :: linorder \<Rightarrow> 'v option"
    and put :: "'k \<Rightarrow> 'v \<Rightarrow> 'm \<Rightarrow> 'm"
    and del :: "'k \<Rightarrow> 'm \<Rightarrow> 'm"
    and adj :: "'k \<Rightarrow> ('v \<Rightarrow> 'v) \<Rightarrow> 'm \<Rightarrow> 'm"
    and entries :: "'m \<Rightarrow> ('k \<times> 'v) list"
    and wf :: "'m \<Rightarrow> bool"
  assumes wf_emp: "wf emp"
    and wf_put: "wf m \<Longrightarrow> wf (put k v m)"
    and wf_del: "wf m \<Longrightarrow> wf (del k m)"
    and wf_adj: "wf m \<Longrightarrow> wf (adj k f m)"
    and get_emp: "get emp k = None"
    and get_put: "get (put k v m) k' = (if k' = k then Some v else get m k')"
    and get_del: "get (del k m) k' = (if k' = k then None else get m k')"
    and get_adj: "get (adj k f m) k' = (if k' = k then map_option f (get m k) else get m k')"
    and entries_sorted: "wf m \<Longrightarrow> sorted_wrt (<) (map fst (entries m))"
    and entries_get: "wf m \<Longrightarrow> (k, v) \<in> set (entries m) \<longleftrightarrow> get m k = Some v"
begin

lemma entries_ext:
  assumes "wf m" "wf n" "\<And>k. get m k = get n k"
  shows "entries m = entries n"
proof -
  have "set (entries m) = set (entries n)"
    using assms entries_get by (metis subrelI subset_antisym)
  moreover have "sorted_wrt (<) (map fst (entries m))" "sorted_wrt (<) (map fst (entries n))"
    using entries_sorted assms(1,2) by blast+
  ultimately show ?thesis
    by (metis strict_sorted_iff distinct_map map_sorted_distinct_set_unique sup.idem)
qed

lemma put_put: "wf m \<Longrightarrow> entries (put k v (put k w m)) = entries (put k v m)"
  by (rule entries_ext) (auto simp: wf_put get_put)

lemma get_all_put:
  "wf m \<Longrightarrow> (\<forall>p \<in> set (entries m). P (fst p) (snd p)) \<Longrightarrow> P k v \<Longrightarrow>
   \<forall>p \<in> set (entries (put k v m)). P (fst p) (snd p)"
  using entries_get [of m] entries_get [of "put k v m"] wf_put
  by (fastforce simp: get_put split: if_splits)

end

lemma fst_set_bt_insert [simp]:
  "fst ` set (bt_insert k v m) = insert k (fst ` set m)"
  by (induction k v m rule: bt_insert.induct) auto

lemma bt_wf_insert: "bt_wf m \<Longrightarrow> bt_wf (bt_insert k v m)"
  unfolding bt_wf_def
proof (induction k v m rule: bt_insert.induct)
  case (2 k v a b m)
  have "\<forall>x \<in> fst ` set (bt_insert k v m). a < x" if "a < k"
    using that 2 by auto
  with 2 show ?case by (auto simp: not_less order_le_less)
qed simp

lemma get_insert: "bt_get (bt_insert k v m) k' = (if k' = k then Some v else bt_get m k')"
  unfolding bt_get_def by (induction k v m rule: bt_insert.induct) auto

lemma get_remove: "bt_get (bt_remove k m) k' = (if k' = k then None else bt_get m k')"
  unfolding bt_get_def bt_remove_def by (induction m) auto

lemma get_adjust:
  "bt_get (bt_adjust k f m) k' = (if k' = k then map_option f (bt_get m k) else bt_get m k')"
  unfolding bt_get_def bt_adjust_def by (induction m) auto

lemma get_map_values: "bt_get (bt_map_values f m) k = map_option f (bt_get m k)"
  unfolding bt_get_def bt_map_values_def by (induction m) auto

lemma keys_adjust [simp]: "map fst (bt_adjust k f m) = map fst m"
  unfolding bt_adjust_def by (induction m) auto

lemma keys_map_values [simp]: "map fst (bt_map_values f m) = map fst m"
  unfolding bt_map_values_def by (induction m) auto

lemma bt_wf_remove: "bt_wf m \<Longrightarrow> bt_wf (bt_remove k m)"
  unfolding bt_wf_def bt_remove_def by (induction m) auto

lemma bt_wf_adjust [simp]: "bt_wf (bt_adjust k f m) = bt_wf m"
  by (simp add: bt_wf_def)

lemma bt_wf_map_values [simp]: "bt_wf (bt_map_values f m) = bt_wf m"
  by (simp add: bt_wf_def)

lemma bt_wf_distinct: "bt_wf m \<Longrightarrow> distinct (map fst m)"
  unfolding bt_wf_def by (rule sorted_distinct_strict)

interpretation btree: ordered_map "[]" bt_get bt_insert bt_remove bt_adjust "\<lambda>m. m" bt_wf
proof
  show "bt_wf ([] :: ('a \<times> 'b) list)" by (simp add: bt_wf_def)
  show "sorted_wrt (<) (map fst m)" if "bt_wf m" for m :: "('a \<times> 'b) list"
    using that by (simp add: bt_wf_def)
  show "(k, v) \<in> set m \<longleftrightarrow> bt_get m k = Some v" if "bt_wf m" for m :: "('a \<times> 'b) list" and k v
    using bt_wf_distinct [OF that] by (simp add: bt_get_def)
  show "bt_get ([] :: ('a \<times> 'b) list) k = None" for k
    by (simp add: bt_get_def)
qed (auto simp: bt_wf_insert bt_wf_remove get_insert get_remove get_adjust)

lemma get_Some_values: "bt_get m k = Some v \<Longrightarrow> v \<in> set (bt_values m)"
  unfolding bt_get_def bt_values_def by (force dest: map_of_SomeD)

lemma get_None_keys: "bt_get m k = None \<longleftrightarrow> k \<notin> fst ` set m"
  by (simp add: bt_get_def map_of_eq_None_iff)

lemma get_Some_mem: "bt_get m k = Some v \<Longrightarrow> (k, v) \<in> set m"
  by (simp add: bt_get_def map_of_SomeD)

lemma bt_values_map_values [simp]: "bt_values (bt_map_values f m) = map f (bt_values m)"
  by (simp add: bt_values_def bt_map_values_def)

text \<open>A property of every entry is kept by the updates.\<close>

definition all_entries :: "('k \<Rightarrow> 'v \<Rightarrow> bool) \<Rightarrow> ('k, 'v) btree \<Rightarrow> bool" where
  "all_entries P m \<longleftrightarrow> (\<forall>(k, v) \<in> set m. P k v)"

lemma all_entries_values: "all_entries (\<lambda>_. P) m \<longleftrightarrow> (\<forall>v \<in> set (bt_values m). P v)"
  by (force simp: all_entries_def bt_values_def)

lemma all_entries_get: "all_entries P m \<Longrightarrow> bt_get m k = Some v \<Longrightarrow> P k v"
  by (auto simp: all_entries_def dest: get_Some_mem)

lemma all_entries_insert: "all_entries P m \<Longrightarrow> P k v \<Longrightarrow> all_entries P (bt_insert k v m)"
  unfolding all_entries_def by (induction k v m rule: bt_insert.induct) auto

lemma all_entries_adjust:
  "all_entries P m \<Longrightarrow> (\<And>v. (k, v) \<in> set m \<Longrightarrow> P k v \<Longrightarrow> P k (f v)) \<Longrightarrow> all_entries P (bt_adjust k f m)"
  unfolding all_entries_def bt_adjust_def by (fastforce split: if_splits)

lemma all_entries_map_values:
  "all_entries P m \<Longrightarrow> (\<And>k v. P k v \<Longrightarrow> Q k (f v)) \<Longrightarrow> all_entries Q (bt_map_values f m)"
  unfolding all_entries_def bt_map_values_def by auto

lemma all_entries_mono:
  "all_entries P m \<Longrightarrow> (\<And>k v. (k, v) \<in> set m \<Longrightarrow> P k v \<Longrightarrow> Q k v) \<Longrightarrow> all_entries Q m"
  unfolding all_entries_def by auto

lemma all_entries_remove: "all_entries P m \<Longrightarrow> all_entries P (bt_remove k m)"
  unfolding all_entries_def bt_remove_def by auto

lemma bt_of_list_induct:
  assumes "Q []" and "\<And>k v m. (k, v) \<in> set ps \<Longrightarrow> Q m \<Longrightarrow> Q (bt_insert k v m)"
  shows "Q (bt_of_list ps)"
proof -
  have "Q (foldl (\<lambda>m p. bt_insert (fst p) (snd p) m) m qs)" if "Q m" "set qs \<subseteq> set ps" for m qs
    using that
  proof (induction qs arbitrary: m)
    case (Cons q qs)
    then have "Q (bt_insert (fst q) (snd q) m)" by (intro assms(2)) auto
    with Cons show ?case by simp
  qed simp
  with assms(1) show ?thesis unfolding bt_of_list_def by blast
qed

lemma bt_wf_of_list: "bt_wf (bt_of_list ps)"
  by (rule bt_of_list_induct) (auto simp: bt_wf_insert btree.wf_emp)

lemma all_entries_of_list:
  "(\<And>k v. (k, v) \<in> set ps \<Longrightarrow> P k v) \<Longrightarrow> all_entries P (bt_of_list ps)"
  by (rule bt_of_list_induct) (auto simp: all_entries_insert all_entries_def [of P "[]"])

end
