(* ===== verification/Execution_Profile.thy ===== *)
theory Execution_Profile
  imports Float32 Rust_Map
begin

text \<open>
  The execution profile of a task (\<open>ExecutionProfile\<close> and its parts in
  \<open>crates/domain/src/lib.rs\<close>): runner selection, capacity and scaling policy, model
  route, persona, subagent and local-tool policy, MCP context, notification and result
  channels, executor guardrails, and the sandbox of a task.  Each Rust struct is a
  record whose fields carry a prefix of the struct's initials, each enum a datatype
  whose constructors carry one; \<open>x_default\<close> is the \<open>Default\<close> of \<open>x\<close>.  The predicates
  at the end are the questions the approval gate asks of a profile.
\<close>

section \<open>Workers and runners\<close>

datatype (plugins only: code size) worker_kind =
    WK_Planner
  | WK_Codex
  | WK_ClaudeCode
  | WK_StaffEngineerClaude
  | WK_ModelProvider
  | WK_Research
  | WK_Reviewer
  | WK_Tester
  | WK_FormalMethods
  | WK_Validator
  | WK_PatchMerger
  | WK_RustTool

definition worker_kind_default :: worker_kind where
  "worker_kind_default = WK_Planner"

fun wk_as_str :: "worker_kind \<Rightarrow> string" where
  "wk_as_str WK_Planner = ''planner''"
| "wk_as_str WK_Codex = ''codex''"
| "wk_as_str WK_ClaudeCode = ''claude_code''"
| "wk_as_str WK_StaffEngineerClaude = ''staff_engineer_claude''"
| "wk_as_str WK_ModelProvider = ''model_provider''"
| "wk_as_str WK_Research = ''research''"
| "wk_as_str WK_Reviewer = ''reviewer''"
| "wk_as_str WK_Tester = ''tester''"
| "wk_as_str WK_FormalMethods = ''formal_methods''"
| "wk_as_str WK_Validator = ''validator''"
| "wk_as_str WK_PatchMerger = ''patch_merger''"
| "wk_as_str WK_RustTool = ''rust_tool''"

definition inherits_review_doctrine :: "worker_kind \<Rightarrow> bool" where
  "inherits_review_doctrine x \<longleftrightarrow> x \<in> {WK_Reviewer, WK_Tester, WK_FormalMethods, WK_Validator, WK_PatchMerger}"

definition all_names :: "string list" where
  "all_names = [''planner'', ''codex'', ''claude_code'', ''staff_engineer_claude'', ''model_provider'',
     ''research'', ''reviewer'', ''tester'', ''formal_methods'', ''validator'', ''patch_merger'', ''rust_tool'']"

datatype (plugins only: code size) runner_capability =
    RC_Code
  | RC_Research
  | RC_WebSearch
  | RC_Test
  | RC_Review
  | RC_McpTools
  | RC_DurableChildTasks
  | RC_OidcUserDelegation
  | RC_LocalCommands
  | RC_GitCli
  | RC_DockerCli
  | RC_HelmCli
  | RC_KubernetesCli
  | RC_BuildTooling
  | RC_PackageManagerCli
  | RC_WorkspaceSandbox
  | RC_ContainerSandbox
  | RC_GvisorSandbox
  | RC_FirecrackerSandbox
  | RC_KataSandbox
  | RC_KubernetesJobSandbox
  | RC_NamespaceJailSandbox
  | RC_ProviderSandbox
  | RC_GitWorktree
  | RC_Git
  | RC_ObjectStorage
  | RC_S3Compatible
  | RC_Browser
  | RC_Notifications
  | RC_LocalModels
  | RC_Vllm
  | RC_OpenAiCompatible
  | RC_Gpu
  | RC_EphemeralProvisioning
  | RC_NetworkOpen
  | RC_FormalVerification

fun runner_capability_debug :: "runner_capability \<Rightarrow> string" where
  "runner_capability_debug RC_Code = ''Code''"
| "runner_capability_debug RC_Research = ''Research''"
| "runner_capability_debug RC_WebSearch = ''WebSearch''"
| "runner_capability_debug RC_Test = ''Test''"
| "runner_capability_debug RC_Review = ''Review''"
| "runner_capability_debug RC_McpTools = ''McpTools''"
| "runner_capability_debug RC_DurableChildTasks = ''DurableChildTasks''"
| "runner_capability_debug RC_OidcUserDelegation = ''OidcUserDelegation''"
| "runner_capability_debug RC_LocalCommands = ''LocalCommands''"
| "runner_capability_debug RC_GitCli = ''GitCli''"
| "runner_capability_debug RC_DockerCli = ''DockerCli''"
| "runner_capability_debug RC_HelmCli = ''HelmCli''"
| "runner_capability_debug RC_KubernetesCli = ''KubernetesCli''"
| "runner_capability_debug RC_BuildTooling = ''BuildTooling''"
| "runner_capability_debug RC_PackageManagerCli = ''PackageManagerCli''"
| "runner_capability_debug RC_WorkspaceSandbox = ''WorkspaceSandbox''"
| "runner_capability_debug RC_ContainerSandbox = ''ContainerSandbox''"
| "runner_capability_debug RC_GvisorSandbox = ''GvisorSandbox''"
| "runner_capability_debug RC_FirecrackerSandbox = ''FirecrackerSandbox''"
| "runner_capability_debug RC_KataSandbox = ''KataSandbox''"
| "runner_capability_debug RC_KubernetesJobSandbox = ''KubernetesJobSandbox''"
| "runner_capability_debug RC_NamespaceJailSandbox = ''NamespaceJailSandbox''"
| "runner_capability_debug RC_ProviderSandbox = ''ProviderSandbox''"
| "runner_capability_debug RC_GitWorktree = ''GitWorktree''"
| "runner_capability_debug RC_Git = ''Git''"
| "runner_capability_debug RC_ObjectStorage = ''ObjectStorage''"
| "runner_capability_debug RC_S3Compatible = ''S3Compatible''"
| "runner_capability_debug RC_Browser = ''Browser''"
| "runner_capability_debug RC_Notifications = ''Notifications''"
| "runner_capability_debug RC_LocalModels = ''LocalModels''"
| "runner_capability_debug RC_Vllm = ''Vllm''"
| "runner_capability_debug RC_OpenAiCompatible = ''OpenAiCompatible''"
| "runner_capability_debug RC_Gpu = ''Gpu''"
| "runner_capability_debug RC_EphemeralProvisioning = ''EphemeralProvisioning''"
| "runner_capability_debug RC_NetworkOpen = ''NetworkOpen''"
| "runner_capability_debug RC_FormalVerification = ''FormalVerification''"

definition rc_requires_approval :: "runner_capability \<Rightarrow> bool" where
  "rc_requires_approval x \<longleftrightarrow> x \<in> {RC_NetworkOpen, RC_EphemeralProvisioning, RC_DockerCli, RC_HelmCli, RC_KubernetesCli}"

datatype (plugins only: code size) runner_locality =
    RL_AnyNode
  | RL_SameNode
  | RL_LocalOnly
  | RL_RemoteOnly

record runner_selector =
  rs_worker :: "worker_kind option"
  rs_runner_id :: "string option"
  rs_required_capabilities :: "runner_capability list"
  rs_required_labels :: string_map
  rs_locality :: runner_locality

definition runner_selector_default :: runner_selector where
  "runner_selector_default = (|
     rs_worker = None,
     rs_runner_id = None,
     rs_required_capabilities = [],
     rs_required_labels = [],
     rs_locality = RL_AnyNode |)"

section \<open>Capacity\<close>

datatype (plugins only: code size) capacity_scaling_mode =
    CSM_Manual
  | CSM_RecommendOnly
  | CSM_ProvisionEphemeral

datatype (plugins only: code size) capacity_provisioning_mode =
    CPM_RegisteredRunnersOnly
  | CPM_PreferRegisteredThenEphemeral
  | CPM_EphemeralOnly

datatype (plugins only: code size) capacity_provisioner_backend =
    CPB_KubernetesController
  | CPB_KubernetesApi
  | CPB_ExternalProvisioner
  | CPB_ManualManifest

datatype (plugins only: code size) ephemeral_capacity_kind =
    ECK_RunnerJob
  | ECK_RestateServiceExecutor
  | ECK_SandboxJob

datatype (plugins only: code size) kubernetes_provision_mode =
    KPM_PlanOnly
  | KPM_ServerDryRun
  | KPM_Apply

definition kubernetes_provision_mode_default :: kubernetes_provision_mode where
  "kubernetes_provision_mode_default = KPM_PlanOnly"

record capacity_scaling_policy =
  sp_enabled :: bool
  sp_mode :: capacity_scaling_mode
  sp_min_runners :: nat
  sp_max_runners :: nat
  sp_slots_per_runner :: nat
  sp_target_backlog_per_runner :: nat
  sp_target_utilization_percent :: nat
  sp_headroom_runners :: nat
  sp_max_scale_up_step :: nat
  sp_max_scale_down_step :: nat
  sp_cooldown_seconds :: nat
  sp_scale_from_events :: bool
  sp_event_weight :: nat

definition capacity_scaling_policy_default :: capacity_scaling_policy where
  "capacity_scaling_policy_default = (|
     sp_enabled = False,
     sp_mode = CSM_RecommendOnly,
     sp_min_runners = 0,
     sp_max_runners = 8,
     sp_slots_per_runner = 1,
     sp_target_backlog_per_runner = 2,
     sp_target_utilization_percent = 75,
     sp_headroom_runners = 0,
     sp_max_scale_up_step = 2,
     sp_max_scale_down_step = 1,
     sp_cooldown_seconds = 300,
     sp_scale_from_events = True,
     sp_event_weight = 1 |)"

record capacity_provisioner_policy =
  cpp_backend :: capacity_provisioner_backend
  cpp_controller_ref :: "string option"
  cpp_namespace :: "string option"
  cpp_service_account :: "string option"
  cpp_field_manager :: string
  cpp_allow_manual_manifest_escape_hatch :: bool

definition capacity_provisioner_policy_default :: capacity_provisioner_policy where
  "capacity_provisioner_policy_default = (|
     cpp_backend = CPB_KubernetesController,
     cpp_controller_ref = Some ''coat-kubernetes-provisioner'',
     cpp_namespace = Some ''jattg-ephemeral'',
     cpp_service_account = Some ''jattg-ephemeral-runner'',
     cpp_field_manager = ''coat-kubernetes-provisioner'',
     cpp_allow_manual_manifest_escape_hatch = True |)"

record ephemeral_runner_template_ref =
  ert_name :: string
  ert_kind :: ephemeral_capacity_kind
  ert_required_capabilities :: "runner_capability list"
  ert_labels :: string_map
  ert_config_ref :: "string option"
  ert_active_deadline_seconds :: "nat option"
  ert_ttl_seconds_after_finished :: "nat option"

record capacity_provisioning_policy =
  cp_mode :: capacity_provisioning_mode
  cp_provisioner :: capacity_provisioner_policy
  cp_scaling :: capacity_scaling_policy
  cp_template_refs :: "ephemeral_runner_template_ref list"
  cp_request_timeout_seconds :: nat
  cp_max_pending_provisions :: nat
  cp_require_human_approval :: bool

definition capacity_provisioning_policy_default :: capacity_provisioning_policy where
  "capacity_provisioning_policy_default = (|
     cp_mode = CPM_RegisteredRunnersOnly,
     cp_provisioner = capacity_provisioner_policy_default,
     cp_scaling = capacity_scaling_policy_default,
     cp_template_refs = [],
     cp_request_timeout_seconds = 600,
     cp_max_pending_provisions = 1,
     cp_require_human_approval = True |)"

section \<open>Model routes\<close>

datatype (plugins only: code size) model_routing_strategy =
    MRS_FirstAvailable
  | MRS_LowestLatency
  | MRS_LowestCost
  | MRS_HighestQuality
  | MRS_Weighted
  | MRS_StickyPerGoal

datatype (plugins only: code size) model_fallback_policy =
    MFP_DisallowFallback
  | MFP_AllowFallback
  | MFP_AllowLowerTierLocal

datatype (plugins only: code size) model_latency_class =
    MLC_Fast
  | MLC_Balanced
  | MLC_Deep
  | MLC_Batch

datatype (plugins only: code size) model_reasoning_effort =
    MRE_Minimal
  | MRE_Low
  | MRE_Medium
  | MRE_High
  | MRE_Xhigh

datatype (plugins only: code size) model_provider_kind =
    MPK_Codex
  | MPK_OpenAi
  | MPK_OpenAiCompatible
  | MPK_Bedrock
  | MPK_Vllm
  | MPK_Ollama
  | MPK_LlamaCpp
  | MPK_Anthropic
  | MPK_HuggingFace
  | MPK_LocalProcess
  | MPK_Other

datatype (plugins only: code size) model_feature =
    MF_ToolUse
  | MF_JsonSchema
  | MF_Streaming
  | MF_Vision
  | MF_LongContext
  | MF_Reasoning
  | MF_Embeddings
  | MF_LocalWeights
  | MF_WebSearch

fun mpk_as_str :: "model_provider_kind \<Rightarrow> string" where
  "mpk_as_str MPK_Codex = ''codex''"
| "mpk_as_str MPK_OpenAi = ''open_ai''"
| "mpk_as_str MPK_OpenAiCompatible = ''open_ai_compatible''"
| "mpk_as_str MPK_Bedrock = ''bedrock''"
| "mpk_as_str MPK_Vllm = ''vllm''"
| "mpk_as_str MPK_Ollama = ''ollama''"
| "mpk_as_str MPK_LlamaCpp = ''llama_cpp''"
| "mpk_as_str MPK_Anthropic = ''anthropic''"
| "mpk_as_str MPK_HuggingFace = ''hugging_face''"
| "mpk_as_str MPK_LocalProcess = ''local_process''"
| "mpk_as_str MPK_Other = ''other''"

definition is_local_provider :: "model_provider_kind \<Rightarrow> bool" where
  "is_local_provider x \<longleftrightarrow> x \<in> {MPK_Vllm, MPK_Ollama, MPK_LlamaCpp, MPK_LocalProcess}"

fun latency_score :: "model_latency_class \<Rightarrow> int" where
  "latency_score MLC_Fast = 50"
| "latency_score MLC_Balanced = 500"
| "latency_score MLC_Deep = 2000"
| "latency_score MLC_Batch = 10000"

record model_runtime_parameters =
  mrp_latency_class :: "model_latency_class option"
  mrp_speed_tier :: "string option"
  mrp_temperature_milli :: "nat option"
  mrp_top_p_milli :: "nat option"
  mrp_max_output_tokens :: "nat option"
  mrp_reasoning_effort :: "model_reasoning_effort option"
  mrp_timeout_seconds :: "nat option"
  mrp_extra :: string_map

record model_candidate =
  mc_provider :: model_provider_kind
  mc_model :: string
  mc_endpoint :: "string option"
  mc_priority :: nat
  mc_weight :: nat
  mc_context_window :: "nat option"
  mc_features :: "model_feature list"
  mc_params :: model_runtime_parameters
  mc_labels :: string_map

record model_route =
  mr_strategy :: model_routing_strategy
  mr_required_features :: "model_feature list"
  mr_candidates :: "model_candidate list"
  mr_fallback :: model_fallback_policy

definition model_runtime_parameters_default :: model_runtime_parameters where
  "model_runtime_parameters_default = (|
     mrp_latency_class = None, mrp_speed_tier = None, mrp_temperature_milli = None,
     mrp_top_p_milli = None, mrp_max_output_tokens = None, mrp_reasoning_effort = None,
     mrp_timeout_seconds = None, mrp_extra = [] |)"

definition model_route_default :: model_route where
  "model_route_default = (|
     mr_strategy = MRS_FirstAvailable,
     mr_required_features = [MF_ToolUse, MF_JsonSchema],
     mr_candidates = [(| mc_provider = MPK_Codex, mc_model = ''codex-default'', mc_endpoint = None, mc_priority = 100, mc_weight = 1, mc_context_window = None, mc_features = [MF_ToolUse, MF_JsonSchema], mc_params = model_runtime_parameters_default, mc_labels = [] |)],
     mr_fallback = MFP_AllowFallback |)"

section \<open>Persona, subagents, local tools\<close>

datatype (plugins only: code size) risk_tolerance =
    RT_Conservative
  | RT_Balanced
  | RT_Aggressive

record persona_spec =
  ps_name :: string
  ps_instructions_ref :: "string option"
  ps_inline_instructions :: "string list"
  ps_risk_tolerance :: risk_tolerance

definition persona_spec_default :: persona_spec where
  "persona_spec_default = (|
     ps_name = ''default'',
     ps_instructions_ref = None,
     ps_inline_instructions = [],
     ps_risk_tolerance = RT_Conservative |)"

datatype (plugins only: code size) subagent_delegation_mode =
    SDM_CoordinatorDurableTasks
  | SDM_Disabled

datatype (plugins only: code size) native_subagent_spawn_policy =
    NSS_Disabled
  | NSS_RequiresApproval
  | NSS_Allowed

datatype (plugins only: code size) child_task_request_channel =
    CRC_AgentRunResultChildRequests

record subagent_delegation_policy =
  sd_mode :: subagent_delegation_mode
  sd_native_spawn :: native_subagent_spawn_policy
  sd_child_request_channel :: child_task_request_channel
  sd_inject_runner_context :: bool

definition subagent_delegation_policy_default :: subagent_delegation_policy where
  "subagent_delegation_policy_default = (|
     sd_mode = SDM_CoordinatorDurableTasks,
     sd_native_spawn = NSS_Disabled,
     sd_child_request_channel = CRC_AgentRunResultChildRequests,
     sd_inject_runner_context = True |)"

datatype (plugins only: code size) approval_risk =
    AR_Low
  | AR_Medium
  | AR_High
  | AR_Critical

datatype (plugins only: code size) local_tool_category =
    LTC_VersionControl
  | LTC_ContainerRuntime
  | LTC_Kubernetes
  | LTC_Helm
  | LTC_PackageManager
  | LTC_BuildTool
  | LTC_TestRunner
  | LTC_FormalMethods
  | LTC_Shell
  | LTC_System
  | LTC_Other

datatype (plugins only: code size) local_tool_risk =
    LTR_Low
  | LTR_Medium
  | LTR_High
  | LTR_Critical

datatype (plugins only: code size) local_tool_approval_mode =
    LTA_Inherit
  | LTA_RiskBased
  | LTA_Always
  | LTA_Never

record local_tool_permission =
  ltp_binary :: string
  ltp_category :: local_tool_category
  ltp_risk :: local_tool_risk
  ltp_allowed_subcommands :: "string list"
  ltp_denied_args :: "string list"
  ltp_requires_network :: bool
  ltp_requires_docker_socket :: bool
  ltp_requires_cluster_access :: bool
  ltp_required_capabilities :: "runner_capability list"
  ltp_required_labels :: string_map
  ltp_timeout_seconds :: "nat option"

record local_tool_policy =
  lt_enabled :: bool
  lt_allowed_tools :: "local_tool_permission list"
  lt_denied_binaries :: "string list"
  lt_require_sandbox_runner :: bool
  lt_require_workspace :: bool
  lt_require_command_evidence :: bool
  lt_approval :: local_tool_approval_mode
  lt_default_timeout_seconds :: nat
  lt_max_output_bytes :: nat

definition local_tool_policy_default :: local_tool_policy where
  "local_tool_policy_default = (|
     lt_enabled = False,
     lt_allowed_tools = [],
     lt_denied_binaries = [],
     lt_require_sandbox_runner = True,
     lt_require_workspace = True,
     lt_require_command_evidence = True,
     lt_approval = LTA_RiskBased,
     lt_default_timeout_seconds = 600,
     lt_max_output_bytes = 65536 |)"

section \<open>MCP context and credentials\<close>

datatype (plugins only: code size) mcp_access_mode =
    MAM_SingleUser
  | MAM_MultiUserOidc

datatype (plugins only: code size) mcp_context_propagation =
    MCP_CoordinatorIssued
  | MCP_RunnerResolvesRefs
  | MCP_WorkloadIdentity
  | MCP_RunnerLocalOnly
  | MCP_OAuthDeviceBroker
  | MCP_ExternalBroker

datatype (plugins only: code size) auth_distribution_mode =
    ADM_RunnerLocalOnly
  | ADM_RunnerResolvesRefs
  | ADM_CoordinatorIssuesLease
  | ADM_WorkloadIdentity
  | ADM_OAuthDeviceBroker
  | ADM_ExternalBroker

datatype (plugins only: code size) auth_material_kind =
    AMK_ApiToken
  | AMK_McpBearerToken
  | AMK_OAuthAccessToken
  | AMK_OAuthRefreshToken
  | AMK_OidcIdToken
  | AMK_OidcAccessToken
  | AMK_OidcRefreshToken
  | AMK_OidcOnBehalfOfToken
  | AMK_DeviceAuthSession
  | AMK_WorkloadIdentityToken
  | AMK_LocalCliSession
  | AMK_ServiceAccount
  | AMK_Other

datatype (plugins only: code size) auth_renewal_policy =
    ARP_None
  | ARP_ManualOrBrokered
  | ARP_BrokerCanRefresh
  | ARP_RunnerCanRefresh

datatype (plugins only: code size) mcp_transport =
    MT_Stdio
  | MT_Http
  | MT_Sse

datatype (plugins only: code size) device_auth_provider =
    DAP_Codex
  | DAP_ClaudeCode
  | DAP_OpenAi
  | DAP_Anthropic
  | DAP_Github
  | DAP_Google
  | DAP_Other

datatype (plugins only: code size) secret_provider =
    SP_Env
  | SP_KubernetesSecret
  | SP_Vault
  | SP_AwsSecretsManager
  | SP_GcpSecretManager
  | SP_AzureKeyVault
  | SP_OnePassword
  | SP_Bitwarden
  | SP_Doppler
  | SP_Sops
  | SP_ExternalBroker
  | SP_LocalFile

record secret_ref =
  sr_provider :: secret_provider
  sr_name :: string
  sr_key :: "string option"
  sr_namespace :: "string option"
  sr_audience :: "string option"

record user_principal_ref =
  up_user_id :: string
  up_issuer :: string
  up_subject :: string
  up_tenant_id :: "string option"
  up_email_hint :: "string option"
  up_groups :: "string list"
  up_session_id :: "string option"
  up_consent_ref :: "string option"

record oidc_delegation_policy =
  od_issuer :: string
  od_client_id :: string
  od_audiences :: "string list"
  od_requested_scopes :: "string list"
  od_token_broker :: secret_ref
  od_token_cache_ref :: "secret_ref option"
  od_lease_ttl_seconds :: "nat option"
  od_require_user_consent :: bool
  od_required_runner_labels :: string_map
  od_allowed_mcp_servers :: "string list"
  od_pass_id_token_to_mcp :: bool

record auth_distribution_policy =
  ad_mode :: auth_distribution_mode
  ad_allowed_materials :: "auth_material_kind list"
  ad_required_runner_labels :: string_map
  ad_lease_ttl_seconds :: "nat option"
  ad_renewal :: auth_renewal_policy
  ad_allow_node_local_device_session :: bool
  ad_allow_secret_sync :: bool
  ad_require_human_approval_for_brokered_user_auth :: bool

definition auth_distribution_policy_default :: auth_distribution_policy where
  "auth_distribution_policy_default = (|
     ad_mode = ADM_RunnerResolvesRefs,
     ad_allowed_materials = [AMK_ApiToken, AMK_McpBearerToken, AMK_OAuthAccessToken, AMK_OAuthRefreshToken, AMK_WorkloadIdentityToken],
     ad_required_runner_labels = [],
     ad_lease_ttl_seconds = Some 900,
     ad_renewal = ARP_ManualOrBrokered,
     ad_allow_node_local_device_session = True,
     ad_allow_secret_sync = False,
     ad_require_human_approval_for_brokered_user_auth = True |)"

datatype (plugins only: code size) mcp_auth_ref =
    MAR_None
  | MAR_Secret secret_ref
  | MAR_WorkloadIdentity string
  | MAR_OAuthDelegation secret_ref
  | MAR_OidcDelegation secret_ref string string "string list" "user_principal_ref option" "nat option" bool
  | MAR_DeviceAuthSession secret_ref "secret_ref option" device_auth_provider bool
  | MAR_BrokeredUserSession secret_ref device_auth_provider "string list"

record mcp_server_ref =
  ms_name :: string
  ms_transport :: mcp_transport
  ms_uri :: string
  ms_allowed_tools :: "string list"
  ms_auth :: mcp_auth_ref

record mcp_context_ref =
  mcp_context_id :: "string option"
  mcp_access_mode :: mcp_access_mode
  mcp_user :: "user_principal_ref option"
  mcp_oidc_delegation :: "oidc_delegation_policy option"
  mcp_servers :: "mcp_server_ref list"
  mcp_secret_refs :: "secret_ref list"
  mcp_propagation :: mcp_context_propagation
  mcp_token_ttl_seconds :: "nat option"
  mcp_auth_distribution :: auth_distribution_policy

definition mcp_context_ref_default :: mcp_context_ref where
  "mcp_context_ref_default = (|
     mcp_context_id = None,
     mcp_access_mode = MAM_SingleUser,
     mcp_user = None,
     mcp_oidc_delegation = None,
     mcp_servers = [],
     mcp_secret_refs = [],
     mcp_propagation = MCP_CoordinatorIssued,
     mcp_token_ttl_seconds = Some 900,
     mcp_auth_distribution = auth_distribution_policy_default |)"

section \<open>Notifications, results, guardrails\<close>

datatype (plugins only: code size) notification_target_kind =
    NTK_Thread
  | NTK_Dashboard
  | NTK_Webhook
  | NTK_Slack
  | NTK_Email
  | NTK_Sqs
  | NTK_GitHub
  | NTK_Linear
  | NTK_Jira
  | NTK_PagerDuty
  | NTK_Other

datatype (plugins only: code size) notification_event =
    NE_HumanFeedbackRequested
  | NE_ApprovalRequested
  | NE_TaskBlocked
  | NE_TaskFailed
  | NE_GoalCompleted
  | NE_BudgetWarning
  | NE_RunnerLost

record notification_target =
  nt_kind :: notification_target_kind
  nt_address :: string
  nt_secret_ref :: "secret_ref option"
  nt_require_ack :: bool

record notification_policy =
  np_events :: "notification_event list"
  np_targets :: "notification_target list"
  np_feedback_thread_key :: "string option"
  np_escalation_seconds :: "nat option"

definition notification_policy_default :: notification_policy where
  "notification_policy_default = (|
     np_events = [NE_ApprovalRequested, NE_HumanFeedbackRequested, NE_TaskBlocked],
     np_targets = [],
     np_feedback_thread_key = None,
     np_escalation_seconds = Some 3600 |)"

datatype (plugins only: code size) checkpoint_mode =
    CM_Disabled
  | CM_OnResult
  | CM_Periodic
  | CM_ManualOnly

datatype (plugins only: code size) object_store_kind =
    OSK_AwsS3
  | OSK_S3Compatible
  | OSK_Minio
  | OSK_CloudflareR2
  | OSK_GcsS3
  | OSK_Other

record git_result_policy =
  gp_enabled :: bool
  gp_remote :: "string option"
  gp_base_ref :: "string option"
  gp_branch_prefix :: string
  gp_worktree_root :: "string option"
  gp_push_on_success :: bool
  gp_require_clean_diff :: bool
  gp_include_patch_artifact :: bool

definition git_result_policy_default :: git_result_policy where
  "git_result_policy_default = (|
     gp_enabled = False,
     gp_remote = Some ''origin'',
     gp_base_ref = Some ''HEAD'',
     gp_branch_prefix = ''jattg/task'',
     gp_worktree_root = Some ''/worktrees'',
     gp_push_on_success = False,
     gp_require_clean_diff = True,
     gp_include_patch_artifact = True |)"

record checkpoint_policy =
  ckp_enabled :: bool
  ckp_mode :: checkpoint_mode
  ckp_git_checkpoint_on_result :: bool
  ckp_workspace_snapshot_on_result :: bool
  ckp_object_checkpoint_on_result :: bool
  ckp_require_for_code_changes :: bool
  ckp_branch_prefix :: string
  ckp_tag_prefix :: string

definition checkpoint_policy_default :: checkpoint_policy where
  "checkpoint_policy_default = (|
     ckp_enabled = True,
     ckp_mode = CM_OnResult,
     ckp_git_checkpoint_on_result = True,
     ckp_workspace_snapshot_on_result = True,
     ckp_object_checkpoint_on_result = True,
     ckp_require_for_code_changes = False,
     ckp_branch_prefix = ''jattg/checkpoint'',
     ckp_tag_prefix = ''jattg-checkpoint'' |)"

record object_store_ref =
  osr_kind :: object_store_kind
  osr_bucket :: string
  osr_prefix :: "string option"
  osr_endpoint :: "string option"
  osr_region :: "string option"
  osr_force_path_style :: bool
  osr_secret_ref :: "secret_ref option"

record object_storage_policy =
  osp_enabled :: bool
  osp_store :: "object_store_ref option"
  osp_key_prefix_template :: string
  osp_require_manifest :: bool
  osp_max_inline_bytes :: nat

definition object_storage_policy_default :: object_storage_policy where
  "object_storage_policy_default = (|
     osp_enabled = False,
     osp_store = None,
     osp_key_prefix_template = ''goals/{goal_id}/tasks/{task_id}'',
     osp_require_manifest = True,
     osp_max_inline_bytes = 262144 |)"

record result_channel_policy =
  rcp_git :: git_result_policy
  rcp_object_storage :: object_storage_policy
  rcp_checkpoints :: checkpoint_policy

definition result_channel_policy_default :: result_channel_policy where
  "result_channel_policy_default = (| rcp_git = git_result_policy_default,
     rcp_object_storage = object_storage_policy_default,
     rcp_checkpoints = checkpoint_policy_default |)"

record executor_guardrail_policy =
  eg_enabled :: bool
  eg_require_output_review :: bool
  eg_require_security_review :: bool
  eg_output_reviewer_role :: worker_kind
  eg_security_reviewer_role :: worker_kind
  eg_block_on_high_findings :: bool
  eg_require_artifact_manifest :: bool
  eg_require_sandbox_attestation :: bool
  eg_require_strong_sandbox_attestation :: bool
  eg_redact_secrets :: bool
  eg_max_inline_output_bytes :: nat

definition executor_guardrail_policy_default :: executor_guardrail_policy where
  "executor_guardrail_policy_default = (|
     eg_enabled = False,
     eg_require_output_review = False,
     eg_require_security_review = False,
     eg_output_reviewer_role = WK_Reviewer,
     eg_security_reviewer_role = WK_Validator,
     eg_block_on_high_findings = True,
     eg_require_artifact_manifest = False,
     eg_require_sandbox_attestation = False,
     eg_require_strong_sandbox_attestation = False,
     eg_redact_secrets = True,
     eg_max_inline_output_bytes = 65536 |)"

record execution_profile =
  ep_runner :: runner_selector
  ep_capacity :: capacity_provisioning_policy
  ep_model :: model_route
  ep_persona :: persona_spec
  ep_subagents :: subagent_delegation_policy
  ep_local_tools :: local_tool_policy
  ep_mcp :: mcp_context_ref
  ep_notifications :: notification_policy
  ep_results :: result_channel_policy
  ep_guardrails :: executor_guardrail_policy

definition execution_profile_default :: execution_profile where
  "execution_profile_default = (|
     ep_runner = runner_selector_default,
     ep_capacity = capacity_provisioning_policy_default,
     ep_model = model_route_default,
     ep_persona = persona_spec_default,
     ep_subagents = subagent_delegation_policy_default,
     ep_local_tools = local_tool_policy_default,
     ep_mcp = mcp_context_ref_default,
     ep_notifications = notification_policy_default,
     ep_results = result_channel_policy_default,
     ep_guardrails = executor_guardrail_policy_default |)"

section \<open>Sandbox\<close>

datatype (plugins only: code size) filesystem_access =
    FA_ReadOnly
  | FA_WorkspaceWrite

datatype (plugins only: code size) network_access =
    NA_Disabled
  | NA_Restricted
  | NA_Open

datatype (plugins only: code size) approval_policy =
    AP_Never
  | AP_OnRequest
  | AP_Always

datatype (plugins only: code size) sandbox_backend =
    SB_LocalWorkspace
  | SB_Container
  | SB_Gvisor
  | SB_Firecracker
  | SB_Kata
  | SB_KubernetesJob
  | SB_NamespaceJail
  | SB_ProviderSandbox

datatype (plugins only: code size) sandbox_snapshot_strategy =
    SSS_MetadataOnly
  | SSS_FilesystemManifest
  | SSS_Archive
  | SSS_ObjectStorageArchive

definition sandbox_backend_default :: sandbox_backend where
  "sandbox_backend_default = SB_LocalWorkspace"

definition sandbox_snapshot_strategy_default :: sandbox_snapshot_strategy where
  "sandbox_snapshot_strategy_default = SSS_FilesystemManifest"

fun sb_as_str :: "sandbox_backend \<Rightarrow> string" where
  "sb_as_str SB_LocalWorkspace = ''local_workspace''"
| "sb_as_str SB_Container = ''container''"
| "sb_as_str SB_Gvisor = ''gvisor''"
| "sb_as_str SB_Firecracker = ''firecracker''"
| "sb_as_str SB_Kata = ''kata''"
| "sb_as_str SB_KubernetesJob = ''kubernetes_job''"
| "sb_as_str SB_NamespaceJail = ''namespace_jail''"
| "sb_as_str SB_ProviderSandbox = ''provider_sandbox''"

fun required_runner_capability :: "sandbox_backend \<Rightarrow> runner_capability" where
  "required_runner_capability SB_LocalWorkspace = RC_WorkspaceSandbox"
| "required_runner_capability SB_Container = RC_ContainerSandbox"
| "required_runner_capability SB_Gvisor = RC_GvisorSandbox"
| "required_runner_capability SB_Firecracker = RC_FirecrackerSandbox"
| "required_runner_capability SB_Kata = RC_KataSandbox"
| "required_runner_capability SB_KubernetesJob = RC_KubernetesJobSandbox"
| "required_runner_capability SB_NamespaceJail = RC_NamespaceJailSandbox"
| "required_runner_capability SB_ProviderSandbox = RC_ProviderSandbox"

record sandbox_isolation_profile =
  iso_backend :: sandbox_backend
  iso_enforce :: bool
  iso_runtime_class :: "string option"
  iso_image :: "string option"
  iso_seccomp_profile :: "string option"
  iso_apparmor_profile :: "string option"
  iso_drop_capabilities :: "string list"
  iso_read_only_rootfs :: bool
  iso_no_new_privileges :: bool
  iso_cpu_limit_millis :: "nat option"
  iso_memory_limit_mb :: "nat option"
  iso_pids_limit :: "nat option"
  iso_egress_policy_ref :: "string option"
  iso_ingress_policy_ref :: "string option"
  iso_network_policy_labels :: string_map
  iso_snapshot_strategy :: sandbox_snapshot_strategy

definition sandbox_isolation_profile_default :: sandbox_isolation_profile where
  "sandbox_isolation_profile_default = (|
     iso_backend = SB_LocalWorkspace,
     iso_enforce = False,
     iso_runtime_class = None,
     iso_image = None,
     iso_seccomp_profile = None,
     iso_apparmor_profile = None,
     iso_drop_capabilities = [],
     iso_read_only_rootfs = False,
     iso_no_new_privileges = True,
     iso_cpu_limit_millis = None,
     iso_memory_limit_mb = None,
     iso_pids_limit = None,
     iso_egress_policy_ref = None,
     iso_ingress_policy_ref = None,
     iso_network_policy_labels = [],
     iso_snapshot_strategy = SSS_FilesystemManifest |)"

record sandbox_profile =
  sbx_filesystem :: filesystem_access
  sbx_network :: network_access
  sbx_approval_policy :: approval_policy
  sbx_isolated_runner :: bool
  sbx_isolation :: sandbox_isolation_profile

definition sandbox_profile_default :: sandbox_profile where
  "sandbox_profile_default = (|
     sbx_filesystem = FA_WorkspaceWrite,
     sbx_network = NA_Restricted,
     sbx_approval_policy = AP_OnRequest,
     sbx_isolated_runner = True,
     sbx_isolation = sandbox_isolation_profile_default |)"

section \<open>Questions about a profile\<close>

definition with_default_name_for_role :: "worker_kind \<Rightarrow> persona_spec \<Rightarrow> persona_spec" where
  "with_default_name_for_role role p =
     (if ps_name p = ''default'' \<or> ps_name p \<in> set all_names
      then p (| ps_name := wk_as_str role |) else p)"

definition with_role :: "worker_kind \<Rightarrow> execution_profile \<Rightarrow> execution_profile" where
  "with_role role e =
     e (| ep_runner := ep_runner e (| rs_worker := Some role |),
          ep_persona := with_default_name_for_role role (ep_persona e) |)"

text \<open>\<open>dangerous_tool_name\<close> and \<open>approval_sensitive_label\<close>: a needle in the lower-cased text.\<close>

definition dangerous_tool_name :: "string \<Rightarrow> bool" where
  "dangerous_tool_name tool \<longleftrightarrow>
     (\<exists>needle \<in> set [''add'', ''apply'', ''approve'', ''create'', ''delete'', ''deploy'', ''exec'',
        ''merge'', ''publish'', ''push'', ''run'', ''shell'', ''update'', ''write''].
        contains (to_ascii_lowercase tool) needle)"

definition approval_sensitive_label :: "string \<Rightarrow> bool" where
  "approval_sensitive_label v \<longleftrightarrow>
     (\<exists>needle \<in> set [''danger'', ''deploy'', ''host'', ''privileged'', ''production'', ''root'',
        ''unrestricted'']. contains (to_ascii_lowercase v) needle)"

definition requires_privileged_capability :: "runner_selector \<Rightarrow> bool" where
  "requires_privileged_capability r \<longleftrightarrow>
     (\<exists>c \<in> set (rs_required_capabilities r). rc_requires_approval c) \<or>
     (\<exists>(k, v) \<in> set (rs_required_labels r). approval_sensitive_label k \<or> approval_sensitive_label v)"

definition requires_ephemeral_provisioning_approval :: "capacity_provisioning_policy \<Rightarrow> bool" where
  "requires_ephemeral_provisioning_approval c \<longleftrightarrow>
     cp_require_human_approval c \<and>
     cp_mode c \<in> {CPM_PreferRegisteredThenEphemeral, CPM_EphemeralOnly}"

definition native_spawn_requires_approval :: "subagent_delegation_policy \<Rightarrow> bool" where
  "native_spawn_requires_approval d \<longleftrightarrow> sd_native_spawn d \<in> {NSS_RequiresApproval, NSS_Allowed}"

text \<open>Credentials.\<close>

fun auth_requires_secret_access :: "mcp_auth_ref \<Rightarrow> bool" where
  "auth_requires_secret_access (MAR_Secret _) = True"
| "auth_requires_secret_access (MAR_OAuthDelegation _) = True"
| "auth_requires_secret_access (MAR_OidcDelegation _ _ _ _ _ _ _) = True"
| "auth_requires_secret_access (MAR_DeviceAuthSession _ _ _ _) = True"
| "auth_requires_secret_access (MAR_BrokeredUserSession _ _ _) = True"
| "auth_requires_secret_access _ = False"

fun auth_requires_brokered_user_auth :: "mcp_auth_ref \<Rightarrow> bool" where
  "auth_requires_brokered_user_auth (MAR_BrokeredUserSession _ _ _) = True"
| "auth_requires_brokered_user_auth (MAR_OidcDelegation _ _ _ _ _ _ require_user_consent) =
     require_user_consent"
| "auth_requires_brokered_user_auth (MAR_DeviceAuthSession _ _ _ node_local) = (\<not> node_local)"
| "auth_requires_brokered_user_auth _ = False"

definition is_user_delegated :: "auth_material_kind \<Rightarrow> bool" where
  "is_user_delegated m \<longleftrightarrow>
     m \<in> {AMK_OAuthAccessToken, AMK_OAuthRefreshToken, AMK_OidcIdToken, AMK_OidcAccessToken,
          AMK_OidcRefreshToken, AMK_OidcOnBehalfOfToken, AMK_DeviceAuthSession, AMK_LocalCliSession}"

definition requires_brokered_user_approval :: "auth_distribution_policy \<Rightarrow> bool" where
  "requires_brokered_user_approval a \<longleftrightarrow>
     ad_require_human_approval_for_brokered_user_auth a \<and>
     (case ad_mode a of
        ADM_OAuthDeviceBroker \<Rightarrow> True
      | ADM_ExternalBroker \<Rightarrow> True
      | ADM_CoordinatorIssuesLease \<Rightarrow> (\<exists>m \<in> set (ad_allowed_materials a). is_user_delegated m)
      | _ \<Rightarrow> False)"

definition uses_multi_user_oidc :: "mcp_context_ref \<Rightarrow> bool" where
  "uses_multi_user_oidc m \<longleftrightarrow>
     mcp_access_mode m = MAM_MultiUserOidc \<or> mcp_oidc_delegation m \<noteq> None"

definition requires_user_delegation_approval :: "mcp_context_ref \<Rightarrow> bool" where
  "requires_user_delegation_approval m \<longleftrightarrow>
     (case mcp_oidc_delegation m of Some p \<Rightarrow> od_require_user_consent p | None \<Rightarrow> False) \<or>
     (\<exists>s \<in> set (mcp_servers m).
        case ms_auth s of MAR_OidcDelegation _ _ _ _ _ _ consent \<Rightarrow> consent | _ \<Rightarrow> False)"

definition oidc_required_runner_labels :: "mcp_context_ref \<Rightarrow> string_map" where
  "oidc_required_runner_labels m =
     (let labels = (if uses_multi_user_oidc m
                    then bt_insert ''auth.oidc.user_delegation'' ''true'' [] else [])
      in case mcp_oidc_delegation m of
           None \<Rightarrow> labels
         | Some p \<Rightarrow> foldl (\<lambda>l (k, v). bt_insert k v l) labels (od_required_runner_labels p))"

definition requires_secret_access :: "execution_profile \<Rightarrow> bool" where
  "requires_secret_access e \<longleftrightarrow>
     mcp_secret_refs (ep_mcp e) \<noteq> [] \<or>
     (\<exists>s \<in> set (mcp_servers (ep_mcp e)). auth_requires_secret_access (ms_auth s)) \<or>
     (\<exists>t \<in> set (np_targets (ep_notifications e)). nt_secret_ref t \<noteq> None)"

definition requires_brokered_user_auth :: "execution_profile \<Rightarrow> bool" where
  "requires_brokered_user_auth e \<longleftrightarrow>
     requires_user_delegation_approval (ep_mcp e) \<or>
     requires_brokered_user_approval (mcp_auth_distribution (ep_mcp e)) \<or>
     (\<exists>s \<in> set (mcp_servers (ep_mcp e)). auth_requires_brokered_user_auth (ms_auth s))"

definition mcp_uses_dangerous_tools :: "execution_profile \<Rightarrow> bool" where
  "mcp_uses_dangerous_tools e \<longleftrightarrow>
     (\<exists>s \<in> set (mcp_servers (ep_mcp e)). \<exists>t \<in> set (ms_allowed_tools s). dangerous_tool_name t)"

section \<open>Risk of local tools\<close>

definition approval_risk_rank :: "approval_risk \<Rightarrow> nat" where
  "approval_risk_rank r = (case r of AR_Low \<Rightarrow> 0 | AR_Medium \<Rightarrow> 1 | AR_High \<Rightarrow> 2 | AR_Critical \<Rightarrow> 3)"

lemma approval_risk_rank_inject: "approval_risk_rank x = approval_risk_rank y \<longleftrightarrow> x = y"
  by (cases x; cases y) (simp_all add: approval_risk_rank_def)

text \<open>The derived order of \<open>ApprovalRisk\<close>.\<close>

instantiation approval_risk :: linorder
begin

definition less_eq_approval_risk :: "approval_risk \<Rightarrow> approval_risk \<Rightarrow> bool" where
  "less_eq_approval_risk x y \<longleftrightarrow> approval_risk_rank x \<le> approval_risk_rank y"

definition less_approval_risk :: "approval_risk \<Rightarrow> approval_risk \<Rightarrow> bool" where
  "less_approval_risk x y \<longleftrightarrow> approval_risk_rank x < approval_risk_rank y"

instance
  by standard (auto simp: less_eq_approval_risk_def less_approval_risk_def
      approval_risk_rank_inject [symmetric])

end

lemma approval_risk_bounds [simp]: "AR_Low \<le> r" "r \<le> AR_Critical"
  by (cases r; simp add: less_eq_approval_risk_def approval_risk_rank_def)+

definition ltr_approval_risk :: "local_tool_risk \<Rightarrow> approval_risk" where
  "ltr_approval_risk r = (case r of LTR_Low \<Rightarrow> AR_Low | LTR_Medium \<Rightarrow> AR_Medium
     | LTR_High \<Rightarrow> AR_High | LTR_Critical \<Rightarrow> AR_Critical)"

definition permission_approval_risk :: "local_tool_permission \<Rightarrow> approval_risk" where
  "permission_approval_risk p =
     (let risk = ltr_approval_risk (ltp_risk p);
          risk = (if ltp_requires_cluster_access p \<or> ltp_requires_docker_socket p
                  then max risk AR_High else risk)
      in if ltp_requires_network p then max risk AR_Medium else risk)"

definition local_tools_active :: "local_tool_policy \<Rightarrow> bool" where
  "local_tools_active l \<longleftrightarrow> lt_enabled l \<or> lt_allowed_tools l \<noteq> []"

definition local_tools_approval_risk :: "local_tool_policy \<Rightarrow> approval_risk option" where
  "local_tools_approval_risk l =
     (if \<not> local_tools_active l \<or> lt_approval l = LTA_Never then None
      else let declared = (case map permission_approval_risk (lt_allowed_tools l) of
                             [] \<Rightarrow> AR_Medium | r # rs \<Rightarrow> foldl max r rs)
           in case lt_approval l of
                LTA_Never \<Rightarrow> None
              | LTA_Always \<Rightarrow> Some (max declared AR_Medium)
              | LTA_Inherit \<Rightarrow> Some (max declared AR_Medium)
              | LTA_RiskBased \<Rightarrow> (if AR_High \<le> declared then Some declared else None))"

fun default_runner_capability :: "local_tool_category \<Rightarrow> runner_capability option" where
  "default_runner_capability LTC_VersionControl = Some RC_GitCli"
| "default_runner_capability LTC_ContainerRuntime = Some RC_DockerCli"
| "default_runner_capability LTC_Kubernetes = Some RC_KubernetesCli"
| "default_runner_capability LTC_Helm = Some RC_HelmCli"
| "default_runner_capability LTC_PackageManager = Some RC_PackageManagerCli"
| "default_runner_capability LTC_BuildTool = Some RC_BuildTooling"
| "default_runner_capability LTC_TestRunner = Some RC_BuildTooling"
| "default_runner_capability LTC_FormalMethods = Some RC_FormalVerification"
| "default_runner_capability _ = None"

definition push_unique_capability :: "runner_capability list \<Rightarrow> runner_capability \<Rightarrow> runner_capability list" where
  "push_unique_capability cs c = (if c \<in> set cs then cs else cs @ [c])"

definition tool_runner_capabilities :: "local_tool_policy \<Rightarrow> runner_capability list" where
  "tool_runner_capabilities l =
     (if \<not> local_tools_active l then []
      else foldl (\<lambda>cs tool.
             foldl push_unique_capability
               (case default_runner_capability (ltp_category tool) of
                  Some c \<Rightarrow> push_unique_capability cs c | None \<Rightarrow> cs)
               (ltp_required_capabilities tool))
           [RC_LocalCommands] (lt_allowed_tools l))"

section \<open>Isolation of the sandbox\<close>

definition strong_runtime_class_name :: "string \<Rightarrow> bool" where
  "strong_runtime_class_name name \<longleftrightarrow>
     (let n = to_ascii_lowercase name
      in contains n ''gvisor'' \<or> contains n ''runsc'' \<or> contains n ''kata'' \<or> contains n ''firecracker'')"

definition runtime_class_capability :: "string \<Rightarrow> runner_capability option" where
  "runtime_class_capability name =
     (let n = to_ascii_lowercase name
      in if contains n ''gvisor'' \<or> contains n ''runsc'' then Some RC_GvisorSandbox
         else if contains n ''firecracker'' then Some RC_FirecrackerSandbox
         else if contains n ''kata'' then Some RC_KataSandbox
         else None)"

definition strong_boundary :: "sandbox_isolation_profile \<Rightarrow> bool" where
  "strong_boundary i \<longleftrightarrow>
     iso_enforce i \<and>
     (case iso_backend i of
        SB_Gvisor \<Rightarrow> True | SB_Kata \<Rightarrow> True | SB_Firecracker \<Rightarrow> True | SB_ProviderSandbox \<Rightarrow> True
      | SB_KubernetesJob \<Rightarrow>
          (case iso_runtime_class i of Some c \<Rightarrow> strong_runtime_class_name c | None \<Rightarrow> False)
      | _ \<Rightarrow> False)"

definition strongly_isolated :: "sandbox_profile \<Rightarrow> bool" where
  "strongly_isolated s \<longleftrightarrow> sbx_isolated_runner s \<and> strong_boundary (sbx_isolation s)"

definition required_runner_capabilities :: "sandbox_profile \<Rightarrow> runner_capability list" where
  "required_runner_capabilities s =
     (let caps = [required_runner_capability (iso_backend (sbx_isolation s))]
      in case iso_runtime_class (sbx_isolation s) of
           None \<Rightarrow> caps
         | Some rc \<Rightarrow>
             (case runtime_class_capability rc of
                None \<Rightarrow> caps
              | Some c \<Rightarrow> (if c \<in> set caps then caps else caps @ [c])))"

lemma foldl_max_upper:
  "x \<le> foldl max x xs \<and> (\<forall>y \<in> set xs. y \<le> foldl max x xs)" for x :: "'a :: linorder"
proof (induction xs arbitrary: x)
  case (Cons y ys)
  from Cons [of "max x y"] show ?case by (auto intro: order_trans)
qed simp

text \<open>A demanded risk is at least that of every permitted tool.\<close>

lemma local_tools_risk_covers:
  assumes "local_tools_approval_risk l = Some r" and "t \<in> set (lt_allowed_tools l)"
  shows "permission_approval_risk t \<le> r"
proof -
  let ?rs = "map permission_approval_risk (lt_allowed_tools l)"
  obtain x xs where xs: "?rs = x # xs" using assms(2) by (cases ?rs) auto
  have "permission_approval_risk t \<in> set ?rs" using assms(2) by simp
  then have "permission_approval_risk t \<le> foldl max x xs"
    using foldl_max_upper [of x xs] xs by auto
  moreover have "foldl max x xs \<le> r"
    using assms(1) xs
    by (auto simp: local_tools_approval_risk_def Let_def split: if_splits local_tool_approval_mode.splits)
  ultimately show ?thesis by (rule order_trans)
qed

end
