(* ===== verification/Review_Doctrine.thy ===== *)
theory Review_Doctrine
  imports Execution_Profile
begin

text \<open>
  The review doctrine (\<open>ReviewDoctrine\<close> in \<open>crates/domain/src/lib.rs\<close>): objectives,
  evidence requirements, style doctrines, validation gates and subagent profiles that a
  goal asks its reviewers to cover.  The presets are the catalogue of the source,
  \<open>resolved_x\<close> merges presets and custom items by id and applies the overrides in order.
  Each of the five \<open>apply_x_overrides\<close> of the source is \<open>apply_overrides\<close> at the item's
  own reading of \<open>Require\<close>, \<open>MakeOptional\<close> and \<open>SetMinScore\<close>.
\<close>

datatype (plugins only: code size) artifact_kind =
    AK_Patch
  | AK_TestResult
  | AK_Report
  | AK_PullRequest
  | AK_WorkspaceSnapshot
  | AK_Checkpoint
  | AK_GitBranch
  | AK_GitCommit
  | AK_GitWorktree
  | AK_ObjectStorageObject
  | AK_ObjectStoragePrefix
  | AK_ArtifactManifest
  | AK_Schema
  | AK_Other

datatype (plugins only: code size) review_severity =
    RS_Info
  | RS_Low
  | RS_Medium
  | RS_High
  | RS_Critical

datatype (plugins only: code size) review_objective_category =
    ROC_Correctness
  | ROC_CodeReview
  | ROC_Testing
  | ROC_HypothesisTesting
  | ROC_TypeSoundness
  | ROC_FormalVerification
  | ROC_CodeQuality
  | ROC_CodeStyle
  | ROC_Architecture
  | ROC_DomainModeling
  | ROC_FunctionalDesign
  | ROC_DenotationalSemantics
  | ROC_AbstractionQuality
  | ROC_Simplicity
  | ROC_Security
  | ROC_Performance
  | ROC_Reliability
  | ROC_Observability
  | ROC_Documentation
  | ROC_Custom

datatype (plugins only: code size) review_evidence_kind =
    REK_Compile
  | REK_AutomatedTests
  | REK_BehavioralTests
  | REK_PropertyTests
  | REK_TypeCheck
  | REK_FormalProof
  | REK_StaticAnalysis
  | REK_CodeInspection
  | REK_ArchitectureReview
  | REK_StyleReview
  | REK_SecurityScan
  | REK_PerformanceBenchmark
  | REK_DocumentationReview
  | REK_ExternalReference
  | REK_Custom

datatype (plugins only: code size) validation_gate_kind =
    VGK_Compile
  | VGK_TestSuite
  | VGK_BehavioralTesting
  | VGK_PropertyTesting
  | VGK_TypeSoundness
  | VGK_FormalVerification
  | VGK_StaticAnalysis
  | VGK_CodeReview
  | VGK_ArchitectureReview
  | VGK_StyleReview
  | VGK_SecurityReview
  | VGK_PerformanceBenchmark
  | VGK_DocumentationReview
  | VGK_Custom

datatype (plugins only: code size) review_doctrine_preset =
    RDP_CoreEngineering
  | RDP_Testing
  | RDP_FormalMethods
  | RDP_FunctionalDomainDrivenDesign
  | RDP_LazinessLost
  | RDP_Security
  | RDP_Performance

datatype (plugins only: code size) review_doctrine_override_target =
    ROT_Objective
  | ROT_EvidenceRequirement
  | ROT_StyleDoctrine
  | ROT_ValidationGate
  | ROT_Subagent

datatype (plugins only: code size) review_doctrine_override_action =
    ROA_Disable
  | ROA_Require
  | ROA_MakeOptional
  | ROA_SetMinScore

datatype (plugins only: code size) review_objective_decision =
    ROD_Pass
  | ROD_Fail
  | ROD_NotApplicable
  | ROD_NotChecked

record review_objective =
  ro_id :: string
  ro_category :: review_objective_category
  ro_title :: string
  ro_description :: string
  ro_required :: bool
  ro_min_score :: "f32 option"
  ro_severity_if_failed :: review_severity
  ro_evidence_requirement_ids :: "string list"
  ro_tags :: "string list"

record review_evidence_requirement =
  rq_id :: string
  rq_kind :: review_evidence_kind
  rq_description :: string
  rq_required :: bool
  rq_commands :: "string list"
  rq_artifact_kinds :: "artifact_kind list"
  rq_applies_to_objective_ids :: "string list"

record review_reference =
  rr_title :: string
  rr_uri :: string
  rr_note :: string

record style_doctrine =
  sdoc_id :: string
  sdoc_name :: string
  sdoc_description :: string
  sdoc_required :: bool
  sdoc_references :: "review_reference list"
  sdoc_anti_patterns :: "string list"
  sdoc_positive_indicators :: "string list"
  sdoc_tags :: "string list"

record validation_gate =
  vg_id :: string
  vg_kind :: validation_gate_kind
  vg_description :: string
  vg_required :: bool
  vg_min_score :: "f32 option"
  vg_failure_blocks :: bool
  vg_evidence_requirement_ids :: "string list"
  vg_applies_to_roles :: "worker_kind list"

record review_subagent_profile =
  rsp_id :: string
  rsp_role :: worker_kind
  rsp_name :: string
  rsp_objective_ids :: "string list"
  rsp_evidence_requirement_ids :: "string list"
  rsp_validation_gate_ids :: "string list"
  rsp_required_capabilities :: "runner_capability list"
  rsp_required_model_features :: "model_feature list"
  rsp_prompt_hints :: "string list"
  rsp_inherited_by_default :: bool

record review_doctrine_coverage_policy =
  rdc_require_objective_results :: bool
  rdc_require_gate_results :: bool
  rdc_require_required_evidence :: bool
  rdc_allow_not_applicable :: bool
  rdc_min_objective_score :: "f32 option"

record review_doctrine_override =
  rdo_target :: review_doctrine_override_target
  rdo_id :: string
  rdo_action :: review_doctrine_override_action
  rdo_min_score :: "f32 option"
  rdo_note :: string

record review_objective_result =
  ror_objective_id :: string
  ror_decision :: review_objective_decision
  ror_score :: f32
  ror_evidence :: "string list"
  ror_notes :: "string list"

record validation_gate_result =
  vgr_gate_id :: string
  vgr_passed :: bool
  vgr_score :: f32
  vgr_evidence :: "string list"
  vgr_notes :: "string list"

record review_doctrine =
  rd_enabled :: bool
  rd_presets :: "review_doctrine_preset list"
  rd_coverage :: review_doctrine_coverage_policy
  rd_custom_objectives :: "review_objective list"
  rd_custom_evidence_requirements :: "review_evidence_requirement list"
  rd_custom_style_doctrines :: "style_doctrine list"
  rd_custom_validation_gates :: "validation_gate list"
  rd_custom_subagents :: "review_subagent_profile list"
  rd_overrides :: "review_doctrine_override list"

definition review_doctrine_coverage_policy_default :: review_doctrine_coverage_policy where
  "review_doctrine_coverage_policy_default = (|
     rdc_require_objective_results = False,
     rdc_require_gate_results = False,
     rdc_require_required_evidence = False,
     rdc_allow_not_applicable = True,
     rdc_min_objective_score = None |)"

definition review_doctrine_default :: review_doctrine where
  "review_doctrine_default = (|
     rd_enabled = False,
     rd_presets = [RDP_CoreEngineering],
     rd_coverage = review_doctrine_coverage_policy_default,
     rd_custom_objectives = [],
     rd_custom_evidence_requirements = [],
     rd_custom_style_doctrines = [],
     rd_custom_validation_gates = [],
     rd_custom_subagents = [],
     rd_overrides = [] |)"

definition strict_engineering :: review_doctrine where
  "strict_engineering = (|
     rd_enabled = True,
     rd_presets = [RDP_CoreEngineering, RDP_Testing, RDP_FormalMethods,
       RDP_FunctionalDomainDrivenDesign, RDP_LazinessLost],
     rd_coverage = (| rdc_require_objective_results = True, rdc_require_gate_results = True,
       rdc_require_required_evidence = True, rdc_allow_not_applicable = True,
       rdc_min_objective_score = Some f32_0_8 |),
     rd_custom_objectives = [], rd_custom_evidence_requirements = [],
     rd_custom_style_doctrines = [], rd_custom_validation_gates = [],
     rd_custom_subagents = [], rd_overrides = [] |)"

section \<open>The catalogue of presets\<close>

definition review_objective_new ::
  "string \<Rightarrow> review_objective_category \<Rightarrow> string \<Rightarrow> string \<Rightarrow> review_objective" where
  "review_objective_new i c t d = (| ro_id = i, ro_category = c, ro_title = t, ro_description = d,
     ro_required = True, ro_min_score = Some f32_0_8, ro_severity_if_failed = RS_High,
     ro_evidence_requirement_ids = [], ro_tags = [] |)"

definition review_evidence_requirement_new ::
  "string \<Rightarrow> review_evidence_kind \<Rightarrow> string \<Rightarrow> review_evidence_requirement" where
  "review_evidence_requirement_new i k d = (| rq_id = i, rq_kind = k, rq_description = d,
     rq_required = True, rq_commands = [], rq_artifact_kinds = [], rq_applies_to_objective_ids = [] |)"

definition style_doctrine_new :: "string \<Rightarrow> string \<Rightarrow> string \<Rightarrow> style_doctrine" where
  "style_doctrine_new i n d = (| sdoc_id = i, sdoc_name = n, sdoc_description = d,
     sdoc_required = True, sdoc_references = [], sdoc_anti_patterns = [],
     sdoc_positive_indicators = [], sdoc_tags = [] |)"

definition validation_gate_new :: "string \<Rightarrow> validation_gate_kind \<Rightarrow> string \<Rightarrow> validation_gate" where
  "validation_gate_new i k d = (| vg_id = i, vg_kind = k, vg_description = d, vg_required = True,
     vg_min_score = Some f32_0_8, vg_failure_blocks = True, vg_evidence_requirement_ids = [],
     vg_applies_to_roles = [] |)"

definition validation_gate_optional :: "string \<Rightarrow> validation_gate_kind \<Rightarrow> string \<Rightarrow> validation_gate" where
  "validation_gate_optional i k d =
     validation_gate_new i k d (| vg_required := False, vg_failure_blocks := False |)"

definition review_subagent_profile_new ::
  "string \<Rightarrow> worker_kind \<Rightarrow> string \<Rightarrow> string list \<Rightarrow> review_subagent_profile" where
  "review_subagent_profile_new i role n objectives = (| rsp_id = i, rsp_role = role, rsp_name = n,
     rsp_objective_ids = objectives, rsp_evidence_requirement_ids = [], rsp_validation_gate_ids = [],
     rsp_required_capabilities =
       (if role = WK_FormalMethods then [RC_Review, RC_FormalVerification] else [RC_Review]),
     rsp_required_model_features = [MF_ToolUse, MF_JsonSchema],
     rsp_prompt_hints =
       [''Request additional subagent work only through AgentRunResult.child_requests.'',
        ''Do not spawn native Codex, Claude Code, SDK, or framework-local subagents.''],
     rsp_inherited_by_default = True |)"

fun preset_objectives :: "review_doctrine_preset \<Rightarrow> review_objective list" where
  "preset_objectives RDP_CoreEngineering =
     [review_objective_new ''correctness.behavior'' ROC_Correctness ''Behavioral correctness'' ''Implementation satisfies the stated objective, edge cases, and durable task contract.'',
      review_objective_new ''quality.maintainability'' ROC_CodeQuality ''Maintainability'' ''Code should be easy to read, localize, test, and change without global reasoning.'',
      review_objective_new ''abstraction.future_time'' ROC_AbstractionQuality ''Abstraction pays for future time'' ''Prefer simple, powerful abstractions over copied bulk or speculative frameworks.'']"
| "preset_objectives RDP_Testing =
     [review_objective_new ''testing.regression'' ROC_Testing ''Regression evidence'' ''Changed behavior has focused tests or an explicit reason tests are not useful.'',
      review_objective_new ''testing.behavioral_end_to_end'' ROC_Testing ''Behavioral objective coverage'' ''Tests exercise the end-to-end objective, observable behavior, failure modes, and user or operator workflow instead of only checking that functions, buttons, or endpoints exist.'',
      review_objective_new ''testing.hypothesis'' ROC_HypothesisTesting ''Hypothesis and property testing'' ''Important invariants have property, generative, fuzz, or explicit hypothesis tests when appropriate.'']"
| "preset_objectives RDP_FormalMethods =
     [review_objective_new ''formal.type_soundness'' ROC_TypeSoundness ''Type-theory soundness'' ''Types, lifetimes, ownership, generics, and protocol states rule out invalid states where practical.'',
      review_objective_new ''formal.verification'' ROC_FormalVerification ''Formal verification posture'' ''Proofs, model checks, contracts, or mechanized checks cover critical invariants when justified by risk.'']"
| "preset_objectives RDP_FunctionalDomainDrivenDesign =
     [review_objective_new ''ddd.ubiquitous_language'' ROC_DomainModeling ''Domain language'' ''Names, boundaries, and state transitions reflect the domain instead of incidental framework mechanics.'',
      review_objective_new ''functional.core'' ROC_FunctionalDesign ''Functional core'' ''Prefer pure domain transformations at the core with effects pushed to adapters and durable boundaries.'',
      review_objective_new ''semantics.denotational'' ROC_DenotationalSemantics ''Denotational clarity'' ''Core types and functions have a clear meaning independent of execution accidents.'']"
| "preset_objectives RDP_LazinessLost =
     [review_objective_new ''simplicity.negative_code'' ROC_Simplicity ''Virtuous laziness'' ''Reject vanity bulk; optimize for simpler systems, reduced cognitive load, and useful abstraction.'']"
| "preset_objectives RDP_Security =
     [review_objective_new ''security.boundaries'' ROC_Security ''Security boundaries'' ''Secrets, auth, sandbox boundaries, and privilege transitions are explicit and minimally scoped.'']"
| "preset_objectives RDP_Performance =
     [review_objective_new ''performance.evidence'' ROC_Performance ''Performance evidence'' ''Performance-sensitive changes include measurements, complexity analysis, or a clear non-goal statement.'']"

fun preset_evidence_requirements :: "review_doctrine_preset \<Rightarrow> review_evidence_requirement list" where
  "preset_evidence_requirements RDP_CoreEngineering =
     [review_evidence_requirement_new ''evidence.diff_summary'' REK_CodeInspection ''Reviewer can identify the changed behavior and affected boundaries.'',
      review_evidence_requirement_new ''evidence.build'' REK_Compile ''Compilation or equivalent build check passes.'']"
| "preset_evidence_requirements RDP_Testing =
     [review_evidence_requirement_new ''evidence.unit_integration_tests'' REK_AutomatedTests ''Unit, integration, or smoke tests cover the changed behavior.'',
      review_evidence_requirement_new ''evidence.behavioral_scenarios'' REK_BehavioralTests ''Behavioral, workflow, or end-to-end tests prove the objective and would fail for the main incorrect implementation modes.'',
      review_evidence_requirement_new ''evidence.property_tests'' REK_PropertyTests ''Property, fuzz, or hypothesis tests cover invariant-heavy paths when appropriate.'']"
| "preset_evidence_requirements RDP_FormalMethods =
     [review_evidence_requirement_new ''evidence.type_check'' REK_TypeCheck ''Type checks, static analysis, or compiler diagnostics support the soundness claim.'',
      review_evidence_requirement_new ''evidence.formal_proof'' REK_FormalProof ''Proof, model-check, contract-check, or explicit risk-based waiver exists for critical invariants.'']"
| "preset_evidence_requirements RDP_FunctionalDomainDrivenDesign =
     [review_evidence_requirement_new ''evidence.domain_boundaries'' REK_ArchitectureReview ''Reviewer can map code boundaries to domain concepts and effect boundaries.'']"
| "preset_evidence_requirements RDP_LazinessLost =
     [review_evidence_requirement_new ''evidence.simplicity_review'' REK_StyleReview ''Reviewer checks for generated bulk, duplicated variants, and unnecessary layer growth.'']"
| "preset_evidence_requirements RDP_Security =
     [review_evidence_requirement_new ''evidence.security_review'' REK_SecurityScan ''Security-sensitive changes have explicit boundary and secret-handling evidence.'']"
| "preset_evidence_requirements RDP_Performance =
     [review_evidence_requirement_new ''evidence.benchmark'' REK_PerformanceBenchmark ''Performance-sensitive changes include benchmark or complexity evidence.'']"

fun preset_style_doctrines :: "review_doctrine_preset \<Rightarrow> style_doctrine list" where
  "preset_style_doctrines RDP_CoreEngineering =
     [style_doctrine_new ''style.clean_small_surface'' ''Clean small surface area'' ''Keep changes narrowly scoped, readable, and aligned with local patterns.'']"
| "preset_style_doctrines RDP_Testing =
     [style_doctrine_new ''style.tests_as_spec'' ''Tests as executable specification'' ''Tests should state observable behavior, workflows, invariants, and falsifiable expectations, not only implementation details or UI/API existence.'']"
| "preset_style_doctrines RDP_FormalMethods =
     [style_doctrine_new ''style.invalid_states_unrepresentable'' ''Invalid states unrepresentable'' ''Use type structure and protocol states to rule out illegal transitions where practical.'']"
| "preset_style_doctrines RDP_FunctionalDomainDrivenDesign =
     [style_doctrine_new ''style.functional_ddd'' ''Functional domain-driven design'' ''Keep domain semantics pure and explicit; isolate infrastructure at the edges.'']"
| "preset_style_doctrines RDP_LazinessLost =
     [(| sdoc_id = ''style.laziness_lost'', sdoc_name = ''Virtuous laziness over generated bulk'', sdoc_description = ''LLM output should make the system smaller, clearer, and easier for future humans to change.'', sdoc_required = True, sdoc_references = [(| rr_title = ''The peril of laziness lost'', rr_uri = ''https://bcantrill.dtrace.org/2026/04/12/the-peril-of-laziness-lost/'', rr_note = ''Use as a style doctrine for resisting generated code bulk and vanity metrics.'' |)], sdoc_anti_patterns = [''large generated layer without abstraction payoff'', ''copy-pasted variants where one concept should exist'', ''metric-driven line growth without increased clarity''], sdoc_positive_indicators = [''removes accidental complexity'', ''introduces a crisp domain abstraction only where it earns its keep'', ''reduces future cognitive load''], sdoc_tags = [''simplicity'', ''abstraction''] |)]"
| "preset_style_doctrines RDP_Security =
     [style_doctrine_new ''style.least_privilege'' ''Least privilege'' ''Prefer narrow, auditable privileges and explicit secret flow.'']"
| "preset_style_doctrines RDP_Performance =
     [style_doctrine_new ''style.performance_clarity'' ''Performance clarity'' ''Make complexity and resource tradeoffs visible at the boundary where they matter.'']"

fun preset_validation_gates :: "review_doctrine_preset \<Rightarrow> validation_gate list" where
  "preset_validation_gates RDP_CoreEngineering =
     [validation_gate_new ''gate.compile'' VGK_Compile ''Build or compile check passes for changed packages.'']"
| "preset_validation_gates RDP_Testing =
     [validation_gate_new ''gate.tests'' VGK_TestSuite ''Relevant automated tests pass or a reviewer-approved waiver explains why.'',
      validation_gate_new ''gate.behavioral_coverage'' VGK_BehavioralTesting ''Behavioral tests cover the end-to-end objective and at least one meaningful failure or edge path.'']"
| "preset_validation_gates RDP_FormalMethods =
     [validation_gate_new ''gate.type_soundness'' VGK_TypeSoundness ''Type-level invariants and state transitions are checked by compiler, type checker, or static analysis.'',
      validation_gate_optional ''gate.formal_verification'' VGK_FormalVerification ''Formal proof, model checking, or contract verification is supplied when risk warrants it.'']"
| "preset_validation_gates RDP_FunctionalDomainDrivenDesign =
     [validation_gate_new ''gate.domain_model'' VGK_ArchitectureReview ''Domain model and effect boundaries are reviewed.'']"
| "preset_validation_gates RDP_LazinessLost =
     [validation_gate_new ''gate.simplicity'' VGK_StyleReview ''Reviewer explicitly checks for unnecessary generated bulk and abstraction debt.'']"
| "preset_validation_gates RDP_Security =
     [validation_gate_new ''gate.security_boundaries'' VGK_SecurityReview ''Security-sensitive boundaries and secrets are reviewed.'']"
| "preset_validation_gates RDP_Performance =
     [validation_gate_optional ''gate.performance'' VGK_PerformanceBenchmark ''Performance-sensitive behavior has measurements or complexity analysis.'']"

fun preset_subagents :: "review_doctrine_preset \<Rightarrow> review_subagent_profile list" where
  "preset_subagents RDP_CoreEngineering =
     [review_subagent_profile_new ''subagent.code_reviewer'' WK_Reviewer ''Code quality reviewer'' [''correctness.behavior'', ''quality.maintainability'', ''abstraction.future_time'']]"
| "preset_subagents RDP_Testing =
     [review_subagent_profile_new ''subagent.tester'' WK_Tester ''Testing reviewer'' [''testing.regression'', ''testing.behavioral_end_to_end'', ''testing.hypothesis'']]"
| "preset_subagents RDP_FormalMethods =
     [review_subagent_profile_new ''subagent.formal_methods'' WK_FormalMethods ''Formal-methods reviewer'' [''formal.type_soundness'', ''formal.verification'']]"
| "preset_subagents RDP_FunctionalDomainDrivenDesign =
     [review_subagent_profile_new ''subagent.functional_ddd'' WK_Reviewer ''Functional DDD reviewer'' [''ddd.ubiquitous_language'', ''functional.core'', ''semantics.denotational'']]"
| "preset_subagents RDP_LazinessLost =
     [review_subagent_profile_new ''subagent.simplicity_critic'' WK_Reviewer ''Simplicity critic'' [''simplicity.negative_code'']]"
| "preset_subagents RDP_Security =
     [review_subagent_profile_new ''subagent.security_reviewer'' WK_Validator ''Security boundary reviewer'' [''security.boundaries'']]"
| "preset_subagents RDP_Performance =
     [review_subagent_profile_new ''subagent.performance_reviewer'' WK_Tester ''Performance reviewer'' [''performance.evidence'']]"

section \<open>Resolution and overrides\<close>

text \<open>
  The common body of the five \<open>apply_x_overrides\<close>; \<open>score\<close> is the update of
  \<open>SetMinScore\<close>, which three of them ignore.
\<close>

definition apply_override ::
  "review_doctrine_override_target \<Rightarrow> (bool \<Rightarrow> 'i \<Rightarrow> 'i) \<Rightarrow> (f32 option \<Rightarrow> 'i \<Rightarrow> 'i) \<Rightarrow>
   review_doctrine_override \<Rightarrow> (string, 'i) btree \<Rightarrow> (string, 'i) btree" where
  "apply_override target require score ov m =
     (if rdo_target ov \<noteq> target then m
      else case rdo_action ov of
             ROA_Disable \<Rightarrow> bt_remove (rdo_id ov) m
           | ROA_Require \<Rightarrow> bt_adjust (rdo_id ov) (require True) m
           | ROA_MakeOptional \<Rightarrow> bt_adjust (rdo_id ov) (require False) m
           | ROA_SetMinScore \<Rightarrow> bt_adjust (rdo_id ov) (score (rdo_min_score ov)) m)"

definition apply_overrides ::
  "review_doctrine_override_target \<Rightarrow> (bool \<Rightarrow> 'i \<Rightarrow> 'i) \<Rightarrow> (f32 option \<Rightarrow> 'i \<Rightarrow> 'i) \<Rightarrow>
   review_doctrine_override list \<Rightarrow> (string, 'i) btree \<Rightarrow> (string, 'i) btree" where
  "apply_overrides target require score ovs m =
     foldl (\<lambda>m ov. apply_override target require score ov m) m ovs"

definition keyed :: "('i \<Rightarrow> string) \<Rightarrow> 'i list \<Rightarrow> (string, 'i) btree" where
  "keyed key items = bt_of_list (map (\<lambda>i. (key i, i)) items)"

definition apply_objective_overrides ::
  "review_doctrine \<Rightarrow> (string, review_objective) btree \<Rightarrow> (string, review_objective) btree" where
  "apply_objective_overrides d =
     apply_overrides ROT_Objective (\<lambda>b o'. o' (| ro_required := b |))
       (\<lambda>s o'. o' (| ro_min_score := s |)) (rd_overrides d)"

definition apply_evidence_overrides ::
  "review_doctrine \<Rightarrow> (string, review_evidence_requirement) btree \<Rightarrow>
   (string, review_evidence_requirement) btree" where
  "apply_evidence_overrides d =
     apply_overrides ROT_EvidenceRequirement (\<lambda>b r. r (| rq_required := b |)) (\<lambda>_ r. r) (rd_overrides d)"

definition apply_style_overrides ::
  "review_doctrine \<Rightarrow> (string, style_doctrine) btree \<Rightarrow> (string, style_doctrine) btree" where
  "apply_style_overrides d =
     apply_overrides ROT_StyleDoctrine (\<lambda>b r. r (| sdoc_required := b |)) (\<lambda>_ r. r) (rd_overrides d)"

definition apply_gate_overrides ::
  "review_doctrine \<Rightarrow> (string, validation_gate) btree \<Rightarrow> (string, validation_gate) btree" where
  "apply_gate_overrides d =
     apply_overrides ROT_ValidationGate (\<lambda>b g. g (| vg_required := b |))
       (\<lambda>s g. g (| vg_min_score := s |)) (rd_overrides d)"

definition apply_subagent_overrides ::
  "review_doctrine \<Rightarrow> (string, review_subagent_profile) btree \<Rightarrow>
   (string, review_subagent_profile) btree" where
  "apply_subagent_overrides d =
     apply_overrides ROT_Subagent (\<lambda>b r. r (| rsp_inherited_by_default := b |)) (\<lambda>_ r. r)
       (rd_overrides d)"

definition resolved_objectives :: "review_doctrine \<Rightarrow> review_objective list" where
  "resolved_objectives d =
     bt_values (apply_objective_overrides d
       (keyed ro_id (concat (map preset_objectives (rd_presets d)) @ rd_custom_objectives d)))"

definition resolved_evidence_requirements :: "review_doctrine \<Rightarrow> review_evidence_requirement list" where
  "resolved_evidence_requirements d =
     bt_values (apply_evidence_overrides d
       (keyed rq_id (concat (map preset_evidence_requirements (rd_presets d))
          @ rd_custom_evidence_requirements d)))"

definition resolved_style_doctrines :: "review_doctrine \<Rightarrow> style_doctrine list" where
  "resolved_style_doctrines d =
     bt_values (apply_style_overrides d
       (keyed sdoc_id (concat (map preset_style_doctrines (rd_presets d))
          @ rd_custom_style_doctrines d)))"

definition resolved_validation_gates :: "review_doctrine \<Rightarrow> validation_gate list" where
  "resolved_validation_gates d =
     bt_values (apply_gate_overrides d
       (keyed vg_id (concat (map preset_validation_gates (rd_presets d))
          @ rd_custom_validation_gates d)))"

definition resolved_subagents :: "review_doctrine \<Rightarrow> review_subagent_profile list" where
  "resolved_subagents d =
     bt_values (apply_subagent_overrides d
       (keyed rsp_id (concat (map preset_subagents (rd_presets d)) @ rd_custom_subagents d)))"

definition prompt_summary :: "review_doctrine \<Rightarrow> string" where
  "prompt_summary d =
     (if \<not> rd_enabled d then []
      else let objectives = join ''; '' (map (\<lambda>o'. ro_id o' @ '': '' @ ro_title o')
                 (filter ro_required (resolved_objectives d)));
               gates = join ''; '' (map (\<lambda>g. vg_id g @ '': '' @ vg_description g)
                 (filter vg_required (resolved_validation_gates d)));
               styles = join ''; '' (map (\<lambda>s. sdoc_id s @ '': '' @ sdoc_name s)
                 (filter sdoc_required (resolved_style_doctrines d)))
           in nl @ nl @ ''Review doctrine: evaluate required objectives ['' @ objectives
              @ '']. Required validation gates ['' @ gates
              @ '']. Required style doctrines ['' @ styles
              @ '']. Return objective_results and gate_results with evidence URIs or notes for each required item.'')"

definition stub_objective_results :: "review_doctrine \<Rightarrow> review_objective_result list" where
  "stub_objective_results d =
     (if \<not> rd_enabled d then []
      else map (\<lambda>o'. (| ror_objective_id = ro_id o', ror_decision = ROD_Pass,
               ror_score = f32_max (case ro_min_score o' of Some s \<Rightarrow> s | None \<Rightarrow> f32_0_9) f32_0_9,
               ror_evidence = [''memory://review-objective/'' @ ro_id o'],
               ror_notes = [''stub coverage for '' @ ro_title o'] |))
             (filter ro_required (resolved_objectives d)))"

definition stub_gate_results :: "review_doctrine \<Rightarrow> validation_gate_result list" where
  "stub_gate_results d =
     (if \<not> rd_enabled d then []
      else map (\<lambda>g. (| vgr_gate_id = vg_id g, vgr_passed = True,
               vgr_score = f32_max (case vg_min_score g of Some s \<Rightarrow> s | None \<Rightarrow> f32_0_9) f32_0_9,
               vgr_evidence = [''memory://validation-gate/'' @ vg_id g],
               vgr_notes = [''stub gate result for '' @ vg_description g] |))
             (filter vg_required (resolved_validation_gates d)))"

section \<open>What resolution guarantees\<close>

text \<open>Every item of a resolved map stands under its own id.\<close>

definition keyed_by :: "('i \<Rightarrow> string) \<Rightarrow> (string, 'i) btree \<Rightarrow> bool" where
  "keyed_by key m \<longleftrightarrow> bt_wf m \<and> all_entries (\<lambda>k i. key i = k) m"

lemma keyed_by_keyed: "keyed_by key (keyed key items)"
  unfolding keyed_by_def keyed_def
  by (auto intro: bt_wf_of_list all_entries_of_list)

lemma keyed_by_remove: "keyed_by key m \<Longrightarrow> keyed_by key (bt_remove k m)"
  unfolding keyed_by_def by (simp add: bt_wf_remove all_entries_remove)

lemma keyed_by_adjust:
  "keyed_by key m \<Longrightarrow> (\<And>i. key (f i) = key i) \<Longrightarrow> keyed_by key (bt_adjust k f m)"
  unfolding keyed_by_def by (auto intro!: all_entries_adjust)

lemma keyed_by_apply_overrides:
  assumes "\<And>b i. key (require b i) = key i" and "\<And>s i. key (score s i) = key i"
  shows "keyed_by key m \<Longrightarrow> keyed_by key (apply_overrides target require score ovs m)"
proof (induction ovs arbitrary: m)
  case (Cons ov ovs)
  have "keyed_by key (apply_override target require score ov m)"
    unfolding apply_override_def using Cons.prems assms
    by (auto intro: keyed_by_remove keyed_by_adjust split: review_doctrine_override_action.splits)
  with Cons.IH show ?case by (simp add: apply_overrides_def)
qed (simp add: apply_overrides_def)

lemma keyed_by_values_sorted: "keyed_by key m \<Longrightarrow> sorted_wrt (<) (map key (bt_values m))"
proof -
  assume k: "keyed_by key m"
  then have "map key (bt_values m) = map fst m"
    unfolding keyed_by_def all_entries_def bt_values_def by (auto split: prod.splits)
  with k show ?thesis by (simp add: keyed_by_def bt_wf_def)
qed

lemma apply_overrides_snoc:
  "apply_overrides target require score (ovs @ [ov]) m =
   apply_override target require score ov (apply_overrides target require score ovs m)"
  by (simp add: apply_overrides_def)

lemma keyed_by_value: "keyed_by key m \<Longrightarrow> i \<in> set (bt_values m) \<longleftrightarrow> bt_get m (key i) = Some i"
  using btree.entries_get [of m "key i" i]
  by (force simp: keyed_by_def all_entries_def bt_values_def)

lemma resolved_objectives_keyed:
  "keyed_by ro_id (apply_objective_overrides d (keyed ro_id items))"
  unfolding apply_objective_overrides_def
  by (rule keyed_by_apply_overrides) (simp_all add: keyed_by_keyed)

lemma resolved_gates_keyed: "keyed_by vg_id (apply_gate_overrides d (keyed vg_id items))"
  unfolding apply_gate_overrides_def
  by (rule keyed_by_apply_overrides) (simp_all add: keyed_by_keyed)

text \<open>The stub results of an enabled doctrine cover each required item exactly once, in id order.\<close>

lemma stub_objective_results_ids:
  "rd_enabled d \<Longrightarrow> map ror_objective_id (stub_objective_results d) =
     map ro_id (filter ro_required (resolved_objectives d))"
  by (simp add: stub_objective_results_def)

lemma f32_max_covers: "\<not> f32_is_nan s \<Longrightarrow> \<not> f32_lt (f32_max s f32_0_9) s"
  by (auto simp: f32_max_def f32_lt_def)

end
