(* ===== verification/Task_Model.thy ===== *)
theory Task_Model
  imports Review_Doctrine
begin

text \<open>
  Tasks and what workers, critics and validators say about them: \<open>TaskNode\<close>, \<open>Budget\<close>,
  \<open>ChildTaskRequest\<close>, \<open>AgentRunResult\<close>, \<open>ReviewOutput\<close>, \<open>ResearchOutput\<close>,
  \<open>ValidationReport\<close>, approvals and delayed compute thunks (\<open>crates/domain/src/lib.rs\<close>).
  Counters (\<open>u32\<close>, \<open>u64\<close>, \<open>usize\<close>) that are only stepped by one or divided are \<open>nat\<close>;
  the one opaque JSON payload of a checkpoint is left out.
\<close>

section \<open>Task vocabulary\<close>

datatype (plugins only: code size) task_status =
    TS_Pending
  | TS_Runnable
  | TS_Running
  | TS_NeedsValidation
  | TS_WaitingApproval
  | TS_WaitingInput
  | TS_Done
  | TS_Blocked
  | TS_Failed
  | TS_Cancelled

definition is_terminal :: "task_status \<Rightarrow> bool" where
  "is_terminal x \<longleftrightarrow> x \<in> {TS_Done, TS_Cancelled}"

definition is_terminal_ok :: "task_status \<Rightarrow> bool" where
  "is_terminal_ok x \<longleftrightarrow> x \<in> {TS_Done}"

fun task_status_debug :: "task_status \<Rightarrow> string" where
  "task_status_debug TS_Pending = ''Pending''"
| "task_status_debug TS_Runnable = ''Runnable''"
| "task_status_debug TS_Running = ''Running''"
| "task_status_debug TS_NeedsValidation = ''NeedsValidation''"
| "task_status_debug TS_WaitingApproval = ''WaitingApproval''"
| "task_status_debug TS_WaitingInput = ''WaitingInput''"
| "task_status_debug TS_Done = ''Done''"
| "task_status_debug TS_Blocked = ''Blocked''"
| "task_status_debug TS_Failed = ''Failed''"
| "task_status_debug TS_Cancelled = ''Cancelled''"

datatype (plugins only: code size) task_priority =
    TPR_Critical
  | TPR_High
  | TPR_Normal
  | TPR_Low
  | TPR_Background

definition task_priority_default :: task_priority where
  "task_priority_default = TPR_Normal"

fun priority_rank :: "task_priority \<Rightarrow> nat" where
  "priority_rank TPR_Critical = 5"
| "priority_rank TPR_High = 4"
| "priority_rank TPR_Normal = 3"
| "priority_rank TPR_Low = 2"
| "priority_rank TPR_Background = 1"

datatype (plugins only: code size) task_purpose =
    TP_Work
  | TP_Review uuid nat
  | TP_Unification "uuid list" nat
  | TP_ActorRetry uuid nat
  | TP_CandidateBranch uuid uuid nat
  | TP_BranchVote uuid "uuid list"
  | TP_BranchUnification uuid "uuid list" "uuid list"
  | TP_Research string

definition task_purpose_default :: task_purpose where
  "task_purpose_default = TP_Work"

datatype (plugins only: code size) task_purpose_kind =
    TPK_Work
  | TPK_Review
  | TPK_Unification
  | TPK_ActorRetry
  | TPK_CandidateBranch
  | TPK_BranchVote
  | TPK_BranchUnification
  | TPK_Research

record graph_color_ref =
  gc_key :: string
  gc_label :: string
  gc_hex :: string
  gc_meaning :: string

record done_criteria =
  dc_tests_pass :: bool
  dc_artifact_exists :: bool
  dc_validator_score_min :: "f32 option"

definition done_criteria_default :: done_criteria where
  "done_criteria_default = (|
     dc_tests_pass = True,
     dc_artifact_exists = True,
     dc_validator_score_min = Some f32_0_85 |)"

record budget =
  bu_max_tokens :: nat
  bu_remaining_tokens :: nat
  bu_max_runtime_seconds :: nat
  bu_remaining_runtime_seconds :: nat
  bu_max_tool_calls :: nat
  bu_remaining_tool_calls :: nat
  bu_max_child_tasks :: nat
  bu_remaining_child_tasks :: nat
  bu_max_patch_size :: nat

record artifact_ref =
  ar_kind :: artifact_kind
  ar_uri :: string
  ar_description :: string
  ar_sha256 :: "string option"

record git_result_ref =
  gr_repo :: "string option"
  gr_remote :: "string option"
  gr_base_ref :: "string option"
  gr_branch :: string
  gr_worktree_path :: "string option"
  gr_commit :: "string option"
  gr_pushed :: bool
  gr_pull_request_url :: "string option"
  gr_diff_uri :: "string option"

record object_storage_artifact_ref =
  oa_store :: object_store_ref
  oa_key :: string
  oa_uri :: string
  oa_content_type :: "string option"
  oa_size_bytes :: "nat option"
  oa_sha256 :: "string option"
  oa_description :: string

datatype (plugins only: code size) checkpoint_kind =
    CK_GitCommit
  | CK_GitTag
  | CK_GitBranch
  | CK_WorkspaceSnapshot
  | CK_ObjectStorageArchive
  | CK_Metadata
  | CK_External

record checkpoint_ref =
  cr_id :: uuid
  cr_goal_id :: uuid
  cr_task_id :: uuid
  cr_parent_checkpoint_id :: "uuid option"
  cr_kind :: checkpoint_kind
  cr_label :: string
  cr_summary :: string
  cr_artifact :: artifact_ref
  cr_git_result :: "git_result_ref option"
  cr_object_artifact :: "object_storage_artifact_ref option"
  cr_sequence :: "nat option"
  cr_created_at :: "string option"

record sandbox_attestation =
  sa_backend :: sandbox_backend
  sa_runtime_class :: "string option"
  sa_enforceable :: bool
  sa_strong_isolation :: bool
  sa_isolation_summary :: string
  sa_warnings :: "string list"
  sa_evidence :: "artifact_ref list"

record test_command_evidence =
  te_command :: string
  te_exit_code :: "int option"
  te_passed :: bool
  te_duration_ms :: "nat option"
  te_stdout_uri :: "string option"
  te_stderr_uri :: "string option"
  te_artifact_uri :: "string option"
  te_notes :: "string list"

record task_node =
  tn_id :: uuid
  tn_parent_id :: "uuid option"
  tn_goal_id :: uuid
  tn_depth :: nat
  tn_status :: task_status
  tn_role :: worker_kind
  tn_purpose :: task_purpose
  tn_title :: string
  tn_subgoal_id :: "string option"
  tn_execution :: execution_profile
  tn_prompt :: string
  tn_dependencies :: "uuid list"
  tn_children :: "uuid list"
  tn_budget :: budget
  tn_sandbox :: sandbox_profile
  tn_done_criteria :: done_criteria
  tn_review_doctrine :: review_doctrine
  tn_priority :: task_priority
  tn_tags :: "string list"
  tn_color :: "graph_color_ref option"
  tn_result :: "artifact_ref option"
  tn_attempts :: nat

record child_task_request =
  ctr_role :: worker_kind
  ctr_purpose :: "task_purpose option"
  ctr_title :: "string option"
  ctr_subgoal_id :: "string option"
  ctr_color :: "graph_color_ref option"
  ctr_prompt :: string
  ctr_reason :: string
  ctr_dependencies :: "uuid list"
  ctr_budget :: "budget option"
  ctr_sandbox :: "sandbox_profile option"
  ctr_done_criteria :: "done_criteria option"
  ctr_review_doctrine :: "review_doctrine option"
  ctr_execution :: "execution_profile option"
  ctr_priority :: task_priority
  ctr_tags :: "string list"

section \<open>Evidence returned by workers\<close>

datatype (plugins only: code size) search_provider_kind =
    SPK_Web
  | SPK_Docs
  | SPK_Mcp
  | SPK_Memory
  | SPK_Repo
  | SPK_Tracker
  | SPK_Database
  | SPK_Other

datatype (plugins only: code size) source_quality =
    SQ_Primary
  | SQ_OfficialDocs
  | SQ_PeerReviewed
  | SQ_ReputableSecondary
  | SQ_Community
  | SQ_Unknown

record source_artifact =
  srca_title :: string
  srca_uri :: string
  srca_quality :: source_quality
  srca_captured_at :: "string option"
  srca_quote :: "string option"
  srca_summary :: string
  srca_confidence :: f32

datatype (plugins only: code size) goal_update_target =
    GUT_Authoring
  | GUT_Plan
  | GUT_ResearchPolicy
  | GUT_MemoryPolicy
  | GUT_ReviewPolicy
  | GUT_DoneCriteria
  | GUT_ExecutionProfile
  | GUT_InitialTasks
  | GUT_Other

record goal_update_hint =
  gh_target :: goal_update_target
  gh_path :: string
  gh_recommendation :: string
  gh_reason :: string

datatype (plugins only: code size) memory_scope =
    MSC_Goal
  | MSC_Task
  | MSC_Repo
  | MSC_Persona
  | MSC_User
  | MSC_Global

datatype (plugins only: code size) memory_episode_source_type =
    MES_Actor
  | MES_Critic
  | MES_Unifier
  | MES_Research
  | MES_Human
  | MES_Tool
  | MES_System

record memory_episode_source =
  mes_source_type :: memory_episode_source_type
  mes_uri :: "string option"
  mes_actor :: "string option"

record memory_episode =
  me_title :: string
  me_content :: string
  me_source :: memory_episode_source
  me_artifacts :: "artifact_ref list"
  me_tags :: "string list"

datatype (plugins only: code size) memory_store_kind =
    MSK_ZepGraphiti
  | MSK_Letta
  | MSK_PostgresPgvector
  | MSK_Qdrant
  | MSK_LanceDb
  | MSK_Sqlite
  | MSK_Other

record memory_store_ref =
  msr_kind :: memory_store_kind
  msr_endpoint :: "string option"
  msr_namespace :: "string option"
  msr_mcp_server_name :: "string option"
  msr_secret_refs :: "secret_ref list"

record memory_write_request =
  mwr_goal_id :: uuid
  mwr_task_id :: "uuid option"
  mwr_scope :: memory_scope
  mwr_key :: "string option"
  mwr_episode :: memory_episode
  mwr_store :: "memory_store_ref option"

record information_use_plan =
  iup_facts_to_use :: "string list"
  iup_facts_to_avoid :: "string list"
  iup_proposed_goal_updates :: "goal_update_hint list"
  iup_proposed_task_updates :: "child_task_request list"
  iup_proposed_memory_writes :: "memory_write_request list"
  iup_proposed_review_doctrine :: "review_doctrine option"
  iup_validation_checks :: "string list"

definition information_use_plan_default :: information_use_plan where
  "information_use_plan_default = (|
     iup_facts_to_use = [],
     iup_facts_to_avoid = [],
     iup_proposed_goal_updates = [],
     iup_proposed_task_updates = [],
     iup_proposed_memory_writes = [],
     iup_proposed_review_doctrine = None,
     iup_validation_checks = [] |)"

record research_output =
  rso_question :: string
  rso_answer :: string
  rso_sources :: "source_artifact list"
  rso_confidence :: f32
  rso_use_plan :: information_use_plan
  rso_open_questions :: "string list"

datatype (plugins only: code size) review_decision =
    RD_Accept
  | RD_ChangesRequested
  | RD_Blocked
  | RD_Inconclusive

record review_finding =
  rf_severity :: review_severity
  rf_title :: string
  rf_body :: string
  rf_file :: "string option"
  rf_start_line :: "nat option"
  rf_end_line :: "nat option"
  rf_priority :: "nat option"
  rf_evidence :: "string list"
  rf_suggested_action :: "string option"

record review_output =
  rv_decision :: review_decision
  rv_reward :: f32
  rv_findings :: "review_finding list"
  rv_objective_results :: "review_objective_result list"
  rv_gate_results :: "validation_gate_result list"
  rv_retry_recommended :: bool
  rv_unification_summary :: "string option"

record branch_vote_output =
  bvo_group_id :: uuid
  bvo_selected_task_id :: uuid
  bvo_ranked_task_ids :: "uuid list"
  bvo_confidence :: f32
  bvo_rationale :: string

datatype (plugins only: code size) worker_run_status =
    WRS_Done
  | WRS_Partial
  | WRS_Waiting
  | WRS_Blocked
  | WRS_Failed
  | WRS_TimedOut

record notification_delivery_report =
  ndr_target :: "notification_target option"
  ndr_delivered :: bool
  ndr_external_ref :: "string option"
  ndr_error :: "string option"

section \<open>Waiting: approvals and delayed compute\<close>

datatype (plugins only: code size) approval_reason_code =
    ARC_SandboxPolicyAlways
  | ARC_NeverPolicyOutsideIsolation
  | ARC_NeverPolicyWithoutStrongSandbox
  | ARC_NetworkOpen
  | ARC_NonIsolatedRunner
  | ARC_WorkspaceWriteOutsideIsolation
  | ARC_SecretAccess
  | ARC_BrokeredUserAuth
  | ARC_DangerousMcpTool
  | ARC_LocalToolExecution
  | ARC_PrivilegedRunnerCapability
  | ARC_NativeSubagentSpawn
  | ARC_EphemeralCapacityProvisioning

fun arc_as_str :: "approval_reason_code \<Rightarrow> string" where
  "arc_as_str ARC_SandboxPolicyAlways = ''sandbox_policy_always''"
| "arc_as_str ARC_NeverPolicyOutsideIsolation = ''never_policy_outside_isolation''"
| "arc_as_str ARC_NeverPolicyWithoutStrongSandbox = ''never_policy_without_strong_sandbox''"
| "arc_as_str ARC_NetworkOpen = ''network_open''"
| "arc_as_str ARC_NonIsolatedRunner = ''non_isolated_runner''"
| "arc_as_str ARC_WorkspaceWriteOutsideIsolation = ''workspace_write_outside_isolation''"
| "arc_as_str ARC_SecretAccess = ''secret_access''"
| "arc_as_str ARC_BrokeredUserAuth = ''brokered_user_auth''"
| "arc_as_str ARC_DangerousMcpTool = ''dangerous_mcp_tool''"
| "arc_as_str ARC_LocalToolExecution = ''local_tool_execution''"
| "arc_as_str ARC_PrivilegedRunnerCapability = ''privileged_runner_capability''"
| "arc_as_str ARC_NativeSubagentSpawn = ''native_subagent_spawn''"
| "arc_as_str ARC_EphemeralCapacityProvisioning = ''ephemeral_capacity_provisioning''"

record approval_evaluation =
  ae_required :: bool
  ae_risk :: approval_risk
  ae_reason_codes :: "approval_reason_code list"
  ae_reason :: string

datatype (plugins only: code size) approval_status =
    AS_Pending
  | AS_Approved
  | AS_Rejected
  | AS_Cancelled

record approval_request =
  apr_id :: uuid
  apr_goal_id :: uuid
  apr_task_id :: "uuid option"
  apr_attempt :: nat
  apr_reason :: string
  apr_status :: approval_status
  apr_risk :: approval_risk
  apr_reason_codes :: "approval_reason_code list"
  apr_sandbox :: sandbox_profile
  apr_requested_action :: string
  apr_notification_reports :: "notification_delivery_report list"

record human_approval =
  ha_approval_id :: uuid
  ha_approved :: bool
  ha_note :: "string option"

datatype (plugins only: code size) delayed_compute_thunk_kind =
    DK_HumanInput
  | DK_Approval
  | DK_ExternalEvent
  | DK_Timer
  | DK_ResourceAvailability
  | DK_ModelAvailability
  | DK_WebhookCallback

datatype (plugins only: code size) delayed_compute_thunk_status =
    DS_Pending
  | DS_Resumed
  | DS_Cancelled
  | DS_Expired

datatype (plugins only: code size) continuation_boundary =
    CB_GoalWorkflow
  | CB_TaskDispatch
  | CB_ApprovalGate
  | CB_EventWait
  | CB_ExternalCallback

datatype (plugins only: code size) continuation_resume_action =
    CRA_MarkRunnable
  | CRA_ApplyFeedback
  | CRA_ApplyApproval
  | CRA_InjectTask
  | CRA_Replan
  | CRA_Cancel

record continuation_ref =
  con_continuation_id :: string
  con_boundary :: continuation_boundary
  con_state_ref :: string
  con_resume_actions :: "continuation_resume_action list"

datatype (plugins only: code size) wait_ref_kind =
    WRK_HumanThread
  | WRK_NotificationOutbox
  | WRK_SqsMessage
  | WRK_WebhookCorrelation
  | WRK_CalendarEvent
  | WRK_DurableTimer
  | WRK_RunnerCapacity
  | WRK_ModelRoute

record wait_ref =
  wr_kind :: wait_ref_kind
  wr_reference :: string

record delayed_compute_thunk_resume_record =
  trr_responder :: string
  trr_response_summary :: string
  trr_artifact_refs :: "artifact_ref list"

record delayed_compute_thunk_resume_request =
  trq_thunk_id :: uuid
  trq_responder :: string
  trq_response_summary :: string
  trq_artifact_refs :: "artifact_ref list"

record delayed_compute_thunk_request =
  dtr_goal_id :: uuid
  dtr_task_id :: "uuid option"
  dtr_kind :: delayed_compute_thunk_kind
  dtr_reason :: string
  dtr_requested_input :: "string option"
  dtr_wait_ref :: "wait_ref option"
  dtr_continuation :: continuation_ref
  dtr_timeout_seconds :: "nat option"

record delayed_compute_thunk =
  dt_id :: uuid
  dt_goal_id :: uuid
  dt_task_id :: "uuid option"
  dt_kind :: delayed_compute_thunk_kind
  dt_status :: delayed_compute_thunk_status
  dt_reason :: string
  dt_requested_input :: "string option"
  dt_wait_ref :: "wait_ref option"
  dt_continuation :: continuation_ref
  dt_timeout_seconds :: "nat option"
  dt_created_at :: string
  dt_resumed_at :: "string option"
  dt_resume_record :: "delayed_compute_thunk_resume_record option"

record agent_run_result =
  res_task_id :: uuid
  res_status :: worker_run_status
  res_summary :: string
  res_review :: "review_output option"
  res_research :: "research_output option"
  res_branch_vote :: "branch_vote_output option"
  res_runner_id :: "string option"
  res_model_used :: "model_candidate option"
  res_mcp_context_used :: "mcp_context_ref option"
  res_sandbox_attestation :: "sandbox_attestation option"
  res_artifacts :: "artifact_ref list"
  res_git_result :: "git_result_ref option"
  res_object_artifacts :: "object_storage_artifact_ref list"
  res_checkpoints :: "checkpoint_ref list"
  res_test_evidence :: "test_command_evidence list"
  res_child_requests :: "child_task_request list"
  res_delayed_compute_thunks :: "delayed_compute_thunk_request list"
  res_confidence :: f32
  res_next_actions :: "string list"
  res_diagnostics :: "string list"
  res_notification_reports :: "notification_delivery_report list"

record validation_report =
  vr_goal_id :: uuid
  vr_task_id :: uuid
  vr_passed :: bool
  vr_score :: f32
  vr_review :: "review_output option"
  vr_research :: "research_output option"
  vr_branch_vote :: "branch_vote_output option"
  vr_sandbox_attestation :: "sandbox_attestation option"
  vr_status_after_validation :: task_status
  vr_reasons :: "string list"
  vr_missing_criteria :: "string list"
  vr_child_requests :: "child_task_request list"
  vr_artifacts :: "artifact_ref list"
  vr_git_result :: "git_result_ref option"
  vr_object_artifacts :: "object_storage_artifact_ref list"
  vr_checkpoints :: "checkpoint_ref list"
  vr_test_evidence :: "test_command_evidence list"

record validation_request =
  vrq_goal_id :: uuid
  vrq_task :: task_node
  vrq_result :: agent_run_result

datatype (plugins only: code size) domain_error =
    DE_TaskNotFound uuid
  | DE_SpawnDenied string
  | DE_SteeringDenied string
  | DE_RestartDenied string
  | DE_BranchDenied string
  | DE_BranchGroupNotFound uuid
  | DE_MechanismDenied string
  | DE_MechanismRoundNotFound uuid
  | DE_ApprovalNotFound uuid
  | DE_ApprovalDenied string
  | DE_CycleDetected uuid
  | DE_InvariantViolation string

text \<open>The \<open>Display\<close> of an error, as \<open>thiserror\<close> derives it from the \<open>#[error]\<close> texts.\<close>

fun domain_error_display :: "domain_error \<Rightarrow> string" where
  "domain_error_display (DE_TaskNotFound t) = ''task not found: '' @ t"
| "domain_error_display (DE_SpawnDenied m) = ''spawn denied: '' @ m"
| "domain_error_display (DE_SteeringDenied m) = ''steering denied: '' @ m"
| "domain_error_display (DE_RestartDenied m) = ''restart denied: '' @ m"
| "domain_error_display (DE_BranchDenied m) = ''branch denied: '' @ m"
| "domain_error_display (DE_BranchGroupNotFound i) = ''branch group not found: '' @ i"
| "domain_error_display (DE_MechanismDenied m) = ''mechanism denied: '' @ m"
| "domain_error_display (DE_MechanismRoundNotFound i) = ''mechanism round not found: '' @ i"
| "domain_error_display (DE_ApprovalNotFound i) = ''approval not found: '' @ i"
| "domain_error_display (DE_ApprovalDenied m) = ''approval denied: '' @ m"
| "domain_error_display (DE_CycleDetected t) = ''cycle detected from task: '' @ t"
| "domain_error_display (DE_InvariantViolation m) = ''invariant violation: '' @ m"

section \<open>Derived orders\<close>

definition task_status_rank :: "task_status \<Rightarrow> nat" where
  "task_status_rank s = (case s of TS_Pending \<Rightarrow> 0 | TS_Runnable \<Rightarrow> 1 | TS_Running \<Rightarrow> 2
     | TS_NeedsValidation \<Rightarrow> 3 | TS_WaitingApproval \<Rightarrow> 4 | TS_WaitingInput \<Rightarrow> 5 | TS_Done \<Rightarrow> 6
     | TS_Blocked \<Rightarrow> 7 | TS_Failed \<Rightarrow> 8 | TS_Cancelled \<Rightarrow> 9)"

lemma task_status_rank_inject: "task_status_rank x = task_status_rank y \<longleftrightarrow> x = y"
  by (cases x; cases y) (simp_all add: task_status_rank_def)

instantiation task_status :: linorder
begin

definition less_eq_task_status :: "task_status \<Rightarrow> task_status \<Rightarrow> bool" where
  "less_eq_task_status x y \<longleftrightarrow> task_status_rank x \<le> task_status_rank y"

definition less_task_status :: "task_status \<Rightarrow> task_status \<Rightarrow> bool" where
  "less_task_status x y \<longleftrightarrow> task_status_rank x < task_status_rank y"

instance
  by standard (auto simp: less_eq_task_status_def less_task_status_def
      task_status_rank_inject [symmetric])

end

lemma priority_rank_inject: "priority_rank x = priority_rank y \<longleftrightarrow> x = y"
  by (cases x; cases y) simp_all

section \<open>Purposes\<close>

fun is_work_like :: "task_purpose \<Rightarrow> bool" where
  "is_work_like TP_Work = True"
| "is_work_like (TP_ActorRetry _ _) = True"
| "is_work_like (TP_CandidateBranch _ _ _) = True"
| "is_work_like _ = False"

fun is_review :: "task_purpose \<Rightarrow> bool" where
  "is_review (TP_Review _ _) = True"
| "is_review _ = False"

fun is_review_doctrine_subject :: "task_purpose \<Rightarrow> bool" where
  "is_review_doctrine_subject (TP_Review _ _) = True"
| "is_review_doctrine_subject (TP_Unification _ _) = True"
| "is_review_doctrine_subject (TP_BranchVote _ _) = True"
| "is_review_doctrine_subject (TP_BranchUnification _ _ _) = True"
| "is_review_doctrine_subject _ = False"

fun is_unification :: "task_purpose \<Rightarrow> bool" where
  "is_unification (TP_Unification _ _) = True"
| "is_unification (TP_BranchUnification _ _ _) = True"
| "is_unification _ = False"

fun is_research :: "task_purpose \<Rightarrow> bool" where
  "is_research (TP_Research _) = True"
| "is_research _ = False"

fun branch_group_id :: "task_purpose \<Rightarrow> uuid option" where
  "branch_group_id (TP_CandidateBranch g _ _) = Some g"
| "branch_group_id (TP_BranchVote g _) = Some g"
| "branch_group_id (TP_BranchUnification g _ _) = Some g"
| "branch_group_id _ = None"

fun purpose_kind :: "task_purpose \<Rightarrow> task_purpose_kind" where
  "purpose_kind TP_Work = TPK_Work"
| "purpose_kind (TP_Review _ _) = TPK_Review"
| "purpose_kind (TP_Unification _ _) = TPK_Unification"
| "purpose_kind (TP_ActorRetry _ _) = TPK_ActorRetry"
| "purpose_kind (TP_CandidateBranch _ _ _) = TPK_CandidateBranch"
| "purpose_kind (TP_BranchVote _ _) = TPK_BranchVote"
| "purpose_kind (TP_BranchUnification _ _ _) = TPK_BranchUnification"
| "purpose_kind (TP_Research _) = TPK_Research"

definition graph_color_ref_new :: "string \<Rightarrow> string \<Rightarrow> string \<Rightarrow> string \<Rightarrow> graph_color_ref" where
  "graph_color_ref_new k l h m = (| gc_key = k, gc_label = l, gc_hex = h, gc_meaning = m |)"

definition color_root :: graph_color_ref where
  "color_root = graph_color_ref_new ''root'' ''Root'' ''#2f6f73''
     ''goal root, planner context, and global coordination''"

fun for_purpose_kind :: "task_purpose_kind \<Rightarrow> graph_color_ref" where
  "for_purpose_kind TPK_Work = graph_color_ref_new ''work'' ''Work'' ''#2563eb''
     ''primary actor implementation or operational work''"
| "for_purpose_kind TPK_Review = graph_color_ref_new ''review'' ''Review'' ''#9333ea''
     ''critic review, code quality, safety, and evidence inspection''"
| "for_purpose_kind TPK_Unification = graph_color_ref_new ''unification'' ''Unification'' ''#0f766e''
     ''fork/join synthesis and merge decisions''"
| "for_purpose_kind TPK_ActorRetry = graph_color_ref_new ''actor_retry'' ''Actor Retry'' ''#ea580c''
     ''bounded actor retry after critic feedback''"
| "for_purpose_kind TPK_CandidateBranch = graph_color_ref_new ''candidate_branch'' ''Candidate'' ''#db2777''
     ''competing branch candidate in a forked implementation''"
| "for_purpose_kind TPK_BranchVote = graph_color_ref_new ''branch_vote'' ''Vote'' ''#7c3aed''
     ''branch competition review or vote''"
| "for_purpose_kind TPK_BranchUnification =
     graph_color_ref_new ''branch_unification'' ''Branch Unification'' ''#0891b2''
     ''branch result selection and promotion''"
| "for_purpose_kind TPK_Research = graph_color_ref_new ''research'' ''Research'' ''#16a34a''
     ''sourced research, web search, memory lookup, and information-use planning''"

section \<open>Budgets\<close>

definition default_goal :: budget where
  "default_goal = (| bu_max_tokens = 2000000, bu_remaining_tokens = 2000000,
     bu_max_runtime_seconds = 14400, bu_remaining_runtime_seconds = 14400,
     bu_max_tool_calls = 2000, bu_remaining_tool_calls = 2000,
     bu_max_child_tasks = 64, bu_remaining_child_tasks = 64, bu_max_patch_size = 500000 |)"

definition child_budget :: "budget \<Rightarrow> budget" where
  "child_budget b = (|
     bu_max_tokens = bu_max_tokens b div 4,
     bu_remaining_tokens = bu_remaining_tokens b div 4,
     bu_max_runtime_seconds = bu_max_runtime_seconds b div 4,
     bu_remaining_runtime_seconds = bu_remaining_runtime_seconds b div 4,
     bu_max_tool_calls = bu_max_tool_calls b div 4,
     bu_remaining_tool_calls = bu_remaining_tool_calls b div 4,
     bu_max_child_tasks = min (bu_max_child_tasks b) 8,
     bu_remaining_child_tasks = min (bu_remaining_child_tasks b) 8,
     bu_max_patch_size = bu_max_patch_size b div 2 |)"

definition is_exhausted :: "budget \<Rightarrow> bool" where
  "is_exhausted b \<longleftrightarrow> bu_remaining_tokens b = 0 \<or> bu_remaining_runtime_seconds b = 0 \<or>
     bu_remaining_tool_calls b = 0"

section \<open>A task from a request\<close>

definition from_child_request ::
  "uuid \<Rightarrow> uuid \<Rightarrow> task_node \<Rightarrow> child_task_request \<Rightarrow> graph_color_ref option \<Rightarrow> task_node" where
  "from_child_request new_id parent_id parent req subgoal_color =
     (let role = ctr_role req;
          purpose = (case ctr_purpose req of Some p \<Rightarrow> p | None \<Rightarrow> TP_Work);
          execution = (case ctr_execution req of Some e \<Rightarrow> e
                       | None \<Rightarrow> with_role role (tn_execution parent));
          color = (case ctr_color req of Some c \<Rightarrow> Some c
                   | None \<Rightarrow> (case subgoal_color of Some c \<Rightarrow> Some c
                             | None \<Rightarrow> Some (for_purpose_kind (purpose_kind purpose))))
      in (| tn_id = new_id, tn_parent_id = Some parent_id, tn_goal_id = tn_goal_id parent,
            tn_depth = tn_depth parent + 1, tn_status = TS_Runnable, tn_role = role,
            tn_purpose = purpose,
            tn_title = (case ctr_title req of Some t \<Rightarrow> t | None \<Rightarrow> tn_title parent),
            tn_subgoal_id = ctr_subgoal_id req, tn_execution = execution,
            tn_prompt = ctr_prompt req, tn_dependencies = ctr_dependencies req,
            tn_children = [],
            tn_budget = (case ctr_budget req of Some b \<Rightarrow> b | None \<Rightarrow> child_budget (tn_budget parent)),
            tn_sandbox = (case ctr_sandbox req of Some s \<Rightarrow> s | None \<Rightarrow> tn_sandbox parent),
            tn_done_criteria = (case ctr_done_criteria req of Some d \<Rightarrow> d | None \<Rightarrow> tn_done_criteria parent),
            tn_review_doctrine =
              (case ctr_review_doctrine req of Some d \<Rightarrow> d | None \<Rightarrow> tn_review_doctrine parent),
            tn_priority = ctr_priority req, tn_tags = ctr_tags req, tn_color = color,
            tn_result = None, tn_attempts = 0 |))"

lemma from_child_request_fields [simp]:
  "tn_id (from_child_request i p t r c) = i"
  "tn_parent_id (from_child_request i p t r c) = Some p"
  "tn_goal_id (from_child_request i p t r c) = tn_goal_id t"
  "tn_depth (from_child_request i p t r c) = Suc (tn_depth t)"
  "tn_status (from_child_request i p t r c) = TS_Runnable"
  "tn_role (from_child_request i p t r c) = ctr_role r"
  "tn_children (from_child_request i p t r c) = []"
  "tn_dependencies (from_child_request i p t r c) = ctr_dependencies r"
  "tn_attempts (from_child_request i p t r c) = 0"
  "tn_result (from_child_request i p t r c) = None"
  "tn_purpose (from_child_request i p t r c) =
     (case ctr_purpose r of Some u \<Rightarrow> u | None \<Rightarrow> TP_Work)"
  "tn_budget (from_child_request i p t r c) =
     (case ctr_budget r of Some b \<Rightarrow> b | None \<Rightarrow> child_budget (tn_budget t))"
  by (simp_all add: from_child_request_def Let_def)

section \<open>Artifacts and stub results\<close>

definition git_as_artifact :: "git_result_ref \<Rightarrow> artifact_ref" where
  "git_as_artifact g = (|
     ar_kind = (if gr_commit g \<noteq> None then AK_GitCommit else AK_GitBranch),
     ar_uri = (case gr_commit g of
                 Some c \<Rightarrow> ''git+branch://'' @ gr_branch g @ ''?commit='' @ c
               | None \<Rightarrow> ''git+branch://'' @ gr_branch g),
     ar_description = ''git result branch '' @ gr_branch g, ar_sha256 = None |)"

definition object_as_artifact :: "object_storage_artifact_ref \<Rightarrow> artifact_ref" where
  "object_as_artifact x = (| ar_kind = AK_ObjectStorageObject, ar_uri = oa_uri x,
     ar_description = oa_description x, ar_sha256 = oa_sha256 x |)"

definition result_artifacts :: "agent_run_result \<Rightarrow> artifact_ref list" where
  "result_artifacts r =
     res_artifacts r
     @ (case res_git_result r of Some g \<Rightarrow> [git_as_artifact g] | None \<Rightarrow> [])
     @ map object_as_artifact (res_object_artifacts r)"

text \<open>\<open>Uuid::new_v4()\<close> and the clock of \<open>metadata_for_task\<close> are arguments here.\<close>

definition metadata_for_task :: "uuid \<Rightarrow> string \<Rightarrow> task_node \<Rightarrow> string \<Rightarrow> string \<Rightarrow> checkpoint_ref" where
  "metadata_for_task new_id now t label summary = (|
     cr_id = new_id, cr_goal_id = tn_goal_id t, cr_task_id = tn_id t,
     cr_parent_checkpoint_id = None, cr_kind = CK_Metadata, cr_label = label,
     cr_summary = summary,
     cr_artifact = (| ar_kind = AK_Checkpoint,
       ar_uri = ''checkpoint://goal/'' @ tn_goal_id t @ ''/task/'' @ tn_id t @ ''/'' @ label,
       ar_description = ''metadata checkpoint'', ar_sha256 = None |),
     cr_git_result = None, cr_object_artifact = None, cr_sequence = None,
     cr_created_at = Some now |)"

definition stub_pass :: "uuid \<Rightarrow> test_command_evidence" where
  "stub_pass task_id = (| te_command = ''stub test evidence'', te_exit_code = Some 0,
     te_passed = True, te_duration_ms = Some 0,
     te_stdout_uri = Some (''memory://test-evidence/'' @ task_id @ ''/stdout''),
     te_stderr_uri = None, te_artifact_uri = Some (''memory://test-evidence/'' @ task_id),
     te_notes = [''Stub evidence validates the contract shape only; live runners should record real commands.''] |)"

definition stub_review :: "f32 \<Rightarrow> string option \<Rightarrow> review_output" where
  "stub_review reward summary = (| rv_decision = RD_Accept, rv_reward = reward, rv_findings = [],
     rv_objective_results = [], rv_gate_results = [], rv_retry_recommended = False,
     rv_unification_summary = summary |)"

fun review_for_task_purpose :: "task_purpose \<Rightarrow> review_output option" where
  "review_for_task_purpose (TP_Review _ _) = Some (stub_review f32_0_9 None)"
| "review_for_task_purpose (TP_Unification _ _) =
     Some (stub_review f32_0_9 (Some ''stub unification accepted reviewer evidence''))"
| "review_for_task_purpose (TP_BranchUnification _ _ _) =
     Some (stub_review f32_0_9 (Some ''stub unification accepted reviewer evidence''))"
| "review_for_task_purpose (TP_BranchVote _ _) =
     Some (stub_review f32_0_8 (Some ''stub vote selected a branch candidate''))"
| "review_for_task_purpose _ = None"

definition review_for_task :: "task_node \<Rightarrow> review_output option" where
  "review_for_task t =
     (case review_for_task_purpose (tn_purpose t) of
        None \<Rightarrow> None
      | Some r \<Rightarrow> Some (r (| rv_objective_results := stub_objective_results (tn_review_doctrine t),
                             rv_gate_results := stub_gate_results (tn_review_doctrine t) |)))"

definition stub_branch_vote :: "uuid \<Rightarrow> uuid list \<Rightarrow> branch_vote_output option" where
  "stub_branch_vote g cs =
     (case cs of
        [] \<Rightarrow> None
      | c # _ \<Rightarrow> Some (| bvo_group_id = g, bvo_selected_task_id = c, bvo_ranked_task_ids = cs,
          bvo_confidence = f32_0_75,
          bvo_rationale = ''stub branch vote selected the first candidate'' |))"

fun branch_vote_for_task_purpose :: "task_purpose \<Rightarrow> branch_vote_output option" where
  "branch_vote_for_task_purpose (TP_BranchVote g cs) = stub_branch_vote g cs"
| "branch_vote_for_task_purpose (TP_BranchUnification g cs _) = stub_branch_vote g cs"
| "branch_vote_for_task_purpose _ = None"

fun research_for_task_purpose :: "task_purpose \<Rightarrow> research_output option" where
  "research_for_task_purpose (TP_Research q) = Some (| rso_question = q,
     rso_answer = ''stub research result; live search worker is not enabled'',
     rso_sources = [(| srca_title = ''stub research source'', srca_uri = ''memory://research/stub'',
       srca_quality = SQ_Unknown, srca_captured_at = None, srca_quote = None,
       srca_summary = ''placeholder source proving the structured research contract'',
       srca_confidence = f32_0_75 |)],
     rso_confidence = f32_0_75,
     rso_use_plan = information_use_plan_default
       (| iup_facts_to_use := [''Treat this as a placeholder until a live research worker runs.''],
          iup_validation_checks := [''replace stub source with live source capture''] |),
     rso_open_questions = [] |)"
| "research_for_task_purpose _ = None"

definition blocks_validation :: "review_finding \<Rightarrow> bool" where
  "blocks_validation f \<longleftrightarrow> rf_severity f \<in> {RS_High, RS_Critical} \<or>
     (case rf_priority f of Some p \<Rightarrow> p \<le> 1 | None \<Rightarrow> False)"

definition not_required :: approval_evaluation where
  "not_required = (| ae_required = False, ae_risk = AR_Low, ae_reason_codes = [],
     ae_reason = ''approval not required'' |)"

end
