(* ===== verification/Rust_Order.thy ===== *)
theory Rust_Order
  imports Prelude
begin

text \<open>
  Comparator-driven operations of the Rust standard library: \<open>slice::sort_by\<close>, which is
  a stable sort, and \<open>Iterator::max_by\<close>, which returns the last of several maximal
  elements.  A comparator is given by \<open>le x y\<close>, "\<open>cmp(x, y)\<close> is not \<open>Greater\<close>".

  The locale \<open>comparator\<close> is the contract the callers rely on (a total preorder); the
  model's comparators, for task queues, runner candidates, tallies and scores,
  interpret it where they are defined.
\<close>

fun insert_by :: "('a \<Rightarrow> 'a \<Rightarrow> bool) \<Rightarrow> 'a \<Rightarrow> 'a list \<Rightarrow> 'a list" where
  "insert_by le x [] = [x]"
| "insert_by le x (y # ys) = (if le x y then x # y # ys else y # insert_by le x ys)"

definition sort_by :: "('a \<Rightarrow> 'a \<Rightarrow> bool) \<Rightarrow> 'a list \<Rightarrow> 'a list" where
  "sort_by le xs = foldr (insert_by le) xs []"

fun max_from :: "('a \<Rightarrow> 'a \<Rightarrow> bool) \<Rightarrow> 'a \<Rightarrow> 'a list \<Rightarrow> 'a" where
  "max_from le b [] = b"
| "max_from le b (x # xs) = max_from le (if le b x then x else b) xs"

fun max_by :: "('a \<Rightarrow> 'a \<Rightarrow> bool) \<Rightarrow> 'a list \<Rightarrow> 'a option" where
  "max_by le [] = None"
| "max_by le (x # xs) = Some (max_from le x xs)"

lemma set_insert_by [simp]: "set (insert_by le x xs) = insert x (set xs)"
  by (induction xs) auto

lemma length_insert_by [simp]: "length (insert_by le x xs) = Suc (length xs)"
  by (induction xs) auto

lemma distinct_insert_by [simp]:
  "distinct (insert_by le x xs) \<longleftrightarrow> x \<notin> set xs \<and> distinct xs"
  by (induction xs) auto

lemma sort_by_Nil [simp]: "sort_by le [] = []"
  by (simp add: sort_by_def)

lemma sort_by_Cons [simp]: "sort_by le (x # xs) = insert_by le x (sort_by le xs)"
  by (simp add: sort_by_def)

lemma set_sort_by [simp]: "set (sort_by le xs) = set xs"
  by (induction xs) auto

lemma length_sort_by [simp]: "length (sort_by le xs) = length xs"
  by (induction xs) auto

lemma distinct_sort_by [simp]: "distinct (sort_by le xs) = distinct xs"
  by (induction xs) auto

lemma sort_by_eq_Nil [simp]: "sort_by le xs = [] \<longleftrightarrow> xs = []"
  by (metis length_0_conv length_sort_by)

lemma max_from_mem: "max_from le b xs = b \<or> max_from le b xs \<in> set xs"
proof (induction xs arbitrary: b)
  case (Cons x xs)
  from Cons [of x] Cons [of b] show ?case by auto
qed simp

lemma max_by_mem: "max_by le xs = Some m \<Longrightarrow> m \<in> set xs"
  using max_from_mem by (cases xs) fastforce+

lemma max_by_None [simp]: "max_by le xs = None \<longleftrightarrow> xs = []"
  by (cases xs) auto

locale comparator =
  fixes le :: "'a \<Rightarrow> 'a \<Rightarrow> bool"
  assumes le_total: "le x y \<or> le y x"
    and le_trans: "le x y \<Longrightarrow> le y z \<Longrightarrow> le x z"
begin

lemma le_refl: "le x x"
  using le_total [of x x] by simp

lemma insert_by_sorted: "sorted_wrt le xs \<Longrightarrow> sorted_wrt le (insert_by le x xs)"
proof (induction xs)
  case (Cons y ys)
  show ?case
  proof (cases "le x y")
    case True
    with Cons.prems show ?thesis by (auto intro: le_trans)
  next
    case False
    then have "le y x" using le_total by blast
    with False Cons show ?thesis by auto
  qed
qed simp

lemma sort_by_sorted: "sorted_wrt le (sort_by le xs)"
  by (induction xs) (auto intro: insert_by_sorted)

lemma sort_by_head_least: "sort_by le xs = y # ys \<Longrightarrow> x \<in> set xs \<Longrightarrow> le y x"
  using sort_by_sorted [of xs] le_refl set_sort_by [of le xs]
  by (metis list.set_intros(1) set_ConsD sorted_wrt.simps(2))

lemma max_from_upper: "le b (max_from le b xs) \<and> (\<forall>x \<in> set xs. le x (max_from le b xs))"
proof (induction xs arbitrary: b)
  case Nil
  then show ?case by (simp add: le_refl)
next
  case (Cons x xs)
  let ?c = "if le b x then x else b"
  from Cons [of ?c] have *: "le ?c (max_from le ?c xs)" "\<forall>y \<in> set xs. le y (max_from le ?c xs)"
    by auto
  have "le b ?c" "le x ?c" using le_total [of b x] le_refl by auto
  with * show ?case by (auto intro: le_trans)
qed

lemma max_by_upper: "max_by le xs = Some m \<Longrightarrow> x \<in> set xs \<Longrightarrow> le x m"
  using max_from_upper by (cases xs) auto

text \<open>The stable sort keeps the relative order of elements that compare equal.\<close>

lemma insert_by_filter_equal:
  "sorted_wrt le xs \<Longrightarrow>
   filter (\<lambda>y. le y z \<and> le z y) (insert_by le x xs) = filter (\<lambda>y. le y z \<and> le z y) (x # xs)"
proof (induction xs)
  case (Cons y ys)
  then show ?case
  proof (cases "le x y")
    case False
    then have "le y x" using le_total by blast
    with False have "\<not> (le x z \<and> le z x \<and> le y z \<and> le z y)" by (blast intro: le_trans)
    with False Cons show ?thesis by auto
  qed simp
qed simp

lemma sort_by_stable:
  "filter (\<lambda>y. le y z \<and> le z y) (sort_by le xs) = filter (\<lambda>y. le y z \<and> le z y) xs"
  by (induction xs) (use insert_by_filter_equal sort_by_sorted in auto)

end

text \<open>A comparator that compares a key in a linear order.\<close>

lemma comparator_key: "comparator (\<lambda>x y. (f x :: 'k :: linorder) \<le> f y)"
  by unfold_locales (auto intro: order_trans)

text \<open>Rust's \<open>Ordering::then_with\<close>: the second comparator decides ties of the first.\<close>

definition then_with :: "('a \<Rightarrow> 'a \<Rightarrow> bool) \<Rightarrow> ('a \<Rightarrow> 'a \<Rightarrow> bool) \<Rightarrow> 'a \<Rightarrow> 'a \<Rightarrow> bool" where
  "then_with le1 le2 x y \<longleftrightarrow> le1 x y \<and> (le1 y x \<longrightarrow> le2 x y)"

lemma comparator_then_with:
  assumes "comparator le1" and "comparator le2"
  shows "comparator (then_with le1 le2)"
proof -
  note t = comparator.le_total [OF assms(1)] comparator.le_total [OF assms(2)]
  note r = comparator.le_trans [OF assms(1)] comparator.le_trans [OF assms(2)]
  show ?thesis
  proof
    show "then_with le1 le2 x y \<or> then_with le1 le2 y x" for x y
      unfolding then_with_def using t [of x y] by blast
    show "then_with le1 le2 x z" if "then_with le1 le2 x y" "then_with le1 le2 y z" for x y z
      using that r unfolding then_with_def by meson
  qed
qed

end
