(* ===== verification/Task_Tree.thy ===== *)
theory Task_Tree
  imports Goal_Model Rust_Order
begin

text \<open>
  The durable task tree of a goal: \<open>GoalState::new\<close>, \<open>insert_child_task\<close> and
  \<open>materialize_child_task\<close>, \<open>runnable_tasks\<close>, \<open>mark_running\<close> and \<open>SpawnPolicy\<close>
  (\<open>crates/domain/src/lib.rs\<close>), with the invariant \<open>wf_tree\<close>: every task is stored under
  its id, belongs to the goal, hangs below a stored parent that lists it exactly once and
  is one level less deep, and exactly one task is the root.  \<open>wf_world\<close> adds that the
  identifiers still to be drawn are new, which is what \<open>Uuid::new_v4()\<close> documents.
\<close>

section \<open>Operations\<close>

definition subgoal_color :: "'a goal_state_scheme \<Rightarrow> string \<Rightarrow> graph_color_ref option" where
  "subgoal_color s i =
     (case find (\<lambda>g. sg_id g = i) (pl_subgoals (gsp_plan (gs_goal s))) of
        None \<Rightarrow> None | Some g \<Rightarrow> sg_color g)"

definition materialize_child_task ::
  "'a goal_state_scheme \<Rightarrow> uuid \<Rightarrow> uuid \<Rightarrow> task_node \<Rightarrow> child_task_request \<Rightarrow> task_node" where
  "materialize_child_task s child_id parent_id parent_snapshot request =
     from_child_request child_id parent_id parent_snapshot request
       (case ctr_subgoal_id request of None \<Rightarrow> None | Some i \<Rightarrow> subgoal_color s i)"

definition push_child :: "uuid \<Rightarrow> task_node \<Rightarrow> task_node" where
  "push_child c t = t (| tn_children := tn_children t @ [c] |)"

definition insert_task :: "uuid \<Rightarrow> (world \<Rightarrow> task_node) \<Rightarrow> unit wop" where
  "insert_task i f = update (\<lambda>w. w (| gs_tasks := bt_insert i (f w) (gs_tasks w) |))"

definition insert_child_task :: "uuid \<Rightarrow> task_node \<Rightarrow> child_task_request \<Rightarrow> uuid wop" where
  "insert_child_task parent_id parent_snapshot request =
     bindR new_uuid (\<lambda>child_id.
     bindR (modify_task parent_id (push_child child_id)) (\<lambda>_.
     bindR (insert_task child_id (\<lambda>w. materialize_child_task w child_id parent_id parent_snapshot request))
       (\<lambda>_. ok child_id)))"

definition ensure_spawn_allowed ::
  "spawn_policy \<Rightarrow> task_node \<Rightarrow> child_task_request list \<Rightarrow> domain_error + unit" where
  "ensure_spawn_allowed p parent requested =
     (if tn_depth parent \<ge> sw_max_depth p then Inl (DE_SpawnDenied ''max_depth exceeded'')
      else if length requested > sw_max_children_per_task p
        then Inl (DE_SpawnDenied ''max_children_per_task exceeded'')
      else if bu_remaining_child_tasks (tn_budget parent) < length requested mod 2 ^ 32
        then Inl (DE_SpawnDenied ''remaining_child_tasks exhausted'')
      else if bu_remaining_tokens (tn_budget parent) < sw_min_remaining_tokens p
        then Inl (DE_SpawnDenied ''remaining_tokens too low'')
      else if bu_remaining_runtime_seconds (tn_budget parent) < sw_min_remaining_runtime_seconds p
        then Inl (DE_SpawnDenied ''remaining_runtime_seconds too low'')
      else Inr ())"

definition root_of :: "goal_spec \<Rightarrow> uuid \<Rightarrow> task_node" where
  "root_of goal root_id = (|
     tn_id = root_id, tn_parent_id = None, tn_goal_id = gsp_id goal, tn_depth = 0,
     tn_status = TS_Runnable, tn_role = WK_Planner, tn_purpose = TP_Work,
     tn_title = gsp_title goal, tn_subgoal_id = None,
     tn_execution = with_role WK_Planner (gsp_default_execution goal),
     tn_prompt = gsp_objective goal, tn_dependencies = [], tn_children = [],
     tn_budget = gsp_root_budget goal, tn_sandbox = sandbox_profile_default,
     tn_done_criteria = gsp_done_criteria goal,
     tn_review_doctrine = rvp_doctrine (gsp_review_policy goal),
     tn_priority = TPR_High, tn_tags = [''root''], tn_color = Some color_root,
     tn_result = None, tn_attempts = 0 |)"

definition initial_state :: "goal_spec \<Rightarrow> uuid \<Rightarrow> world \<Rightarrow> world" where
  "initial_state goal root_id w = w (|
     gs_goal := goal, gs_tasks := [(root_id, root_of goal root_id)], gs_status := GS_Running,
     gs_approvals := [], gs_delayed_compute_thunks := [], gs_goal_priority_votes := [],
     gs_goal_ranking_decisions := [], gs_mechanism_rounds := [], gs_final_artifacts := [],
     gs_checkpoints := [], gs_review_rounds := [], gs_satisfaction := None,
     gs_learning_signals := [], gs_steering_directives := [], gs_restart_history := [],
     gs_branch_groups := [], gs_branch_votes := [], gs_timeout_events := [],
     gs_memory_events := [], gs_events := [] |)"

text \<open>
  \<open>GoalState::new\<close>: the state in front of the call only supplies the tapes.  The two
  \<open>expect\<close> calls concern the root that has just been inserted.
\<close>

definition goal_state_new :: "goal_spec \<Rightarrow> unit wop" where
  "goal_state_new goal =
     bindR new_uuid (\<lambda>root_id.
     bindR (update (initial_state goal root_id)) (\<lambda>_.
     bindR (for_each (gsp_initial_tasks goal) (\<lambda>request.
              bindR (insert_child_task root_id (root_of goal root_id) request) (\<lambda>child_id.
              push_event (''initial_task_spawned:'' @ child_id)))) (\<lambda>_.
     push_event ''goal_started'')))"

definition dependencies_done :: "'a goal_state_scheme \<Rightarrow> task_node \<Rightarrow> bool" where
  "dependencies_done s t \<longleftrightarrow>
     (\<forall>i \<in> set (tn_dependencies t).
        case bt_get (gs_tasks s) i of Some d \<Rightarrow> is_terminal_ok (tn_status d) | None \<Rightarrow> False)"

definition queue_le :: "task_node \<Rightarrow> task_node \<Rightarrow> bool" where
  "queue_le = then_with (\<lambda>x y. priority_rank (tn_priority y) \<le> priority_rank (tn_priority x))
                (then_with (\<lambda>x y. tn_depth x \<le> tn_depth y) (\<lambda>x y. tn_id x \<le> tn_id y))"

definition runnable_tasks :: "'a goal_state_scheme \<Rightarrow> task_node list" where
  "runnable_tasks s =
     sort_by queue_le
       (filter (\<lambda>t. tn_status t = TS_Runnable \<and> dependencies_done s t) (bt_values (gs_tasks s)))"

definition mark_running :: "uuid \<Rightarrow> unit wop" where
  "mark_running i =
     bindR (lift_result (ensure_goal_accepts_mutation ''mark task running'')) (\<lambda>_.
     bindR (lift_result (ensure_task_accepts_mutation i ''mark task running'')) (\<lambda>_.
     bindR (task_mut i) (\<lambda>t.
       if tn_status t \<noteq> TS_Runnable
       then fail (DE_InvariantViolation (''cannot mark task '' @ i @ '' running from status ''
              @ task_status_debug (tn_status t)))
       else bindR (put_task i (\<lambda>t. t (| tn_status := TS_Running, tn_attempts := tn_attempts t + 1 |)))
              (\<lambda>_. push_event (''task_running:'' @ i)))))"

section \<open>The ready queue\<close>

interpretation queue: comparator queue_le
  unfolding queue_le_def
  by (intro comparator_then_with comparator_key) (unfold_locales, auto)

lemma queue_le_iff:
  "queue_le x y \<longleftrightarrow>
     priority_rank (tn_priority y) < priority_rank (tn_priority x) \<or>
     tn_priority x = tn_priority y \<and>
       (tn_depth x < tn_depth y \<or> tn_depth x = tn_depth y \<and> tn_id x \<le> tn_id y)"
  unfolding queue_le_def then_with_def
  by (auto simp: priority_rank_inject [symmetric])

lemma set_runnable_tasks:
  "set (runnable_tasks s) =
     {t \<in> set (bt_values (gs_tasks s)). tn_status t = TS_Runnable \<and> dependencies_done s t}"
  by (auto simp: runnable_tasks_def)

section \<open>Well-formed task trees\<close>

text \<open>The part of a task that status changes leave alone.\<close>

definition task_shape :: "task_node \<Rightarrow> uuid \<times> uuid option \<times> uuid \<times> nat \<times> uuid list" where
  "task_shape t = (tn_id t, tn_parent_id t, tn_goal_id t, tn_depth t, tn_children t)"

definition child_link_ok :: "(uuid, task_node) btree \<Rightarrow> task_node \<Rightarrow> bool" where
  "child_link_ok m t \<longleftrightarrow>
     (case tn_parent_id t of
        None \<Rightarrow> tn_depth t = 0
      | Some p \<Rightarrow> \<exists>u. bt_get m p = Some u \<and> tn_depth t = Suc (tn_depth u) \<and> tn_id t \<in> set (tn_children u))"

definition children_ok :: "(uuid, task_node) btree \<Rightarrow> task_node \<Rightarrow> bool" where
  "children_ok m t \<longleftrightarrow>
     distinct (tn_children t) \<and>
     (\<forall>c \<in> set (tn_children t). \<exists>u. bt_get m c = Some u \<and> tn_parent_id u = Some (tn_id t))"

definition node_ok :: "uuid \<Rightarrow> (uuid, task_node) btree \<Rightarrow> uuid \<Rightarrow> task_node \<Rightarrow> bool" where
  "node_ok g m i t \<longleftrightarrow> tn_id t = i \<and> tn_goal_id t = g \<and> child_link_ok m t \<and> children_ok m t"

definition wf_tree :: "uuid \<Rightarrow> (uuid, task_node) btree \<Rightarrow> bool" where
  "wf_tree g m \<longleftrightarrow>
     bt_wf m \<and> (\<forall>i t. bt_get m i = Some t \<longrightarrow> node_ok g m i t) \<and>
     (\<exists>!r. \<exists>t. bt_get m r = Some t \<and> tn_parent_id t = None)"

definition fresh_uuids :: "world \<Rightarrow> bool" where
  "fresh_uuids w \<longleftrightarrow>
     inj (uuid_tape w) \<and> (\<forall>n \<ge> uuids_drawn w. bt_get (gs_tasks w) (uuid_tape w n) = None)"

definition wf_world :: "world \<Rightarrow> bool" where
  "wf_world w \<longleftrightarrow> wf_tree (gsp_id (gs_goal w)) (gs_tasks w) \<and> fresh_uuids w"

text \<open>The tree depends on the shapes only.\<close>

definition same_shapes :: "(uuid, task_node) btree \<Rightarrow> (uuid, task_node) btree \<Rightarrow> bool" where
  "same_shapes m n \<longleftrightarrow>
     bt_wf n \<and> (\<forall>i. map_option task_shape (bt_get n i) = map_option task_shape (bt_get m i))"

lemma same_shapes_get:
  "same_shapes m n \<Longrightarrow> bt_get n i = Some t \<Longrightarrow> \<exists>u. bt_get m i = Some u \<and> task_shape t = task_shape u"
  unfolding same_shapes_def
  by (cases "bt_get m i") (metis option.simps(8,9) option.distinct(1), metis option.simps(9) option.inject)

lemma same_shapes_sym: "bt_wf m \<Longrightarrow> same_shapes m n \<Longrightarrow> same_shapes n m"
  by (simp add: same_shapes_def)

lemma same_shapes_None: "same_shapes m n \<Longrightarrow> bt_get n i = None \<longleftrightarrow> bt_get m i = None"
  unfolding same_shapes_def by (metis option.map_disc_iff)

lemma node_ok_same_shapes:
  assumes s: "bt_wf m" "same_shapes m n" and t: "task_shape t = task_shape u" and u: "node_ok g m i u"
  shows "node_ok g n i t"
proof -
  have rev_get: "\<exists>y. bt_get n j = Some y \<and> task_shape y = task_shape x" if "bt_get m j = Some x" for j x
    using same_shapes_get [OF same_shapes_sym [OF s]] that by metis
  show ?thesis
    using u t rev_get unfolding node_ok_def child_link_ok_def children_ok_def task_shape_def
    by (fastforce split: option.splits)
qed

lemma wf_tree_same_shapes:
  assumes wf: "wf_tree g m" and s: "same_shapes m n"
  shows "wf_tree g n"
proof -
  have m: "bt_wf m" "bt_wf n" using wf s by (simp_all add: wf_tree_def same_shapes_def)
  have "node_ok g n i t" if "bt_get n i = Some t" for i t
    using same_shapes_get [OF s that] wf node_ok_same_shapes [OF m(1) s] by (auto simp: wf_tree_def)
  moreover have "(\<exists>t. bt_get n r = Some t \<and> tn_parent_id t = None) \<longleftrightarrow>
      (\<exists>t. bt_get m r = Some t \<and> tn_parent_id t = None)" for r
    using same_shapes_get [OF s, of r] same_shapes_get [OF same_shapes_sym [OF m(1) s], of r]
    by (force simp: task_shape_def)
  ultimately show ?thesis using wf m(2) by (simp add: wf_tree_def)
qed

lemma same_shapes_refl: "bt_wf m \<Longrightarrow> same_shapes m m"
  by (simp add: same_shapes_def)

lemma same_shapes_adjust:
  "bt_wf m \<Longrightarrow> (\<And>t. task_shape (f t) = task_shape t) \<Longrightarrow> same_shapes m (bt_adjust i f m)"
  by (auto simp: same_shapes_def get_adjust option.map_comp comp_def)

lemma same_shapes_map_values:
  "bt_wf m \<Longrightarrow> (\<And>t. task_shape (f t) = task_shape t) \<Longrightarrow> same_shapes m (bt_map_values f m)"
  by (auto simp: same_shapes_def get_map_values option.map_comp comp_def)

text \<open>A step that changes neither the shapes, the goal's id nor the tapes keeps the invariant.\<close>

lemma wf_world_same:
  assumes "wf_world w" and "same_shapes (gs_tasks w) (gs_tasks v)"
    and "gsp_id (gs_goal v) = gsp_id (gs_goal w)"
    and "uuid_tape v = uuid_tape w" and "uuids_drawn w \<le> uuids_drawn v"
  shows "wf_world v"
  using assms wf_tree_same_shapes same_shapes_None [OF assms(2)]
  unfolding wf_world_def fresh_uuids_def by auto

lemma wf_world_bt [simp]: "wf_world w \<Longrightarrow> bt_wf (gs_tasks w)"
  by (simp add: wf_world_def wf_tree_def)

lemma wf_world_get:
  "wf_world w \<Longrightarrow> bt_get (gs_tasks w) i = Some t \<Longrightarrow> node_ok (gsp_id (gs_goal w)) (gs_tasks w) i t"
  by (simp add: wf_world_def wf_tree_def)

lemma wf_world_id: "wf_world w \<Longrightarrow> bt_get (gs_tasks w) i = Some t \<Longrightarrow> tn_id t = i"
  using wf_world_get node_ok_def by blast

lemma wf_world_values:
  assumes "wf_world w"
  shows "t \<in> set (bt_values (gs_tasks w)) \<longleftrightarrow> bt_get (gs_tasks w) (tn_id t) = Some t"
proof
  assume "t \<in> set (bt_values (gs_tasks w))"
  then obtain k where "(k, t) \<in> set (gs_tasks w)" by (auto simp: bt_values_def)
  then have "bt_get (gs_tasks w) k = Some t"
    using btree.entries_get [OF wf_world_bt [OF assms]] by simp
  with wf_world_id [OF assms this] show "bt_get (gs_tasks w) (tn_id t) = Some t" by simp
qed (rule get_Some_values)

section \<open>Snapshots\<close>

text \<open>
  Handlers clone a task and use the clone after further mutations.  \<open>knows T\<close> says that
  the invariant holds and every clone in \<open>T\<close> is still right about depth and goal.
\<close>

definition knows :: "task_node set \<Rightarrow> world \<Rightarrow> bool" where
  "knows T w \<longleftrightarrow> wf_world w \<and>
     (\<forall>t \<in> T. \<exists>u. bt_get (gs_tasks w) (tn_id t) = Some u \<and> tn_depth u = tn_depth t \<and>
        tn_goal_id u = tn_goal_id t)"

lemma knows_empty: "knows {} = wf_world"
  by (simp add: knows_def fun_eq_iff)

lemma knows_wf: "knows T w \<Longrightarrow> wf_world w"
  by (simp add: knows_def)

lemma knows_insert:
  "knows (insert t T) w \<longleftrightarrow> knows T w \<and>
     (\<exists>u. bt_get (gs_tasks w) (tn_id t) = Some u \<and> tn_depth u = tn_depth t \<and>
        tn_goal_id u = tn_goal_id t)"
  by (auto simp: knows_def)

lemma knows_same:
  assumes k: "knows T w" and s: "same_shapes (gs_tasks w) (gs_tasks v)"
    and "gsp_id (gs_goal v) = gsp_id (gs_goal w)"
    and "uuid_tape v = uuid_tape w" and "uuids_drawn w \<le> uuids_drawn v"
  shows "knows T v"
proof -
  have "\<exists>y. bt_get (gs_tasks v) j = Some y \<and> task_shape y = task_shape x"
    if "bt_get (gs_tasks w) j = Some x" for j x
    using same_shapes_get [OF same_shapes_sym [OF wf_world_bt [OF knows_wf [OF k]] s]] that by metis
  then have "\<exists>u. bt_get (gs_tasks v) (tn_id t) = Some u \<and> tn_depth u = tn_depth t \<and>
      tn_goal_id u = tn_goal_id t" if "t \<in> T" for t
    using k that by (fastforce simp: knows_def task_shape_def)
  with wf_world_same [OF knows_wf [OF k] assms(2-5)] show ?thesis by (simp add: knows_def)
qed

section \<open>Preservation by the building blocks\<close>

lemma preserves_wf_update:
  assumes "\<And>w. wf_world w \<Longrightarrow> same_shapes (gs_tasks w) (gs_tasks (f w))"
    and "\<And>w. gsp_id (gs_goal (f w)) = gsp_id (gs_goal w)"
    and "\<And>w. uuid_tape (f w) = uuid_tape w" and "\<And>w. uuids_drawn w \<le> uuids_drawn (f w)"
  shows "preserves (knows T) (update f)"
  by (rule preserves_update) (rule knows_same, assumption, (simp_all add: assms knows_wf)?)

lemma preserves_wf_frame:
  assumes "\<And>w. gs_tasks (f w) = gs_tasks w" and "\<And>w. gsp_id (gs_goal (f w)) = gsp_id (gs_goal w)"
    and "\<And>w. uuid_tape (f w) = uuid_tape w" and "\<And>w. uuids_drawn (f w) = uuids_drawn w"
  shows "preserves (knows T) (update f)"
  by (rule preserves_wf_update) (simp_all add: assms same_shapes_refl)

lemma preserves_wf_push_event [preserves_rules]: "preserves (knows T) (push_event m)"
  unfolding push_event_def by (rule preserves_wf_frame) simp_all

lemma preserves_wf_new_uuid [preserves_rules]: "preserves (knows T) new_uuid"
  unfolding new_uuid_def
  by (rule preserves_draw, rule knows_same, assumption) (simp_all add: same_shapes_refl knows_wf)

lemma preserves_wf_now [preserves_rules]: "preserves (knows T) now"
  unfolding now_def
  by (rule preserves_draw, rule knows_same, assumption) (simp_all add: same_shapes_refl knows_wf)

lemma preserves_task_mut: "preserves P (task_mut i)"
  unfolding task_mut_def by (intro preserves_rules)

lemma run_task_mut [simp]: "task_mut i w = (task w i, w)"
  by (simp add: task_mut_def)

text \<open>After \<open>self.task(i)?\<close> the task read is a snapshot of the state.\<close>

lemma preserves_wf_task [preserves_rules]:
  assumes "\<And>t. tn_id t = i \<Longrightarrow> preserves (knows (insert t T)) (f t)"
  shows "preserves (knows T) (bindR (task_mut i) f)"
proof (rule preservesI)
  fix w assume k: "knows T w"
  show "knows T (snd (bindR (task_mut i) f w))"
  proof (cases "task w i")
    case (Inl e)
    with k show ?thesis by (simp add: bindR_def)
  next
    case (Inr t)
    then have t: "bt_get (gs_tasks w) i = Some t" by simp
    with k have i: "tn_id t = i" using wf_world_id knows_wf by blast
    with k t have "knows (insert t T) w" by (simp add: knows_insert)
    with assms [OF i] have "knows (insert t T) (snd (f t w))" by (rule preservesD)
    with t show ?thesis by (simp add: bindR_def knows_insert task_def)
  qed
qed

definition get_root :: "task_node wop" where
  "get_root = reads (\<lambda>w. lift_result (\<lambda>_. root_task w))"

lemma run_get_root [simp]: "get_root w = (root_task w, w)"
  by (simp add: get_root_def)

lemma root_task_Inr:
  assumes "root_task s = Inr t"
  shows "t \<in> set (bt_values (gs_tasks s))" and "tn_parent_id t = None"
  using assms by (auto simp: root_task_def find_Some_iff split: option.splits)

lemma preserves_wf_root [preserves_rules]:
  assumes "\<And>t. preserves (knows (insert t T)) (f t)"
  shows "preserves (knows T) (bindR get_root f)"
proof (rule preservesI)
  fix w assume k: "knows T w"
  show "knows T (snd (bindR get_root f w))"
  proof (cases "root_task w")
    case (Inl e)
    with k show ?thesis by (simp add: bindR_def)
  next
    case (Inr t)
    with k have "knows (insert t T) w"
      using root_task_Inr [OF Inr] wf_world_values [OF knows_wf [OF k]] by (simp add: knows_insert)
    with assms have "knows (insert t T) (snd (f t w))" by (rule preservesD)
    with Inr show ?thesis by (simp add: bindR_def knows_insert)
  qed
qed

lemma preserves_wf_put_task [preserves_rules]:
  "(\<And>t. task_shape (f t) = task_shape t) \<Longrightarrow> preserves (knows T) (put_task i f)"
  unfolding put_task_def by (rule preserves_wf_update) (simp_all add: same_shapes_adjust)

lemma preserves_wf_modify_task [preserves_rules]:
  "(\<And>t. task_shape (f t) = task_shape t) \<Longrightarrow> preserves (knows T) (modify_task i f)"
  unfolding modify_task_def by (intro preserves_bindR preserves_task_mut preserves_wf_put_task)

lemma preserves_wf_set_task_status [preserves_rules]: "preserves (knows T) (set_task_status i s)"
  unfolding set_task_status_def by (intro preserves_rules) (simp add: task_shape_def)

lemma preserves_wf_mark_running [preserves_rules]: "preserves (knows T) (mark_running i)"
  unfolding mark_running_def by (intro preserves_rules) (simp add: task_shape_def)

section \<open>Inserting a child\<close>

lemma wf_tree_insert_child:
  assumes wf: "wf_tree g m" and p: "bt_get m p = Some u" and c: "bt_get m c = None"
    and new: "tn_id t = c" "tn_parent_id t = Some p" "tn_goal_id t = g"
      "tn_depth t = Suc (tn_depth u)" "tn_children t = []"
  shows "wf_tree g (bt_insert c t (bt_adjust p (push_child c) m))" (is "wf_tree g ?n")
proof -
  have bt: "bt_wf m" and node: "\<And>i x. bt_get m i = Some x \<Longrightarrow> node_ok g m i x"
    using wf by (auto simp: wf_tree_def)
  have cp: "c \<noteq> p" using p c by auto
  have get: "bt_get ?n i = (if i = c then Some t else if i = p then Some (push_child c u) else bt_get m i)"
    for i using p by (simp add: get_insert get_adjust)
  have c_not_child: "c \<notin> set (tn_children x)" if "bt_get m i = Some x" for i x
    using node [OF that] c by (auto simp: node_ok_def children_ok_def)
  have kept: "\<exists>y. bt_get ?n i = Some y \<and> tn_id y = tn_id x \<and> tn_parent_id y = tn_parent_id x \<and>
      tn_depth y = tn_depth x \<and> set (tn_children x) \<subseteq> set (tn_children y)"
    if "bt_get m i = Some x" for i x
    using that p c by (auto simp: get push_child_def)
  have old: "node_ok g ?n i x'" if x: "bt_get m i = Some x" and x': "bt_get ?n i = Some x'" for i x x'
  proof -
    from x c have "i \<noteq> c" by auto
    have same: "tn_id x' = tn_id x" "tn_goal_id x' = tn_goal_id x" "tn_parent_id x' = tn_parent_id x"
      "tn_depth x' = tn_depth x"
      "tn_children x' = (if i = p then tn_children x @ [c] else tn_children x)"
      using x x' \<open>i \<noteq> c\<close> p by (auto simp: get push_child_def split: if_splits)
    have "child_link_ok ?n x'"
      using node [OF x] kept same by (fastforce simp: node_ok_def child_link_ok_def split: option.splits)
    moreover have "\<exists>v. bt_get ?n d = Some v \<and> tn_parent_id v = Some (tn_id x')"
      if "d \<in> set (tn_children x')" for d
    proof (cases "d \<in> set (tn_children x)")
      case True
      then show ?thesis using node [OF x] kept same by (fastforce simp: node_ok_def children_ok_def)
    next
      case False
      with that same have "d = c" "i = p" by (auto split: if_splits)
      then show ?thesis using new same node [OF x] by (simp add: get node_ok_def)
    qed
    moreover have "distinct (tn_children x')"
      using node [OF x] same c_not_child [OF x] by (auto simp: node_ok_def children_ok_def)
    ultimately show ?thesis using node [OF x] same by (simp add: node_ok_def children_ok_def)
  qed
  have "node_ok g ?n c t"
    using new cp p node [OF p] by (simp add: node_ok_def child_link_ok_def children_ok_def get push_child_def)
  then have "node_ok g ?n i x'" if "bt_get ?n i = Some x'" for i x'
    using that old [of i _ x'] p by (cases "bt_get m i") (auto simp: get split: if_splits)
  moreover have "(\<exists>x. bt_get ?n r = Some x \<and> tn_parent_id x = None) \<longleftrightarrow>
      (\<exists>x. bt_get m r = Some x \<and> tn_parent_id x = None)" for r
    using p c new by (auto simp: get push_child_def)
  moreover have "bt_wf ?n" using bt by (simp add: bt_wf_insert)
  ultimately show ?thesis using wf by (simp add: wf_tree_def)
qed

lemma run_insert_child_task:
  "insert_child_task p snap req w =
     (let c = uuid_tape w (uuids_drawn w); w1 = w (| uuids_drawn := Suc (uuids_drawn w) |)
      in case bt_get (gs_tasks w) p of
           None \<Rightarrow> (Inl (DE_TaskNotFound p), w1)
         | Some _ \<Rightarrow> (Inr c, w1 (| gs_tasks := bt_insert c (materialize_child_task w c p snap req)
                        (bt_adjust p (push_child c) (gs_tasks w)) |)))"
  by (simp add: insert_child_task_def new_uuid_def modify_task_def put_task_def insert_task_def
      Let_def bindR_def task_def materialize_child_task_def subgoal_color_def split: option.splits)

lemma knows_insert_child_task:
  assumes k: "knows T w" and snap: "snap \<in> T" "tn_id snap = p"
  shows "knows T (snd (insert_child_task p snap req w))"
proof -
  let ?c = "uuid_tape w (uuids_drawn w)"
  let ?t = "materialize_child_task w ?c p snap req"
  let ?n = "bt_insert ?c ?t (bt_adjust p (push_child ?c) (gs_tasks w))"
  let ?v = "w (| uuids_drawn := Suc (uuids_drawn w), gs_tasks := ?n |)"
  note wf = knows_wf [OF k]
  obtain u where u: "bt_get (gs_tasks w) p = Some u" "tn_depth u = tn_depth snap"
      "tn_goal_id u = tn_goal_id snap"
    using k snap by (auto simp: knows_def)
  have c: "bt_get (gs_tasks w) ?c = None" using wf by (simp add: wf_world_def fresh_uuids_def)
  have g: "tn_goal_id snap = gsp_id (gs_goal w)" using wf_world_get [OF wf u(1)] u by (simp add: node_ok_def)
  have tree: "wf_tree (gsp_id (gs_goal w)) ?n"
    using wf u g c by (intro wf_tree_insert_child [OF _ u(1) c]) (auto simp: wf_world_def materialize_child_task_def)
  have "bt_get ?n (uuid_tape w n) = None" if "n > uuids_drawn w" for n
  proof -
    have "uuid_tape w n \<noteq> ?c"
      using wf that by (metis fresh_uuids_def wf_world_def injD less_irrefl)
    moreover have "bt_get (gs_tasks w) (uuid_tape w n) = None"
      using wf that by (simp add: wf_world_def fresh_uuids_def)
    ultimately show ?thesis using u by (auto simp: get_insert get_adjust)
  qed
  with wf have "fresh_uuids ?v" by (simp add: wf_world_def fresh_uuids_def)
  with tree have "wf_world ?v" by (simp add: wf_world_def)
  moreover have "\<exists>y. bt_get ?n i = Some y \<and> tn_depth y = tn_depth x \<and> tn_goal_id y = tn_goal_id x"
    if "bt_get (gs_tasks w) i = Some x" for i x
    using that c by (auto simp: get_insert get_adjust push_child_def)
  ultimately have "knows T ?v" using k by (fastforce simp: knows_def)
  then show ?thesis using u by (simp add: run_insert_child_task Let_def)
qed

lemma preserves_wf_insert_child_task [preserves_rules]:
  "snap \<in> T \<Longrightarrow> tn_id snap = p \<Longrightarrow> preserves (knows T) (insert_child_task p snap req)"
  by (rule preservesI) (rule knows_insert_child_task)

section \<open>A new goal\<close>

lemma wf_initial_state:
  assumes "inj (uuid_tape w)" and "\<And>n. uuids_drawn w \<le> n \<Longrightarrow> uuid_tape w n \<noteq> r"
  shows "knows {root_of goal r} (initial_state goal r w)"
proof -
  have get: "bt_get [(r, root_of goal r)] i = (if i = r then Some (root_of goal r) else None)" for i
    by (simp add: bt_get_def)
  have root: "tn_id (root_of goal r) = r" "tn_goal_id (root_of goal r) = gsp_id goal"
      "tn_parent_id (root_of goal r) = None" "tn_depth (root_of goal r) = 0"
      "tn_children (root_of goal r) = []"
    by (simp_all add: root_of_def)
  have "wf_tree (gsp_id goal) [(r, root_of goal r)]"
    unfolding wf_tree_def using root
    by (auto simp: get bt_wf_def node_ok_def child_link_ok_def children_ok_def)
  moreover have "fresh_uuids (initial_state goal r w)"
    using assms by (auto simp: fresh_uuids_def initial_state_def get)
  ultimately show ?thesis
    using root by (auto simp: knows_def wf_world_def initial_state_def get)
qed

lemma goal_state_new_wf:
  assumes "inj (uuid_tape w)"
  shows "wf_world (snd (goal_state_new goal w))"
proof -
  let ?r = "uuid_tape w (uuids_drawn w)"
  let ?w = "w (| uuids_drawn := Suc (uuids_drawn w) |)"
  let ?body = "bindR (for_each (gsp_initial_tasks goal) (\<lambda>request.
              bindR (insert_child_task ?r (root_of goal ?r) request) (\<lambda>child_id.
              push_event (''initial_task_spawned:'' @ child_id)))) (\<lambda>_. push_event ''goal_started'')"
  have "uuid_tape ?w n \<noteq> ?r" if "uuids_drawn ?w \<le> n" for n
    using assms that by (auto dest: injD)
  then have "knows {root_of goal ?r} (initial_state goal ?r ?w)"
    using assms by (intro wf_initial_state) simp_all
  moreover have "preserves (knows {root_of goal ?r}) ?body"
    by (intro preserves_rules) (simp_all add: root_of_def)
  ultimately have "knows {root_of goal ?r} (snd (?body (initial_state goal ?r ?w)))"
    by (rule preservesD [rotated])
  then show ?thesis
    unfolding goal_state_new_def by (simp add: new_uuid_def knows_def)
qed

end
