(* ===== verification/Samples.thy ===== *)
theory Samples
  imports Task_Tree
begin

text \<open>
  Concrete goals, tasks and worlds on which the properties are instantiated.  The
  identifiers drawn during a run are numerals behind a \<open>#\<close>, so that they never repeat.
\<close>

definition sample_goal :: goal_spec where
  "sample_goal = (|
     gsp_id = ''g'', gsp_title = ''ship'', gsp_objective = ''ship it'', gsp_repo = None,
     gsp_authoring = goal_authoring_guidance_default, gsp_plan = goal_plan_default,
     gsp_root_budget = default_goal, gsp_done_criteria = done_criteria_default,
     gsp_review_policy = review_policy_default, gsp_control_policy = control_loop_policy_default,
     gsp_research_policy = research_policy_default, gsp_memory_policy = memory_policy_default,
     gsp_approval_policy = approval_gate_policy_default,
     gsp_restart_policy = restart_policy_default, gsp_timeout_policy = timeout_policy_default,
     gsp_branching_policy = branching_policy_default,
     gsp_ranking_policy = goal_ranking_policy_default,
     gsp_mechanism_policy = mechanism_policy_default,
     gsp_default_execution = execution_profile_default, gsp_initial_tasks = [] |)"

definition sample_tape :: "nat \<Rightarrow> uuid" where
  "sample_tape n = CHR ''#'' # dec n"

definition world_of :: "goal_spec \<Rightarrow> task_node list \<Rightarrow> world" where
  "world_of goal ts = (|
     gs_goal = goal, gs_tasks = bt_of_list (map (\<lambda>t. (tn_id t, t)) ts), gs_status = GS_Running,
     gs_approvals = [], gs_delayed_compute_thunks = [], gs_goal_priority_votes = [],
     gs_goal_ranking_decisions = [], gs_mechanism_rounds = [], gs_final_artifacts = [],
     gs_checkpoints = [], gs_review_rounds = [], gs_satisfaction = None,
     gs_learning_signals = [], gs_steering_directives = [], gs_restart_history = [],
     gs_branch_groups = [], gs_branch_votes = [], gs_timeout_events = [],
     gs_memory_events = [], gs_events = [],
     uuid_tape = sample_tape, uuids_drawn = 0, clock_tape = dec, clock_reads = 0 |)"

definition sample_task :: "uuid \<Rightarrow> task_status \<Rightarrow> task_node" where
  "sample_task i st = (root_of sample_goal i) (| tn_status := st |)"

lemma inj_sample_tape [simp]: "inj sample_tape"
  by (rule injI) (simp add: sample_tape_def)

lemma sample_goal_simps [simp]:
  "gsp_id sample_goal = ''g''" "gsp_initial_tasks sample_goal = []"
  "gsp_review_policy sample_goal = review_policy_default"
  "gsp_control_policy sample_goal = control_loop_policy_default"
  "gsp_approval_policy sample_goal = approval_gate_policy_default"
  "gsp_restart_policy sample_goal = restart_policy_default"
  "gsp_timeout_policy sample_goal = timeout_policy_default"
  "gsp_branching_policy sample_goal = branching_policy_default"
  "gsp_ranking_policy sample_goal = goal_ranking_policy_default"
  "gsp_mechanism_policy sample_goal = mechanism_policy_default"
  "gsp_done_criteria sample_goal = done_criteria_default"
  by (simp_all add: sample_goal_def)

lemma sample_task_simps [simp]:
  "tn_id (sample_task i st) = i" "tn_status (sample_task i st) = st"
  "tn_parent_id (sample_task i st) = None" "tn_depth (sample_task i st) = 0"
  "tn_goal_id (sample_task i st) = ''g''" "tn_dependencies (sample_task i st) = []"
  "tn_children (sample_task i st) = []" "tn_purpose (sample_task i st) = TP_Work"
  "tn_role (sample_task i st) = WK_Planner" "tn_priority (sample_task i st) = TPR_High"
  "tn_attempts (sample_task i st) = 0" "tn_subgoal_id (sample_task i st) = None"
  "tn_sandbox (sample_task i st) = sandbox_profile_default"
  "tn_budget (sample_task i st) = default_goal"
  "tn_execution (sample_task i st) = with_role WK_Planner execution_profile_default"
  "tn_tags (sample_task i st) = [''root'']"
  by (simp_all add: sample_task_def root_of_def) (simp_all add: sample_goal_def)

lemma world_of_simps [simp]:
  "gs_goal (world_of g ts) = g" "gs_status (world_of g ts) = GS_Running"
  "gs_approvals (world_of g ts) = []" "gs_delayed_compute_thunks (world_of g ts) = []"
  "gs_review_rounds (world_of g ts) = []" "gs_learning_signals (world_of g ts) = []"
  "gs_steering_directives (world_of g ts) = []" "gs_restart_history (world_of g ts) = []"
  "gs_branch_groups (world_of g ts) = []" "gs_branch_votes (world_of g ts) = []"
  "gs_timeout_events (world_of g ts) = []" "gs_mechanism_rounds (world_of g ts) = []"
  "gs_goal_priority_votes (world_of g ts) = []" "gs_events (world_of g ts) = []"
  "gs_satisfaction (world_of g ts) = None" "gs_final_artifacts (world_of g ts) = []"
  "uuid_tape (world_of g ts) = sample_tape" "uuids_drawn (world_of g ts) = 0"
  "clock_tape (world_of g ts) = dec" "clock_reads (world_of g ts) = 0"
  by (simp_all add: world_of_def)

lemma world_of_none [simp]: "gs_tasks (world_of g []) = []"
  by (simp add: world_of_def bt_of_list_def)

lemma world_of_one [simp]: "gs_tasks (world_of g [t]) = [(tn_id t, t)]"
  by (simp add: world_of_def bt_of_list_def)

lemma get_one [simp]: "bt_get [(k, v)] i = (if i = k then Some v else None)"
  by (simp add: bt_get_def)

lemma values_one [simp]: "bt_values [(k, v)] = [v]"
  by (simp add: bt_values_def)

text \<open>A world with a single root task satisfies the tree invariant.\<close>

lemma wf_world_of_goal:
  assumes "gsp_id goal = ''g''" and "i \<noteq> []" and "hd i \<noteq> CHR ''#''"
  shows "wf_world (world_of goal [sample_task i st])"
proof -
  have "sample_tape n \<noteq> i" for n using assms(2,3) by (auto simp: sample_tape_def)
  with assms(1) show ?thesis
    by (auto simp: wf_world_def wf_tree_def fresh_uuids_def bt_wf_def node_ok_def child_link_ok_def
        children_ok_def)
qed

lemma wf_world_of_one:
  assumes "i \<noteq> []" and "hd i \<noteq> CHR ''#''"
  shows "wf_world (world_of sample_goal [sample_task i st])"
  by (rule wf_world_of_goal) (simp_all add: assms)

end
