(* ===== verification/Scheduling.thy ===== *)
theory Scheduling
  imports Samples
begin

text \<open>
  What the scheduler may rely on: a new goal starts with a well-formed tree, the ready
  queue holds exactly the runnable tasks whose dependencies are done, in dispatch order,
  and a task is handed out at most once.
\<close>

section \<open>A new goal\<close>

lemma length_insert_new: "bt_get m k = None \<Longrightarrow> length (bt_insert k v m) = Suc (length m)"
  by (induction m) (auto simp: bt_get_def split: if_splits)

lemma length_adjust [simp]: "length (bt_adjust k f m) = length m"
  by (simp add: bt_adjust_def)

lemma bind_push_event:
  "bindR (push_event m) h w = h () (w (| gs_events := gs_events w @ [state_event_new m] |))"
  by (simp add: push_event_def)

definition same_goal :: "goal_spec \<Rightarrow> nat \<Rightarrow> world \<Rightarrow> bool" where
  "same_goal goal n w \<longleftrightarrow> gs_goal w = goal \<and> gs_status w = GS_Running \<and> length (gs_tasks w) = n"

lemma run_initial_tasks:
  assumes "knows {root_of goal r} w" and "same_goal goal n w"
  shows "\<exists>us v. for_each requests (\<lambda>request.
      bindR (insert_child_task r (root_of goal r) request) (\<lambda>c. push_event (m c))) w = (Inr us, v) \<and>
    knows {root_of goal r} v \<and> same_goal goal (n + length requests) v"
  using assms
proof (induction requests arbitrary: w n)
  case (Cons q qs)
  let ?c = "uuid_tape w (uuids_drawn w)"
  have root: "bt_get (gs_tasks w) r \<noteq> None"
    using Cons.prems(1) by (auto simp: knows_def root_of_def)
  have free: "bt_get (gs_tasks w) ?c = None"
    using Cons.prems(1) by (simp add: knows_def wf_world_def fresh_uuids_def)
  obtain x w1 where ins: "insert_child_task r (root_of goal r) q w = (Inr x, w1)"
    using root by (auto simp: run_insert_child_task Let_def)
  have "bt_get (bt_adjust r f (gs_tasks w)) ?c = None" for f
    using root free by (auto simp: get_adjust)
  with ins root have g1: "same_goal goal (Suc n) w1"
    using Cons.prems(2)
    by (auto simp: run_insert_child_task Let_def same_goal_def length_insert_new)
  have k1: "knows {root_of goal r} w1"
    using knows_insert_child_task [OF Cons.prems(1), of "root_of goal r" r q] ins
    by (simp add: root_of_def)
  let ?w2 = "w1 (| gs_events := gs_events w1 @ [state_event_new (m x)] |)"
  have "knows {root_of goal r} ?w2"
    using preservesD [OF preserves_wf_push_event k1] by (simp add: push_event_def)
  moreover have "same_goal goal (Suc n) ?w2" using g1 by (simp add: same_goal_def)
  ultimately obtain us v where loop: "for_each qs (\<lambda>request.
      bindR (insert_child_task r (root_of goal r) request) (\<lambda>c. push_event (m c))) ?w2 = (Inr us, v)"
      and v: "knows {root_of goal r} v" "same_goal goal (Suc n + length qs) v"
    using Cons.IH by blast
  have "bindR (insert_child_task r (root_of goal r) q) f w = f x w1" for f :: "uuid \<Rightarrow> unit list wop"
    using ins by (simp add: bindR_def)
  moreover have "bindR (for_each qs (\<lambda>request. bindR (insert_child_task r (root_of goal r) request)
      (\<lambda>c. push_event (m c)))) f ?w2 = f us v" for f :: "unit list \<Rightarrow> unit list wop"
    using loop by (simp add: bindR_def)
  ultimately show ?case using v by (simp add: bind_push_event)
qed simp

text \<open>
  C15: Starting a goal always succeeds.  The new state belongs to the goal, is running, holds
  the root and one task per initial request of the specification and nothing else, and its
  task tree is well formed: ids and map keys agree, every task but the root hangs below a
  parent that lists it once and is one level less deep.  The only assumption is that
  \<open>Uuid::new_v4()\<close> does not repeat.
\<close>
theorem new_goal_starts_well_formed:
  assumes "inj (uuid_tape w)"
  shows "\<exists>v. goal_state_new goal w = (Inr (), v) \<and> wf_world v \<and> gs_goal v = goal \<and>
    gs_status v = GS_Running \<and> length (gs_tasks v) = Suc (length (gsp_initial_tasks goal))"
proof -
  let ?r = "uuid_tape w (uuids_drawn w)"
  let ?w = "w (| uuids_drawn := Suc (uuids_drawn w) |)"
  have "uuid_tape ?w n \<noteq> ?r" if "uuids_drawn ?w \<le> n" for n
    using assms that by (auto dest: injD)
  then have k: "knows {root_of goal ?r} (initial_state goal ?r ?w)"
    using assms by (intro wf_initial_state) simp_all
  have "same_goal goal 1 (initial_state goal ?r ?w)" by (simp add: same_goal_def initial_state_def)
  from run_initial_tasks [OF k this, where m = "\<lambda>c. ''initial_task_spawned:'' @ c"]
  obtain us v where loop: "for_each (gsp_initial_tasks goal) (\<lambda>request.
      bindR (insert_child_task ?r (root_of goal ?r) request)
        (\<lambda>c. push_event (''initial_task_spawned:'' @ c))) (initial_state goal ?r ?w) = (Inr us, v)"
    and v: "same_goal goal (1 + length (gsp_initial_tasks goal)) v" by blast
  let ?v = "v (| gs_events := gs_events v @ [state_event_new ''goal_started''] |)"
  have run: "goal_state_new goal w = (Inr (), ?v)"
    using loop by (simp add: goal_state_new_def new_uuid_def bindR_def push_event_def)
  moreover have "wf_world ?v" using goal_state_new_wf [OF assms, of goal] run by simp
  ultimately show ?thesis using v by (simp add: same_goal_def)
qed

theorem new_goal_starts_well_formed_witness:
  "\<exists>v. goal_state_new sample_goal (world_of sample_goal []) = (Inr (), v) \<and> wf_world v \<and>
    gs_goal v = sample_goal \<and> gs_status v = GS_Running \<and> length (gs_tasks v) = 1"
  using new_goal_starts_well_formed [of "world_of sample_goal []" sample_goal] by simp

section \<open>The ready queue\<close>

text \<open>
  C8: The ready queue of a goal is exact and ordered.  A task is in \<open>runnable_tasks\<close> iff it
  is stored, its status is Runnable and every dependency is a stored task that is Done (an
  unknown dependency blocks it); no task is listed twice; and each task comes after all
  tasks of higher priority, among equal priority after the shallower ones, and then in the
  order of the ids.
\<close>
theorem ready_queue_exact_and_ordered:
  assumes "wf_world w"
  shows "(t \<in> set (runnable_tasks w) \<longleftrightarrow>
      bt_get (gs_tasks w) (tn_id t) = Some t \<and> tn_status t = TS_Runnable \<and>
      (\<forall>i \<in> set (tn_dependencies t). \<exists>d. bt_get (gs_tasks w) i = Some d \<and> tn_status d = TS_Done)) \<and>
    distinct (runnable_tasks w) \<and>
    sorted_wrt (\<lambda>x y. priority_rank (tn_priority y) < priority_rank (tn_priority x) \<or>
        tn_priority x = tn_priority y \<and>
          (tn_depth x < tn_depth y \<or> tn_depth x = tn_depth y \<and> tn_id x < tn_id y))
      (runnable_tasks w)"
proof (intro conjI)
  show "t \<in> set (runnable_tasks w) \<longleftrightarrow> bt_get (gs_tasks w) (tn_id t) = Some t \<and>
      tn_status t = TS_Runnable \<and>
      (\<forall>i \<in> set (tn_dependencies t). \<exists>d. bt_get (gs_tasks w) i = Some d \<and> tn_status d = TS_Done)"
    unfolding set_runnable_tasks dependencies_done_def
    by (auto simp: wf_world_values [OF assms] split: option.splits)
  have "distinct (map fst (gs_tasks w))" by (rule bt_wf_distinct) (use assms in simp)
  moreover have ids: "map tn_id (bt_values (gs_tasks w)) = map fst (gs_tasks w)"
    unfolding bt_values_def map_map
  proof (rule map_cong [OF refl])
    fix p assume "p \<in> set (gs_tasks w)"
    then have "bt_get (gs_tasks w) (fst p) = Some (snd p)"
      using btree.entries_get [OF wf_world_bt [OF assms], of "fst p" "snd p"] by simp
    from wf_world_id [OF assms this] show "(tn_id \<circ> snd) p = fst p" by simp
  qed
  ultimately have inj: "distinct (map tn_id (bt_values (gs_tasks w)))" by simp
  then show d: "distinct (runnable_tasks w)"
    by (simp add: runnable_tasks_def distinct_map)
  have *: "x = y" if "x \<in> set (runnable_tasks w)" "y \<in> set (runnable_tasks w)" "tn_id x = tn_id y" for x y
    using that inj by (auto simp: runnable_tasks_def distinct_map inj_on_def)
  have "sorted_wrt (\<lambda>x y. queue_le x y \<and> x \<noteq> y) (runnable_tasks w)"
    using queue.sort_by_sorted d unfolding runnable_tasks_def
    by (simp add: sorted_wrt_iff_nth_less distinct_conv_nth)
  then show "sorted_wrt (\<lambda>x y. priority_rank (tn_priority y) < priority_rank (tn_priority x) \<or>
        tn_priority x = tn_priority y \<and>
          (tn_depth x < tn_depth y \<or> tn_depth x = tn_depth y \<and> tn_id x < tn_id y))
      (runnable_tasks w)"
    by (rule sorted_wrt_mono_rel [rotated]) (auto simp: queue_le_iff dest: *)
qed

theorem ready_queue_exact_and_ordered_witness:
  "sample_task ''a'' TS_Runnable \<in> set (runnable_tasks (world_of sample_goal [sample_task ''a'' TS_Runnable]))"
  using ready_queue_exact_and_ordered
    [of "world_of sample_goal [sample_task ''a'' TS_Runnable]" "sample_task ''a'' TS_Runnable"]
  by (simp add: wf_world_of_one)

section \<open>Dispatch\<close>

definition may_start :: "uuid \<Rightarrow> 'a goal_state_scheme \<Rightarrow> bool" where
  "may_start i s \<longleftrightarrow> \<not> goal_terminal s \<and>
     (\<exists>t. bt_get (gs_tasks s) i = Some t \<and> tn_status t = TS_Runnable)"

definition start_task :: "task_node \<Rightarrow> task_node" where
  "start_task t = t (| tn_status := TS_Running, tn_attempts := tn_attempts t + 1 |)"

lemma run_mark_running:
  "mark_running i w =
     (if may_start i w
      then (Inr (), w (| gs_tasks := bt_adjust i start_task (gs_tasks w),
                         gs_events := gs_events w @ [state_event_new (''task_running:'' @ i)] |))
      else (fst (mark_running i w), w))"
  by (auto simp: mark_running_def may_start_def put_task_def push_event_def start_task_def [abs_def]
      goal_terminal_def ensure_goal_accepts_mutation_def
      ensure_task_accepts_mutation_def ensure_task_snapshot_accepts_mutation_def bindR_def task_def
      split: sum.splits option.splits)

lemma mark_running_Inr: "fst (mark_running i w) = Inr u \<longleftrightarrow> may_start i w"
  by (auto simp: mark_running_def may_start_def put_task_def push_event_def goal_terminal_def
      ensure_goal_accepts_mutation_def
      ensure_task_accepts_mutation_def ensure_task_snapshot_accepts_mutation_def bindR_def task_def
      split: sum.splits option.splits if_splits)

text \<open>
  A task is handed to a runner at most once per activation.  \<open>mark_running\<close> succeeds iff
  the goal is neither Done nor Cancelled and the task is Runnable; then exactly that task
  becomes Running with one more attempt, it is no longer in the ready queue, and marking it
  again is refused without any change.  Every refused call leaves the state as it was.
\<close>
theorem a_task_is_dispatched_once:
  "(fst (mark_running i w) = Inr () \<longleftrightarrow> may_start i w) \<and>
   (\<not> may_start i w \<longrightarrow> snd (mark_running i w) = w) \<and>
   (may_start i w \<longrightarrow>
      gs_tasks (snd (mark_running i w)) = bt_adjust i start_task (gs_tasks w) \<and>
      \<not> may_start i (snd (mark_running i w)) \<and>
      (\<forall>t. bt_get (gs_tasks (snd (mark_running i w))) i = Some t \<longrightarrow>
         tn_status t = TS_Running \<and> t \<notin> set (runnable_tasks (snd (mark_running i w)))))"
proof (intro conjI impI)
  show "fst (mark_running i w) = Inr () \<longleftrightarrow> may_start i w" by (rule mark_running_Inr)
  show "snd (mark_running i w) = w" if "\<not> may_start i w"
    using run_mark_running [of i w] that by (metis snd_conv)
  assume m: "may_start i w"
  then have v: "snd (mark_running i w) = w (| gs_tasks := bt_adjust i start_task (gs_tasks w),
      gs_events := gs_events w @ [state_event_new (''task_running:'' @ i)] |)"
    using run_mark_running [of i w] by simp
  then show "gs_tasks (snd (mark_running i w)) = bt_adjust i start_task (gs_tasks w)" by simp
  show "\<not> may_start i (snd (mark_running i w))"
    unfolding v by (auto simp: may_start_def get_adjust start_task_def)
  show "\<forall>t. bt_get (gs_tasks (snd (mark_running i w))) i = Some t \<longrightarrow>
      tn_status t = TS_Running \<and> t \<notin> set (runnable_tasks (snd (mark_running i w)))"
    unfolding v by (auto simp: get_adjust start_task_def set_runnable_tasks)
qed

theorem a_task_is_dispatched_once_witness:
  "snd (mark_running ''b'' (world_of sample_goal [sample_task ''a'' TS_Runnable])) =
     world_of sample_goal [sample_task ''a'' TS_Runnable] \<and>
   fst (mark_running ''a'' (world_of sample_goal [sample_task ''a'' TS_Runnable])) = Inr ()"
proof -
  let ?w = "world_of sample_goal [sample_task ''a'' TS_Runnable]"
  have "\<not> may_start ''b'' ?w" and "may_start ''a'' ?w"
    by (simp_all add: may_start_def goal_terminal_def)
  then show ?thesis
    using a_task_is_dispatched_once [of "''b''" ?w] a_task_is_dispatched_once [of "''a''" ?w] by blast
qed

end
