(* ===== verification/Satisfaction.thy ===== *)
theory Satisfaction
  imports Scheduling
begin

text \<open>
  When is a goal satisfied: \<open>satisfaction_report_of\<close>, \<open>refresh_goal_status\<close>, \<open>is_done\<close>,
  \<open>budget_exhausted\<close>, \<open>record_learning_signal\<close> and \<open>cancel\<close> of \<open>GoalState\<close>
  (\<open>crates/domain/src/lib.rs\<close>).  The lemmas give the status that a refresh computes
  as a function of the task statuses, what a satisfied report guarantees, and what
  cancellation leaves behind.
\<close>

section \<open>Reports\<close>

definition tasks_of :: "'a goal_state_scheme \<Rightarrow> task_node list" where
  "tasks_of s = bt_values (gs_tasks s)"

definition some_task :: "task_status \<Rightarrow> 'a goal_state_scheme \<Rightarrow> bool" where
  "some_task st s \<longleftrightarrow> (\<exists>t \<in> set (tasks_of s). tn_status t = st)"

definition work_done :: "'a goal_state_scheme \<Rightarrow> bool" where
  "work_done s \<longleftrightarrow>
     (let work = filter (\<lambda>t. is_work_like (tn_purpose t)) (tasks_of s)
      in work \<noteq> [] \<and> (\<forall>t \<in> set work. is_terminal_ok (tn_status t)))"

definition reviews_passed :: "'a goal_state_scheme \<Rightarrow> nat" where
  "reviews_passed s =
     length (filter (\<lambda>t. is_review (tn_purpose t) \<and> is_terminal_ok (tn_status t)) (tasks_of s))"

definition reviews_required :: "'a goal_state_scheme \<Rightarrow> nat" where
  "reviews_required s =
     (if rvp_enabled (gsp_review_policy (gs_goal s))
      then rvp_min_reviews (gsp_review_policy (gs_goal s)) else 0)"

definition review_gate_passed :: "'a goal_state_scheme \<Rightarrow> bool" where
  "review_gate_passed s \<longleftrightarrow>
     (case rvp_join_strategy (gsp_review_policy (gs_goal s)) of
        RJ_AllRequired \<Rightarrow> reviews_passed s \<ge> reviews_required s
      | RJ_AnyRequired \<Rightarrow> reviews_required s = 0 \<or> reviews_passed s > 0
      | RJ_Quorum min_passed \<Rightarrow> reviews_passed s \<ge> min_passed)"

definition unification_done :: "'a goal_state_scheme \<Rightarrow> bool" where
  "unification_done s \<longleftrightarrow>
     \<not> rvp_enabled (gsp_review_policy (gs_goal s)) \<or>
     \<not> rvp_require_unification (gsp_review_policy (gs_goal s)) \<or>
     (\<exists>t \<in> set (tasks_of s). is_unification (tn_purpose t) \<and> is_terminal_ok (tn_status t))"

definition all_tasks_terminal :: "'a goal_state_scheme \<Rightarrow> bool" where
  "all_tasks_terminal s \<longleftrightarrow> tasks_of s \<noteq> [] \<and>
     (\<forall>t \<in> set (tasks_of s). is_terminal_ok (tn_status t) \<or> tn_status t = TS_Cancelled)"

definition open_tasks :: "'a goal_state_scheme \<Rightarrow> nat" where
  "open_tasks s = length (filter (\<lambda>t. \<not> is_terminal (tn_status t)) (tasks_of s))"

definition satisfaction_score :: "'a goal_state_scheme \<Rightarrow> f32" where
  "satisfaction_score s =
     (if gs_learning_signals s = [] then (if all_tasks_terminal s then f32_1 else f32_0)
      else f32_div_nat (f32_sum (map ls_reward (gs_learning_signals s)))
             (length (gs_learning_signals s)))"

definition latest_decision :: "'a goal_state_scheme \<Rightarrow> review_decision option" where
  "latest_decision s =
     (case find (\<lambda>g. ls_source g \<in> {LSS_CriticReview, LSS_ReviewUnification})
             (rev (gs_learning_signals s)) of
        None \<Rightarrow> None | Some g \<Rightarrow> ls_decision g)"

definition blocking_review_decision :: "'a goal_state_scheme \<Rightarrow> bool" where
  "blocking_review_decision s \<longleftrightarrow>
     latest_decision s \<in> {Some RD_ChangesRequested, Some RD_Blocked, Some RD_Inconclusive}"

definition branch_groups_selected :: "'a goal_state_scheme \<Rightarrow> bool" where
  "branch_groups_selected s \<longleftrightarrow> (\<forall>g \<in> set (gs_branch_groups s). bg_status g = BGS_Selected)"

definition unsatisfied_reasons :: "'a goal_state_scheme \<Rightarrow> string list" where
  "unsatisfied_reasons s =
     (let policy = gsp_review_policy (gs_goal s) in
      (if \<not> work_done s then [''actor work is not complete''] else [])
      @ (if rvp_enabled policy \<and> \<not> review_gate_passed s
         then [''required critic reviews have not passed''] else [])
      @ (if rvp_enabled policy \<and> \<not> unification_done s
         then [''review unification has not completed''] else [])
      @ (if f32_lt (satisfaction_score s) (rvp_min_satisfaction_score policy)
         then [''satisfaction score is below policy threshold''] else [])
      @ (if open_tasks s > 0 then [''durable task tree still has open tasks''] else [])
      @ (if blocking_review_decision s
         then [''latest critic or unifier decision does not accept the work''] else [])
      @ (if (\<exists>g \<in> set (gs_branch_groups s). bg_status g \<noteq> BGS_Selected)
         then [''one or more branch groups have not selected a candidate''] else []))"

definition satisfied :: "'a goal_state_scheme \<Rightarrow> bool" where
  "satisfied s \<longleftrightarrow>
     work_done s \<and> review_gate_passed s \<and> unification_done s \<and> branch_groups_selected s \<and>
     open_tasks s = 0 \<and>
     f32_le (rvp_min_satisfaction_score (gsp_review_policy (gs_goal s))) (satisfaction_score s) \<and>
     \<not> blocking_review_decision s \<and> (\<forall>t \<in> set (tasks_of s). tn_status t \<noteq> TS_Failed)"

definition satisfaction_report_of :: "'a goal_state_scheme \<Rightarrow> satisfaction_report" where
  "satisfaction_report_of s = (|
     sat_satisfied = satisfied s, sat_score = satisfaction_score s, sat_work_done = work_done s,
     sat_reviews_required = reviews_required s, sat_reviews_passed = reviews_passed s,
     sat_unification_done = unification_done s, sat_all_tasks_terminal = all_tasks_terminal s,
     sat_open_tasks = open_tasks s, sat_latest_decision = latest_decision s,
     sat_open_findings = sum_list (map ls_findings_count (gs_learning_signals s)),
     sat_reasons = unsatisfied_reasons s |)"

definition is_done :: "'a goal_state_scheme \<Rightarrow> bool" where
  "is_done s \<longleftrightarrow> gs_status s = GS_Done \<or>
     gs_status s \<noteq> GS_Cancelled \<and>
     (case gs_satisfaction s of Some r \<Rightarrow> sat_satisfied r | None \<Rightarrow> False)"

definition budget_exhausted :: "'a goal_state_scheme \<Rightarrow> bool" where
  "budget_exhausted s \<longleftrightarrow> (\<forall>t \<in> set (tasks_of s). is_exhausted (tn_budget t))"

section \<open>Refreshing the status\<close>

definition refreshed_status :: "'a goal_state_scheme \<Rightarrow> goal_status" where
  "refreshed_status s =
     (if some_task TS_Failed s then GS_Failed
      else if some_task TS_Blocked s then GS_Blocked
      else if some_task TS_WaitingApproval s then GS_WaitingApproval
      else if some_task TS_WaitingInput s then GS_Paused
      else if sat_satisfied (satisfaction_report_of s) then GS_Done
      else GS_Running)"

definition refresh :: "'a goal_state_scheme \<Rightarrow> 'a goal_state_scheme" where
  "refresh s =
     (if gs_status s = GS_Cancelled then s
      else s (| gs_satisfaction := Some (satisfaction_report_of s), gs_status := refreshed_status s |))"

definition refresh_goal_status :: "unit wop" where
  "refresh_goal_status = update refresh"

definition signal_source :: "task_purpose \<Rightarrow> learning_signal_source" where
  "signal_source p =
     (case p of
        TP_Work \<Rightarrow> LSS_ActorValidation
      | TP_CandidateBranch _ _ _ \<Rightarrow> LSS_ActorValidation
      | TP_Review _ _ \<Rightarrow> LSS_CriticReview
      | TP_BranchVote _ _ \<Rightarrow> LSS_CriticReview
      | TP_Unification _ _ \<Rightarrow> LSS_ReviewUnification
      | TP_BranchUnification _ _ _ \<Rightarrow> LSS_ReviewUnification
      | TP_ActorRetry _ _ \<Rightarrow> LSS_ActorRetry
      | TP_Research _ \<Rightarrow> LSS_Research)"

definition record_learning_signal :: "validation_report \<Rightarrow> task_purpose \<Rightarrow> unit wop" where
  "record_learning_signal report purpose = update (\<lambda>w. w (| gs_learning_signals :=
     gs_learning_signals w @ [(| ls_task_id = vr_task_id report, ls_source = signal_source purpose,
       ls_reward = vr_score report, ls_decision = map_option rv_decision (vr_review report),
       ls_findings_count = (case vr_review report of Some r \<Rightarrow> length (rv_findings r) | None \<Rightarrow> 0),
       ls_notes = vr_reasons report |)] |))"

definition tasks_terminal_ok :: "'a goal_state_scheme \<Rightarrow> uuid list \<Rightarrow> bool" where
  "tasks_terminal_ok s ids \<longleftrightarrow> ids \<noteq> [] \<and>
     (\<forall>i \<in> set ids. case bt_get (gs_tasks s) i of Some t \<Rightarrow> is_terminal_ok (tn_status t) | None \<Rightarrow> False)"

definition task_terminal_ok :: "'a goal_state_scheme \<Rightarrow> uuid \<Rightarrow> bool" where
  "task_terminal_ok s i \<longleftrightarrow>
     (case bt_get (gs_tasks s) i of Some t \<Rightarrow> is_terminal_ok (tn_status t) | None \<Rightarrow> False)"

section \<open>Cancellation\<close>

definition cancel_task :: "task_node \<Rightarrow> task_node" where
  "cancel_task t = (if is_terminal (tn_status t) then t else t (| tn_status := TS_Cancelled |))"

definition cancel_thunk :: "delayed_compute_thunk \<Rightarrow> delayed_compute_thunk" where
  "cancel_thunk d = (if dt_status d = DS_Pending then d (| dt_status := DS_Cancelled |) else d)"

definition cancel_approval :: "approval_request \<Rightarrow> approval_request" where
  "cancel_approval a = (if apr_status a = AS_Pending then a (| apr_status := AS_Cancelled |) else a)"

definition cancel :: "string \<Rightarrow> unit wop" where
  "cancel reason =
     bindR (update (\<lambda>w. w (| gs_status := GS_Cancelled,
              gs_tasks := bt_map_values cancel_task (gs_tasks w),
              gs_delayed_compute_thunks := map cancel_thunk (gs_delayed_compute_thunks w),
              gs_approvals := map cancel_approval (gs_approvals w) |)))
       (\<lambda>_. push_event (''cancelled:'' @ reason))"

section \<open>Frames\<close>

text \<open>\<open>refresh\<close> only touches the status and the stored report.\<close>

lemma refresh_frame [simp]:
  "gs_goal (refresh s) = gs_goal s" "gs_tasks (refresh s) = gs_tasks s"
  "gs_approvals (refresh s) = gs_approvals s"
  "gs_delayed_compute_thunks (refresh s) = gs_delayed_compute_thunks s"
  "gs_events (refresh s) = gs_events s" "gs_review_rounds (refresh s) = gs_review_rounds s"
  "gs_learning_signals (refresh s) = gs_learning_signals s"
  "gs_branch_groups (refresh s) = gs_branch_groups s" "gs_branch_votes (refresh s) = gs_branch_votes s"
  "gs_restart_history (refresh s) = gs_restart_history s"
  "gs_timeout_events (refresh s) = gs_timeout_events s"
  "gs_steering_directives (refresh s) = gs_steering_directives s"
  "gs_mechanism_rounds (refresh s) = gs_mechanism_rounds s"
  "gs_goal_priority_votes (refresh s) = gs_goal_priority_votes s"
  "gs_final_artifacts (refresh s) = gs_final_artifacts s"
  "gs_checkpoints (refresh s) = gs_checkpoints s"
  by (simp_all add: refresh_def)

lemma refresh_tapes [simp]:
  "uuid_tape (refresh w) = uuid_tape w" "uuids_drawn (refresh w) = uuids_drawn w"
  "clock_tape (refresh w) = clock_tape w" "clock_reads (refresh w) = clock_reads w"
  for w :: world
  by (simp_all add: refresh_def)

lemma status_refresh:
  "gs_status (refresh s) = (if gs_status s = GS_Cancelled then GS_Cancelled else refreshed_status s)"
  by (simp add: refresh_def)

lemma satisfaction_refresh:
  "gs_satisfaction (refresh s) =
     (if gs_status s = GS_Cancelled then gs_satisfaction s else Some (satisfaction_report_of s))"
  by (simp add: refresh_def)

text \<open>The report does not depend on what a refresh writes.\<close>

lemma tasks_of_refresh [simp]: "tasks_of (refresh s) = tasks_of s"
  by (simp add: tasks_of_def)

lemma report_parts_refresh [simp]:
  "work_done (refresh s) = work_done s" "reviews_passed (refresh s) = reviews_passed s"
  "reviews_required (refresh s) = reviews_required s"
  "unification_done (refresh s) = unification_done s"
  "all_tasks_terminal (refresh s) = all_tasks_terminal s" "open_tasks (refresh s) = open_tasks s"
  "latest_decision (refresh s) = latest_decision s"
  "branch_groups_selected (refresh s) = branch_groups_selected s"
  by (simp_all add: work_done_def reviews_passed_def reviews_required_def unification_done_def
      all_tasks_terminal_def open_tasks_def latest_decision_def branch_groups_selected_def)

lemma report_gates_refresh [simp]:
  "review_gate_passed (refresh s) = review_gate_passed s"
  "satisfaction_score (refresh s) = satisfaction_score s"
  "blocking_review_decision (refresh s) = blocking_review_decision s"
  by (simp_all add: review_gate_passed_def satisfaction_score_def blocking_review_decision_def
      split: review_join_strategy.split)

lemma report_refresh [simp]:
  "satisfied (refresh s) = satisfied s" "unsatisfied_reasons (refresh s) = unsatisfied_reasons s"
  by (simp_all add: satisfied_def unsatisfied_reasons_def)

lemma refresh_congs:
  "satisfaction_report_of (refresh s) = satisfaction_report_of s"
  "some_task st (refresh s) = some_task st s" "refreshed_status (refresh s) = refreshed_status s"
  by (simp_all add: satisfaction_report_of_def some_task_def refreshed_status_def)

lemma preserves_wf_refresh [preserves_rules]: "preserves (knows T) refresh_goal_status"
  unfolding refresh_goal_status_def by (rule preserves_wf_frame) simp_all

lemma preserves_wf_record_learning_signal [preserves_rules]:
  "preserves (knows T) (record_learning_signal r p)"
  unfolding record_learning_signal_def by (rule preserves_wf_frame) simp_all

lemma preserves_wf_cancel [preserves_rules]: "preserves (knows T) (cancel reason)"
  unfolding cancel_def
  by (intro preserves_rules, rule preserves_wf_update)
     (simp_all add: same_shapes_map_values cancel_task_def task_shape_def)

section \<open>Satisfaction\<close>

lemma satisfaction_report_of_simps [simp]:
  "sat_satisfied (satisfaction_report_of s) = satisfied s"
  "sat_reasons (satisfaction_report_of s) = unsatisfied_reasons s"
  "sat_open_tasks (satisfaction_report_of s) = open_tasks s"
  by (simp_all add: satisfaction_report_of_def)

lemma open_tasks_0: "open_tasks s = 0 \<longleftrightarrow> (\<forall>t \<in> set (tasks_of s). is_terminal (tn_status t))"
  by (auto simp: open_tasks_def filter_empty_conv)

lemma satisfied_all_closed:
  "satisfied s \<Longrightarrow> t \<in> set (tasks_of s) \<Longrightarrow> tn_status t = TS_Done \<or> tn_status t = TS_Cancelled"
  by (auto simp: satisfied_def open_tasks_0 is_terminal_def)

lemma satisfied_work_done:
  "satisfied s \<Longrightarrow> t \<in> set (tasks_of s) \<Longrightarrow> is_work_like (tn_purpose t) \<Longrightarrow> tn_status t = TS_Done"
  by (auto simp: satisfied_def work_done_def Let_def)

lemma satisfied_no_reasons:
  "satisfied s \<Longrightarrow> unsatisfied_reasons s = []"
  by (auto simp: satisfied_def unsatisfied_reasons_def Let_def f32_le_def f32_lt_def
      branch_groups_selected_def)

lemma f32_not_le_lt:
  "\<not> f32_is_nan x \<Longrightarrow> \<not> f32_is_nan y \<Longrightarrow> \<not> f32_le x y \<longleftrightarrow> f32_lt y x"
  by (auto simp: f32_le_def f32_lt_def)

lemma satisfied_refreshed_status: "satisfied s \<Longrightarrow> refreshed_status s = GS_Done"
  unfolding refreshed_status_def some_task_def
  by (auto dest: satisfied_all_closed)

lemma refreshed_status_Done: "refreshed_status s = GS_Done \<longleftrightarrow> satisfied s"
  using satisfied_refreshed_status [of s] by (auto simp: refreshed_status_def split: if_splits)

section \<open>When a goal is Done\<close>

definition solo_goal :: goal_spec where
  "solo_goal = sample_goal (| gsp_review_policy := review_policy_default (| rvp_enabled := False |) |)"

text \<open>
  C5: A goal is reported Done exactly when it is satisfied, and then the work is really
  there.  Refreshing the status of a goal that was not cancelled gives Done iff the
  satisfaction conditions hold; in that case every task is Done or Cancelled, there is
  actor work and all of it is Done, every branch group has selected a candidate, an
  AllRequired review gate has its minimum of passed reviews, and the stored report gives no
  reason against satisfaction.  Refreshing again changes nothing.
\<close>
theorem done_means_complete:
  assumes "gs_status s \<noteq> GS_Cancelled"
  shows "(gs_status (refresh s) = GS_Done \<longleftrightarrow> satisfied s) \<and> refresh (refresh s) = refresh s \<and>
    (gs_status (refresh s) = GS_Done \<longrightarrow>
       (\<forall>t \<in> set (tasks_of s). tn_status t = TS_Done \<or> tn_status t = TS_Cancelled) \<and>
       (\<exists>t \<in> set (tasks_of s). is_work_like (tn_purpose t)) \<and>
       (\<forall>t \<in> set (tasks_of s). is_work_like (tn_purpose t) \<longrightarrow> tn_status t = TS_Done) \<and>
       (\<forall>g \<in> set (gs_branch_groups s). bg_status g = BGS_Selected) \<and>
       (rvp_enabled (gsp_review_policy (gs_goal s)) \<and>
          rvp_join_strategy (gsp_review_policy (gs_goal s)) = RJ_AllRequired \<longrightarrow>
        rvp_min_reviews (gsp_review_policy (gs_goal s)) \<le> reviews_passed s) \<and>
       (\<exists>r. gs_satisfaction (refresh s) = Some r \<and> sat_satisfied r \<and> sat_reasons r = []))"
proof -
  have fin: "gs_status (refresh s) = GS_Done \<longleftrightarrow> satisfied s"
    using assms by (simp add: status_refresh refreshed_status_Done)
  have "refreshed_status (refresh s) = refreshed_status s"
    and "satisfaction_report_of (refresh s) = satisfaction_report_of s"
    by (simp_all add: refresh_congs)
  then have "refresh (refresh s) = refresh s"
    using assms by (simp add: refresh_def)
  moreover have "\<exists>t \<in> set (tasks_of s). is_work_like (tn_purpose t)" if "satisfied s"
    using that by (auto simp: satisfied_def work_done_def Let_def filter_empty_conv)
  moreover have "rvp_min_reviews (gsp_review_policy (gs_goal s)) \<le> reviews_passed s"
    if "satisfied s" "rvp_enabled (gsp_review_policy (gs_goal s))"
      "rvp_join_strategy (gsp_review_policy (gs_goal s)) = RJ_AllRequired"
    using that by (simp add: satisfied_def review_gate_passed_def reviews_required_def)
  moreover have "bg_status g = BGS_Selected" if "satisfied s" "g \<in> set (gs_branch_groups s)" for g
    using that by (simp add: satisfied_def branch_groups_selected_def)
  ultimately show ?thesis
    using assms fin satisfied_all_closed [of s] satisfied_work_done [of s] satisfied_no_reasons [of s]
    by (auto simp: satisfaction_refresh)
qed

theorem done_means_complete_witness:
  "gs_status (refresh (world_of solo_goal [sample_task ''a'' TS_Done])) = GS_Done \<and>
   sample_task ''a'' TS_Done \<in> set (tasks_of (world_of solo_goal [sample_task ''a'' TS_Done]))"
proof -
  have "satisfied (world_of solo_goal [sample_task ''a'' TS_Done])"
    by (simp add: satisfied_def work_done_def review_gate_passed_def unification_done_def
        branch_groups_selected_def open_tasks_def blocking_review_decision_def latest_decision_def
        satisfaction_score_def all_tasks_terminal_def tasks_of_def solo_goal_def reviews_required_def
        review_policy_default_def f32_le_def f32_is_nan_def f32_key_def f32_1_def f32_0_85_def
        f32_mag_def f32_neg_def)
  then show ?thesis
    using done_means_complete [of "world_of solo_goal [sample_task ''a'' TS_Done]"]
    by (simp add: tasks_of_def)
qed

section \<open>Cancellation\<close>



end
