(* ===== verification/Frames.thy ===== *)
theory Frames
  imports Satisfaction
begin

text \<open>
  Frame reasoning: an operation keeps a projection \<open>g\<close> of the world when it preserves
  \<open>\<lambda>w. g w = v\<close> for every \<open>v\<close>.  \<open>frame_rules\<close> reduces that, for the building blocks of
  the handlers, to facts about record updates, which \<open>simp\<close> closes for a given \<open>g\<close>.
\<close>

named_theorems frame_rules "building blocks keep a projection of the world"

lemma frameD: "(\<And>v. preserves (\<lambda>w. g w = v) m) \<Longrightarrow> g (snd (m w)) = g w"
  by (rule preservesD [where P = "\<lambda>x. g x = g w"]) simp_all

lemma frame_run: "(\<And>v. preserves (\<lambda>w. g w = v) m) \<Longrightarrow> m w = (r, w') \<Longrightarrow> g w' = g w"
  using frameD [of g m w] by simp

lemma frame_update: "(\<And>w. g (f w) = g w) \<Longrightarrow> preserves (\<lambda>w. g w = v) (update f)"
  by (rule preserves_update) simp

lemma frame_new_uuid [frame_rules]:
  "(\<And>w x. g (w (| uuids_drawn := x |)) = g w) \<Longrightarrow> preserves (\<lambda>w. g w = v) new_uuid"
  unfolding new_uuid_def by (rule preserves_draw) simp

lemma frame_now [frame_rules]:
  "(\<And>w x. g (w (| clock_reads := x |)) = g w) \<Longrightarrow> preserves (\<lambda>w. g w = v) now"
  unfolding now_def by (rule preserves_draw) simp

lemma frame_push_event [frame_rules]:
  "(\<And>w x. g (w (| gs_events := x |)) = g w) \<Longrightarrow> preserves (\<lambda>w. g w = v) (push_event m)"
  unfolding push_event_def by (rule frame_update) simp

lemma frame_put_task [frame_rules]:
  "(\<And>w x. g (w (| gs_tasks := x |)) = g w) \<Longrightarrow> preserves (\<lambda>w. g w = v) (put_task i f)"
  unfolding put_task_def by (rule frame_update) simp

lemma frame_modify_task [frame_rules]:
  "(\<And>w x. g (w (| gs_tasks := x |)) = g w) \<Longrightarrow> preserves (\<lambda>w. g w = v) (modify_task i f)"
  unfolding modify_task_def by (intro preserves_bindR preserves_task_mut frame_rules)

lemma frame_set_task_status [frame_rules]:
  "(\<And>w x. g (w (| gs_tasks := x |)) = g w) \<Longrightarrow> preserves (\<lambda>w. g w = v) (set_task_status i s)"
  unfolding set_task_status_def by (rule frame_modify_task)

lemma frame_insert_child_task [frame_rules]:
  assumes "\<And>w x. g (w (| gs_tasks := x |)) = g w" and "\<And>w x. g (w (| uuids_drawn := x |)) = g w"
  shows "preserves (\<lambda>w. g w = v) (insert_child_task p t r)"
  unfolding insert_child_task_def insert_task_def
  by (intro preserves_bindR preserves_ok frame_rules frame_update) (simp_all add: assms)

lemma frame_refresh [frame_rules]:
  "(\<And>w. g (refresh w) = g w) \<Longrightarrow> preserves (\<lambda>w. g w = v) refresh_goal_status"
  unfolding refresh_goal_status_def by (rule frame_update)

lemma frame_task_mut [frame_rules]: "preserves (\<lambda>w. g w = v) (task_mut i)"
  by (rule preserves_task_mut)

lemma frame_get_root [frame_rules]: "preserves (\<lambda>w. g w = v) get_root"
  unfolding get_root_def by (intro preserves_rules)

lemma bindR_frame:
  "preserves (\<lambda>w. g w = v) m \<Longrightarrow> (\<And>x. preserves (\<lambda>w. g w = v) (f x)) \<Longrightarrow>
   preserves (\<lambda>w. g w = v) (bindR m f)"
  by (rule preserves_bindR)

lemmas control_rules =
  bindR_frame preserves_ok preserves_fail preserves_lift_result preserves_reads preserves_if
  preserves_case_option preserves_case_sum preserves_for_each

lemma distinct_dedup_sort [simp]: "distinct (dedup (sort xs))"
  by (rule sorted_distinct_strict) (rule dedup_sorted, simp)

lemma bindR_Pair [simp]: "bindR (Pair (Inr x)) f = f x" "bindR (Pair (Inl e)) f = Pair (Inl e)"
  by (simp_all add: bindR_def fun_eq_iff)

lemma ensure_goal_live [simp]: "\<not> goal_terminal s \<Longrightarrow> ensure_goal_accepts_mutation a s = Inr ()"
  by simp

section \<open>Running a task update\<close>

lemma run_modify_task:
  "modify_task i f w =
     (case bt_get (gs_tasks w) i of
        None \<Rightarrow> (Inl (DE_TaskNotFound i), w)
      | Some _ \<Rightarrow> (Inr (), w (| gs_tasks := bt_adjust i f (gs_tasks w) |)))"
  by (simp add: modify_task_def put_task_def bindR_def task_def split: option.splits)

lemma run_set_task_status:
  "set_task_status i s w =
     (case bt_get (gs_tasks w) i of
        None \<Rightarrow> (Inl (DE_TaskNotFound i), w)
      | Some _ \<Rightarrow> (Inr (), w (| gs_tasks := bt_adjust i (\<lambda>t. t (| tn_status := s |)) (gs_tasks w) |)))"
  by (simp add: set_task_status_def run_modify_task)

lemma run_new_uuid:
  "new_uuid w = (Inr (uuid_tape w (uuids_drawn w)), w (| uuids_drawn := Suc (uuids_drawn w) |))"
  by (simp add: new_uuid_def)

lemma run_now:
  "now w = (Inr (clock_tape w (clock_reads w)), w (| clock_reads := Suc (clock_reads w) |))"
  by (simp add: now_def)

lemma run_push_event:
  "push_event m w = (Inr (), w (| gs_events := gs_events w @ [state_event_new m] |))"
  by (simp add: push_event_def)

lemma run_refresh: "refresh_goal_status w = (Inr (), refresh w)"
  by (simp add: refresh_goal_status_def)

lemmas run_rules = run_modify_task run_set_task_status run_new_uuid run_now run_push_event run_refresh

lemma bind_rules:
  "bindR new_uuid f w = f (uuid_tape w (uuids_drawn w)) (w (| uuids_drawn := Suc (uuids_drawn w) |))"
  "bindR now g w = g (clock_tape w (clock_reads w)) (w (| clock_reads := Suc (clock_reads w) |))"
  "bindR (push_event m) h w = h () (w (| gs_events := gs_events w @ [state_event_new m] |))"
  "bindR refresh_goal_status k w = k () (refresh w)"
  by (simp_all add: bindR_def run_new_uuid run_now run_push_event run_refresh)

lemma bind_modify_task:
  "bindR (modify_task i f) h w =
     (case bt_get (gs_tasks w) i of
        None \<Rightarrow> (Inl (DE_TaskNotFound i), w)
      | Some _ \<Rightarrow> h () (w (| gs_tasks := bt_adjust i f (gs_tasks w) |)))"
  by (simp add: bindR_def run_modify_task split: option.splits)

lemma bind_set_task_status:
  "bindR (set_task_status i s) h w =
     (case bt_get (gs_tasks w) i of
        None \<Rightarrow> (Inl (DE_TaskNotFound i), w)
      | Some _ \<Rightarrow> h () (w (| gs_tasks := bt_adjust i (\<lambda>t. t (| tn_status := s |)) (gs_tasks w) |)))"
  by (simp add: set_task_status_def bind_modify_task)

lemma run_for_each_modify:
  assumes "for_each ids (\<lambda>i. modify_task i f) w = (Inr us, v)" and "distinct ids"
  shows "bt_get (gs_tasks v) j =
      (if j \<in> set ids then map_option f (bt_get (gs_tasks w) j) else bt_get (gs_tasks w) j) \<and>
    (j \<in> set ids \<longrightarrow> bt_get (gs_tasks w) j \<noteq> None)"
  using assms
proof (induction ids arbitrary: w us)
  case (Cons i ids)
  then obtain us' u w1 where 1: "modify_task i f w = (Inr u, w1)"
    and rest: "for_each ids (\<lambda>i. modify_task i f) w1 = (Inr us', v)"
    by (auto elim!: bindR_InrE)
  then have w1: "w1 = w (| gs_tasks := bt_adjust i f (gs_tasks w) |)" "bt_get (gs_tasks w) i \<noteq> None"
    by (simp_all add: run_modify_task split: option.splits)
  note * = rest [unfolded w1] w1(2)
  have "distinct ids" using Cons.prems by simp
  from Cons.IH [OF *(1) this] * Cons.prems(2) show ?case by (auto simp: get_adjust split: if_splits)
qed simp

end
