(* ===== verification/Approval.thy ===== *)
theory Approval
  imports Frames
begin

text \<open>
  The approval gate: \<open>ApprovalGatePolicy::evaluate\<close> and the operations
  \<open>ensure_task_approval_or_request\<close>, \<open>record_approval_notification\<close> and
  \<open>apply_human_approval\<close> of \<open>GoalState\<close> (\<open>crates/domain/src/lib.rs\<close>).
  \<open>fired_rules\<close> lists the reason codes that fire, in the order of the source, each with
  the risk it contributes.
\<close>

section \<open>The policy\<close>

definition rule_when :: "bool \<Rightarrow> approval_reason_code \<Rightarrow> approval_risk \<Rightarrow> (approval_reason_code \<times> approval_risk) list" where
  "rule_when b c r = (if b then [(c, r)] else [])"

definition fired_rules ::
  "approval_gate_policy \<Rightarrow> task_node \<Rightarrow> (approval_reason_code \<times> approval_risk) list" where
  "fired_rules p t =
     (let box = tn_sandbox t; ex = tn_execution t in
      rule_when (sbx_approval_policy box = AP_Always) ARC_SandboxPolicyAlways AR_Medium
      @ rule_when (sbx_approval_policy box = AP_Never \<and> ag_never_policy_requires_isolation p
          \<and> \<not> sbx_isolated_runner box) ARC_NeverPolicyOutsideIsolation AR_Critical
      @ rule_when (sbx_approval_policy box = AP_Never \<and> ag_never_policy_requires_strong_sandbox p
          \<and> \<not> strongly_isolated box) ARC_NeverPolicyWithoutStrongSandbox AR_Critical
      @ rule_when (ag_require_for_network_open p \<and> sbx_network box = NA_Open) ARC_NetworkOpen AR_High
      @ rule_when (ag_require_for_non_isolated_runner p \<and> \<not> sbx_isolated_runner box)
          ARC_NonIsolatedRunner AR_High
      @ rule_when (ag_require_for_workspace_write_outside_isolation p
          \<and> sbx_filesystem box = FA_WorkspaceWrite \<and> \<not> sbx_isolated_runner box)
          ARC_WorkspaceWriteOutsideIsolation AR_High
      @ rule_when (ag_require_for_secret_access p \<and> requires_secret_access ex) ARC_SecretAccess AR_High
      @ rule_when (ag_require_for_brokered_user_auth p \<and> requires_brokered_user_auth ex)
          ARC_BrokeredUserAuth AR_Critical
      @ rule_when (ag_require_for_dangerous_mcp_tools p \<and> mcp_uses_dangerous_tools ex)
          ARC_DangerousMcpTool AR_Medium
      @ (if ag_require_for_local_tool_execution p
         then (case local_tools_approval_risk (ep_local_tools ex) of
                 Some r \<Rightarrow> [(ARC_LocalToolExecution, r)] | None \<Rightarrow> [])
         else [])
      @ rule_when (ag_require_for_privileged_runner_capabilities p
          \<and> requires_privileged_capability (ep_runner ex)) ARC_PrivilegedRunnerCapability AR_High
      @ rule_when (ag_require_for_native_subagent_spawn p
          \<and> native_spawn_requires_approval (ep_subagents ex)) ARC_NativeSubagentSpawn AR_High
      @ rule_when (ag_require_for_ephemeral_capacity p
          \<and> requires_ephemeral_provisioning_approval (ep_capacity ex))
          ARC_EphemeralCapacityProvisioning AR_Medium)"

definition approval_evaluate :: "approval_gate_policy \<Rightarrow> task_node \<Rightarrow> approval_evaluation" where
  "approval_evaluate p t =
     (if \<not> ag_enabled p then not_required
      else let fired = fired_rules p t
           in if fired = [] then not_required
              else (| ae_required = True,
                      ae_risk = foldl max AR_Low (map snd fired),
                      ae_reason_codes = map fst fired,
                      ae_reason = ''approval required for '' @ wk_as_str (tn_role t) @ '' task '' @ tn_id t
                        @ '' before attempt '' @ dec (tn_attempts t + 1) @ '': ''
                        @ join '', '' (map (\<lambda>f. arc_as_str (fst f)) fired) |))"

section \<open>Operations\<close>

definition approval_for :: "uuid \<Rightarrow> nat \<Rightarrow> approval_status \<Rightarrow> approval_request \<Rightarrow> bool" where
  "approval_for i n st a \<longleftrightarrow> apr_task_id a = Some i \<and> apr_attempt a = n \<and> apr_status a = st"

definition pending_approvals_for_task :: "'a goal_state_scheme \<Rightarrow> uuid \<Rightarrow> uuid list" where
  "pending_approvals_for_task s i =
     map apr_id (filter (\<lambda>a. apr_task_id a = Some i \<and> apr_status a = AS_Pending) (gs_approvals s))"

definition has_pending_approval_for_task :: "'a goal_state_scheme \<Rightarrow> uuid \<Rightarrow> bool" where
  "has_pending_approval_for_task s i \<longleftrightarrow> pending_approvals_for_task s i \<noteq> []"

definition push_approval :: "approval_request \<Rightarrow> unit wop" where
  "push_approval a = update (\<lambda>w. w (| gs_approvals := gs_approvals w @ [a] |))"

definition approval_request_for :: "'a goal_state_scheme \<Rightarrow> uuid \<Rightarrow> task_node \<Rightarrow> approval_evaluation \<Rightarrow> uuid \<Rightarrow> approval_request" where
  "approval_request_for s new_id t e task_id = (|
     apr_id = new_id, apr_goal_id = gsp_id (gs_goal s), apr_task_id = Some task_id,
     apr_attempt = tn_attempts t + 1, apr_reason = ae_reason e, apr_status = AS_Pending,
     apr_risk = ae_risk e, apr_reason_codes = ae_reason_codes e, apr_sandbox = tn_sandbox t,
     apr_requested_action = ''run '' @ wk_as_str (tn_role t) @ '' task '' @ tn_id t @ '' attempt ''
       @ dec (tn_attempts t + 1),
     apr_notification_reports = [] |)"

definition ensure_task_approval_or_request :: "uuid \<Rightarrow> approval_request option wop" where
  "ensure_task_approval_or_request i =
     bindR (lift_result (ensure_goal_accepts_mutation ''request task approval'')) (\<lambda>_.
     bindR (lift_result (ensure_task_accepts_mutation i ''request task approval'')) (\<lambda>_.
     bindR (task_mut i) (\<lambda>t.
     reads (\<lambda>w.
       if \<exists>a \<in> set (gs_approvals w). approval_for i (tn_attempts t + 1) AS_Approved a then ok None
       else if \<exists>a \<in> set (gs_approvals w). approval_for i (tn_attempts t + 1) AS_Pending a then
         bindR (set_task_status i TS_WaitingApproval) (\<lambda>_.
         bindR refresh_goal_status (\<lambda>_.
         reads (\<lambda>v. ok (find (approval_for i (tn_attempts t + 1) AS_Pending) (gs_approvals v)))))
       else if \<exists>a \<in> set (gs_approvals w). approval_for i (tn_attempts t + 1) AS_Rejected a then
         bindR (set_task_status i TS_Blocked) (\<lambda>_.
         bindR refresh_goal_status (\<lambda>_.
         fail (DE_ApprovalDenied (''task '' @ i @ '' approval was rejected''))))
       else let e = approval_evaluate (gsp_approval_policy (gs_goal w)) t in
         if \<not> ae_required e then ok None
         else
           bindR new_uuid (\<lambda>new_id.
           let request = approval_request_for w new_id t e i in
           bindR (set_task_status i TS_WaitingApproval) (\<lambda>_.
           bindR (push_approval request) (\<lambda>_.
           bindR refresh_goal_status (\<lambda>_.
           bindR (push_event (''approval_requested:'' @ apr_id request @ '':'' @ i)) (\<lambda>_.
           ok (Some request))))))))))"

definition update_approval :: "nat \<Rightarrow> (approval_request \<Rightarrow> approval_request) \<Rightarrow> unit wop" where
  "update_approval k f =
     update (\<lambda>w. w (| gs_approvals := (gs_approvals w)[k := f (gs_approvals w ! k)] |))"

definition record_approval_notification ::
  "uuid \<Rightarrow> notification_delivery_report list \<Rightarrow> unit wop" where
  "record_approval_notification i reports =
     reads (\<lambda>w. case position (\<lambda>a. apr_id a = i) (gs_approvals w) of
       None \<Rightarrow> fail (DE_ApprovalNotFound i)
     | Some k \<Rightarrow> update_approval k (\<lambda>a. a (| apr_notification_reports := reports |)))"

definition settled_task :: "approval_status \<Rightarrow> task_node \<Rightarrow> task_node" where
  "settled_task st t =
     (case st of
        AS_Approved \<Rightarrow> (if tn_status t \<in> {TS_WaitingApproval, TS_Blocked}
                       then t (| tn_status := TS_Runnable |) else t)
      | AS_Rejected \<Rightarrow> t (| tn_status := TS_Blocked |)
      | _ \<Rightarrow> t)"

definition apply_human_approval :: "human_approval \<Rightarrow> approval_request wop" where
  "apply_human_approval h =
     reads (\<lambda>w. case position (\<lambda>a. apr_id a = ha_approval_id h) (gs_approvals w) of
       None \<Rightarrow> fail (DE_ApprovalNotFound (ha_approval_id h))
     | Some k \<Rightarrow>
         if apr_status (gs_approvals w ! k) \<noteq> AS_Pending
         then fail (DE_ApprovalDenied (''approval '' @ ha_approval_id h @ '' is not pending''))
         else let st = (if ha_approved h then AS_Approved else AS_Rejected);
                  updated = (gs_approvals w ! k) (| apr_status := st |) in
           bindR (update_approval k (\<lambda>a. a (| apr_status := st |))) (\<lambda>_.
           bindR (case apr_task_id updated of None \<Rightarrow> ok ()
                  | Some i \<Rightarrow> modify_task i (settled_task st)) (\<lambda>_.
           bindR refresh_goal_status (\<lambda>_.
           bindR (push_event (''approval_'' @ (if ha_approved h then ''approved'' else ''rejected'')
                    @ '':'' @ ha_approval_id h)) (\<lambda>_.
           ok updated)))))"

section \<open>The tree is kept\<close>

lemma preserves_wf_push_approval [preserves_rules]: "preserves (knows T) (push_approval a)"
  unfolding push_approval_def by (rule preserves_wf_frame) simp_all

lemma preserves_wf_update_approval [preserves_rules]: "preserves (knows T) (update_approval k f)"
  unfolding update_approval_def by (rule preserves_wf_frame) simp_all

lemma preserves_wf_ensure_task_approval_or_request [preserves_rules]:
  "preserves (knows T) (ensure_task_approval_or_request i)"
  unfolding ensure_task_approval_or_request_def Let_def by (intro preserves_rules)

lemma preserves_wf_record_approval_notification [preserves_rules]:
  "preserves (knows T) (record_approval_notification i r)"
  unfolding record_approval_notification_def by (intro preserves_rules)

lemma settled_task_shape [simp]: "task_shape (settled_task st t) = task_shape t"
  by (simp add: settled_task_def task_shape_def split: approval_status.split)

lemma preserves_wf_apply_human_approval [preserves_rules]:
  "preserves (knows T) (apply_human_approval h)"
  unfolding apply_human_approval_def Let_def by (intro preserves_rules) simp

section \<open>What the policy demands\<close>

lemma evaluate_required:
  "ae_required (approval_evaluate p t) \<longleftrightarrow> ag_enabled p \<and> fired_rules p t \<noteq> []"
  by (simp add: approval_evaluate_def not_required_def Let_def)

lemma evaluate_codes:
  "ag_enabled p \<Longrightarrow> set (ae_reason_codes (approval_evaluate p t)) = fst ` set (fired_rules p t)"
  by (simp add: approval_evaluate_def not_required_def Let_def)

lemma foldl_max_Max: "foldl max x xs = Max (set (x # xs))" for x :: "'a :: linorder"
proof (induction xs arbitrary: x)
  case (Cons y ys)
  then show ?case by (cases "ys = []") (simp_all add: Max_insert max.assoc [symmetric])
qed simp

lemma evaluate_risk:
  "ag_enabled p \<Longrightarrow> (c, r) \<in> set (fired_rules p t) \<Longrightarrow> r \<le> ae_risk (approval_evaluate p t)"
  using foldl_max_upper [of AR_Low "map snd (fired_rules p t)"]
  by (force simp: approval_evaluate_def Let_def)

lemma evaluate_risk_attained:
  assumes "ae_required (approval_evaluate p t)"
  shows "ae_risk (approval_evaluate p t) = AR_Low \<or>
    (\<exists>c. (c, ae_risk (approval_evaluate p t)) \<in> set (fired_rules p t))"
proof -
  have "Max (set (AR_Low # map snd (fired_rules p t))) \<in> set (AR_Low # map snd (fired_rules p t))"
    by (rule Max_in) auto
  with assms show ?thesis
    by (auto simp: evaluate_required approval_evaluate_def not_required_def Let_def foldl_max_Max)
qed

lemma mem_rule_when: "(c, r) \<in> set (rule_when b c' r') \<longleftrightarrow> b \<and> c = c' \<and> r = r'"
  by (auto simp: rule_when_def)

text \<open>
  C18: The approval policy cannot be talked out of a dangerous run.  With the gate enabled, a
  task whose sandbox never asks but runs outside an isolated runner is always gated, at
  Critical risk, when the policy demands isolation for it; a task with an open network is
  gated at risk High or above when the policy names that.  In general approval is required
  iff some rule fires, every fired rule is reported as a reason code, and the reported risk
  is at least that of each fired rule.
\<close>
theorem dangerous_runs_need_approval:
  assumes "ag_enabled p"
  shows "(ae_required (approval_evaluate p t) \<longleftrightarrow> fired_rules p t \<noteq> []) \<and>
    (\<forall>c r. (c, r) \<in> set (fired_rules p t) \<longrightarrow>
       c \<in> set (ae_reason_codes (approval_evaluate p t)) \<and> r \<le> ae_risk (approval_evaluate p t)) \<and>
    (ag_never_policy_requires_isolation p \<and> sbx_approval_policy (tn_sandbox t) = AP_Never \<and>
       \<not> sbx_isolated_runner (tn_sandbox t) \<longrightarrow>
     ae_required (approval_evaluate p t) \<and> ae_risk (approval_evaluate p t) = AR_Critical \<and>
     ARC_NeverPolicyOutsideIsolation \<in> set (ae_reason_codes (approval_evaluate p t))) \<and>
    (ag_require_for_network_open p \<and> sbx_network (tn_sandbox t) = NA_Open \<longrightarrow>
     ae_required (approval_evaluate p t) \<and> AR_High \<le> ae_risk (approval_evaluate p t) \<and>
     ARC_NetworkOpen \<in> set (ae_reason_codes (approval_evaluate p t)))"
proof -
  have fired: "c \<in> set (ae_reason_codes (approval_evaluate p t)) \<and> r \<le> ae_risk (approval_evaluate p t) \<and>
      ae_required (approval_evaluate p t)" if "(c, r) \<in> set (fired_rules p t)" for c r
    using that evaluate_risk [OF assms that] assms
    by (force simp: evaluate_codes evaluate_required)
  have "(ARC_NeverPolicyOutsideIsolation, AR_Critical) \<in> set (fired_rules p t)"
    if "ag_never_policy_requires_isolation p" "sbx_approval_policy (tn_sandbox t) = AP_Never"
      "\<not> sbx_isolated_runner (tn_sandbox t)"
    unfolding fired_rules_def Let_def set_append Un_iff mem_rule_when using that by blast
  moreover have "(ARC_NetworkOpen, AR_High) \<in> set (fired_rules p t)"
    if "ag_require_for_network_open p" "sbx_network (tn_sandbox t) = NA_Open"
    unfolding fired_rules_def Let_def set_append Un_iff mem_rule_when using that by blast
  moreover have "x = AR_Critical" if "AR_Critical \<le> x" for x
    using that by (simp add: antisym)
  ultimately show ?thesis using fired assms unfolding evaluate_required by blast
qed

lemma gate_defaults:
  "ag_enabled approval_gate_policy_default"
  "ag_never_policy_requires_isolation approval_gate_policy_default"
  by (simp_all add: approval_gate_policy_default_def)

theorem dangerous_runs_need_approval_witness:
  "ae_required (approval_evaluate approval_gate_policy_default
     ((sample_task ''a'' TS_Runnable) (| tn_sandbox := sandbox_profile_default (|
        sbx_approval_policy := AP_Never, sbx_isolated_runner := False |) |)))"
  by (rule dangerous_runs_need_approval [THEN conjunct2, THEN conjunct2, THEN conjunct1,
        THEN mp, THEN conjunct1]) (simp_all add: gate_defaults)

section \<open>The gate in front of a run\<close>

text \<open>
  C6: The gate lets a task through only with an approval for this very attempt or when the
  policy asks for none.  For an open task of an open goal, \<open>ensure_task_approval_or_request\<close>
  answers \<open>None\<close> only in those two cases and then changes nothing; otherwise it leaves the
  task WaitingApproval behind a pending request for that task and attempt, or, when this
  attempt was rejected, it fails with ApprovalDenied and leaves the task Blocked.
\<close>
theorem approval_gate_stops_ungated_runs:
  assumes run: "ensure_task_approval_or_request i w = (r, v)"
    and t: "bt_get (gs_tasks w) i = Some t" and live: "\<not> goal_terminal w" "\<not> is_terminal (tn_status t)"
  shows "(r = Inr None \<longrightarrow> v = w \<and>
      ((\<exists>a \<in> set (gs_approvals w). approval_for i (tn_attempts t + 1) AS_Approved a) \<or>
       \<not> ae_required (approval_evaluate (gsp_approval_policy (gs_goal w)) t))) \<and>
    (\<forall>a. r = Inr (Some a) \<longrightarrow>
       a \<in> set (gs_approvals v) \<and> approval_for i (tn_attempts t + 1) AS_Pending a \<and>
       bt_get (gs_tasks v) i = Some (t (| tn_status := TS_WaitingApproval |))) \<and>
    (\<forall>e. r = Inl e \<longrightarrow> (\<exists>m. e = DE_ApprovalDenied m) \<and>
       bt_get (gs_tasks v) i = Some (t (| tn_status := TS_Blocked |)))"
proof -
  have guards: "ensure_goal_accepts_mutation ''request task approval'' w = Inr ()"
    "ensure_task_accepts_mutation i ''request task approval'' w = Inr ()" "task_mut i w = (Inr t, w)"
    using t live by (simp_all add: ensure_task_accepts_mutation_def
        ensure_task_snapshot_accepts_mutation_def task_def)
  note run = run [unfolded ensure_task_approval_or_request_def bindR_lift_result guards(1,2) sum.case
      bindR_Inr [of "task_mut i", OF guards(3)] run_reads Let_def]
  let ?has = "\<lambda>st. \<exists>a \<in> set (gs_approvals w). approval_for i (tn_attempts t + 1) st a"
  consider (approved) "?has AS_Approved" | (pending) "\<not> ?has AS_Approved" "?has AS_Pending"
    | (rejected) "\<not> ?has AS_Approved" "\<not> ?has AS_Pending" "?has AS_Rejected"
    | (new) "\<not> ?has AS_Approved" "\<not> ?has AS_Pending" "\<not> ?has AS_Rejected" by blast
  then show ?thesis
  proof cases
    case approved
    with run have "r = Inr None" "v = w" by simp_all
    with approved show ?thesis by simp
  next
    case pending
    then obtain a where "find (approval_for i (tn_attempts t + 1) AS_Pending) (gs_approvals w) = Some a"
      by (metis find_None_iff option.exhaust)
    moreover from this have "a \<in> set (gs_approvals w)" "approval_for i (tn_attempts t + 1) AS_Pending a"
      by (auto simp: find_Some_iff)
    ultimately show ?thesis
      using run pending t by (simp add: bind_set_task_status bind_rules) (auto simp: get_adjust)
  next
    case rejected
    with run t show ?thesis by (simp add: bind_set_task_status bind_rules) (auto simp: get_adjust)
  next
    case new
    with run t show ?thesis
      by (auto simp: bind_set_task_status bind_rules push_approval_def approval_for_def
          approval_request_for_def get_adjust split: if_splits)
  qed
qed

theorem approval_gate_stops_ungated_runs_witness:
  "\<exists>r v. ensure_task_approval_or_request ''a'' (world_of sample_goal [sample_task ''a'' TS_Runnable]) = (r, v) \<and>
     (r = Inr None \<longrightarrow> v = world_of sample_goal [sample_task ''a'' TS_Runnable])"
proof -
  let ?w = "world_of sample_goal [sample_task ''a'' TS_Runnable]"
  obtain r v where run: "ensure_task_approval_or_request ''a'' ?w = (r, v)" by fastforce
  show ?thesis
    using approval_gate_stops_ungated_runs [OF run, of "sample_task ''a'' TS_Runnable"] run
    by (auto simp: goal_terminal_def)
qed

section \<open>Answering a request\<close>

lemma position_update:
  assumes "position p xs = Some k" and "p (f (xs ! k)) = p (xs ! k)"
  shows "position p (xs[k := f (xs ! k)]) = Some k"
  using assms by (induction xs arbitrary: k) (auto split: if_splits nat.splits)

text \<open>
  C17: A human answer settles an approval request once and for all.  When \<open>apply_human_approval\<close>
  succeeds, the request was pending and is now Approved or Rejected as the human said; its
  task becomes Runnable on approval if it was WaitingApproval or Blocked (and is left alone
  otherwise) and Blocked on rejection; any further answer to the same request is refused and
  leaves the state as it is.
\<close>
theorem approval_is_answered_once:
  assumes run: "apply_human_approval h w = (Inr a, v)"
  shows "a \<in> set (gs_approvals v) \<and> apr_id a = ha_approval_id h \<and>
    apr_status a = (if ha_approved h then AS_Approved else AS_Rejected) \<and>
    a (| apr_status := AS_Pending |) \<in> set (gs_approvals w) \<and>
    (\<forall>i t. apr_task_id a = Some i \<and> bt_get (gs_tasks w) i = Some t \<longrightarrow>
       bt_get (gs_tasks v) i = Some (t (| tn_status :=
         if \<not> ha_approved h then TS_Blocked
         else if tn_status t \<in> {TS_WaitingApproval, TS_Blocked} then TS_Runnable
         else tn_status t |))) \<and>
    (\<forall>h'. ha_approval_id h' = ha_approval_id h \<longrightarrow> (\<exists>e. apply_human_approval h' v = (Inl e, v)))"
proof -
  let ?p = "\<lambda>a. apr_id a = ha_approval_id h"
  let ?st = "if ha_approved h then AS_Approved else AS_Rejected"
  obtain k where k: "position ?p (gs_approvals w) = Some k" "apr_status (gs_approvals w ! k) = AS_Pending"
    using run by (auto simp: apply_human_approval_def split: option.splits if_splits)
  have in_range: "k < length (gs_approvals w)" "?p (gs_approvals w ! k)"
    using position_Some [OF k(1)] by auto
  let ?a = "(gs_approvals w ! k) (| apr_status := ?st |)"
  have a: "a = ?a" and apps: "gs_approvals v = (gs_approvals w)[k := ?a]"
    and tasks: "gs_tasks v = (case apr_task_id a of None \<Rightarrow> gs_tasks w
      | Some i \<Rightarrow> bt_adjust i (settled_task ?st) (gs_tasks w))"
    using run k
    by (auto simp: apply_human_approval_def update_approval_def bind_modify_task bind_rules Let_def
        split: option.splits)
  have "position ?p (gs_approvals v) = Some k"
    using position_update [OF k(1), of "\<lambda>a. a (| apr_status := ?st |)"] by (simp add: apps)
  moreover have "apr_status (gs_approvals v ! k) \<noteq> AS_Pending" using in_range by (simp add: apps)
  ultimately have again: "\<exists>e. apply_human_approval h' v = (Inl e, v)"
    if "ha_approval_id h' = ha_approval_id h" for h'
    using that by (simp add: apply_human_approval_def)
  have "a \<in> set (gs_approvals v)"
    using in_range by (metis a apps set_update_memI)
  moreover have "a (| apr_status := AS_Pending |) = gs_approvals w ! k" using a k(2) by simp
  ultimately show ?thesis
    using again a in_range tasks
    by (auto simp: get_adjust settled_task_def)
qed

definition sample_request :: "uuid \<Rightarrow> approval_request" where
  "sample_request i = (| apr_id = i, apr_goal_id = ''g'', apr_task_id = None, apr_attempt = 1,
     apr_reason = [], apr_status = AS_Pending, apr_risk = AR_High, apr_reason_codes = [],
     apr_sandbox = sandbox_profile_default, apr_requested_action = [], apr_notification_reports = [] |)"

theorem approval_is_answered_once_witness:
  "\<exists>v e. apply_human_approval (| ha_approval_id = ''q'', ha_approved = True, ha_note = None |)
        ((world_of sample_goal []) (| gs_approvals := [sample_request ''q''] |)) =
      (Inr ((sample_request ''q'') (| apr_status := AS_Approved |)), v) \<and>
    apply_human_approval (| ha_approval_id = ''q'', ha_approved = False, ha_note = None |) v = (Inl e, v)"
proof -
  let ?h = "(| ha_approval_id = ''q'', ha_approved = True, ha_note = None |)"
  let ?w = "(world_of sample_goal []) (| gs_approvals := [sample_request ''q''] |)"
  obtain v where run: "apply_human_approval ?h ?w =
      (Inr ((sample_request ''q'') (| apr_status := AS_Approved |)), v)"
    by (simp add: apply_human_approval_def sample_request_def update_approval_def bind_rules Let_def)
  show ?thesis using approval_is_answered_once [OF run] run by fastforce
qed

end
