(* ===== verification/Thunks.thy ===== *)
theory Thunks
  imports Approval
begin

text \<open>
  Delayed compute thunks, the durable waits of a goal:
  \<open>validate_delayed_compute_thunk_shape\<close>, \<open>create_delayed_compute_thunk\<close> and
  \<open>resume_delayed_compute_thunk\<close> of \<open>GoalState\<close> (\<open>crates/domain/src/lib.rs\<close>).  The
  invariant \<open>thunks_unique\<close> says that a continuation is awaited by at most one pending
  thunk, \<open>thunks_shaped\<close> that every thunk names a reason, a continuation and a way to
  resume.
\<close>

section \<open>Operations\<close>

definition validate_delayed_compute_thunk_shape :: "delayed_compute_thunk_request \<Rightarrow> domain_error + unit" where
  "validate_delayed_compute_thunk_shape r =
     (if blank (dtr_reason r) \<or> blank (con_continuation_id (dtr_continuation r))
         \<or> blank (con_state_ref (dtr_continuation r)) \<or> con_resume_actions (dtr_continuation r) = []
      then Inl (DE_InvariantViolation
             ''delayed compute thunk must include reason, continuation, and resume action'')
      else if dtr_kind r = DK_HumanInput \<and>
              (case dtr_requested_input r of None \<Rightarrow> True | Some i \<Rightarrow> blank i)
      then Inl (DE_InvariantViolation ''human-input delayed compute thunk must request concrete input'')
      else Inr ())"

definition awaits :: "string \<Rightarrow> delayed_compute_thunk \<Rightarrow> bool" where
  "awaits c d \<longleftrightarrow> dt_status d = DS_Pending \<and> con_continuation_id (dt_continuation d) = c"

definition waiting_status :: "delayed_compute_thunk_kind \<Rightarrow> task_status" where
  "waiting_status k = (if k = DK_Approval then TS_WaitingApproval else TS_WaitingInput)"

definition thunk_for ::
  "delayed_compute_thunk_request \<Rightarrow> uuid \<Rightarrow> uuid \<Rightarrow> string \<Rightarrow> delayed_compute_thunk" where
  "thunk_for r goal_id new_id created = (|
     dt_id = new_id, dt_goal_id = goal_id, dt_task_id = dtr_task_id r, dt_kind = dtr_kind r,
     dt_status = DS_Pending, dt_reason = dtr_reason r, dt_requested_input = dtr_requested_input r,
     dt_wait_ref = dtr_wait_ref r, dt_continuation = dtr_continuation r,
     dt_timeout_seconds = dtr_timeout_seconds r, dt_created_at = created,
     dt_resumed_at = None, dt_resume_record = None |)"

definition push_thunk :: "delayed_compute_thunk \<Rightarrow> unit wop" where
  "push_thunk d =
     update (\<lambda>w. w (| gs_delayed_compute_thunks := gs_delayed_compute_thunks w @ [d] |))"

definition suspend_task :: "delayed_compute_thunk_request \<Rightarrow> unit wop" where
  "suspend_task r =
     (case dtr_task_id r of
        None \<Rightarrow> ok ()
      | Some i \<Rightarrow>
          bindR (lift_result (ensure_task_accepts_mutation i ''create delayed compute thunk'')) (\<lambda>_.
          set_task_status i (waiting_status (dtr_kind r))))"

definition add_thunk :: "delayed_compute_thunk_request \<Rightarrow> delayed_compute_thunk wop" where
  "add_thunk r =
     bindR (suspend_task r) (\<lambda>_.
     bindR new_uuid (\<lambda>new_id.
     bindR now (\<lambda>created.
     reads (\<lambda>w.
     let thunk = thunk_for r (gsp_id (gs_goal w)) new_id created in
     bindR (push_thunk thunk) (\<lambda>_.
     bindR refresh_goal_status (\<lambda>_.
     bindR (push_event (''delayed_compute_thunk_created:'' @ dt_id thunk)) (\<lambda>_.
     ok thunk)))))))"

definition create_delayed_compute_thunk ::
  "delayed_compute_thunk_request \<Rightarrow> delayed_compute_thunk wop" where
  "create_delayed_compute_thunk r =
     bindR (lift_result (ensure_goal_accepts_mutation ''create delayed compute thunk'')) (\<lambda>_.
     reads (\<lambda>w.
       if dtr_goal_id r \<noteq> gsp_id (gs_goal w)
       then fail (DE_SteeringDenied ''delayed compute thunk goal_id does not match workflow goal'')
       else
         bindR (lift_result (\<lambda>_. validate_delayed_compute_thunk_shape r)) (\<lambda>_.
         case find (awaits (con_continuation_id (dtr_continuation r))) (gs_delayed_compute_thunks w) of
           Some existing \<Rightarrow>
             if dt_task_id existing \<noteq> dtr_task_id r
             then fail (DE_InvariantViolation (''pending delayed compute thunk continuation ''
                    @ con_continuation_id (dtr_continuation r) @ '' already exists for a different task''))
             else bindR (push_event (''delayed_compute_thunk_duplicate_skipped:'' @ dt_id existing))
                    (\<lambda>_. ok existing)
         | None \<Rightarrow> add_thunk r)))"

definition update_thunk :: "nat \<Rightarrow> (delayed_compute_thunk \<Rightarrow> delayed_compute_thunk) \<Rightarrow> unit wop" where
  "update_thunk k f = update (\<lambda>w. w (| gs_delayed_compute_thunks :=
     (gs_delayed_compute_thunks w)[k := f (gs_delayed_compute_thunks w ! k)] |))"

definition resumed :: "delayed_compute_thunk_resume_request \<Rightarrow> string \<Rightarrow> delayed_compute_thunk \<Rightarrow> delayed_compute_thunk" where
  "resumed r at d = d (| dt_status := DS_Resumed, dt_resumed_at := Some at,
     dt_resume_record := Some (| trr_responder = trq_responder r,
       trr_response_summary = trq_response_summary r, trr_artifact_refs = trq_artifact_refs r |) |)"

definition wake_task :: "task_node \<Rightarrow> task_node" where
  "wake_task t = (if tn_status t \<in> {TS_Blocked, TS_WaitingApproval, TS_WaitingInput}
                  then t (| tn_status := TS_Runnable |) else t)"

definition resume_delayed_compute_thunk ::
  "delayed_compute_thunk_resume_request \<Rightarrow> delayed_compute_thunk wop" where
  "resume_delayed_compute_thunk r =
     bindR (lift_result (ensure_goal_accepts_mutation ''resume delayed compute thunk'')) (\<lambda>_.
     reads (\<lambda>w.
       case position (\<lambda>d. dt_id d = trq_thunk_id r) (gs_delayed_compute_thunks w) of
         None \<Rightarrow> fail (DE_InvariantViolation (''delayed compute thunk not found: '' @ trq_thunk_id r))
       | Some k \<Rightarrow>
           if dt_status (gs_delayed_compute_thunks w ! k) \<noteq> DS_Pending
           then fail (DE_SteeringDenied (''delayed compute thunk '' @ trq_thunk_id r @ '' is not pending''))
           else
             bindR (case dt_task_id (gs_delayed_compute_thunks w ! k) of
                      None \<Rightarrow> ok ()
                    | Some i \<Rightarrow> lift_result (ensure_task_accepts_mutation i ''resume delayed compute thunk'')) (\<lambda>_.
             bindR now (\<lambda>at.
             bindR (update_thunk k (resumed r at)) (\<lambda>_.
             bindR (case dt_task_id (gs_delayed_compute_thunks w ! k) of
                      None \<Rightarrow> ok () | Some i \<Rightarrow> modify_task i wake_task) (\<lambda>_.
             bindR refresh_goal_status (\<lambda>_.
             bindR (push_event (''delayed_compute_thunk_resumed:'' @ trq_thunk_id r)) (\<lambda>_.
             ok (resumed r at (gs_delayed_compute_thunks w ! k))))))))))"

section \<open>The tree is kept\<close>

lemma preserves_wf_push_thunk [preserves_rules]: "preserves (knows T) (push_thunk d)"
  unfolding push_thunk_def by (rule preserves_wf_frame) simp_all

lemma preserves_wf_update_thunk [preserves_rules]: "preserves (knows T) (update_thunk k f)"
  unfolding update_thunk_def by (rule preserves_wf_frame) simp_all

lemma preserves_wf_create_delayed_compute_thunk [preserves_rules]:
  "preserves (knows T) (create_delayed_compute_thunk r)"
  unfolding create_delayed_compute_thunk_def add_thunk_def suspend_task_def Let_def
  by (intro preserves_rules)

lemma wake_task_shape [simp]: "task_shape (wake_task t) = task_shape t"
  by (simp add: wake_task_def task_shape_def)

lemma preserves_wf_resume_delayed_compute_thunk [preserves_rules]:
  "preserves (knows T) (resume_delayed_compute_thunk r)"
  unfolding resume_delayed_compute_thunk_def by (intro preserves_rules) simp

section \<open>At most one pending thunk per continuation\<close>

definition pending_continuations :: "'a goal_state_scheme \<Rightarrow> string list" where
  "pending_continuations s =
     map (\<lambda>d. con_continuation_id (dt_continuation d))
       (filter (\<lambda>d. dt_status d = DS_Pending) (gs_delayed_compute_thunks s))"

definition thunks_unique :: "'a goal_state_scheme \<Rightarrow> bool" where
  "thunks_unique s \<longleftrightarrow> distinct (pending_continuations s)"

definition thunk_shaped :: "delayed_compute_thunk \<Rightarrow> bool" where
  "thunk_shaped d \<longleftrightarrow>
     \<not> blank (dt_reason d) \<and> \<not> blank (con_continuation_id (dt_continuation d)) \<and>
     \<not> blank (con_state_ref (dt_continuation d)) \<and> con_resume_actions (dt_continuation d) \<noteq> [] \<and>
     (dt_kind d = DK_HumanInput \<longrightarrow> (\<exists>i. dt_requested_input d = Some i \<and> \<not> blank i))"

definition thunks_ok :: "'a goal_state_scheme \<Rightarrow> bool" where
  "thunks_ok s \<longleftrightarrow> thunks_unique s \<and> (\<forall>d \<in> set (gs_delayed_compute_thunks s). thunk_shaped d)"

lemma thunk_for_simps [simp]:
  "dt_id (thunk_for r g i c) = i" "dt_task_id (thunk_for r g i c) = dtr_task_id r"
  "dt_status (thunk_for r g i c) = DS_Pending" "dt_kind (thunk_for r g i c) = dtr_kind r"
  "dt_continuation (thunk_for r g i c) = dtr_continuation r"
  by (simp_all add: thunk_for_def)

lemma validate_shape:
  "validate_delayed_compute_thunk_shape r = Inr () \<longleftrightarrow> thunk_shaped (thunk_for r g i c)"
  by (auto simp: validate_delayed_compute_thunk_shape_def thunk_shaped_def thunk_for_def
      split: option.splits)

lemma thunks_ok_frame:
  "gs_delayed_compute_thunks t = gs_delayed_compute_thunks s \<Longrightarrow> thunks_ok t = thunks_ok s"
  by (simp add: thunks_ok_def thunks_unique_def pending_continuations_def)

lemma preserves_thunks_frame:
  "(\<And>w. gs_delayed_compute_thunks (f w) = gs_delayed_compute_thunks w) \<Longrightarrow>
   preserves thunks_ok (update f)"
  by (rule preserves_update) (metis thunks_ok_frame)

named_theorems thunk_rules "preservation of the thunk invariant"

lemma thunks_new_uuid [thunk_rules]: "preserves thunks_ok new_uuid"
  unfolding new_uuid_def by (rule preserves_draw) (simp add: thunks_ok_def thunks_unique_def pending_continuations_def)

lemma thunks_now [thunk_rules]: "preserves thunks_ok now"
  unfolding now_def by (rule preserves_draw) (simp add: thunks_ok_def thunks_unique_def pending_continuations_def)

lemma thunks_push_event [thunk_rules]: "preserves thunks_ok (push_event m)"
  unfolding push_event_def by (rule preserves_thunks_frame) simp

lemma thunks_put_task [thunk_rules]: "preserves thunks_ok (put_task i f)"
  unfolding put_task_def by (rule preserves_thunks_frame) simp

lemma thunks_modify_task [thunk_rules]: "preserves thunks_ok (modify_task i f)"
  unfolding modify_task_def by (intro thunk_rules preserves_bindR preserves_task_mut)

lemma thunks_set_task_status [thunk_rules]: "preserves thunks_ok (set_task_status i s)"
  unfolding set_task_status_def by (intro thunk_rules)

lemma thunks_refresh [thunk_rules]: "preserves thunks_ok refresh_goal_status"
  unfolding refresh_goal_status_def by (rule preserves_thunks_frame) simp

lemma thunks_insert_child_task [thunk_rules]: "preserves thunks_ok (insert_child_task p t r)"
  unfolding insert_child_task_def insert_task_def
  by (intro thunk_rules preserves_bindR preserves_ok preserves_thunks_frame) simp

lemma pending_push:
  "pending_continuations (w (| gs_delayed_compute_thunks := gs_delayed_compute_thunks w @ [d] |)) =
   pending_continuations w
     @ (if dt_status d = DS_Pending then [con_continuation_id (dt_continuation d)] else [])"
  by (simp add: pending_continuations_def)

lemma no_awaiting:
  "find (awaits c) (gs_delayed_compute_thunks s) = None \<longleftrightarrow> c \<notin> set (pending_continuations s)"
  by (auto simp: find_None_iff awaits_def pending_continuations_def)

lemma thunks_ok_add_thunk:
  assumes ok: "thunks_ok w" and free: "con_continuation_id (dtr_continuation r) \<notin> set (pending_continuations w)"
    and shape: "validate_delayed_compute_thunk_shape r = Inr ()"
  shows "thunks_ok (snd (add_thunk r w))"
proof -
  let ?P = "\<lambda>v. thunks_ok v \<and> con_continuation_id (dtr_continuation r) \<notin> set (pending_continuations v)"
  have frame: "preserves ?P (update f)"
    if "\<And>w. gs_delayed_compute_thunks (f w) = gs_delayed_compute_thunks w" for f :: "world \<Rightarrow> world"
    by (rule preserves_update) (auto simp: thunks_ok_frame [OF that] that pending_continuations_def)
  have susp: "preserves ?P (suspend_task r)"
    unfolding suspend_task_def set_task_status_def modify_task_def put_task_def
    by (intro preserves_case_option preserves_ok preserves_bindR preserves_task_mut
        preserves_lift_result frame) simp
  have ids: "preserves ?P new_uuid" "preserves ?P now"
    unfolding new_uuid_def now_def
    by (rule preserves_draw; simp add: thunks_ok_def thunks_unique_def pending_continuations_def)+
  have push: "thunks_ok (snd (push_thunk (thunk_for r g i c) v))" if "?P v" for v g i c
    using that shape validate_shape [of r g i c]
    by (auto simp: push_thunk_def thunks_ok_def thunks_unique_def pending_push)
  have rest: "thunks_ok (snd ((bindR (push_thunk d) (\<lambda>_. bindR refresh_goal_status (\<lambda>_.
      bindR (push_event m) (\<lambda>_. ok d)))) v))" if "thunks_ok (snd (push_thunk d v))" for d m v
  proof -
    have "preserves thunks_ok (bindR refresh_goal_status (\<lambda>_. bindR (push_event m) (\<lambda>_. ok d)))"
      by (intro thunk_rules preserves_bindR preserves_ok)
    from preservesD [OF this that] show ?thesis by (simp add: push_thunk_def)
  qed
  obtain x w1 where 1: "suspend_task r w = (x, w1)" by fastforce
  then have P1: "?P w1" using preserves_run [OF susp 1] ok free by blast
  show ?thesis
  proof (cases x)
    case (Inl e)
    with 1 P1 show ?thesis by (simp add: add_thunk_def bindR_def)
  next
    case (Inr u)
    obtain i w2 where 2: "new_uuid w1 = (Inr i, w2)" by (simp add: new_uuid_def)
    obtain c w3 where 3: "now w2 = (Inr c, w3)" by (simp add: now_def)
    have "?P w3" using preserves_run [OF ids(2) 3] preserves_run [OF ids(1) 2] P1 by blast
    then show ?thesis
      unfolding add_thunk_def using 1 2 3 Inr rest [OF push]
      by (simp add: bindR_Inr Let_def)
  qed
qed

lemma thunks_create [thunk_rules]: "preserves thunks_ok (create_delayed_compute_thunk r)"
proof (rule preservesI)
  fix w :: world assume "thunks_ok w"
  moreover have "preserves thunks_ok (bindR (push_event m) (\<lambda>_. ok (d :: delayed_compute_thunk)))" for m d
    by (intro thunk_rules preserves_bindR preserves_ok)
  ultimately show "thunks_ok (snd (create_delayed_compute_thunk r w))"
    unfolding create_delayed_compute_thunk_def
    by (auto simp: no_awaiting thunks_ok_add_thunk preservesD split: sum.splits option.splits)
qed

lemma thunks_ok_update:
  assumes ok: "thunks_ok w" and k: "k < length (gs_delayed_compute_thunks w)"
    and f: "\<And>d. dt_status (f d) \<noteq> DS_Pending" "\<And>d. thunk_shaped (f d) = thunk_shaped d"
  shows "thunks_ok (w (| gs_delayed_compute_thunks :=
    (gs_delayed_compute_thunks w)[k := f (gs_delayed_compute_thunks w ! k)] |))"
proof -
  let ?ds = "gs_delayed_compute_thunks w"
  let ?key = "\<lambda>d. con_continuation_id (dt_continuation d)"
  have split: "?ds = take k ?ds @ ?ds ! k # drop (Suc k) ?ds" using k by (rule id_take_nth_drop)
  have upd: "?ds[k := f (?ds ! k)] = take k ?ds @ f (?ds ! k) # drop (Suc k) ?ds"
    using k by (rule upd_conv_take_nth_drop)
  have "distinct (map ?key (filter (\<lambda>d. dt_status d = DS_Pending)
      (take k ?ds @ ?ds ! k # drop (Suc k) ?ds)))"
    using ok split by (simp add: thunks_ok_def thunks_unique_def pending_continuations_def)
  then have "distinct (map ?key (filter (\<lambda>d. dt_status d = DS_Pending) (?ds[k := f (?ds ! k)])))"
    unfolding upd using f(1) by (auto split: if_splits)
  moreover have "\<forall>d \<in> set (?ds[k := f (?ds ! k)]). thunk_shaped d"
    using ok f(2) k by (auto simp: thunks_ok_def dest!: subsetD [OF set_update_subset_insert])
  ultimately show ?thesis by (simp add: thunks_ok_def thunks_unique_def pending_continuations_def)
qed

lemma thunks_resume [thunk_rules]: "preserves thunks_ok (resume_delayed_compute_thunk r)"
proof -
  have "preserves thunks_ok (update_thunk k (resumed r at))" for k at
  proof (unfold update_thunk_def, rule preserves_update)
    fix w :: world assume "thunks_ok w"
    then show "thunks_ok (w (| gs_delayed_compute_thunks := (gs_delayed_compute_thunks w)
        [k := resumed r at (gs_delayed_compute_thunks w ! k)] |))" (is "thunks_ok ?v")
    proof (cases "k < length (gs_delayed_compute_thunks w)")
      case True
      with \<open>thunks_ok w\<close> show ?thesis
        by (intro thunks_ok_update) (simp_all add: resumed_def thunk_shaped_def)
    next
      case False
      then have "thunks_ok ?v = thunks_ok w" by (intro thunks_ok_frame) (simp add: list_update_beyond)
      with \<open>thunks_ok w\<close> show ?thesis by simp
    qed
  qed
  then show ?thesis
    unfolding resume_delayed_compute_thunk_def
    by (intro preserves_bindR preserves_reads preserves_case_option preserves_if preserves_fail
        preserves_lift_result preserves_ok thunk_rules)
qed

section \<open>Creating a wait\<close>

definition suspended :: "delayed_compute_thunk_request \<Rightarrow> (uuid, task_node) btree \<Rightarrow> (uuid, task_node) btree" where
  "suspended r m =
     (case dtr_task_id r of None \<Rightarrow> m
      | Some i \<Rightarrow> bt_adjust i (\<lambda>t. t (| tn_status := waiting_status (dtr_kind r) |)) m)"

lemma run_suspend_task:
  "suspend_task r w = (Inr u, v) \<Longrightarrow> v = w (| gs_tasks := suspended r (gs_tasks w) |) \<and>
     (\<forall>i. dtr_task_id r = Some i \<longrightarrow> bt_get (gs_tasks w) i \<noteq> None)"
  by (auto simp: suspend_task_def suspended_def run_set_task_status split: option.splits sum.splits)

lemma create_Inr:
  assumes "create_delayed_compute_thunk r w = (Inr d, v)"
  obtains (duplicate) "find (awaits (con_continuation_id (dtr_continuation r))) (gs_delayed_compute_thunks w) = Some d"
      "dt_task_id d = dtr_task_id r" "\<exists>es. v = w (| gs_events := es |)"
    | (new) g i c where "d = thunk_for r g i c"
      "find (awaits (con_continuation_id (dtr_continuation r))) (gs_delayed_compute_thunks w) = None"
      "gs_delayed_compute_thunks v = gs_delayed_compute_thunks w @ [d]"
      "gs_tasks v = suspended r (gs_tasks w)" "gs_goal v = gs_goal w" "gs_approvals v = gs_approvals w"
      "gs_restart_history v = gs_restart_history w" "dtr_task_id r \<noteq> None \<Longrightarrow> \<not> goal_terminal v"
proof (cases "find (awaits (con_continuation_id (dtr_continuation r))) (gs_delayed_compute_thunks w)")
  case (Some e)
  with assms show thesis
    by (intro duplicate)
       (auto simp: create_delayed_compute_thunk_def bind_rules split: sum.splits if_splits)
next
  case None
  with assms have "add_thunk r w = (Inr d, v)"
    by (auto simp: create_delayed_compute_thunk_def split: sum.splits if_splits)
  then obtain u w1 where susp: "suspend_task r w = (Inr u, w1)"
    and rest: "bindR new_uuid (\<lambda>new_id. bindR now (\<lambda>created. reads (\<lambda>w.
       let thunk = thunk_for r (gsp_id (gs_goal w)) new_id created in
       bindR (push_thunk thunk) (\<lambda>_. bindR refresh_goal_status (\<lambda>_.
       bindR (push_event (''delayed_compute_thunk_created:'' @ dt_id thunk)) (\<lambda>_.
       ok thunk)))))) w1 = (Inr d, v)"
    unfolding add_thunk_def by (rule bindR_InrE)
  have w1: "w1 = w (| gs_tasks := suspended r (gs_tasks w) |)"
    and there: "\<And>i. dtr_task_id r = Some i \<Longrightarrow> bt_get (gs_tasks w) i \<noteq> None"
    using run_suspend_task [OF susp] by blast+
  have "\<not> goal_terminal w"
    using assms by (auto simp: create_delayed_compute_thunk_def split: sum.splits)
  then have live: "\<not> goal_terminal v" if "dtr_task_id r \<noteq> None"
  proof -
    from that obtain i where i: "dtr_task_id r = Some i" by auto
    have st: "gs_status v \<in> (\<lambda>s. gs_status (refresh s)) `
        {s :: world. gs_tasks s = suspended r (gs_tasks w) \<and> gs_status s = gs_status w}"
      using rest unfolding bind_rules run_reads Let_def push_thunk_def bindR_update run_ok w1
      by clarsimp
    have "some_task (waiting_status (dtr_kind r)) s" if "gs_tasks s = suspended r (gs_tasks w)" for s :: world
    proof -
      from there [OF i] obtain t where "bt_get (gs_tasks w) i = Some t" by auto
      then have "bt_get (gs_tasks s) i = Some (t (| tn_status := waiting_status (dtr_kind r) |))"
        using that i by (simp add: suspended_def get_adjust)
      from get_Some_values [OF this] show ?thesis
        by (auto simp: some_task_def tasks_of_def intro!: bexI)
    qed
    then have "gs_status (refresh s) \<noteq> GS_Done" if "gs_tasks s = suspended r (gs_tasks w)" for s :: world
      using that \<open>\<not> goal_terminal w\<close> refreshed_status_Done [of s] satisfied_all_closed [of s]
      by (fastforce simp: status_refresh some_task_def waiting_status_def split: if_splits)
    moreover have "gs_status (refresh s) \<noteq> GS_Cancelled" if "gs_status s = gs_status w" for s :: world
      using that \<open>\<not> goal_terminal w\<close> by (simp add: status_refresh goal_terminal_def refreshed_status_def)
    moreover from st obtain s :: world where "gs_status v = gs_status (refresh s)"
      "gs_tasks s = suspended r (gs_tasks w)" "gs_status s = gs_status w" by auto
    ultimately show ?thesis by (simp add: goal_terminal_def)
  qed
  from rest None show thesis
    unfolding bind_rules run_reads Let_def push_thunk_def bindR_update run_ok w1
    by (intro new) (use live in \<open>auto simp: thunk_for_def\<close>)
qed

lemma create_Inr_live:
  assumes "create_delayed_compute_thunk r w = (Inr d, v)"
  shows "\<not> goal_terminal w" and "dtr_goal_id r = gsp_id (gs_goal w)"
    and "validate_delayed_compute_thunk_shape r = Inr ()"
  using assms by (auto simp: create_delayed_compute_thunk_def split: sum.splits if_splits)

lemma find_append_None: "find p xs = None \<Longrightarrow> find p (xs @ ys) = find p ys"
  by (induction xs) (auto split: if_splits)

definition sample_thunk_request :: delayed_compute_thunk_request where
  "sample_thunk_request = (| dtr_goal_id = ''g'', dtr_task_id = Some ''a'', dtr_kind = DK_HumanInput,
     dtr_reason = ''why'', dtr_requested_input = Some ''say'', dtr_wait_ref = None,
     dtr_continuation = (| con_continuation_id = ''k'', con_boundary = CB_TaskDispatch,
       con_state_ref = ''s'', con_resume_actions = [CRA_MarkRunnable] |),
     dtr_timeout_seconds = None |)"

lemma sample_request_simps:
  "dtr_goal_id sample_thunk_request = ''g''" "dtr_task_id sample_thunk_request = Some ''a''"
  by (simp_all add: sample_thunk_request_def)

text \<open>
  Creating a wait is safe to repeat.  If \<open>create_delayed_compute_thunk\<close> returned a thunk,
  the thunk is stored, pending on the requested continuation and for the requested task, and
  delivering the same request again returns that same thunk and changes neither the thunks
  nor the tasks.  A request for a task never finishes the goal; for a request without a task
  the second delivery is only considered while the goal is open.
\<close>
theorem thunk_creation_is_idempotent:
  assumes run: "create_delayed_compute_thunk r w = (Inr d, v)"
    and open_goal: "dtr_task_id r = None \<Longrightarrow> \<not> goal_terminal v"
  shows "d \<in> set (gs_delayed_compute_thunks v) \<and> dt_status d = DS_Pending \<and>
    dt_task_id d = dtr_task_id r \<and>
    con_continuation_id (dt_continuation d) = con_continuation_id (dtr_continuation r) \<and>
    (\<exists>u. create_delayed_compute_thunk r v = (Inr d, u) \<and>
         gs_delayed_compute_thunks u = gs_delayed_compute_thunks v \<and> gs_tasks u = gs_tasks v)"
proof -
  let ?c = "con_continuation_id (dtr_continuation r)"
  note ok = create_Inr_live [OF run]
  have "find (awaits ?c) (gs_delayed_compute_thunks v) = Some d \<and> dt_task_id d = dtr_task_id r \<and>
      gs_goal v = gs_goal w \<and> \<not> goal_terminal v"
    using run
  proof (cases rule: create_Inr)
    case duplicate
    then show ?thesis using ok(1) by (auto simp: goal_terminal_def)
  next
    case (new g i c)
    then show ?thesis using open_goal by (auto simp: find_append_None awaits_def)
  qed
  moreover from this have "d \<in> set (gs_delayed_compute_thunks v)" "awaits ?c d"
    by (auto simp: find_Some_iff)
  ultimately show ?thesis
    using ok by (auto simp: create_delayed_compute_thunk_def bind_rules awaits_def)
qed

theorem thunk_creation_is_idempotent_witness:
  "\<exists>d v. create_delayed_compute_thunk sample_thunk_request
        (world_of sample_goal [sample_task ''a'' TS_Running]) = (Inr d, v) \<and>
     d \<in> set (gs_delayed_compute_thunks v)"
proof -
  let ?w = "world_of sample_goal [sample_task ''a'' TS_Running]"
  have "validate_delayed_compute_thunk_shape sample_thunk_request = Inr ()"
    by (simp add: validate_delayed_compute_thunk_shape_def sample_thunk_request_def
        not_blank_Cons ws1_def byte_def)
  then obtain d v where run: "create_delayed_compute_thunk sample_thunk_request ?w = (Inr d, v)"
    by (simp add: create_delayed_compute_thunk_def goal_terminal_def sample_request_simps add_thunk_def
        suspend_task_def ensure_task_accepts_mutation_def ensure_task_snapshot_accepts_mutation_def
        task_def bind_set_task_status bind_rules push_thunk_def Let_def)
  from thunk_creation_is_idempotent [OF run] run show ?thesis
    by (auto simp: sample_request_simps)
qed

section \<open>Resuming\<close>

lemma settled_not_pending:
  assumes u: "thunks_unique s" and k: "k < length (gs_delayed_compute_thunks s)"
    and p: "dt_status (gs_delayed_compute_thunks s ! k) = DS_Pending"
    and t: "gs_delayed_compute_thunks t = (gs_delayed_compute_thunks s)[k := d]" "dt_status d \<noteq> DS_Pending"
  shows "con_continuation_id (dt_continuation (gs_delayed_compute_thunks s ! k)) \<notin> set (pending_continuations t)"
proof -
  let ?ds = "gs_delayed_compute_thunks s"
  have "distinct (map (\<lambda>d. con_continuation_id (dt_continuation d)) (filter (\<lambda>d. dt_status d = DS_Pending)
      (take k ?ds @ ?ds ! k # drop (Suc k) ?ds)))"
    using u id_take_nth_drop [OF k] by (simp add: thunks_unique_def pending_continuations_def)
  with p t(2) show ?thesis
    unfolding pending_continuations_def t(1) upd_conv_take_nth_drop [OF k] by auto
qed

lemma resume_Inr:
  assumes run: "resume_delayed_compute_thunk r w = (Inr d, v)"
  obtains k at where "position (\<lambda>d. dt_id d = trq_thunk_id r) (gs_delayed_compute_thunks w) = Some k"
    and "dt_status (gs_delayed_compute_thunks w ! k) = DS_Pending"
    and "d = resumed r at (gs_delayed_compute_thunks w ! k)"
    and "gs_delayed_compute_thunks v = (gs_delayed_compute_thunks w)[k := d]"
    and "gs_tasks v = (case dt_task_id d of None \<Rightarrow> gs_tasks w | Some i \<Rightarrow> bt_adjust i wake_task (gs_tasks w))"
    and "position (\<lambda>d. dt_id d = trq_thunk_id r) (gs_delayed_compute_thunks v) = Some k"
proof -
  let ?ds = "gs_delayed_compute_thunks w" and ?p = "\<lambda>d. dt_id d = trq_thunk_id r"
  obtain k where k: "position ?p ?ds = Some k" "dt_status (?ds ! k) = DS_Pending" and live: "\<not> goal_terminal w"
    using run by (auto simp: resume_delayed_compute_thunk_def split: option.splits if_splits sum.splits)
  have in_range: "k < length ?ds" "?p (?ds ! k)" using position_Some [OF k(1)] by auto
  have guard: "ensure_goal_accepts_mutation ''resume delayed compute thunk'' w = Inr ()"
    using live by simp
  have "\<exists>at. d = resumed r at (?ds ! k) \<and> gs_delayed_compute_thunks v = ?ds[k := resumed r at (?ds ! k)] \<and>
      gs_tasks v = (case dt_task_id (?ds ! k) of None \<Rightarrow> gs_tasks w
        | Some i \<Rightarrow> bt_adjust i wake_task (gs_tasks w))"
    using run [unfolded resume_delayed_compute_thunk_def bindR_lift_result guard sum.case run_reads
        k(1) option.case update_thunk_def] k(2)
    by (cases "dt_task_id (?ds ! k)")
       (auto simp: bind_modify_task bind_rules split: option.splits sum.splits)
  then obtain at where d: "d = resumed r at (?ds ! k)" and ds: "gs_delayed_compute_thunks v = ?ds[k := d]"
    and tasks: "gs_tasks v = (case dt_task_id d of None \<Rightarrow> gs_tasks w
      | Some i \<Rightarrow> bt_adjust i wake_task (gs_tasks w))"
    by (auto simp: resumed_def)
  have "position ?p (gs_delayed_compute_thunks v) = Some k"
    using position_update [OF k(1), of "\<lambda>_. d"] in_range by (simp add: ds d resumed_def)
  from that [OF k d ds tasks this] show thesis .
qed

text \<open>
  A wait is resumed once, and resuming it wakes the task.  When
  \<open>resume_delayed_compute_thunk\<close> succeeds, the thunk was pending and is stored as Resumed
  with the answer; the task it blocked becomes Runnable if it was Blocked, WaitingApproval
  or WaitingInput and keeps its status otherwise; when continuations were awaited uniquely,
  nothing awaits this continuation any more; and a second resume of the same thunk is
  refused without any change.
\<close>
theorem thunk_is_resumed_once:
  assumes run: "resume_delayed_compute_thunk r w = (Inr d, v)"
  shows "d \<in> set (gs_delayed_compute_thunks v) \<and> dt_id d = trq_thunk_id r \<and>
    dt_status d = DS_Resumed \<and>
    (\<exists>rr. dt_resume_record d = Some rr \<and> trr_response_summary rr = trq_response_summary r) \<and>
    (\<forall>i t. dt_task_id d = Some i \<and> bt_get (gs_tasks w) i = Some t \<longrightarrow>
       bt_get (gs_tasks v) i = Some (t (| tn_status :=
         if tn_status t \<in> {TS_Blocked, TS_WaitingApproval, TS_WaitingInput} then TS_Runnable
         else tn_status t |))) \<and>
    (thunks_unique w \<longrightarrow>
       con_continuation_id (dt_continuation d) \<notin> set (pending_continuations v)) \<and>
    (\<forall>r'. trq_thunk_id r' = trq_thunk_id r \<longrightarrow> (\<exists>e. resume_delayed_compute_thunk r' v = (Inl e, v)))"
proof -
  let ?ds = "gs_delayed_compute_thunks w" and ?p = "\<lambda>d. dt_id d = trq_thunk_id r"
  obtain k at where k: "position ?p ?ds = Some k" "dt_status (?ds ! k) = DS_Pending"
    and d: "d = resumed r at (?ds ! k)" and ds: "gs_delayed_compute_thunks v = ?ds[k := d]"
    and tasks: "gs_tasks v = (case dt_task_id d of None \<Rightarrow> gs_tasks w | Some i \<Rightarrow> bt_adjust i wake_task (gs_tasks w))"
    and pos: "position ?p (gs_delayed_compute_thunks v) = Some k"
    by (rule resume_Inr [OF run])
  have in_range: "k < length ?ds" "?p (?ds ! k)" using position_Some [OF k(1)] by auto
  have d_props: "dt_id d = trq_thunk_id r" "dt_status d = DS_Resumed"
      "\<exists>rr. dt_resume_record d = Some rr \<and> trr_response_summary rr = trq_response_summary r"
      "dt_continuation d = dt_continuation (?ds ! k)"
    using in_range by (auto simp: d resumed_def)
  have "dt_status (gs_delayed_compute_thunks v ! k) \<noteq> DS_Pending"
    using in_range d_props by (simp add: ds)
  with pos have again: "\<exists>e. resume_delayed_compute_thunk r' v = (Inl e, v)"
    if "trq_thunk_id r' = trq_thunk_id r" for r'
    using that by (auto simp: resume_delayed_compute_thunk_def split: sum.splits)
  have "con_continuation_id (dt_continuation d) \<notin> set (pending_continuations v)" if "thunks_unique w"
    using settled_not_pending [OF that in_range(1) k(2) ds] d_props by simp
  moreover have "d \<in> set (gs_delayed_compute_thunks v)"
    using in_range by (metis ds set_update_memI)
  ultimately show ?thesis
    using again d_props tasks by (auto simp: get_adjust wake_task_def)
qed

definition sample_thunk :: delayed_compute_thunk where
  "sample_thunk = (thunk_for sample_thunk_request ''g'' ''d'' ''now'') (| dt_task_id := None |)"

theorem thunk_is_resumed_once_witness:
  "\<exists>d v e. resume_delayed_compute_thunk (| trq_thunk_id = ''d'', trq_responder = ''me'',
        trq_response_summary = ''go'', trq_artifact_refs = [] |)
        ((world_of sample_goal []) (| gs_delayed_compute_thunks := [sample_thunk] |)) = (Inr d, v) \<and>
     resume_delayed_compute_thunk (| trq_thunk_id = ''d'', trq_responder = ''me'',
        trq_response_summary = ''no'', trq_artifact_refs = [] |) v = (Inl e, v)"
proof -
  let ?r = "(| trq_thunk_id = ''d'', trq_responder = ''me'',
        trq_response_summary = ''go'', trq_artifact_refs = [] |)"
  let ?w = "(world_of sample_goal []) (| gs_delayed_compute_thunks := [sample_thunk] |)"
  obtain d v where run: "resume_delayed_compute_thunk ?r ?w = (Inr d, v)"
    by (simp add: resume_delayed_compute_thunk_def sample_thunk_def thunk_for_def goal_terminal_def
        update_thunk_def bind_rules)
  show ?thesis using thunk_is_resumed_once [OF run] run by fastforce
qed

end
