(* ===== verification/Restart.thy ===== *)
theory Restart
  imports Thunks Frames
begin

text \<open>
  Restarts and timeouts: \<open>task_restart_is_available\<close>, \<open>restart_task_ids_for_request\<close>,
  \<open>apply_restart_request\<close>, \<open>record_task_timeout_and_maybe_restart\<close> of \<open>GoalState\<close> and
  \<open>TimeoutPolicy\<close> (\<open>crates/domain/src/lib.rs\<close>).  The history of applied restarts is the
  budget: \<open>task_restart_count\<close> and \<open>goal_restart_count\<close> stay within the policy.
\<close>

section \<open>Counting\<close>

definition task_restart_count :: "'a goal_state_scheme \<Rightarrow> uuid \<Rightarrow> nat" where
  "task_restart_count s i =
     length (filter (\<lambda>r. i \<in> set (rrec_restarted_task_ids r)) (gs_restart_history s))"

definition goal_restart_count :: "'a goal_state_scheme \<Rightarrow> nat" where
  "goal_restart_count s = length (filter (\<lambda>r. rrec_scope r = RSC_Goal) (gs_restart_history s))"

definition task_restart_is_available :: "'a goal_state_scheme \<Rightarrow> task_node \<Rightarrow> bool" where
  "task_restart_is_available s t \<longleftrightarrow>
     (let policy = gsp_restart_policy (gs_goal s) in
      \<not> (goal_terminal s \<or> is_terminal (tn_status t) \<or> \<not> rp_enabled policy) \<and>
      (\<exists>scope \<in> set (rp_allowed_scopes policy). scope \<in> {RSC_Task, RSC_Blocked, RSC_Goal}) \<and>
      task_restart_count s (tn_id t) < rp_max_task_restarts policy)"

section \<open>Applying a restart\<close>

fun restart_scope_debug :: "restart_scope \<Rightarrow> string" where
  "restart_scope_debug RSC_Goal = ''Goal''"
| "restart_scope_debug RSC_Task = ''Task''"
| "restart_scope_debug RSC_Failed = ''Failed''"
| "restart_scope_debug RSC_Blocked = ''Blocked''"
| "restart_scope_debug RSC_TimedOut = ''TimedOut''"

fun restart_reason_debug :: "restart_reason \<Rightarrow> string" where
  "restart_reason_debug RR_OperatorRequested = ''OperatorRequested''"
| "restart_reason_debug RR_RunnerLost = ''RunnerLost''"
| "restart_reason_debug RR_TaskTimedOut = ''TaskTimedOut''"
| "restart_reason_debug RR_GoalTimedOut = ''GoalTimedOut''"
| "restart_reason_debug RR_ConfigChanged = ''ConfigChanged''"
| "restart_reason_debug RR_ModelChanged = ''ModelChanged''"
| "restart_reason_debug RR_ReviewRejected = ''ReviewRejected''"
| "restart_reason_debug RR_Other = ''Other''"

definition ids_with_status :: "task_status set \<Rightarrow> 'a goal_state_scheme \<Rightarrow> uuid list" where
  "ids_with_status A s = map tn_id (filter (\<lambda>t. tn_status t \<in> A) (tasks_of s))"

definition timed_out_ids :: "'a goal_state_scheme \<Rightarrow> uuid list" where
  "timed_out_ids s =
     map tn_id (filter (\<lambda>t. \<exists>e \<in> set (gs_timeout_events s). tev_task_id e = Some (tn_id t)) (tasks_of s))"

definition restart_task_ids_for_request :: "restart_request \<Rightarrow> 'a goal_state_scheme \<Rightarrow> domain_error + uuid list" where
  "restart_task_ids_for_request r s =
     (case (case rrq_scope r of
              RSC_Task \<Rightarrow> (case rrq_task_id r of
                           None \<Rightarrow> Inl (DE_RestartDenied ''task restart requires task_id'')
                         | Some i \<Rightarrow> Inr [i])
            | RSC_Goal \<Rightarrow> Inr (ids_with_status {TS_Blocked, TS_Failed, TS_WaitingApproval,
                               TS_WaitingInput, TS_Running} s)
            | RSC_Failed \<Rightarrow> Inr (ids_with_status {TS_Failed} s)
            | RSC_Blocked \<Rightarrow> Inr (ids_with_status {TS_Blocked} s)
            | RSC_TimedOut \<Rightarrow> Inr (timed_out_ids s)) of
        Inl e \<Rightarrow> Inl e
      | Inr ids \<Rightarrow>
          Inr (dedup (sort
            (if rrq_scope r = RSC_Goal \<and> ids = [] \<and> \<not> goal_terminal s
             then (case find (\<lambda>t. tn_parent_id t = None) (tasks_of s) of
                     Some root \<Rightarrow> [tn_id root] | None \<Rightarrow> [])
             else ids))))"

definition retire_thunk :: "uuid list \<Rightarrow> delayed_compute_thunk \<Rightarrow> bool" where
  "retire_thunk ids d \<longleftrightarrow>
     (case dt_task_id d of Some i \<Rightarrow> i \<in> set ids | None \<Rightarrow> False) \<and> dt_status d = DS_Pending"

definition retire_approval :: "uuid list \<Rightarrow> approval_request \<Rightarrow> bool" where
  "retire_approval ids a \<longleftrightarrow>
     (case apr_task_id a of Some i \<Rightarrow> i \<in> set ids | None \<Rightarrow> False) \<and> apr_status a = AS_Pending"

definition retire_waits :: "uuid list \<Rightarrow> world \<Rightarrow> world" where
  "retire_waits ids w = w (|
     gs_delayed_compute_thunks := map (\<lambda>d. if retire_thunk ids d then d (| dt_status := DS_Cancelled |) else d)
       (gs_delayed_compute_thunks w),
     gs_approvals := map (\<lambda>a. if retire_approval ids a then a (| apr_status := AS_Cancelled |) else a)
       (gs_approvals w) |)"

definition restarted :: "bool \<Rightarrow> task_node \<Rightarrow> task_node" where
  "restarted reset_attempts t =
     (let t = t (| tn_status := TS_Runnable, tn_result := None |)
      in if reset_attempts then t (| tn_attempts := 0 |) else t)"

definition clear_artifacts :: "bool \<Rightarrow> world \<Rightarrow> world" where
  "clear_artifacts preserve w =
     (if preserve then w else w (| gs_final_artifacts := [], gs_checkpoints := [] |))"

definition wake_goal :: "world \<Rightarrow> world" where
  "wake_goal w = (if gs_status w \<in> {GS_Blocked, GS_Failed, GS_Paused}
                  then w (| gs_status := GS_Running |) else w)"

definition restart_guard :: "restart_request \<Rightarrow> 'a goal_state_scheme \<Rightarrow> domain_error + uuid list" where
  "restart_guard r s =
     (let policy = gsp_restart_policy (gs_goal s) in
      if goal_terminal s
      then Inl (DE_RestartDenied (''goal is terminal: '' @ goal_status_debug (gs_status s)))
      else if rrq_goal_id r \<noteq> gsp_id (gs_goal s)
      then Inl (DE_RestartDenied ''restart request goal_id does not match workflow goal'')
      else if \<not> rp_enabled policy then Inl (DE_RestartDenied ''restart policy is disabled'')
      else if rrq_scope r \<notin> set (rp_allowed_scopes policy)
      then Inl (DE_RestartDenied (''restart scope '' @ restart_scope_debug (rrq_scope r) @ '' is not allowed''))
      else if rrq_reason r \<notin> set (rp_allowed_reasons policy) \<and> rrq_reason r \<noteq> RR_Other
      then Inl (DE_RestartDenied (''restart reason '' @ restart_reason_debug (rrq_reason r) @ '' is not allowed''))
      else case restart_task_ids_for_request r s of
        Inl e \<Rightarrow> Inl e
      | Inr ids \<Rightarrow>
          if ids = [] then Inl (DE_RestartDenied ''no restartable tasks matched the request'')
          else if rrq_scope r = RSC_Goal \<and> goal_restart_count s \<ge> rp_max_goal_restarts policy
          then Inl (DE_RestartDenied ''max_goal_restarts exceeded'')
          else case find (\<lambda>i. task_restart_count s i \<ge> rp_max_task_restarts policy) ids of
            Some i \<Rightarrow> Inl (DE_RestartDenied (''max_task_restarts exceeded for task '' @ i))
          | None \<Rightarrow> Inr ids)"

definition push_restart :: "restart_record \<Rightarrow> unit wop" where
  "push_restart r = update (\<lambda>w. w (| gs_restart_history := gs_restart_history w @ [r] |))"

definition apply_restart_request :: "restart_request \<Rightarrow> restart_record wop" where
  "apply_restart_request r =
     bindR (lift_result (restart_guard r)) (\<lambda>ids.
     reads (\<lambda>w.
       let policy = gsp_restart_policy (gs_goal w);
           reset = (case rrq_reset_attempts r of Some b \<Rightarrow> b | None \<Rightarrow> rp_reset_attempts_on_restart policy);
           preserve = (case rrq_preserve_artifacts r of Some b \<Rightarrow> b | None \<Rightarrow> rp_preserve_artifacts policy);
           thunks = length (filter (retire_thunk ids) (gs_delayed_compute_thunks w));
           approvals = length (filter (retire_approval ids) (gs_approvals w))
       in bindR (update (retire_waits ids)) (\<lambda>_.
          bindR (for_each ids (\<lambda>i. modify_task i (restarted reset))) (\<lambda>_.
          bindR (update (clear_artifacts preserve)) (\<lambda>_.
          bindR (update wake_goal) (\<lambda>_.
          bindR new_uuid (\<lambda>new_id.
          let record = (| rrec_id = new_id, rrec_scope = rrq_scope r, rrec_reason = rrq_reason r,
                rrec_message = rrq_message r, rrec_task_id = rrq_task_id r,
                rrec_restarted_task_ids = ids, rrec_operator = rrq_operator r |)
          in bindR (push_event (''restart_applied:'' @ new_id @ '':'' @ dec (length ids))) (\<lambda>_.
             bindR (if thunks > 0 \<or> approvals > 0
                    then push_event (''restart_retired_waits:'' @ new_id @ '':'' @ dec thunks @ '':'' @ dec approvals)
                    else ok ()) (\<lambda>_.
             bindR (push_restart record) (\<lambda>_.
             bindR refresh_goal_status (\<lambda>_. ok record)))))))))))"

section \<open>Timeouts\<close>

definition task_timeout_seconds :: "timeout_policy \<Rightarrow> task_node \<Rightarrow> nat" where
  "task_timeout_seconds p t =
     (let configured = (if tp_enabled p
                        then (case tp_runner_call_timeout_seconds p of Some n \<Rightarrow> Some n
                              | None \<Rightarrow> tp_task_run_timeout_seconds p)
                        else None);
          remaining = bu_remaining_runtime_seconds (tn_budget t)
      in max (min (case configured of Some n \<Rightarrow> n | None \<Rightarrow> remaining) (max remaining 1)) 1)"

definition dispatch_timeout_seconds :: "timeout_policy \<Rightarrow> nat" where
  "dispatch_timeout_seconds p =
     (if tp_enabled p
      then max (case tp_runner_dispatch_timeout_seconds p of Some n \<Rightarrow> n | None \<Rightarrow> 30) 1
      else 30)"

definition push_timeout :: "timeout_event \<Rightarrow> unit wop" where
  "push_timeout e = update (\<lambda>w. w (| gs_timeout_events := gs_timeout_events w @ [e] |))"

definition timeout_restart_request :: "'a goal_state_scheme \<Rightarrow> uuid \<Rightarrow> string \<Rightarrow> restart_request" where
  "timeout_restart_request s i message = (|
     rrq_goal_id = gsp_id (gs_goal s), rrq_scope = RSC_Task, rrq_reason = RR_TaskTimedOut,
     rrq_message = message, rrq_task_id = Some i, rrq_reset_attempts = None,
     rrq_preserve_artifacts = None, rrq_operator = Some ''coordinator_timeout_policy'' |)"

definition record_task_timeout_and_maybe_restart :: "uuid \<Rightarrow> nat \<Rightarrow> string \<Rightarrow> bool wop" where
  "record_task_timeout_and_maybe_restart i secs message =
     bindR (lift_result (ensure_goal_accepts_mutation ''record task timeout'')) (\<lambda>_.
     bindR (lift_result (ensure_task_accepts_mutation i ''record task timeout'')) (\<lambda>_.
     bindR new_uuid (\<lambda>new_id.
     reads (\<lambda>w.
       let action = tp_on_task_timeout (gsp_timeout_policy (gs_goal w)) in
       bindR (push_timeout (| tev_id = new_id, tev_goal_id = gsp_id (gs_goal w), tev_task_id = Some i,
                tev_action = action, tev_timeout_seconds = secs, tev_message = message |)) (\<lambda>_.
       bindR (push_event (''task_timed_out:'' @ i @ '':'' @ dec secs)) (\<lambda>_.
       case action of
         TA_RestartIfAllowed \<Rightarrow>
           bindR (apply_restart_request (timeout_restart_request w i message)) (\<lambda>_. ok True)
       | TA_Fail \<Rightarrow>
           bindR (set_task_status i TS_Failed) (\<lambda>_. bindR refresh_goal_status (\<lambda>_. ok False))
       | _ \<Rightarrow>
           bindR (set_task_status i TS_Blocked) (\<lambda>_. bindR refresh_goal_status (\<lambda>_. ok False))))))))"

section \<open>The tree is kept\<close>

lemma restarted_shape [simp]: "task_shape (restarted b t) = task_shape t"
  by (simp add: restarted_def task_shape_def Let_def)

lemma preserves_wf_restart_updates [preserves_rules]:
  "preserves (knows T) (update (retire_waits ids))" "preserves (knows T) (update (clear_artifacts b))"
  "preserves (knows T) (update wake_goal)" "preserves (knows T) (push_restart r)"
  "preserves (knows T) (push_timeout e)"
  unfolding push_restart_def push_timeout_def
  by (rule preserves_wf_frame; simp add: retire_waits_def clear_artifacts_def wake_goal_def)+

lemma preserves_wf_apply_restart_request [preserves_rules]:
  "preserves (knows T) (apply_restart_request r)"
  unfolding apply_restart_request_def Let_def by (intro preserves_rules) simp

lemma preserves_wf_record_task_timeout [preserves_rules]:
  "preserves (knows T) (record_task_timeout_and_maybe_restart i n m)"
  unfolding record_task_timeout_and_maybe_restart_def Let_def
  by (intro preserves_rules) (simp split: timeout_action.split; intro conjI impI preserves_rules)

section \<open>Bounds\<close>

definition restarts_bounded :: "'a goal_state_scheme \<Rightarrow> bool" where
  "restarts_bounded s \<longleftrightarrow>
     (\<forall>i. task_restart_count s i \<le> rp_max_task_restarts (gsp_restart_policy (gs_goal s))) \<and>
     goal_restart_count s \<le> rp_max_goal_restarts (gsp_restart_policy (gs_goal s))"

lemma restart_guard_Inr:
  assumes "restart_guard r s = Inr ids"
  shows "\<not> goal_terminal s" and "restart_task_ids_for_request r s = Inr ids" and "ids \<noteq> []"
    and "rp_enabled (gsp_restart_policy (gs_goal s))"
    and "rrq_scope r \<in> set (rp_allowed_scopes (gsp_restart_policy (gs_goal s)))"
    and "rrq_scope r = RSC_Goal \<Longrightarrow>
      goal_restart_count s < rp_max_goal_restarts (gsp_restart_policy (gs_goal s))"
    and "i \<in> set ids \<Longrightarrow> task_restart_count s i < rp_max_task_restarts (gsp_restart_policy (gs_goal s))"
  using assms
  by (auto simp: restart_guard_def Let_def find_None_iff not_le split: if_splits sum.splits option.splits)

lemma restart_ids_distinct:
  assumes "restart_task_ids_for_request r s = Inr ids"
  shows "distinct ids"
  using assms by (auto simp: restart_task_ids_for_request_def split: sum.splits)

section \<open>The effect of a restart\<close>

lemma wake_goal_frame [simp]:
  "gs_tasks (wake_goal w) = gs_tasks w" "gs_goal (wake_goal w) = gs_goal w"
  "gs_restart_history (wake_goal w) = gs_restart_history w"
  "gs_delayed_compute_thunks (wake_goal w) = gs_delayed_compute_thunks w"
  "gs_approvals (wake_goal w) = gs_approvals w"
  by (simp_all add: wake_goal_def)

lemma clear_artifacts_frame [simp]:
  "gs_tasks (clear_artifacts b w) = gs_tasks w" "gs_goal (clear_artifacts b w) = gs_goal w"
  "gs_restart_history (clear_artifacts b w) = gs_restart_history w"
  "gs_delayed_compute_thunks (clear_artifacts b w) = gs_delayed_compute_thunks w"
  "gs_approvals (clear_artifacts b w) = gs_approvals w"
  by (simp_all add: clear_artifacts_def)

lemma bind_event_if:
  "bindR (if b then push_event m else ok ()) h w =
     h () (w (| gs_events := gs_events w @ (if b then [state_event_new m] else []) |))"
  by (simp add: bind_rules)

lemma apply_restart_Inr:
  assumes "apply_restart_request r w = (Inr rec, v)"
  obtains reset where
    "restart_guard r w = Inr (rrec_restarted_task_ids rec)"
    "\<And>i. bt_get (gs_tasks v) i =
       (if i \<in> set (rrec_restarted_task_ids rec)
        then map_option (restarted reset) (bt_get (gs_tasks w) i) else bt_get (gs_tasks w) i)"
    "\<And>i. i \<in> set (rrec_restarted_task_ids rec) \<Longrightarrow> bt_get (gs_tasks w) i \<noteq> None"
    "gs_restart_history v = gs_restart_history w @ [rec]" "rrec_scope rec = rrq_scope r"
    "gs_goal v = gs_goal w"
    "gs_delayed_compute_thunks v =
       gs_delayed_compute_thunks (retire_waits (rrec_restarted_task_ids rec) w)"
    "gs_approvals v = gs_approvals (retire_waits (rrec_restarted_task_ids rec) w)"
proof -
  from assms obtain ids where g: "restart_guard r w = Inr ids"
    by (cases "restart_guard r w") (auto simp: apply_restart_request_def)
  define reset where "reset = (case rrq_reset_attempts r of Some b \<Rightarrow> b
      | None \<Rightarrow> rp_reset_attempts_on_restart (gsp_restart_policy (gs_goal w)))"
  let ?loop = "for_each ids (\<lambda>i. modify_task i (restarted reset)) (retire_waits ids w)"
  obtain x w1 where loop: "?loop = (x, w1)" by fastforce
  have frame: "h w1 = h (retire_waits ids w)" if "\<And>w x. h (w (| gs_tasks := x |)) = h w" for h :: "world \<Rightarrow> 'z"
  proof -
    have "h (snd ?loop) = h (retire_waits ids w)"
      by (rule frameD [where g = h]) (intro control_rules frame_rules that)
    with loop show ?thesis by simp
  qed
  have fr: "gs_goal w1 = gs_goal w" "gs_restart_history w1 = gs_restart_history w"
      "gs_delayed_compute_thunks w1 = gs_delayed_compute_thunks (retire_waits ids w)"
      "gs_approvals w1 = gs_approvals (retire_waits ids w)"
    using frame [of gs_goal] frame [of gs_restart_history] frame [of gs_delayed_compute_thunks]
      frame [of gs_approvals] by (simp_all add: retire_waits_def)
  from assms g loop obtain us where x: "x = Inr us"
    by (cases x) (simp_all add: apply_restart_request_def Let_def reset_def [symmetric] bindR_Inl bindR_Inr)
  have step: "bindR (for_each ids (\<lambda>i. modify_task i (restarted reset))) f (retire_waits ids w) = f us w1"
    for f :: "unit list \<Rightarrow> restart_record wop"
    using loop x by (simp add: bindR_def)
  have v: "rrec_restarted_task_ids rec = ids" "rrec_scope rec = rrq_scope r" "gs_tasks v = gs_tasks w1"
      "gs_goal v = gs_goal w1" "gs_restart_history v = gs_restart_history w1 @ [rec]"
      "gs_delayed_compute_thunks v = gs_delayed_compute_thunks w1" "gs_approvals v = gs_approvals w1"
    using assms
    unfolding apply_restart_request_def bindR_lift_result g sum.case run_reads Let_def
      reset_def [symmetric] bindR_update step bind_rules bind_event_if push_restart_def run_ok
    by (clarsimp simp del: split_paired_Ex)+
  have dist: "distinct ids" using restart_ids_distinct restart_guard_Inr(2) g by blast
  have tasks: "bt_get (gs_tasks w1) j =
      (if j \<in> set ids then map_option (restarted reset) (bt_get (gs_tasks w) j) else bt_get (gs_tasks w) j)"
    "j \<in> set ids \<Longrightarrow> bt_get (gs_tasks w) j \<noteq> None" for j
    using run_for_each_modify [OF loop [unfolded x] dist, of j] by (simp_all add: retire_waits_def)
  show thesis
    by (rule that [of reset]) (use g v fr tasks in simp_all)
qed

lemma restart_counts_snoc:
  "gs_restart_history v = gs_restart_history w @ [rec] \<Longrightarrow>
   task_restart_count v i =
     task_restart_count w i + (if i \<in> set (rrec_restarted_task_ids rec) then 1 else 0)"
  "gs_restart_history v = gs_restart_history w @ [rec] \<Longrightarrow>
   goal_restart_count v = goal_restart_count w + (if rrec_scope rec = RSC_Goal then 1 else 0)"
  by (simp_all add: task_restart_count_def goal_restart_count_def)

lemma restarts_bounded_Inr:
  assumes run: "apply_restart_request r w = (Inr rec, v)" and b: "restarts_bounded w"
  shows "restarts_bounded v"
proof -
  obtain reset where e: "restart_guard r w = Inr (rrec_restarted_task_ids rec)"
      "gs_restart_history v = gs_restart_history w @ [rec]" "rrec_scope rec = rrq_scope r"
      "gs_goal v = gs_goal w"
    using apply_restart_Inr [OF run] by metis
  show ?thesis
    using b restart_guard_Inr(6,7) [OF e(1)] e(3,4) restart_counts_snoc [OF e(2)]
    by (auto simp: restarts_bounded_def Suc_le_eq)
qed

lemma run_restart_denied:
  "restart_guard r w = Inl e \<Longrightarrow> apply_restart_request r w = (Inl e, w)"
  by (simp add: apply_restart_request_def)

section \<open>The restart budget\<close>

definition restart_budget :: "world \<Rightarrow> restart_record list \<times> restart_policy" where
  "restart_budget w = (gs_restart_history w, gsp_restart_policy (gs_goal w))"

lemma restarts_bounded_budget: "restart_budget v = restart_budget w \<Longrightarrow> restarts_bounded v = restarts_bounded w"
  by (simp add: restart_budget_def restarts_bounded_def task_restart_count_def goal_restart_count_def)

lemma restart_budget_Inl:
  assumes "apply_restart_request r w = (Inl e, v)"
  shows "restart_budget v = restart_budget w"
proof (cases "restart_guard r w")
  case (Inl d)
  with assms show ?thesis by (simp add: run_restart_denied)
next
  case (Inr ids)
  let ?loop = "\<lambda>b. for_each ids (\<lambda>i. modify_task i (restarted b))"
  have loop: "restart_budget (snd (?loop b (retire_waits ids w))) = restart_budget w" for b
  proof -
    have "restart_budget (snd (?loop b (retire_waits ids w))) = restart_budget (retire_waits ids w)"
      by (rule frameD [where g = restart_budget]) (intro control_rules frame_rules, simp add: restart_budget_def)
    then show ?thesis by (simp add: restart_budget_def retire_waits_def)
  qed
  from assms [unfolded apply_restart_request_def bindR_lift_result Inr sum.case run_reads Let_def bindR_update]
  show ?thesis
  proof (cases rule: bindR_cases)
    case (error d)
    with loop show ?thesis by (metis snd_conv)
  next
    case (success us u)
    from success(2) show ?thesis
      unfolding bindR_update bind_rules bind_event_if push_restart_def run_ok by simp
  qed
qed

lemma restarts_bounded_apply: "preserves restarts_bounded (apply_restart_request r)"
proof (rule preservesI)
  fix w :: world assume b: "restarts_bounded w"
  obtain x v where run: "apply_restart_request r w = (x, v)" by fastforce
  have "restarts_bounded v"
  proof (cases x)
    case (Inl e)
    with run have "apply_restart_request r w = (Inl e, v)" by simp
    from restart_budget_Inl [OF this] b show ?thesis using restarts_bounded_budget by blast
  next
    case (Inr rec)
    with run have "apply_restart_request r w = (Inr rec, v)" by simp
    from restarts_bounded_Inr [OF this b] show ?thesis .
  qed
  with run show "restarts_bounded (snd (apply_restart_request r w))" by simp
qed

lemma restarts_bounded_from_frame:
  assumes "\<And>v. preserves (\<lambda>w. restart_budget w = v) m"
  shows "preserves restarts_bounded m"
  by (rule preservesI) (metis assms frameD restarts_bounded_budget)

lemma restarts_bounded_timeout: "preserves restarts_bounded (record_task_timeout_and_maybe_restart i n m)"
proof -
  note upd = restart_budget_def
  have parts: "preserves restarts_bounded new_uuid" "preserves restarts_bounded (push_timeout e)"
      "preserves restarts_bounded (push_event t)" "preserves restarts_bounded (set_task_status i st)"
      "preserves restarts_bounded refresh_goal_status" for e t st
    unfolding push_timeout_def
    by (rule restarts_bounded_from_frame;
        (rule frame_new_uuid frame_update frame_push_event frame_set_task_status frame_refresh; simp add: upd))+
  show ?thesis
    unfolding record_task_timeout_and_maybe_restart_def Let_def
    by (intro preserves_bindR preserves_reads preserves_lift_result parts)
       (simp split: timeout_action.split;
        intro conjI impI preserves_bindR preserves_ok parts restarts_bounded_apply)
qed

section \<open>Properties\<close>

text \<open>
  C16: Restarts stay within the budget of the restart policy.  If no task has been restarted
  more than \<open>max_task_restarts\<close> times and the goal not more than \<open>max_goal_restarts\<close> times, that
  is still so after any restart request and after any timeout (which may restart the task by
  itself), whether the operation succeeds or fails.
\<close>
theorem restart_budget_is_never_exceeded:
  assumes "restarts_bounded w"
  shows "restarts_bounded (snd (apply_restart_request r w)) \<and>
    restarts_bounded (snd (record_task_timeout_and_maybe_restart i secs message w))"
  using assms preservesD [OF restarts_bounded_apply] preservesD [OF restarts_bounded_timeout] by blast

theorem restart_budget_is_never_exceeded_witness:
  "restarts_bounded (snd (record_task_timeout_and_maybe_restart ''a'' 5 ''late''
     (world_of sample_goal [sample_task ''a'' TS_Running])))"
  using restart_budget_is_never_exceeded [of "world_of sample_goal [sample_task ''a'' TS_Running]"]
  by (simp add: restarts_bounded_def task_restart_count_def goal_restart_count_def)

text \<open>
  A restart puts its tasks back into the queue and takes their waits away.  When
  \<open>apply_restart_request\<close> succeeds, it names at least one task, each once; each of them is
  stored, Runnable and without a result; every other task is unchanged; no thunk and no
  approval request of a restarted task is pending any more, while waits of other tasks are
  kept; and the record is appended to the history that the budget counts.
\<close>
theorem restart_requeues_tasks_and_retires_waits:
  assumes run: "apply_restart_request r w = (Inr rec, v)"
  shows "rrec_restarted_task_ids rec \<noteq> [] \<and> distinct (rrec_restarted_task_ids rec) \<and>
    gs_restart_history v = gs_restart_history w @ [rec] \<and>
    (\<forall>i \<in> set (rrec_restarted_task_ids rec). \<exists>t u. bt_get (gs_tasks w) i = Some t \<and>
       bt_get (gs_tasks v) i = Some u \<and> tn_status u = TS_Runnable \<and> tn_result u = None \<and>
       tn_attempts u \<in> {0, tn_attempts t}) \<and>
    (\<forall>i. i \<notin> set (rrec_restarted_task_ids rec) \<longrightarrow> bt_get (gs_tasks v) i = bt_get (gs_tasks w) i) \<and>
    (\<forall>d \<in> set (gs_delayed_compute_thunks v). \<forall>i. dt_task_id d = Some i \<and>
       i \<in> set (rrec_restarted_task_ids rec) \<longrightarrow> dt_status d \<noteq> DS_Pending) \<and>
    (\<forall>a \<in> set (gs_approvals v). \<forall>i. apr_task_id a = Some i \<and>
       i \<in> set (rrec_restarted_task_ids rec) \<longrightarrow> apr_status a \<noteq> AS_Pending) \<and>
    (\<forall>d \<in> set (gs_delayed_compute_thunks w).
       (\<forall>i. dt_task_id d = Some i \<longrightarrow> i \<notin> set (rrec_restarted_task_ids rec)) \<longrightarrow>
       d \<in> set (gs_delayed_compute_thunks v))"
proof -
  obtain reset where e: "restart_guard r w = Inr (rrec_restarted_task_ids rec)"
    "\<And>i. bt_get (gs_tasks v) i =
       (if i \<in> set (rrec_restarted_task_ids rec)
        then map_option (restarted reset) (bt_get (gs_tasks w) i) else bt_get (gs_tasks w) i)"
    "\<And>i. i \<in> set (rrec_restarted_task_ids rec) \<Longrightarrow> bt_get (gs_tasks w) i \<noteq> None"
    "gs_restart_history v = gs_restart_history w @ [rec]"
    "gs_delayed_compute_thunks v =
       gs_delayed_compute_thunks (retire_waits (rrec_restarted_task_ids rec) w)"
    "gs_approvals v = gs_approvals (retire_waits (rrec_restarted_task_ids rec) w)"
    using apply_restart_Inr [OF run] by metis
  have "\<exists>t u. bt_get (gs_tasks w) i = Some t \<and> bt_get (gs_tasks v) i = Some u \<and>
      tn_status u = TS_Runnable \<and> tn_result u = None \<and> tn_attempts u \<in> {0, tn_attempts t}"
    if "i \<in> set (rrec_restarted_task_ids rec)" for i
    using e(2,3) [of i] that by (cases reset) (auto simp: restarted_def)
  moreover have "d \<in> set (gs_delayed_compute_thunks v)"
    if "d \<in> set (gs_delayed_compute_thunks w)"
      "\<forall>i. dt_task_id d = Some i \<longrightarrow> i \<notin> set (rrec_restarted_task_ids rec)" for d
  proof -
    have "\<not> retire_thunk (rrec_restarted_task_ids rec) d"
      using that(2) by (auto simp: retire_thunk_def split: option.splits)
    then show ?thesis using that(1) by (force simp: e(5) retire_waits_def)
  qed
  moreover have "dt_status d \<noteq> DS_Pending"
    if "d \<in> set (gs_delayed_compute_thunks v)" "dt_task_id d = Some i"
      "i \<in> set (rrec_restarted_task_ids rec)" for d i
    using that by (auto simp: e(5) retire_waits_def retire_thunk_def split: if_splits)
  moreover have "apr_status a \<noteq> AS_Pending"
    if "a \<in> set (gs_approvals v)" "apr_task_id a = Some i" "i \<in> set (rrec_restarted_task_ids rec)" for a i
    using that by (auto simp: e(6) retire_waits_def retire_approval_def split: if_splits)
  ultimately show ?thesis
    using restart_guard_Inr(2,3) [OF e(1)] restart_ids_distinct e(2,4) by auto
qed

definition sample_restart :: restart_request where
  "sample_restart = (| rrq_goal_id = ''g'', rrq_scope = RSC_Task, rrq_reason = RR_Other,
     rrq_message = ''again'', rrq_task_id = Some ''a'', rrq_reset_attempts = None,
     rrq_preserve_artifacts = None, rrq_operator = None |)"

theorem restart_requeues_tasks_and_retires_waits_witness:
  "\<exists>rec v. apply_restart_request sample_restart (world_of sample_goal [sample_task ''a'' TS_Blocked]) =
     (Inr rec, v) \<and> rrec_restarted_task_ids rec \<noteq> []"
proof -
  let ?w = "world_of sample_goal [sample_task ''a'' TS_Blocked]"
  have "restart_guard sample_restart ?w = Inr [''a'']"
    by (simp add: restart_guard_def sample_restart_def goal_terminal_def restart_policy_default_def
        restart_task_ids_for_request_def task_restart_count_def)
  then have "\<exists>rec v. apply_restart_request sample_restart ?w = (Inr rec, v)"
    unfolding apply_restart_request_def bindR_lift_result run_reads Let_def bindR_update
    by (simp add: retire_waits_def bind_modify_task)
       (simp only: bind_rules bindR_update push_restart_def run_ok prod.inject sum.inject, blast)
  then obtain rec v where run: "apply_restart_request sample_restart ?w = (Inr rec, v)" by blast
  with restart_requeues_tasks_and_retires_waits [OF run] show ?thesis by blast
qed

text \<open>
  Every run has a positive, bounded deadline.  The timeout of a task is at least one
  second and never more than the runtime budget that the task has left (or one second when
  nothing is left), and the dispatch timeout is at least one second.
\<close>
theorem timeouts_are_positive_and_within_budget:
  "1 \<le> task_timeout_seconds p t \<and>
   task_timeout_seconds p t \<le> max (bu_remaining_runtime_seconds (tn_budget t)) 1 \<and>
   1 \<le> dispatch_timeout_seconds p \<and>
   (\<not> tp_enabled p \<longrightarrow>
      task_timeout_seconds p t = max (bu_remaining_runtime_seconds (tn_budget t)) 1)"
  by (auto simp: task_timeout_seconds_def dispatch_timeout_seconds_def Let_def split: option.splits)

theorem timeouts_are_positive_and_within_budget_witness:
  "task_timeout_seconds (timeout_policy_default (| tp_enabled := False |)) (sample_task ''a'' TS_Running) =
     max (bu_remaining_runtime_seconds default_goal) 1"
  using timeouts_are_positive_and_within_budget
    [of "timeout_policy_default (| tp_enabled := False |)" "sample_task ''a'' TS_Running"] by simp

end
