(* ===== verification/Branching.thy ===== *)
theory Branching
  imports Worker_Result
begin

text \<open>
  Competing branches: \<open>branch_task\<close>, \<open>branch_target_task\<close>, \<open>spawn_branch_votes\<close>,
  \<open>spawn_branch_unifier\<close>, \<open>validate_branch_vote\<close>, \<open>record_branch_vote\<close>,
  \<open>auto_selected_branch_task\<close>, \<open>try_auto_select_branch_groups\<close>, \<open>apply_branch_selection\<close>,
  \<open>ensure_branch_frontier\<close>, and \<open>apply_validation\<close>, which records votes and triggers the
  selection (\<open>crates/domain/src/lib.rs\<close>).  A branch group whose selection is made always
  points at one of its own candidates, and that candidate had been validated.
\<close>

section \<open>Groups\<close>

fun branch_selector_debug :: "branch_selector \<Rightarrow> string" where
  "branch_selector_debug BS_Human = ''Human''"
| "branch_selector_debug BS_VoterQuorum = ''VoterQuorum''"
| "branch_selector_debug BS_HighestScore = ''HighestScore''"
| "branch_selector_debug BS_Unifier = ''Unifier''"
| "branch_selector_debug BS_CoordinatorPolicy = ''CoordinatorPolicy''"

definition push_group :: "branch_group \<Rightarrow> unit wop" where
  "push_group g = update (\<lambda>w. w (| gs_branch_groups := gs_branch_groups w @ [g] |))"

definition update_group :: "nat \<Rightarrow> (branch_group \<Rightarrow> branch_group) \<Rightarrow> unit wop" where
  "update_group k f =
     update (\<lambda>w. w (| gs_branch_groups := (gs_branch_groups w)[k := f (gs_branch_groups w ! k)] |))"

definition branch_target_task :: "branch_request \<Rightarrow> task_node wop" where
  "branch_target_task r =
     (case brq_target_task_id r of
        Some i \<Rightarrow> task_mut i
      | None \<Rightarrow>
          (case brq_subgoal_id r of
             Some g \<Rightarrow> reads (\<lambda>w.
               case find (\<lambda>t. tn_subgoal_id t = Some g \<and> \<not> is_review (tn_purpose t)
                            \<and> \<not> is_unification (tn_purpose t)) (tasks_of w) of
                 Some t \<Rightarrow> ok t
               | None \<Rightarrow> fail (DE_BranchDenied (''no branchable task found for subgoal '' @ g)))
           | None \<Rightarrow> get_root))"

definition nth_or :: "'a list \<Rightarrow> nat \<Rightarrow> 'a \<Rightarrow> 'a" where
  "nth_or xs k d = (if k < length xs then xs ! k else d)"

definition candidate_request ::
  "branch_request \<Rightarrow> task_node \<Rightarrow> uuid \<Rightarrow> nat \<Rightarrow> nat \<Rightarrow> child_task_request" where
  "candidate_request r target group_id count k =
     (let role = nth_or (brq_candidate_roles r) k (tn_role target);
          execution = nth_or (brq_candidate_executions r) k (with_role role (tn_execution target));
          prompt = nth_or (brq_prompt_overrides r) k
            (tn_prompt target @ nl @ nl @ ''Branch candidate '' @ dec (k + 1) @ '' of '' @ dec count
             @ '' for group '' @ group_id
             @ ''. Produce an independently reviewable implementation with artifacts and tradeoffs.'')
      in (| ctr_role = role,
            ctr_purpose = Some (TP_CandidateBranch group_id (tn_id target) (k + 1)),
            ctr_title = Some (tn_title target @ '' branch candidate '' @ dec (k + 1)),
            ctr_subgoal_id = tn_subgoal_id target, ctr_color = None, ctr_prompt = prompt,
            ctr_reason = brq_reason r, ctr_dependencies = tn_dependencies target,
            ctr_budget = Some (child_budget (tn_budget target)), ctr_sandbox = Some (tn_sandbox target),
            ctr_done_criteria = Some (tn_done_criteria target),
            ctr_review_doctrine = Some (tn_review_doctrine target),
            ctr_execution = Some execution, ctr_priority = tn_priority target,
            ctr_tags = tn_tags target @ [''branch'', ''candidate'', ''branch-group:'' @ group_id] |))"

definition first_model :: "child_task_request \<Rightarrow> string list" where
  "first_model r =
     (case ctr_execution r of
        None \<Rightarrow> []
      | Some e \<Rightarrow>
          (case mr_candidates (ep_model e) of
             [] \<Rightarrow> [] | m # _ \<Rightarrow> [mpk_as_str (mc_provider m) @ '':'' @ mc_model m]))"

definition models_diverse :: "child_task_request list \<Rightarrow> bool" where
  "models_diverse requests \<longleftrightarrow>
     min (length requests) 2 \<le> card (set (concat (map first_model requests)))"

text \<open>\<open>u32::clamp(2, max)\<close>, which panics when \<open>max < 2\<close>; the panic has no state.\<close>

definition branch_candidate_count :: "branch_request \<Rightarrow> branching_policy \<Rightarrow> nat option" where
  "branch_candidate_count r p =
     (if bp_max_candidates_per_group p < 2 then None
      else Some (max 2 (min (brq_candidate_count r) (bp_max_candidates_per_group p))))"

definition new_group :: "branch_request \<Rightarrow> task_node \<Rightarrow> branching_policy \<Rightarrow> uuid \<Rightarrow> uuid list \<Rightarrow> branch_group" where
  "new_group r target p group_id candidates = (|
     bg_id = group_id, bg_original_task_id = tn_id target, bg_subgoal_id = tn_subgoal_id target,
     bg_reason = brq_reason r,
     bg_selection_strategy = (case brq_selection_strategy r of Some s \<Rightarrow> s
                              | None \<Rightarrow> bp_default_selection_strategy p),
     bg_candidate_task_ids = candidates, bg_voter_task_ids = [], bg_unification_task_id = None,
     bg_selected_task_id = None, bg_status = BGS_CandidatesSpawned, bg_operator = brq_operator r |)"

definition branch_guard :: "branch_request \<Rightarrow> 'a goal_state_scheme \<Rightarrow> domain_error + unit" where
  "branch_guard r s =
     (let p = gsp_branching_policy (gs_goal s) in
      if brq_goal_id r \<noteq> gsp_id (gs_goal s)
      then Inl (DE_BranchDenied ''branch request goal_id does not match workflow goal'')
      else if \<not> bp_enabled p then Inl (DE_BranchDenied ''branching policy is disabled'')
      else if length (gs_branch_groups s) \<ge> bp_max_branch_groups p
      then Inl (DE_BranchDenied ''max_branch_groups exceeded'')
      else Inr ())"

definition branch_target_guard :: "task_node \<Rightarrow> branching_policy \<Rightarrow> domain_error + unit" where
  "branch_target_guard target p =
     (if tn_parent_id target = None \<and> \<not> bp_branch_on_root p
      then Inl (DE_BranchDenied ''branch_on_root is disabled'')
      else if tn_subgoal_id target \<noteq> None \<and> \<not> bp_branch_on_subgoals p
      then Inl (DE_BranchDenied ''branch_on_subgoals is disabled'')
      else if tn_status target = TS_Running
      then Inl (DE_BranchDenied ''cannot branch a task that is currently running'')
      else Inr ())"

text \<open>\<open>branch_task\<close> for a count that \<open>clamp\<close> has delivered.\<close>

definition close_original :: "branching_policy \<Rightarrow> task_node \<Rightarrow> unit wop" where
  "close_original p target =
     (if bp_cancel_original_on_branch p \<and> \<not> is_terminal (tn_status target)
      then set_task_status (tn_id target) TS_Cancelled else ok ())"

definition record_group :: "branch_group \<Rightarrow> branch_group wop" where
  "record_group g =
     bindR (push_group g) (\<lambda>_.
     bindR (push_event (''branch_group_spawned:'' @ bg_id g @ '':'' @ dec (length (bg_candidate_task_ids g)))) (\<lambda>_.
     bindR refresh_goal_status (\<lambda>_. ok g)))"

definition spawn_candidates ::
  "branching_policy \<Rightarrow> branch_request \<Rightarrow> task_node \<Rightarrow> uuid \<Rightarrow> child_task_request list \<Rightarrow> branch_group wop" where
  "spawn_candidates p r target group_id requests =
     bindR (for_each requests (insert_child_task (tn_id target) target)) (\<lambda>candidates.
     bindR (close_original p target) (\<lambda>_.
     record_group (new_group r target p group_id candidates)))"

definition branch_task_with :: "nat \<Rightarrow> branch_request \<Rightarrow> spawn_policy \<Rightarrow> branch_group wop" where
  "branch_task_with count r policy =
     reads (\<lambda>w0. let p = gsp_branching_policy (gs_goal w0) in
     bindR (branch_target_task r) (\<lambda>target.
     bindR (lift_result (\<lambda>_. branch_target_guard target p)) (\<lambda>_.
     bindR new_uuid (\<lambda>group_id.
     let requests = map (candidate_request r target group_id count) [0..<count] in
     if bp_require_model_diversity p \<and> \<not> models_diverse requests
     then fail (DE_BranchDenied ''model diversity is required but candidate executions do not differ'')
     else
       bindR (lift_result (\<lambda>_. ensure_spawn_allowed policy target requests)) (\<lambda>_.
       spawn_candidates p r target group_id requests)))))"

text \<open>None is the panic of \<open>clamp\<close>.\<close>

definition branch_task :: "branch_request \<Rightarrow> spawn_policy \<Rightarrow> world \<Rightarrow> ((domain_error + branch_group) \<times> world) option" where
  "branch_task r policy w =
     (case branch_guard r w of
        Inl e \<Rightarrow> Some (Inl e, w)
      | Inr _ \<Rightarrow>
          (case branch_candidate_count r (gsp_branching_policy (gs_goal w)) of
             None \<Rightarrow> None
           | Some count \<Rightarrow> Some (branch_task_with count r policy w)))"

section \<open>Votes\<close>

definition validate_branch_vote ::
  "uuid \<Rightarrow> branch_vote_output \<Rightarrow> 'a goal_state_scheme \<Rightarrow> domain_error + unit" where
  "validate_branch_vote voter v s =
     (case find (\<lambda>g. bg_id g = bvo_group_id v) (gs_branch_groups s) of
        None \<Rightarrow> Inl (DE_BranchGroupNotFound (bvo_group_id v))
      | Some g \<Rightarrow>
          if bvo_selected_task_id v \<notin> set (bg_candidate_task_ids g)
          then Inl (DE_BranchDenied (''vote selected task '' @ bvo_selected_task_id v
                 @ '' outside branch group '' @ bvo_group_id v))
          else if bg_voter_task_ids g \<noteq> [] \<and> voter \<notin> set (bg_voter_task_ids g)
                  \<and> bg_unification_task_id g \<noteq> Some voter
          then Inl (DE_BranchDenied (''task '' @ voter
                 @ '' is not an authorized voter or unifier for branch group '' @ bvo_group_id v))
          else if \<not> task_terminal_ok s (bvo_selected_task_id v)
          then Inl (DE_BranchDenied (''vote selected task '' @ bvo_selected_task_id v
                 @ '' before it was successfully validated''))
          else Inr ())"

definition vote_record :: "uuid \<Rightarrow> branch_vote_output \<Rightarrow> branch_vote_record" where
  "vote_record voter v = (| bv_voter_task_id = voter, bv_group_id = bvo_group_id v,
     bv_selected_task_id = bvo_selected_task_id v, bv_confidence = bvo_confidence v,
     bv_rationale = bvo_rationale v |)"

definition put_vote :: "uuid \<Rightarrow> branch_vote_output \<Rightarrow> unit wop" where
  "put_vote voter v = update (\<lambda>w. w (| gs_branch_votes :=
     filter (\<lambda>b. \<not> (bv_group_id b = bvo_group_id v \<and> bv_voter_task_id b = voter)) (gs_branch_votes w)
     @ [vote_record voter v] |))"

definition record_branch_vote :: "uuid \<Rightarrow> branch_vote_output \<Rightarrow> unit wop" where
  "record_branch_vote voter v =
     bindR (lift_result (validate_branch_vote voter v)) (\<lambda>_.
     bindR (put_vote voter v) (\<lambda>_.
     push_event (''branch_vote_recorded:'' @ bvo_group_id v @ '':'' @ voter @ '':'' @ bvo_selected_task_id v)))"

section \<open>Selection\<close>

definition tally_vote :: "(uuid, nat \<times> f32) btree \<Rightarrow> branch_vote_record \<Rightarrow> (uuid, nat \<times> f32) btree" where
  "tally_vote m b =
     (let e = (case bt_get m (bv_selected_task_id b) of Some e \<Rightarrow> e | None \<Rightarrow> (0, f32_0))
      in bt_insert (bv_selected_task_id b) (fst e + 1, f32_add (snd e) (bv_confidence b)) m)"

definition vote_tally :: "uuid \<Rightarrow> branch_vote_record list \<Rightarrow> (uuid, nat \<times> f32) btree" where
  "vote_tally g votes = foldl tally_vote [] (filter (\<lambda>b. bv_group_id b = g) votes)"

definition tally_le :: "uuid \<times> nat \<times> f32 \<Rightarrow> uuid \<times> nat \<times> f32 \<Rightarrow> bool" where
  "tally_le = then_with (\<lambda>x y. fst (snd x) \<le> fst (snd y)) (\<lambda>x y. f32_total_le (snd (snd x)) (snd (snd y)))"

definition latest_reward :: "'a goal_state_scheme \<Rightarrow> uuid \<Rightarrow> (uuid \<times> f32) list" where
  "latest_reward s i =
     (case find (\<lambda>g. ls_task_id g = i) (rev (gs_learning_signals s)) of
        None \<Rightarrow> [] | Some g \<Rightarrow> [(i, ls_reward g)])"

definition auto_selected_branch_task :: "'a goal_state_scheme \<Rightarrow> branch_group \<Rightarrow> uuid option" where
  "auto_selected_branch_task s g =
     (case bg_selection_strategy g of
        BSS_Human \<Rightarrow> None
      | BSS_HighestScore \<Rightarrow>
          map_option fst (max_by (\<lambda>x y. f32_total_le (snd x) (snd y))
            (concat (map (latest_reward s) (bg_candidate_task_ids g))))
      | _ \<Rightarrow> map_option fst (max_by tally_le (vote_tally (bg_id g) (gs_branch_votes s))))"

definition select_task :: "uuid \<Rightarrow> branch_group \<Rightarrow> branch_group" where
  "select_task i g = g (| bg_selected_task_id := Some i, bg_status := BGS_Selected |)"

definition try_select_group :: "uuid \<Rightarrow> unit wop" where
  "try_select_group group_id =
     reads (\<lambda>w. case position (\<lambda>g. bg_id g = group_id) (gs_branch_groups w) of
       None \<Rightarrow> ok ()
     | Some k \<Rightarrow>
         (case auto_selected_branch_task w (gs_branch_groups w ! k) of
            None \<Rightarrow> ok ()
          | Some i \<Rightarrow>
              if task_terminal_ok w i
              then bindR (update_group k (select_task i)) (\<lambda>_.
                   push_event (''branch_auto_selected:'' @ group_id @ '':'' @ i))
              else ok ()))"

definition try_auto_select_branch_groups :: "unit wop" where
  "try_auto_select_branch_groups =
     reads (\<lambda>w. bindR (for_each
       (map bg_id (filter (\<lambda>g. bg_status g = BGS_ReadyForSelection \<and> bg_selection_strategy g \<noteq> BSS_Human)
          (gs_branch_groups w))) try_select_group) (\<lambda>_. ok ()))"

definition apply_branch_selection :: "branch_selection_request \<Rightarrow> branch_group wop" where
  "apply_branch_selection r =
     reads (\<lambda>w.
       if bsr_goal_id r \<noteq> gsp_id (gs_goal w)
       then fail (DE_BranchDenied ''branch selection goal_id does not match workflow goal'')
       else case position (\<lambda>g. bg_id g = bsr_group_id r) (gs_branch_groups w) of
         None \<Rightarrow> fail (DE_BranchGroupNotFound (bsr_group_id r))
       | Some k \<Rightarrow>
           if bsr_selected_task_id r \<notin> set (bg_candidate_task_ids (gs_branch_groups w ! k))
           then fail (DE_BranchDenied (''selected task '' @ bsr_selected_task_id r
                  @ '' is not a candidate in branch group '' @ bsr_group_id r))
           else if \<not> task_terminal_ok w (bsr_selected_task_id r)
           then fail (DE_BranchDenied ''selected branch candidate is not successfully validated'')
           else
             bindR (update_group k (select_task (bsr_selected_task_id r))) (\<lambda>_.
             bindR (push_event (''branch_selected:'' @ bsr_group_id r @ '':'' @ bsr_selected_task_id r @ '':''
                      @ branch_selector_debug (bsr_selector r) @ '':'' @ bsr_reason r)) (\<lambda>_.
             bindR refresh_goal_status (\<lambda>_.
             reads (\<lambda>v. ok (gs_branch_groups v ! k))))))"

end
