(* ===== verification/Frontier.thy ===== *)
theory Frontier
  imports Branching
begin

text \<open>
  What the coordinator adds to the tree when nothing is runnable: votes and unifiers of
  branch groups (\<open>ensure_branch_frontier\<close>), review rounds, their unification and actor
  retries (\<open>ensure_review_frontier\<close>, \<open>spawn_review_round\<close>, \<open>maybe_spawn_next_review_round\<close>,
  \<open>maybe_spawn_actor_retry\<close>), and \<open>apply_validation\<close>, which closes tasks and rounds
  (\<open>crates/domain/src/lib.rs\<close>).
\<close>

section \<open>Branch frontier\<close>

definition critic_criteria :: "f32 \<Rightarrow> done_criteria" where
  "critic_criteria score = (| dc_tests_pass = False, dc_artifact_exists = True,
     dc_validator_score_min = Some score |)"

definition group_subgoal :: "branch_group \<Rightarrow> string" where
  "group_subgoal g = (case bg_subgoal_id g of Some s \<Rightarrow> s | None \<Rightarrow> ''branch-group-'' @ bg_id g)"

definition vote_request :: "goal_spec \<Rightarrow> branch_group \<Rightarrow> worker_kind list \<Rightarrow> nat \<Rightarrow> child_task_request" where
  "vote_request goal g roles k = (|
     ctr_role = roles ! (k mod length roles),
     ctr_purpose = Some (TP_BranchVote (bg_id g) (bg_candidate_task_ids g)),
     ctr_title = Some (''Vote on branch group '' @ bg_id g), ctr_subgoal_id = Some (group_subgoal g),
     ctr_color = None,
     ctr_prompt = ''Compare branch candidates for group '' @ bg_id g
       @ '' and vote for one implementation. Consider correctness, evidence, maintainability, risk, tests, and goal fit. Return a structured branch_vote with selected_task_id.''
       @ prompt_summary (rvp_doctrine (gsp_review_policy goal)),
     ctr_reason = ''branch candidates require independent vote before selection'',
     ctr_dependencies = bg_candidate_task_ids g, ctr_budget = None, ctr_sandbox = None,
     ctr_done_criteria = Some (critic_criteria (ac_reward_threshold (rvp_actor_critic (gsp_review_policy goal)))),
     ctr_review_doctrine = Some (rvp_doctrine (gsp_review_policy goal)), ctr_execution = None,
     ctr_priority = TPR_High, ctr_tags = [''branch'', ''vote'', ''branch-group:'' @ bg_id g] |)"

definition set_voters :: "uuid list \<Rightarrow> branch_group \<Rightarrow> branch_group" where
  "set_voters ids g = g (| bg_voter_task_ids := ids, bg_status := BGS_VotingSpawned |)"

definition spawn_branch_votes :: "nat \<Rightarrow> spawn_policy \<Rightarrow> unit wop" where
  "spawn_branch_votes k policy =
     bindR get_root (\<lambda>root.
     reads (\<lambda>w.
       let g = gs_branch_groups w ! k;
           voting = bp_voting (gsp_branching_policy (gs_goal w));
           roles = (if bvp_voter_roles voting = [] then [WK_Reviewer] else bvp_voter_roles voting);
           requests = map (vote_request (gs_goal w) g roles) [0..<max (bvp_min_votes voting) 1]
       in bindR (lift_result (\<lambda>_. ensure_spawn_allowed policy root requests)) (\<lambda>_.
          bindR (for_each requests (insert_child_task (tn_id root) root)) (\<lambda>voters.
          bindR (update_group k (set_voters voters)) (\<lambda>_.
          push_event (''branch_votes_spawned:'' @ bg_id g @ '':'' @ dec (length voters)))))))"

definition unifier_request :: "goal_spec \<Rightarrow> branch_group \<Rightarrow> child_task_request" where
  "unifier_request goal g = (|
     ctr_role = bvp_unifier_role (bp_voting (gsp_branching_policy goal)),
     ctr_purpose = Some (TP_BranchUnification (bg_id g) (bg_candidate_task_ids g) (bg_voter_task_ids g)),
     ctr_title = Some (''Unify branch group '' @ bg_id g), ctr_subgoal_id = Some (group_subgoal g),
     ctr_color = None,
     ctr_prompt = ''Unify branch group '' @ bg_id g
       @ ''. Read candidate artifacts and vote tasks, choose the implementation that best satisfies the goal, and return a structured branch_vote with selected_task_id plus rationale.''
       @ prompt_summary (rvp_doctrine (gsp_review_policy goal)),
     ctr_reason = ''join branch votes into a single candidate selection'',
     ctr_dependencies = bg_candidate_task_ids g @ bg_voter_task_ids g, ctr_budget = None,
     ctr_sandbox = None,
     ctr_done_criteria = Some (critic_criteria (ac_reward_threshold (rvp_actor_critic (gsp_review_policy goal)))),
     ctr_review_doctrine = Some (rvp_doctrine (gsp_review_policy goal)), ctr_execution = None,
     ctr_priority = TPR_Critical, ctr_tags = [''branch'', ''unification'', ''branch-group:'' @ bg_id g] |)"

definition set_unifier :: "uuid \<Rightarrow> branch_group \<Rightarrow> branch_group" where
  "set_unifier i g = g (| bg_unification_task_id := Some i, bg_status := BGS_ReadyForUnification |)"

definition spawn_branch_unifier :: "nat \<Rightarrow> spawn_policy \<Rightarrow> unit wop" where
  "spawn_branch_unifier k policy =
     bindR get_root (\<lambda>root.
     reads (\<lambda>w.
       let g = gs_branch_groups w ! k; request = unifier_request (gs_goal w) g
       in bindR (lift_result (\<lambda>_. ensure_spawn_allowed policy root [request])) (\<lambda>_.
          bindR (insert_child_task (tn_id root) root request) (\<lambda>i.
          bindR (update_group k (set_unifier i)) (\<lambda>_.
          push_event (''branch_unifier_spawned:'' @ bg_id g @ '':'' @ i))))))"

definition set_ready :: "branch_group \<Rightarrow> branch_group" where
  "set_ready g = g (| bg_status := BGS_ReadyForSelection |)"

definition make_ready :: "nat \<Rightarrow> bool wop" where
  "make_ready k = bindR (update_group k set_ready) (\<lambda>_.
     bindR try_auto_select_branch_groups (\<lambda>_. ok False))"

text \<open>One turn of the loop of \<open>ensure_branch_frontier\<close>; True when tasks were spawned.\<close>

definition advance_group :: "spawn_policy \<Rightarrow> uuid \<Rightarrow> bool wop" where
  "advance_group policy group_id =
     reads (\<lambda>w. case position (\<lambda>g. bg_id g = group_id) (gs_branch_groups w) of
       None \<Rightarrow> ok False
     | Some k \<Rightarrow>
         let g = gs_branch_groups w ! k; voting = bp_voting (gsp_branching_policy (gs_goal w)) in
         (case bg_status g of
            BGS_CandidatesSpawned \<Rightarrow>
              if \<not> tasks_terminal_ok w (bg_candidate_task_ids g) then ok False
              else if bvp_enabled voting \<and> bg_voter_task_ids g = []
              then bindR (spawn_branch_votes k policy) (\<lambda>_. ok True)
              else make_ready k
          | BGS_VotingSpawned \<Rightarrow>
              if \<not> tasks_terminal_ok w (bg_voter_task_ids g) then ok False
              else if bvp_require_unification voting \<and> bg_unification_task_id g = None
              then bindR (spawn_branch_unifier k policy) (\<lambda>_. ok True)
              else make_ready k
          | BGS_ReadyForUnification \<Rightarrow>
              if (case bg_unification_task_id g of Some i \<Rightarrow> task_terminal_ok w i | None \<Rightarrow> False)
              then make_ready k else ok False
          | _ \<Rightarrow> ok False))"

definition ensure_branch_frontier :: "spawn_policy \<Rightarrow> bool wop" where
  "ensure_branch_frontier policy =
     reads (\<lambda>w.
       if \<not> bp_enabled (gsp_branching_policy (gs_goal w)) then ok False
       else
         bindR (for_each (map bg_id (gs_branch_groups w)) (advance_group policy)) (\<lambda>flags.
         bindR (if True \<in> set flags then refresh_goal_status else ok ()) (\<lambda>_.
         ok (True \<in> set flags))))"

section \<open>Review frontier\<close>

definition push_round :: "review_round \<Rightarrow> unit wop" where
  "push_round r = update (\<lambda>w. w (| gs_review_rounds := gs_review_rounds w @ [r] |))"

definition update_round :: "nat \<Rightarrow> (review_round \<Rightarrow> review_round) \<Rightarrow> unit wop" where
  "update_round k f =
     update (\<lambda>w. w (| gs_review_rounds := (gs_review_rounds w)[k := f (gs_review_rounds w ! k)] |))"

definition review_request :: "goal_spec \<Rightarrow> nat \<Rightarrow> uuid list \<Rightarrow> worker_kind list \<Rightarrow> nat \<Rightarrow> child_task_request" where
  "review_request goal round subjects roles k = (|
     ctr_role = roles ! (k mod length roles),
     ctr_purpose = Some (TP_Review (subjects ! 0) round),
     ctr_title = Some (''Critic review round '' @ dec round),
     ctr_subgoal_id = Some (''review-round-'' @ dec round), ctr_color = None,
     ctr_prompt = ''Critique goal '' @ sq @ gsp_title goal @ sq
       @ ''. Review actor artifacts against the objective, done criteria, budget, safety constraints, and missing evidence. Return structured findings and a satisfaction score.''
       @ prompt_summary (rvp_doctrine (gsp_review_policy goal)),
     ctr_reason = ''actor output requires independent critic review before goal satisfaction'',
     ctr_dependencies = subjects, ctr_budget = None, ctr_sandbox = None,
     ctr_done_criteria = Some (critic_criteria (ac_reward_threshold (rvp_actor_critic (gsp_review_policy goal)))),
     ctr_review_doctrine = Some (rvp_doctrine (gsp_review_policy goal)), ctr_execution = None,
     ctr_priority = TPR_High, ctr_tags = [''review'', ''critic''] |)"

definition spawn_review_round :: "spawn_policy \<Rightarrow> nat \<Rightarrow> uuid list \<Rightarrow> bool wop" where
  "spawn_review_round policy round subjects =
     bindR get_root (\<lambda>root.
     reads (\<lambda>w.
       let p = gsp_review_policy (gs_goal w);
           roles = (if rvp_reviewer_roles p = [] then [ac_critic_role (rvp_actor_critic p)]
                    else rvp_reviewer_roles p);
           requests = map (review_request (gs_goal w) round subjects roles) [0..<max (rvp_min_reviews p) 1]
       in bindR (lift_result (\<lambda>_. ensure_spawn_allowed policy root requests)) (\<lambda>_.
          bindR (for_each requests (insert_child_task (tn_id root) root)) (\<lambda>reviewers.
          bindR (push_round (| rnd_round = round, rnd_subject_task_ids = subjects,
                   rnd_reviewer_task_ids = reviewers, rnd_unification_task_id = None,
                   rnd_status = RRS_ReviewsSpawned |)) (\<lambda>_.
          bindR (push_event (''review_round_spawned:'' @ dec round @ '':'' @ dec (length reviewers))) (\<lambda>_.
          bindR refresh_goal_status (\<lambda>_. ok True)))))))"

definition maybe_spawn_next_review_round :: "spawn_policy \<Rightarrow> uuid list \<Rightarrow> bool wop" where
  "maybe_spawn_next_review_round policy subjects =
     reads (\<lambda>w.
       if gs_review_rounds w = [] then ok False
       else let last_round = last (gs_review_rounds w) in
         if rnd_status last_round \<noteq> RRS_Unified
            \<or> rnd_round last_round \<ge> rvp_max_review_rounds (gsp_review_policy (gs_goal w))
         then ok False
         else if \<forall>i \<in> set subjects. \<exists>r \<in> set (gs_review_rounds w). i \<in> set (rnd_subject_task_ids r)
         then ok False
         else spawn_review_round policy (rnd_round last_round + 1) subjects)"

fun is_actor_retry :: "task_purpose \<Rightarrow> bool" where
  "is_actor_retry (TP_ActorRetry _ _) = True"
| "is_actor_retry _ = False"

definition actor_retry_count :: "'a goal_state_scheme \<Rightarrow> nat" where
  "actor_retry_count s = length (filter (\<lambda>t. is_actor_retry (tn_purpose t)) (tasks_of s))"

definition latest_unification :: "'a goal_state_scheme \<Rightarrow> uuid option" where
  "latest_unification s =
     (case find (\<lambda>r. rnd_unification_task_id r \<noteq> None) (rev (gs_review_rounds s)) of
        None \<Rightarrow> None | Some r \<Rightarrow> rnd_unification_task_id r)"

definition retry_request :: "goal_spec \<Rightarrow> uuid \<Rightarrow> nat \<Rightarrow> uuid \<Rightarrow> child_task_request" where
  "retry_request goal root_id count dependency = (|
     ctr_role = ac_actor_retry_role (rvp_actor_critic (gsp_review_policy goal)),
     ctr_purpose = Some (TP_ActorRetry root_id (count + 1)),
     ctr_title = Some (''Actor retry round '' @ dec (count + 1)),
     ctr_subgoal_id = Some (''actor-retry-'' @ dec (count + 1)), ctr_color = None,
     ctr_prompt = ''Revise goal '' @ sq @ gsp_title goal @ sq
       @ '' using critic and unifier feedback. Produce an improved actor artifact and explicit evidence for the next review round.'',
     ctr_reason = ''critic reward fell below threshold; bounded actor retry requested'',
     ctr_dependencies = [dependency], ctr_budget = None, ctr_sandbox = None,
     ctr_done_criteria = Some (critic_criteria (ac_reward_threshold (rvp_actor_critic (gsp_review_policy goal)))),
     ctr_review_doctrine = Some (rvp_doctrine (gsp_review_policy goal)), ctr_execution = None,
     ctr_priority = TPR_High, ctr_tags = [''actor_retry'', ''review_feedback''] |)"

definition maybe_spawn_actor_retry :: "spawn_policy \<Rightarrow> bool wop" where
  "maybe_spawn_actor_retry policy =
     reads (\<lambda>w. let p = gsp_review_policy (gs_goal w); ac = rvp_actor_critic p;
                    score = satisfaction_score w in
       if \<not> ac_enabled ac \<or> ac_max_actor_retries ac = 0 then ok False
       else if \<exists>t \<in> set (tasks_of w). \<not> is_terminal (tn_status t) \<and> tn_status t \<noteq> TS_Cancelled then ok False
       else if satisfied w then ok False
       else if \<not> blocking_review_decision w \<and> f32_le (ac_reward_threshold ac) score
               \<and> f32_le (rvp_min_satisfaction_score p) score then ok False
       else if actor_retry_count w \<ge> ac_max_actor_retries ac then ok False
       else case latest_unification w of
         None \<Rightarrow> fail (DE_InvariantViolation ''actor retry requires unification task'')
       | Some dependency \<Rightarrow>
           if \<not> task_terminal_ok w dependency then ok False
           else
             bindR get_root (\<lambda>root.
             let request = retry_request (gs_goal w) (tn_id root) (actor_retry_count w) dependency in
             bindR (lift_result (\<lambda>_. ensure_spawn_allowed policy root [request])) (\<lambda>_.
             bindR (insert_child_task (tn_id root) root request) (\<lambda>i.
             bindR (push_event (''actor_retry_spawned:'' @ i)) (\<lambda>_. ok True)))))"

definition round_unifier_request :: "goal_spec \<Rightarrow> uuid list \<Rightarrow> nat \<Rightarrow> child_task_request" where
  "round_unifier_request goal reviewers round = (|
     ctr_role = rvp_unifier_role (gsp_review_policy goal),
     ctr_purpose = Some (TP_Unification reviewers round),
     ctr_title = Some (''Unify review round '' @ dec round),
     ctr_subgoal_id = Some (''review-round-'' @ dec round), ctr_color = None,
     ctr_prompt = ''Unify critic reviews for goal '' @ sq @ gsp_title goal @ sq
       @ ''. Decide whether the actor output satisfies the objective and identify any retry work.''
       @ prompt_summary (rvp_doctrine (gsp_review_policy goal)),
     ctr_reason = ''join reviewer branches into a single satisfaction decision'',
     ctr_dependencies = reviewers, ctr_budget = None, ctr_sandbox = None,
     ctr_done_criteria = Some (critic_criteria (ac_reward_threshold (rvp_actor_critic (gsp_review_policy goal)))),
     ctr_review_doctrine = Some (rvp_doctrine (gsp_review_policy goal)), ctr_execution = None,
     ctr_priority = TPR_High, ctr_tags = [''review'', ''unification''] |)"

definition round_ready :: "'a goal_state_scheme \<Rightarrow> review_round \<Rightarrow> bool" where
  "round_ready s r \<longleftrightarrow> rnd_unification_task_id r = None \<and> rnd_reviewer_task_ids r \<noteq> [] \<and>
     (\<forall>i \<in> set (rnd_reviewer_task_ids r). task_terminal_ok s i)"

definition unify_round :: "spawn_policy \<Rightarrow> nat \<Rightarrow> bool wop" where
  "unify_round policy k =
     reads (\<lambda>w.
       if rvp_require_unification (gsp_review_policy (gs_goal w))
       then
         bindR get_root (\<lambda>root.
         let r = gs_review_rounds w ! k;
             request = round_unifier_request (gs_goal w) (rnd_reviewer_task_ids r) (rnd_round r) in
         bindR (lift_result (\<lambda>_. ensure_spawn_allowed policy root [request])) (\<lambda>_.
         bindR (insert_child_task (tn_id root) root request) (\<lambda>i.
         bindR (update_round k (\<lambda>r. r (| rnd_unification_task_id := Some i,
                                          rnd_status := RRS_ReadyForUnification |))) (\<lambda>_.
         bindR (push_event (''review_unification_spawned:'' @ i)) (\<lambda>_. ok True)))))
       else bindR (update_round k (\<lambda>r. r (| rnd_status := RRS_Unified |))) (\<lambda>_. ok False))"

definition work_subjects :: "'a goal_state_scheme \<Rightarrow> uuid list" where
  "work_subjects s =
     map tn_id (filter (\<lambda>t. is_work_like (tn_purpose t) \<and> is_terminal_ok (tn_status t)) (tasks_of s))"

definition all_work_done :: "'a goal_state_scheme \<Rightarrow> bool" where
  "all_work_done s \<longleftrightarrow> work_subjects s \<noteq> [] \<and>
     (\<forall>t \<in> set (tasks_of s). is_work_like (tn_purpose t) \<longrightarrow> is_terminal_ok (tn_status t))"

definition ready_rounds :: "'a goal_state_scheme \<Rightarrow> nat list" where
  "ready_rounds s = filter (\<lambda>k. round_ready s (gs_review_rounds s ! k)) [0..<length (gs_review_rounds s)]"

definition ensure_review_frontier :: "spawn_policy \<Rightarrow> bool wop" where
  "ensure_review_frontier policy =
     reads (\<lambda>w.
       if \<not> rvp_enabled (gsp_review_policy (gs_goal w)) \<or> some_task TS_Failed w \<or> some_task TS_Blocked w
          \<or> \<not> all_work_done w
       then bindR refresh_goal_status (\<lambda>_. ok False)
       else if gs_review_rounds w = [] \<and> rvp_max_review_rounds (gsp_review_policy (gs_goal w)) > 0
       then spawn_review_round policy 1 (work_subjects w)
       else
         bindR (for_each (ready_rounds w) (unify_round policy)) (\<lambda>flags.
         bindR (if True \<in> set flags then ok True
                else maybe_spawn_next_review_round policy (work_subjects w)) (\<lambda>spawned.
         bindR (if spawned then ok True else maybe_spawn_actor_retry policy) (\<lambda>spawned.
         bindR refresh_goal_status (\<lambda>_. ok spawned)))))"

section \<open>Validation\<close>

definition close_round :: "uuid \<Rightarrow> review_round \<Rightarrow> review_round" where
  "close_round i r = (if rnd_unification_task_id r = Some i then r (| rnd_status := RRS_Unified |) else r)"

definition close_group :: "uuid \<Rightarrow> branch_group \<Rightarrow> branch_group" where
  "close_group i g = (if bg_unification_task_id g = Some i \<and> bg_status g = BGS_ReadyForUnification
                      then g (| bg_status := BGS_ReadyForSelection |) else g)"

definition keep_artifacts :: "validation_report \<Rightarrow> world \<Rightarrow> world" where
  "keep_artifacts r w =
     (if vr_passed r then w (| gs_final_artifacts := gs_final_artifacts w @ vr_artifacts r,
                               gs_checkpoints := gs_checkpoints w @ vr_checkpoints r |) else w)"

definition close_unified :: "validation_report \<Rightarrow> task_purpose \<Rightarrow> world \<Rightarrow> world" where
  "close_unified r purpose w =
     (if \<not> vr_passed r then w
      else case purpose of
        TP_Unification _ _ \<Rightarrow> w (| gs_review_rounds := map (close_round (vr_task_id r)) (gs_review_rounds w) |)
      | TP_BranchUnification _ _ _ \<Rightarrow> w (| gs_branch_groups := map (close_group (vr_task_id r)) (gs_branch_groups w) |)
      | _ \<Rightarrow> w)"

definition apply_validation :: "validation_report \<Rightarrow> unit wop" where
  "apply_validation report =
     bindR (lift_result (ensure_goal_accepts_mutation ''apply validation report'')) (\<lambda>_.
     reads (\<lambda>w.
       if vr_goal_id report \<noteq> gsp_id (gs_goal w)
       then fail (DE_InvariantViolation ''validation report goal_id does not match workflow goal'')
       else
         bindR (lift_result (\<lambda>s. case vr_branch_vote report of None \<Rightarrow> Inr ()
                  | Some v \<Rightarrow> validate_branch_vote (vr_task_id report) v s)) (\<lambda>_.
         bindR (task_mut (vr_task_id report)) (\<lambda>snapshot.
         bindR (lift_result (\<lambda>_. ensure_task_snapshot_accepts_mutation snapshot ''apply validation report'')) (\<lambda>_.
         bindR (case vr_branch_vote report of None \<Rightarrow> ok ()
                | Some v \<Rightarrow> record_branch_vote (vr_task_id report) v) (\<lambda>_.
         bindR (set_task_status (vr_task_id report) (vr_status_after_validation report)) (\<lambda>_.
         bindR (update (keep_artifacts report)) (\<lambda>_.
         bindR (update (close_unified report (tn_purpose snapshot))) (\<lambda>_.
         bindR (record_learning_signal report (tn_purpose snapshot)) (\<lambda>_.
         bindR try_auto_select_branch_groups (\<lambda>_.
         bindR refresh_goal_status (\<lambda>_.
         push_event (''validated:'' @ vr_task_id report)))))))))))))"

section \<open>The tree is kept\<close>

lemma preserves_wf_branch_updates [preserves_rules]:
  "preserves (knows T) (push_group g)" "preserves (knows T) (update_group k f)"
  "preserves (knows T) (put_vote i v)" "preserves (knows T) (push_round r)"
  "preserves (knows T) (update_round k h)"
  unfolding push_group_def update_group_def put_vote_def push_round_def update_round_def
  by (rule preserves_wf_frame; simp)+

lemma preserves_wf_validation_updates [preserves_rules]:
  "preserves (knows T) (update (keep_artifacts r))" "preserves (knows T) (update (close_unified r p))"
  by (rule preserves_wf_frame; simp add: keep_artifacts_def close_unified_def split: task_purpose.split)+

lemma preserves_wf_record_branch_vote [preserves_rules]: "preserves (knows T) (record_branch_vote i v)"
  unfolding record_branch_vote_def by (intro preserves_rules)

lemma preserves_wf_try_select_group [preserves_rules]: "preserves (knows T) (try_select_group i)"
  unfolding try_select_group_def by (intro preserves_rules)

lemma preserves_wf_try_auto_select [preserves_rules]: "preserves (knows T) try_auto_select_branch_groups"
  unfolding try_auto_select_branch_groups_def by (intro preserves_rules)

lemma preserves_wf_apply_branch_selection [preserves_rules]: "preserves (knows T) (apply_branch_selection r)"
  unfolding apply_branch_selection_def by (intro preserves_rules)

lemma preserves_wf_branch_target [preserves_rules]:
  assumes "\<And>t. preserves (knows (insert t T)) (f t)"
  shows "preserves (knows T) (bindR (branch_target_task r) f)"
proof (cases "brq_target_task_id r")
  case (Some i)
  then show ?thesis using assms by (simp add: branch_target_task_def) (intro preserves_rules)
next
  case None
  show ?thesis
  proof (cases "brq_subgoal_id r")
    case None
    with \<open>brq_target_task_id r = None\<close> show ?thesis
      using assms by (simp add: branch_target_task_def) (intro preserves_rules)
  next
    case (Some g)
    show ?thesis
    proof (rule preservesI)
      fix w assume k: "knows T w"
      let ?found = "find (\<lambda>t. tn_subgoal_id t = Some g \<and> \<not> is_review (tn_purpose t)
          \<and> \<not> is_unification (tn_purpose t)) (tasks_of w)"
      show "knows T (snd (bindR (branch_target_task r) f w))"
      proof (cases ?found)
        case None
        with k \<open>brq_target_task_id r = None\<close> Some show ?thesis
          by (simp add: branch_target_task_def)
      next
        case (Some t)
        then have "t \<in> set (tasks_of w)" by (auto simp: find_Some_iff)
        with k have "knows (insert t T) w"
          using wf_world_values [OF knows_wf [OF k]] by (simp add: knows_insert tasks_of_def)
        then have "knows (insert t T) (snd (f t w))" using assms by (rule preservesD [rotated])
        with Some \<open>brq_target_task_id r = None\<close> \<open>brq_subgoal_id r = Some g\<close> show ?thesis
          by (simp add: branch_target_task_def knows_insert)
      qed
    qed
  qed
qed

lemma preserves_wf_branch_task_with [preserves_rules]: "preserves (knows T) (branch_task_with n r policy)"
  unfolding branch_task_with_def spawn_candidates_def close_original_def record_group_def Let_def
  by (intro preserves_rules) simp_all

lemma preserves_wf_spawns [preserves_rules]:
  "preserves (knows T) (spawn_branch_votes k policy)" "preserves (knows T) (spawn_branch_unifier k policy)"
  "preserves (knows T) (spawn_review_round policy n subjects)"
  unfolding spawn_branch_votes_def spawn_branch_unifier_def spawn_review_round_def Let_def
  by ((intro preserves_rules; simp)+)

lemma preserves_wf_make_ready [preserves_rules]: "preserves (knows T) (make_ready k)"
  unfolding make_ready_def by (intro preserves_rules)

lemma preserves_wf_advance_group [preserves_rules]: "preserves (knows T) (advance_group policy i)"
  unfolding advance_group_def Let_def
  by (intro preserves_rules) (simp split: branch_group_status.split; intro conjI impI preserves_rules)

lemma preserves_wf_ensure_branch_frontier [preserves_rules]:
  "preserves (knows T) (ensure_branch_frontier policy)"
  unfolding ensure_branch_frontier_def by (intro preserves_rules)

lemma preserves_wf_next_round [preserves_rules]:
  "preserves (knows T) (maybe_spawn_next_review_round policy subjects)"
  unfolding maybe_spawn_next_review_round_def Let_def by (intro preserves_rules)

lemma preserves_wf_actor_retry [preserves_rules]: "preserves (knows T) (maybe_spawn_actor_retry policy)"
  unfolding maybe_spawn_actor_retry_def Let_def by (intro preserves_rules) simp_all

lemma preserves_wf_unify_round [preserves_rules]: "preserves (knows T) (unify_round policy k)"
  unfolding unify_round_def Let_def by (intro preserves_rules) simp_all

lemma preserves_wf_ensure_review_frontier [preserves_rules]:
  "preserves (knows T) (ensure_review_frontier policy)"
  unfolding ensure_review_frontier_def by (intro preserves_rules)

lemma preserves_wf_apply_validation [preserves_rules]: "preserves (knows T) (apply_validation report)"
  unfolding apply_validation_def by (intro preserves_rules)

end
