(* ===== verification/Steering.thy ===== *)
theory Steering
  imports Frontier
begin

text \<open>
  Human steering: \<open>apply_steering\<close> with one definition per directive,
  \<open>evaluate_goal_completion\<close>, \<open>ensure_goal_updates_allowed\<close>, \<open>validate_done_criteria\<close>,
  \<open>validate_score\<close>, \<open>expand_done_criteria\<close> and \<open>propagate_goal_done_criteria\<close> of
  \<open>GoalState\<close> (\<open>crates/domain/src/lib.rs\<close>).  The lemmas show that steering keeps the task
  tree and the thunks, that expanding the done criteria never relaxes them, and that
  directives are counted against \<open>max_steering_events\<close>.
\<close>

section \<open>Done criteria\<close>

definition validate_score :: "string \<Rightarrow> f32 \<Rightarrow> domain_error + unit" where
  "validate_score field score =
     (if f32_is_finite score \<and> f32_le f32_0 score \<and> f32_le score f32_1 then Inr ()
      else Inl (DE_SteeringDenied (field @ '' must be between 0.0 and 1.0'')))"

definition validate_done_criteria :: "done_criteria \<Rightarrow> domain_error + unit" where
  "validate_done_criteria c =
     (case dc_validator_score_min c of
        None \<Rightarrow> Inr ()
      | Some score \<Rightarrow> validate_score ''done_criteria.validator_score_min'' score)"

definition ensure_goal_updates_allowed :: "'a goal_state_scheme \<Rightarrow> domain_error + unit" where
  "ensure_goal_updates_allowed s =
     (if cl_allow_goal_updates (gsp_control_policy (gs_goal s)) then Inr ()
      else Inl (DE_SteeringDenied ''goal updates are disabled''))"

definition should_reopen :: "bool \<Rightarrow> task_node \<Rightarrow> bool" where
  "should_reopen reopen t \<longleftrightarrow> reopen \<and> is_work_like (tn_purpose t) \<and> is_terminal_ok (tn_status t)"

definition propagate_to_task :: "done_criteria \<Rightarrow> bool \<Rightarrow> bool \<Rightarrow> task_node \<Rightarrow> task_node" where
  "propagate_to_task criteria to_open reopen t =
     (let r = should_reopen reopen t;
          t1 = (if tn_parent_id t = None \<or> to_open \<and> \<not> is_terminal (tn_status t) \<or> r
                then t (| tn_done_criteria := criteria |) else t)
      in if r then t1 (| tn_status := TS_Runnable |) else t1)"

definition propagate_tasks :: "bool \<Rightarrow> bool \<Rightarrow> world \<Rightarrow> world" where
  "propagate_tasks to_open reopen w =
     w (| gs_tasks := bt_map_values (propagate_to_task (gsp_done_criteria (gs_goal w)) to_open reopen) (gs_tasks w) |)"

definition propagate_goal_done_criteria :: "bool \<Rightarrow> bool \<Rightarrow> unit wop" where
  "propagate_goal_done_criteria to_open reopen =
     reads (\<lambda>w. let reopened = map tn_id (filter (should_reopen reopen) (tasks_of w)) in
       bindR (update (propagate_tasks to_open reopen)) (\<lambda>_.
       bindR (for_each reopened (\<lambda>i. push_event (''steering_done_criteria_reopened_task:'' @ i))) (\<lambda>_.
       ok ())))"

definition set_criteria :: "(done_criteria \<Rightarrow> done_criteria) \<Rightarrow> world \<Rightarrow> world" where
  "set_criteria f w =
     w (| gs_goal := gs_goal w (| gsp_done_criteria := f (gsp_done_criteria (gs_goal w)) |) |)"

definition raise_min_satisfaction :: "f32 \<Rightarrow> world \<Rightarrow> world" where
  "raise_min_satisfaction score w =
     (let p = gsp_review_policy (gs_goal w) in
      w (| gs_goal := gs_goal w (| gsp_review_policy :=
             p (| rvp_min_satisfaction_score := f32_max (rvp_min_satisfaction_score p) score |) |) |))"

definition raise_score_min :: "f32 \<Rightarrow> done_criteria \<Rightarrow> done_criteria" where
  "raise_score_min score c = c (| dc_validator_score_min := Some
     (case dc_validator_score_min c of None \<Rightarrow> score | Some current \<Rightarrow> f32_max current score) |)"

definition expand_done_criteria ::
  "bool option \<Rightarrow> bool option \<Rightarrow> f32 option \<Rightarrow> f32 option \<Rightarrow> bool \<Rightarrow> bool \<Rightarrow> unit wop" where
  "expand_done_criteria tests_pass artifact_exists score_min min_satisfaction to_open reopen =
     (if tests_pass = Some False \<or> artifact_exists = Some False
      then fail (DE_SteeringDenied
        ''expand_done_criteria cannot relax boolean criteria; use update_done_criteria for explicit edits'')
      else
        bindR (if tests_pass = Some True
               then update (set_criteria (\<lambda>c. c (| dc_tests_pass := True |))) else ok ()) (\<lambda>_.
        bindR (if artifact_exists = Some True
               then update (set_criteria (\<lambda>c. c (| dc_artifact_exists := True |))) else ok ()) (\<lambda>_.
        bindR (case score_min of None \<Rightarrow> ok () | Some score \<Rightarrow>
                 bindR (lift_result (\<lambda>_. validate_score ''validator_score_min'' score)) (\<lambda>_.
                 update (set_criteria (raise_score_min score)))) (\<lambda>_.
        bindR (case min_satisfaction of None \<Rightarrow> ok () | Some score \<Rightarrow>
                 bindR (lift_result (\<lambda>_. validate_score ''min_satisfaction_score'' score)) (\<lambda>_.
                 update (raise_min_satisfaction score))) (\<lambda>_.
        bindR (propagate_goal_done_criteria to_open reopen) (\<lambda>_.
        refresh_goal_status))))))"

section \<open>Spawning by steering\<close>

definition steering_spawn :: "spawn_policy \<Rightarrow> child_task_request \<Rightarrow> uuid wop" where
  "steering_spawn policy request =
     bindR get_root (\<lambda>root.
     bindR (lift_result (\<lambda>_. ensure_spawn_allowed policy root [request])) (\<lambda>_.
     insert_child_task (tn_id root) root request))"

definition injected_request :: "worker_kind \<Rightarrow> string \<Rightarrow> string \<Rightarrow> child_task_request" where
  "injected_request role prompt reason = (|
     ctr_role = role, ctr_purpose = Some TP_Work, ctr_title = Some ''Steered work task'',
     ctr_subgoal_id = None, ctr_color = None, ctr_prompt = prompt, ctr_reason = reason,
     ctr_dependencies = [], ctr_budget = None, ctr_sandbox = None, ctr_done_criteria = None,
     ctr_review_doctrine = None, ctr_execution = None, ctr_priority = TPR_Normal,
     ctr_tags = [''steering''] |)"

definition research_request :: "goal_spec \<Rightarrow> string \<Rightarrow> string \<Rightarrow> child_task_request" where
  "research_request goal question reason = (|
     ctr_role = WK_Research, ctr_purpose = Some (TP_Research question),
     ctr_title = Some ''Steered research task'', ctr_subgoal_id = Some ''research'', ctr_color = None,
     ctr_prompt = ''Answer this research question with sources, confidence, and an information-use plan: '' @ question,
     ctr_reason = reason, ctr_dependencies = [], ctr_budget = None, ctr_sandbox = None,
     ctr_done_criteria = Some (critic_criteria (rpo_min_confidence (gsp_research_policy goal))),
     ctr_review_doctrine = None, ctr_execution = None, ctr_priority = TPR_High,
     ctr_tags = [''steering'', ''research''] |)"

definition standard_review_request ::
  "goal_spec \<Rightarrow> standard_review_check \<Rightarrow> string option \<Rightarrow> string \<Rightarrow> uuid option \<Rightarrow> child_task_request" where
  "standard_review_request goal check topic reason target =
     (let question = research_question check topic (gsp_title goal) in (|
        ctr_role = worker_role check,
        ctr_purpose = Some (if is_research_like check then TP_Research question
                            else case target of Some i \<Rightarrow> TP_Review i 0 | None \<Rightarrow> TP_Work),
        ctr_title = Some (''Standard review: '' @ src_title check),
        ctr_subgoal_id = Some ''standard-review-steering'', ctr_color = None,
        ctr_prompt =
          (if is_research_like check
           then ''Answer this state-of-the-art research question with primary or canonical sources, confidence, and a concrete information-use plan: '' @ question
           else review_prompt check topic (gsp_title goal) @ prompt_summary (rvp_doctrine (gsp_review_policy goal))),
        ctr_reason = reason, ctr_dependencies = (case target of None \<Rightarrow> [] | Some i \<Rightarrow> [i]),
        ctr_budget = None, ctr_sandbox = None,
        ctr_done_criteria = Some (critic_criteria
          (if is_research_like check then rpo_min_confidence (gsp_research_policy goal)
           else ac_reward_threshold (rvp_actor_critic (gsp_review_policy goal)))),
        ctr_review_doctrine = Some (rvp_doctrine (gsp_review_policy goal)), ctr_execution = None,
        ctr_priority = TPR_High, ctr_tags = check_tags check |))"

section \<open>Directives\<close>

text \<open>Each directive returns the message of the event that follows it.\<close>

definition steer_update_objective :: "string \<Rightarrow> string wop" where
  "steer_update_objective delta =
     reads (\<lambda>w.
       if \<not> cl_allow_goal_updates (gsp_control_policy (gs_goal w))
       then fail (DE_SteeringDenied ''goal updates are disabled'')
       else bindR (update (\<lambda>w. w (| gs_goal := gs_goal w (| gsp_objective :=
                gsp_objective (gs_goal w) @ nl @ nl @ ''Steering update: '' @ delta |) |))) (\<lambda>_.
            ok ''steering_objective_updated''))"

definition steer_inject_task :: "spawn_policy \<Rightarrow> worker_kind \<Rightarrow> string \<Rightarrow> string \<Rightarrow> string wop" where
  "steer_inject_task policy role prompt reason =
     reads (\<lambda>w.
       if \<not> cl_allow_task_injection (gsp_control_policy (gs_goal w))
       then fail (DE_SteeringDenied ''task injection is disabled'')
       else bindR (steering_spawn policy (injected_request role prompt reason)) (\<lambda>i.
            ok (''steering_task_injected:'' @ i)))"

definition steer_request_research :: "spawn_policy \<Rightarrow> string \<Rightarrow> string \<Rightarrow> string wop" where
  "steer_request_research policy question reason =
     reads (\<lambda>w.
       if \<not> rpo_enabled (gsp_research_policy (gs_goal w))
       then fail (DE_SteeringDenied ''research tasks are disabled for this goal'')
       else bindR (steering_spawn policy (research_request (gs_goal w) question reason)) (\<lambda>i.
            ok (''steering_research_requested:'' @ i)))"

definition steer_request_standard_review ::
  "spawn_policy \<Rightarrow> standard_review_check \<Rightarrow> string option \<Rightarrow> string \<Rightarrow> uuid option \<Rightarrow> string wop" where
  "steer_request_standard_review policy check topic reason target =
     reads (\<lambda>w.
       if \<not> cl_allow_task_injection (gsp_control_policy (gs_goal w))
       then fail (DE_SteeringDenied ''task injection is disabled'')
       else if is_research_like check \<and> \<not> rpo_enabled (gsp_research_policy (gs_goal w))
       then fail (DE_SteeringDenied ''research tasks are disabled for this goal'')
       else bindR (steering_spawn policy (standard_review_request (gs_goal w) check topic reason target)) (\<lambda>i.
            ok (''steering_standard_review_requested:'' @ i @ '':'' @ src_as_str check)))"

definition evaluate_goal_completion :: "satisfaction_report wop" where
  "evaluate_goal_completion =
     bindR refresh_goal_status (\<lambda>_.
     reads (\<lambda>w. ok (case gs_satisfaction w of Some r \<Rightarrow> r | None \<Rightarrow> satisfaction_report_of w)))"

definition steer_evaluate :: "string \<Rightarrow> string wop" where
  "steer_evaluate reason =
     bindR evaluate_goal_completion (\<lambda>report.
     ok (''steering_goal_completion_evaluated:''
         @ (if sat_satisfied report then ''satisfied'' else ''not_satisfied'')
         @ '':'' @ f32_fixed 3 (sat_score report) @ '':'' @ reason))"

definition steer_update_done_criteria :: "done_criteria \<Rightarrow> string \<Rightarrow> bool \<Rightarrow> bool \<Rightarrow> string wop" where
  "steer_update_done_criteria criteria reason to_open reopen =
     bindR (lift_result ensure_goal_updates_allowed) (\<lambda>_.
     bindR (lift_result (\<lambda>_. validate_done_criteria criteria)) (\<lambda>_.
     bindR (update (set_criteria (\<lambda>_. criteria))) (\<lambda>_.
     bindR (propagate_goal_done_criteria to_open reopen) (\<lambda>_.
     bindR refresh_goal_status (\<lambda>_.
     ok (''steering_done_criteria_updated:'' @ reason))))))"

definition steer_pause :: "string \<Rightarrow> string wop" where
  "steer_pause reason =
     bindR (update (\<lambda>w. w (| gs_status := GS_Paused |))) (\<lambda>_. ok (''steering_paused:'' @ reason))"

definition unpause :: "world \<Rightarrow> world" where
  "unpause w = (if gs_status w \<in> {GS_Paused, GS_Blocked} then w (| gs_status := GS_Running |) else w)"

definition steer_resume :: "string \<Rightarrow> string wop" where
  "steer_resume reason =
     bindR (update unpause) (\<lambda>_. ok (''steering_resumed:'' @ reason))"

fun steer :: "spawn_policy \<Rightarrow> uuid option \<Rightarrow> steering_directive_kind \<Rightarrow> string wop" where
  "steer policy target (SK_AddConstraint c) =
     bindR (push_event (''constraint_added:'' @ c)) (\<lambda>_. ok ''steering_constraint_added'')"
| "steer policy target (SK_UpdateObjective delta) = steer_update_objective delta"
| "steer policy target (SK_InjectTask role prompt reason) = steer_inject_task policy role prompt reason"
| "steer policy target (SK_RequestResearch question reason) = steer_request_research policy question reason"
| "steer policy target (SK_RequestStandardReview check topic reason) =
     steer_request_standard_review policy check topic reason target"
| "steer policy target (SK_EvaluateGoalCompletion reason) = steer_evaluate reason"
| "steer policy target (SK_UpdateDoneCriteria criteria reason to_open reopen) =
     steer_update_done_criteria criteria reason to_open reopen"
| "steer policy target (SK_ExpandDoneCriteria tests artifact score satisfaction reason to_open reopen) =
     bindR (lift_result ensure_goal_updates_allowed) (\<lambda>_.
     bindR (expand_done_criteria tests artifact score satisfaction to_open reopen) (\<lambda>_.
     ok (''steering_done_criteria_expanded:'' @ reason)))"
| "steer policy target (SK_Pause reason) = steer_pause reason"
| "steer policy target (SK_Resume reason) = steer_resume reason"
| "steer policy target (SK_Cancel reason) = ok (''steering_cancelled:'' @ reason)"

definition push_directive :: "steering_directive \<Rightarrow> unit wop" where
  "push_directive d = update (\<lambda>w. w (| gs_steering_directives := gs_steering_directives w @ [d] |))"

fun cancel_reason :: "steering_directive_kind \<Rightarrow> string option" where
  "cancel_reason (SK_Cancel reason) = Some reason"
| "cancel_reason _ = None"

definition apply_steering :: "steering_directive \<Rightarrow> spawn_policy \<Rightarrow> unit wop" where
  "apply_steering d policy =
     reads (\<lambda>w.
       if st_goal_id d \<noteq> gsp_id (gs_goal w)
       then fail (DE_SteeringDenied ''steering directive goal_id does not match workflow goal'')
       else case cancel_reason (st_kind d) of
         Some reason \<Rightarrow>
           bindR (cancel reason) (\<lambda>_.
           bindR (push_directive d) (\<lambda>_.
           push_event (''steering_cancelled:'' @ reason)))
       | None \<Rightarrow>
           if \<not> cl_human_steering_enabled (gsp_control_policy (gs_goal w))
           then fail (DE_SteeringDenied ''human steering is disabled for this goal'')
           else if length (gs_steering_directives w) \<ge> cl_max_steering_events (gsp_control_policy (gs_goal w))
           then fail (DE_SteeringDenied ''max_steering_events exceeded'')
           else bindR (steer policy (st_task_id d) (st_kind d)) (\<lambda>message.
                bindR (push_directive d) (\<lambda>_.
                push_event message)))"

section \<open>The tree is kept\<close>

lemma propagate_to_task_shape [simp]: "task_shape (propagate_to_task c a r t) = task_shape t"
  by (simp add: propagate_to_task_def task_shape_def Let_def)

lemma preserves_wf_steering_updates [preserves_rules]:
  "preserves (knows T) (update (set_criteria f))" "preserves (knows T) (update (raise_min_satisfaction s))"
  "preserves (knows T) (push_directive d)"
  unfolding push_directive_def
  by (rule preserves_wf_frame; simp add: set_criteria_def raise_min_satisfaction_def Let_def)+

lemma preserves_wf_propagate [preserves_rules]:
  "preserves (knows T) (propagate_goal_done_criteria a r)"
proof -
  have "preserves (knows T) (update (propagate_tasks a r))"
    by (rule preserves_wf_update) (simp_all add: propagate_tasks_def same_shapes_map_values)
  then show ?thesis
    unfolding propagate_goal_done_criteria_def Let_def by (intro preserves_rules)
qed

lemma preserves_wf_expand [preserves_rules]:
  "preserves (knows T) (expand_done_criteria a b c d e f)"
  unfolding expand_done_criteria_def by (intro preserves_rules)

lemma preserves_wf_steering_spawn [preserves_rules]: "preserves (knows T) (steering_spawn policy q)"
  unfolding steering_spawn_def by (intro preserves_rules) simp_all

lemma preserves_wf_steer_spawns [preserves_rules]:
  "preserves (knows T) (steer_inject_task policy role prompt reason)"
  "preserves (knows T) (steer_request_research policy question reason)"
  "preserves (knows T) (steer_request_standard_review policy check topic reason target)"
  unfolding steer_inject_task_def steer_request_research_def steer_request_standard_review_def
  by (intro preserves_rules)+

lemma preserves_wf_steer_updates [preserves_rules]:
  "preserves (knows T) (steer_update_objective delta)"
  "preserves (knows T) (steer_pause reason)" "preserves (knows T) (steer_resume reason)"
  "preserves (knows T) (steer_evaluate reason)"
  "preserves (knows T) (steer_update_done_criteria criteria reason a r)"
  unfolding steer_update_objective_def steer_pause_def steer_resume_def unpause_def steer_evaluate_def
    evaluate_goal_completion_def steer_update_done_criteria_def
  by (intro preserves_rules; rule preserves_wf_frame; simp)+

lemma preserves_wf_steer [preserves_rules]: "preserves (knows T) (steer policy target k)"
  by (cases k) (simp_all only: steer.simps, (intro preserves_rules)+)

lemma preserves_wf_apply_steering [preserves_rules]: "preserves (knows T) (apply_steering d policy)"
  unfolding apply_steering_def by (intro preserves_rules)

section \<open>Properties\<close>

lemma frame_predicate:
  "(\<And>v. preserves (\<lambda>w. g w = v) m) \<Longrightarrow> preserves (\<lambda>w. Q (g w)) m"
  by (simp add: preserves_def)

lemma frame_propagate [frame_rules]:
  assumes "\<And>w x. g (w (| gs_tasks := x |)) = g w" and "\<And>w x. g (w (| gs_events := x |)) = g w"
  shows "preserves (\<lambda>w. g w = v) (propagate_goal_done_criteria a r)"
  unfolding propagate_goal_done_criteria_def Let_def
  by (intro control_rules frame_rules frame_update) (simp_all add: assms propagate_tasks_def)

lemma frame_steering_spawn [frame_rules]:
  assumes "\<And>w x. g (w (| gs_tasks := x |)) = g w" and "\<And>w x. g (w (| uuids_drawn := x |)) = g w"
  shows "preserves (\<lambda>w. g w = v) (steering_spawn policy q)"
  unfolding steering_spawn_def by (intro control_rules frame_rules) (simp_all add: assms)

text \<open>The criteria \<open>c'\<close> demand at least what \<open>c\<close> demands.\<close>

definition score_raised :: "f32 \<Rightarrow> f32 \<Rightarrow> bool" where
  "score_raised x y \<longleftrightarrow> f32_is_nan x \<or> f32_le x y"

definition at_least_as_strict :: "goal_spec \<Rightarrow> goal_spec \<Rightarrow> bool" where
  "at_least_as_strict old new \<longleftrightarrow>
     (let c = gsp_done_criteria old; c' = gsp_done_criteria new in
      (dc_tests_pass c \<longrightarrow> dc_tests_pass c') \<and> (dc_artifact_exists c \<longrightarrow> dc_artifact_exists c') \<and>
      (case dc_validator_score_min c of
         None \<Rightarrow> True
       | Some x \<Rightarrow> \<exists>y. dc_validator_score_min c' = Some y \<and> score_raised x y) \<and>
      score_raised (rvp_min_satisfaction_score (gsp_review_policy old))
        (rvp_min_satisfaction_score (gsp_review_policy new)))"

lemma score_raised_rules [simp]: "score_raised x x" "score_raised x (f32_max x y)"
  by (auto simp: score_raised_def f32_le_def f32_max_def f32_lt_def)

lemma score_raised_trans: "score_raised x y \<Longrightarrow> score_raised y z \<Longrightarrow> score_raised x z"
  by (auto simp: score_raised_def f32_le_def)

lemma at_least_as_strict_refl [simp]: "at_least_as_strict g g"
  by (auto simp: at_least_as_strict_def Let_def split: option.splits)

lemma at_least_as_strict_step:
  "at_least_as_strict g (gs_goal w) \<Longrightarrow> at_least_as_strict g (gs_goal (set_criteria (\<lambda>c. c (| dc_tests_pass := True |)) w))"
  "at_least_as_strict g (gs_goal w) \<Longrightarrow> at_least_as_strict g (gs_goal (set_criteria (\<lambda>c. c (| dc_artifact_exists := True |)) w))"
  "at_least_as_strict g (gs_goal w) \<Longrightarrow> at_least_as_strict g (gs_goal (set_criteria (raise_score_min x) w))"
  "at_least_as_strict g (gs_goal w) \<Longrightarrow> at_least_as_strict g (gs_goal (raise_min_satisfaction x w))"
  by (auto simp: at_least_as_strict_def set_criteria_def raise_min_satisfaction_def raise_score_min_def Let_def
      intro: score_raised_trans split: option.splits)



section \<open>The steering budget\<close>

lemma steer_frame:
  assumes g: "g = (\<lambda>w. (gs_steering_directives w, gsp_id (gs_goal w), gsp_control_policy (gs_goal w)))"
  shows "preserves (\<lambda>w. g w = v) (steer policy target k)"
proof -
  have "preserves (\<lambda>w. g w = v) (expand_done_criteria a b c d e f)" for a b c d e f
    unfolding expand_done_criteria_def
    by (intro control_rules frame_rules frame_update)
       (simp_all add: g set_criteria_def raise_min_satisfaction_def Let_def)
  moreover have "preserves (\<lambda>w. g w = v) (steer_update_done_criteria a b c d)" for a b c d
    unfolding steer_update_done_criteria_def
    by (intro control_rules frame_rules frame_update) (simp_all add: g set_criteria_def)
  moreover have "preserves (\<lambda>w. g w = v) (steer_update_objective a)"
    "preserves (\<lambda>w. g w = v) (steer_inject_task policy b c d)"
    "preserves (\<lambda>w. g w = v) (steer_request_research policy c d)"
    "preserves (\<lambda>w. g w = v) (steer_request_standard_review policy x y c z)"
    "preserves (\<lambda>w. g w = v) (steer_evaluate c)" "preserves (\<lambda>w. g w = v) (steer_pause c)"
    "preserves (\<lambda>w. g w = v) (steer_resume c)" for a b c d x y z
    unfolding steer_update_objective_def steer_inject_task_def steer_request_research_def
      steer_request_standard_review_def steer_evaluate_def evaluate_goal_completion_def steer_pause_def
      steer_resume_def unpause_def
    by ((intro control_rules frame_rules frame_update; simp add: g))+
  ultimately show ?thesis
    by (cases k) (simp_all only: steer.simps, (intro control_rules frame_rules; simp add: g)+)
qed

text \<open>
  Steering is bounded, cancelling is not.  A directive for another goal is refused.  A
  Cancel is carried out and recorded even when steering is disabled and the budget used up.
  Any other directive is refused without effect when steering is disabled or
  \<open>max_steering_events\<close> directives have been recorded; otherwise it is recorded exactly
  when it succeeds, so that the number of directives stays within \<open>max_steering_events\<close>.
\<close>
theorem steering_is_bounded_but_cancel_is_not:
  assumes run: "apply_steering d policy w = (res, v)"
  shows "(st_goal_id d \<noteq> gsp_id (gs_goal w) \<longrightarrow> (\<exists>e. res = Inl e) \<and> v = w) \<and>
    (st_goal_id d = gsp_id (gs_goal w) \<longrightarrow> cancel_reason (st_kind d) \<noteq> None \<longrightarrow>
       res = Inr () \<and> gs_status v = GS_Cancelled \<and> gs_steering_directives v = gs_steering_directives w @ [d]) \<and>
    (st_goal_id d = gsp_id (gs_goal w) \<longrightarrow> cancel_reason (st_kind d) = None \<longrightarrow>
       (if cl_human_steering_enabled (gsp_control_policy (gs_goal w)) \<and>
           length (gs_steering_directives w) < cl_max_steering_events (gsp_control_policy (gs_goal w))
        then gs_steering_directives v = (if res = Inr () then gs_steering_directives w @ [d] else gs_steering_directives w) \<and>
          length (gs_steering_directives v) \<le> cl_max_steering_events (gsp_control_policy (gs_goal v))
        else (\<exists>e. res = Inl e) \<and> v = w))"
proof -
  have other: ?thesis if "st_goal_id d \<noteq> gsp_id (gs_goal w)"
    using run that by (auto simp: apply_steering_def)
  have cancelled: ?thesis if "st_goal_id d = gsp_id (gs_goal w)" "cancel_reason (st_kind d) = Some reason" for reason
  proof -
    have "fst (apply_steering d policy w) = Inr ()" "gs_status (snd (apply_steering d policy w)) = GS_Cancelled"
      "gs_steering_directives (snd (apply_steering d policy w)) = gs_steering_directives w @ [d]"
      using that by (simp_all add: apply_steering_def cancel_def push_directive_def run_push_event bind_rules)
    with run that show ?thesis by simp
  qed
  have budget: ?thesis if g: "st_goal_id d = gsp_id (gs_goal w)" and c: "cancel_reason (st_kind d) = None"
  proof (cases "cl_human_steering_enabled (gsp_control_policy (gs_goal w)) \<and>
      length (gs_steering_directives w) < cl_max_steering_events (gsp_control_policy (gs_goal w))")
    case False
    with run g c show ?thesis by (auto simp: apply_steering_def not_less split: if_splits)
  next
    case True
    obtain r u where s: "steer policy (st_task_id d) (st_kind d) w = (r, u)" by fastforce
    have same: "gs_steering_directives u = gs_steering_directives w"
      "gsp_control_policy (gs_goal u) = gsp_control_policy (gs_goal w)"
      using frame_run [OF steer_frame [OF refl] s] by simp_all
    have step: "apply_steering d policy w = bindR (steer policy (st_task_id d) (st_kind d)) (\<lambda>message.
        bindR (push_directive d) (\<lambda>_. push_event message)) w"
      using g c True by (simp add: apply_steering_def)
    show ?thesis
    proof (cases r)
      case (Inl e)
      with step s run have "res = Inl e" "v = u" by (simp_all add: bindR_Inl)
      with same True g c show ?thesis by simp
    next
      case (Inr m)
      with step s have "fst (apply_steering d policy w) = Inr ()"
        "gs_steering_directives (snd (apply_steering d policy w)) = gs_steering_directives u @ [d]"
        "gs_goal (snd (apply_steering d policy w)) = gs_goal u"
        by (simp_all add: bindR_Inr push_directive_def run_push_event)
      with run same True g c show ?thesis by simp
    qed
  qed
  show ?thesis
    by (cases "st_goal_id d = gsp_id (gs_goal w)"; cases "cancel_reason (st_kind d)")
       (use other cancelled budget in blast)+
qed

definition sample_directive :: "steering_directive_kind \<Rightarrow> steering_directive" where
  "sample_directive k = (| st_id = ''d'', st_goal_id = ''g'', st_task_id = None, st_operator = None,
     st_message = [], st_kind = k |)"

theorem steering_is_bounded_but_cancel_is_not_witness:
  "\<exists>v. apply_steering (sample_directive (SK_Cancel ''enough'')) spawn_policy_default (world_of sample_goal []) = (Inr (), v) \<and>
     gs_status v = GS_Cancelled"
proof -
  obtain res v where run: "apply_steering (sample_directive (SK_Cancel ''enough'')) spawn_policy_default
      (world_of sample_goal []) = (res, v)" by fastforce
  from steering_is_bounded_but_cancel_is_not [OF run] run show ?thesis
    by (simp add: sample_directive_def)
qed

text \<open>
  C25: Pause and Resume revive a finished goal.  \<open>Pause\<close> overwrites the status of the goal
  whatever it is, so while the steering budget lasts a Pause followed by a Resume makes a
  Cancelled or Done goal Running again, without any of its tasks being reopened.
\<close>
theorem pause_and_resume_revive_a_finished_goal:
  assumes "gs_status w \<in> {GS_Done, GS_Cancelled}"
    and "cl_human_steering_enabled (gsp_control_policy (gs_goal w))"
    and "length (gs_steering_directives w) + 2 \<le> cl_max_steering_events (gsp_control_policy (gs_goal w))"
    and "st_goal_id p = gsp_id (gs_goal w)" "st_kind p = SK_Pause a"
    and "st_goal_id q = gsp_id (gs_goal w)" "st_kind q = SK_Resume b"
  shows "gs_status (snd (apply_steering q policy (snd (apply_steering p policy w)))) = GS_Running \<and>
    gs_tasks (snd (apply_steering q policy (snd (apply_steering p policy w)))) = gs_tasks w"
  using assms
  by (simp add: apply_steering_def steer_pause_def steer_resume_def unpause_def push_directive_def run_push_event bind_rules)

theorem pause_and_resume_revive_a_finished_goal_witness:
  "gs_status (snd (apply_steering (sample_directive (SK_Resume [])) spawn_policy_default
     (snd (apply_steering (sample_directive (SK_Pause [])) spawn_policy_default
       (snd (cancel [] (world_of sample_goal []))))))) = GS_Running"
proof -
  let ?w = "snd (cancel [] (world_of sample_goal []))"
  have "gs_status ?w = GS_Cancelled" "gs_goal ?w = sample_goal" "gs_steering_directives ?w = []"
    by (simp_all add: cancel_def run_push_event)
  then show ?thesis
    using pause_and_resume_revive_a_finished_goal [of ?w "sample_directive (SK_Pause [])" "[]"
        "sample_directive (SK_Resume [])" "[]" spawn_policy_default]
    by (simp add: sample_directive_def control_loop_policy_default_def)
qed

text \<open>
  New done criteria reopen finished work.  When an update of the done criteria succeeds,
  the goal carries the new criteria.  So does the root task, and every open task when
  \<open>apply_to_open_tasks\<close> is set; with \<open>reopen_terminal_tasks\<close> every Done work task is Runnable again
  under the new criteria.  Every other task keeps its criteria and every other status stays.
\<close>
theorem new_criteria_reopen_work:
  assumes run: "steer_update_done_criteria criteria reason to_open reopen w = (Inr m, v)"
  shows "gsp_done_criteria (gs_goal v) = criteria \<and>
    (\<forall>i t. bt_get (gs_tasks w) i = Some t \<longrightarrow> (\<exists>u. bt_get (gs_tasks v) i = Some u \<and>
       (let again = reopen \<and> is_work_like (tn_purpose t) \<and> tn_status t = TS_Done in
        tn_status u = (if again then TS_Runnable else tn_status t) \<and>
        tn_done_criteria u = (if tn_parent_id t = None \<or> to_open \<and> \<not> is_terminal (tn_status t) \<or> again
          then criteria else tn_done_criteria t))))"
proof -
  have events: "preserves (\<lambda>w. (gs_goal w, gs_tasks w) = x)
      (bindR (for_each is (\<lambda>i. push_event (f i))) (\<lambda>_. ok ()))" for x f "is"
    by (intro control_rules frame_rules) simp_all
  let ?w = "set_criteria (\<lambda>_. criteria) w"
  have "bindR (propagate_goal_done_criteria to_open reopen) (\<lambda>_. bindR refresh_goal_status (\<lambda>_.
      ok (''steering_done_criteria_updated:'' @ reason))) ?w = (Inr m, v)"
    using run by (auto simp: steer_update_done_criteria_def split: sum.splits)
  then obtain x u where 1: "propagate_goal_done_criteria to_open reopen ?w = (Inr x, u)" and v: "v = refresh u"
    by (elim bindR_InrE) (auto simp: bind_rules run_refresh)
  from 1 have "bindR (for_each (map tn_id (filter (should_reopen reopen) (tasks_of ?w)))
      (\<lambda>i. push_event (''steering_done_criteria_reopened_task:'' @ i))) (\<lambda>_. ok ())
      (propagate_tasks to_open reopen ?w) = (Inr x, u)"
    by (simp add: propagate_goal_done_criteria_def Let_def)
  from frame_run [OF events this] v have "(gs_goal v, gs_tasks v) = (gs_goal ?w,
      bt_map_values (propagate_to_task criteria to_open reopen) (gs_tasks w))"
    by (simp add: propagate_tasks_def set_criteria_def)
  then show ?thesis
    by (auto simp: get_map_values propagate_to_task_def should_reopen_def is_terminal_ok_def Let_def set_criteria_def)
qed

definition strict_criteria :: done_criteria where
  "strict_criteria = done_criteria_default (| dc_tests_pass := True, dc_validator_score_min := None |)"

theorem new_criteria_reopen_work_witness:
  "\<exists>v t. steer_update_done_criteria strict_criteria [] False True (world_of sample_goal [sample_task ''a'' TS_Done]) =
       (Inr ''steering_done_criteria_updated:'', v) \<and>
     bt_get (gs_tasks v) ''a'' = Some t \<and> tn_status t = TS_Runnable \<and> tn_done_criteria t = strict_criteria"
proof -
  let ?w = "world_of sample_goal [sample_task ''a'' TS_Done]"
  obtain v where run: "steer_update_done_criteria strict_criteria [] False True ?w =
      (Inr ''steering_done_criteria_updated:'', v)"
    by (simp add: steer_update_done_criteria_def ensure_goal_updates_allowed_def control_loop_policy_default_def
        validate_done_criteria_def strict_criteria_def propagate_goal_done_criteria_def Let_def
        refresh_goal_status_def tasks_of_def set_criteria_def should_reopen_def is_terminal_ok_def
        push_event_def)
  have "bt_get (gs_tasks ?w) ''a'' = Some (sample_task ''a'' TS_Done)" by simp
  with new_criteria_reopen_work [OF run] obtain u where "bt_get (gs_tasks v) ''a'' = Some u"
    "tn_status u = TS_Runnable" "tn_done_criteria u = strict_criteria"
    by (force simp: Let_def)
  with run show ?thesis by blast
qed

lemma injected_task:
  assumes run: "steer_inject_task policy role prompt reason w = (Inr m, v)" and wf: "wf_world w"
  shows "cl_allow_task_injection (gsp_control_policy (gs_goal w)) \<and>
    (\<exists>t \<in> set (runnable_tasks v). m = ''steering_task_injected:'' @ tn_id t \<and>
       bt_get (gs_tasks w) (tn_id t) = None \<and> bt_get (gs_tasks v) (tn_id t) = Some t \<and>
       tn_role t = role \<and> tn_prompt t = prompt \<and> tn_depth t = 1 \<and>
       (\<exists>root. tn_parent_id t = Some (tn_id root) \<and> tn_parent_id root = None \<and>
          bt_get (gs_tasks w) (tn_id root) = Some root \<and>
          ensure_spawn_allowed policy root [injected_request role prompt reason] = Inr ()))"
proof -
  let ?q = "injected_request role prompt reason"
  have allowed: "cl_allow_task_injection (gsp_control_policy (gs_goal w))"
    using run by (auto simp: steer_inject_task_def split: if_splits)
  with run obtain i where spawn: "steering_spawn policy ?q w = (Inr i, v)"
    and m: "m = ''steering_task_injected:'' @ i"
    by (auto simp: steer_inject_task_def elim!: bindR_InrE)
  then obtain root where root: "root_task w = Inr root"
    and ok: "ensure_spawn_allowed policy root [?q] = Inr ()"
    and child: "insert_child_task (tn_id root) root ?q w = (Inr i, v)"
    unfolding steering_spawn_def by (auto elim!: bindR_InrE split: sum.splits)
  have r: "bt_get (gs_tasks w) (tn_id root) = Some root" "tn_parent_id root = None"
    using root_task_Inr [OF root] wf_world_values [OF wf] by auto
  then have depth: "tn_depth root = 0"
    using wf_world_get [OF wf r(1)] by (simp add: node_ok_def child_link_ok_def)
  let ?t = "materialize_child_task w i (tn_id root) root ?q"
  have new: "bt_get (gs_tasks w) i = None"
    "gs_tasks v = bt_insert i ?t (bt_adjust (tn_id root) (push_child i) (gs_tasks w))"
    using insert_child_Inr [OF child wf] by auto
  then have get: "bt_get (gs_tasks v) i = Some ?t" by (simp add: get_insert)
  have t: "tn_id ?t = i" "tn_role ?t = role" "tn_prompt ?t = prompt" "tn_depth ?t = 1"
    "tn_status ?t = TS_Runnable" "tn_dependencies ?t = []" "tn_parent_id ?t = Some (tn_id root)"
    by (simp_all add: materialize_child_task_def injected_request_def depth)
      (simp_all add: from_child_request_def Let_def)
  have ready: "?t \<in> set (runnable_tasks v)"
    using get_Some_values [OF get] t by (simp add: set_runnable_tasks dependencies_done_def)
  have parent: "\<exists>root. tn_parent_id ?t = Some (tn_id root) \<and> tn_parent_id root = None \<and>
      bt_get (gs_tasks w) (tn_id root) = Some root \<and> ensure_spawn_allowed policy root [?q] = Inr ()"
    using t r ok by (intro exI [of _ root]) simp
  show ?thesis
    by (rule conjI [OF allowed], rule bexI [OF _ ready], intro conjI parent) (simp_all only: t m new(1) get)
qed

text \<open>
  Injected work is ready to run.  When steering injects a task, task injection is
  enabled, the spawn policy admits one more child of the root, and the new task is a child
  of the root, at depth one, with the given role and prompt, and in the ready queue.
\<close>
theorem injected_task_is_ready:
  assumes run: "steer_inject_task policy role prompt reason w = (Inr m, v)" and wf: "wf_world w"
  shows "cl_allow_task_injection (gsp_control_policy (gs_goal w)) \<and>
    (\<exists>t \<in> set (runnable_tasks v). m = ''steering_task_injected:'' @ tn_id t \<and>
       bt_get (gs_tasks w) (tn_id t) = None \<and> bt_get (gs_tasks v) (tn_id t) = Some t \<and>
       tn_role t = role \<and> tn_prompt t = prompt \<and> tn_depth t = 1 \<and>
       (\<exists>root. tn_parent_id t = Some (tn_id root) \<and> tn_parent_id root = None \<and>
          bt_get (gs_tasks w) (tn_id root) = Some root \<and>
          ensure_spawn_allowed policy root [injected_request role prompt reason] = Inr ()))"
  using injected_task [OF assms] .

theorem injected_task_is_ready_witness:
  "\<exists>m v. steer_inject_task spawn_policy_default WK_Codex ''fix'' [] (world_of sample_goal [sample_task ''a'' TS_Running]) = (Inr m, v) \<and>
     runnable_tasks v \<noteq> []"
proof -
  let ?w = "world_of sample_goal [sample_task ''a'' TS_Running]"
  have "root_task ?w = Inr (sample_task ''a'' TS_Running)" by (simp add: root_task_def)
  then obtain m v where run: "steer_inject_task spawn_policy_default WK_Codex ''fix'' [] ?w = (Inr m, v)"
    by (simp add: steer_inject_task_def control_loop_policy_default_def steering_spawn_def ensure_spawn_allowed_def
        spawn_policy_default_def run_insert_child_task bindR_def Let_def default_goal_def)
  have "wf_world ?w" by (rule wf_world_of_one) simp_all
  from injected_task_is_ready [OF run this] run show ?thesis by fastforce
qed

end
