(* ===== verification/Branch_Facts.thy ===== *)
theory Branch_Facts
  imports Steering
begin

text \<open>
  What branching guarantees: a lemma on the insertion of several children, the invariant
  \<open>branches_ok\<close> of groups and votes, what a successful \<open>branch_task\<close> leaves behind, and
  how the automatic selection relates to the votes.
\<close>

section \<open>Inserting several children\<close>

lemma for_each_length: "for_each xs f w = (Inr ys, v) \<Longrightarrow> length ys = length xs"
  by (induction xs arbitrary: w ys) (auto elim!: bindR_InrE)

lemma materialize_cong:
  "gs_goal (w :: world) = gs_goal v \<Longrightarrow> materialize_child_task w c p snap q = materialize_child_task v c p snap q"
  unfolding materialize_child_task_def subgoal_color_def by (erule ssubst) (rule refl)

definition drawn_ids :: "world \<Rightarrow> nat \<Rightarrow> uuid list" where
  "drawn_ids w n = map (\<lambda>k. uuid_tape w (uuids_drawn w + k)) [0..<n]"

lemma drawn_ids_Suc: "drawn_ids w (Suc n) = uuid_tape w (uuids_drawn w) # map (\<lambda>k. uuid_tape w (Suc (uuids_drawn w) + k)) [0..<n]"
  by (simp add: drawn_ids_def map_upt_Suc del: upt_Suc)

lemma distinct_drawn_ids: "inj (uuid_tape w) \<Longrightarrow> distinct (drawn_ids w n)"
  by (auto simp: drawn_ids_def distinct_map intro!: inj_onI dest!: injD)

text \<open>
  Inserting the children \<open>qs\<close> below \<open>p\<close> draws one identifier for each, stores the children
  under them and touches no other task than the parent, which lists them.
\<close>

lemma for_each_insert_children:
  assumes "for_each qs (insert_child_task p snap) w = (Inr cs, v)"
    and "knows T w" and "snap \<in> T" and "tn_id snap = p"
  shows "cs = drawn_ids w (length qs) \<and> knows T v \<and> gs_goal v = gs_goal w \<and>
    (\<forall>k < length qs. bt_get (gs_tasks v) (cs ! k) = Some (materialize_child_task w (cs ! k) p snap (qs ! k)) \<and>
       bt_get (gs_tasks w) (cs ! k) = None) \<and>
    (\<forall>i. i \<notin> set cs \<longrightarrow> i \<noteq> p \<longrightarrow> bt_get (gs_tasks v) i = bt_get (gs_tasks w) i) \<and>
    bt_get (gs_tasks v) p = map_option (\<lambda>t. t (| tn_children := tn_children t @ cs |)) (bt_get (gs_tasks w) p)"
  using assms
proof (induction qs arbitrary: w cs)
  case Nil
  then show ?case by (cases "bt_get (gs_tasks w) p") (simp_all add: drawn_ids_def)
next
  case (Cons q qs)
  then obtain c ds w1 where one: "insert_child_task p snap q w = (Inr c, w1)"
    and rest: "for_each qs (insert_child_task p snap) w1 = (Inr ds, v)" and cs: "cs = c # ds"
    by (auto elim!: bindR_InrE)
  let ?t = "materialize_child_task w c p snap q"
  have wf: "wf_world w" using Cons.prems(2) by (rule knows_wf)
  obtain u where 1: "bt_get (gs_tasks w) p = Some u" "bt_get (gs_tasks w) c = None"
    "gs_tasks w1 = bt_insert c ?t (bt_adjust p (push_child c) (gs_tasks w))" "gs_goal w1 = gs_goal w"
    using insert_child_Inr [OF one wf] by blast
  have tape: "c = uuid_tape w (uuids_drawn w)" "uuid_tape w1 = uuid_tape w" "uuids_drawn w1 = Suc (uuids_drawn w)"
    using one by (auto simp: run_insert_child_task Let_def split: option.splits)
  have k1: "knows T w1"
    using knows_insert_child_task [OF Cons.prems(2-4), of q] one by simp
  note IH = Cons.IH [OF rest k1 Cons.prems(3,4)]
  note rest_ids = IH [THEN conjunct1] and IH' = IH [THEN conjunct2, THEN conjunct2, THEN conjunct2]
  note IH_new = IH' [THEN conjunct1, rule_format, unfolded materialize_cong [OF 1(4)]]
  note IH_old = IH' [THEN conjunct2, THEN conjunct1, rule_format]
  note IH_parent = IH' [THEN conjunct2, THEN conjunct2]
  have ids: "cs = drawn_ids w (length (q # qs))"
    using rest_ids cs tape by (simp add: drawn_ids_Suc) (simp add: drawn_ids_def)
  have "distinct cs"
    using distinct_drawn_ids wf unfolding ids wf_world_def fresh_uuids_def by blast
  then have c: "c \<notin> set ds" "c \<noteq> p" using cs 1 by auto
  have get1: "bt_get (gs_tasks w1) i = (if i = c then Some ?t else if i = p then Some (push_child c u) else bt_get (gs_tasks w) i)" for i
    using 1 by (auto simp: get_insert get_adjust)
  have "bt_get (gs_tasks v) (cs ! k) = Some (materialize_child_task w (cs ! k) p snap ((q # qs) ! k)) \<and>
      bt_get (gs_tasks w) (cs ! k) = None" if "k < length (q # qs)" for k
  proof (cases k)
    case 0
    with IH_old [OF c] get1 [of c] 1(2) cs show ?thesis by simp
  next
    case (Suc j)
    then have j: "j < length qs" using that by simp
    have "bt_get (gs_tasks w1) (ds ! j) = None" using IH_new [OF j] by simp
    then have "bt_get (gs_tasks w) (ds ! j) = None" by (auto simp: get1 split: if_splits)
    with IH_new [OF j] show ?thesis unfolding cs Suc by simp
  qed
  then have new: "\<forall>k < length (q # qs). bt_get (gs_tasks v) (cs ! k) =
      Some (materialize_child_task w (cs ! k) p snap ((q # qs) ! k)) \<and> bt_get (gs_tasks w) (cs ! k) = None" by blast
  have old: "\<forall>i. i \<notin> set cs \<longrightarrow> i \<noteq> p \<longrightarrow> bt_get (gs_tasks v) i = bt_get (gs_tasks w) i"
    using IH_old get1 cs by simp
  have parent: "bt_get (gs_tasks v) p = map_option (\<lambda>t. t (| tn_children := tn_children t @ cs |)) (bt_get (gs_tasks w) p)"
    unfolding IH_parent
    using get1 c(2) 1(1) cs by (simp add: push_child_def)
  have "knows T v" "gs_goal v = gs_goal w"
    using IH [THEN conjunct2, THEN conjunct1] IH [THEN conjunct2, THEN conjunct2, THEN conjunct1] 1(4) by simp_all
  with new old parent ids show ?case by blast
qed

section \<open>The invariant of groups and votes\<close>

definition group_ok :: "branch_group \<Rightarrow> bool" where
  "group_ok g \<longleftrightarrow> 2 \<le> length (bg_candidate_task_ids g) \<and>
     (bg_status g = BGS_Selected \<longrightarrow> bg_selected_task_id g \<noteq> None) \<and>
     (\<forall>i. bg_selected_task_id g = Some i \<longrightarrow> i \<in> set (bg_candidate_task_ids g))"

definition vote_ok :: "branch_group list \<Rightarrow> branch_vote_record \<Rightarrow> bool" where
  "vote_ok gs v \<longleftrightarrow>
     (\<exists>g. find (\<lambda>g. bg_id g = bv_group_id v) gs = Some g \<and> bv_selected_task_id v \<in> set (bg_candidate_task_ids g))"

definition ballots_of :: "world \<Rightarrow> (uuid \<times> uuid) list" where
  "ballots_of w = map (\<lambda>v. (bv_group_id v, bv_voter_task_id v)) (gs_branch_votes w)"

definition branches_ok :: "world \<Rightarrow> bool" where
  "branches_ok w \<longleftrightarrow>
     (\<forall>g \<in> set (gs_branch_groups w). group_ok g) \<and> (\<forall>v \<in> set (gs_branch_votes w). vote_ok (gs_branch_groups w) v) \<and>
     distinct (ballots_of w) \<and>
     length (gs_branch_groups w) \<le> bp_max_branch_groups (gsp_branching_policy (gs_goal w))"

abbreviation branch_view :: "world \<Rightarrow> branch_group list \<times> branch_vote_record list \<times> branching_policy" where
  "branch_view w \<equiv> (gs_branch_groups w, gs_branch_votes w, gsp_branching_policy (gs_goal w))"

lemma branches_ok_view:
  assumes "\<And>v. preserves (\<lambda>w. branch_view w = v) m"
  shows "preserves branches_ok m"
proof -
  have "preserves (\<lambda>w. (\<lambda>(gs, vs, p). (\<forall>g \<in> set gs. group_ok g) \<and> (\<forall>v \<in> set vs. vote_ok gs v) \<and>
      distinct (map (\<lambda>v. (bv_group_id v, bv_voter_task_id v)) vs) \<and> length gs \<le> bp_max_branch_groups p) (branch_view w)) m"
    by (rule frame_predicate) (rule assms)
  then show ?thesis by (simp add: preserves_def branches_ok_def ballots_of_def)
qed

named_theorems branch_rules "operations that keep the invariant of groups and votes"

lemma find_update_same:
  assumes "\<And>g. bg_id (f g) = bg_id g" and "\<And>g. bg_candidate_task_ids (f g) = bg_candidate_task_ids g"
    and "vote_ok gs v"
  shows "vote_ok (gs[k := f (gs ! k)]) v"
proof (cases "k < length gs")
  case True
  have "\<exists>g'. find (\<lambda>g. bg_id g = i) (gs[k := f (gs ! k)]) = Some g' \<and>
      bg_candidate_task_ids g' = bg_candidate_task_ids g"
    if "find (\<lambda>g. bg_id g = i) gs = Some g" for i g
    using that True
  proof (induction gs arbitrary: k)
    case (Cons x xs)
    then show ?case by (cases k) (auto simp: assms(1,2) split: if_splits)
  qed simp
  with assms(3) show ?thesis by (fastforce simp: vote_ok_def)
qed (use assms(3) in \<open>simp add: list_update_beyond\<close>)

lemma branches_update_group:
  assumes ok: "branches_ok w"
    and f: "\<And>g. bg_id (f g) = bg_id g" "\<And>g. bg_candidate_task_ids (f g) = bg_candidate_task_ids g"
    and g: "k < length (gs_branch_groups w) \<Longrightarrow> group_ok (f (gs_branch_groups w ! k))"
  shows "branches_ok (snd (update_group k f w))"
proof -
  have "group_ok x" if "x \<in> set ((gs_branch_groups w)[k := f (gs_branch_groups w ! k)])" for x
  proof (cases "k < length (gs_branch_groups w)")
    case True
    with that ok g show ?thesis
      using set_update_subset_insert [of "gs_branch_groups w" k] by (auto simp: branches_ok_def)
  qed (use that ok in \<open>simp add: branches_ok_def list_update_beyond\<close>)
  with ok find_update_same [OF f] show ?thesis
    by (simp add: update_group_def branches_ok_def ballots_of_def)
qed

lemma branches_set [branch_rules]:
  "preserves branches_ok (update_group k (set_voters ids))"
  "preserves branches_ok (update_group k (set_unifier i))"
  "preserves branches_ok (update_group k set_ready)"
  by (rule preservesI, rule branches_update_group;
      auto simp: set_voters_def set_unifier_def set_ready_def branches_ok_def group_ok_def)+

lemma branches_select:
  assumes "branches_ok w" and "k < length (gs_branch_groups w)"
    and "i \<in> set (bg_candidate_task_ids (gs_branch_groups w ! k))"
  shows "branches_ok (snd (update_group k (select_task i) w))"
  using assms by (intro branches_update_group) (auto simp: select_task_def branches_ok_def group_ok_def)

lemma branches_frames [branch_rules]:
  "preserves branches_ok (push_event m)" "preserves branches_ok refresh_goal_status"
  "preserves branches_ok (insert_child_task p t q)" "preserves branches_ok new_uuid"
  "preserves branches_ok (set_task_status i st)" "preserves branches_ok get_root"
  "preserves branches_ok (task_mut i)" "preserves branches_ok (record_learning_signal r purpose)"
  by (rule branches_ok_view, (simp add: record_learning_signal_def)?,
      (intro control_rules frame_rules frame_update; simp))+

lemma branches_record_vote [branch_rules]: "preserves branches_ok (record_branch_vote voter v)"
proof -
  have "branches_ok (snd (put_vote voter v w))" if ok: "branches_ok w" and "validate_branch_vote voter v w = Inr ()" for w
  proof -
    have "vote_ok (gs_branch_groups w) (vote_record voter v)"
      using that(2) by (auto simp: validate_branch_vote_def vote_ok_def vote_record_def split: option.splits if_splits)
    moreover have "distinct (map (\<lambda>v. (bv_group_id v, bv_voter_task_id v)) (filter P (gs_branch_votes w)))" for P
      using ok by (simp add: branches_ok_def ballots_of_def distinct_map inj_on_def)
    ultimately show ?thesis
      using ok by (auto simp: branches_ok_def put_vote_def ballots_of_def vote_record_def)
  qed
  then have put: "validate_branch_vote voter v w = Inr () \<Longrightarrow> branches_ok w \<Longrightarrow> branches_ok (snd (put_vote voter v w))" for w
    by blast
  show ?thesis
  proof (rule preservesI)
    fix w assume ok: "branches_ok w"
    show "branches_ok (snd (record_branch_vote voter v w))"
    proof (cases "validate_branch_vote voter v w")
      case (Inr u)
      with put ok have "branches_ok (snd (put_vote voter v w))" by simp
      with preservesD [OF branches_frames(1)] Inr show ?thesis
        by (simp add: record_branch_vote_def put_vote_def)
    qed (use ok in \<open>simp add: record_branch_vote_def\<close>)
  qed
qed

section \<open>Automatic selection\<close>

interpretation vote_order: comparator tally_le
  unfolding tally_le_def
proof (rule comparator_then_with)
  show "comparator (\<lambda>x y :: uuid \<times> nat \<times> f32. fst (snd x) \<le> fst (snd y))" by (rule comparator_key)
  show "comparator (\<lambda>x y :: uuid \<times> nat \<times> f32. f32_total_le (snd (snd x)) (snd (snd y)))"
    by unfold_locales (use f32_total_le_total f32_total_le_trans in blast)+
qed

interpretation reward_order: comparator "\<lambda>x y :: uuid \<times> f32. f32_total_le (snd x) (snd y)"
  by unfold_locales (use f32_total_le_total f32_total_le_trans in blast)+

text \<open>The votes of a group for a candidate, in the order in which they were recorded.\<close>

definition votes_for :: "uuid \<Rightarrow> branch_vote_record list \<Rightarrow> uuid \<Rightarrow> branch_vote_record list" where
  "votes_for g votes i = filter (\<lambda>b. bv_group_id b = g \<and> bv_selected_task_id b = i) votes"

definition confidence_sum :: "branch_vote_record list \<Rightarrow> f32" where
  "confidence_sum vs = foldl (\<lambda>a v. f32_add a (bv_confidence v)) f32_0 vs"

lemma get_vote_tally:
  "bt_wf (vote_tally g votes) \<and>
   bt_get (vote_tally g votes) i =
     (if votes_for g votes i = [] then None
      else Some (length (votes_for g votes i), confidence_sum (votes_for g votes i)))"
proof (induction votes arbitrary: i rule: rev_induct)
  case Nil
  then show ?case by (simp add: vote_tally_def votes_for_def bt_wf_def bt_get_def)
next
  case (snoc v votes)
  show ?case
  proof (cases "bv_group_id v = g")
    case True
    then have "vote_tally g (votes @ [v]) = tally_vote (vote_tally g votes) v"
      by (simp add: vote_tally_def)
    with snoc True show ?thesis
      by (auto simp: tally_vote_def Let_def get_insert bt_wf_insert votes_for_def confidence_sum_def)
  next
    case False
    then have "vote_tally g (votes @ [v]) = vote_tally g votes" "votes_for g (votes @ [v]) i = votes_for g votes i"
      by (simp_all add: vote_tally_def votes_for_def)
    with snoc show ?thesis by simp
  qed
qed

lemma mem_vote_tally:
  "(i, e) \<in> set (vote_tally g votes) \<longleftrightarrow>
     votes_for g votes i \<noteq> [] \<and> e = (length (votes_for g votes i), confidence_sum (votes_for g votes i))"
proof -
  have "(i, e) \<in> set (vote_tally g votes) \<longleftrightarrow> bt_get (vote_tally g votes) i = Some e"
    using get_vote_tally [of g votes i] by (intro btree.entries_get) blast
  then show ?thesis using get_vote_tally [of g votes i] by auto
qed

lemma auto_selected_votes:
  assumes "auto_selected_branch_task s g = Some i" and "bg_selection_strategy g \<noteq> BSS_HighestScore"
  shows "votes_for (bg_id g) (gs_branch_votes s) i \<noteq> []"
    and "votes_for (bg_id g) (gs_branch_votes s) j \<noteq> [] \<Longrightarrow>
      tally_le (j, length (votes_for (bg_id g) (gs_branch_votes s) j), confidence_sum (votes_for (bg_id g) (gs_branch_votes s) j))
        (i, length (votes_for (bg_id g) (gs_branch_votes s) i), confidence_sum (votes_for (bg_id g) (gs_branch_votes s) i))"
proof -
  obtain e where e: "max_by tally_le (vote_tally (bg_id g) (gs_branch_votes s)) = Some (i, e)"
    using assms by (auto simp: auto_selected_branch_task_def split: branch_selection_strategy.splits)
  then have i: "votes_for (bg_id g) (gs_branch_votes s) i \<noteq> []"
    "e = (length (votes_for (bg_id g) (gs_branch_votes s) i), confidence_sum (votes_for (bg_id g) (gs_branch_votes s) i))"
    using max_by_mem [OF e] by (simp_all add: mem_vote_tally)
  then show "votes_for (bg_id g) (gs_branch_votes s) i \<noteq> []" by simp
  show "votes_for (bg_id g) (gs_branch_votes s) j \<noteq> [] \<Longrightarrow> tally_le (j, length (votes_for (bg_id g) (gs_branch_votes s) j), confidence_sum (votes_for (bg_id g) (gs_branch_votes s) j))
        (i, length (votes_for (bg_id g) (gs_branch_votes s) i), confidence_sum (votes_for (bg_id g) (gs_branch_votes s) i))"
    using vote_order.max_by_upper [OF e] i(2) by (simp add: mem_vote_tally)
qed

lemma auto_selected_candidate:
  assumes ok: "branches_ok w" and k: "position (\<lambda>g. bg_id g = i) (gs_branch_groups w) = Some k"
    and sel: "auto_selected_branch_task w (gs_branch_groups w ! k) = Some t"
  shows "t \<in> set (bg_candidate_task_ids (gs_branch_groups w ! k))"
proof -
  let ?g = "gs_branch_groups w ! k"
  have g: "bg_id ?g = i" "find (\<lambda>g. bg_id g = i) (gs_branch_groups w) = Some ?g"
    using position_Some [OF k] k by (simp_all add: position_find)
  show ?thesis
  proof (cases "bg_selection_strategy ?g = BSS_HighestScore")
    case True
    then obtain x where x: "max_by (\<lambda>x y. f32_total_le (snd x) (snd y))
        (concat (map (latest_reward w) (bg_candidate_task_ids ?g))) = Some x" "t = fst x"
      using sel by (auto simp: auto_selected_branch_task_def)
    then have "x \<in> set (concat (map (latest_reward w) (bg_candidate_task_ids ?g)))" by (intro max_by_mem)
    with x(2) show ?thesis by (auto simp: latest_reward_def split: option.splits)
  next
    case False
    from auto_selected_votes(1) [OF sel this] obtain v where "v \<in> set (votes_for i (gs_branch_votes w) t)"
      using g(1) by (metis list.set_sel(1))
    then have v: "v \<in> set (gs_branch_votes w)" "bv_group_id v = i" "bv_selected_task_id v = t"
      by (auto simp: votes_for_def)
    then have "vote_ok (gs_branch_groups w) v" using ok by (simp add: branches_ok_def)
    with v g(2) show ?thesis by (auto simp: vote_ok_def)
  qed
qed

lemma branches_try_select [branch_rules]: "preserves branches_ok (try_select_group i)"
proof (rule preservesI)
  fix w assume ok: "branches_ok w"
  show "branches_ok (snd (try_select_group i w))"
  proof (cases "position (\<lambda>g. bg_id g = i) (gs_branch_groups w)")
    case (Some k)
    show ?thesis
    proof (cases "auto_selected_branch_task w (gs_branch_groups w ! k)")
      case sel: (Some t)
      have "branches_ok (snd (update_group k (select_task t) w))"
        using branches_select [OF ok] position_Some [OF Some] auto_selected_candidate [OF ok Some sel] by blast
      then have "branches_ok (snd (bindR (update_group k (select_task t)) (\<lambda>_. push_event m) w))" for m
        using preservesD [OF branches_frames(1)] by (simp add: update_group_def)
      with Some sel ok show ?thesis by (simp add: try_select_group_def)
    qed (use Some ok in \<open>simp add: try_select_group_def\<close>)
  qed (use ok in \<open>simp add: try_select_group_def\<close>)
qed

lemma branches_try_auto_select [branch_rules]: "preserves branches_ok try_auto_select_branch_groups"
  unfolding try_auto_select_branch_groups_def by (intro preserves_rules branch_rules)

lemma branches_apply_selection [branch_rules]: "preserves branches_ok (apply_branch_selection r)"
proof (rule preservesI)
  fix w assume ok: "branches_ok w"
  let ?i = "bsr_selected_task_id r"
  have tail: "preserves branches_ok (bindR (push_event m) (\<lambda>_. bindR refresh_goal_status (\<lambda>_. reads (\<lambda>v. ok (x v)))))"
    for m and x :: "world \<Rightarrow> branch_group"
    by (intro preserves_rules branch_rules)
  show "branches_ok (snd (apply_branch_selection r w))"
  proof (cases "position (\<lambda>g. bg_id g = bsr_group_id r) (gs_branch_groups w)")
    case (Some k)
    show ?thesis
    proof (cases "?i \<in> set (bg_candidate_task_ids (gs_branch_groups w ! k))")
      case True
      have "branches_ok (snd (update_group k (select_task ?i) w))"
        using branches_select [OF ok _ True] position_Some [OF Some] by blast
      with preservesD [OF tail] Some ok show ?thesis
        by (simp add: apply_branch_selection_def update_group_def)
    qed (use Some ok in \<open>simp add: apply_branch_selection_def\<close>)
  qed (use ok in \<open>simp add: apply_branch_selection_def\<close>)
qed

lemma branches_spawns [branch_rules]:
  "preserves branches_ok (spawn_branch_votes k policy)" "preserves branches_ok (spawn_branch_unifier k policy)"
  "preserves branches_ok (make_ready k)"
  unfolding spawn_branch_votes_def spawn_branch_unifier_def make_ready_def Let_def
  by (intro preserves_rules branch_rules)+

lemma branches_advance [branch_rules]: "preserves branches_ok (advance_group policy i)"
  unfolding advance_group_def Let_def
  by (intro preserves_rules) (simp split: branch_group_status.split; intro conjI impI preserves_rules branch_rules)

lemma branches_frontier [branch_rules]: "preserves branches_ok (ensure_branch_frontier policy)"
  unfolding ensure_branch_frontier_def by (intro preserves_rules branch_rules)

lemma branches_keep_artifacts [branch_rules]: "preserves branches_ok (update (keep_artifacts r))"
  by (rule branches_ok_view, rule frame_update) (simp add: keep_artifacts_def)

lemma branches_close [branch_rules]: "preserves branches_ok (update (close_unified r purpose))"
proof (rule preserves_update)
  fix w assume ok: "branches_ok w"
  have close: "bg_id (close_group i g) = bg_id g" "bg_candidate_task_ids (close_group i g) = bg_candidate_task_ids g"
    "group_ok g \<Longrightarrow> group_ok (close_group i g)" for i g
    by (auto simp: close_group_def group_ok_def)
  have "find (\<lambda>g. bg_id g = j) (map (close_group i) gs) = map_option (close_group i) (find (\<lambda>g. bg_id g = j) gs)" for i j gs
    by (induction gs) (simp_all add: close(1))
  then have "vote_ok gs v \<Longrightarrow> vote_ok (map (close_group i) gs) v" for i gs v
    by (auto simp: vote_ok_def close(2))
  with ok close(3) show "branches_ok (close_unified r purpose w)"
    by (auto simp: close_unified_def branches_ok_def ballots_of_def split: task_purpose.splits)
qed

lemma branches_apply_validation [branch_rules]: "preserves branches_ok (apply_validation r)"
  unfolding apply_validation_def by (intro preserves_rules branch_rules)

text \<open>A branch that is spawned: the state before the new group and the group.\<close>

lemma branch_target_run:
  assumes "branch_target_task r w = (Inr t, u)" and "wf_world w"
  shows "u = w" and "bt_get (gs_tasks w) (tn_id t) = Some t"
proof -
  show "u = w"
    using assms(1) by (auto simp: branch_target_task_def split: option.splits)
  show "bt_get (gs_tasks w) (tn_id t) = Some t"
  proof (cases "brq_target_task_id r")
    case (Some i)
    with assms show ?thesis using wf_world_id [OF assms(2)]
      by (auto simp: branch_target_task_def)
  next
    case None
    have "t \<in> set (bt_values (gs_tasks w))"
    proof (cases "brq_subgoal_id r")
      case (Some g)
      with None assms(1) show ?thesis
        by (auto simp: branch_target_task_def find_Some_iff tasks_of_def split: option.splits)
    next
      case none: None
      with None assms(1) have "root_task w = Inr t" by (auto simp: branch_target_task_def)
      from root_task_Inr(1) [OF this] show ?thesis .
    qed
    with wf_world_values [OF assms(2)] show ?thesis by blast
  qed
qed

lemma branch_task_with_Inr:
  assumes run: "branch_task_with n r policy w = (Inr g, v)" and wf: "wf_world w"
  obtains target i cs where
    "bt_get (gs_tasks w) (tn_id target) = Some target"
    "branch_target_guard target (gsp_branching_policy (gs_goal w)) = Inr ()"
    "ensure_spawn_allowed policy target (map (candidate_request r target i n) [0..<n]) = Inr ()"
    "g = new_group r target (gsp_branching_policy (gs_goal w)) i cs"
    "length cs = n" "distinct cs"
    "\<And>k. k < n \<Longrightarrow> bt_get (gs_tasks w) (cs ! k) = None \<and> bt_get (gs_tasks v) (cs ! k) =
       Some (materialize_child_task w (cs ! k) (tn_id target) target (candidate_request r target i n k))"
    "bt_get (gs_tasks v) (tn_id target) = Some (target (| tn_children := tn_children target @ cs,
       tn_status := if bp_cancel_original_on_branch (gsp_branching_policy (gs_goal w)) \<and> \<not> is_terminal (tn_status target)
         then TS_Cancelled else tn_status target |))"
    "gs_branch_groups v = gs_branch_groups w @ [g]" "gs_branch_votes v = gs_branch_votes w" "gs_goal v = gs_goal w"
proof -
  let ?p = "gsp_branching_policy (gs_goal w)"
  obtain target u where bt: "branch_target_task r w = (Inr target, u)"
    and 1: "bindR (lift_result (\<lambda>_. branch_target_guard target ?p)) (\<lambda>_. bindR new_uuid (\<lambda>i.
      let requests = map (candidate_request r target i n) [0..<n] in
      if bp_require_model_diversity ?p \<and> \<not> models_diverse requests
      then fail (DE_BranchDenied ''model diversity is required but candidate executions do not differ'')
      else bindR (lift_result (\<lambda>_. ensure_spawn_allowed policy target requests)) (\<lambda>_.
           spawn_candidates ?p r target i requests))) u = (Inr g, v)"
    using run unfolding branch_task_with_def run_reads Let_def by (rule bindR_InrE)
  have u: "u = w" and target: "branch_target_task r w = (Inr target, w)"
    using branch_target_run(1) [OF bt wf] bt by simp_all
  define i where "i = uuid_tape w (uuids_drawn w)"
  define w1 where "w1 = w (| uuids_drawn := Suc (uuids_drawn w) |)"
  let ?qs = "map (candidate_request r target i n) [0..<n]"
  have guard: "branch_target_guard target ?p = Inr ()" and spawn: "ensure_spawn_allowed policy target ?qs = Inr ()"
    and cand: "spawn_candidates ?p r target i ?qs w1 = (Inr g, v)"
    using 1 unfolding u by (simp_all add: i_def w1_def bind_rules Let_def split: sum.splits if_splits)
  obtain cs w2 x w3 where ins: "for_each ?qs (insert_child_task (tn_id target) target) w1 = (Inr cs, w2)"
    and cancel: "close_original ?p target w2 = (Inr x, w3)"
    and tail: "record_group (new_group r target ?p i cs) w3 = (Inr g, v)"
    using cand unfolding spawn_candidates_def by (elim bindR_InrE)
  note w1 = w1_def
  note t = branch_target_run(2) [OF target wf]
  have "knows {target} w" using wf t by (simp add: knows_def)
  then have "knows {target} w1"
    using preservesD [OF preserves_wf_new_uuid, of "{target}" w] by (simp add: run_new_uuid w1)
  note new = for_each_insert_children [OF ins this insertI1 refl]
  have same: "gs_tasks w1 = gs_tasks w" "gs_goal w1 = gs_goal w" using w1 by simp_all
  have tails: "gs_tasks v = gs_tasks w3" "gs_branch_groups v = gs_branch_groups w3 @ [g]"
    "gs_branch_votes v = gs_branch_votes w3" "gs_goal v = gs_goal w3" "g = new_group r target ?p i cs"
    using tail by (auto simp: record_group_def push_group_def bind_rules)
  have view: "gs_branch_groups w2 = gs_branch_groups w" "gs_branch_votes w2 = gs_branch_votes w"
  proof -
    have "preserves (\<lambda>w. (gs_branch_groups w, gs_branch_votes w) = y)
        (for_each ?qs (insert_child_task (tn_id target) target))" for y
      by (intro control_rules frame_rules) simp_all
    from frame_run [OF this ins] w1 show "gs_branch_groups w2 = gs_branch_groups w"
      "gs_branch_votes w2 = gs_branch_votes w" by simp_all
  qed
  have w3: "gs_branch_groups w3 = gs_branch_groups w2 \<and> gs_branch_votes w3 = gs_branch_votes w2 \<and> gs_goal w3 = gs_goal w2 \<and>
    (\<forall>j. bt_get (gs_tasks w3) j = (if j = tn_id target \<and> bp_cancel_original_on_branch ?p \<and> \<not> is_terminal (tn_status target)
      then map_option (\<lambda>t. t (| tn_status := TS_Cancelled |)) (bt_get (gs_tasks w2) j) else bt_get (gs_tasks w2) j))"
    using cancel by (auto simp: close_original_def run_set_task_status get_adjust split: if_splits option.splits)
  have len: "length cs = n" using for_each_length [OF ins] by simp
  have "distinct cs"
    using new distinct_drawn_ids wf w1 by (auto simp: wf_world_def fresh_uuids_def)
  have fresh: "cs ! k \<noteq> tn_id target" "bt_get (gs_tasks w) (cs ! k) = None"
    "bt_get (gs_tasks w2) (cs ! k) = Some (materialize_child_task w (cs ! k) (tn_id target) target (candidate_request r target i n k))"
    if "k < n" for k
    using new that t same materialize_cong [OF same(2)] by auto
  show thesis
  proof (rule that [OF t guard spawn tails(5) len \<open>distinct cs\<close>])
    show "bt_get (gs_tasks w) (cs ! k) = None \<and> bt_get (gs_tasks v) (cs ! k) =
       Some (materialize_child_task w (cs ! k) (tn_id target) target (candidate_request r target i n k))" if "k < n" for k
      using fresh [OF that] w3 tails(1) by simp
    show "bt_get (gs_tasks v) (tn_id target) = Some (target (| tn_children := tn_children target @ cs,
       tn_status := if bp_cancel_original_on_branch ?p \<and> \<not> is_terminal (tn_status target)
         then TS_Cancelled else tn_status target |))"
      using new t same w3 tails(1) by simp
  qed (use tails view w3 new same in simp_all)
qed

section \<open>Properties\<close>

text \<open>An operation that fails has not touched the view \<open>g\<close>.\<close>

definition keeps_on_error :: "('s \<Rightarrow> 'v) \<Rightarrow> ('s, 'e, 'a) op \<Rightarrow> bool" where
  "keeps_on_error g m \<longleftrightarrow> (\<forall>w e v. m w = (Inl e, v) \<longrightarrow> g v = g w)"

lemma keeps_on_error_frame: "(\<And>x. preserves (\<lambda>w. g w = x) m) \<Longrightarrow> keeps_on_error g m"
  unfolding keeps_on_error_def by (metis frame_run)

lemma keeps_on_error_bindR:
  assumes "\<And>x. preserves (\<lambda>w. g w = x) m" and "\<And>x. keeps_on_error g (f x)"
  shows "keeps_on_error g (bindR m f)"
  unfolding keeps_on_error_def
proof (intro allI impI)
  fix w e v assume "bindR m f w = (Inl e, v)"
  then show "g v = g w"
    by (cases rule: bindR_cases) (use frame_run [OF assms(1)] assms(2) in \<open>auto simp: keeps_on_error_def\<close>)
qed

lemma keeps_on_error_reads: "(\<And>s. keeps_on_error g (f s)) \<Longrightarrow> keeps_on_error g (reads f)"
  by (simp add: keeps_on_error_def)

lemma branch_task_with_Inl: "branch_task_with n r policy w = (Inl e, v) \<Longrightarrow> branch_view v = branch_view w"
proof -
  have "preserves (\<lambda>w. branch_view w = x) (branch_target_task r)" for x
    unfolding branch_target_task_def by (intro control_rules frame_rules)
  moreover have "keeps_on_error branch_view (record_group g)" for g
    by (simp add: keeps_on_error_def record_group_def push_group_def bind_rules)
  moreover have "preserves (\<lambda>w. branch_view w = x) (close_original p target)" for x p target
    unfolding close_original_def by (intro control_rules frame_rules) simp
  ultimately have "keeps_on_error branch_view (spawn_candidates p r target i qs)" for p target i qs
    unfolding spawn_candidates_def
    by (intro keeps_on_error_bindR control_rules frame_rules) simp_all
  moreover have "keeps_on_error branch_view (fail e)" for e
    by (rule keeps_on_error_frame) (rule preserves_fail)
  ultimately have tail: "keeps_on_error branch_view (if c then fail e else
      bindR (lift_result q) (\<lambda>_. spawn_candidates p r target i qs))" for c e q p target i qs
    by (cases c) (simp_all add: keeps_on_error_bindR preserves_lift_result)
  have "keeps_on_error branch_view (branch_task_with n r policy)"
    unfolding branch_task_with_def Let_def
    by (intro keeps_on_error_reads keeps_on_error_bindR tail preserves_lift_result frame_rules
        \<open>\<And>x. preserves (\<lambda>w. branch_view w = x) (branch_target_task r)\<close>) simp_all
  moreover assume "branch_task_with n r policy w = (Inl e, v)"
  ultimately show ?thesis unfolding keeps_on_error_def by blast
qed

lemma find_append_Some: "find P xs = Some x \<Longrightarrow> find P (xs @ ys) = Some x"
  by (induction xs) auto

lemma branches_branch_task:
  assumes ok: "branches_ok w" and wf: "wf_world w" and run: "branch_task r policy w = Some (res, v)"
  shows "branches_ok v"
proof (cases "branch_guard r w")
  case (Inl e)
  with run ok show ?thesis by (simp add: branch_task_def)
next
  case (Inr u)
  with run obtain n where n: "branch_candidate_count r (gsp_branching_policy (gs_goal w)) = Some n"
    and step: "branch_task_with n r policy w = (res, v)"
    by (auto simp: branch_task_def split: option.splits)
  show ?thesis
  proof (cases res)
    case (Inl e)
    with branch_task_with_Inl step have "branch_view v = branch_view w" by blast
    with ok show ?thesis by (simp add: branches_ok_def ballots_of_def)
  next
    case (Inr g)
    with step have "branch_task_with n r policy w = (Inr g, v)" by simp
    then show ?thesis
    proof (rule branch_task_with_Inr [OF _ wf])
      fix target i cs
      assume new: "g = new_group r target (gsp_branching_policy (gs_goal w)) i cs" "length cs = n"
        "gs_branch_groups v = gs_branch_groups w @ [g]" "gs_branch_votes v = gs_branch_votes w" "gs_goal v = gs_goal w"
      have "2 \<le> n" using n by (auto simp: branch_candidate_count_def split: if_splits)
      with new have "group_ok g" by (simp add: group_ok_def new_group_def)
      moreover have "vote_ok (gs_branch_groups w @ [g]) x" if "vote_ok (gs_branch_groups w) x" for x
        using that by (auto simp: vote_ok_def find_append_Some)
      moreover have "length (gs_branch_groups w) < bp_max_branch_groups (gsp_branching_policy (gs_goal w))"
        using \<open>branch_guard r w = Inr u\<close> by (auto simp: branch_guard_def Let_def split: if_splits)
      ultimately show ?thesis
        using ok new by (auto simp: branches_ok_def ballots_of_def)
    qed
  qed
qed

text \<open>
  C21: Branch groups and votes stay sound.  However groups are spawned, advanced, voted on
  and selected, with or without errors: there are at most \<open>max_branch_groups\<close> groups; every
  group has at least two candidates and is never Selected without a selected task, which is
  one of its candidates; every vote is for a candidate of its group; and no task has two
  votes in a group.
\<close>
theorem branch_groups_stay_sound:
  assumes "branches_ok w" and "wf_world w"
  shows "branches_ok (snd (record_branch_vote voter vote w)) \<and>
    branches_ok (snd (apply_validation report w)) \<and>
    branches_ok (snd (ensure_branch_frontier policy w)) \<and>
    branches_ok (snd (apply_branch_selection selection w)) \<and>
    (\<forall>res v. branch_task r policy w = Some (res, v) \<longrightarrow> branches_ok v)"
  using assms branches_branch_task preservesD [OF branches_record_vote] preservesD [OF branches_apply_validation]
    preservesD [OF branches_frontier] preservesD [OF branches_apply_selection]
  by blast

theorem branch_groups_stay_sound_witness:
  "branches_ok (snd (ensure_branch_frontier spawn_policy_default (world_of sample_goal [sample_task ''a'' TS_Done])))"
  by (rule conjunct1 [OF conjunct2 [OF conjunct2 [OF branch_groups_stay_sound]]])
     (simp_all add: branches_ok_def ballots_of_def wf_world_of_one)

text \<open>
  Branching spawns competing candidates.  When \<open>branch_task\<close> succeeds, the new group
  has between two and \<open>max_candidates_per_group\<close> candidates.  They are distinct new tasks
  below the task that is branched, one level deeper, Runnable, with its dependencies and
  done criteria, and numbered from one; an open original is Cancelled exactly when the
  policy says so and otherwise keeps its status.
\<close>
theorem branching_spawns_competing_candidates:
  assumes run: "branch_task r policy w = Some (Inr g, v)" and wf: "wf_world w"
  shows "\<exists>target. bt_get (gs_tasks w) (bg_original_task_id g) = Some target \<and> tn_status target \<noteq> TS_Running \<and>
    2 \<le> length (bg_candidate_task_ids g) \<and>
    length (bg_candidate_task_ids g) \<le> bp_max_candidates_per_group (gsp_branching_policy (gs_goal w)) \<and>
    distinct (bg_candidate_task_ids g) \<and> bg_status g = BGS_CandidatesSpawned \<and>
    (\<forall>k < length (bg_candidate_task_ids g).
       bt_get (gs_tasks w) (bg_candidate_task_ids g ! k) = None \<and>
       (\<exists>t. bt_get (gs_tasks v) (bg_candidate_task_ids g ! k) = Some t \<and>
          tn_purpose t = TP_CandidateBranch (bg_id g) (bg_original_task_id g) (k + 1) \<and>
          tn_status t = TS_Runnable \<and> tn_parent_id t = Some (bg_original_task_id g) \<and>
          tn_depth t = Suc (tn_depth target) \<and> tn_dependencies t = tn_dependencies target \<and>
          tn_done_criteria t = tn_done_criteria target)) \<and>
    map_option tn_status (bt_get (gs_tasks v) (bg_original_task_id g)) =
      Some (if bp_cancel_original_on_branch (gsp_branching_policy (gs_goal w)) \<and> \<not> is_terminal (tn_status target)
            then TS_Cancelled else tn_status target)"
proof -
  from run obtain n where n: "branch_candidate_count r (gsp_branching_policy (gs_goal w)) = Some n"
    and step: "branch_task_with n r policy w = (Inr g, v)"
    by (auto simp: branch_task_def split: option.splits sum.splits)
  then have bounds: "2 \<le> n" "n \<le> bp_max_candidates_per_group (gsp_branching_policy (gs_goal w))"
    by (auto simp: branch_candidate_count_def split: if_splits)
  from step show ?thesis
  proof (rule branch_task_with_Inr [OF _ wf], intro exI conjI)
    fix target i cs
    assume e: "bt_get (gs_tasks w) (tn_id target) = Some target"
      "branch_target_guard target (gsp_branching_policy (gs_goal w)) = Inr ()"
      "g = new_group r target (gsp_branching_policy (gs_goal w)) i cs" "length cs = n" "distinct cs"
      "\<And>k. k < n \<Longrightarrow> bt_get (gs_tasks w) (cs ! k) = None \<and> bt_get (gs_tasks v) (cs ! k) =
       Some (materialize_child_task w (cs ! k) (tn_id target) target (candidate_request r target i n k))"
      "bt_get (gs_tasks v) (tn_id target) = Some (target (| tn_children := tn_children target @ cs,
       tn_status := if bp_cancel_original_on_branch (gsp_branching_policy (gs_goal w)) \<and> \<not> is_terminal (tn_status target)
         then TS_Cancelled else tn_status target |))"
    then have g: "bg_original_task_id g = tn_id target" "bg_candidate_task_ids g = cs" "bg_id g = i"
      "bg_status g = BGS_CandidatesSpawned" by (simp_all add: new_group_def)
    show "bt_get (gs_tasks w) (bg_original_task_id g) = Some target" using e g by simp
    show "tn_status target \<noteq> TS_Running" using e(2) by (auto simp: branch_target_guard_def split: if_splits)
    show "2 \<le> length (bg_candidate_task_ids g)"
      "length (bg_candidate_task_ids g) \<le> bp_max_candidates_per_group (gsp_branching_policy (gs_goal w))"
      "distinct (bg_candidate_task_ids g)" "bg_status g = BGS_CandidatesSpawned"
      using bounds e g by simp_all
    have fields: "tn_done_criteria (materialize_child_task w c (tn_id target) target (candidate_request r target i n k)) =
        tn_done_criteria target" for c k
      by (simp add: materialize_child_task_def from_child_request_def candidate_request_def Let_def)
    show "\<forall>k < length (bg_candidate_task_ids g).
       bt_get (gs_tasks w) (bg_candidate_task_ids g ! k) = None \<and>
       (\<exists>t. bt_get (gs_tasks v) (bg_candidate_task_ids g ! k) = Some t \<and>
          tn_purpose t = TP_CandidateBranch (bg_id g) (bg_original_task_id g) (k + 1) \<and>
          tn_status t = TS_Runnable \<and> tn_parent_id t = Some (bg_original_task_id g) \<and>
          tn_depth t = Suc (tn_depth target) \<and> tn_dependencies t = tn_dependencies target \<and>
          tn_done_criteria t = tn_done_criteria target)"
      using e(4,6) fields by (simp add: g materialize_child_task_def candidate_request_def Let_def)
    show "map_option tn_status (bt_get (gs_tasks v) (bg_original_task_id g)) =
      Some (if bp_cancel_original_on_branch (gsp_branching_policy (gs_goal w)) \<and> \<not> is_terminal (tn_status target)
            then TS_Cancelled else tn_status target)"
      using e(7) g by simp
  qed
qed

lemma for_each_insert_succeeds:
  "bt_get (gs_tasks w) p \<noteq> None \<Longrightarrow> \<exists>cs v. for_each qs (insert_child_task p snap) w = (Inr cs, v) \<and> bt_get (gs_tasks v) p \<noteq> None"
proof (induction qs arbitrary: w)
  case (Cons q qs)
  then obtain c u where one: "insert_child_task p snap q w = (Inr c, u)"
    by (auto simp: run_insert_child_task Let_def)
  with Cons.prems have "bt_get (gs_tasks u) p \<noteq> None"
    by (auto simp: run_insert_child_task Let_def get_insert get_adjust)
  from Cons.IH [OF this] one show ?case by (auto simp: bindR_def)
qed simp

lemma spawn_candidates_succeeds:
  assumes "bt_get (gs_tasks w) (tn_id t) \<noteq> None"
  shows "\<exists>g v. spawn_candidates p r t i qs w = (Inr g, v)"
proof -
  obtain cs u where cs: "for_each qs (insert_child_task (tn_id t) t) w = (Inr cs, u)"
    and u: "bt_get (gs_tasks u) (tn_id t) \<noteq> None"
    using for_each_insert_succeeds [OF assms] by blast
  have "\<exists>x. close_original p t u = (Inr (), x)"
    using u by (fastforce simp: close_original_def run_set_task_status split: if_splits)
  then obtain x where "close_original p t u = (Inr (), x)" by blast
  then show ?thesis
    using cs by (simp add: spawn_candidates_def bindR_def record_group_def push_group_def run_rules update_def)
qed

definition branching_goal :: goal_spec where
  "branching_goal = sample_goal (| gsp_branching_policy := branching_policy_default (| bp_enabled := True |) |)"

definition sample_branch_request :: branch_request where
  "sample_branch_request = (| brq_goal_id = ''g'', brq_target_task_id = Some ''a'', brq_subgoal_id = None,
     brq_reason = [], brq_candidate_count = 2, brq_candidate_roles = [], brq_candidate_executions = [],
     brq_prompt_overrides = [], brq_selection_strategy = None, brq_operator = None |)"

lemma sample_branch_runs:
  "\<exists>g v. branch_task sample_branch_request spawn_policy_default
     (world_of branching_goal [sample_task ''a'' TS_Runnable]) = Some (Inr g, v)"
proof -
  let ?w = "world_of branching_goal [sample_task ''a'' TS_Runnable]"
  have goal: "gsp_id branching_goal = ''g''"
    "gsp_branching_policy branching_goal = branching_policy_default (| bp_enabled := True |)"
    by (simp_all add: branching_goal_def)
  have "branch_guard sample_branch_request ?w = Inr ()"
    by (simp add: branch_guard_def goal sample_branch_request_def branching_policy_default_def)
  moreover have "branch_candidate_count sample_branch_request (gsp_branching_policy branching_goal) = Some 2"
    by (simp add: branch_candidate_count_def goal sample_branch_request_def branching_policy_default_def)
  moreover have "\<exists>g v. branch_task_with 2 sample_branch_request spawn_policy_default ?w = (Inr g, v)"
  proof -
    let ?p = "gsp_branching_policy branching_goal" and ?t = "sample_task ''a'' TS_Runnable"
    let ?u = "?w (| uuids_drawn := Suc 0 |)"
    have target: "branch_target_task sample_branch_request ?w = (Inr ?t, ?w)"
      by (simp add: branch_target_task_def sample_branch_request_def)
    have guard: "branch_target_guard ?t ?p = Inr ()"
      by (simp add: branch_target_guard_def goal branching_policy_default_def)
    have spawn: "ensure_spawn_allowed spawn_policy_default ?t (map f [0..<2]) = Inr ()" for f
      by (simp add: ensure_spawn_allowed_def spawn_policy_default_def default_goal_def)
    have "bt_get (gs_tasks ?u) (tn_id ?t) \<noteq> None" by simp
    from spawn_candidates_succeeds [OF this]
    obtain g v where "spawn_candidates ?p sample_branch_request ?t (sample_tape 0)
        (map (candidate_request sample_branch_request ?t (sample_tape 0) 2) [0..<2]) ?u = (Inr g, v)" by blast
    moreover have bind: "bindR (branch_target_task sample_branch_request) f ?w = f ?t ?w" for f
      using target by (simp add: bindR_def)
    ultimately show ?thesis
      using guard spawn
      by (simp add: branch_task_with_def bind bind_rules Let_def goal branching_policy_default_def)
  qed
  ultimately show ?thesis by (auto simp: branch_task_def)
qed

theorem branching_spawns_competing_candidates_witness:
  "\<exists>g v. branch_task sample_branch_request spawn_policy_default
     (world_of branching_goal [sample_task ''a'' TS_Runnable]) = Some (Inr g, v) \<and> 2 \<le> length (bg_candidate_task_ids g)"
proof -
  have "wf_world (world_of branching_goal [sample_task ''a'' TS_Runnable])"
    by (rule wf_world_of_goal) (simp_all add: branching_goal_def)
  with sample_branch_runs branching_spawns_competing_candidates show ?thesis by metis
qed

text \<open>
  C22: A task closed by branching keeps the goal open.  With \<open>cancel_original_on_branch\<close>, the
  default, branching an open work task leaves it Cancelled; but the satisfaction report
  demands that every work task be Done, so the goal is not satisfied then, nor in any later
  state in which that task is as branching left it, however the candidates fare.
\<close>
theorem branching_an_open_work_task_blocks_satisfaction:
  assumes run: "branch_task r policy w = Some (Inr g, v)" and wf: "wf_world w"
    and "bp_cancel_original_on_branch (gsp_branching_policy (gs_goal w))"
    and "bt_get (gs_tasks w) (bg_original_task_id g) = Some t" and "\<not> is_terminal (tn_status t)"
    and "is_work_like (tn_purpose t)"
  shows "map_option tn_status (bt_get (gs_tasks v) (bg_original_task_id g)) = Some TS_Cancelled \<and> \<not> satisfied v \<and>
    (\<forall>s :: world. bt_get (gs_tasks s) (bg_original_task_id g) = bt_get (gs_tasks v) (bg_original_task_id g) \<longrightarrow> \<not> satisfied s)"
proof -
  from run obtain n where step: "branch_task_with n r policy w = (Inr g, v)"
    by (auto simp: branch_task_def split: option.splits sum.splits)
  obtain u where u: "bt_get (gs_tasks v) (bg_original_task_id g) = Some u" "tn_status u = TS_Cancelled"
    "is_work_like (tn_purpose u)"
  proof (rule branch_task_with_Inr [OF step wf])
    fix target i cs
    assume e: "bt_get (gs_tasks w) (tn_id target) = Some target"
      "g = new_group r target (gsp_branching_policy (gs_goal w)) i cs"
      "bt_get (gs_tasks v) (tn_id target) = Some (target (| tn_children := tn_children target @ cs,
       tn_status := if bp_cancel_original_on_branch (gsp_branching_policy (gs_goal w)) \<and> \<not> is_terminal (tn_status target)
         then TS_Cancelled else tn_status target |))"
    then have "bg_original_task_id g = tn_id target" by (simp add: new_group_def)
    with e assms(3-6) show thesis
      by (intro that [of "target (| tn_children := tn_children target @ cs, tn_status := TS_Cancelled |)"]) auto
  qed
  have "\<not> satisfied s" if "bt_get (gs_tasks s) (bg_original_task_id g) = Some u" for s :: world
    using satisfied_work_done [of s u] get_Some_values [OF that] u by (auto simp: tasks_of_def)
  with u show ?thesis by auto
qed

theorem branching_an_open_work_task_blocks_satisfaction_witness:
  "\<exists>g v. branch_task sample_branch_request spawn_policy_default
     (world_of branching_goal [sample_task ''a'' TS_Runnable]) = Some (Inr g, v) \<and> \<not> satisfied v"
proof -
  let ?w = "world_of branching_goal [sample_task ''a'' TS_Runnable]"
  obtain g v where run: "branch_task sample_branch_request spawn_policy_default ?w = Some (Inr g, v)"
    using sample_branch_runs by blast
  have wf: "wf_world ?w" by (rule wf_world_of_goal) (simp_all add: branching_goal_def)
  have cancel: "bp_cancel_original_on_branch (gsp_branching_policy (gs_goal ?w))"
    by (simp add: branching_goal_def branching_policy_default_def)
  from run obtain n where "branch_task_with n sample_branch_request spawn_policy_default ?w = (Inr g, v)"
    by (auto simp: branch_task_def split: option.splits sum.splits)
  then have "bt_get (gs_tasks ?w) (bg_original_task_id g) = Some (sample_task ''a'' TS_Runnable)"
  proof (rule branch_task_with_Inr [OF _ wf])
    fix target i cs
    assume "bt_get (gs_tasks ?w) (tn_id target) = Some target"
      "g = new_group sample_branch_request target (gsp_branching_policy (gs_goal ?w)) i cs"
    then show ?thesis by (auto simp: new_group_def split: if_splits)
  qed
  from branching_an_open_work_task_blocks_satisfaction [OF run wf cancel this] run show ?thesis
    by (auto simp: is_terminal_def)
qed

text \<open>
  The automatic selection follows the evidence.  When a group selects automatically, its
  strategy is not Human.  Under \<open>HighestScore\<close> the selected task is a candidate whose latest
  reward is not below that of any other candidate; otherwise it has at least one vote, no
  task has more votes, and among the tasks with as many votes none has a larger sum of
  confidences (in the total order of floats).
\<close>
theorem automatic_selection_follows_the_evidence:
  assumes sel: "auto_selected_branch_task s g = Some i"
  shows "case bg_selection_strategy g of
      BSS_Human \<Rightarrow> False
    | BSS_HighestScore \<Rightarrow> i \<in> set (bg_candidate_task_ids g) \<and>
        (\<exists>x. latest_reward s i = [(i, x)] \<and>
           (\<forall>j \<in> set (bg_candidate_task_ids g). \<forall>y. latest_reward s j = [(j, y)] \<longrightarrow> f32_total_le y x))
    | _ \<Rightarrow> votes_for (bg_id g) (gs_branch_votes s) i \<noteq> [] \<and>
        (\<forall>j. length (votes_for (bg_id g) (gs_branch_votes s) j) < length (votes_for (bg_id g) (gs_branch_votes s) i) \<or>
           length (votes_for (bg_id g) (gs_branch_votes s) j) = length (votes_for (bg_id g) (gs_branch_votes s) i) \<and>
           f32_total_le (confidence_sum (votes_for (bg_id g) (gs_branch_votes s) j))
             (confidence_sum (votes_for (bg_id g) (gs_branch_votes s) i)))"
proof -
  let ?votes = "votes_for (bg_id g) (gs_branch_votes s)"
  have votes: "?votes i \<noteq> [] \<and> (\<forall>j. length (?votes j) < length (?votes i) \<or>
      length (?votes j) = length (?votes i) \<and> f32_total_le (confidence_sum (?votes j)) (confidence_sum (?votes i)))"
    if "bg_selection_strategy g \<noteq> BSS_HighestScore"
  proof (intro conjI allI)
    show "?votes i \<noteq> []" by (rule auto_selected_votes(1) [OF sel that])
    fix j
    show "length (?votes j) < length (?votes i) \<or>
      length (?votes j) = length (?votes i) \<and> f32_total_le (confidence_sum (?votes j)) (confidence_sum (?votes i))"
    proof (cases "?votes j = []")
      case False
      from auto_selected_votes(2) [OF sel that this] show ?thesis by (auto simp: tally_le_def then_with_def)
    qed (use auto_selected_votes(1) [OF sel that] in simp)
  qed
  have score: "i \<in> set (bg_candidate_task_ids g) \<and> (\<exists>x. latest_reward s i = [(i, x)] \<and>
      (\<forall>j \<in> set (bg_candidate_task_ids g). \<forall>y. latest_reward s j = [(j, y)] \<longrightarrow> f32_total_le y x))"
    if highest: "bg_selection_strategy g = BSS_HighestScore"
  proof -
    let ?all = "concat (map (latest_reward s) (bg_candidate_task_ids g))"
    obtain x where m: "max_by (\<lambda>x y. f32_total_le (snd x) (snd y)) ?all = Some (i, x)"
      using sel highest by (auto simp: auto_selected_branch_task_def)
    from max_by_mem [OF m] obtain k where k: "k \<in> set (bg_candidate_task_ids g)" "(i, x) \<in> set (latest_reward s k)" by auto
    have "\<And>y. y \<in> set (latest_reward s k) \<Longrightarrow> fst y = k \<and> latest_reward s k = [y]"
      by (cases "find (\<lambda>g. ls_task_id g = k) (rev (gs_learning_signals s))") (auto simp: latest_reward_def)
    from this [OF k(2)] have "k = i" "latest_reward s i = [(i, x)]" by auto
    moreover have "f32_total_le y x" if "j \<in> set (bg_candidate_task_ids g)" "latest_reward s j = [(j, y)]" for j y
    proof -
      have "(j, y) \<in> set ?all" using that by force
      from reward_order.max_by_upper [OF m this] show ?thesis by simp
    qed
    ultimately show ?thesis using k by blast
  qed
  show ?thesis
    using sel votes score
    by (cases "bg_selection_strategy g") (simp_all add: auto_selected_branch_task_def)
qed

definition voted_group :: branch_group where
  "voted_group = (| bg_id = ''h'', bg_original_task_id = ''a'', bg_subgoal_id = None, bg_reason = [],
     bg_selection_strategy = BSS_VoterQuorum, bg_candidate_task_ids = [''b'', ''c''], bg_voter_task_ids = [],
     bg_unification_task_id = None, bg_selected_task_id = None, bg_status = BGS_ReadyForSelection,
     bg_operator = None |)"

theorem automatic_selection_follows_the_evidence_witness:
  "votes_for ''h'' (gs_branch_votes ((world_of sample_goal []) (| gs_branch_votes :=
     [(| bv_voter_task_id = ''v'', bv_group_id = ''h'', bv_selected_task_id = ''b'', bv_confidence = f32_1,
         bv_rationale = [] |)] |))) ''b'' \<noteq> []"
proof -
  let ?w = "(world_of sample_goal []) (| gs_branch_votes :=
     [(| bv_voter_task_id = ''v'', bv_group_id = ''h'', bv_selected_task_id = ''b'', bv_confidence = f32_1,
         bv_rationale = [] |)] |)"
  have "auto_selected_branch_task ?w voted_group = Some ''b''"
    by (simp add: auto_selected_branch_task_def voted_group_def vote_tally_def tally_vote_def Let_def bt_get_def)
  from automatic_selection_follows_the_evidence [OF this] show ?thesis
    by (simp add: voted_group_def)
qed

end
