(* ===== verification/Review_Facts.thy ===== *)
theory Review_Facts
  imports Branch_Facts "HOL-Library.Multiset"
begin

text \<open>
  What reviewing and validating guarantee: review rounds are numbered, bounded and opened
  over finished work only, actor retries are bounded, and a validation closes its task once.
\<close>

text \<open>A step that keeps \<open>P\<close> followed by one that leads from \<open>P\<close> to \<open>Q\<close>.\<close>

lemma bindR_establish:
  "P s \<Longrightarrow> preserves P m \<Longrightarrow> (\<And>u. P u \<Longrightarrow> Q u) \<Longrightarrow> (\<And>x u. P u \<Longrightarrow> Q (snd (f x u))) \<Longrightarrow> Q (snd (bindR m f s))"
  by (fastforce simp: preserves_def bindR_def split: prod.splits sum.splits dest: spec [of _ s])

section \<open>Rounds\<close>

definition reviews_ok :: "world \<Rightarrow> bool" where
  "reviews_ok w \<longleftrightarrow>
     (\<forall>k < length (gs_review_rounds w). rnd_round (gs_review_rounds w ! k) = Suc k) \<and>
     length (gs_review_rounds w) \<le> rvp_max_review_rounds (gsp_review_policy (gs_goal w))"

abbreviation review_view :: "world \<Rightarrow> review_round list \<times> nat" where
  "review_view w \<equiv> (gs_review_rounds w, rvp_max_review_rounds (gsp_review_policy (gs_goal w)))"

named_theorems review_rules "operations that keep the review rounds in order"

lemma reviews_ok_view:
  assumes "\<And>v. preserves (\<lambda>w. review_view w = v) m"
  shows "preserves reviews_ok m"
proof -
  have "preserves (\<lambda>w. (\<lambda>(rs, n). (\<forall>k < length rs. rnd_round (rs ! k) = Suc k) \<and> length rs \<le> n) (review_view w)) m"
    by (rule frame_predicate) (rule assms)
  then show ?thesis by (simp add: preserves_def reviews_ok_def)
qed

lemma reviews_frames [review_rules]:
  "preserves reviews_ok (push_event m)" "preserves reviews_ok refresh_goal_status"
  "preserves reviews_ok (insert_child_task p t q)" "preserves reviews_ok get_root"
  "preserves reviews_ok (set_task_status i st)" "preserves reviews_ok (task_mut i)"
  "preserves reviews_ok (record_learning_signal r purpose)" "preserves reviews_ok (update (keep_artifacts r))"
  "preserves reviews_ok (update_group k f)"
  by (rule reviews_ok_view, (simp add: record_learning_signal_def update_group_def)?,
      (intro control_rules frame_rules frame_update; simp add: keep_artifacts_def))+

lemma reviews_record_vote [review_rules]: "preserves reviews_ok (record_branch_vote i v)"
  unfolding record_branch_vote_def put_vote_def
  by (intro preserves_bindR preserves_lift_result review_rules) (rule reviews_ok_view, rule frame_update, simp)

lemma reviews_try_auto_select [review_rules]: "preserves reviews_ok try_auto_select_branch_groups"
  unfolding try_auto_select_branch_groups_def try_select_group_def by (intro preserves_rules review_rules)

lemma reviews_update_round [review_rules]:
  assumes "\<And>r. rnd_round (f r) = rnd_round r"
  shows "preserves reviews_ok (update_round k f)"
  unfolding update_round_def
proof (rule preserves_update)
  fix w assume ok: "reviews_ok w"
  have "rnd_round ((rs[k := f (rs ! k)]) ! j) = rnd_round (rs ! j)" for rs j
    by (cases "k = j"; cases "j < length rs") (simp_all add: assms list_update_beyond)
  with ok show "reviews_ok (w (| gs_review_rounds := (gs_review_rounds w)[k := f (gs_review_rounds w ! k)] |))"
    by (simp add: reviews_ok_def)
qed

lemma reviews_close [review_rules]: "preserves reviews_ok (update (close_unified r purpose))"
  by (rule preserves_update)
     (auto simp: close_unified_def close_round_def reviews_ok_def split: task_purpose.splits)

lemma reviews_apply_validation [review_rules]: "preserves reviews_ok (apply_validation r)"
  unfolding apply_validation_def by (intro preserves_rules review_rules)

lemma reviews_unify_round [review_rules]: "preserves reviews_ok (unify_round policy k)"
  unfolding unify_round_def Let_def by (intro preserves_rules review_rules) simp_all

text \<open>A round may be opened when its number is the next one and within the bound.\<close>

lemma reviews_spawn:
  assumes ok: "reviews_ok w" and next_round: "n = Suc (length (gs_review_rounds w))"
    and bound: "n \<le> rvp_max_review_rounds (gsp_review_policy (gs_goal w))"
  shows "reviews_ok (snd (spawn_review_round policy n subjects w))"
proof -
  let ?same = "\<lambda>v. review_view v = review_view w"
  have push: "reviews_ok (snd (bindR (push_round r) (\<lambda>_. bindR (push_event m) (\<lambda>_.
      bindR refresh_goal_status (\<lambda>_. ok True))) v))" if v: "?same v" and r: "rnd_round r = n" for v r m
  proof -
    have "reviews_ok (v (| gs_review_rounds := gs_review_rounds v @ [r] |))"
      using ok next_round bound v r by (auto simp: reviews_ok_def nth_append less_Suc_eq)
    then have "reviews_ok (snd (bindR (push_event m) (\<lambda>_. bindR refresh_goal_status (\<lambda>_. ok True))
        (v (| gs_review_rounds := gs_review_rounds v @ [r] |))))"
      by (rule preservesD [rotated]) (intro preserves_rules review_rules)
    then show ?thesis by (simp add: push_round_def)
  qed
  have same: "reviews_ok v" if "?same v" for v using ok that by (simp add: reviews_ok_def)
  show ?thesis
    unfolding spawn_review_round_def
    by (rule bindR_establish [where P = ?same], rule refl, rule frame_get_root, erule same, unfold run_reads Let_def,
        rule bindR_establish [where P = ?same], assumption, rule preserves_lift_result, erule same,
        rule bindR_establish [where P = ?same], assumption, rule preserves_for_each, rule frame_insert_child_task,
        simp, simp, erule same, rule push, assumption, simp)
qed

lemma reviews_next_round [review_rules]: "preserves reviews_ok (maybe_spawn_next_review_round policy subjects)"
proof (rule preservesI)
  fix w assume ok: "reviews_ok w"
  let ?rounds = "gs_review_rounds w"
  show "reviews_ok (snd (maybe_spawn_next_review_round policy subjects w))"
  proof (cases "?rounds = [] \<or> rvp_max_review_rounds (gsp_review_policy (gs_goal w)) \<le> rnd_round (last ?rounds)")
    case True
    with ok show ?thesis by (auto simp: maybe_spawn_next_review_round_def Let_def)
  next
    case False
    then have "rnd_round (last ?rounds) = length ?rounds"
      using ok by (simp add: reviews_ok_def last_conv_nth)
    with False ok reviews_spawn [OF ok, of "rnd_round (last ?rounds) + 1"] show ?thesis
      by (auto simp: maybe_spawn_next_review_round_def Let_def)
  qed
qed

lemma reviews_actor_retry [review_rules]: "preserves reviews_ok (maybe_spawn_actor_retry policy)"
  unfolding maybe_spawn_actor_retry_def Let_def by (intro preserves_rules review_rules)

lemma reviews_frontier [review_rules]: "preserves reviews_ok (ensure_review_frontier policy)"
proof (rule preservesI)
  fix w assume ok: "reviews_ok w"
  let ?idle = "\<not> rvp_enabled (gsp_review_policy (gs_goal w)) \<or> some_task TS_Failed w \<or> some_task TS_Blocked w \<or> \<not> all_work_done w"
  let ?first = "gs_review_rounds w = [] \<and> rvp_max_review_rounds (gsp_review_policy (gs_goal w)) > 0"
  have "preserves reviews_ok (bindR refresh_goal_status (\<lambda>_. ok False))" "preserves reviews_ok
      (bindR (for_each (ready_rounds w) (unify_round policy)) (\<lambda>flags.
         bindR (if True \<in> set flags then ok True
                else maybe_spawn_next_review_round policy (work_subjects w)) (\<lambda>spawned.
         bindR (if spawned then ok True else maybe_spawn_actor_retry policy) (\<lambda>spawned.
         bindR refresh_goal_status (\<lambda>_. ok spawned)))))"
    by (intro preserves_rules review_rules)+
  note rest = this [THEN preservesD, OF ok]
  consider ?idle | "\<not> ?idle" ?first | "\<not> ?idle" "\<not> ?first" by blast
  then show "reviews_ok (snd (ensure_review_frontier policy w))"
  proof cases
    case 1
    then show ?thesis using rest(1) unfolding ensure_review_frontier_def run_reads by simp
  next
    case 2
    then have "reviews_ok (snd (spawn_review_round policy 1 (work_subjects w) w))"
      by (intro reviews_spawn [OF ok]) simp_all
    with 2 show ?thesis by (simp add: ensure_review_frontier_def)
  next
    case 3
    then show ?thesis using rest(2) unfolding ensure_review_frontier_def run_reads by auto
  qed
qed

section \<open>Actor retries\<close>

definition retries_ok :: "world \<Rightarrow> bool" where
  "retries_ok w \<longleftrightarrow> actor_retry_count w \<le> ac_max_actor_retries (rvp_actor_critic (gsp_review_policy (gs_goal w)))"

text \<open>What a new child adds to the count.\<close>

lemma mset_values_insert:
  "k \<notin> fst ` set m \<Longrightarrow> mset (bt_values (bt_insert k v m)) = add_mset v (mset (bt_values m))"
  by (induction k v m rule: bt_insert.induct) (auto simp: bt_values_def)

lemma purposes_adjust:
  "(\<And>t. tn_purpose (f t) = tn_purpose t) \<Longrightarrow> map tn_purpose (bt_values (bt_adjust k f m)) = map tn_purpose (bt_values m)"
  by (simp add: bt_values_def bt_adjust_def)

lemma retries_insert_child:
  assumes run: "insert_child_task p snap q w = (Inr c, v)" and wf: "wf_world w"
  shows "actor_retry_count v = actor_retry_count w + (case ctr_purpose q of Some (TP_ActorRetry _ _) \<Rightarrow> 1 | _ \<Rightarrow> 0)"
proof -
  let ?t = "materialize_child_task w c p snap q" and ?m = "bt_adjust p (push_child c) (gs_tasks w)"
  have c: "bt_get (gs_tasks w) c = None" and tasks: "gs_tasks v = bt_insert c ?t ?m"
    using insert_child_Inr [OF run wf] by auto
  have "bt_get ?m c = None" using c by (auto simp: get_adjust)
  then have "c \<notin> fst ` set ?m" by (simp add: get_None_keys)
  then have "mset (tasks_of v) = add_mset ?t (mset (bt_values ?m))"
    by (simp add: tasks_of_def tasks mset_values_insert)
  then have "mset (map tn_purpose (tasks_of v)) = add_mset (tn_purpose ?t) (mset (map tn_purpose (bt_values ?m)))"
    by (simp add: mset_map)
  also have "map tn_purpose (bt_values ?m) = map tn_purpose (tasks_of w)"
    by (simp add: purposes_adjust push_child_def tasks_of_def)
  finally have "size (filter_mset is_actor_retry (mset (map tn_purpose (tasks_of v)))) =
      size (filter_mset is_actor_retry (add_mset (tn_purpose ?t) (mset (map tn_purpose (tasks_of w)))))"
    by (simp only:)
  moreover have "size (filter_mset is_actor_retry (mset (map tn_purpose ts))) =
      length (filter (\<lambda>t. is_actor_retry (tn_purpose t)) ts)" for ts :: "task_node list"
    by (simp add: filter_mset_image_mset comp_def flip: mset_filter mset_map)
  moreover have "tn_purpose ?t = (case ctr_purpose q of Some u \<Rightarrow> u | None \<Rightarrow> TP_Work)"
    by (simp add: materialize_child_task_def)
  ultimately show ?thesis
    by (auto simp: actor_retry_count_def split: option.splits task_purpose.splits)
qed

named_theorems retry_rules "operations that keep the bound on actor retries"

text \<open>
  Together with the tree, because the count of a new child rests on its identifier being
  fresh; \<open>knows\<close> holds the snapshots of the parents.
\<close>

definition retries_in :: "task_node set \<Rightarrow> world \<Rightarrow> bool" where
  "retries_in T w \<longleftrightarrow> knows T w \<and> retries_ok w"

lemma retries_view:
  assumes "preserves (knows T) m"
    and "\<And>v. preserves (\<lambda>w. (gs_tasks w, ac_max_actor_retries (rvp_actor_critic (gsp_review_policy (gs_goal w)))) = v) m"
  shows "preserves (retries_in T) m"
proof -
  have "preserves (\<lambda>w. (\<lambda>(ts, n). length (filter (\<lambda>t. is_actor_retry (tn_purpose t)) (bt_values ts)) \<le> n)
      (gs_tasks w, ac_max_actor_retries (rvp_actor_critic (gsp_review_policy (gs_goal w))))) m"
    by (rule frame_predicate) (rule assms(2))
  with assms(1) show ?thesis
    by (simp add: preserves_def retries_in_def retries_ok_def actor_retry_count_def tasks_of_def)
qed

lemma retries_frames [retry_rules]:
  "preserves (retries_in T) (push_event m)" "preserves (retries_in T) refresh_goal_status"
  "preserves (retries_in T) (push_round r)" "preserves (retries_in T) (update_round k f)"
  by (rule retries_view, intro preserves_rules, (simp add: push_round_def update_round_def)?,
      (intro control_rules frame_rules frame_update; simp))+

lemma retries_insert [retry_rules]:
  assumes "snap \<in> T" and "tn_id snap = p" and "\<And>i n. ctr_purpose q \<noteq> Some (TP_ActorRetry i n)"
  shows "preserves (retries_in T) (insert_child_task p snap q)"
proof (rule preservesI)
  fix w assume w: "retries_in T w"
  obtain res v where run: "insert_child_task p snap q w = (res, v)" by fastforce
  have k: "knows T v" using knows_insert_child_task [OF _ assms(1,2)] w run by (metis retries_in_def snd_conv)
  have "retries_ok v"
  proof (cases res)
    case (Inl e)
    with run have "gs_tasks v = gs_tasks w" "gs_goal v = gs_goal w"
      by (auto simp: run_insert_child_task Let_def split: option.splits)
    with w show ?thesis by (simp add: retries_in_def retries_ok_def actor_retry_count_def tasks_of_def)
  next
    case (Inr c)
    have wf: "wf_world w" using w knows_wf by (auto simp: retries_in_def)
    have "(case ctr_purpose q of Some (TP_ActorRetry _ _) \<Rightarrow> 1 | _ \<Rightarrow> 0) = (0 :: nat)"
      using assms(3) by (auto split: option.split task_purpose.split)
    with retries_insert_child [OF run [unfolded Inr] wf] insert_child_Inr [OF run [unfolded Inr] wf] w
    show ?thesis by (simp add: retries_in_def retries_ok_def)
  qed
  with k run show "retries_in T (snd (insert_child_task p snap q w))" by (simp add: retries_in_def)
qed

lemma retries_root [retry_rules]:
  assumes "\<And>t. preserves (retries_in (insert t T)) (f t)"
  shows "preserves (retries_in T) (bindR get_root f)"
proof (rule preservesI)
  fix w assume w: "retries_in T w"
  show "retries_in T (snd (bindR get_root f w))"
  proof (cases "root_task w")
    case (Inl e)
    with w show ?thesis by (simp add: bindR_def)
  next
    case (Inr t)
    with w have "retries_in (insert t T) w"
      using root_task_Inr [OF Inr] wf_world_values by (auto simp: retries_in_def knows_insert dest: knows_wf)
    with assms have "retries_in (insert t T) (snd (f t w))" by (rule preservesD)
    with Inr show ?thesis by (simp add: bindR_def retries_in_def knows_insert)
  qed
qed

lemma retries_spawn [retry_rules]: "preserves (retries_in T) (spawn_review_round policy n subjects)"
  unfolding spawn_review_round_def Let_def
  by (intro retry_rules preserves_rules) (auto simp: review_request_def)

lemma retries_unify [retry_rules]: "preserves (retries_in T) (unify_round policy k)"
  unfolding unify_round_def Let_def
  by (intro retry_rules preserves_rules) (auto simp: round_unifier_request_def)

lemma retries_next_round [retry_rules]: "preserves (retries_in T) (maybe_spawn_next_review_round policy subjects)"
  unfolding maybe_spawn_next_review_round_def Let_def by (intro preserves_rules retry_rules)

lemma retries_actor_retry [retry_rules]: "preserves (retries_in T) (maybe_spawn_actor_retry policy)"
proof (rule preservesI)
  fix w assume w: "retries_in T w"
  let ?p = "gsp_review_policy (gs_goal w)"
  have room: "retries_in T (snd (bindR (insert_child_task (tn_id root) root q) (\<lambda>i. bindR (push_event (m i)) (\<lambda>_. ok True)) w))"
    if root: "root_task w = Inr root" and less: "actor_retry_count w < ac_max_actor_retries (rvp_actor_critic ?p)"
    for root q and m :: "uuid \<Rightarrow> string"
  proof -
    obtain res v where run: "insert_child_task (tn_id root) root q w = (res, v)" by fastforce
    have wf: "wf_world w" and k: "knows T w" using w knows_wf by (auto simp: retries_in_def)
    have "knows (insert root T) w"
      using k root_task_Inr [OF root] wf_world_values [OF wf] by (simp add: knows_insert)
    from knows_insert_child_task [OF this insertI1 refl, of q] run have kv: "knows T v" by (simp add: knows_insert)
    have "retries_ok v"
    proof (cases res)
      case (Inl e)
      with run have "gs_tasks v = gs_tasks w" "gs_goal v = gs_goal w"
        by (auto simp: run_insert_child_task Let_def split: option.splits)
      with w show ?thesis by (simp add: retries_in_def retries_ok_def actor_retry_count_def tasks_of_def)
    next
      case (Inr c)
      have "actor_retry_count v \<le> Suc (actor_retry_count w)"
        using retries_insert_child [OF run [unfolded Inr] wf] by (auto split: option.splits task_purpose.splits)
      with less insert_child_Inr [OF run [unfolded Inr] wf] show ?thesis by (simp add: retries_ok_def)
    qed
    with kv have v: "retries_in T v" by (simp add: retries_in_def)
    have "preserves (retries_in T) (bindR (push_event (m i)) (\<lambda>_. ok True))" for i
      by (intro retry_rules preserves_rules)
    from preservesD [OF this v] v run show ?thesis by (cases res) (simp_all add: bindR_def)
  qed
  then show "retries_in T (snd (maybe_spawn_actor_retry policy w))"
    using w by (auto simp: maybe_spawn_actor_retry_def Let_def bindR_def root_task_def split: option.split sum.split)
qed

lemma retries_frontier: "preserves (retries_in T) (ensure_review_frontier policy)"
  unfolding ensure_review_frontier_def by (intro preserves_rules retry_rules)



section \<open>Opening a review round\<close>

text \<open>
  Finished work is reviewed, and its reviewers can start.  When all work is Done, nothing
  has failed or is blocked, and no round exists, a successful turn of the review frontier
  opens round one over all work tasks, with \<open>min_reviews\<close> reviewers, at least one; each
  reviewer is a new task of that round below the root and is in the ready queue.
\<close>
theorem finished_work_is_reviewed:
  assumes run: "ensure_review_frontier policy w = (Inr spawned, v)" and wf: "wf_world w"
    and "rvp_enabled (gsp_review_policy (gs_goal w))" "0 < rvp_max_review_rounds (gsp_review_policy (gs_goal w))"
    and "\<not> some_task TS_Failed w" "\<not> some_task TS_Blocked w" "all_work_done w" "gs_review_rounds w = []"
  shows "spawned \<and> (\<exists>r. gs_review_rounds v = [r] \<and> rnd_round r = 1 \<and> rnd_subject_task_ids r = work_subjects w \<and>
    length (rnd_reviewer_task_ids r) = max (rvp_min_reviews (gsp_review_policy (gs_goal w))) 1 \<and>
    distinct (rnd_reviewer_task_ids r) \<and>
    (\<forall>i \<in> set (rnd_reviewer_task_ids r). bt_get (gs_tasks w) i = None \<and>
       (\<exists>t \<in> set (runnable_tasks v). tn_id t = i \<and> bt_get (gs_tasks v) i = Some t \<and>
          tn_dependencies t = work_subjects w \<and> (\<exists>s. tn_purpose t = TP_Review s 1))))"
proof -
  let ?p = "gsp_review_policy (gs_goal w)"
  let ?roles = "if rvp_reviewer_roles ?p = [] then [ac_critic_role (rvp_actor_critic ?p)] else rvp_reviewer_roles ?p"
  let ?qs = "map (review_request (gs_goal w) 1 (work_subjects w) ?roles) [0..<max (rvp_min_reviews ?p) 1]"
  let ?round = "\<lambda>cs. (| rnd_round = 1, rnd_subject_task_ids = work_subjects w,
     rnd_reviewer_task_ids = cs, rnd_unification_task_id = None, rnd_status = RRS_ReviewsSpawned |)"
  have "spawn_review_round policy 1 (work_subjects w) w = (Inr spawned, v)"
    using run assms(3-8) by (simp add: ensure_review_frontier_def)
  then obtain root where root: "root_task w = Inr root"
    and 1: "bindR (for_each ?qs (insert_child_task (tn_id root) root)) (\<lambda>reviewers.
          bindR (push_round (?round reviewers)) (\<lambda>_.
          bindR (push_event (''review_round_spawned:'' @ dec 1 @ '':'' @ dec (length reviewers))) (\<lambda>_.
          bindR refresh_goal_status (\<lambda>_. ok True)))) w = (Inr spawned, v)"
    unfolding spawn_review_round_def Let_def
    by (elim bindR_InrE) (auto split: sum.splits elim!: bindR_InrE)
  from 1 obtain cs u where ins: "for_each ?qs (insert_child_task (tn_id root) root) w = (Inr cs, u)"
    and 2: "bindR (push_round (?round cs)) (\<lambda>_.
          bindR (push_event (''review_round_spawned:'' @ dec 1 @ '':'' @ dec (length cs))) (\<lambda>_.
          bindR refresh_goal_status (\<lambda>_. ok True))) u = (Inr spawned, v)"
    by (rule bindR_InrE)
  have v: "spawned" "gs_tasks v = gs_tasks u" "gs_review_rounds v = gs_review_rounds u @ [?round cs]"
    using 2 by (auto simp: push_round_def bind_rules)
  have "preserves (\<lambda>w. gs_review_rounds w = y) (for_each ?qs (insert_child_task (tn_id root) root))" for y
    by (intro control_rules frame_rules) simp_all
  from frame_run [OF this ins] assms(8) have rounds: "gs_review_rounds v = [?round cs]" using v(3) by simp
  have r: "bt_get (gs_tasks w) (tn_id root) = Some root"
    using root_task_Inr [OF root] wf_world_values [OF wf] by blast
  then have "knows {root} w" using wf by (simp add: knows_def)
  note all = for_each_insert_children [OF ins this insertI1 refl]
  note ids = all [THEN conjunct1] and all' = all [THEN conjunct2, THEN conjunct2, THEN conjunct2]
  note new = all' [THEN conjunct1, rule_format]
    and old = all' [THEN conjunct2, THEN conjunct1, rule_format] and parent = all' [THEN conjunct2, THEN conjunct2]
  have cs: "length cs = max (rvp_min_reviews ?p) 1" "distinct cs"
    using for_each_length [OF ins] distinct_drawn_ids wf unfolding ids
    by (simp_all add: wf_world_def fresh_uuids_def)
  have reviewer: "bt_get (gs_tasks w) i = None \<and> (\<exists>t \<in> set (runnable_tasks v). tn_id t = i \<and>
      bt_get (gs_tasks v) i = Some t \<and> tn_dependencies t = work_subjects w \<and> (\<exists>s. tn_purpose t = TP_Review s 1))"
    if i: "i \<in> set cs" for i
  proof -
    obtain k where k: "i = cs ! k" "k < length cs" using i by (auto simp: in_set_conv_nth)
    let ?t = "materialize_child_task w i (tn_id root) root (?qs ! k)"
    have kq: "k < length ?qs" using k for_each_length [OF ins] by simp
    then have t: "bt_get (gs_tasks v) i = Some ?t" "bt_get (gs_tasks w) i = None"
      using new [OF kq] unfolding k(1) v(2) by blast+
    have "?qs ! k = review_request (gs_goal w) 1 (work_subjects w) ?roles k" using kq by simp
    then have f: "tn_id ?t = i" "tn_status ?t = TS_Runnable" "tn_dependencies ?t = work_subjects w"
      "tn_purpose ?t = TP_Review (work_subjects w ! 0) 1"
      by (simp_all add: materialize_child_task_def review_request_def)
    have "\<exists>d. bt_get (gs_tasks v) j = Some d \<and> is_terminal_ok (tn_status d)" if j: "j \<in> set (work_subjects w)" for j
    proof -
      obtain d where d: "bt_get (gs_tasks w) j = Some d" "is_terminal_ok (tn_status d)"
        using j wf_world_values [OF wf] by (auto simp: work_subjects_def tasks_of_def)
      have "j \<notin> set cs"
      proof
        assume "j \<in> set cs"
        then obtain m where m: "j = cs ! m" "m < length ?qs" using for_each_length [OF ins] by (auto simp: in_set_conv_nth)
        with new [OF m(2)] d(1) show False by simp
      qed
      with old d r parent v(2) show ?thesis by (cases "j = tn_id root") auto
    qed
    then have "dependencies_done v ?t" using f by (fastforce simp: dependencies_done_def)
    then have "?t \<in> set (runnable_tasks v)"
      using get_Some_values [OF t(1)] f by (simp add: set_runnable_tasks)
    with t f show ?thesis by blast
  qed
  show ?thesis using v(1) rounds cs reviewer by simp
qed

theorem finished_work_is_reviewed_witness:
  "\<exists>v. ensure_review_frontier spawn_policy_default (world_of sample_goal [sample_task ''a'' TS_Done]) = (Inr True, v) \<and>
     length (gs_review_rounds v) = 1"
proof -
  let ?w = "world_of sample_goal [sample_task ''a'' TS_Done]"
  have root: "root_task ?w = Inr (sample_task ''a'' TS_Done)" by (simp add: root_task_def)
  have policy: "rvp_enabled (gsp_review_policy (gs_goal ?w))" "0 < rvp_max_review_rounds (gsp_review_policy (gs_goal ?w))"
    and idle: "\<not> some_task TS_Failed ?w" "\<not> some_task TS_Blocked ?w" "all_work_done ?w" "gs_review_rounds ?w = []"
    by (simp_all add: review_policy_default_def some_task_def tasks_of_def all_work_done_def work_subjects_def)
  have spawn: "ensure_spawn_allowed spawn_policy_default (sample_task ''a'' TS_Done) [q] = Inr ()" for q
    by (simp add: ensure_spawn_allowed_def spawn_policy_default_def default_goal_def)
  obtain c u where "insert_child_task ''a'' (sample_task ''a'' TS_Done)
      (review_request sample_goal 1 (work_subjects ?w) [WK_Reviewer] 0) ?w = (Inr c, u)"
    by (simp add: run_insert_child_task Let_def)
  then obtain v where run: "ensure_review_frontier spawn_policy_default ?w = (Inr True, v)"
    using policy idle spawn
    by (simp add: ensure_review_frontier_def spawn_review_round_def Let_def root bindR_def review_policy_default_def
        push_round_def run_rules update_def)
  have "wf_world ?w" by (rule wf_world_of_one) simp_all
  from finished_work_is_reviewed [OF run this policy idle] run show ?thesis by fastforce
qed

section \<open>Validation\<close>

lemma frame_close_unified:
  assumes "\<And>w x. g (w (| gs_review_rounds := x |)) = g w" and "\<And>w x. g (w (| gs_branch_groups := x |)) = g w"
  shows "preserves (\<lambda>w. g w = v) (update (close_unified r p))"
  by (rule frame_update) (simp add: close_unified_def assms split: task_purpose.split)

lemma frame_try_auto_select:
  assumes "\<And>w x. g (w (| gs_branch_groups := x |)) = g w" and "\<And>w x. g (w (| gs_events := x |)) = g w"
  shows "preserves (\<lambda>w. g w = v) try_auto_select_branch_groups"
  unfolding try_auto_select_branch_groups_def try_select_group_def update_group_def
  by (intro control_rules frame_rules frame_update) (simp_all add: assms)

lemma frame_record_branch_vote:
  assumes "\<And>w x. g (w (| gs_branch_votes := x |)) = g w" and "\<And>w x. g (w (| gs_events := x |)) = g w"
  shows "preserves (\<lambda>w. g w = v) (record_branch_vote i x)"
  unfolding record_branch_vote_def put_vote_def
  by (intro control_rules frame_rules frame_update) (simp_all add: assms)

lemma bind_task_mut:
  "bindR (task_mut i) f w = (case bt_get (gs_tasks w) i of None \<Rightarrow> (Inl (DE_TaskNotFound i), w) | Some t \<Rightarrow> f t w)"
  by (simp add: bindR_def task_def split: option.split)

abbreviation validated_view where
  "validated_view w \<equiv> (gs_tasks w, gs_final_artifacts w, gs_learning_signals w)"

text \<open>
  A validation settles its task once.  When \<open>apply_validation\<close> succeeds, the goal was
  open and the task was open; the task gets the status of the report and no other task
  changes; the artifacts are kept exactly when the report passed; one learning signal with
  the score of the report is recorded.  When that status closes the task, every further
  report on it is refused and changes nothing.
\<close>
theorem validation_settles_its_task_once:
  assumes run: "apply_validation report w = (Inr (), v)"
  shows "\<not> goal_terminal w \<and> vr_goal_id report = gsp_id (gs_goal w) \<and>
    (\<exists>t. bt_get (gs_tasks w) (vr_task_id report) = Some t \<and> \<not> is_terminal (tn_status t) \<and>
       bt_get (gs_tasks v) (vr_task_id report) = Some (t (| tn_status := vr_status_after_validation report |))) \<and>
    (\<forall>i. i \<noteq> vr_task_id report \<longrightarrow> bt_get (gs_tasks v) i = bt_get (gs_tasks w) i) \<and>
    gs_final_artifacts v = gs_final_artifacts w @ (if vr_passed report then vr_artifacts report else []) \<and>
    (\<exists>s. gs_learning_signals v = gs_learning_signals w @ [s] \<and> ls_task_id s = vr_task_id report \<and>
       ls_reward s = vr_score report) \<and>
    (is_terminal (vr_status_after_validation report) \<longrightarrow>
       (\<forall>r'. vr_task_id r' = vr_task_id report \<longrightarrow> (\<exists>e. apply_validation r' v = (Inl e, v))))"
proof -
  let ?i = "vr_task_id report" and ?st = "vr_status_after_validation report"
  have live: "\<not> goal_terminal w"
    using run by (auto simp: apply_validation_def split: sum.splits)
  have goal: "vr_goal_id report = gsp_id (gs_goal w)"
    using run live by (auto simp: apply_validation_def split: if_splits)
  obtain t where t: "bt_get (gs_tasks w) ?i = Some t" "\<not> is_terminal (tn_status t)"
    and rest: "bindR (case vr_branch_vote report of None \<Rightarrow> ok () | Some v \<Rightarrow> record_branch_vote ?i v) (\<lambda>_.
         bindR (set_task_status ?i ?st) (\<lambda>_.
         bindR (update (keep_artifacts report)) (\<lambda>_.
         bindR (update (close_unified report (tn_purpose t))) (\<lambda>_.
         bindR (record_learning_signal report (tn_purpose t)) (\<lambda>_.
         bindR try_auto_select_branch_groups (\<lambda>_.
         bindR refresh_goal_status (\<lambda>_.
         push_event (''validated:'' @ ?i)))))))) w = (Inr (), v)"
  proof -
    have "(case bt_get (gs_tasks w) ?i of None \<Rightarrow> (Inl (DE_TaskNotFound ?i), w)
      | Some t \<Rightarrow> bindR (lift_result (\<lambda>_. ensure_task_snapshot_accepts_mutation t ''apply validation report'')) (\<lambda>_.
         bindR (case vr_branch_vote report of None \<Rightarrow> ok () | Some v \<Rightarrow> record_branch_vote ?i v) (\<lambda>_.
         bindR (set_task_status ?i ?st) (\<lambda>_.
         bindR (update (keep_artifacts report)) (\<lambda>_.
         bindR (update (close_unified report (tn_purpose t))) (\<lambda>_.
         bindR (record_learning_signal report (tn_purpose t)) (\<lambda>_.
         bindR try_auto_select_branch_groups (\<lambda>_.
         bindR refresh_goal_status (\<lambda>_.
         push_event (''validated:'' @ ?i))))))))) w) = (Inr (), v)"
      using run live goal unfolding apply_validation_def
      by (cases "case vr_branch_vote report of None \<Rightarrow> Inr () | Some v \<Rightarrow> validate_branch_vote ?i v w"; cases "bt_get (gs_tasks w) ?i")
         (simp_all add: bind_task_mut)
    then show thesis
      using that by (auto simp: ensure_task_snapshot_accepts_mutation_def split: option.splits if_splits)
  qed
  from rest obtain y w1 where vote: "(case vr_branch_vote report of None \<Rightarrow> ok () | Some v \<Rightarrow> record_branch_vote ?i v) w = (Inr y, w1)"
    and 1: "bindR (set_task_status ?i ?st) (\<lambda>_.
         bindR (update (keep_artifacts report)) (\<lambda>_.
         bindR (update (close_unified report (tn_purpose t))) (\<lambda>_.
         bindR (record_learning_signal report (tn_purpose t)) (\<lambda>_.
         bindR try_auto_select_branch_groups (\<lambda>_.
         bindR refresh_goal_status (\<lambda>_.
         push_event (''validated:'' @ ?i))))))) w1 = (Inr (), v)"
    by (rule bindR_InrE)
  have "preserves (\<lambda>w. validated_view w = x)
      (case vr_branch_vote report of None \<Rightarrow> ok () | Some v \<Rightarrow> record_branch_vote ?i v)" for x
    by (intro control_rules frame_record_branch_vote) simp_all
  from frame_run [OF this vote] have w1: "gs_tasks w1 = gs_tasks w" "gs_final_artifacts w1 = gs_final_artifacts w"
    "gs_learning_signals w1 = gs_learning_signals w" by simp_all
  let ?w2 = "keep_artifacts report (w1 (| gs_tasks := bt_adjust ?i (\<lambda>t. t (| tn_status := ?st |)) (gs_tasks w) |))"
  let ?signal = "(| ls_task_id = ?i, ls_source = signal_source (tn_purpose t), ls_reward = vr_score report,
     ls_decision = map_option rv_decision (vr_review report),
     ls_findings_count = (case vr_review report of Some r \<Rightarrow> length (rv_findings r) | None \<Rightarrow> 0),
     ls_notes = vr_reasons report |)"
  have 2: "bindR (update (close_unified report (tn_purpose t))) (\<lambda>_.
         bindR (record_learning_signal report (tn_purpose t)) (\<lambda>_.
         bindR try_auto_select_branch_groups (\<lambda>_.
         bindR refresh_goal_status (\<lambda>_.
         push_event (''validated:'' @ ?i))))) ?w2 = (Inr (), v)"
    using 1 t(1) w1(1) by (simp add: bind_set_task_status)
  have "preserves (\<lambda>w. (gs_tasks w, gs_final_artifacts w) = x)
       (bindR (update (close_unified report (tn_purpose t))) (\<lambda>_.
         bindR (record_learning_signal report (tn_purpose t)) (\<lambda>_.
         bindR try_auto_select_branch_groups (\<lambda>_.
         bindR refresh_goal_status (\<lambda>_.
         push_event (''validated:'' @ ?i))))))" for x
    unfolding record_learning_signal_def
    by (intro control_rules frame_close_unified frame_try_auto_select frame_rules frame_update) simp_all
  from frame_run [OF this 2] have v: "gs_tasks v = bt_adjust ?i (\<lambda>t. t (| tn_status := ?st |)) (gs_tasks w)"
    "gs_final_artifacts v = gs_final_artifacts w @ (if vr_passed report then vr_artifacts report else [])"
    using w1 by (simp_all add: keep_artifacts_def)
  have signals: "gs_learning_signals v = gs_learning_signals w @ [?signal]"
  proof -
    have closed: "gs_learning_signals (close_unified report p x) = gs_learning_signals x" for p x
      by (simp add: close_unified_def split: task_purpose.split)
    have "preserves (\<lambda>w. gs_learning_signals w = x) (bindR try_auto_select_branch_groups (\<lambda>_.
         bindR refresh_goal_status (\<lambda>_. push_event (''validated:'' @ ?i))))" for x
      by (intro control_rules frame_try_auto_select frame_rules) simp_all
    from frame_run [OF this] 2 have "gs_learning_signals v =
        gs_learning_signals (close_unified report (tn_purpose t) ?w2) @ [?signal]"
      by (simp add: record_learning_signal_def)
    then show ?thesis using w1(3) by (simp add: closed keep_artifacts_def)
  qed
  have again: "\<exists>e. apply_validation r' v = (Inl e, v)" if "is_terminal ?st" "vr_task_id r' = ?i" for r'
  proof -
    have "bt_get (gs_tasks v) ?i = Some (t (| tn_status := ?st |))" using t(1) by (simp add: v(1) get_adjust)
    with that show ?thesis
      by (auto simp: apply_validation_def bind_task_mut ensure_task_snapshot_accepts_mutation_def split: sum.split)
  qed
  show ?thesis
    using live goal t again signals by (auto simp: v get_adjust)
qed

definition sample_report :: validation_report where
  "sample_report = (| vr_goal_id = ''g'', vr_task_id = ''a'', vr_passed = True, vr_score = f32_1, vr_review = None,
     vr_research = None, vr_branch_vote = None, vr_sandbox_attestation = None,
     vr_status_after_validation = TS_Done, vr_reasons = [], vr_missing_criteria = [], vr_child_requests = [],
     vr_artifacts = [], vr_git_result = None, vr_object_artifacts = [], vr_checkpoints = [], vr_test_evidence = [] |)"

theorem validation_settles_its_task_once_witness:
  "\<exists>v e. apply_validation sample_report (world_of sample_goal [sample_task ''a'' TS_Running]) = (Inr (), v) \<and>
     apply_validation sample_report v = (Inl e, v)"
proof -
  let ?w = "world_of sample_goal [sample_task ''a'' TS_Running]"
  obtain v where run: "apply_validation sample_report ?w = (Inr (), v)"
    by (simp add: apply_validation_def sample_report_def goal_terminal_def bind_task_mut
        ensure_task_snapshot_accepts_mutation_def bind_set_task_status record_learning_signal_def
        try_auto_select_branch_groups_def keep_artifacts_def close_unified_def bind_rules run_push_event
        is_terminal_def)
  have "is_terminal (vr_status_after_validation sample_report)" by (simp add: sample_report_def)
  with validation_settles_its_task_once [OF run] run show ?thesis by blast
qed

end
