(* ===== verification/Rust_Int.thy ===== *)
theory Rust_Int
  imports Prelude
begin

text \<open>
  Rust's signed machine integers as \<open>int\<close> with the wrap-around of a release build written
  out: \<open>wrap_i32\<close> and \<open>wrap_i64\<close> are the results of \<open>+\<close>, \<open>-\<close> and \<open>as\<close> at those widths.
  The lemmas give the exact value when nothing overflows.  \<open>sat_add\<close> and \<open>sat_mul\<close> are
  \<open>saturating_add\<close> and \<open>saturating_mul\<close> on \<open>u32\<close>.
\<close>

definition wrap_i32 :: "int \<Rightarrow> int" where
  "wrap_i32 x = signed_take_bit 31 x"

definition wrap_i64 :: "int \<Rightarrow> int" where
  "wrap_i64 x = signed_take_bit 63 x"

definition fits_i32 :: "int \<Rightarrow> bool" where
  "fits_i32 x \<longleftrightarrow> - (2 ^ 31) \<le> x \<and> x < 2 ^ 31"

definition fits_i64 :: "int \<Rightarrow> bool" where
  "fits_i64 x \<longleftrightarrow> - (2 ^ 63) \<le> x \<and> x < 2 ^ 63"

definition sum_i32 :: "int list \<Rightarrow> int" where
  "sum_i32 xs = foldl (\<lambda>a x. wrap_i32 (a + x)) 0 xs"

lemma wrap_i32_id: "fits_i32 x \<Longrightarrow> wrap_i32 x = x"
  by (simp add: wrap_i32_def fits_i32_def signed_take_bit_int_eq_self)

lemma wrap_i64_id: "fits_i64 x \<Longrightarrow> wrap_i64 x = x"
  by (simp add: wrap_i64_def fits_i64_def signed_take_bit_int_eq_self)

lemma wrap_i32_fits: "fits_i32 (wrap_i32 x)"
  using signed_take_bit_int_greater_eq_minus_exp [of 31 x] signed_take_bit_int_less_exp [of 31 x]
  by (simp add: fits_i32_def wrap_i32_def)

lemma wrap_i64_fits: "fits_i64 (wrap_i64 x)"
  using signed_take_bit_int_greater_eq_minus_exp [of 63 x] signed_take_bit_int_less_exp [of 63 x]
  by (simp add: fits_i64_def wrap_i64_def)

lemma wrap_i32_add: "wrap_i32 (wrap_i32 a + b) = wrap_i32 (a + b)"
  unfolding wrap_i32_def by (metis signed_take_bit_add signed_take_bit_signed_take_bit min.idem)

lemma wrap_i64_add: "wrap_i64 (wrap_i64 a + b) = wrap_i64 (a + b)"
  unfolding wrap_i64_def by (metis signed_take_bit_add signed_take_bit_signed_take_bit min.idem)

lemma foldl_wrap_i32: "foldl (\<lambda>a x. wrap_i32 (a + x)) (wrap_i32 a) xs = wrap_i32 (a + sum_list xs)"
  by (induction xs arbitrary: a) (simp_all add: wrap_i32_add add.assoc)

text \<open>A wrapping sum is the wrapped sum.\<close>

lemma sum_i32_wrap: "sum_i32 xs = wrap_i32 (sum_list xs)"
  using foldl_wrap_i32 [of 0 xs] by (simp add: sum_i32_def wrap_i32_id fits_i32_def)

lemma sum_i32_exact: "fits_i32 (sum_list xs) \<Longrightarrow> sum_i32 xs = sum_list xs"
  by (simp add: sum_i32_wrap wrap_i32_id)

section \<open>Saturating arithmetic on u32\<close>

definition u32_max :: nat where
  "u32_max = 4294967295"

definition sat_add :: "nat \<Rightarrow> nat \<Rightarrow> nat" where
  "sat_add a b = min (a + b) u32_max"

definition sat_mul :: "nat \<Rightarrow> nat \<Rightarrow> nat" where
  "sat_mul a b = min (a * b) u32_max"

lemma sat_add_exact: "a + b \<le> u32_max \<Longrightarrow> sat_add a b = a + b"
  by (simp add: sat_add_def)

lemma sat_mul_exact: "a * b \<le> u32_max \<Longrightarrow> sat_mul a b = a * b"
  by (simp add: sat_mul_def)

lemma sat_le [simp]: "sat_add a b \<le> u32_max" "sat_mul a b \<le> u32_max"
  by (simp_all add: sat_add_def sat_mul_def)

lemma sat_add_mono: "a \<le> c \<Longrightarrow> b \<le> d \<Longrightarrow> sat_add a b \<le> sat_add c d"
  by (simp add: sat_add_def min_le_iff_disj)

end
