(* ===== verification/Ranking.thy ===== *)
theory Ranking
  imports Frames Rust_Int
begin

text \<open>
  Goal ranking: \<open>record_goal_priority_vote\<close>, \<open>goal_ranking_summary\<close>,
  \<open>compute_goal_ranking_decision\<close> and \<open>apply_goal_ranking_decision\<close> of \<open>GoalState\<close>
  (\<open>crates/domain/src/lib.rs\<close>).  Weights are \<open>u32\<close> cast to \<open>i32\<close>, so the score wraps at
  32 bits; the lemmas show when it is the difference of the up and down weights, and what
  a decision does to the root task.
\<close>

section \<open>Votes and scores\<close>

fun vote_source_debug :: "goal_vote_source \<Rightarrow> string" where
  "vote_source_debug VS_Human = ''Human''"
| "vote_source_debug VS_Coordinator = ''Coordinator''"
| "vote_source_debug VS_Agent = ''Agent''"
| "vote_source_debug VS_System = ''System''"

definition vote_source_allowed :: "goal_ranking_policy \<Rightarrow> goal_vote_source \<Rightarrow> bool" where
  "vote_source_allowed p s =
     (case s of
        VS_Human \<Rightarrow> grp_allow_human_votes p
      | VS_Coordinator \<Rightarrow> grp_allow_coordinator_votes p
      | VS_System \<Rightarrow> grp_allow_coordinator_votes p
      | VS_Agent \<Rightarrow> grp_allow_agent_votes p)"

definition vote_weight :: "goal_ranking_policy \<Rightarrow> nat \<Rightarrow> nat" where
  "vote_weight p requested = min (max requested 1) (max (grp_max_vote_weight p) 1)"

definition signed_weight :: "goal_vote_direction \<Rightarrow> nat \<Rightarrow> int" where
  "signed_weight d weight =
     (case d of VD_Up \<Rightarrow> wrap_i32 (int weight) | VD_Down \<Rightarrow> wrap_i32 (- wrap_i32 (int weight)))"

definition goal_ranking_summary_of :: "'a goal_state_scheme \<Rightarrow> goal_ranking_summary" where
  "goal_ranking_summary_of s =
     (let votes = gs_goal_priority_votes s;
          latest = (if gs_goal_ranking_decisions s = [] then None
                    else Some (last (gs_goal_ranking_decisions s)))
      in (| gsm_score = sum_i32 (map pv_signed_weight votes),
            gsm_upvotes = length (filter (\<lambda>v. pv_direction v = VD_Up) votes),
            gsm_downvotes = length (filter (\<lambda>v. pv_direction v = VD_Down) votes),
            gsm_vote_count = length votes,
            gsm_effective_priority = (case latest of Some d \<Rightarrow> gd_effective_priority d | None \<Rightarrow> TPR_High),
            gsm_hierarchy_role = (case latest of Some d \<Rightarrow> gd_hierarchy_role d | None \<Rightarrow> HR_PeerGoal),
            gsm_latest_decision = latest |))"

section \<open>Decisions\<close>

definition ranking_outcome ::
  "goal_ranking_policy \<Rightarrow> goal_ranking_summary \<Rightarrow>
   goal_ranking_outcome \<times> task_priority \<times> goal_hierarchy_role \<times> string" where
  "ranking_outcome p summary =
     (if gsm_vote_count summary < grp_min_votes p
      then (RO_Pending, gsm_effective_priority summary, gsm_hierarchy_role summary,
            ''waiting for '' @ dec (grp_min_votes p) @ '' total ranking votes'')
      else if gsm_score summary \<ge> grp_promotion_score p
      then (RO_Promoted, TPR_Critical, HR_OverarchingGoal, ''ranking votes promoted this goal'')
      else if gsm_score summary \<le> grp_demotion_score p
      then (RO_Demoted, TPR_Low, HR_Subgoal, ''ranking votes demoted this goal'')
      else (RO_Unchanged, TPR_High, HR_PeerGoal, ''ranking votes left this goal at peer priority''))"

definition compute_goal_ranking_decision :: "goal_ranking_decision wop" where
  "compute_goal_ranking_decision =
     reads (\<lambda>w.
       let summary = goal_ranking_summary_of w;
           (outcome, priority, role, reason) = ranking_outcome (gsp_ranking_policy (gs_goal w)) summary
       in bindR new_uuid (\<lambda>new_id. ok (|
            gd_id = new_id, gd_goal_id = gsp_id (gs_goal w), gd_score = gsm_score summary,
            gd_upvotes = gsm_upvotes summary, gd_downvotes = gsm_downvotes summary,
            gd_vote_count = gsm_vote_count summary, gd_effective_priority = priority,
            gd_hierarchy_role = role, gd_outcome = outcome, gd_reason = reason |)))"

fun role_tag :: "goal_hierarchy_role \<Rightarrow> string" where
  "role_tag HR_OverarchingGoal = ''goal:overarching''"
| "role_tag HR_PeerGoal = ''goal:peer''"
| "role_tag HR_Subgoal = ''goal:subgoal''"

definition role_tags :: "string set" where
  "role_tags = {''goal:overarching'', ''goal:peer'', ''goal:subgoal''}"

definition rank_root :: "goal_ranking_decision \<Rightarrow> task_node \<Rightarrow> task_node" where
  "rank_root d t =
     (let tags = filter (\<lambda>x. x \<notin> role_tags) (tn_tags t); tag = role_tag (gd_hierarchy_role d)
      in t (| tn_priority := gd_effective_priority d,
              tn_tags := (if tag \<in> set tags then tags else tags @ [tag]) |))"

definition apply_goal_ranking_decision :: "goal_ranking_decision \<Rightarrow> unit wop" where
  "apply_goal_ranking_decision d =
     reads (\<lambda>w.
       if gd_outcome d = RO_Pending then ok ()
       else case find (\<lambda>t. tn_parent_id t = None) (tasks_of w) of
         None \<Rightarrow> ok ()
       | Some root \<Rightarrow> put_task (tn_id root) (rank_root d))"

definition priority_vote :: "goal_priority_vote_request \<Rightarrow> goal_spec \<Rightarrow> uuid \<Rightarrow> goal_priority_vote" where
  "priority_vote r goal new_id =
     (let weight = vote_weight (gsp_ranking_policy goal) (vq_weight r) in (|
        pv_id = new_id, pv_goal_id = gsp_id goal, pv_voter = vq_voter r, pv_source = vq_source r,
        pv_direction = vq_direction r, pv_weight = weight,
        pv_signed_weight = signed_weight (vq_direction r) weight, pv_reason = vq_reason r,
        pv_suggested_role = vq_suggested_role r |))"

definition ranking_guard :: "goal_priority_vote_request \<Rightarrow> 'a goal_state_scheme \<Rightarrow> domain_error + unit" where
  "ranking_guard r s =
     (let p = gsp_ranking_policy (gs_goal s) in
      if vq_goal_id r \<noteq> gsp_id (gs_goal s)
      then Inl (DE_SteeringDenied ''goal priority vote goal_id does not match workflow goal'')
      else if \<not> grp_enabled p
      then Inl (DE_SteeringDenied ''goal ranking votes are disabled for this goal'')
      else if \<not> vote_source_allowed p (vq_source r)
      then Inl (DE_SteeringDenied (vote_source_debug (vq_source r)
             @ '' goal ranking votes are disabled for this goal''))
      else Inr ())"

definition record_goal_priority_vote :: "goal_priority_vote_request \<Rightarrow> goal_ranking_decision wop" where
  "record_goal_priority_vote r =
     bindR (lift_result (ranking_guard r)) (\<lambda>_.
     bindR new_uuid (\<lambda>new_id.
     bindR (update (\<lambda>w. w (| gs_goal_priority_votes :=
              gs_goal_priority_votes w @ [priority_vote r (gs_goal w) new_id] |))) (\<lambda>_.
     bindR compute_goal_ranking_decision (\<lambda>d.
     bindR (apply_goal_ranking_decision d) (\<lambda>_.
     bindR (update (\<lambda>w. w (| gs_goal_ranking_decisions := gs_goal_ranking_decisions w @ [d] |))) (\<lambda>_.
     bindR (push_event (''goal_priority_vote_recorded:'' @ gd_id d @ '':'' @ int_dec (gd_score d)
              @ '':'' @ gd_reason d)) (\<lambda>_.
     ok d)))))))"

section \<open>The tree is kept\<close>

lemma rank_root_shape [simp]: "task_shape (rank_root d t) = task_shape t"
  by (simp add: rank_root_def task_shape_def Let_def)

lemma preserves_wf_record_goal_priority_vote [preserves_rules]:
  "preserves (knows T) (record_goal_priority_vote r)"
proof -
  have upd: "preserves (knows T) (update (\<lambda>w. w (| gs_goal_priority_votes := f w |)))"
    "preserves (knows T) (update (\<lambda>w. w (| gs_goal_ranking_decisions := g w |)))" for f g
    by (rule preserves_wf_frame; simp)+
  show ?thesis
    unfolding record_goal_priority_vote_def compute_goal_ranking_decision_def
      apply_goal_ranking_decision_def Let_def split_def
    by (intro preserves_rules upd) simp
qed

section \<open>Properties\<close>

lemma record_vote_Inr:
  assumes "record_goal_priority_vote r w = (Inr d, v)"
  obtains i j where
    "gs_goal_priority_votes v = gs_goal_priority_votes w @ [priority_vote r (gs_goal w) i]"
    "gs_goal v = gs_goal w" "gs_goal_ranking_decisions v = gs_goal_ranking_decisions w @ [d]"
    "gd_score d = sum_i32 (map pv_signed_weight (gs_goal_priority_votes v))"
    "gd_vote_count d = length (gs_goal_priority_votes v)"
    "(gd_outcome d, gd_effective_priority d, gd_hierarchy_role d, gd_reason d) =
       ranking_outcome (gsp_ranking_policy (gs_goal w))
         (goal_ranking_summary_of (w (| gs_goal_priority_votes := gs_goal_priority_votes v |)))"
    "gs_tasks v = (if gd_outcome d = RO_Pending then gs_tasks w
       else case find (\<lambda>t. tn_parent_id t = None) (tasks_of w) of
              None \<Rightarrow> gs_tasks w | Some root \<Rightarrow> bt_adjust (tn_id root) (rank_root d) (gs_tasks w))"
proof -
  have guard: "ranking_guard r w = Inr ()"
    using assms by (auto simp: record_goal_priority_vote_def split: sum.splits)
  let ?i = "uuid_tape w (uuids_drawn w)"
  let ?votes = "gs_goal_priority_votes w @ [priority_vote r (gs_goal w) ?i]"
  let ?s = "goal_ranking_summary_of (w (| gs_goal_priority_votes := ?votes |))"
  obtain outcome priority role reason where
    out: "ranking_outcome (gsp_ranking_policy (gs_goal w)) ?s = (outcome, priority, role, reason)"
    by (metis prod_cases4)
  have summary: "goal_ranking_summary_of (w (| uuids_drawn := x, gs_goal_priority_votes := ?votes |)) = ?s"
    "goal_ranking_summary_of (w (| gs_goal_priority_votes := ?votes, uuids_drawn := x |)) = ?s" for x
    by (simp_all add: goal_ranking_summary_of_def)
  have score: "gsm_score ?s = sum_i32 (map pv_signed_weight ?votes)" "gsm_vote_count ?s = length ?votes"
    by (simp_all add: goal_ranking_summary_of_def Let_def)
  have tasks: "tasks_of (w (| gs_goal_priority_votes := y, uuids_drawn := x |)) = tasks_of w"
    "tasks_of (w (| uuids_drawn := x, gs_goal_priority_votes := y |)) = tasks_of w" for x y
    by (simp_all add: tasks_of_def)
  show thesis
    using assms score out
    by (intro that [of ?i])
       (auto simp: record_goal_priority_vote_def guard compute_goal_ranking_decision_def bind_rules
         apply_goal_ranking_decision_def put_task_def Let_def summary tasks split: option.splits if_splits)
qed

lemma record_vote_succeeds:
  assumes guard: "ranking_guard r w = Inr ()"
  shows "\<exists>d v. record_goal_priority_vote r w = (Inr d, v)"
proof -
  have apply_ok: "\<exists>u. apply_goal_ranking_decision d s = (Inr (), u)" for d s
    by (auto simp: apply_goal_ranking_decision_def put_task_def bind_rules split: option.splits)
  let ?f = "\<lambda>d. bindR (apply_goal_ranking_decision d) (\<lambda>_.
     bindR (update (\<lambda>w. w (| gs_goal_ranking_decisions := gs_goal_ranking_decisions w @ [d] |))) (\<lambda>_.
     bindR (push_event (''goal_priority_vote_recorded:'' @ gd_id d @ '':'' @ int_dec (gd_score d)
              @ '':'' @ gd_reason d)) (\<lambda>_. ok d)))"
  have rest: "\<exists>v. ?f d s = (Inr d, v)" for d s
    using apply_ok [of d s] by (auto simp: bindR_def update_def push_event_def ok_def)
  have compute: "\<exists>d u. compute_goal_ranking_decision s = (Inr d, u)" for s
    by (auto simp: compute_goal_ranking_decision_def bind_rules Let_def split_def)
  define s where "s = w (| uuids_drawn := Suc (uuids_drawn w), gs_goal_priority_votes :=
     gs_goal_priority_votes w @ [priority_vote r (gs_goal w) (uuid_tape w (uuids_drawn w))] |)"
  obtain d u where d: "compute_goal_ranking_decision s = (Inr d, u)" using compute by blast
  have "record_goal_priority_vote r w = ?f d u"
    using d by (simp add: record_goal_priority_vote_def guard bindR_def update_def new_uuid_def s_def)
  with rest [of d u] show ?thesis by auto
qed

lemma vote_weight_bounds:
  "1 \<le> vote_weight p n" "vote_weight p n \<le> max (grp_max_vote_weight p) 1"
  by (auto simp: vote_weight_def)

text \<open>
  Ranking follows the votes.  A recorded vote weighs at least one and at most
  \<open>max_vote_weight\<close>.  The decision is Pending iff there are fewer votes than \<open>min_votes\<close>;
  otherwise the goal is Promoted iff the score reaches the promotion score and Demoted iff
  it does not and is at most the demotion score.  A decision that is not Pending gives the
  root task the decided priority and exactly one role tag, the one of the decided role, and
  no other task changes.
\<close>
theorem ranking_follows_the_votes:
  assumes run: "record_goal_priority_vote r w = (Inr d, v)" and wf: "wf_world w"
  shows "(\<exists>x. gs_goal_priority_votes v = gs_goal_priority_votes w @ [x] \<and> 1 \<le> pv_weight x \<and>
       pv_weight x \<le> max (grp_max_vote_weight (gsp_ranking_policy (gs_goal w))) 1) \<and>
    (gd_outcome d = RO_Pending \<longleftrightarrow>
       Suc (length (gs_goal_priority_votes w)) < grp_min_votes (gsp_ranking_policy (gs_goal w))) \<and>
    (gd_outcome d \<noteq> RO_Pending \<longrightarrow>
       (gd_outcome d = RO_Promoted \<longleftrightarrow> grp_promotion_score (gsp_ranking_policy (gs_goal w)) \<le> gd_score d) \<and>
       (gd_outcome d = RO_Demoted \<longleftrightarrow> gd_score d < grp_promotion_score (gsp_ranking_policy (gs_goal w)) \<and>
          gd_score d \<le> grp_demotion_score (gsp_ranking_policy (gs_goal w))) \<and>
       (\<forall>i t. bt_get (gs_tasks w) i = Some t \<longrightarrow> (\<exists>u. bt_get (gs_tasks v) i = Some u \<and>
          (tn_parent_id t \<noteq> None \<longrightarrow> u = t) \<and>
          (tn_parent_id t = None \<longrightarrow> tn_priority u = gd_effective_priority d \<and>
             filter (\<lambda>x. x \<in> role_tags) (tn_tags u) = [role_tag (gd_hierarchy_role d)]))))"
proof -
  obtain i j where e:
    "gs_goal_priority_votes v = gs_goal_priority_votes w @ [priority_vote r (gs_goal w) i]"
    "gd_score d = sum_i32 (map pv_signed_weight (gs_goal_priority_votes v))"
    "(gd_outcome d, gd_effective_priority d, gd_hierarchy_role d, gd_reason d) =
       ranking_outcome (gsp_ranking_policy (gs_goal w))
         (goal_ranking_summary_of (w (| gs_goal_priority_votes := gs_goal_priority_votes v |)))"
    "gs_tasks v = (if gd_outcome d = RO_Pending then gs_tasks w
       else case find (\<lambda>t. tn_parent_id t = None) (tasks_of w) of
              None \<Rightarrow> gs_tasks w | Some root \<Rightarrow> bt_adjust (tn_id root) (rank_root d) (gs_tasks w))"
    using record_vote_Inr [OF run] by metis
  have s: "gsm_score (goal_ranking_summary_of (w (| gs_goal_priority_votes := gs_goal_priority_votes v |))) = gd_score d"
    "gsm_vote_count (goal_ranking_summary_of (w (| gs_goal_priority_votes := gs_goal_priority_votes v |))) =
      Suc (length (gs_goal_priority_votes w))"
    using e(1,2) by (simp_all add: goal_ranking_summary_of_def Let_def)
  have out: "(gd_outcome d = RO_Pending \<longleftrightarrow>
       Suc (length (gs_goal_priority_votes w)) < grp_min_votes (gsp_ranking_policy (gs_goal w))) \<and>
    (gd_outcome d \<noteq> RO_Pending \<longrightarrow>
       (gd_outcome d = RO_Promoted \<longleftrightarrow> grp_promotion_score (gsp_ranking_policy (gs_goal w)) \<le> gd_score d) \<and>
       (gd_outcome d = RO_Demoted \<longleftrightarrow> gd_score d < grp_promotion_score (gsp_ranking_policy (gs_goal w)) \<and>
          gd_score d \<le> grp_demotion_score (gsp_ranking_policy (gs_goal w))))"
    using e(3) by (auto simp: ranking_outcome_def s split: if_splits)
  have root: "\<exists>u. bt_get (gs_tasks v) i = Some u \<and> (tn_parent_id t \<noteq> None \<longrightarrow> u = t) \<and>
      (tn_parent_id t = None \<longrightarrow> u = rank_root d t)"
    if t: "bt_get (gs_tasks w) i = Some t" and "gd_outcome d \<noteq> RO_Pending" for i t
  proof (cases "find (\<lambda>t. tn_parent_id t = None) (tasks_of w)")
    case None
    then have "tn_parent_id t \<noteq> None" using get_Some_values [OF t] by (auto simp: find_None_iff tasks_of_def)
    with None t that(2) e(4) show ?thesis by clarsimp
  next
    case (Some root)
    then have r: "root \<in> set (tasks_of w)" "tn_parent_id root = None" by (auto simp: find_Some_iff)
    then have g: "bt_get (gs_tasks w) (tn_id root) = Some root"
      using wf_world_values [OF wf] by (simp add: tasks_of_def)
    have "tn_parent_id t = None \<Longrightarrow> i = tn_id root"
      using wf r(2) g t unfolding wf_world_def wf_tree_def by metis
    with Some t g r(2) that(2) e(4) show ?thesis by (auto simp: get_adjust)
  qed
  have "filter (\<lambda>x. x \<in> role_tags) (filter (\<lambda>x. x \<notin> role_tags) xs) = []" for xs
    by (simp add: filter_empty_conv)
  moreover have "role_tag h \<in> role_tags" for h by (cases h) (simp_all add: role_tags_def)
  ultimately have tags: "filter (\<lambda>x. x \<in> role_tags) (tn_tags (rank_root d t)) = [role_tag (gd_hierarchy_role d)]" for t
    by (simp add: rank_root_def Let_def)
  have "tn_priority (rank_root d t) = gd_effective_priority d" for t by (simp add: rank_root_def Let_def)
  with tags root have "gd_outcome d \<noteq> RO_Pending \<longrightarrow> (\<forall>i t. bt_get (gs_tasks w) i = Some t \<longrightarrow>
      (\<exists>u. bt_get (gs_tasks v) i = Some u \<and> (tn_parent_id t \<noteq> None \<longrightarrow> u = t) \<and>
         (tn_parent_id t = None \<longrightarrow> tn_priority u = gd_effective_priority d \<and>
            filter (\<lambda>x. x \<in> role_tags) (tn_tags u) = [role_tag (gd_hierarchy_role d)])))" by metis
  moreover have "\<exists>x. gs_goal_priority_votes v = gs_goal_priority_votes w @ [x] \<and> 1 \<le> pv_weight x \<and>
       pv_weight x \<le> max (grp_max_vote_weight (gsp_ranking_policy (gs_goal w))) 1"
    using e(1) vote_weight_bounds by (auto simp: priority_vote_def Let_def)
  ultimately show ?thesis using out by blast
qed

definition ranked_goal :: goal_spec where
  "ranked_goal = sample_goal (| gsp_ranking_policy := goal_ranking_policy_default (| grp_enabled := True, grp_min_votes := 1 |) |)"

definition sample_vote :: goal_priority_vote_request where
  "sample_vote = (| vq_goal_id = ''g'', vq_voter = ''me'', vq_source = VS_Human, vq_direction = VD_Up,
     vq_weight = 9, vq_reason = [], vq_suggested_role = None |)"

theorem ranking_follows_the_votes_witness:
  "\<exists>d v. record_goal_priority_vote sample_vote (world_of ranked_goal [sample_task ''a'' TS_Runnable]) = (Inr d, v) \<and>
     gd_outcome d \<noteq> RO_Pending"
proof -
  let ?w = "world_of ranked_goal [sample_task ''a'' TS_Runnable]"
  have goal: "gsp_id ranked_goal = ''g''"
    "gsp_ranking_policy ranked_goal = goal_ranking_policy_default (| grp_enabled := True, grp_min_votes := 1 |)"
    by (simp_all add: ranked_goal_def)
  have wf: "wf_world ?w" by (rule wf_world_of_goal) (simp_all add: goal)
  have guard: "ranking_guard sample_vote ?w = Inr ()"
    by (simp add: ranking_guard_def goal sample_vote_def vote_source_allowed_def goal_ranking_policy_default_def)
  obtain d v where run: "record_goal_priority_vote sample_vote ?w = (Inr d, v)"
    using record_vote_succeeds [OF guard] by blast
  from ranking_follows_the_votes [OF run wf] have "gd_outcome d \<noteq> RO_Pending"
    by (simp add: goal)
  with run show ?thesis by blast
qed

text \<open>
  The score is the difference of the weights.  While every recorded vote carries its
  weight with the sign of its direction, the maximal weight fits a signed 32-bit integer
  and the difference of all up and all down weights does too, the score of a decision is
  that difference, and the next vote carries its weight with its sign again.
\<close>
theorem ranking_score_is_weight_difference:
  assumes run: "record_goal_priority_vote r w = (Inr d, v)"
    and old: "\<forall>x \<in> set (gs_goal_priority_votes w). pv_signed_weight x = (if pv_direction x = VD_Up then int (pv_weight x) else - int (pv_weight x))"
    and small: "grp_max_vote_weight (gsp_ranking_policy (gs_goal w)) < 2 ^ 31"
    and fits: "fits_i32 ((\<Sum>x \<leftarrow> filter (\<lambda>x. pv_direction x = VD_Up) (gs_goal_priority_votes v). int (pv_weight x)) -
      (\<Sum>x \<leftarrow> filter (\<lambda>x. pv_direction x = VD_Down) (gs_goal_priority_votes v). int (pv_weight x)))"
  shows "gd_score d = (\<Sum>x \<leftarrow> filter (\<lambda>x. pv_direction x = VD_Up) (gs_goal_priority_votes v). int (pv_weight x)) -
      (\<Sum>x \<leftarrow> filter (\<lambda>x. pv_direction x = VD_Down) (gs_goal_priority_votes v). int (pv_weight x)) \<and>
    (\<forall>x \<in> set (gs_goal_priority_votes v). pv_signed_weight x = (if pv_direction x = VD_Up then int (pv_weight x) else - int (pv_weight x)))"
proof -
  obtain i where e:
    "gs_goal_priority_votes v = gs_goal_priority_votes w @ [priority_vote r (gs_goal w) i]"
    "gd_score d = sum_i32 (map pv_signed_weight (gs_goal_priority_votes v))"
    using record_vote_Inr [OF run] by metis
  let ?p = "gsp_ranking_policy (gs_goal w)"
  have "vote_weight ?p (vq_weight r) < 2 ^ 31"
    using vote_weight_bounds(2) [of ?p "vq_weight r"] small by simp
  then have "wrap_i32 (int (vote_weight ?p (vq_weight r))) = int (vote_weight ?p (vq_weight r))"
    "wrap_i32 (- int (vote_weight ?p (vq_weight r))) = - int (vote_weight ?p (vq_weight r))"
    by (simp_all add: wrap_i32_id fits_i32_def)
  then have signed: "\<forall>x \<in> set (gs_goal_priority_votes v). pv_signed_weight x =
      (if pv_direction x = VD_Up then int (pv_weight x) else - int (pv_weight x))"
    using old e(1) by (auto simp: priority_vote_def Let_def signed_weight_def split: goal_vote_direction.splits)
  have sum: "(\<Sum>x \<leftarrow> xs. pv_signed_weight x) =
      (\<Sum>x \<leftarrow> filter (\<lambda>x. pv_direction x = VD_Up) xs. int (pv_weight x)) -
      (\<Sum>x \<leftarrow> filter (\<lambda>x. pv_direction x = VD_Down) xs. int (pv_weight x))"
    if "\<forall>x \<in> set xs. pv_signed_weight x = (if pv_direction x = VD_Up then int (pv_weight x) else - int (pv_weight x))" for xs
    using that
  proof (induction xs)
    case (Cons x xs)
    then show ?case by (cases "pv_direction x") auto
  qed simp
  from sum [OF signed] fits show ?thesis using e(2) signed by (simp add: sum_i32_exact)
qed

theorem ranking_score_is_weight_difference_witness:
  "\<exists>d v. record_goal_priority_vote sample_vote (world_of ranked_goal [sample_task ''a'' TS_Runnable]) = (Inr d, v) \<and>
     gd_score d = 3"
proof -
  let ?w = "world_of ranked_goal [sample_task ''a'' TS_Runnable]"
  have goal: "gsp_id ranked_goal = ''g''"
    "gsp_ranking_policy ranked_goal = goal_ranking_policy_default (| grp_enabled := True, grp_min_votes := 1 |)"
    by (simp_all add: ranked_goal_def)
  have guard: "ranking_guard sample_vote ?w = Inr ()"
    by (simp add: ranking_guard_def goal sample_vote_def vote_source_allowed_def goal_ranking_policy_default_def)
  obtain d v where run: "record_goal_priority_vote sample_vote ?w = (Inr d, v)"
    using record_vote_succeeds [OF guard] by blast
  obtain i where votes: "gs_goal_priority_votes v = [priority_vote sample_vote ranked_goal i]"
    using record_vote_Inr [OF run] by (metis append_Nil world_of_simps(1) world_of_simps(13))
  have vote: "pv_direction (priority_vote sample_vote ranked_goal i) = VD_Up"
    "pv_weight (priority_vote sample_vote ranked_goal i) = 3"
    by (simp_all add: priority_vote_def sample_vote_def goal goal_ranking_policy_default_def vote_weight_def)
  have "gd_score d = 3"
    using ranking_score_is_weight_difference [OF run]
    by (simp add: goal votes vote goal_ranking_policy_default_def fits_i32_def)
  with run show ?thesis by blast
qed

end
