(* ===== verification/Mechanism.thy ===== *)
theory Mechanism
  imports Ranking Approval "HOL-Library.Multiset"
begin

text \<open>
  Consensus rounds and auctions: \<open>start_mechanism_round\<close>, \<open>record_mechanism_ballot\<close> and
  \<open>tally_mechanism_round\<close> of \<open>GoalState\<close> (\<open>crates/domain/src/lib.rs\<close>).  Scores are \<open>i64\<close>
  sums that wrap, bids are 64-bit words cast to \<open>i64\<close>.  The name-based identifiers of the
  proposals come from the \<open>uuid\<close> crate, so \<open>uuid_v5\<close> is an argument.
\<close>

section \<open>Names in events\<close>

fun mechanism_kind_debug :: "mechanism_kind \<Rightarrow> string" where
  "mechanism_kind_debug MK_ApprovalVote = ''ApprovalVote''"
| "mechanism_kind_debug MK_MajorityVote = ''MajorityVote''"
| "mechanism_kind_debug MK_RankedChoice = ''RankedChoice''"
| "mechanism_kind_debug MK_DelphiRound = ''DelphiRound''"
| "mechanism_kind_debug MK_SealedBidAuction = ''SealedBidAuction''"
| "mechanism_kind_debug MK_VickreyAuction = ''VickreyAuction''"
| "mechanism_kind_debug MK_ContractNet = ''ContractNet''"

fun mechanism_target_debug :: "mechanism_target \<Rightarrow> string" where
  "mechanism_target_debug MTG_GoalPriority = ''GoalPriority''"
| "mechanism_target_debug MTG_GoalPromotion = ''GoalPromotion''"
| "mechanism_target_debug MTG_SubgoalSelection = ''SubgoalSelection''"
| "mechanism_target_debug MTG_BranchSelection = ''BranchSelection''"
| "mechanism_target_debug MTG_RunnerAllocation = ''RunnerAllocation''"
| "mechanism_target_debug MTG_BudgetAllocation = ''BudgetAllocation''"
| "mechanism_target_debug MTG_WorkAuction = ''WorkAuction''"
| "mechanism_target_debug MTG_ReviewPanel = ''ReviewPanel''"
| "mechanism_target_debug MTG_Custom = ''Custom''"

fun participant_source_debug :: "mechanism_participant_source \<Rightarrow> string" where
  "participant_source_debug MPS_Human = ''Human''"
| "participant_source_debug MPS_Coordinator = ''Coordinator''"
| "participant_source_debug MPS_Agent = ''Agent''"
| "participant_source_debug MPS_System = ''System''"

fun mechanism_status_debug :: "mechanism_round_status \<Rightarrow> string" where
  "mechanism_status_debug MRD_Open = ''Open''"
| "mechanism_status_debug MRD_QuorumPending = ''QuorumPending''"
| "mechanism_status_debug MRD_Decided = ''Decided''"
| "mechanism_status_debug MRD_RatificationRequired = ''RatificationRequired''"
| "mechanism_status_debug MRD_Cancelled = ''Cancelled''"

section \<open>Opening a round\<close>

definition start_round_guard :: "mechanism_round_request \<Rightarrow> 'a goal_state_scheme \<Rightarrow> domain_error + unit" where
  "start_round_guard r s =
     (let p = gsp_mechanism_policy (gs_goal s) in
      if mrq_goal_id r \<noteq> gsp_id (gs_goal s)
      then Inl (DE_MechanismDenied ''mechanism round goal_id does not match workflow goal'')
      else if \<not> mpol_enabled p
      then Inl (DE_MechanismDenied ''mechanism policy is disabled for this goal'')
      else if length (gs_mechanism_rounds s) mod 2 ^ 32 \<ge> mpol_max_rounds p
      then Inl (DE_MechanismDenied ''mechanism max_rounds exceeded'')
      else Inr ())"

definition round_proposals ::
  "(string \<Rightarrow> uuid) \<Rightarrow> uuid \<Rightarrow> uuid \<Rightarrow> mechanism_proposal_request list \<Rightarrow> mechanism_proposal list" where
  "round_proposals uuid_v5 goal_id round_id ps =
     map (\<lambda>(index, p). (|
            mpp_id = uuid_v5 (''coat://goal/'' @ goal_id @ ''/mechanism/'' @ round_id @ ''/proposal/'' @ dec index),
            mpp_label = mpr_label p, mpp_description = mpr_description p,
            mpp_proposer = mpr_proposer p, mpp_metadata = mpr_metadata p |))
       (enumerate 0 ps)"

definition new_round ::
  "(string \<Rightarrow> uuid) \<Rightarrow> goal_spec \<Rightarrow> mechanism_round_request \<Rightarrow> uuid \<Rightarrow> mechanism_round" where
  "new_round uuid_v5 goal r round_id =
     (let p = gsp_mechanism_policy goal in (|
        mro_id = round_id, mro_goal_id = gsp_id goal, mro_title = mrq_title r,
        mro_mechanism = unwrap_or (mrq_mechanism r) (mpol_default_mechanism p),
        mro_target = mrq_target r, mro_status = MRD_Open, mro_reason = mrq_reason r,
        mro_proposals = round_proposals uuid_v5 (gsp_id goal) round_id (mrq_proposals r),
        mro_ballots = [],
        mro_quorum = max (unwrap_or (mrq_quorum r) (mpol_quorum p)) 1,
        mro_min_participants = max (unwrap_or (mrq_min_participants r) (mpol_min_participants p)) 1,
        mro_require_human_ratification =
          unwrap_or (mrq_require_human_ratification r) (mpol_require_human_ratification p),
        mro_decision = None |))"

definition start_mechanism_round ::
  "(string \<Rightarrow> uuid) \<Rightarrow> mechanism_round_request \<Rightarrow> mechanism_round wop" where
  "start_mechanism_round uuid_v5 r =
     bindR (lift_result (start_round_guard r)) (\<lambda>_.
     bindR new_uuid (\<lambda>round_id.
     reads (\<lambda>w.
       if mrq_proposals r = []
       then fail (DE_MechanismDenied ''mechanism round requires at least one proposal'')
       else let round = new_round uuid_v5 (gs_goal w) r round_id in
         bindR (update (\<lambda>w. w (| gs_mechanism_rounds := gs_mechanism_rounds w @ [round] |))) (\<lambda>_.
         bindR (push_event (''mechanism_round_started:'' @ mro_id round @ '':''
                  @ mechanism_kind_debug (mro_mechanism round) @ '':''
                  @ mechanism_target_debug (mro_target round))) (\<lambda>_.
         ok round)))))"

section \<open>The tally\<close>

definition rank_bonus :: "mechanism_allocation \<Rightarrow> int" where
  "rank_bonus a = (case mal_rank a of None \<Rightarrow> 0 | Some rank \<Rightarrow> 1000 div int (max rank 1))"

definition add_score :: "uuid \<Rightarrow> int \<Rightarrow> (uuid, int) btree \<Rightarrow> (uuid, int) btree" where
  "add_score i x m = bt_insert i (wrap_i64 (unwrap_or (bt_get m i) 0 + x)) m"

definition add_bid :: "uuid \<Rightarrow> 64 word \<Rightarrow> (uuid, 64 word list) btree \<Rightarrow> (uuid, 64 word list) btree" where
  "add_bid i b m = bt_insert i (unwrap_or (bt_get m i) [] @ [b]) m"

definition tally_allocation ::
  "mechanism_kind \<Rightarrow> mechanism_allocation \<Rightarrow> (uuid, int) btree \<times> (uuid, 64 word list) btree \<Rightarrow>
   (uuid, int) btree \<times> (uuid, 64 word list) btree" where
  "tally_allocation k a = (\<lambda>(scores, bids).
     if is_auction k
     then case mal_bid a of
            None \<Rightarrow> (scores, bids)
          | Some bid \<Rightarrow> (add_score (mal_proposal_id a) (sint bid) scores, add_bid (mal_proposal_id a) bid bids)
     else (add_score (mal_proposal_id a) (mal_support a + rank_bonus a) scores, bids))"

definition tally_ballots ::
  "mechanism_kind \<Rightarrow> mechanism_ballot list \<Rightarrow> (uuid, int) btree \<times> (uuid, 64 word list) btree" where
  "tally_ballots k ballots =
     fold (\<lambda>b. fold (tally_allocation k) (mb_allocations b)) ballots ([], [])"

definition score_le :: "uuid \<times> int \<Rightarrow> uuid \<times> int \<Rightarrow> bool" where
  "score_le = then_with (\<lambda>x y. snd x \<le> snd y) (\<lambda>x y. fst y \<le> fst x)"

definition clearing_price :: "mechanism_kind \<Rightarrow> (uuid, 64 word list) btree \<Rightarrow> 64 word option" where
  "clearing_price k bids =
     (if k = MK_VickreyAuction
      then case sort_by (\<lambda>x y. y \<le> x) (concat (bt_values bids)) of
             _ # second # _ \<Rightarrow> Some second | _ \<Rightarrow> None
      else None)"

definition round_quorum_met :: "mechanism_round \<Rightarrow> bool" where
  "round_quorum_met r \<longleftrightarrow>
     (let n = length (mro_ballots r) mod 2 ^ 32 in n \<ge> mro_quorum r \<and> n \<ge> mro_min_participants r)"

definition tally_mechanism_round :: "mechanism_round \<Rightarrow> uuid \<Rightarrow> mechanism_decision" where
  "tally_mechanism_round r new_id =
     (let participant_count = length (mro_ballots r) mod 2 ^ 32 in
      if \<not> round_quorum_met r
      then (| md_id = new_id, md_goal_id = mro_goal_id r, md_round_id = mro_id r,
              md_selected_proposal_id = None, md_selected_label = None, md_score = 0,
              md_clearing_price = None, md_participant_count = participant_count,
              md_quorum_met = False, md_status = MRD_QuorumPending,
              md_reason = ''waiting for quorum: '' @ dec participant_count @ '' of ''
                @ dec (max (mro_quorum r) (mro_min_participants r)) @ '' participants'' |)
      else let (scores, bids) = tally_ballots (mro_mechanism r) (mro_ballots r);
               selected = max_by score_le scores;
               selected_id = map_option fst selected
           in (| md_id = new_id, md_goal_id = mro_goal_id r, md_round_id = mro_id r,
              md_selected_proposal_id = selected_id,
              md_selected_label =
                (case selected_id of
                   None \<Rightarrow> None
                 | Some i \<Rightarrow> map_option mpp_label (find (\<lambda>p. mpp_id p = i) (mro_proposals r))),
              md_score = (case selected of None \<Rightarrow> 0 | Some (_, score) \<Rightarrow> score),
              md_clearing_price = clearing_price (mro_mechanism r) bids,
              md_participant_count = participant_count, md_quorum_met = True,
              md_status = (if mro_require_human_ratification r then MRD_RatificationRequired else MRD_Decided),
              md_reason = (if is_auction (mro_mechanism r)
                then ''auction tally selected the highest bid proposal''
                else ''consensus tally selected the highest scoring proposal'') |))"

section \<open>Ballots\<close>

definition participant_allowed :: "mechanism_policy \<Rightarrow> mechanism_participant_source \<Rightarrow> bool" where
  "participant_allowed p s =
     (case s of
        MPS_Human \<Rightarrow> mpol_allow_human_participants p
      | MPS_Coordinator \<Rightarrow> mpol_allow_coordinator_participants p
      | MPS_System \<Rightarrow> mpol_allow_coordinator_participants p
      | MPS_Agent \<Rightarrow> mpol_allow_agent_participants p)"

definition ballot_sender_guard :: "mechanism_ballot_request \<Rightarrow> goal_spec \<Rightarrow> domain_error + unit" where
  "ballot_sender_guard r goal =
     (let p = gsp_mechanism_policy goal in
      if mbq_goal_id r \<noteq> gsp_id goal
      then Inl (DE_MechanismDenied ''mechanism ballot goal_id does not match workflow goal'')
      else if \<not> mpol_enabled p
      then Inl (DE_MechanismDenied ''mechanism policy is disabled for this goal'')
      else if \<not> participant_allowed p (mbq_source r)
      then Inl (DE_MechanismDenied (participant_source_debug (mbq_source r)
             @ '' participants are disabled for this goal''))
      else Inr ())"

definition round_closed :: "mechanism_round \<Rightarrow> bool" where
  "round_closed r \<longleftrightarrow> mro_status r \<in> {MRD_Decided, MRD_RatificationRequired, MRD_Cancelled}"

definition ballot_round_guard :: "mechanism_ballot_request \<Rightarrow> mechanism_round \<Rightarrow> domain_error + unit" where
  "ballot_round_guard r round =
     (if round_closed round
      then Inl (DE_MechanismDenied (''mechanism round '' @ mbq_round_id r @ '' is not open''))
      else case find (\<lambda>a. mal_proposal_id a \<notin> set (map mpp_id (mro_proposals round))) (mbq_allocations r) of
        Some a \<Rightarrow> Inl (DE_MechanismDenied (''unknown mechanism proposal: '' @ mal_proposal_id a))
      | None \<Rightarrow>
          if is_auction (mro_mechanism round) \<and> list_all (\<lambda>a. mal_bid a = None) (mbq_allocations r)
          then Inl (DE_MechanismDenied ''auction mechanism ballots require at least one bid'')
          else Inr ())"

definition ballot_of :: "mechanism_ballot_request \<Rightarrow> goal_spec \<Rightarrow> uuid \<Rightarrow> mechanism_ballot" where
  "ballot_of r goal new_id = (|
     mb_id = new_id, mb_goal_id = gsp_id goal, mb_round_id = mbq_round_id r,
     mb_participant = mbq_participant r, mb_source = mbq_source r,
     mb_allocations = mbq_allocations r, mb_rationale = mbq_rationale r |)"

definition cast_ballot :: "mechanism_ballot \<Rightarrow> mechanism_round \<Rightarrow> mechanism_round" where
  "cast_ballot b round = round (| mro_ballots :=
     filter (\<lambda>x. mb_participant x \<noteq> mb_participant b) (mro_ballots round) @ [b] |)"

definition settle_round :: "mechanism_decision \<Rightarrow> mechanism_round \<Rightarrow> mechanism_round" where
  "settle_round d round = round (| mro_status := md_status d, mro_decision := Some d |)"

definition put_round :: "nat \<Rightarrow> mechanism_round \<Rightarrow> unit wop" where
  "put_round k round = update (\<lambda>w. w (| gs_mechanism_rounds := (gs_mechanism_rounds w)[k := round] |))"

definition record_mechanism_ballot :: "mechanism_ballot_request \<Rightarrow> mechanism_decision wop" where
  "record_mechanism_ballot r =
     reads (\<lambda>w.
       bindR (lift_result (\<lambda>_. ballot_sender_guard r (gs_goal w))) (\<lambda>_.
       case position (\<lambda>x. mro_id x = mbq_round_id r) (gs_mechanism_rounds w) of
         None \<Rightarrow> fail (DE_MechanismRoundNotFound (mbq_round_id r))
       | Some k \<Rightarrow>
           bindR (lift_result (\<lambda>_. ballot_round_guard r (gs_mechanism_rounds w ! k))) (\<lambda>_.
           bindR new_uuid (\<lambda>ballot_id.
           bindR new_uuid (\<lambda>decision_id.
           let round = cast_ballot (ballot_of r (gs_goal w) ballot_id) (gs_mechanism_rounds w ! k);
               d = tally_mechanism_round round decision_id
           in bindR (put_round k (settle_round d round)) (\<lambda>_.
              bindR (push_event (''mechanism_ballot_recorded:'' @ mbq_round_id r @ '':''
                       @ mbq_participant r @ '':'' @ mechanism_status_debug (md_status d))) (\<lambda>_.
              ok d)))))))"

section \<open>The tree is kept\<close>

lemma preserves_wf_start_mechanism_round [preserves_rules]:
  "preserves (knows T) (start_mechanism_round uuid_v5 r)"
proof -
  have upd: "preserves (knows T) (update (\<lambda>w. w (| gs_mechanism_rounds := f w |)))" for f
    by (rule preserves_wf_frame) simp_all
  show ?thesis unfolding start_mechanism_round_def Let_def by (intro preserves_rules upd)
qed

lemma preserves_wf_record_mechanism_ballot [preserves_rules]:
  "preserves (knows T) (record_mechanism_ballot r)"
proof -
  have upd: "preserves (knows T) (put_round k round)" for k round
    unfolding put_round_def by (rule preserves_wf_frame) simp_all
  show ?thesis unfolding record_mechanism_ballot_def Let_def by (intro preserves_rules upd)
qed

section \<open>What the tally computes\<close>

interpretation tally_order: comparator score_le
  unfolding score_le_def
  by (intro comparator_then_with comparator_key) (unfold_locales, auto)

interpretation bid_order: comparator "\<lambda>x y :: 64 word. y \<le> x"
  by unfold_locales auto

lemma mset_sort_by: "mset (sort_by le xs) = mset xs"
proof -
  have "mset (insert_by le x xs) = add_mset x (mset xs)" for x xs by (induction xs) auto
  then show ?thesis by (induction xs) auto
qed

text \<open>What one allocation adds to the score of a proposal, and the score of a proposal.\<close>

definition contribution :: "mechanism_kind \<Rightarrow> mechanism_allocation \<Rightarrow> (uuid \<times> int) option" where
  "contribution k a =
     (if is_auction k then map_option (\<lambda>b. (mal_proposal_id a, sint b)) (mal_bid a)
      else Some (mal_proposal_id a, mal_support a + rank_bonus a))"

definition contributions :: "mechanism_kind \<Rightarrow> mechanism_allocation list \<Rightarrow> (uuid \<times> int) list" where
  "contributions k as = List.map_filter (contribution k) as"

definition all_allocations :: "mechanism_round \<Rightarrow> mechanism_allocation list" where
  "all_allocations r = concat (map mb_allocations (mro_ballots r))"

definition round_contributions :: "mechanism_round \<Rightarrow> (uuid \<times> int) list" where
  "round_contributions r = contributions (mro_mechanism r) (all_allocations r)"

definition support_of :: "(uuid \<times> int) list \<Rightarrow> uuid \<Rightarrow> int" where
  "support_of cs i = (\<Sum>c \<leftarrow> filter (\<lambda>c. fst c = i) cs. snd c)"

lemma contributions_snoc:
  "contributions k (as @ [a]) = contributions k as @ (case contribution k a of None \<Rightarrow> [] | Some c \<Rightarrow> [c])"
  by (auto simp: contributions_def List.map_filter_def split: option.splits)

lemma support_of_snoc: "support_of (cs @ [c]) i = support_of cs i + (if fst c = i then snd c else 0)"
  by (simp add: support_of_def)

lemma tally_ballots_flat:
  "tally_ballots k bs = fold (tally_allocation k) (concat (map mb_allocations bs)) ([], [])"
proof -
  have "fold (\<lambda>b. fold (tally_allocation k) (mb_allocations b)) bs acc =
      fold (tally_allocation k) (concat (map mb_allocations bs)) acc" for acc
    by (induction bs arbitrary: acc) (simp_all add: fold_append)
  then show ?thesis by (simp add: tally_ballots_def)
qed

lemma run_tally_allocation:
  "tally_allocation k a (m, b) =
     (if \<not> is_auction k then (add_score (mal_proposal_id a) (mal_support a + rank_bonus a) m, b)
      else case mal_bid a of
        None \<Rightarrow> (m, b)
      | Some bid \<Rightarrow> (add_score (mal_proposal_id a) (sint bid) m, add_bid (mal_proposal_id a) bid b))"
  by (simp add: tally_allocation_def)

definition scores_ok :: "(uuid \<times> int) list \<Rightarrow> (uuid, int) btree \<Rightarrow> bool" where
  "scores_ok cs m \<longleftrightarrow> bt_wf m \<and>
     (\<forall>i. bt_get m i = (if i \<in> fst ` set cs then Some (wrap_i64 (support_of cs i)) else None))"

lemma scores_ok_add:
  assumes "scores_ok cs m"
  shows "scores_ok (cs @ [(i, x)]) (add_score i x m)"
proof -
  have new: "unwrap_or (bt_get m i) 0 = wrap_i64 (support_of cs i)"
  proof (cases "i \<in> fst ` set cs")
    case False
    then have "filter (\<lambda>c. fst c = i) cs = []" by (auto simp: filter_empty_conv)
    with False assms show ?thesis
      by (simp add: scores_ok_def unwrap_or_def support_of_def wrap_i64_id fits_i64_def)
  qed (use assms in \<open>simp add: scores_ok_def unwrap_or_def\<close>)
  then show ?thesis
    using assms
    by (auto simp: scores_ok_def add_score_def bt_wf_insert get_insert support_of_snoc wrap_i64_add)
qed

lemma scores_of_tally:
  "scores_ok (contributions k as) (fst (fold (tally_allocation k) as ([], [])))"
proof (induction as rule: rev_induct)
  case Nil
  then show ?case by (simp add: scores_ok_def contributions_def List.map_filter_def bt_wf_def bt_get_def)
next
  case (snoc a as)
  obtain m b where mb: "fold (tally_allocation k) as ([], []) = (m, b)" by fastforce
  with snoc scores_ok_add [of "contributions k as" m] show ?case
    by (auto simp: contributions_snoc contribution_def run_tally_allocation split: option.splits)
qed

lemma mset_bids_add:
  "bt_wf m \<Longrightarrow> mset (concat (bt_values (add_bid i b m))) = add_mset b (mset (concat (bt_values m)))"
proof (induction m)
  case (Cons p m)
  obtain k v where p: "p = (k, v)" by fastforce
  have wf: "bt_wf m" using Cons.prems by (simp add: bt_wf_def)
  have later: "bt_get (p # m) i = bt_get m i" if "\<not> i \<le> k" using that p by (auto simp: bt_get_def)
  have first: "bt_get (p # m) i = None" if "i < k"
    using that Cons.prems p by (auto simp: get_None_keys bt_wf_def)
  consider "i < k" | "i = k" | "\<not> i \<le> k" by fastforce
  then show ?case
  proof cases
    case 3
    then have "add_bid i b (p # m) = p # add_bid i b m" using later p by (auto simp: add_bid_def)
    with Cons.IH [OF wf] show ?thesis by (simp add: bt_values_def)
  qed (use p first in \<open>auto simp: add_bid_def bt_values_def bt_get_def unwrap_or_def\<close>)
qed (simp add: add_bid_def bt_values_def bt_get_def unwrap_or_def)

lemma bids_of_tally:
  assumes "is_auction k"
  shows "bt_wf (snd (fold (tally_allocation k) as ([], []))) \<and>
    mset (concat (bt_values (snd (fold (tally_allocation k) as ([], []))))) = mset (List.map_filter mal_bid as)"
proof (induction as rule: rev_induct)
  case Nil
  then show ?case by (simp add: List.map_filter_def bt_wf_def bt_values_def)
next
  case (snoc a as)
  obtain m b where mb: "fold (tally_allocation k) as ([], []) = (m, b)" by fastforce
  show ?case
  proof (cases "mal_bid a")
    case None
    with snoc mb assms show ?thesis by (simp add: run_tally_allocation List.map_filter_def)
  next
    case (Some bid)
    have "bt_wf (add_bid i x b)" for i x
      using snoc mb by (simp add: add_bid_def bt_wf_insert)
    moreover have "mset (concat (bt_values (add_bid (mal_proposal_id a) bid b))) =
        add_mset bid (mset (List.map_filter mal_bid as))"
      using mset_bids_add [of b] snoc mb by simp
    ultimately show ?thesis
      using Some mb assms by (simp add: run_tally_allocation List.map_filter_def)
  qed
qed

lemma tally_selects_best:
  assumes "round_quorum_met r"
  shows "case md_selected_proposal_id (tally_mechanism_round r d) of
      None \<Rightarrow> round_contributions r = [] \<and> md_score (tally_mechanism_round r d) = 0
    | Some i \<Rightarrow> i \<in> fst ` set (round_contributions r) \<and>
        md_score (tally_mechanism_round r d) = wrap_i64 (support_of (round_contributions r) i) \<and>
        (\<forall>j \<in> fst ` set (round_contributions r).
           wrap_i64 (support_of (round_contributions r) j) < wrap_i64 (support_of (round_contributions r) i) \<or>
           wrap_i64 (support_of (round_contributions r) j) = wrap_i64 (support_of (round_contributions r) i) \<and> i \<le> j)"
proof -
  let ?cs = "round_contributions r"
  obtain m b where mb: "tally_ballots (mro_mechanism r) (mro_ballots r) = (m, b)" by fastforce
  have ok: "scores_ok ?cs m"
    using scores_of_tally [of "mro_mechanism r" "all_allocations r"] mb
    by (simp add: tally_ballots_flat all_allocations_def round_contributions_def)
  have mem: "(i, x) \<in> set m \<longleftrightarrow> i \<in> fst ` set ?cs \<and> x = wrap_i64 (support_of ?cs i)" for i x
    using ok btree.entries_get [of m i x] by (auto simp: scores_ok_def split: if_splits)
  have sel: "md_selected_proposal_id (tally_mechanism_round r d) = map_option fst (max_by score_le m)"
    "md_score (tally_mechanism_round r d) = (case max_by score_le m of None \<Rightarrow> 0 | Some (_, x) \<Rightarrow> x)"
    using assms mb by (simp_all add: tally_mechanism_round_def Let_def)
  show ?thesis
  proof (cases "max_by score_le m")
    case None
    then have "\<not> (i, x) \<in> set m" for i x by simp
    then have "j \<notin> fst ` set ?cs" for j
      using mem [of j "wrap_i64 (support_of ?cs j)"] by simp
    then have "?cs = []" by (metis image_is_empty set_empty2 ex_in_conv)
    with None sel show ?thesis by simp
  next
    case (Some s)
    obtain i x where s: "s = (i, x)" by fastforce
    have "(i, x) \<in> set m" using max_by_mem [OF Some] s by simp
    then have i: "i \<in> fst ` set ?cs" "x = wrap_i64 (support_of ?cs i)" using mem [of i x] by auto
    have "wrap_i64 (support_of ?cs j) < x \<or> wrap_i64 (support_of ?cs j) = x \<and> i \<le> j"
      if "j \<in> fst ` set ?cs" for j
      using tally_order.max_by_upper [OF Some] mem that s
      by (fastforce simp: score_le_def then_with_def)
    with i have top: "i \<in> fst ` set ?cs \<and> x = wrap_i64 (support_of ?cs i) \<and> (\<forall>j \<in> fst ` set ?cs.
        wrap_i64 (support_of ?cs j) < x \<or> wrap_i64 (support_of ?cs j) = x \<and> i \<le> j)" by blast
    have "md_selected_proposal_id (tally_mechanism_round r d) = Some i" "md_score (tally_mechanism_round r d) = x"
      using Some sel s by simp_all
    with top show ?thesis by (simp only: option.case) blast
  qed
qed

text \<open>
  C27: The tally picks the best-supported proposal.  Once a round has its quorum, the
  decision names the proposal with the largest support, the smallest identifier among
  equals, and reports that support; it names none exactly when no allocation counts.
  Support is the sum of what the allocations of all ballots contribute, reduced to 64 bits.
\<close>
theorem mechanism_picks_the_best_proposal:
  assumes "round_quorum_met r"
  shows "case md_selected_proposal_id (tally_mechanism_round r d) of
      None \<Rightarrow> round_contributions r = [] \<and> md_score (tally_mechanism_round r d) = 0
    | Some i \<Rightarrow> i \<in> fst ` set (round_contributions r) \<and>
        md_score (tally_mechanism_round r d) = wrap_i64 (support_of (round_contributions r) i) \<and>
        (\<forall>j \<in> fst ` set (round_contributions r).
           wrap_i64 (support_of (round_contributions r) j) < wrap_i64 (support_of (round_contributions r) i) \<or>
           wrap_i64 (support_of (round_contributions r) j) = wrap_i64 (support_of (round_contributions r) i) \<and> i \<le> j)"
  by (rule tally_selects_best [OF assms])

text \<open>Three agents, two proposals: the tie goes to the smaller identifier.\<close>

definition sample_ballot :: "string \<Rightarrow> mechanism_allocation list \<Rightarrow> mechanism_ballot" where
  "sample_ballot who as = (| mb_id = ''b'', mb_goal_id = ''g'', mb_round_id = ''r'', mb_participant = who,
     mb_source = MPS_Agent, mb_allocations = as, mb_rationale = [] |)"

definition sample_round :: "mechanism_kind \<Rightarrow> mechanism_ballot list \<Rightarrow> mechanism_round" where
  "sample_round k bs = (| mro_id = ''r'', mro_goal_id = ''g'', mro_title = [], mro_mechanism = k,
     mro_target = MTG_Custom, mro_status = MRD_Open, mro_reason = [],
     mro_proposals = map (\<lambda>i. (| mpp_id = i, mpp_label = i, mpp_description = [], mpp_proposer = [],
       mpp_metadata = [] |)) [''p'', ''q''],
     mro_ballots = bs, mro_quorum = 2, mro_min_participants = 1,
     mro_require_human_ratification = False, mro_decision = None |)"

definition support_for :: "uuid \<Rightarrow> int \<Rightarrow> mechanism_allocation" where
  "support_for i x = (| mal_proposal_id = i, mal_support = x, mal_rank = None, mal_bid = None |)"

definition bid_for :: "uuid \<Rightarrow> 64 word \<Rightarrow> mechanism_allocation" where
  "bid_for i b = (| mal_proposal_id = i, mal_support = 0, mal_rank = None, mal_bid = Some b |)"

theorem mechanism_picks_the_best_proposal_witness:
  "md_selected_proposal_id (tally_mechanism_round (sample_round MK_ApprovalVote
     [sample_ballot ''x'' [support_for ''q'' 3], sample_ballot ''y'' [support_for ''p'' 3]]) ''d'') \<noteq> None"
  (is "md_selected_proposal_id (tally_mechanism_round ?r _) \<noteq> None")
proof -
  have "round_quorum_met ?r" by (simp add: round_quorum_met_def sample_round_def)
  from mechanism_picks_the_best_proposal [OF this, of "''d''"]
  have "md_selected_proposal_id (tally_mechanism_round ?r ''d'') = None \<Longrightarrow> round_contributions ?r = []" by simp
  moreover have "round_contributions ?r \<noteq> []"
    by (simp add: round_contributions_def all_allocations_def sample_round_def sample_ballot_def
        contributions_def List.map_filter_def contribution_def is_auction_def)
  ultimately show ?thesis by blast
qed

text \<open>
  A Vickrey auction clears at the second-highest bid.  Once a Vickrey round has its
  quorum, it has a clearing price iff at least two bids were made; the price is then one of
  the bids, at most one bid is higher and at least two reach it.
\<close>
theorem vickrey_clears_at_the_second_price:
  assumes "round_quorum_met r" and "mro_mechanism r = MK_VickreyAuction"
  shows "case md_clearing_price (tally_mechanism_round r d) of
      None \<Rightarrow> length (List.map_filter mal_bid (all_allocations r)) < 2
    | Some price \<Rightarrow>
        length (filter (\<lambda>b. price < b) (List.map_filter mal_bid (all_allocations r))) \<le> 1 \<and>
        2 \<le> length (filter (\<lambda>b. price \<le> b) (List.map_filter mal_bid (all_allocations r))) \<and>
        price \<in> set (List.map_filter mal_bid (all_allocations r))"
proof -
  let ?bids = "List.map_filter mal_bid (all_allocations r)"
  obtain m b where mb: "tally_ballots (mro_mechanism r) (mro_ballots r) = (m, b)" by fastforce
  let ?s = "sort_by (\<lambda>x y. y \<le> x) (concat (bt_values b))"
  have "mset (concat (bt_values b)) = mset ?bids"
    using bids_of_tally [of "mro_mechanism r" "all_allocations r"] assms(2) mb
    by (simp add: tally_ballots_flat all_allocations_def is_auction_def)
  then have s: "mset ?s = mset ?bids" by (simp add: mset_sort_by)
  then have count: "length (filter P ?s) = length (filter P ?bids)" for P
    by (metis mset_filter size_mset)
  have price: "md_clearing_price (tally_mechanism_round r d) = (case ?s of _ # x # _ \<Rightarrow> Some x | _ \<Rightarrow> None)"
    using assms mb by (simp add: tally_mechanism_round_def clearing_price_def Let_def)
  show ?thesis
  proof (cases "2 \<le> length ?s")
    case True
    then obtain x y rest where xy: "?s = x # y # rest"
      by (cases ?s; cases "tl ?s") auto
    have "sorted_wrt (\<lambda>x y. y \<le> x) ?s" by (rule bid_order.sort_by_sorted)
    then have *: "y \<le> x" "\<forall>z \<in> set rest. z \<le> y" using xy by auto
    then have "filter (\<lambda>b. y < b) rest = []" by (auto simp: filter_empty_conv)
    then have "length (filter (\<lambda>b. y < b) ?s) \<le> 1" using xy by simp
    moreover have "2 \<le> length (filter (\<lambda>b. y \<le> b) ?s)" using xy * by simp
    moreover have "y \<in> set ?bids" using s xy by (metis list.set_intros mset_eq_setD)
    ultimately show ?thesis using price xy count by simp
  next
    case False
    then have "length ?bids < 2" using s by (metis not_less size_mset)
    moreover have "(case ?s of _ # x # _ \<Rightarrow> Some x | _ \<Rightarrow> None) = None"
      using False by (auto simp del: length_sort_by split: list.splits)
    ultimately show ?thesis using price by simp
  qed
qed

theorem vickrey_clears_at_the_second_price_witness:
  "\<exists>price. md_clearing_price (tally_mechanism_round (sample_round MK_VickreyAuction
     [sample_ballot ''x'' [bid_for ''q'' 9], sample_ballot ''y'' [bid_for ''p'' 4]]) ''d'') = Some price \<and> price = 4"
  (is "\<exists>price. md_clearing_price (tally_mechanism_round ?r _) = _ \<and> _")
proof -
  have "round_quorum_met ?r" by (simp add: round_quorum_met_def sample_round_def)
  note second = vickrey_clears_at_the_second_price [OF this, of "''d''"]
  have bids: "List.map_filter mal_bid (all_allocations ?r) = [9, 4]"
    by (simp add: all_allocations_def sample_round_def sample_ballot_def bid_for_def List.map_filter_def)
  have "mro_mechanism ?r = MK_VickreyAuction" by (simp add: sample_round_def)
  from second [OF this] show ?thesis
    by (auto simp: bids split: option.splits if_splits)
qed

text \<open>
  A bid of half the 64-bit range or more loses.  Bids are \<open>u64\<close> but scores are \<open>i64\<close>:
  in this auction the bid \<open>2 ^ 63\<close> has the score \<open>- 2 ^ 63\<close> and the bid of one wins.
\<close>
theorem huge_bid_loses:
  "md_selected_proposal_id (tally_mechanism_round (sample_round MK_SealedBidAuction
     [sample_ballot ''x'' [bid_for ''q'' (2 ^ 63)], sample_ballot ''y'' [bid_for ''p'' 1]]) ''d'') = Some ''p'' \<and>
   md_score (tally_mechanism_round (sample_round MK_SealedBidAuction
     [sample_ballot ''x'' [bid_for ''q'' (2 ^ 63)], sample_ballot ''y'' [bid_for ''p'' 1]]) ''d'') = 1"
  (is "md_selected_proposal_id ?d = _ \<and> _")
proof -
  let ?r = "sample_round MK_SealedBidAuction
     [sample_ballot ''x'' [bid_for ''q'' (2 ^ 63)], sample_ballot ''y'' [bid_for ''p'' 1]]"
  have "sint (2 ^ 63 :: 64 word) = - (2 ^ 63)" by simp
  then have cs: "round_contributions ?r = [(''q'', - (2 ^ 63)), (''p'', 1)]"
    by (simp add: round_contributions_def contributions_def all_allocations_def sample_round_def
        sample_ballot_def bid_for_def List.map_filter_def contribution_def is_auction_def)
  have support: "wrap_i64 (support_of [(''q'', - (2 ^ 63)), (''p'', 1)] ''q'') = - (2 ^ 63)"
    "wrap_i64 (support_of [(''q'', - (2 ^ 63)), (''p'', 1)] ''p'') = 1"
    by (simp_all add: support_of_def wrap_i64_id fits_i64_def)
  have "round_quorum_met ?r" by (simp add: round_quorum_met_def sample_round_def)
  from tally_selects_best [OF this, of "''d''", unfolded cs] support show ?thesis
    by (auto split: option.splits)
qed

section \<open>Rounds stay sound\<close>

definition round_sound :: "mechanism_round \<Rightarrow> bool" where
  "round_sound r \<longleftrightarrow>
     distinct (map mb_participant (mro_ballots r)) \<and>
     (\<forall>a \<in> set (all_allocations r). mal_proposal_id a \<in> set (map mpp_id (mro_proposals r))) \<and>
     mro_proposals r \<noteq> [] \<and> 1 \<le> mro_quorum r \<and> 1 \<le> mro_min_participants r \<and>
     (round_closed r \<longleftrightarrow> round_quorum_met r) \<and>
     (case mro_decision r of
        None \<Rightarrow> mro_status r = MRD_Open \<and> mro_ballots r = []
      | Some d \<Rightarrow> \<exists>i. d = tally_mechanism_round r i \<and> mro_status r = md_status d)"

definition rounds_sound :: "world \<Rightarrow> bool" where
  "rounds_sound w \<longleftrightarrow>
     length (gs_mechanism_rounds w) \<le> mpol_max_rounds (gsp_mechanism_policy (gs_goal w)) \<and>
     (\<forall>r \<in> set (gs_mechanism_rounds w). round_sound r)"

lemma tally_cong:
  "tally_mechanism_round (settle_round d r) i = tally_mechanism_round r i"
proof -
  have fields: "mro_ballots (settle_round d r) = mro_ballots r" "mro_id (settle_round d r) = mro_id r"
    "mro_goal_id (settle_round d r) = mro_goal_id r" "mro_quorum (settle_round d r) = mro_quorum r"
    "mro_min_participants (settle_round d r) = mro_min_participants r"
    "mro_mechanism (settle_round d r) = mro_mechanism r" "mro_proposals (settle_round d r) = mro_proposals r"
    "mro_require_human_ratification (settle_round d r) = mro_require_human_ratification r"
    by (simp_all add: settle_round_def)
  show ?thesis unfolding tally_mechanism_round_def round_quorum_met_def fields by (rule refl)
qed

lemma tally_quorum: "md_quorum_met (tally_mechanism_round r i) \<longleftrightarrow> round_quorum_met r"
  by (simp add: tally_mechanism_round_def Let_def split: prod.splits)

lemma tally_status:
  "md_status (tally_mechanism_round r i) =
     (if \<not> round_quorum_met r then MRD_QuorumPending
      else if mro_require_human_ratification r then MRD_RatificationRequired else MRD_Decided)"
  by (simp add: tally_mechanism_round_def Let_def split: prod.splits)

lemma round_sound_new:
  assumes "mrq_proposals r \<noteq> []"
  shows "round_sound (new_round uuid_v5 goal r i)"
proof -
  have "round_proposals uuid_v5 g i (mrq_proposals r) \<noteq> []" for g
    using assms by (cases "mrq_proposals r") (simp_all add: round_proposals_def)
  moreover have "1 \<le> mro_quorum (new_round uuid_v5 goal r i)"
    "mro_ballots (new_round uuid_v5 goal r i) = []"
    "mro_status (new_round uuid_v5 goal r i) = MRD_Open"
    by (simp_all add: new_round_def Let_def)
  moreover from this have "\<not> round_quorum_met (new_round uuid_v5 goal r i)"
    by (simp add: round_quorum_met_def)
  ultimately show ?thesis
    by (simp add: round_sound_def all_allocations_def round_closed_def) (simp add: new_round_def Let_def)
qed

lemma round_sound_cast:
  assumes old: "round_sound round" and guard: "ballot_round_guard r round = Inr ()"
    and new: "new = cast_ballot (ballot_of r goal i) round"
  shows "round_sound (settle_round (tally_mechanism_round new j) new)"
proof -
  let ?d = "tally_mechanism_round new j"
  let ?r = "settle_round ?d new"
  have allowed: "mal_proposal_id a \<in> set (map mpp_id (mro_proposals round))" if "a \<in> set (mbq_allocations r)" for a
    using guard that
    by (auto simp: ballot_round_guard_def find_None_iff split: option.splits if_splits)
  have fields: "mro_proposals ?r = mro_proposals round" "mro_quorum ?r = mro_quorum round"
    "mro_min_participants ?r = mro_min_participants round" "mro_ballots ?r = mro_ballots new"
    "mro_status ?r = md_status ?d" "mro_decision ?r = Some ?d"
    "mro_ballots new = filter (\<lambda>x. mb_participant x \<noteq> mbq_participant r) (mro_ballots round) @ [ballot_of r goal i]"
    by (simp_all add: new settle_round_def cast_ballot_def ballot_of_def)
  have "distinct (map mb_participant (filter P (mro_ballots round)))" for P
    using old by (simp add: round_sound_def distinct_map inj_on_def)
  then have "distinct (map mb_participant (mro_ballots ?r))"
    by (simp add: fields) (auto simp: ballot_of_def)
  moreover have "mal_proposal_id a \<in> set (map mpp_id (mro_proposals ?r))" if "a \<in> set (all_allocations ?r)" for a
    using that old allowed
    by (auto simp: fields all_allocations_def round_sound_def ballot_of_def)
  moreover have "round_quorum_met ?r = round_quorum_met new"
    by (simp add: round_quorum_met_def settle_round_def)
  moreover have "round_closed ?r \<longleftrightarrow> round_quorum_met new"
    by (simp add: round_closed_def fields tally_status)
  moreover have "?d = tally_mechanism_round ?r j" by (simp add: tally_cong)
  ultimately show ?thesis
    using old unfolding round_sound_def [of ?r] by (auto simp: fields round_sound_def [of round])
qed

lemma record_ballot_cases:
  assumes "record_mechanism_ballot r w = (res, v)"
  obtains (refused) e where "res = Inl e" "v = w"
  | (cast) k i j where "position (\<lambda>x. mro_id x = mbq_round_id r) (gs_mechanism_rounds w) = Some k"
      "ballot_round_guard r (gs_mechanism_rounds w ! k) = Inr ()"
      "res = Inr (tally_mechanism_round (cast_ballot (ballot_of r (gs_goal w) i) (gs_mechanism_rounds w ! k)) j)"
      "gs_mechanism_rounds v = (gs_mechanism_rounds w)[k :=
         settle_round (tally_mechanism_round (cast_ballot (ballot_of r (gs_goal w) i) (gs_mechanism_rounds w ! k)) j)
           (cast_ballot (ballot_of r (gs_goal w) i) (gs_mechanism_rounds w ! k))]"
      "gs_goal v = gs_goal w"
proof -
  show thesis
  proof (cases "ballot_sender_guard r (gs_goal w)")
    case Inl
    with assms show ?thesis by (intro refused) (auto simp: record_mechanism_ballot_def)
  next
    case sender: (Inr u)
    show ?thesis
    proof (cases "position (\<lambda>x. mro_id x = mbq_round_id r) (gs_mechanism_rounds w)")
      case None
      with assms sender show ?thesis by (intro refused) (auto simp: record_mechanism_ballot_def)
    next
      case pos: (Some k)
      show ?thesis
      proof (cases "ballot_round_guard r (gs_mechanism_rounds w ! k)")
        case Inl
        with assms sender pos show ?thesis by (intro refused) (auto simp: record_mechanism_ballot_def)
      next
        case guard: (Inr x)
        from assms sender pos guard show ?thesis
          by (intro cast [OF pos, of "uuid_tape w (uuids_drawn w)" "uuid_tape w (Suc (uuids_drawn w))"])
             (auto simp: record_mechanism_ballot_def put_round_def bind_rules Let_def)
      qed
    qed
  qed
qed

lemma rounds_sound_start:
  assumes ok: "rounds_sound w" and u32: "mpol_max_rounds (gsp_mechanism_policy (gs_goal w)) < 2 ^ 32"
  shows "rounds_sound (snd (start_mechanism_round uuid_v5 r w))"
proof (cases "start_round_guard r w = Inr () \<and> mrq_proposals r \<noteq> []")
  case True
  let ?rounds = "gs_mechanism_rounds w" and ?r = "new_round uuid_v5 (gs_goal w) r (uuid_tape w (uuids_drawn w))"
  have after: "gs_mechanism_rounds (snd (start_mechanism_round uuid_v5 r w)) = ?rounds @ [?r]"
    "gs_goal (snd (start_mechanism_round uuid_v5 r w)) = gs_goal w"
    using True by (simp_all add: start_mechanism_round_def bind_rules Let_def)
  have "length ?rounds mod 2 ^ 32 = length ?rounds"
    using ok u32 unfolding rounds_sound_def by (intro mod_less) (rule le_less_trans, rule conjunct1)
  moreover have "length ?rounds mod 2 ^ 32 < mpol_max_rounds (gsp_mechanism_policy (gs_goal w))"
    using True by (simp add: start_round_guard_def Let_def split: if_splits)
  ultimately have "length ?rounds < mpol_max_rounds (gsp_mechanism_policy (gs_goal w))" by simp
  moreover have "round_sound ?r" using True by (intro round_sound_new) simp
  ultimately show ?thesis using ok by (simp add: rounds_sound_def after)
next
  case False
  then have "gs_mechanism_rounds (snd (start_mechanism_round uuid_v5 r w)) = gs_mechanism_rounds w"
    "gs_goal (snd (start_mechanism_round uuid_v5 r w)) = gs_goal w"
    by (auto simp: start_mechanism_round_def bind_rules split: sum.splits)
  with ok show ?thesis by (simp add: rounds_sound_def)
qed

lemma rounds_sound_ballot:
  assumes ok: "rounds_sound w"
  shows "rounds_sound (snd (record_mechanism_ballot b w))"
proof -
  obtain res v where run: "record_mechanism_ballot b w = (res, v)" by fastforce
  then show "rounds_sound (snd (record_mechanism_ballot b w))"
  proof (cases rule: record_ballot_cases)
    case refused
    with run ok show ?thesis by simp
  next
    case (cast k i j)
    have "round_sound (gs_mechanism_rounds w ! k)"
      using position_Some [OF cast(1)] ok by (simp add: rounds_sound_def)
    note new = round_sound_cast [OF this cast(2) refl, of "gs_goal w" i j]
    have "round_sound x" if "x \<in> set (gs_mechanism_rounds v)" for x
      using that new ok set_update_subset_insert unfolding cast(4) rounds_sound_def by fast
    with run ok cast(4,5) show ?thesis by (simp add: rounds_sound_def)
  qed
qed

text \<open>
  C26: Mechanism rounds stay sound.  However rounds are opened and ballots cast, with or
  without errors: there are never more rounds than \<open>max_rounds\<close>; in every round each
  participant has at most one ballot, every allocation names a proposal of the round, and
  the round is closed exactly when quorum and minimal participation are reached, with a
  decision that is the tally of its ballots.
\<close>
theorem mechanism_rounds_stay_sound:
  assumes "rounds_sound w" and "mpol_max_rounds (gsp_mechanism_policy (gs_goal w)) < 2 ^ 32"
  shows "rounds_sound (snd (start_mechanism_round uuid_v5 r w)) \<and>
    rounds_sound (snd (record_mechanism_ballot b w))"
  using assms rounds_sound_start rounds_sound_ballot by blast

theorem mechanism_rounds_stay_sound_witness:
  "rounds_sound (snd (start_mechanism_round id (| mrq_goal_id = ''g'', mrq_title = [], mrq_mechanism = None,
     mrq_target = MTG_Custom, mrq_reason = [], mrq_proposals = [], mrq_quorum = None,
     mrq_min_participants = None, mrq_require_human_ratification = None |) (world_of sample_goal [])))"
  by (rule conjunct1, rule mechanism_rounds_stay_sound)
     (simp_all add: rounds_sound_def mechanism_policy_default_def)

text \<open>
  A decided round is closed for good.  When a ballot settles its round (the decision
  has its quorum), every later ballot for that round is refused and nothing changes.
\<close>
theorem decided_round_refuses_ballots:
  assumes run: "record_mechanism_ballot b w = (Inr d, v)" and "md_quorum_met d"
    and "mbq_round_id b' = mbq_round_id b"
  shows "\<exists>e. record_mechanism_ballot b' v = (Inl e, v)"
  using run
proof (cases rule: record_ballot_cases)
  case (cast k i j)
  let ?r = "cast_ballot (ballot_of b (gs_goal w) i) (gs_mechanism_rounds w ! k)"
  let ?s = "settle_round (tally_mechanism_round ?r j) ?r"
  let ?p = "\<lambda>x. mro_id x = mbq_round_id b"
  have "position ?p (gs_mechanism_rounds v) = Some k"
    using position_update [OF cast(1), of "\<lambda>_. ?s"] cast(4)
    by (simp add: settle_round_def cast_ballot_def)
  moreover have "gs_mechanism_rounds v ! k = ?s" using cast(4) position_Some [OF cast(1)] by simp
  moreover have "round_closed ?s"
    using cast(3) assms(2) by (auto simp: settle_round_def round_closed_def tally_status tally_quorum)
  ultimately show ?thesis
    using assms(3) by (auto simp: record_mechanism_ballot_def ballot_round_guard_def split: sum.splits)
qed simp

definition sample_ballot_request :: mechanism_ballot_request where
  "sample_ballot_request = (| mbq_goal_id = ''g'', mbq_round_id = ''r'', mbq_participant = ''y'',
     mbq_source = MPS_Human, mbq_allocations = [], mbq_rationale = [] |)"

definition round_world :: world where
  "round_world = (world_of (sample_goal (| gsp_mechanism_policy :=
       mechanism_policy_default (| mpol_enabled := True |) |)) [])
     (| gs_mechanism_rounds := [sample_round MK_ApprovalVote [sample_ballot ''x'' [support_for ''q'' 3]]] |)"

theorem decided_round_refuses_ballots_witness:
  "\<exists>d v e. record_mechanism_ballot sample_ballot_request round_world = (Inr d, v) \<and>
     record_mechanism_ballot sample_ballot_request v = (Inl e, v)"
proof -
  let ?round = "sample_round MK_ApprovalVote [sample_ballot ''x'' [support_for ''q'' 3]]"
  let ?r = "cast_ballot (ballot_of sample_ballot_request (gs_goal round_world) (uuid_tape round_world 0)) ?round"
  have w: "gs_mechanism_rounds round_world = [?round]" "uuids_drawn round_world = 0"
    "gsp_id (gs_goal round_world) = ''g''"
    "gsp_mechanism_policy (gs_goal round_world) = mechanism_policy_default (| mpol_enabled := True |)"
    by (simp_all add: round_world_def)
  have "ballot_sender_guard sample_ballot_request (gs_goal round_world) = Inr ()"
    by (simp add: ballot_sender_guard_def w sample_ballot_request_def participant_allowed_def mechanism_policy_default_def)
  moreover have "ballot_round_guard sample_ballot_request ?round = Inr ()"
    by (simp add: ballot_round_guard_def round_closed_def sample_round_def sample_ballot_request_def is_auction_def)
  moreover have "mro_id ?round = mbq_round_id sample_ballot_request"
    by (simp add: sample_round_def sample_ballot_request_def)
  ultimately obtain v where run: "record_mechanism_ballot sample_ballot_request round_world =
      (Inr (tally_mechanism_round ?r (uuid_tape round_world 1)), v)"
    by (simp add: record_mechanism_ballot_def put_round_def bind_rules Let_def w)
  have "round_quorum_met ?r"
    by (simp add: round_quorum_met_def cast_ballot_def sample_round_def ballot_of_def sample_ballot_def
        sample_ballot_request_def)
  then have "md_quorum_met (tally_mechanism_round ?r (uuid_tape round_world 1))" by (simp add: tally_quorum)
  from decided_round_refuses_ballots [OF run this refl] run show ?thesis by blast
qed

end
