(* ===== verification/Footprints.thy ===== *)
theory Footprints
  imports Review_Facts Mechanism
begin

text \<open>
  The footprints of the operations of \<open>GoalState\<close>: which parts of the state an operation can
  change.  The locale \<open>quiet\<close> is the contract of a view of the world that does not look at
  the parts every handler may touch; its extensions add the parts that only some handlers
  touch.  Inside, each operation keeps the view; the interpretations apply this to the
  views on which the invariants depend.
\<close>

lemma preserves_case_timeout:
  "preserves P r \<Longrightarrow> preserves P f \<Longrightarrow> preserves P m \<Longrightarrow>
   preserves P (case a of TA_RestartIfAllowed \<Rightarrow> r | TA_Fail \<Rightarrow> f | _ \<Rightarrow> m)"
  by (simp split: timeout_action.split)

locale quiet =
  fixes g :: "world \<Rightarrow> 'v"
  assumes quiet_fields: "g (w (| gs_tasks := a |)) = g w" "g (refresh w) = g w"
    "g (w (| gs_events := d |)) = g w"
    "g (w (| uuids_drawn := n |)) = g w" "g (w (| clock_reads := m |)) = g w"
    "g (w (| gs_approvals := e |)) = g w" "g (w (| gs_final_artifacts := h |)) = g w"
    "g (w (| gs_checkpoints := i |)) = g w" "g (w (| gs_learning_signals := j |)) = g w"
    "g (w (| gs_timeout_events := k |)) = g w" "g (w (| gs_goal_priority_votes := p |)) = g w"
    "g (w (| gs_goal_ranking_decisions := q |)) = g w"
begin

lemmas [simp] = quiet_fields

lemma frame_mark_running: "preserves (\<lambda>w. g w = v) (mark_running i)"
  unfolding mark_running_def by (intro control_rules frame_rules) simp_all

lemma frame_signal: "preserves (\<lambda>w. g w = v) (record_learning_signal r p)"
  unfolding record_learning_signal_def by (rule frame_update) simp

lemma frame_approvals:
  "preserves (\<lambda>w. g w = v) (ensure_task_approval_or_request t)"
  "preserves (\<lambda>w. g w = v) (apply_human_approval a)"
  "preserves (\<lambda>w. g w = v) (record_approval_notification x reports)"
  unfolding ensure_task_approval_or_request_def apply_human_approval_def record_approval_notification_def
    push_approval_def update_approval_def Let_def
  by ((intro control_rules frame_rules frame_update; simp)+)

lemma frame_ranking: "preserves (\<lambda>w. g w = v) (record_goal_priority_vote r)"
  unfolding record_goal_priority_vote_def compute_goal_ranking_decision_def apply_goal_ranking_decision_def
    Let_def split_def
  by (intro control_rules frame_rules frame_update) simp_all

end

locale quiet_thunks = quiet +
  assumes quiet_thunk_field: "g (w (| gs_delayed_compute_thunks := x |)) = g w"
begin

lemmas [simp] = quiet_thunk_field

lemma frame_thunks:
  "preserves (\<lambda>w. g w = v) (create_delayed_compute_thunk r)"
  "preserves (\<lambda>w. g w = v) (resume_delayed_compute_thunk q)"
  unfolding create_delayed_compute_thunk_def resume_delayed_compute_thunk_def add_thunk_def suspend_task_def push_thunk_def update_thunk_def Let_def
  by ((intro control_rules frame_rules frame_update; simp)+)

lemma frame_agent_result: "preserves (\<lambda>w. g w = v) (apply_agent_result r policy)"
  unfolding apply_agent_result_def create_result_thunk_def Let_def split_def
  by (intro control_rules frame_rules frame_thunks) simp_all

end

locale quiet_cancel = quiet_thunks +
  assumes quiet_cancelled: "g (w (| gs_status := GS_Cancelled |)) = g w"
begin

lemmas [simp] = quiet_cancelled

lemma frame_cancel: "preserves (\<lambda>w. g w = v) (cancel reason)"
  unfolding cancel_def by (intro control_rules frame_rules frame_update) simp_all

end

locale quiet_restarts = quiet_thunks +
  assumes quiet_restart_fields: "g (w (| gs_restart_history := x |)) = g w" "g (wake_goal w) = g w"
begin

lemmas [simp] = quiet_restart_fields

lemma frame_restart: "preserves (\<lambda>w. g w = v) (apply_restart_request r)"
  unfolding apply_restart_request_def push_restart_def Let_def
  by (intro control_rules frame_rules frame_update)
     (simp_all add: retire_waits_def clear_artifacts_def)

lemma frame_timeout: "preserves (\<lambda>w. g w = v) (record_task_timeout_and_maybe_restart i n m)"
  unfolding record_task_timeout_and_maybe_restart_def push_timeout_def Let_def
  by (intro control_rules frame_rules frame_update preserves_case_timeout frame_restart) simp_all

end

locale quiet_groups = quiet +
  assumes quiet_group_fields: "g (w (| gs_branch_groups := x |)) = g w" "g (w (| gs_branch_votes := y |)) = g w"
begin

lemmas [simp] = quiet_group_fields

lemma frame_group: "preserves (\<lambda>w. g w = v) (update_group k f)"
  unfolding update_group_def by (rule frame_update) simp

lemma frame_branch_task: "preserves (\<lambda>w. g w = v) (branch_task_with n r policy)"
  unfolding branch_task_with_def branch_target_task_def spawn_candidates_def close_original_def record_group_def
    push_group_def Let_def
  by (intro control_rules frame_rules frame_update) simp_all

lemma frame_auto_select: "preserves (\<lambda>w. g w = v) try_auto_select_branch_groups"
  by (rule frame_try_auto_select) simp_all

lemma frame_selection: "preserves (\<lambda>w. g w = v) (apply_branch_selection r)"
  unfolding apply_branch_selection_def by (intro control_rules frame_rules frame_group) simp_all

lemma frame_branch_spawns:
  "preserves (\<lambda>w. g w = v) (spawn_branch_votes k policy)" "preserves (\<lambda>w. g w = v) (spawn_branch_unifier k policy)"
  "preserves (\<lambda>w. g w = v) (make_ready k)"
  unfolding spawn_branch_votes_def spawn_branch_unifier_def make_ready_def Let_def
  by ((intro control_rules frame_rules frame_group frame_auto_select; simp)+)

lemma frame_advance: "preserves (\<lambda>w. g w = v) (advance_group policy i)"
  unfolding advance_group_def Let_def
  by (intro control_rules)
     (simp split: branch_group_status.split; intro conjI impI control_rules frame_branch_spawns)

lemma frame_branch_frontier: "preserves (\<lambda>w. g w = v) (ensure_branch_frontier policy)"
  unfolding ensure_branch_frontier_def by (intro control_rules frame_rules frame_advance) simp_all

end

locale quiet_reviews = quiet +
  assumes quiet_round_field: "g (w (| gs_review_rounds := x |)) = g w"
begin

lemmas [simp] = quiet_round_field

lemma frame_rounds:
  "preserves (\<lambda>w. g w = v) (spawn_review_round policy n subjects)" "preserves (\<lambda>w. g w = v) (unify_round policy k)"
  unfolding spawn_review_round_def unify_round_def push_round_def update_round_def Let_def
  by ((intro control_rules frame_rules frame_update; simp)+)

lemma frame_review_frontier: "preserves (\<lambda>w. g w = v) (ensure_review_frontier policy)"
  unfolding ensure_review_frontier_def maybe_spawn_next_review_round_def maybe_spawn_actor_retry_def Let_def
  by (intro control_rules frame_rules frame_rounds) simp_all

end

locale quiet_validation = quiet_groups + quiet_reviews
begin

lemma frame_validation: "preserves (\<lambda>w. g w = v) (apply_validation r)"
  unfolding apply_validation_def
  by (intro control_rules frame_rules frame_update frame_signal frame_auto_select frame_record_branch_vote
      frame_close_unified) (simp_all add: keep_artifacts_def)

end

locale quiet_mechanism = quiet +
  assumes quiet_mechanism_field: "g (w (| gs_mechanism_rounds := x |)) = g w"
begin

lemmas [simp] = quiet_mechanism_field

lemma frame_mechanism:
  "preserves (\<lambda>w. g w = v) (start_mechanism_round uuid_v5 r)" "preserves (\<lambda>w. g w = v) (record_mechanism_ballot b)"
  unfolding start_mechanism_round_def record_mechanism_ballot_def put_round_def Let_def
  by ((intro control_rules frame_rules frame_update; simp)+)

end

locale quiet_goal = quiet +
  assumes quiet_goal_fields: "g (set_criteria f w) = g w" "g (raise_min_satisfaction s w) = g w"
    "g (w (| gs_goal := gs_goal w (| gsp_objective := o' |) |)) = g w"
    "g (unpause w) = g w"
begin

lemmas [simp] = quiet_goal_fields

lemma frame_steer_unless_pause:
  assumes "\<And>reason. k \<noteq> SK_Pause reason"
  shows "preserves (\<lambda>w. g w = v) (steer policy target k)"
proof -
  have expand: "preserves (\<lambda>w. g w = v) (expand_done_criteria a b c d e f)" for a b c d e f
    unfolding expand_done_criteria_def by (intro control_rules frame_rules frame_update) simp_all
  have update: "preserves (\<lambda>w. g w = v) (steer_update_done_criteria a b c d)" for a b c d
    unfolding steer_update_done_criteria_def by (intro control_rules frame_rules frame_update) simp_all
  have others: "preserves (\<lambda>w. g w = v) (steer_update_objective c)"
    "preserves (\<lambda>w. g w = v) (steer_inject_task policy b c d)"
    "preserves (\<lambda>w. g w = v) (steer_request_research policy c d)"
    "preserves (\<lambda>w. g w = v) (steer_request_standard_review policy x y c z)"
    "preserves (\<lambda>w. g w = v) (steer_evaluate c)"
    "preserves (\<lambda>w. g w = v) (steer_resume c)" for b c d x y z
    unfolding steer_update_objective_def steer_inject_task_def steer_request_research_def
      steer_request_standard_review_def steer_evaluate_def evaluate_goal_completion_def steer_resume_def
    by ((intro control_rules frame_rules frame_update; simp)+)
  show ?thesis
  proof (cases k)
    case (SK_Pause reason)
    with assms show ?thesis by blast
  qed (simp_all only: steer.simps, (intro control_rules frame_rules expand update others; simp)+)
qed

end

locale quiet_pause = quiet_goal +
  assumes quiet_paused: "g (w (| gs_status := GS_Paused |)) = g w"
begin

lemmas [simp] = quiet_paused

lemma frame_steer: "preserves (\<lambda>w. g w = v) (steer policy target k)"
proof (cases "\<exists>reason. k = SK_Pause reason")
  case True
  then show ?thesis by (auto simp: steer_pause_def intro!: control_rules frame_update)
qed (use frame_steer_unless_pause in blast)

end

locale quiet_steering = quiet_pause + quiet_cancel +
  assumes quiet_directive_field: "g (w (| gs_steering_directives := x |)) = g w"
begin

lemmas [simp] = quiet_directive_field

lemma frame_steering: "preserves (\<lambda>w. g w = v) (apply_steering d policy)"
  unfolding apply_steering_def push_directive_def
  by (intro control_rules frame_rules frame_update frame_cancel frame_steer) simp_all

end

end
