(* ===== verification/Transitions.thy ===== *)
theory Transitions
  imports Footprints
begin

text \<open>
  The goal as a transition system: the events are the public mutating methods of
  \<open>GoalState\<close>, \<open>fire\<close> runs one of them and keeps the state it leaves behind, on success and
  on error alike, and the reachable states are those that any sequence of events produces
  from \<open>GoalState::new\<close>.  The locale \<open>invariant_of\<close> is the contract of an invariant; its
  interpretations give the invariants of every reachable state.
\<close>

section \<open>Events\<close>

datatype (plugins only: code size) goal_event =
    EV_Dispatch uuid
  | EV_RequestApproval uuid
  | EV_Notified uuid "notification_delivery_report list"
  | EV_Approval human_approval
  | EV_PriorityVote goal_priority_vote_request
  | EV_CreateThunk delayed_compute_thunk_request
  | EV_ResumeThunk delayed_compute_thunk_resume_request
  | EV_StartRound mechanism_round_request
  | EV_Ballot mechanism_ballot_request
  | EV_Result agent_run_result spawn_policy
  | EV_Validation validation_report
  | EV_BranchFrontier spawn_policy
  | EV_ReviewFrontier spawn_policy
  | EV_Steer steering_directive spawn_policy
  | EV_Evaluate
  | EV_Restart restart_request
  | EV_Timeout uuid nat string
  | EV_Branch branch_request spawn_policy
  | EV_Select branch_selection_request
  | EV_Cancel string

text \<open>None is a panic, which only \<open>branch_task\<close> has.\<close>

fun fire :: "(string \<Rightarrow> uuid) \<Rightarrow> goal_event \<Rightarrow> world \<Rightarrow> world option" where
  "fire u (EV_Dispatch i) w = Some (snd (mark_running i w))"
| "fire u (EV_RequestApproval i) w = Some (snd (ensure_task_approval_or_request i w))"
| "fire u (EV_Notified i reports) w = Some (snd (record_approval_notification i reports w))"
| "fire u (EV_Approval a) w = Some (snd (apply_human_approval a w))"
| "fire u (EV_PriorityVote r) w = Some (snd (record_goal_priority_vote r w))"
| "fire u (EV_CreateThunk r) w = Some (snd (create_delayed_compute_thunk r w))"
| "fire u (EV_ResumeThunk r) w = Some (snd (resume_delayed_compute_thunk r w))"
| "fire u (EV_StartRound r) w = Some (snd (start_mechanism_round u r w))"
| "fire u (EV_Ballot r) w = Some (snd (record_mechanism_ballot r w))"
| "fire u (EV_Result r p) w = Some (snd (apply_agent_result r p w))"
| "fire u (EV_Validation r) w = Some (snd (apply_validation r w))"
| "fire u (EV_BranchFrontier p) w = Some (snd (ensure_branch_frontier p w))"
| "fire u (EV_ReviewFrontier p) w = Some (snd (ensure_review_frontier p w))"
| "fire u (EV_Steer d p) w = Some (snd (apply_steering d p w))"
| "fire u EV_Evaluate w = Some (snd (evaluate_goal_completion w))"
| "fire u (EV_Restart r) w = Some (snd (apply_restart_request r w))"
| "fire u (EV_Timeout i n m) w = Some (snd (record_task_timeout_and_maybe_restart i n m w))"
| "fire u (EV_Branch r p) w = map_option snd (branch_task r p w)"
| "fire u (EV_Select r) w = Some (snd (apply_branch_selection r w))"
| "fire u (EV_Cancel reason) w = Some (snd (cancel reason w))"

inductive reachable :: "(string \<Rightarrow> uuid) \<Rightarrow> goal_spec \<Rightarrow> world \<Rightarrow> bool" for u goal where
  start: "inj (uuid_tape w) \<Longrightarrow> reachable u goal (snd (goal_state_new goal w))"
| step: "reachable u goal w \<Longrightarrow> fire u e w = Some v \<Longrightarrow> reachable u goal v"

inductive_cases reachable_cases: "reachable u goal w"

text \<open>What an operation keeps, an event keeps.\<close>

lemma fire_preserves:
  assumes run: "fire u e w = Some v" and P: "P w"
    and "\<And>i. preserves P (mark_running i)" and "\<And>i. preserves P (ensure_task_approval_or_request i)"
    and "\<And>i r. preserves P (record_approval_notification i r)" and "\<And>a. preserves P (apply_human_approval a)"
    and "\<And>r. preserves P (record_goal_priority_vote r)" and "\<And>r. preserves P (create_delayed_compute_thunk r)"
    and "\<And>r. preserves P (resume_delayed_compute_thunk r)" and "\<And>r. preserves P (start_mechanism_round u r)"
    and "\<And>r. preserves P (record_mechanism_ballot r)" and "\<And>r p. preserves P (apply_agent_result r p)"
    and "\<And>r. preserves P (apply_validation r)" and "\<And>p. preserves P (ensure_branch_frontier p)"
    and "\<And>p. preserves P (ensure_review_frontier p)" and "\<And>d p. e = EV_Steer d p \<Longrightarrow> preserves P (apply_steering d p)"
    and "preserves P refresh_goal_status" and "\<And>r. preserves P (apply_restart_request r)"
    and "\<And>i n m. preserves P (record_task_timeout_and_maybe_restart i n m)"
    and "\<And>n r p. branch_task r p w = Some (n, v) \<Longrightarrow> P v" and "\<And>r. preserves P (apply_branch_selection r)"
    and "\<And>m. preserves P (cancel m)"
  shows "P v"
proof (cases e)
  case EV_Evaluate
  then have "v = snd (refresh_goal_status w)"
    using run by (simp add: evaluate_goal_completion_def bind_rules run_refresh)
  then show ?thesis using assms(17) P by (simp add: preserves_def)
next
  case (EV_Branch r p)
  then show ?thesis using run assms(20) by (cases "branch_task r p w") auto
qed (use run P assms(3-16,18,19,21,22) in \<open>auto simp: preserves_def\<close>)

section \<open>Invariants\<close>

subsection \<open>The task tree\<close>

lemma branch_task_snd:
  assumes "branch_task r p w = Some (x, v)"
  shows "v = w \<or> (\<exists>n. v = snd (branch_task_with n r p w))"
  using assms by (auto simp: branch_task_def split: sum.splits option.splits) (metis snd_conv)

lemma branch_task_keeps:
  assumes "\<And>n. preserves P (branch_task_with n r p)" and "P w" and "branch_task r p w = Some (x, v)"
  shows "P v"
  using branch_task_snd [OF assms(3)] assms(2) preservesD [OF assms(1)] by auto

lemma wf_step:
  assumes "wf_world w" and "fire u e w = Some v"
  shows "wf_world v"
proof -
  have k: "knows {} w" using assms(1) by (simp add: knows_empty)
  have branch: "knows {} v" if b: "branch_task r p w = Some (x, v)" for r p x
    by (rule branch_task_keeps [OF preserves_wf_branch_task_with k b])
  have "knows {} v"
    by (rule fire_preserves [where P = "knows {}", OF assms(2) k])
       (intro preserves_rules | erule branch)+
  then show ?thesis by (simp add: knows_empty)
qed

lemma reachable_wf: "reachable u goal w \<Longrightarrow> wf_world w"
  by (induction rule: reachable.induct) (use goal_state_new_wf wf_step in blast)+

subsection \<open>The contract of an invariant\<close>

locale invariant_of =
  fixes inv :: "world \<Rightarrow> bool"
  assumes inv_start: "inj (uuid_tape w) \<Longrightarrow> inv (snd (goal_state_new goal w))"
    and inv_step: "wf_world w \<Longrightarrow> inv w \<Longrightarrow> fire u e w = Some v \<Longrightarrow> inv v"
begin

lemma inv_reachable:
  assumes "reachable u goal w"
  shows "inv w"
  using assms
proof (induction rule: reachable.induct)
  case (start w)
  then show ?case by (rule inv_start)
next
  case (step w e v)
  then show ?case using inv_step reachable_wf by blast
qed

end

interpretation tree: invariant_of wf_world
  by unfold_locales (use goal_state_new_wf wf_step in blast)+

subsection \<open>A new goal\<close>

lemma new_goal_fields:
  "gs_review_rounds (snd (goal_state_new goal w)) = []" "gs_mechanism_rounds (snd (goal_state_new goal w)) = []"
  "gs_branch_groups (snd (goal_state_new goal w)) = []" "gs_branch_votes (snd (goal_state_new goal w)) = []"
  "gs_delayed_compute_thunks (snd (goal_state_new goal w)) = []" "gs_restart_history (snd (goal_state_new goal w)) = []"
  "gs_steering_directives (snd (goal_state_new goal w)) = []" "gs_goal (snd (goal_state_new goal w)) = goal"
proof -
  let ?g = "\<lambda>w :: world. (gs_review_rounds w, gs_mechanism_rounds w, gs_branch_groups w, gs_branch_votes w,
     gs_delayed_compute_thunks w, gs_restart_history w, gs_steering_directives w, gs_goal w)"
  let ?r = "uuid_tape w (uuids_drawn w)"
  have "preserves (\<lambda>w. ?g w = x) (bindR (for_each (gsp_initial_tasks goal) (\<lambda>request.
              bindR (insert_child_task ?r (root_of goal ?r) request) (\<lambda>child_id.
              push_event (''initial_task_spawned:'' @ child_id)))) (\<lambda>_. push_event ''goal_started''))" for x
    by (intro control_rules frame_rules) simp_all
  from frameD [OF this] have "?g (snd (goal_state_new goal w)) =
      ?g (initial_state goal ?r (w (| uuids_drawn := Suc (uuids_drawn w) |)))"
    by (simp add: goal_state_new_def bind_rules)
  then show "gs_review_rounds (snd (goal_state_new goal w)) = []" "gs_mechanism_rounds (snd (goal_state_new goal w)) = []"
    "gs_branch_groups (snd (goal_state_new goal w)) = []" "gs_branch_votes (snd (goal_state_new goal w)) = []"
    "gs_delayed_compute_thunks (snd (goal_state_new goal w)) = []" "gs_restart_history (snd (goal_state_new goal w)) = []"
    "gs_steering_directives (snd (goal_state_new goal w)) = []" "gs_goal (snd (goal_state_new goal w)) = goal"
    by (simp_all add: initial_state_def)
qed

end
