(* ===== verification/Invariants.thy ===== *)
theory Invariants
  imports Transitions "HOL-Library.Sublist"
begin

text \<open>
  What holds in every reachable state.  Each component's invariant depends on a view of the
  world; the interpretations of the footprint locales show which events leave that view
  alone, the component's own lemmas cover the other events, and the interpretations of
  \<open>invariant_of\<close> carry the invariant to all reachable states.
\<close>

section \<open>Restarts\<close>

interpretation restart_steering: quiet_steering restart_budget
  by unfold_locales
     (simp_all add: restart_budget_def unpause_def set_criteria_def raise_min_satisfaction_def Let_def)

interpretation restart_validation: quiet_validation restart_budget
  by unfold_locales (simp_all add: restart_budget_def)

interpretation restart_mechanism: quiet_mechanism restart_budget
  by unfold_locales (simp add: restart_budget_def)

lemmas restart_frames =
  restart_steering.frame_mark_running restart_steering.frame_approvals restart_steering.frame_ranking
  restart_steering.frame_thunks restart_steering.frame_agent_result restart_steering.frame_cancel
  restart_steering.frame_steering restart_validation.frame_validation restart_validation.frame_selection
  restart_validation.frame_branch_frontier restart_validation.frame_review_frontier
  restart_mechanism.frame_mechanism

lemma restarts_step:
  assumes "restarts_bounded w" and "fire u e w = Some v"
  shows "restarts_bounded v"
  by (rule fire_preserves [where P = restarts_bounded, OF assms(2,1)])
     (rule restarts_bounded_apply restarts_bounded_timeout
       | (rule restarts_bounded_from_frame, rule restart_frames)
       | (rule restarts_bounded_from_frame, rule frame_refresh; simp)
       | (rule branch_task_keeps [OF restarts_bounded_from_frame [OF restart_validation.frame_branch_task] assms(1)], assumption))+

interpretation restarts: invariant_of restarts_bounded
  by unfold_locales
     (simp add: restarts_bounded_def task_restart_count_def goal_restart_count_def new_goal_fields, rule restarts_step)

section \<open>Branch groups and votes\<close>

interpretation branch_restarts: quiet_restarts branch_view
  by unfold_locales (simp_all add: wake_goal_def)

interpretation branch_cancel: quiet_cancel branch_view
  by unfold_locales simp

interpretation branch_reviews: quiet_reviews branch_view
  by unfold_locales simp

interpretation branch_mechanism: quiet_mechanism branch_view
  by unfold_locales simp

interpretation branch_steering: quiet_steering branch_view
  by unfold_locales (simp_all add: unpause_def set_criteria_def raise_min_satisfaction_def Let_def)

lemmas branch_frames =
  branch_restarts.frame_mark_running branch_restarts.frame_approvals branch_restarts.frame_ranking
  branch_restarts.frame_thunks branch_restarts.frame_agent_result branch_cancel.frame_cancel
  branch_restarts.frame_restart branch_restarts.frame_timeout branch_reviews.frame_review_frontier
  branch_mechanism.frame_mechanism branch_steering.frame_steering

lemma branches_step:
  assumes "wf_world w" and "branches_ok w" and "fire u e w = Some v"
  shows "branches_ok v"
  by (rule fire_preserves [where P = branches_ok, OF assms(3,2)])
     (rule branches_frontier branches_apply_validation branches_apply_selection branches_frames
       | (rule branches_ok_view, rule branch_frames)
       | (rule branches_branch_task [OF assms(2,1)], assumption))+

interpretation branches: invariant_of branches_ok
  by unfold_locales (simp add: branches_ok_def ballots_of_def new_goal_fields, rule branches_step)

section \<open>Review rounds\<close>

interpretation review_restarts: quiet_restarts review_view
  by unfold_locales (simp_all add: wake_goal_def)

interpretation review_cancel: quiet_cancel review_view
  by unfold_locales simp

interpretation review_groups: quiet_groups review_view
  by unfold_locales simp_all

interpretation review_mechanism: quiet_mechanism review_view
  by unfold_locales simp

interpretation review_steering: quiet_steering review_view
  by unfold_locales (simp_all add: unpause_def set_criteria_def raise_min_satisfaction_def Let_def)

lemmas review_frames =
  review_restarts.frame_mark_running review_restarts.frame_approvals review_restarts.frame_ranking
  review_restarts.frame_thunks review_restarts.frame_agent_result review_cancel.frame_cancel
  review_restarts.frame_restart review_restarts.frame_timeout review_groups.frame_branch_frontier
  review_groups.frame_selection review_mechanism.frame_mechanism review_steering.frame_steering

lemma reviews_step:
  assumes "reviews_ok w" and "fire u e w = Some v"
  shows "reviews_ok v"
  by (rule fire_preserves [where P = reviews_ok, OF assms(2,1)])
     (rule reviews_frontier reviews_apply_validation
       | (rule reviews_ok_view, rule review_frames)
       | (rule reviews_ok_view, rule frame_refresh; simp)
       | (rule branch_task_keeps [OF reviews_ok_view [OF review_groups.frame_branch_task] assms(1)], assumption))+

interpretation reviews: invariant_of reviews_ok
  by unfold_locales (simp add: reviews_ok_def new_goal_fields, rule reviews_step)

section \<open>Mechanism rounds\<close>

text \<open>The code compares \<open>len() as u32\<close> with the policy's \<open>u32\<close>, hence the bound.\<close>

definition rounds_within :: "world \<Rightarrow> bool" where
  "rounds_within w \<longleftrightarrow> mpol_max_rounds (gsp_mechanism_policy (gs_goal w)) < 2 ^ 32 \<longrightarrow> rounds_sound w"

abbreviation round_view :: "world \<Rightarrow> mechanism_round list \<times> nat" where
  "round_view w \<equiv> (gs_mechanism_rounds w, mpol_max_rounds (gsp_mechanism_policy (gs_goal w)))"

interpretation round_restarts: quiet_restarts round_view
  by unfold_locales (simp_all add: wake_goal_def)

interpretation round_cancel: quiet_cancel round_view
  by unfold_locales simp

interpretation round_validation: quiet_validation round_view
  by unfold_locales simp_all

interpretation round_steering: quiet_steering round_view
  by unfold_locales (simp_all add: unpause_def set_criteria_def raise_min_satisfaction_def Let_def)

lemmas round_frames =
  round_restarts.frame_mark_running round_restarts.frame_approvals round_restarts.frame_ranking
  round_restarts.frame_thunks round_restarts.frame_agent_result round_cancel.frame_cancel
  round_restarts.frame_restart round_restarts.frame_timeout round_validation.frame_branch_frontier
  round_validation.frame_selection round_validation.frame_validation round_validation.frame_review_frontier
  round_steering.frame_steering

lemma rounds_within_view:
  assumes "\<And>v. preserves (\<lambda>w. round_view w = v) m"
  shows "preserves rounds_within m"
proof -
  have "preserves (\<lambda>w. (\<lambda>(rs, n). n < 2 ^ 32 \<longrightarrow> length rs \<le> n \<and> (\<forall>r \<in> set rs. round_sound r)) (round_view w)) m"
    by (rule frame_predicate) (rule assms)
  then show ?thesis by (simp add: preserves_def rounds_within_def rounds_sound_def)
qed

interpretation goal_mechanism: quiet_mechanism "gs_goal :: world \<Rightarrow> goal_spec"
  by unfold_locales simp_all

lemma goal_of_mechanism:
  "gs_goal (snd (start_mechanism_round u r w)) = gs_goal w" "gs_goal (snd (record_mechanism_ballot b w)) = gs_goal w"
  by (rule frameD [where g = gs_goal], rule goal_mechanism.frame_mechanism)+

lemma rounds_within_mechanism:
  "preserves rounds_within (start_mechanism_round u r)" "preserves rounds_within (record_mechanism_ballot b)"
  by (rule preservesI, simp add: rounds_within_def goal_of_mechanism rounds_sound_start rounds_sound_ballot)+

lemma rounds_step:
  assumes "rounds_within w" and "fire u e w = Some v"
  shows "rounds_within v"
  by (rule fire_preserves [where P = rounds_within, OF assms(2,1)])
     (rule rounds_within_mechanism
       | (rule rounds_within_view, rule round_frames)
       | (rule rounds_within_view, rule frame_refresh; simp)
       | (rule branch_task_keeps [OF rounds_within_view [OF round_validation.frame_branch_task] assms(1)], assumption))+

interpretation rounds: invariant_of rounds_within
  by unfold_locales (simp add: rounds_within_def rounds_sound_def new_goal_fields, rule rounds_step)

section \<open>Steering directives\<close>

definition steering_within :: "world \<Rightarrow> bool" where
  "steering_within w \<longleftrightarrow>
     length (filter (\<lambda>d. cancel_reason (st_kind d) = None) (gs_steering_directives w))
       \<le> cl_max_steering_events (gsp_control_policy (gs_goal w))"

abbreviation steering_view :: "world \<Rightarrow> steering_directive list \<times> nat" where
  "steering_view w \<equiv> (gs_steering_directives w, cl_max_steering_events (gsp_control_policy (gs_goal w)))"

interpretation steering_restarts: quiet_restarts steering_view
  by unfold_locales (simp_all add: wake_goal_def)

interpretation steering_cancel: quiet_cancel steering_view
  by unfold_locales simp

interpretation steering_validation: quiet_validation steering_view
  by unfold_locales simp_all

interpretation steering_mechanism: quiet_mechanism steering_view
  by unfold_locales simp

interpretation steering_goal: quiet_pause steering_view
  by unfold_locales (simp_all add: unpause_def set_criteria_def raise_min_satisfaction_def Let_def)

lemmas steering_frames =
  steering_restarts.frame_mark_running steering_restarts.frame_approvals steering_restarts.frame_ranking
  steering_restarts.frame_thunks steering_restarts.frame_agent_result steering_cancel.frame_cancel
  steering_restarts.frame_restart steering_restarts.frame_timeout steering_validation.frame_branch_frontier
  steering_validation.frame_selection steering_validation.frame_validation steering_validation.frame_review_frontier
  steering_mechanism.frame_mechanism

lemma steering_within_view:
  assumes "\<And>v. preserves (\<lambda>w. steering_view w = v) m"
  shows "preserves steering_within m"
proof -
  have "preserves (\<lambda>w. (\<lambda>(ds, n). length (filter (\<lambda>d. cancel_reason (st_kind d) = None) ds) \<le> n) (steering_view w)) m"
    by (rule frame_predicate) (rule assms)
  then show ?thesis by (simp add: preserves_def steering_within_def)
qed

lemma steering_within_push:
  assumes "steering_within w"
    and "cancel_reason (st_kind d) = None \<Longrightarrow>
      length (gs_steering_directives w) < cl_max_steering_events (gsp_control_policy (gs_goal w))"
  shows "steering_within (snd (bindR (push_directive d) (\<lambda>_. push_event m) w))"
proof -
  let ?other = "filter (\<lambda>d. cancel_reason (st_kind d) = None) (gs_steering_directives w)"
  have "length ?other < cl_max_steering_events (gsp_control_policy (gs_goal w))" if "cancel_reason (st_kind d) = None"
    using length_filter_le assms(2) [OF that] by (rule le_less_trans)
  with assms(1) show ?thesis
    by (auto simp: steering_within_def push_directive_def run_push_event)
qed

lemma steering_within_apply: "preserves steering_within (apply_steering d policy)"
proof (rule preservesI)
  fix w :: world assume ok: "steering_within w"
  show "steering_within (snd (apply_steering d policy w))"
  proof (cases "st_goal_id d = gsp_id (gs_goal w)")
    case same: True
    show ?thesis
    proof (cases "cancel_reason (st_kind d)")
      case (Some reason)
      have "steering_within (snd (cancel reason w))"
        using preservesD [OF steering_within_view [OF steering_cancel.frame_cancel] ok] .
      from steering_within_push [OF this, of d "''steering_cancelled:'' @ reason"] Some same show ?thesis
        by (simp add: apply_steering_def cancel_def run_push_event bind_rules)
    next
      case None
      show ?thesis
      proof (cases "cl_human_steering_enabled (gsp_control_policy (gs_goal w)) \<and>
          length (gs_steering_directives w) < cl_max_steering_events (gsp_control_policy (gs_goal w))")
        case True
        obtain x u where s: "steer policy (st_task_id d) (st_kind d) w = (x, u)" by fastforce
        have view: "steering_view u = steering_view w"
          using frame_run [of steering_view, OF steering_goal.frame_steer s] .
        then have "steering_within u" using ok by (simp add: steering_within_def)
        from steering_within_push [OF this, of d] this view same None True s show ?thesis
          by (cases x) (auto simp: apply_steering_def bindR_Inl bindR_Inr)
      qed (use ok same None in \<open>auto simp: apply_steering_def\<close>)
    qed
  qed (use ok in \<open>simp add: apply_steering_def\<close>)
qed

lemma steering_step:
  assumes "steering_within w" and "fire u e w = Some v"
  shows "steering_within v"
  by (rule fire_preserves [where P = steering_within, OF assms(2,1)])
     (rule steering_within_apply
       | (rule steering_within_view, rule steering_frames)
       | (rule steering_within_view, rule frame_refresh; simp)
       | (rule branch_task_keeps [OF steering_within_view [OF steering_validation.frame_branch_task] assms(1)], assumption))+

interpretation steering: invariant_of steering_within
  by unfold_locales (simp add: steering_within_def new_goal_fields, rule steering_step)

section \<open>Delayed compute thunks\<close>

interpretation thunk_validation: quiet_validation "gs_delayed_compute_thunks :: world \<Rightarrow> _"
  by unfold_locales simp_all

interpretation thunk_mechanism: quiet_mechanism "gs_delayed_compute_thunks :: world \<Rightarrow> _"
  by unfold_locales simp

interpretation thunk_goal: quiet_pause "gs_delayed_compute_thunks :: world \<Rightarrow> _"
  by unfold_locales (simp_all add: unpause_def set_criteria_def raise_min_satisfaction_def Let_def)

lemmas thunk_frames =
  thunk_validation.frame_mark_running thunk_validation.frame_approvals thunk_validation.frame_ranking
  thunk_validation.frame_branch_frontier thunk_validation.frame_selection thunk_validation.frame_validation
  thunk_validation.frame_review_frontier thunk_mechanism.frame_mechanism thunk_goal.frame_steer

lemma thunks_ok_view:
  assumes "\<And>v. preserves (\<lambda>w. gs_delayed_compute_thunks w = v) m"
  shows "preserves thunks_ok m"
  by (rule preservesI) (metis assms frameD thunks_ok_frame)

text \<open>Retiring pending thunks frees their continuations.\<close>

lemma thunks_ok_retire:
  assumes ok: "thunks_ok w"
    and f: "\<And>d. f d = d \<or> f d = d (| dt_status := DS_Cancelled |)"
    and ds: "gs_delayed_compute_thunks v = map f (gs_delayed_compute_thunks w)"
  shows "thunks_ok v"
proof -
  have sub: "subseq (map (\<lambda>d. con_continuation_id (dt_continuation d)) (filter (\<lambda>d. dt_status d = DS_Pending) (map f ds)))
      (map (\<lambda>d. con_continuation_id (dt_continuation d)) (filter (\<lambda>d. dt_status d = DS_Pending) ds))" for ds
  proof (induction ds)
    case (Cons d ds)
    then show ?case using f [of d] by auto
  qed simp
  have "thunk_shaped (f d) = thunk_shaped d" for d
    using f [of d] by (auto simp: thunk_shaped_def)
  moreover have "distinct xs" if "subseq xs ys" "distinct ys" for xs ys :: "string list"
    using that by (auto simp: subseq_conv_nths)
  ultimately show ?thesis
    using ok sub [of "gs_delayed_compute_thunks w"]
    unfolding thunks_ok_def thunks_unique_def pending_continuations_def ds by auto
qed

lemma thunks_retire_waits [thunk_rules]: "preserves thunks_ok (update (retire_waits ids))"
  by (rule preserves_update, rule thunks_ok_retire [where f = "\<lambda>d. if retire_thunk ids d then d (| dt_status := DS_Cancelled |) else d"])
     (simp_all add: retire_waits_def)

lemma thunks_cancel [thunk_rules]: "preserves thunks_ok (cancel reason)"
  unfolding cancel_def
  by (intro preserves_bindR thunk_rules preserves_update, rule thunks_ok_retire [where f = cancel_thunk])
     (auto simp: cancel_thunk_def)

lemma thunks_restart [thunk_rules]: "preserves thunks_ok (apply_restart_request r)"
  unfolding apply_restart_request_def push_restart_def Let_def
  by (intro preserves_rules thunk_rules preserves_thunks_frame) (simp_all add: clear_artifacts_def wake_goal_def)

lemma thunks_timeout [thunk_rules]: "preserves thunks_ok (record_task_timeout_and_maybe_restart i n m)"
  unfolding record_task_timeout_and_maybe_restart_def push_timeout_def Let_def
  by (intro preserves_rules thunk_rules preserves_thunks_frame preserves_case_timeout) simp_all

lemma thunks_steering [thunk_rules]: "preserves thunks_ok (apply_steering d policy)"
  unfolding apply_steering_def push_directive_def
  by (intro preserves_rules thunk_rules preserves_thunks_frame thunks_ok_view [OF thunk_goal.frame_steer]) simp_all

lemma thunks_step:
  assumes "thunks_ok w" and "fire u e w = Some v"
  shows "thunks_ok v"
  by (rule fire_preserves [where P = thunks_ok, OF assms(2,1)])
     (rule thunk_rules | (rule thunks_ok_view, rule thunk_frames)
       | (rule branch_task_keeps [OF thunks_ok_view [OF thunk_validation.frame_branch_task] assms(1)], assumption))+

interpretation thunks: invariant_of thunks_ok
  by unfold_locales
     (simp add: thunks_ok_def thunks_unique_def pending_continuations_def new_goal_fields, rule thunks_step)

section \<open>Cancellation\<close>

definition is_cancelled :: "world \<Rightarrow> bool" where
  "is_cancelled w \<longleftrightarrow> gs_status w = GS_Cancelled"

lemma is_cancelled_refresh [simp]: "is_cancelled (refresh w) = is_cancelled w"
  by (simp add: is_cancelled_def refresh_def refreshed_status_def)

interpretation cancelled_restarts: quiet_restarts is_cancelled
  by unfold_locales (simp_all add: is_cancelled_def wake_goal_def, simp_all add: is_cancelled_def [symmetric])

interpretation cancelled_validation: quiet_validation is_cancelled
  by unfold_locales (simp_all add: is_cancelled_def)

interpretation cancelled_mechanism: quiet_mechanism is_cancelled
  by unfold_locales (simp add: is_cancelled_def)

interpretation cancelled_goal: quiet_goal is_cancelled
  by unfold_locales (simp_all add: is_cancelled_def unpause_def set_criteria_def raise_min_satisfaction_def Let_def)

lemmas cancelled_frames =
  cancelled_restarts.frame_mark_running cancelled_restarts.frame_approvals cancelled_restarts.frame_ranking
  cancelled_restarts.frame_thunks cancelled_restarts.frame_agent_result
  cancelled_restarts.frame_restart cancelled_restarts.frame_timeout cancelled_validation.frame_branch_frontier
  cancelled_validation.frame_selection cancelled_validation.frame_validation cancelled_validation.frame_review_frontier
  cancelled_mechanism.frame_mechanism

lemma cancelled_view:
  assumes "\<And>v. preserves (\<lambda>w. is_cancelled w = v) m"
  shows "preserves is_cancelled m"
  using assms [of True] by simp

end
