(* ===== verification/Lifecycle.thy ===== *)
theory Lifecycle
  imports Invariants
begin

text \<open>
  Properties of whole runs: the conjunction of the invariants in every reachable state, what
  a finished goal refuses, and what cancelling means for the events that follow.
\<close>

section \<open>Sequences of events\<close>

fun fire_all :: "(string \<Rightarrow> uuid) \<Rightarrow> goal_event list \<Rightarrow> world \<Rightarrow> world option" where
  "fire_all u [] w = Some w"
| "fire_all u (e # es) w = (case fire u e w of None \<Rightarrow> None | Some v \<Rightarrow> fire_all u es v)"

lemma fire_all_reachable: "reachable u goal w \<Longrightarrow> fire_all u es w = Some v \<Longrightarrow> reachable u goal v"
  by (induction es arbitrary: w) (auto split: option.splits intro: reachable.step)

lemma fire_all_invariant:
  assumes "\<And>w e v. e \<in> set es \<Longrightarrow> P w \<Longrightarrow> fire u e w = Some v \<Longrightarrow> P v" and "P w" and "fire_all u es w = Some v"
  shows "P v"
  using assms by (induction es arbitrary: w) (auto split: option.splits)

section \<open>Properties\<close>

text \<open>
  C2: The invariants hold in every reachable state.  Whatever sequence of events a goal has
  gone through since \<open>GoalState::new\<close>, failed ones included: the task map is a tree of
  tasks below one root; no two pending thunks wait on the same continuation; restarts are
  within the restart policy; branch groups, their votes and their selections are
  consistent and within the branching policy; review rounds are numbered in order and
  within \<open>max_review_rounds\<close>; mechanism rounds are sound; and the directives other than Cancel
  are within \<open>max_steering_events\<close>.
\<close>
theorem reachable_states_are_sound:
  assumes "reachable u goal w"
  shows "wf_world w \<and> thunks_ok w \<and> restarts_bounded w \<and> branches_ok w \<and> reviews_ok w \<and>
    rounds_within w \<and> steering_within w"
  using assms reachable_wf thunks.inv_reachable restarts.inv_reachable branches.inv_reachable
    reviews.inv_reachable rounds.inv_reachable steering.inv_reachable
  by metis

theorem reachable_states_are_sound_witness:
  "branches_ok (snd (mark_running ''a'' (snd (goal_state_new sample_goal (world_of sample_goal [])))))"
proof -
  have "reachable (\<lambda>s. s) sample_goal (snd (goal_state_new sample_goal (world_of sample_goal [])))"
    by (rule reachable.start) simp
  then have "reachable (\<lambda>s. s) sample_goal (snd (mark_running ''a'' (snd (goal_state_new sample_goal (world_of sample_goal [])))))"
    by (rule reachable.step [where e = "EV_Dispatch ''a''"]) simp
  then show ?thesis using reachable_states_are_sound by blast
qed

lemma refused_when_terminal:
  assumes "goal_terminal w"
  shows "\<exists>e. bindR (lift_result (ensure_goal_accepts_mutation a)) f w = (Inl e, w)"
  using ensure_goal_terminal [OF assms, of a] by auto

text \<open>
  A finished goal does no more work.  While a goal is Done or Cancelled, each of these is
  refused and changes nothing: dispatching a task, requesting an approval, creating and
  resuming a thunk, applying a worker result, applying a validation report, restarting and
  recording a timeout.
\<close>
theorem finished_goal_does_no_work:
  assumes "goal_terminal w"
  shows "(\<exists>e. mark_running i w = (Inl e, w)) \<and> (\<exists>e. ensure_task_approval_or_request i w = (Inl e, w)) \<and>
    (\<exists>e. create_delayed_compute_thunk tr w = (Inl e, w)) \<and> (\<exists>e. resume_delayed_compute_thunk rr w = (Inl e, w)) \<and>
    (\<exists>e. apply_agent_result result policy w = (Inl e, w)) \<and> (\<exists>e. apply_validation report w = (Inl e, w)) \<and>
    (\<exists>e. apply_restart_request restart w = (Inl e, w)) \<and>
    (\<exists>e. record_task_timeout_and_maybe_restart i secs message w = (Inl e, w))"
proof -
  have "\<exists>e. apply_restart_request restart w = (Inl e, w)"
    using assms by (simp add: apply_restart_request_def restart_guard_def)
  then show ?thesis
    unfolding mark_running_def ensure_task_approval_or_request_def create_delayed_compute_thunk_def
      resume_delayed_compute_thunk_def apply_agent_result_def apply_validation_def
      record_task_timeout_and_maybe_restart_def
    by (intro conjI refused_when_terminal assms)
qed

theorem finished_goal_does_no_work_witness:
  "\<exists>e. mark_running ''a'' ((world_of sample_goal [sample_task ''a'' TS_Runnable]) (| gs_status := GS_Cancelled |)) =
     (Inl e, (world_of sample_goal [sample_task ''a'' TS_Runnable]) (| gs_status := GS_Cancelled |))"
  by (rule conjunct1, rule finished_goal_does_no_work) (simp add: goal_terminal_def)

section \<open>Cancelling is final\<close>

definition unless_pause :: "goal_event \<Rightarrow> bool" where
  "unless_pause e \<longleftrightarrow> (case e of EV_Steer d p \<Rightarrow> (case st_kind d of SK_Pause reason \<Rightarrow> False | _ \<Rightarrow> True) | _ \<Rightarrow> True)"

lemma cancelled_cancel: "preserves is_cancelled (cancel reason)"
  unfolding cancel_def push_event_def by (intro preserves_rules preserves_update) (simp_all add: is_cancelled_def)

lemma cancelled_steering:
  assumes "\<And>reason. st_kind d \<noteq> SK_Pause reason"
  shows "preserves is_cancelled (apply_steering d policy)"
proof -
  have push: "preserves is_cancelled (push_directive d)" "preserves is_cancelled (push_event m)" for m
    unfolding push_directive_def push_event_def by (rule preserves_update, simp add: is_cancelled_def)+
  show ?thesis
    unfolding apply_steering_def
    by (intro preserves_rules cancelled_cancel push cancelled_view [OF cancelled_goal.frame_steer_unless_pause] assms)
qed

text \<open>Without a Pause a cancelled goal stays cancelled, whatever the event.\<close>

lemma cancelled_step:
  assumes "unless_pause e" and "is_cancelled w" and run: "fire u e w = Some v"
  shows "is_cancelled v"
proof -
  have steer: "preserves is_cancelled (apply_steering d p)" if "e = EV_Steer d p" for d p
    using assms(1) that by (intro cancelled_steering) (auto simp: unless_pause_def)
  show ?thesis
    by (rule fire_preserves [where P = is_cancelled, OF run assms(2)])
       (rule cancelled_cancel
         | (rule cancelled_view, rule cancelled_frames)
         | (rule cancelled_view, rule frame_refresh; simp)
         | (rule steer, assumption)
         | (rule branch_task_keeps [OF cancelled_view [OF cancelled_validation.frame_branch_task] assms(2)], assumption))+
qed

text \<open>
  C20: Cancelling is final unless the goal is paused.  After a cancel, whatever sequence of
  events follows, as long as none of them is a Pause directive: the goal stays Cancelled and
  no task can be dispatched, no worker result or validation report applied and nothing
  restarted.
\<close>
theorem cancelling_is_final_without_pause:
  assumes "gs_status w = GS_Cancelled" and "\<forall>e \<in> set es. unless_pause e" and "fire_all u es w = Some v"
  shows "gs_status v = GS_Cancelled \<and> (\<exists>e. mark_running i v = (Inl e, v)) \<and>
    (\<exists>e. apply_agent_result result policy v = (Inl e, v)) \<and> (\<exists>e. apply_validation report v = (Inl e, v)) \<and>
    (\<exists>e. apply_restart_request restart v = (Inl e, v))"
proof -
  have "is_cancelled v"
    using fire_all_invariant [where P = is_cancelled, OF _ _ assms(3)] cancelled_step assms(1,2)
    unfolding is_cancelled_def by blast
  then have t: "goal_terminal v" and s: "gs_status v = GS_Cancelled"
    by (simp_all add: is_cancelled_def goal_terminal_def)
  have "\<exists>e. apply_restart_request restart v = (Inl e, v)"
    using t by (simp add: apply_restart_request_def restart_guard_def)
  then show ?thesis
    unfolding mark_running_def apply_agent_result_def apply_validation_def
    by (intro conjI s refused_when_terminal [OF t])
qed

theorem cancelling_is_final_without_pause_witness:
  "\<exists>e. mark_running ''a'' (refresh (snd (cancel ''stop'' (world_of sample_goal [sample_task ''a'' TS_Runnable])))) =
     (Inl e, refresh (snd (cancel ''stop'' (world_of sample_goal [sample_task ''a'' TS_Runnable]))))"
proof -
  let ?w = "snd (cancel ''stop'' (world_of sample_goal [sample_task ''a'' TS_Runnable]))"
  have "gs_status ?w = GS_Cancelled" by (simp add: cancel_def run_push_event)
  moreover have "fire_all (\<lambda>s. s) [EV_Evaluate] ?w = Some (refresh ?w)"
    by (simp add: evaluate_goal_completion_def bind_rules run_refresh)
  ultimately show ?thesis
    using cancelling_is_final_without_pause [of ?w "[EV_Evaluate]" "\<lambda>s. s" "refresh ?w" "''a''"]
    by (simp add: unless_pause_def)
qed

end
