(* ===== verification/Control.thy ===== *)
theory Control
  imports Lifecycle
begin

text \<open>
  The control plane of the coordinator (\<open>crates/coordinator/src/main.rs\<close>): the transitions that
  operators and services request, which of them drive the frontier afterwards, and which
  stale requests are skipped instead of failing.
\<close>

section \<open>Skipped mutations\<close>

record human_feedback =
  hf_message :: string
  hf_task_id :: "uuid option"

record skipped_mutation =
  sk_event :: string
  sk_transition :: string

definition skipped :: "string \<Rightarrow> string \<Rightarrow> skipped_mutation" where
  "skipped event transition = (| sk_event = event, sk_transition = transition |)"

definition restart_stale_skip :: "domain_error \<Rightarrow> skipped_mutation option" where
  "restart_stale_skip e =
     (if e = DE_RestartDenied ''no restartable tasks matched the request''
      then Some (skipped ''restart_skipped:no_restartable_tasks'' ''restart_skipped_no_restartable_tasks'')
      else None)"

fun resume_thunk_stale_skip :: "domain_error \<Rightarrow> skipped_mutation option" where
  "resume_thunk_stale_skip (DE_SteeringDenied message) =
     (if contains message ''delayed compute thunk'' \<and> contains message ''is not pending''
      then Some (skipped ''resume_thunk_skipped:not_pending'' ''resume_thunk_skipped_not_pending'')
      else None)"
| "resume_thunk_stale_skip _ = None"

definition create_thunk_duplicate_skip ::
  "'a goal_state_scheme \<Rightarrow> string \<Rightarrow> uuid option \<Rightarrow> skipped_mutation option" where
  "create_thunk_duplicate_skip s continuation_id task_id =
     (if \<exists>d \<in> set (gs_delayed_compute_thunks s).
           dt_status d = DS_Pending \<and> con_continuation_id (dt_continuation d) = continuation_id \<and> dt_task_id d = task_id
      then Some (skipped ''create_thunk_skipped:continuation_exists'' ''create_thunk_skipped_continuation_exists'')
      else None)"

section \<open>Transitions\<close>

datatype (plugins only: code size) goal_control_transition =
    GC_Cancel string
  | GC_InjectFeedback human_feedback
  | GC_Steer steering_directive
  | GC_Approve human_approval
  | GC_Restart restart_request
  | GC_Branch branch_request
  | GC_SelectBranch branch_selection_request
  | GC_Vote goal_priority_vote_request
  | GC_ResumeThunk delayed_compute_thunk_resume_request
  | GC_CreateThunk delayed_compute_thunk_request
  | GC_MechanismStart mechanism_round_request
  | GC_MechanismBallot mechanism_ballot_request

fun cancelled_skip :: "goal_control_transition \<Rightarrow> skipped_mutation" where
  "cancelled_skip (GC_Cancel _) = skipped ''cancel_skipped:goal_cancelled'' ''cancel_skipped_goal_cancelled''"
| "cancelled_skip (GC_InjectFeedback _) =
     skipped ''human_feedback_skipped:goal_cancelled'' ''human_feedback_skipped_goal_cancelled''"
| "cancelled_skip (GC_Steer _) = skipped ''steering_skipped:goal_cancelled'' ''steering_skipped_goal_cancelled''"
| "cancelled_skip (GC_Approve _) = skipped ''approval_skipped:goal_cancelled'' ''approval_skipped_goal_cancelled''"
| "cancelled_skip (GC_Restart _) = skipped ''restart_skipped:goal_cancelled'' ''restart_skipped_goal_cancelled''"
| "cancelled_skip (GC_Branch _) = skipped ''branch_skipped:goal_cancelled'' ''branch_skipped_goal_cancelled''"
| "cancelled_skip (GC_SelectBranch _) =
     skipped ''select_branch_skipped:goal_cancelled'' ''select_branch_skipped_goal_cancelled''"
| "cancelled_skip (GC_Vote _) =
     skipped ''goal_priority_vote_skipped:goal_cancelled'' ''goal_priority_vote_skipped_goal_cancelled''"
| "cancelled_skip (GC_ResumeThunk _) =
     skipped ''resume_thunk_skipped:goal_cancelled'' ''resume_thunk_skipped_goal_cancelled''"
| "cancelled_skip (GC_CreateThunk _) =
     skipped ''create_thunk_skipped:goal_cancelled'' ''create_thunk_skipped_goal_cancelled''"
| "cancelled_skip (GC_MechanismStart _) =
     skipped ''mechanism_start_skipped:goal_cancelled'' ''mechanism_start_skipped_goal_cancelled''"
| "cancelled_skip (GC_MechanismBallot _) =
     skipped ''mechanism_ballot_skipped:goal_cancelled'' ''mechanism_ballot_skipped_goal_cancelled''"

fun steering_should_drive :: "steering_directive_kind \<Rightarrow> bool" where
  "steering_should_drive (SK_InjectTask _ _ _) = True"
| "steering_should_drive (SK_RequestResearch _ _) = True"
| "steering_should_drive (SK_RequestStandardReview _ _ _) = True"
| "steering_should_drive (SK_Resume _) = True"
| "steering_should_drive (SK_UpdateDoneCriteria _ _ _ _) = True"
| "steering_should_drive (SK_ExpandDoneCriteria _ _ _ _ _ _ _) = True"
| "steering_should_drive _ = False"

record goal_control_outcome =
  gco_projection_reason :: string
  gco_drive_frontier :: bool
  gco_message :: string

datatype (plugins only: code size) control_error =
    CE_Domain domain_error
  | CE_Skip skipped_mutation

type_synonym 'a cop = "(world, control_error, 'a) op"

definition outcome :: "string \<Rightarrow> bool \<Rightarrow> string \<Rightarrow> goal_control_outcome cop" where
  "outcome reason drive message =
     ok (| gco_projection_reason = reason, gco_drive_frontier = drive, gco_message = message |)"

text \<open>The \<open>?\<close> on a domain result, and the variant that skips stale requests.\<close>

definition try_skip :: "(domain_error \<Rightarrow> skipped_mutation option) \<Rightarrow> 'a wop \<Rightarrow> 'a cop" where
  "try_skip skip m w =
     (case m w of
        (Inr x, v) \<Rightarrow> (Inr x, v)
      | (Inl e, v) \<Rightarrow> (case skip e of Some s \<Rightarrow> (Inl (CE_Skip s), v) | None \<Rightarrow> (Inl (CE_Domain e), v)))"

definition try_domain :: "'a wop \<Rightarrow> 'a cop" where
  "try_domain m = try_skip (\<lambda>_. None) m"

text \<open>None is the panic that \<open>branch_task\<close> may raise.\<close>

definition apply_serialized_control_transition ::
  "(string \<Rightarrow> uuid) \<Rightarrow> spawn_policy \<Rightarrow> goal_control_transition \<Rightarrow> world \<Rightarrow>
   ((control_error + goal_control_outcome) \<times> world) option" where
  "apply_serialized_control_transition uuid_v5 policy t w =
     (if gs_status w = GS_Cancelled then Some (Inl (CE_Skip (cancelled_skip t)), w)
      else case t of
        GC_Cancel reason \<Rightarrow>
          Some (bindR (try_domain (cancel reason)) (\<lambda>_. outcome ''cancelled'' False (''cancel requested: '' @ reason)) w)
      | GC_InjectFeedback feedback \<Rightarrow>
          Some (bindR (try_domain (push_event (''human_feedback''
              @ (case hf_task_id feedback of Some i \<Rightarrow> '':'' @ i | None \<Rightarrow> [])))) (\<lambda>_.
          outcome ''human_feedback'' False (''feedback accepted: '' @ hf_message feedback)) w)
      | GC_Steer d \<Rightarrow>
          Some (bindR (try_domain (apply_steering d policy)) (\<lambda>_.
          outcome (if cancel_reason (st_kind d) \<noteq> None then ''cancelled'' else ''steering_applied'')
            (steering_should_drive (st_kind d)) ''steering applied'') w)
      | GC_Approve a \<Rightarrow>
          Some (bindR (try_domain (apply_human_approval a)) (\<lambda>updated.
          outcome (if ha_approved a then ''approval_accepted'' else ''approval_rejected'') (ha_approved a)
            (''approval '' @ apr_id updated @ '' '' @ (if ha_approved a then ''accepted'' else ''rejected''))) w)
      | GC_Restart r \<Rightarrow>
          Some (bindR (try_skip restart_stale_skip (apply_restart_request r)) (\<lambda>record.
          outcome ''restart_applied'' True (''restart '' @ rrec_id record @ '' accepted for ''
            @ dec (length (rrec_restarted_task_ids record)) @ '' task(s)'')) w)
      | GC_Branch r \<Rightarrow>
          map_option (\<lambda>out. bindR (try_domain (\<lambda>_. out)) (\<lambda>_. outcome ''branch_created'' False ''branch created'') w)
            (branch_task r policy w)
      | GC_SelectBranch r \<Rightarrow>
          Some (bindR (try_domain (apply_branch_selection r)) (\<lambda>_. outcome ''branch_selected'' True ''branch selected'') w)
      | GC_Vote r \<Rightarrow>
          Some (bindR (try_domain (record_goal_priority_vote r)) (\<lambda>_.
          outcome ''goal_priority_vote_recorded'' False ''goal priority vote recorded'') w)
      | GC_ResumeThunk r \<Rightarrow>
          Some (bindR (try_skip resume_thunk_stale_skip (resume_delayed_compute_thunk r)) (\<lambda>d.
          outcome ''resume_thunk'' True (''delayed compute thunk '' @ dt_id d @ '' resumed'')) w)
      | GC_CreateThunk r \<Rightarrow>
          Some (reads (\<lambda>w. case create_thunk_duplicate_skip w (con_continuation_id (dtr_continuation r)) (dtr_task_id r) of
              Some s \<Rightarrow> fail (CE_Skip s)
            | None \<Rightarrow>
                bindR (try_domain (create_delayed_compute_thunk r)) (\<lambda>d.
                outcome ''delayed_compute_thunk_created'' False (''delayed compute thunk '' @ dt_id d @ '' created''))) w)
      | GC_MechanismStart r \<Rightarrow>
          Some (bindR (try_domain (start_mechanism_round uuid_v5 r)) (\<lambda>_.
          outcome ''mechanism_round_started'' False ''mechanism round started'') w)
      | GC_MechanismBallot r \<Rightarrow>
          Some (bindR (try_domain (record_mechanism_ballot r)) (\<lambda>_.
          outcome ''mechanism_ballot_recorded'' False ''mechanism ballot recorded'') w))"

section \<open>Controls are events\<close>

fun event_of :: "spawn_policy \<Rightarrow> goal_control_transition \<Rightarrow> goal_event option" where
  "event_of policy (GC_Cancel reason) = Some (EV_Cancel reason)"
| "event_of policy (GC_InjectFeedback _) = None"
| "event_of policy (GC_Steer d) = Some (EV_Steer d policy)"
| "event_of policy (GC_Approve a) = Some (EV_Approval a)"
| "event_of policy (GC_Restart r) = Some (EV_Restart r)"
| "event_of policy (GC_Branch r) = Some (EV_Branch r policy)"
| "event_of policy (GC_SelectBranch r) = Some (EV_Select r)"
| "event_of policy (GC_Vote r) = Some (EV_PriorityVote r)"
| "event_of policy (GC_ResumeThunk r) = Some (EV_ResumeThunk r)"
| "event_of policy (GC_CreateThunk r) = Some (EV_CreateThunk r)"
| "event_of policy (GC_MechanismStart r) = Some (EV_StartRound r)"
| "event_of policy (GC_MechanismBallot r) = Some (EV_Ballot r)"

lemma snd_try_skip: "snd (try_skip skip m w) = snd (m w)"
  by (auto simp: try_skip_def split: prod.splits sum.splits option.splits)

lemma snd_bind_outcome: "snd (bindR (try_skip skip m) (\<lambda>x. outcome (a x) (b x) (c x)) w) = snd (m w)"
  using snd_try_skip [of skip m w]
  by (cases "try_skip skip m w") (auto simp: bindR_def outcome_def split: sum.splits)

lemma control_fires:
  assumes "apply_serialized_control_transition u policy t w = Some (res, v)"
  shows "v = w \<or> (\<exists>m. v = snd (push_event m w)) \<or> (\<exists>e. event_of policy t = Some e \<and> fire u e w = Some v)"
proof (cases "gs_status w = GS_Cancelled")
  case False
  note def = apply_serialized_control_transition_def try_domain_def
  show ?thesis
  proof (cases t)
    case (GC_Branch r)
    with False assms obtain a b where ab: "branch_task r policy w = Some (a, b)"
        "bindR (try_skip (\<lambda>_. None) (\<lambda>_. (a, b))) (\<lambda>_. outcome ''branch_created'' False ''branch created'') w = (res, v)"
      by (auto simp: def)
    from arg_cong [OF ab(2), of snd] have "v = b" by (simp add: snd_bind_outcome)
    with ab(1) GC_Branch show ?thesis by simp
  next
    case (GC_CreateThunk r)
    with False assms show ?thesis
      by (auto simp: def split: option.splits dest!: arg_cong [where f = snd] simp: snd_bind_outcome)
  qed (use False assms in \<open>auto simp: def dest!: arg_cong [where f = snd] simp: snd_bind_outcome\<close>)
qed (use assms in \<open>simp add: apply_serialized_control_transition_def\<close>)

section \<open>Properties\<close>

lemma contains_suffix: "contains (u @ p) p"
  by (auto simp: contains_iff intro: exI [of _ "[]"])

lemma not_pending_is_stale:
  "resume_thunk_stale_skip (DE_SteeringDenied (''delayed compute thunk '' @ i @ '' is not pending'')) =
     Some (skipped ''resume_thunk_skipped:not_pending'' ''resume_thunk_skipped_not_pending'')"
proof -
  have "contains (''delayed compute thunk '' @ i @ '' is not pending'') ''is not pending''"
    using contains_suffix [of "''delayed compute thunk '' @ i @ '' ''"] by simp
  moreover have "contains (''delayed compute thunk '' @ i @ '' is not pending'') ''delayed compute thunk''"
    by (simp add: starts_with_def)
  ultimately show ?thesis by (simp del: append.simps contains.simps)
qed

lemma try_skip_Inr: "try_skip skip m w = (Inr x, v) \<longleftrightarrow> m w = (Inr x, v)"
  by (auto simp: try_skip_def split: prod.splits sum.splits option.splits)

lemma redelivered_creation_is_skipped:
  assumes "apply_serialized_control_transition u policy (GC_CreateThunk r) w = Some (Inr out, v)"
  shows "\<exists>s. apply_serialized_control_transition u policy (GC_CreateThunk r) v = Some (Inl (CE_Skip s), v)"
proof -
  note def = apply_serialized_control_transition_def
  have live: "gs_status w \<noteq> GS_Cancelled" using assms by (auto simp: def)
  obtain d where run: "create_delayed_compute_thunk r w = (Inr d, v)"
    and fresh: "create_thunk_duplicate_skip w (con_continuation_id (dtr_continuation r)) (dtr_task_id r) = None"
    using assms live
    by (auto simp: def try_domain_def outcome_def try_skip_Inr elim!: bindR_InrE split: option.splits)
  from run have "create_thunk_duplicate_skip v (con_continuation_id (dtr_continuation r)) (dtr_task_id r) \<noteq> None"
  proof (cases rule: create_Inr)
    case duplicate
    then have "d \<in> set (gs_delayed_compute_thunks w)" "awaits (con_continuation_id (dtr_continuation r)) d"
      by (auto simp: find_Some_iff)
    with duplicate(2) fresh show ?thesis
      by (auto simp: create_thunk_duplicate_skip_def awaits_def split: if_splits)
  next
    case (new g i c)
    then have "d \<in> set (gs_delayed_compute_thunks v)" by simp
    with new(1) show ?thesis by (auto simp: create_thunk_duplicate_skip_def thunk_for_def intro!: bexI [of _ d])
  qed
  then show ?thesis by (auto simp: def)
qed

text \<open>On a Done goal the guard of the mutation answers first, with an error that is not taken for stale.\<close>

lemma redelivered_resumption:
  assumes "apply_serialized_control_transition u policy (GC_ResumeThunk r) w = Some (Inr out, v)"
  shows "\<exists>e. apply_serialized_control_transition u policy (GC_ResumeThunk r) v = Some (Inl e, v) \<and>
    ((\<exists>s. e = CE_Skip s) \<longleftrightarrow> gs_status v \<noteq> GS_Done)"
proof -
  note def = apply_serialized_control_transition_def
  have live: "gs_status w \<noteq> GS_Cancelled" using assms by (auto simp: def)
  obtain d where run: "resume_delayed_compute_thunk r w = (Inr d, v)"
    using assms live by (auto simp: def outcome_def try_skip_Inr elim!: bindR_InrE)
  consider (cancelled) "gs_status v = GS_Cancelled" | (finished) "gs_status v = GS_Done" | (open_goal) "\<not> goal_terminal v"
    by (auto simp: goal_terminal_def)
  then show ?thesis
  proof cases
    case cancelled
    then show ?thesis by (simp add: def)
  next
    case finished
    then have guard: "ensure_goal_accepts_mutation ''resume delayed compute thunk'' v =
        Inl (DE_InvariantViolation (''cannot resume delayed compute thunk because goal is terminal: Done''))"
      by (simp add: ensure_goal_accepts_mutation_def)
    have "\<exists>e. resume_delayed_compute_thunk r v = (Inl (DE_InvariantViolation e), v)"
      using guard by (simp add: resume_delayed_compute_thunk_def bindR_Inl)
    with finished show ?thesis by (auto simp: def try_skip_def bindR_Inl)
  next
    case open_goal
    obtain k at where "d = resumed r at (gs_delayed_compute_thunks w ! k)"
        "gs_delayed_compute_thunks v = (gs_delayed_compute_thunks w)[k := d]"
        "position (\<lambda>d. dt_id d = trq_thunk_id r) (gs_delayed_compute_thunks v) = Some k"
      by (rule resume_Inr [OF run])
    then have pos: "position (\<lambda>d. dt_id d = trq_thunk_id r) (gs_delayed_compute_thunks v) = Some k"
      and "dt_status (gs_delayed_compute_thunks v ! k) \<noteq> DS_Pending"
      using position_Some by (fastforce simp: resumed_def)+
    then have "resume_delayed_compute_thunk r v =
        (Inl (DE_SteeringDenied (''delayed compute thunk '' @ trq_thunk_id r @ '' is not pending'')), v)"
      using open_goal by (simp add: resume_delayed_compute_thunk_def)
    then have "try_skip resume_thunk_stale_skip (resume_delayed_compute_thunk r) v =
        (Inl (CE_Skip (skipped ''resume_thunk_skipped:not_pending'' ''resume_thunk_skipped_not_pending'')), v)"
      by (simp only: try_skip_def not_pending_is_stale prod.case sum.case option.case)
    with open_goal show ?thesis by (simp add: def bindR_Inl goal_terminal_def)
  qed
qed

text \<open>
  C9: Controls that are delivered twice do no harm.  On a Cancelled goal every control, a Pause
  included, is skipped and changes nothing.  A wait that was created is not created
  again: the same request is skipped without change.  A thunk that was resumed is not resumed
  again: the same request changes nothing, and it is answered with a skip, except when the goal
  is Done by then, where it is answered with a domain error.
\<close>
theorem redelivered_controls_are_skipped:
  "(gs_status w = GS_Cancelled \<longrightarrow>
      (\<forall>t'. apply_serialized_control_transition u policy t' w = Some (Inl (CE_Skip (cancelled_skip t')), w))) \<and>
   (apply_serialized_control_transition u policy t w = Some (Inr out, v) \<longrightarrow>
      (\<forall>r. t = GC_CreateThunk r \<longrightarrow> (\<exists>s. apply_serialized_control_transition u policy t v = Some (Inl (CE_Skip s), v))) \<and>
      (\<forall>r. t = GC_ResumeThunk r \<longrightarrow>
         (\<exists>e. apply_serialized_control_transition u policy t v = Some (Inl e, v) \<and>
            ((\<exists>s. e = CE_Skip s) \<longleftrightarrow> gs_status v \<noteq> GS_Done))))"
proof (intro conjI impI allI)
  show "apply_serialized_control_transition u policy t' w = Some (Inl (CE_Skip (cancelled_skip t')), w)"
    if "gs_status w = GS_Cancelled" for t'
    using that by (simp add: apply_serialized_control_transition_def)
qed (use redelivered_creation_is_skipped redelivered_resumption in blast)+

definition sample_resumption :: delayed_compute_thunk_resume_request where
  "sample_resumption = (| trq_thunk_id = ''d'', trq_responder = ''me'', trq_response_summary = ''go'', trq_artifact_refs = [] |)"

theorem redelivered_controls_are_skipped_witness:
  "apply_serialized_control_transition (\<lambda>s. s) spawn_policy_default (GC_Steer (sample_directive (SK_Pause [])))
     (snd (cancel ''stop'' (world_of sample_goal []))) =
   Some (Inl (CE_Skip (cancelled_skip (GC_Steer (sample_directive (SK_Pause []))))), snd (cancel ''stop'' (world_of sample_goal []))) \<and>
   (\<exists>out v e. apply_serialized_control_transition (\<lambda>s. s) spawn_policy_default (GC_ResumeThunk sample_resumption)
      ((world_of sample_goal []) (| gs_delayed_compute_thunks := [sample_thunk] |)) = Some (Inr out, v) \<and>
    apply_serialized_control_transition (\<lambda>s. s) spawn_policy_default (GC_ResumeThunk sample_resumption) v = Some (Inl e, v))"
proof
  have "gs_status (snd (cancel ''stop'' (world_of sample_goal []))) = GS_Cancelled"
    by (simp add: cancel_def run_push_event)
  with redelivered_controls_are_skipped
  show "apply_serialized_control_transition (\<lambda>s. s) spawn_policy_default (GC_Steer (sample_directive (SK_Pause [])))
     (snd (cancel ''stop'' (world_of sample_goal []))) =
   Some (Inl (CE_Skip (cancelled_skip (GC_Steer (sample_directive (SK_Pause []))))), snd (cancel ''stop'' (world_of sample_goal [])))"
    by blast
  let ?w = "(world_of sample_goal []) (| gs_delayed_compute_thunks := [sample_thunk] |)"
  obtain d v where "resume_delayed_compute_thunk sample_resumption ?w = (Inr d, v)"
    by (simp add: sample_resumption_def resume_delayed_compute_thunk_def sample_thunk_def thunk_for_def goal_terminal_def
        update_thunk_def bind_rules)
  then have "\<exists>out. apply_serialized_control_transition (\<lambda>s. s) spawn_policy_default (GC_ResumeThunk sample_resumption) ?w = Some (Inr out, v)"
    by (simp add: apply_serialized_control_transition_def try_skip_def outcome_def bindR_def)
  with redelivered_controls_are_skipped
  show "\<exists>out v e. apply_serialized_control_transition (\<lambda>s. s) spawn_policy_default (GC_ResumeThunk sample_resumption) ?w = Some (Inr out, v) \<and>
    apply_serialized_control_transition (\<lambda>s. s) spawn_policy_default (GC_ResumeThunk sample_resumption) v = Some (Inl e, v)"
    by blast
qed

end
