(* ===== verification/Validation.thy ===== *)
theory Validation
  imports Worker_Result
begin

text \<open>
  Validation of worker results: \<open>ValidationReport::from_result\<close> and the functions that collect
  what a result lacks (\<open>lib.rs\<close>).  A list of missing criteria that the code extends in place is
  an argument that comes back extended.
\<close>

section \<open>Texts\<close>

fun review_decision_debug :: "review_decision \<Rightarrow> string" where
  "review_decision_debug RD_Accept = ''Accept''"
| "review_decision_debug RD_ChangesRequested = ''ChangesRequested''"
| "review_decision_debug RD_Blocked = ''Blocked''"
| "review_decision_debug RD_Inconclusive = ''Inconclusive''"

definition push_unique :: "'a \<Rightarrow> 'a list \<Rightarrow> 'a list" where
  "push_unique x xs = (if x \<in> set xs then xs else xs @ [x])"

definition push_if :: "bool \<Rightarrow> 'a \<Rightarrow> 'a list \<Rightarrow> 'a list" where
  "push_if c x xs = (if c then push_unique x xs else xs)"

definition is_stubish_text :: "string \<Rightarrow> bool" where
  "is_stubish_text text \<longleftrightarrow>
     (let n = to_ascii_lowercase (trim text) in
      n = ''stub'' \<or> n = ''stub-runner'' \<or> starts_with n ''stub '' \<or> starts_with n ''stub-'' \<or>
      contains n '' placeholder'' \<or> contains n ''placeholder '' \<or> contains n ''contract smoke'' \<or>
      contains n ''/stub'' \<or> contains n ''stub/'' \<or> contains n ''://stub'')"

definition is_replayish_text :: "string \<Rightarrow> bool" where
  "is_replayish_text text \<longleftrightarrow>
     (let n = to_ascii_lowercase (trim text) in
      n = ''replay'' \<or> contains n ''mode=replay'' \<or> contains n ''mode=mcp-replay'' \<or> contains n ''-replay'' \<or>
      contains n ''_replay'' \<or> contains n '' replay '' \<or> contains n ''://replay'')"

definition live_runner_label :: "string \<Rightarrow> string \<Rightarrow> bool" where
  "live_runner_label key value \<longleftrightarrow>
     to_ascii_lowercase (trim key) \<in> {''mode'', ''runner.mode'', ''execution.mode''} \<and>
     to_ascii_lowercase (trim value) \<in> {''live'', ''real'', ''production''}"

definition non_stub_runner_label :: "string \<Rightarrow> string \<Rightarrow> bool" where
  "non_stub_runner_label key value \<longleftrightarrow>
     to_ascii_lowercase (trim key) \<in> {''mode'', ''runner.mode'', ''execution.mode''} \<and>
     to_ascii_lowercase (trim value) \<in> {''live'', ''real'', ''production''} \<or>
     to_ascii_lowercase (trim key) \<in> {''stub'', ''allow_stub'', ''allow_stub_runners''} \<and>
     to_ascii_lowercase (trim value) = ''false''"

definition required_labels :: "task_node \<Rightarrow> string_map" where
  "required_labels t = rs_required_labels (ep_runner (tn_execution t))"

definition task_requires_non_stub_execution :: "task_node \<Rightarrow> bool" where
  "task_requires_non_stub_execution t \<longleftrightarrow> (\<exists>(k, v) \<in> set (required_labels t). non_stub_runner_label k v)"

definition task_requires_live_execution :: "task_node \<Rightarrow> bool" where
  "task_requires_live_execution t \<longleftrightarrow> (\<exists>(k, v) \<in> set (required_labels t). live_runner_label k v)"

section \<open>Markers of stub and replay runs\<close>

definition test_evidence_has_stub_marker :: "test_command_evidence \<Rightarrow> bool" where
  "test_evidence_has_stub_marker e \<longleftrightarrow>
     is_stubish_text (te_command e) \<or> (\<exists>n \<in> set (te_notes e). is_stubish_text n) \<or>
     (case te_artifact_uri e of Some u \<Rightarrow> is_stubish_text u | None \<Rightarrow> False)"

definition result_has_stub_marker :: "agent_run_result \<Rightarrow> bool" where
  "result_has_stub_marker r \<longleftrightarrow>
     (case res_runner_id r of Some i \<Rightarrow> is_stubish_text i | None \<Rightarrow> False) \<or>
     is_stubish_text (res_summary r) \<or>
     (\<exists>line \<in> set (res_diagnostics r).
        to_ascii_lowercase (trim line) \<in> {''mode=stub'', ''runner_mode=stub''} \<or> is_stubish_text line) \<or>
     (\<exists>a \<in> set (res_artifacts r).
        starts_with (ar_uri a) ''memory://task/'' \<or> is_stubish_text (ar_description a) \<or> is_stubish_text (ar_uri a)) \<or>
     (\<exists>c \<in> set (res_checkpoints r). is_stubish_text (cr_label c) \<or> is_stubish_text (cr_summary c)) \<or>
     (\<exists>e \<in> set (res_test_evidence r). test_evidence_has_stub_marker e)"

definition result_has_replay_marker :: "agent_run_result \<Rightarrow> bool" where
  "result_has_replay_marker r \<longleftrightarrow>
     (case res_runner_id r of Some i \<Rightarrow> is_replayish_text i | None \<Rightarrow> False) \<or>
     is_replayish_text (res_summary r) \<or>
     (\<exists>line \<in> set (res_diagnostics r).
        to_ascii_lowercase (trim line) \<in> {''mode=replay'', ''mode=mcp-replay'', ''runner_mode=replay''} \<or>
        is_replayish_text line) \<or>
     (\<exists>a \<in> set (res_artifacts r). is_replayish_text (ar_description a) \<or> is_replayish_text (ar_uri a)) \<or>
     (\<exists>c \<in> set (res_checkpoints r). is_replayish_text (cr_label c) \<or> is_replayish_text (cr_summary c)) \<or>
     (\<exists>e \<in> set (res_test_evidence r).
        is_replayish_text (te_command e) \<or> (\<exists>n \<in> set (te_notes e). is_replayish_text n))"

definition research_output_has_stub_marker :: "research_output \<Rightarrow> bool" where
  "research_output_has_stub_marker r \<longleftrightarrow>
     is_stubish_text (rso_answer r) \<or>
     (\<exists>s \<in> set (rso_sources r).
        is_stubish_text (srca_title s) \<or> is_stubish_text (srca_uri s) \<or> is_stubish_text (srca_summary s)) \<or>
     (\<exists>x \<in> set (iup_facts_to_use (rso_use_plan r) @ iup_facts_to_avoid (rso_use_plan r)
                 @ iup_validation_checks (rso_use_plan r)). is_stubish_text x)"

definition review_output_has_stub_marker :: "review_output \<Rightarrow> bool" where
  "review_output_has_stub_marker r \<longleftrightarrow>
     (case rv_unification_summary r of Some s \<Rightarrow> is_stubish_text s | None \<Rightarrow> False) \<or>
     (\<exists>x \<in> set (rv_objective_results r).
        (\<exists>s \<in> set (ror_evidence x). is_stubish_text s) \<or> (\<exists>s \<in> set (ror_notes x). is_stubish_text s)) \<or>
     (\<exists>x \<in> set (rv_gate_results r).
        (\<exists>s \<in> set (vgr_evidence x). is_stubish_text s) \<or> (\<exists>s \<in> set (vgr_notes x). is_stubish_text s))"

definition some_and :: "('a \<Rightarrow> bool) \<Rightarrow> 'a option \<Rightarrow> bool" where
  "some_and p x \<longleftrightarrow> (case x of Some y \<Rightarrow> p y | None \<Rightarrow> False)"

definition collect_stub_truthfulness_missing :: "task_node \<Rightarrow> agent_run_result \<Rightarrow> string list \<Rightarrow> string list" where
  "collect_stub_truthfulness_missing t r missing =
     (if \<not> task_requires_non_stub_execution t then missing
      else
        push_if ((is_review (tn_purpose t) \<or> is_unification (tn_purpose t)) \<and>
            (result_has_stub_marker r \<or> some_and review_output_has_stub_marker (res_review r)))
          ''stub_review_output''
       (push_if (is_research (tn_purpose t) \<and>
            (result_has_stub_marker r \<or> some_and research_output_has_stub_marker (res_research r)))
          ''stub_research_output''
       (push_if (task_requires_live_execution t \<and> result_has_replay_marker r) ''live_runner_required''
       (push_if (is_work_like (tn_purpose t) \<and> result_has_stub_marker r) ''stub_actor_output'' missing))))"

section \<open>The contract of a worker result\<close>

definition in_unit_interval :: "f32 \<Rightarrow> bool" where
  "in_unit_interval x \<longleftrightarrow> f32_le f32_0 x \<and> f32_le x f32_1"

definition child_request_bad_score :: "child_task_request \<Rightarrow> bool" where
  "child_request_bad_score r \<longleftrightarrow>
     (case ctr_done_criteria r of None \<Rightarrow> False
      | Some d \<Rightarrow> some_and (\<lambda>s. \<not> in_unit_interval s) (dc_validator_score_min d))"

definition check_child_request :: "string list \<times> nat \<Rightarrow> child_task_request \<Rightarrow> string list \<times> nat" where
  "check_child_request acc r =
     (let m1 = push_if (blank (ctr_prompt r)) ''child_request_prompt'' (fst acc);
          m2 = push_if (blank (ctr_reason r)) ''child_request_reason'' m1;
          m3 = push_if (child_request_bad_score r) ''child_request_validator_score_min'' m2
      in (m3, if blank (ctr_prompt r) \<or> blank (ctr_reason r) \<or> child_request_bad_score r
              then snd acc else Suc (snd acc)))"

definition collect_child_request_contract_missing :: "child_task_request list \<Rightarrow> string list \<Rightarrow> string list \<times> nat" where
  "collect_child_request_contract_missing rs missing = foldl check_child_request (missing, 0) rs"

definition check_thunk_request ::
  "task_node \<Rightarrow> string list \<times> nat \<Rightarrow> delayed_compute_thunk_request \<Rightarrow> string list \<times> nat" where
  "check_thunk_request t acc r =
     (let other_goal = dtr_goal_id r \<noteq> tn_goal_id t;
          other_task = some_and (\<lambda>i. i \<noteq> tn_id t) (dtr_task_id r);
          bad_shape = (case validate_delayed_compute_thunk_shape r of Inl _ \<Rightarrow> True | Inr _ \<Rightarrow> False);
          m1 = push_if other_goal ''delayed_compute_thunk_goal_id'' (fst acc);
          m2 = push_if other_task ''delayed_compute_thunk_task_id'' m1;
          m3 = push_if bad_shape ''delayed_compute_thunk'' m2
      in (m3, if other_goal \<or> other_task \<or> bad_shape then snd acc else Suc (snd acc)))"

definition collect_delayed_compute_contract_missing ::
  "task_node \<Rightarrow> delayed_compute_thunk_request list \<Rightarrow> string list \<Rightarrow> string list \<times> nat" where
  "collect_delayed_compute_contract_missing t rs missing = foldl (check_thunk_request t) (missing, 0) rs"

definition collect_worker_result_contract_missing ::
  "task_node \<Rightarrow> agent_run_result \<Rightarrow> string list \<Rightarrow> string list" where
  "collect_worker_result_contract_missing t r missing =
     (let (m1, children) = collect_child_request_contract_missing (res_child_requests r) missing;
          (m2, thunks) = collect_delayed_compute_contract_missing t (res_delayed_compute_thunks r) m1
      in push_if (res_status r \<in> {WRS_Waiting, WRS_Blocked} \<and> children = 0 \<and> thunks = 0) ''recovery_path'' m2)"

section \<open>Checkpoints, votes and the review doctrine\<close>

definition code_task_requires_checkpoint :: "task_node \<Rightarrow> bool" where
  "code_task_requires_checkpoint t \<longleftrightarrow>
     (let c = rcp_checkpoints (ep_results (tn_execution t)) in
      ckp_enabled c \<and> ckp_require_for_code_changes c \<and> is_work_like (tn_purpose t) \<and>
      tn_role t \<in> {WK_Codex, WK_ClaudeCode, WK_StaffEngineerClaude, WK_ModelProvider, WK_RustTool})"

definition result_has_git_checkpoint :: "agent_run_result \<Rightarrow> bool" where
  "result_has_git_checkpoint r \<longleftrightarrow>
     (\<exists>c \<in> set (res_checkpoints r). cr_kind c \<in> {CK_GitBranch, CK_GitCommit, CK_GitTag} \<and>
        some_and (\<lambda>g. \<not> blank (gr_branch g)) (cr_git_result c))"

fun branch_candidate_ids :: "task_purpose \<Rightarrow> uuid list option" where
  "branch_candidate_ids (TP_BranchVote g cs) = Some cs"
| "branch_candidate_ids (TP_BranchUnification g cs vs) = Some cs"
| "branch_candidate_ids _ = None"

fun wants_branch_vote :: "task_purpose \<Rightarrow> bool" where
  "wants_branch_vote (TP_BranchVote g cs) = True"
| "wants_branch_vote (TP_BranchUnification g cs vs) = True"
| "wants_branch_vote _ = False"

definition objective_missing ::
  "review_doctrine_coverage_policy \<Rightarrow> (string, review_objective_result) btree \<Rightarrow> review_objective \<Rightarrow> string list" where
  "objective_missing cov results o' =
     (case bt_get results (ro_id o') of
        None \<Rightarrow> [''review_objective_missing:'' @ ro_id o']
      | Some x \<Rightarrow>
          (if ror_decision x \<in> {ROD_Fail, ROD_NotChecked} \<or>
              \<not> rdc_allow_not_applicable cov \<and> ror_decision x = ROD_NotApplicable
           then [''review_objective_failed:'' @ ro_id o'] else [])
        @ (if f32_lt (ror_score x)
                (case ro_min_score o' of Some s \<Rightarrow> s
                 | None \<Rightarrow> (case rdc_min_objective_score cov of Some s \<Rightarrow> s | None \<Rightarrow> f32_0))
           then [''review_objective_score:'' @ ro_id o'] else [])
        @ (if rdc_require_required_evidence cov \<and> ror_evidence x = []
           then [''review_objective_evidence:'' @ ro_id o'] else []))"

definition gate_missing ::
  "review_doctrine_coverage_policy \<Rightarrow> (string, validation_gate_result) btree \<Rightarrow> validation_gate \<Rightarrow> string list" where
  "gate_missing cov results g =
     (case bt_get results (vg_id g) of
        None \<Rightarrow> [''validation_gate_missing:'' @ vg_id g]
      | Some x \<Rightarrow>
          (if vg_failure_blocks g \<and> \<not> vgr_passed x then [''validation_gate_failed:'' @ vg_id g] else [])
        @ (if some_and (\<lambda>s. f32_lt (vgr_score x) s) (vg_min_score g)
           then [''validation_gate_score:'' @ vg_id g] else [])
        @ (if rdc_require_required_evidence cov \<and> vgr_evidence x = []
           then [''validation_gate_evidence:'' @ vg_id g] else []))"

definition doctrine_applies :: "task_node \<Rightarrow> bool" where
  "doctrine_applies t \<longleftrightarrow>
     rd_enabled (tn_review_doctrine t) \<and>
     (is_review_doctrine_subject (tn_purpose t) \<or> inherits_review_doctrine (tn_role t))"

definition doctrine_missing :: "review_doctrine \<Rightarrow> review_output \<Rightarrow> string list" where
  "doctrine_missing d review =
     (if rdc_require_objective_results (rd_coverage d)
      then concat (map (objective_missing (rd_coverage d)
             (bt_of_list (map (\<lambda>x. (ror_objective_id x, x)) (rv_objective_results review))))
             (filter ro_required (resolved_objectives d)))
      else [])
     @ (if rdc_require_gate_results (rd_coverage d)
        then concat (map (gate_missing (rd_coverage d)
               (bt_of_list (map (\<lambda>x. (vgr_gate_id x, x)) (rv_gate_results review))))
               (filter vg_required (resolved_validation_gates d)))
        else [])"

text \<open>The missing criteria and the reasons come back extended.\<close>

definition collect_review_doctrine_missing ::
  "task_node \<Rightarrow> review_output option \<Rightarrow> string list \<Rightarrow> string list \<Rightarrow> string list \<times> string list" where
  "collect_review_doctrine_missing t review missing reasons =
     (if \<not> doctrine_applies t then (missing, reasons)
      else let d = tn_review_doctrine t in
        case review of
          None \<Rightarrow>
            (if rdc_require_objective_results (rd_coverage d) \<or> rdc_require_gate_results (rd_coverage d)
             then missing @ [''review_output''] else missing, reasons)
        | Some r \<Rightarrow>
            (missing @ doctrine_missing d r,
             reasons @ [''review doctrine checked '' @ dec (length (rv_objective_results r))
               @ '' objectives and '' @ dec (length (rv_gate_results r)) @ '' gates'']))"

section \<open>The report\<close>

definition effective_score_of :: "agent_run_result \<Rightarrow> f32" where
  "effective_score_of r =
     (case res_review r of Some v \<Rightarrow> rv_reward v
      | None \<Rightarrow> (case res_research r of Some s \<Rightarrow> rso_confidence s | None \<Rightarrow> res_confidence r))"

definition artifacts_missing :: "task_node \<Rightarrow> agent_run_result \<Rightarrow> string list" where
  "artifacts_missing t r =
     (if dc_artifact_exists (tn_done_criteria t) \<and>
         \<not> (res_artifacts r \<noteq> [] \<or> res_git_result r \<noteq> None \<or> res_object_artifacts r \<noteq> [] \<or> res_checkpoints r \<noteq> [])
      then [''artifact_exists''] else [])
     @ (if \<not> code_task_requires_checkpoint t then []
        else if res_checkpoints r = [] then [''checkpoint_required'']
        else if gp_enabled (rcp_git (ep_results (tn_execution t))) \<and>
             ckp_git_checkpoint_on_result (rcp_checkpoints (ep_results (tn_execution t))) \<and>
             \<not> result_has_git_checkpoint r
        then [''git_checkpoint_required''] else [])"

definition tests_missing :: "task_node \<Rightarrow> agent_run_result \<Rightarrow> string list" where
  "tests_missing t r =
     (if \<not> (dc_tests_pass (tn_done_criteria t) \<and> (is_work_like (tn_purpose t) \<or> tn_role t = WK_Tester)) then []
      else if res_test_evidence r = [] then [''test_evidence'']
      else if \<not> (\<exists>e \<in> set (res_test_evidence r). te_passed e) then [''tests_pass''] else [])"

definition score_missing :: "task_node \<Rightarrow> agent_run_result \<Rightarrow> string list" where
  "score_missing t r =
     (if some_and (\<lambda>s. f32_lt (effective_score_of r) s) (dc_validator_score_min (tn_done_criteria t)) \<and>
         (is_work_like (tn_purpose t) \<or> is_research (tn_purpose t))
      then [''validator_score_min''] else [])"

definition research_missing :: "task_node \<Rightarrow> agent_run_result \<Rightarrow> string list" where
  "research_missing t r =
     (if \<not> is_research (tn_purpose t) then []
      else case res_research r of
        None \<Rightarrow> [''research_output'']
      | Some x \<Rightarrow>
          (if rso_sources x = [] then [''research_sources''] else [])
        @ (if iup_facts_to_use (rso_use_plan x) = [] \<and> iup_proposed_task_updates (rso_use_plan x) = [] \<and>
              iup_validation_checks (rso_use_plan x) = []
           then [''information_use_plan''] else []))"

definition vote_missing :: "task_node \<Rightarrow> agent_run_result \<Rightarrow> string list" where
  "vote_missing t r =
     (if wants_branch_vote (tn_purpose t) \<and> res_branch_vote r = None then [''branch_vote_output''] else [])
     @ (case (branch_candidate_ids (tn_purpose t), res_branch_vote r) of
          (Some cs, Some v) \<Rightarrow> (if bvo_selected_task_id v \<notin> set cs then [''branch_vote_candidate''] else [])
        | _ \<Rightarrow> [])
     @ (if (is_review (tn_purpose t) \<or> is_unification (tn_purpose t)) \<and> res_review r = None
        then [''review_output''] else [])"

definition attestation_missing :: "(sandbox_attestation \<Rightarrow> bool) \<Rightarrow> string \<Rightarrow> agent_run_result \<Rightarrow> string list" where
  "attestation_missing p label r =
     (case res_sandbox_attestation r of
        Some a \<Rightarrow> (if p a then [] else [label])
      | None \<Rightarrow> [''sandbox_attestation''])"

definition guardrails_missing :: "task_node \<Rightarrow> agent_run_result \<Rightarrow> string list" where
  "guardrails_missing t r =
     (let g = ep_guardrails (tn_execution t) in
      if \<not> eg_enabled g then []
      else
        (if eg_require_artifact_manifest g \<and>
            \<not> (\<exists>a \<in> set (res_artifacts r). ar_kind a = AK_ArtifactManifest)
         then [''artifact_manifest''] else [])
      @ (if eg_require_sandbox_attestation g
         then attestation_missing sa_enforceable ''enforced_sandbox_attestation'' r else [])
      @ (if eg_require_strong_sandbox_attestation g
         then attestation_missing sa_strong_isolation ''strong_sandbox_attestation'' r else []))"

definition finding_missing :: "agent_run_result \<Rightarrow> string list" where
  "finding_missing r =
     (if some_and (\<lambda>v. \<exists>f \<in> set (rv_findings v). blocks_validation f) (res_review r)
      then [''blocking_review_finding''] else [])"

text \<open>All criteria a Done or Partial result lacks, with the reason that the doctrine adds.\<close>

definition missing_criteria_of :: "task_node \<Rightarrow> agent_run_result \<Rightarrow> string list \<times> string list" where
  "missing_criteria_of t r =
     (let m0 = collect_worker_result_contract_missing t r [];
          m1 = m0 @ artifacts_missing t r @ tests_missing t r @ score_missing t r;
          m2 = collect_stub_truthfulness_missing t r m1;
          m3 = m2 @ research_missing t r @ vote_missing t r @ guardrails_missing t r;
          (m4, reasons) = collect_review_doctrine_missing t (res_review r) m3 []
      in (m4 @ finding_missing r, reasons))"

definition report_reasons :: "agent_run_result \<Rightarrow> bool \<Rightarrow> string list" where
  "report_reasons r passed =
     (case res_review r of None \<Rightarrow> []
      | Some v \<Rightarrow> [''review decision '' @ review_decision_debug (rv_decision v) @ '' with reward '' @ f32_fixed 2 (rv_reward v)]
          @ (if rv_retry_recommended v then [''critic recommended actor retry''] else []))
     @ (case res_research r of None \<Rightarrow> []
        | Some x \<Rightarrow> [''research answered '' @ sq @ rso_question x @ sq @ '' with '' @ dec (length (rso_sources x))
            @ '' sources and confidence '' @ f32_fixed 2 (rso_confidence x)])
     @ (case res_branch_vote r of None \<Rightarrow> []
        | Some v \<Rightarrow> [''branch vote selected '' @ bvo_selected_task_id v @ '' with confidence '' @ f32_fixed 2 (bvo_confidence v)])
     @ [if passed then ''worker result satisfies current done criteria''
        else ''worker result needs retry, child tasks, or escalation'']"

definition report_of ::
  "validation_request \<Rightarrow> bool \<Rightarrow> task_status \<Rightarrow> string list \<Rightarrow> string list \<Rightarrow> validation_report" where
  "report_of req passed status reasons missing =
     (let r = vrq_result req in (|
        vr_goal_id = vrq_goal_id req, vr_task_id = tn_id (vrq_task req), vr_passed = passed,
        vr_score = effective_score_of r, vr_review = res_review r, vr_research = res_research r,
        vr_branch_vote = res_branch_vote r, vr_sandbox_attestation = res_sandbox_attestation r,
        vr_status_after_validation = status, vr_reasons = reasons, vr_missing_criteria = missing,
        vr_child_requests = res_child_requests r, vr_artifacts = result_artifacts r,
        vr_git_result = res_git_result r, vr_object_artifacts = res_object_artifacts r,
        vr_checkpoints = res_checkpoints r, vr_test_evidence = res_test_evidence r |))"

fun unfinished_status :: "worker_run_status \<Rightarrow> task_status option" where
  "unfinished_status WRS_Waiting = Some TS_WaitingInput"
| "unfinished_status WRS_Blocked = Some TS_Blocked"
| "unfinished_status WRS_Failed = Some TS_Failed"
| "unfinished_status WRS_TimedOut = Some TS_Failed"
| "unfinished_status _ = None"

definition from_result :: "validation_request \<Rightarrow> validation_report" where
  "from_result req =
     (let t = vrq_task req; r = vrq_result req in
      case unfinished_status (res_status r) of
        Some status \<Rightarrow>
          report_of req False status [''worker returned '' @ worker_run_status_debug (res_status r)]
            (collect_worker_result_contract_missing t r [])
      | None \<Rightarrow>
          let (missing, reasons) = missing_criteria_of t r;
              passed = (res_status r = WRS_Done \<and> missing = [])
          in report_of req passed (if passed then TS_Done else TS_Runnable)
               (reasons @ report_reasons r passed) missing)"

section \<open>The contract\<close>

text \<open>What a passed result has shown, stated on the task and the result alone.\<close>

definition child_request_valid :: "child_task_request \<Rightarrow> bool" where
  "child_request_valid r \<longleftrightarrow> \<not> blank (ctr_prompt r) \<and> \<not> blank (ctr_reason r) \<and> \<not> child_request_bad_score r"

definition thunk_request_valid :: "task_node \<Rightarrow> delayed_compute_thunk_request \<Rightarrow> bool" where
  "thunk_request_valid t r \<longleftrightarrow>
     dtr_goal_id r = tn_goal_id t \<and> dtr_task_id r \<in> {None, Some (tn_id t)} \<and>
     validate_delayed_compute_thunk_shape r = Inr ()"

definition delivers :: "task_node \<Rightarrow> agent_run_result \<Rightarrow> bool" where
  "delivers t r \<longleftrightarrow>
     (dc_artifact_exists (tn_done_criteria t) \<longrightarrow>
        res_artifacts r \<noteq> [] \<or> res_git_result r \<noteq> None \<or> res_object_artifacts r \<noteq> [] \<or> res_checkpoints r \<noteq> []) \<and>
     (code_task_requires_checkpoint t \<longrightarrow> res_checkpoints r \<noteq> [] \<and>
        (gp_enabled (rcp_git (ep_results (tn_execution t))) \<and>
         ckp_git_checkpoint_on_result (rcp_checkpoints (ep_results (tn_execution t))) \<longrightarrow> result_has_git_checkpoint r))"

definition tested :: "task_node \<Rightarrow> agent_run_result \<Rightarrow> bool" where
  "tested t r \<longleftrightarrow>
     (dc_tests_pass (tn_done_criteria t) \<and> (is_work_like (tn_purpose t) \<or> tn_role t = WK_Tester) \<longrightarrow>
        (\<exists>e \<in> set (res_test_evidence r). te_passed e)) \<and>
     (is_work_like (tn_purpose t) \<or> is_research (tn_purpose t) \<longrightarrow>
        (\<forall>s. dc_validator_score_min (tn_done_criteria t) = Some s \<longrightarrow> \<not> f32_lt (effective_score_of r) s))"

definition truthful :: "task_node \<Rightarrow> agent_run_result \<Rightarrow> bool" where
  "truthful t r \<longleftrightarrow> (task_requires_non_stub_execution t \<longrightarrow>
     (is_work_like (tn_purpose t) \<or> is_research (tn_purpose t) \<or> is_review (tn_purpose t) \<or> is_unification (tn_purpose t)
        \<longrightarrow> \<not> result_has_stub_marker r) \<and>
     (task_requires_live_execution t \<longrightarrow> \<not> result_has_replay_marker r) \<and>
     (is_research (tn_purpose t) \<longrightarrow> \<not> some_and research_output_has_stub_marker (res_research r)) \<and>
     (is_review (tn_purpose t) \<or> is_unification (tn_purpose t) \<longrightarrow>
        \<not> some_and review_output_has_stub_marker (res_review r)))"

definition researched :: "task_node \<Rightarrow> agent_run_result \<Rightarrow> bool" where
  "researched t r \<longleftrightarrow> (is_research (tn_purpose t) \<longrightarrow>
     (\<exists>x. res_research r = Some x \<and> rso_sources x \<noteq> [] \<and>
        (iup_facts_to_use (rso_use_plan x) \<noteq> [] \<or> iup_proposed_task_updates (rso_use_plan x) \<noteq> [] \<or>
         iup_validation_checks (rso_use_plan x) \<noteq> [])))"

definition voted :: "task_node \<Rightarrow> agent_run_result \<Rightarrow> bool" where
  "voted t r \<longleftrightarrow>
     (\<forall>cs. branch_candidate_ids (tn_purpose t) = Some cs \<longrightarrow>
        (\<exists>v. res_branch_vote r = Some v \<and> bvo_selected_task_id v \<in> set cs)) \<and>
     (is_review (tn_purpose t) \<or> is_unification (tn_purpose t) \<longrightarrow> res_review r \<noteq> None)"

definition guarded :: "task_node \<Rightarrow> agent_run_result \<Rightarrow> bool" where
  "guarded t r \<longleftrightarrow> (let g = ep_guardrails (tn_execution t) in eg_enabled g \<longrightarrow>
     (eg_require_artifact_manifest g \<longrightarrow> (\<exists>a \<in> set (res_artifacts r). ar_kind a = AK_ArtifactManifest)) \<and>
     (eg_require_sandbox_attestation g \<longrightarrow> some_and sa_enforceable (res_sandbox_attestation r)) \<and>
     (eg_require_strong_sandbox_attestation g \<longrightarrow> some_and sa_strong_isolation (res_sandbox_attestation r)))"

definition objective_met ::
  "review_doctrine_coverage_policy \<Rightarrow> (string, review_objective_result) btree \<Rightarrow> review_objective \<Rightarrow> bool" where
  "objective_met cov results o' \<longleftrightarrow>
     (\<exists>x. bt_get results (ro_id o') = Some x \<and>
        (ror_decision x = ROD_Pass \<or> ror_decision x = ROD_NotApplicable \<and> rdc_allow_not_applicable cov) \<and>
        (\<forall>s. ro_min_score o' = Some s \<or> ro_min_score o' = None \<and> rdc_min_objective_score cov = Some s \<or>
             ro_min_score o' = None \<and> rdc_min_objective_score cov = None \<and> s = f32_0 \<longrightarrow> \<not> f32_lt (ror_score x) s) \<and>
        (rdc_require_required_evidence cov \<longrightarrow> ror_evidence x \<noteq> []))"

definition gate_met ::
  "review_doctrine_coverage_policy \<Rightarrow> (string, validation_gate_result) btree \<Rightarrow> validation_gate \<Rightarrow> bool" where
  "gate_met cov results g \<longleftrightarrow>
     (\<exists>x. bt_get results (vg_id g) = Some x \<and> (vg_failure_blocks g \<longrightarrow> vgr_passed x) \<and>
        (\<forall>s. vg_min_score g = Some s \<longrightarrow> \<not> f32_lt (vgr_score x) s) \<and>
        (rdc_require_required_evidence cov \<longrightarrow> vgr_evidence x \<noteq> []))"

definition doctrine_met :: "review_doctrine \<Rightarrow> review_output \<Rightarrow> bool" where
  "doctrine_met d v \<longleftrightarrow>
     (rdc_require_objective_results (rd_coverage d) \<longrightarrow>
        (\<forall>o' \<in> set (resolved_objectives d). ro_required o' \<longrightarrow>
           objective_met (rd_coverage d) (bt_of_list (map (\<lambda>x. (ror_objective_id x, x)) (rv_objective_results v))) o')) \<and>
     (rdc_require_gate_results (rd_coverage d) \<longrightarrow>
        (\<forall>g \<in> set (resolved_validation_gates d). vg_required g \<longrightarrow>
           gate_met (rd_coverage d) (bt_of_list (map (\<lambda>x. (vgr_gate_id x, x)) (rv_gate_results v))) g))"

definition reviewed :: "task_node \<Rightarrow> agent_run_result \<Rightarrow> bool" where
  "reviewed t r \<longleftrightarrow>
     (doctrine_applies t \<longrightarrow>
        (case res_review r of
           Some v \<Rightarrow> doctrine_met (tn_review_doctrine t) v
         | None \<Rightarrow> \<not> rdc_require_objective_results (rd_coverage (tn_review_doctrine t)) \<and>
                   \<not> rdc_require_gate_results (rd_coverage (tn_review_doctrine t)))) \<and>
     (\<forall>v f. res_review r = Some v \<longrightarrow> f \<in> set (rv_findings v) \<longrightarrow> \<not> blocks_validation f)"

definition contract_met :: "task_node \<Rightarrow> agent_run_result \<Rightarrow> bool" where
  "contract_met t r \<longleftrightarrow>
     (\<forall>q \<in> set (res_child_requests r). child_request_valid q) \<and>
     (\<forall>q \<in> set (res_delayed_compute_thunks r). thunk_request_valid t q) \<and>
     delivers t r \<and> tested t r \<and> truthful t r \<and> researched t r \<and> voted t r \<and> guarded t r \<and> reviewed t r"

section \<open>The collectors find nothing exactly when the contract is met\<close>

lemma push_if_Nil [simp]: "push_if c x xs = [] \<longleftrightarrow> \<not> c \<and> xs = []"
  by (auto simp: push_if_def push_unique_def)

lemma some_and_simps [simp]: "some_and p None = False" "some_and p (Some x) = p x"
  by (simp_all add: some_and_def)

lemma child_collector_Nil:
  "fst (foldl check_child_request acc rs) = [] \<longleftrightarrow> fst acc = [] \<and> (\<forall>r \<in> set rs. child_request_valid r)"
  by (induction rs arbitrary: acc) (auto simp: check_child_request_def child_request_valid_def Let_def)

lemma thunk_collector_Nil:
  "fst (foldl (check_thunk_request t) acc rs) = [] \<longleftrightarrow> fst acc = [] \<and> (\<forall>r \<in> set rs. thunk_request_valid t r)"
proof (induction rs arbitrary: acc)
  case (Cons r rs)
  show ?case
    using Cons by (cases "dtr_task_id r"; cases "validate_delayed_compute_thunk_shape r")
      (auto simp: check_thunk_request_def thunk_request_valid_def Let_def)
qed simp

lemma contract_collector_Nil:
  assumes "res_status r \<notin> {WRS_Waiting, WRS_Blocked}"
  shows "collect_worker_result_contract_missing t r missing = [] \<longleftrightarrow> missing = [] \<and>
    (\<forall>q \<in> set (res_child_requests r). child_request_valid q) \<and>
    (\<forall>q \<in> set (res_delayed_compute_thunks r). thunk_request_valid t q)"
  using assms child_collector_Nil [of "(missing, 0)" "res_child_requests r"]
    thunk_collector_Nil [of t "(fst (foldl check_child_request (missing, 0) (res_child_requests r)), 0)"
      "res_delayed_compute_thunks r"]
  by (auto simp: collect_worker_result_contract_missing_def collect_child_request_contract_missing_def
      collect_delayed_compute_contract_missing_def Let_def split: prod.splits)

lemma delivery_Nil: "artifacts_missing t r = [] \<longleftrightarrow> delivers t r"
  by (auto simp: artifacts_missing_def delivers_def)

lemma tested_Nil: "tests_missing t r = [] \<and> score_missing t r = [] \<longleftrightarrow> tested t r"
  by (cases "dc_validator_score_min (tn_done_criteria t)")
     (auto simp: tests_missing_def score_missing_def tested_def)

lemma truthful_Nil:
  "collect_stub_truthfulness_missing t r missing = [] \<longleftrightarrow> missing = [] \<and> truthful t r"
  by (auto simp: collect_stub_truthfulness_missing_def truthful_def)

lemma researched_Nil: "research_missing t r = [] \<longleftrightarrow> researched t r"
  by (auto simp: research_missing_def researched_def split: option.splits)

lemma wants_branch_vote_candidates: "wants_branch_vote p \<longleftrightarrow> branch_candidate_ids p \<noteq> None"
  by (cases p) simp_all

lemma voted_Nil: "vote_missing t r = [] \<longleftrightarrow> voted t r"
  by (auto simp: vote_missing_def voted_def wants_branch_vote_candidates split: option.splits)

lemma guarded_Nil: "guardrails_missing t r = [] \<longleftrightarrow> guarded t r"
  by (cases "res_sandbox_attestation r")
     (auto simp: guardrails_missing_def guarded_def attestation_missing_def Let_def)

lemma objective_Nil: "objective_missing cov results o' = [] \<longleftrightarrow> objective_met cov results o'"
proof (cases "bt_get results (ro_id o')")
  case (Some x)
  then show ?thesis
    by (cases "ror_decision x"; cases "ro_min_score o'"; cases "rdc_min_objective_score cov")
       (auto simp: objective_missing_def objective_met_def)
qed (simp add: objective_missing_def objective_met_def)

lemma gate_Nil: "gate_missing cov results g = [] \<longleftrightarrow> gate_met cov results g"
  by (cases "bt_get results (vg_id g)"; cases "vg_min_score g") (auto simp: gate_missing_def gate_met_def)

lemma doctrine_Nil: "doctrine_missing d v = [] \<longleftrightarrow> doctrine_met d v"
  by (auto simp: doctrine_missing_def doctrine_met_def objective_Nil gate_Nil)

lemma finding_Nil: "finding_missing r = [] \<longleftrightarrow>
    (\<forall>v f. res_review r = Some v \<longrightarrow> f \<in> set (rv_findings v) \<longrightarrow> \<not> blocks_validation f)"
  by (cases "res_review r") (auto simp: finding_missing_def)

lemma doctrine_collector_Nil:
  "fst (collect_review_doctrine_missing t review missing reasons) = [] \<longleftrightarrow> missing = [] \<and>
     (doctrine_applies t \<longrightarrow>
        (case review of
           Some v \<Rightarrow> doctrine_met (tn_review_doctrine t) v
         | None \<Rightarrow> \<not> rdc_require_objective_results (rd_coverage (tn_review_doctrine t)) \<and>
                   \<not> rdc_require_gate_results (rd_coverage (tn_review_doctrine t))))"
  by (auto simp: collect_review_doctrine_missing_def doctrine_Nil Let_def split: option.splits)

lemma missing_criteria_Nil:
  assumes "res_status r \<notin> {WRS_Waiting, WRS_Blocked}"
  shows "fst (missing_criteria_of t r) = [] \<longleftrightarrow> contract_met t r"
proof -
  let ?m1 = "collect_worker_result_contract_missing t r [] @ artifacts_missing t r @ tests_missing t r @ score_missing t r"
  let ?m3 = "collect_stub_truthfulness_missing t r ?m1 @ research_missing t r @ vote_missing t r @ guardrails_missing t r"
  have "fst (missing_criteria_of t r) = fst (collect_review_doctrine_missing t (res_review r) ?m3 []) @ finding_missing r"
    by (simp add: missing_criteria_of_def Let_def split_def)
  then show ?thesis
    using contract_collector_Nil [OF assms, of t "[]"] tested_Nil [of t r]
    by (auto simp: doctrine_collector_Nil finding_Nil truthful_Nil delivery_Nil researched_Nil voted_Nil guarded_Nil
        contract_met_def reviewed_def)
qed

section \<open>Properties\<close>

text \<open>
  C4: Validation is exact.  A report passes exactly when the worker said Done and the result
  meets the contract of its task: valid child and wait requests, the demanded artifacts and
  checkpoints, a passing test and a sufficient score where the criteria ask for them, no stub or
  replay output where live execution is demanded, sources and a use plan for research, a
  vote for a candidate for branch tasks, a review for review tasks, the attestations of the
  guardrails, every required objective and gate of the doctrine, and no blocking finding.
  The task becomes Done exactly when the report passes, and what the result brought is in the
  report unchanged.
\<close>
theorem validation_is_exact:
  "(vr_passed (from_result req) \<longleftrightarrow>
      res_status (vrq_result req) = WRS_Done \<and> contract_met (vrq_task req) (vrq_result req)) \<and>
   (vr_passed (from_result req) \<longleftrightarrow>
      res_status (vrq_result req) = WRS_Done \<and> vr_missing_criteria (from_result req) = []) \<and>
   (vr_status_after_validation (from_result req) = TS_Done \<longleftrightarrow> vr_passed (from_result req)) \<and>
   vr_goal_id (from_result req) = vrq_goal_id req \<and> vr_task_id (from_result req) = tn_id (vrq_task req) \<and>
   vr_artifacts (from_result req) = result_artifacts (vrq_result req) \<and>
   vr_branch_vote (from_result req) = res_branch_vote (vrq_result req)"
proof (cases "unfinished_status (res_status (vrq_result req))")
  case (Some s)
  then have "res_status (vrq_result req) \<noteq> WRS_Done" "s \<noteq> TS_Done"
    by (cases "res_status (vrq_result req)"; simp)+
  with Some show ?thesis by (simp add: from_result_def report_of_def Let_def)
next
  case None
  then have "res_status (vrq_result req) \<notin> {WRS_Waiting, WRS_Blocked}" by auto
  from missing_criteria_Nil [OF this, of "vrq_task req"] None show ?thesis
    by (simp add: from_result_def report_of_def Let_def split_def)
qed

text \<open>
  Unfinished work is never accepted.  The report of a Waiting, Blocked, Failed or TimedOut
  result fails and gives its task the matching status; a Partial result, like a Done one that
  lacks something, makes its task Runnable again.
\<close>
theorem unfinished_work_is_not_accepted:
  "vr_status_after_validation (from_result req) =
     (case res_status (vrq_result req) of
        WRS_Waiting \<Rightarrow> TS_WaitingInput | WRS_Blocked \<Rightarrow> TS_Blocked
      | WRS_Failed \<Rightarrow> TS_Failed | WRS_TimedOut \<Rightarrow> TS_Failed | WRS_Partial \<Rightarrow> TS_Runnable
      | WRS_Done \<Rightarrow> (if contract_met (vrq_task req) (vrq_result req) then TS_Done else TS_Runnable))"
proof (cases "unfinished_status (res_status (vrq_result req))")
  case (Some s)
  then show ?thesis
    by (cases "res_status (vrq_result req)") (simp_all add: from_result_def report_of_def Let_def)
next
  case None
  then have "res_status (vrq_result req) \<notin> {WRS_Waiting, WRS_Blocked}" by auto
  from missing_criteria_Nil [OF this, of "vrq_task req"] None show ?thesis
    by (cases "res_status (vrq_result req)") (simp_all add: from_result_def report_of_def Let_def split_def)
qed

end
