(* ===== verification/Drive.thy ===== *)
theory Drive
  imports Control Validation
begin

text \<open>
  The durable driver of the coordinator (\<open>crates/coordinator/src/main.rs\<close>): \<open>drive_state\<close>
  dispatches the ready tasks of a goal, applies and validates their results and advances the
  frontiers, until the goal is settled, waits, is idle or the round limit is reached.

  A session is the live state and the state last stored with \<open>ctx.set\<close>.  The services
  around the driver (the runners, the notifier, the goal store) are parameters whose answers may
  depend on the whole state; a failing call ends the handler with an error.  The validation
  service is the one of the same file, \<open>from_result\<close>.
\<close>

section \<open>Sessions\<close>

record agent_run_request =
  arq_goal_id :: uuid
  arq_task :: task_node
  arq_context_artifacts :: "artifact_ref list"
  arq_coordinator_trace_id :: "string option"
  arq_timeout_seconds :: "nat option"

record services =
  sv_run_task :: "world \<Rightarrow> agent_run_request \<Rightarrow> agent_run_result option"
  sv_validation_up :: "world \<Rightarrow> bool"
  sv_notify :: "world \<Rightarrow> task_node \<Rightarrow> approval_request \<Rightarrow> notification_delivery_report list option"
  sv_project :: "world \<Rightarrow> string \<Rightarrow> bool"

datatype (plugins only: code size) handler_error =
    HE_Terminal string
  | HE_MissingState string
  | HE_Service string

type_synonym session = "world \<times> world"
type_synonym 'a sop = "(session, handler_error, 'a) op"

definition domain_error_of :: "domain_error \<Rightarrow> handler_error" where
  "domain_error_of e = HE_Terminal (domain_error_display e)"

definition on_state :: "'a wop \<Rightarrow> 'a sop" where
  "on_state m s =
     (case m (fst s) of
        (Inl e, v) \<Rightarrow> (Inl (domain_error_of e), (v, snd s))
      | (Inr x, v) \<Rightarrow> (Inr x, (v, snd s)))"

definition live :: "(world \<Rightarrow> 'a sop) \<Rightarrow> 'a sop" where
  "live f = reads (\<lambda>s. f (fst s))"

definition persist :: "unit sop" where
  "persist = update (\<lambda>s. (fst s, fst s))"

definition answer :: "'a option \<Rightarrow> string \<Rightarrow> 'a sop" where
  "answer x what = (case x of Some y \<Rightarrow> ok y | None \<Rightarrow> fail (HE_Service what))"

definition project_state :: "services \<Rightarrow> string \<Rightarrow> unit sop" where
  "project_state sv reason =
     live (\<lambda>w. if sv_project sv w reason then ok () else fail (HE_Service ''goal-store projection failed''))"

definition store_and_project :: "services \<Rightarrow> string \<Rightarrow> unit sop" where
  "store_and_project sv reason = bindR persist (\<lambda>_. project_state sv reason)"

section \<open>The driver\<close>

definition frontier_idle_status :: "'a goal_state_scheme \<Rightarrow> goal_status" where
  "frontier_idle_status s =
     (if some_task TS_Failed s then GS_Failed
      else if some_task TS_Blocked s then GS_Blocked
      else if some_task TS_WaitingApproval s then GS_WaitingApproval
      else if some_task TS_WaitingInput s \<or> (\<exists>d \<in> set (gs_delayed_compute_thunks s). dt_status d = DS_Pending)
      then GS_Paused
      else if cl_mode (gsp_control_policy (gs_goal s)) \<in> {CLM_MonitorUntilCancelled, CLM_HumanSteeredContinuous}
      then GS_Running
      else if is_done s then GS_Done
      else GS_Blocked)"

definition settled_reason :: "'a goal_state_scheme \<Rightarrow> string option" where
  "settled_reason s =
     (if gs_status s = GS_Cancelled then Some ''cancelled''
      else if is_done s then Some ''done''
      else if gs_status s = GS_Paused then Some ''paused''
      else None)"

definition block_exhausted :: "world \<Rightarrow> world" where
  "block_exhausted w = w (| gs_status := GS_Blocked,
     gs_tasks := bt_map_values (\<lambda>t. if \<not> is_terminal (tn_status t) \<and> is_exhausted (tn_budget t)
        then t (| tn_status := TS_Blocked |) else t) (gs_tasks w) |)"

definition set_live_status :: "goal_status \<Rightarrow> unit sop" where
  "set_live_status st = update (\<lambda>s. ((fst s) (| gs_status := st |), snd s))"

definition run_request :: "'a goal_state_scheme \<Rightarrow> task_node \<Rightarrow> agent_run_request" where
  "run_request s t = (| arq_goal_id = gsp_id (gs_goal s), arq_task = t,
     arq_context_artifacts = gs_final_artifacts s, arq_coordinator_trace_id = None,
     arq_timeout_seconds = Some (task_timeout_seconds (gsp_timeout_policy (gs_goal s)) t) |)"

definition run_timeout_seconds :: "timeout_policy \<Rightarrow> nat" where
  "run_timeout_seconds p =
     (case tp_task_run_timeout_seconds p of Some n \<Rightarrow> n
      | None \<Rightarrow> (case tp_runner_call_timeout_seconds p of Some n \<Rightarrow> n | None \<Rightarrow> 0))"

text \<open>One ready task; True when the handler returns because an approval was requested.\<close>

definition drive_approval :: "services \<Rightarrow> task_node \<Rightarrow> approval_request \<Rightarrow> bool sop" where
  "drive_approval sv t approval =
     bindR persist (\<lambda>_.
     live (\<lambda>w. bindR (answer (sv_notify sv w t approval) ''notifier'') (\<lambda>reports.
     bindR (on_state (record_approval_notification (apr_id approval) reports)) (\<lambda>_.
     bindR (store_and_project sv ''approval_requested'') (\<lambda>_.
     ok True)))))"

definition drive_run :: "services \<Rightarrow> spawn_policy \<Rightarrow> task_node \<Rightarrow> bool sop" where
  "drive_run sv policy t =
     bindR (on_state (mark_running (tn_id t))) (\<lambda>_.
     bindR (store_and_project sv ''task_running'') (\<lambda>_.
     live (\<lambda>w. bindR (answer (sv_run_task sv w (run_request w t)) ''agent runner'') (\<lambda>result.
     bindR (on_state (apply_agent_result result policy)) (\<lambda>_.
     bindR persist (\<lambda>_.
     live (\<lambda>w.
       let request = (| vrq_goal_id = gsp_id (gs_goal w), vrq_task = t, vrq_result = result |) in
       bindR (answer (if sv_validation_up sv w then Some (from_result request) else None) ''validation'') (\<lambda>report.
       bindR (on_state (apply_validation report)) (\<lambda>_.
       bindR (if res_status result = WRS_TimedOut
              then live (\<lambda>w. bindR (on_state (record_task_timeout_and_maybe_restart (res_task_id result)
                     (run_timeout_seconds (gsp_timeout_policy (gs_goal w))) ''worker run timed out'')) (\<lambda>_. ok ()))
              else ok ()) (\<lambda>_.
       bindR (on_state (ensure_branch_frontier policy)) (\<lambda>_.
       bindR (on_state (ensure_review_frontier policy)) (\<lambda>_.
       bindR (store_and_project sv ''validation_applied'') (\<lambda>_.
       ok False)))))))))))))"

definition drive_task :: "services \<Rightarrow> spawn_policy \<Rightarrow> task_node \<Rightarrow> bool sop" where
  "drive_task sv policy t =
     bindR (on_state (ensure_task_approval_or_request (tn_id t))) (\<lambda>approval.
     case approval of Some a \<Rightarrow> drive_approval sv t a | None \<Rightarrow> drive_run sv policy t)"

fun drive_tasks :: "services \<Rightarrow> spawn_policy \<Rightarrow> task_node list \<Rightarrow> bool sop" where
  "drive_tasks sv policy [] = ok False"
| "drive_tasks sv policy (t # ts) =
     bindR (drive_task sv policy t) (\<lambda>stop. if stop then ok True else drive_tasks sv policy ts)"

definition settle_idle :: "services \<Rightarrow> bool sop" where
  "settle_idle sv =
     live (\<lambda>w. let idle = frontier_idle_status w in
       bindR (if idle = GS_Running \<and>
                cl_mode (gsp_control_policy (gs_goal w)) \<in> {CLM_MonitorUntilCancelled, CLM_HumanSteeredContinuous}
              then on_state (push_event ''control_loop_idle'') else ok ()) (\<lambda>_.
       bindR (set_live_status idle) (\<lambda>_.
       bindR (store_and_project sv ''frontier_idle'') (\<lambda>_.
       ok True))))"

definition drive_idle :: "services \<Rightarrow> spawn_policy \<Rightarrow> bool sop" where
  "drive_idle sv policy =
     bindR (on_state (ensure_branch_frontier policy)) (\<lambda>changed.
     if changed then bindR persist (\<lambda>_. ok False)
     else
     bindR (on_state (ensure_review_frontier policy)) (\<lambda>changed.
     if changed then bindR persist (\<lambda>_. ok False)
     else
     settle_idle sv))"

definition stop_exhausted :: "services \<Rightarrow> bool sop" where
  "stop_exhausted sv =
     bindR (update (\<lambda>s. (block_exhausted (fst s), snd s))) (\<lambda>_.
     bindR (on_state (push_event ''budget_exhausted'')) (\<lambda>_.
     bindR (store_and_project sv ''budget_exhausted'') (\<lambda>_.
     ok True)))"

text \<open>One round; True when the handler returns.\<close>

definition drive_round :: "services \<Rightarrow> spawn_policy \<Rightarrow> bool sop" where
  "drive_round sv policy =
     live (\<lambda>w.
       case settled_reason w of
         Some reason \<Rightarrow> bindR (store_and_project sv reason) (\<lambda>_. ok True)
       | None \<Rightarrow>
           if budget_exhausted w then stop_exhausted sv
           else if runnable_tasks w = [] then drive_idle sv policy
           else drive_tasks sv policy (runnable_tasks w))"

fun drive_rounds :: "services \<Rightarrow> spawn_policy \<Rightarrow> nat \<Rightarrow> unit sop" where
  "drive_rounds sv policy 0 =
     bindR (set_live_status GS_Blocked) (\<lambda>_. store_and_project sv ''frontier_limit'')"
| "drive_rounds sv policy (Suc n) =
     bindR (drive_round sv policy) (\<lambda>stop. if stop then ok () else drive_rounds sv policy n)"

definition max_frontier_rounds :: nat where
  "max_frontier_rounds = 32"

definition drive_state :: "services \<Rightarrow> spawn_policy \<Rightarrow> unit sop" where
  "drive_state sv policy =
     bindR (store_and_project sv ''drive_start'') (\<lambda>_.
     live (\<lambda>w. drive_rounds sv policy
       (min (cl_max_frontier_rounds (gsp_control_policy (gs_goal w))) max_frontier_rounds)))"

section \<open>Handlers\<close>

record applied_goal_control =
  agc_state :: world
  agc_outcome :: goal_control_outcome
  agc_skipped :: bool

definition applied :: "goal_control_outcome \<Rightarrow> bool \<Rightarrow> applied_goal_control sop" where
  "applied out skip = live (\<lambda>w. ok (| agc_state = w, agc_outcome = out, agc_skipped = skip |))"

definition record_skipped_mutation :: "services \<Rightarrow> skipped_mutation \<Rightarrow> unit sop" where
  "record_skipped_mutation sv skip =
     bindR (on_state (push_event (sk_event skip))) (\<lambda>_. store_and_project sv (sk_transition skip))"

definition finish_control ::
  "services \<Rightarrow> spawn_policy \<Rightarrow> string \<Rightarrow> control_error + goal_control_outcome \<Rightarrow> applied_goal_control sop" where
  "finish_control sv policy handler res =
     (case res of
        Inr out \<Rightarrow>
          if gco_drive_frontier out
          then bindR (drive_state sv policy) (\<lambda>_. applied out False)
          else bindR (store_and_project sv (gco_projection_reason out)) (\<lambda>_. applied out False)
      | Inl (CE_Skip skip) \<Rightarrow>
          bindR (record_skipped_mutation sv skip) (\<lambda>_.
          applied (| gco_projection_reason = sk_transition skip, gco_drive_frontier = False,
            gco_message = handler @ '' skipped: '' @ sk_event skip |) True)
      | Inl (CE_Domain e) \<Rightarrow> fail (domain_error_of e))"

text \<open>
  \<open>apply_goal_control\<close>: the stored state goes in and comes out; it is absent before the first
  \<open>run\<close>.
\<close>

definition apply_goal_control ::
  "services \<Rightarrow> (string \<Rightarrow> uuid) \<Rightarrow> spawn_policy \<Rightarrow> string \<Rightarrow> goal_control_transition \<Rightarrow> world option \<Rightarrow>
   ((handler_error + applied_goal_control) \<times> world option) option" where
  "apply_goal_control sv uuid_v5 policy handler t stored =
     (case stored of
        None \<Rightarrow> Some (Inl (HE_MissingState handler), None)
      | Some p \<Rightarrow>
          map_option (\<lambda>(res, v). let (r, s) = finish_control sv policy handler res (v, p) in (r, Some (snd s)))
            (apply_serialized_control_transition uuid_v5 policy t p))"

text \<open>\<open>GoalWorkflow::run\<close>; \<open>w\<close> supplies the identifiers of a new goal.\<close>

definition run_goal ::
  "services \<Rightarrow> spawn_policy \<Rightarrow> goal_spec \<Rightarrow> world \<Rightarrow> world option \<Rightarrow> (handler_error + unit) \<times> session" where
  "run_goal sv policy goal w stored =
     (let p = (case stored of Some p \<Rightarrow> p | None \<Rightarrow> snd (goal_state_new goal w))
      in drive_state sv policy (p, p))"

section \<open>What the driver keeps\<close>

text \<open>
  The abstract system of the driver: the events of \<open>GoalState\<close>, and the assignments that the
  driver makes itself.  Of these only the blocking of exhausted tasks has a guard: the idle status is a function
  of the state, and the status becomes Blocked after the round loop without a look at it.
\<close>

inductive driver_step :: "world \<Rightarrow> world \<Rightarrow> bool" where
  event: "fire u e w = Some v \<Longrightarrow> driver_step w v"
| idle: "driver_step w (w (| gs_status := frontier_idle_status w |))"
| budget: "settled_reason w = None \<Longrightarrow> budget_exhausted w \<Longrightarrow> driver_step w (block_exhausted w)"
| limit: "driver_step w (w (| gs_status := GS_Blocked |))"
| log: "driver_step w (snd (push_event m w))"

inductive_cases driver_stepE: "driver_step w v"

definition both :: "(world \<Rightarrow> bool) \<Rightarrow> session \<Rightarrow> bool" where
  "both P s \<longleftrightarrow> P (fst s) \<and> P (snd s)"

lemma run_live [simp]: "live f s = f (fst s) s"
  by (simp add: live_def)

lemma run_persist [simp]: "persist s = (Inr (), (fst s, fst s))"
  by (simp add: persist_def)

lemma run_set_live_status [simp]: "set_live_status st s = (Inr (), ((fst s) (| gs_status := st |), snd s))"
  by (simp add: set_live_status_def)

lemma on_state_Inr: "m (fst s) = (Inr x, v) \<Longrightarrow> on_state m s = (Inr x, (v, snd s))"
  by (simp add: on_state_def)

lemma on_state_push [simp]: "on_state (push_event m) s = (Inr (), (snd (push_event m (fst s)), snd s))"
  by (simp add: on_state_def run_push_event)

lemma idle_status_events [simp]: "frontier_idle_status (w (| gs_events := es |)) = frontier_idle_status w"
proof -
  have "some_task st (w (| gs_events := es |)) = some_task st w" for st
    by (simp add: some_task_def tasks_of_def)
  moreover have "is_done (w (| gs_events := es |)) = is_done w" by (simp add: is_done_def)
  ultimately show ?thesis by (simp add: frontier_idle_status_def cong: if_weak_cong)
qed

locale kept_by_events =
  fixes P :: "world \<Rightarrow> bool"
  assumes kept: "P w \<Longrightarrow> driver_step w v \<Longrightarrow> P v"
begin

lemma keep_on_state: "(\<And>w. P w \<Longrightarrow> P (snd (m w))) \<Longrightarrow> preserves (both P) (on_state m)"
  by (rule preservesI) (auto simp: both_def on_state_def split: prod.splits sum.splits, (metis snd_conv)+)

lemma keep_fire: "(\<And>w. fire id e w = Some (snd (m w))) \<Longrightarrow> preserves (both P) (on_state m)"
  using kept driver_step.event by (intro keep_on_state) blast

lemma keep_operations:
  "preserves (both P) (on_state (mark_running i))"
  "preserves (both P) (on_state (ensure_task_approval_or_request i))"
  "preserves (both P) (on_state (record_approval_notification i reports))"
  "preserves (both P) (on_state (apply_agent_result result policy))"
  "preserves (both P) (on_state (apply_validation report))"
  "preserves (both P) (on_state (record_task_timeout_and_maybe_restart i n m))"
  "preserves (both P) (on_state (ensure_branch_frontier policy))"
  "preserves (both P) (on_state (ensure_review_frontier policy))"
  by (rule keep_fire [where e = "EV_Dispatch i"] keep_fire [where e = "EV_RequestApproval i"]
        keep_fire [where e = "EV_Notified i reports"] keep_fire [where e = "EV_Result result policy"]
        keep_fire [where e = "EV_Validation report"] keep_fire [where e = "EV_Timeout i n m"]
        keep_fire [where e = "EV_BranchFrontier policy"] keep_fire [where e = "EV_ReviewFrontier policy"];
      rule fire.simps)+

lemma keep_assignments:
  "preserves (both P) persist" "preserves (both P) (set_live_status GS_Blocked)"
  "preserves (both P) (on_state (push_event m))"
  by (rule preservesI; simp add: both_def kept [OF _ driver_step.limit] kept [OF _ driver_step.log])+

lemma keep_live: "(\<And>w. preserves (both P) (f w)) \<Longrightarrow> preserves (both P) (live f)"
  unfolding live_def by (rule preserves_reads)

lemma keep_services: "preserves (both P) (answer x what)" "preserves (both P) (store_and_project sv reason)"
  unfolding answer_def store_and_project_def project_state_def
  by (intro preserves_rules keep_live keep_assignments)+

text \<open>The guarded assignments, at the state they are made in.\<close>

lemma keep_settle_idle: "preserves (both P) (settle_idle sv)"
proof (rule preservesI)
  fix s assume s: "both P s"
  obtain w p where wp: "s = (w, p)" by fastforce
  have rest: "both P (snd (bindR (set_live_status st)
      (\<lambda>_. bindR (store_and_project sv ''frontier_idle'') (\<lambda>_. ok True)) (x, p)))"
    if "P x" and "st = frontier_idle_status x" for x st
  proof -
    have "both P (x (| gs_status := st |), p)"
      using kept [OF that(1) driver_step.idle] that(2) s by (simp add: both_def wp)
    moreover have "preserves (both P) (bindR (store_and_project sv ''frontier_idle'') (\<lambda>_. ok True))"
      by (intro preserves_rules keep_services)
    ultimately show ?thesis by (simp add: bindR_Inr [OF run_set_live_status] preservesD)
  qed
  have "P w" and "P (w (| gs_events := gs_events w @ [state_event_new m] |))" for m
    using s kept [OF _ driver_step.log] by (simp_all add: both_def wp run_push_event)
  then show "both P (snd (settle_idle sv s))"
    by (auto simp add: wp settle_idle_def Let_def bindR_Inr [OF on_state_push] run_push_event intro!: rest)
qed

lemma keep_stop_exhausted:
  assumes "both P s" "settled_reason (fst s) = None" "budget_exhausted (fst s)"
  shows "both P (snd (stop_exhausted sv s))"
proof -
  have "both P (block_exhausted (fst s), snd s)"
    using assms kept [OF _ driver_step.budget] by (simp add: both_def)
  moreover have "preserves (both P) (bindR (on_state (push_event ''budget_exhausted'')) (\<lambda>_.
     bindR (store_and_project sv ''budget_exhausted'') (\<lambda>_. ok True)))"
    by (intro preserves_rules keep_services keep_assignments)
  ultimately show ?thesis by (simp add: stop_exhausted_def preservesD)
qed

lemmas keep_rules = preserves_rules keep_live keep_operations keep_assignments keep_services keep_settle_idle

lemma keep_drive_task: "preserves (both P) (drive_task sv policy t)"
  unfolding drive_task_def drive_approval_def drive_run_def Let_def by (intro keep_rules)

lemma keep_drive_tasks: "preserves (both P) (drive_tasks sv policy ts)"
proof (induction ts)
  case (Cons t ts)
  then show ?case unfolding drive_tasks.simps by (intro keep_rules keep_drive_task)
qed (unfold drive_tasks.simps, rule preserves_ok)

lemma keep_drive_round: "preserves (both P) (drive_round sv policy)"
proof (rule preservesI)
  fix s assume s: "both P s"
  have stop: "preserves (both P) (bindR (store_and_project sv reason) (\<lambda>_. ok True))" for reason
    by (intro keep_rules)
  have idle: "preserves (both P) (drive_idle sv policy)"
    unfolding drive_idle_def by (intro keep_rules)
  show "both P (snd (drive_round sv policy s))"
    using s keep_stop_exhausted [OF s] preservesD [OF stop s] preservesD [OF idle s] preservesD [OF keep_drive_tasks s]
    by (simp add: drive_round_def split: option.split)
qed

lemma keep_drive_rounds: "preserves (both P) (drive_rounds sv policy n)"
proof (induction n)
  case 0
  show ?case unfolding drive_rounds.simps by (intro keep_rules)
next
  case (Suc n)
  then show ?case unfolding drive_rounds.simps by (intro keep_rules keep_drive_round)
qed

lemma keep_drive_state: "preserves (both P) (drive_state sv policy)"
  unfolding drive_state_def by (intro keep_rules keep_drive_rounds)

lemma keep_finish_control: "preserves (both P) (finish_control sv policy handler res)"
proof (cases res)
  case (Inl e)
  then show ?thesis
    by (cases e) (simp_all add: finish_control_def record_skipped_mutation_def applied_def, (intro keep_rules)+)
next
  case (Inr out)
  then show ?thesis
    by (simp add: finish_control_def applied_def, intro conjI impI keep_rules keep_drive_state)
qed

lemma keep_control:
  assumes "P w" and "apply_serialized_control_transition u policy t w = Some (res, v)"
  shows "P v"
  using control_fires [OF assms(2)] assms(1) kept driver_step.intros by blast

lemma keep_goal_control:
  assumes "P p" and "apply_goal_control sv u policy handler t (Some p) = Some (res, Some q)"
  shows "P q"
proof -
  obtain r v where c: "apply_serialized_control_transition u policy t p = Some (r, v)"
    and q: "q = snd (snd (finish_control sv policy handler r (v, p)))"
    using assms(2) by (auto simp: apply_goal_control_def split_def Let_def)
  have "both P (v, p)" using keep_control [OF assms(1) c] assms(1) by (simp add: both_def)
  from preservesD [OF keep_finish_control this] q show ?thesis by (simp add: both_def)
qed

end

section \<open>The invariants of stored states\<close>

definition sound_world :: "world \<Rightarrow> bool" where
  "sound_world w \<longleftrightarrow> wf_world w \<and> thunks_ok w \<and> restarts_bounded w \<and> branches_ok w \<and> reviews_ok w \<and>
     rounds_within w \<and> steering_within w"

lemma sound_update:
  assumes "preserves (knows {}) (update f :: unit wop)" and "sound_world w"
    and "gs_delayed_compute_thunks (f w) = gs_delayed_compute_thunks w" "restart_budget (f w) = restart_budget w"
    and "branch_view (f w) = branch_view w" "review_view (f w) = review_view w" "round_view (f w) = round_view w"
    and "steering_view (f w) = steering_view w"
  shows "sound_world (f w)"
proof -
  have "wf_world (f w)" using preservesD [OF assms(1), of w] assms(2) by (simp add: knows_empty sound_world_def)
  then show ?thesis
    using assms(2-) thunks_ok_frame [of "f w" w] restarts_bounded_budget [of "f w" w]
    by (simp add: sound_world_def branches_ok_def ballots_of_def reviews_ok_def rounds_within_def
        rounds_sound_def steering_within_def)
qed

lemma sound_fire:
  assumes s: "sound_world w" and f: "fire u e w = Some v"
  shows "sound_world v"
proof -
  note parts = s [unfolded sound_world_def]
  show ?thesis
    unfolding sound_world_def
    by (intro conjI wf_step [OF _ f] thunks_step [OF _ f] restarts_step [OF _ f] branches_step [OF _ _ f]
        reviews_step [OF _ f] rounds_step [OF _ f] steering_step [OF _ f]) (use parts in blast)+
qed

lemma sound_status:
  assumes "sound_world w"
  shows "sound_world (w (| gs_status := st |))"
proof -
  have "preserves (knows {}) (update (\<lambda>w. w (| gs_status := st |)))" by (rule preserves_wf_frame) simp_all
  from sound_update [OF this assms] show ?thesis by (simp add: restart_budget_def)
qed

lemma sound_block:
  assumes "sound_world w"
  shows "sound_world (block_exhausted w)"
proof -
  have "preserves (knows {}) (update block_exhausted)"
    by (rule preserves_wf_update) (simp_all add: block_exhausted_def same_shapes_map_values task_shape_def)
  from sound_update [OF this assms] show ?thesis by (simp add: block_exhausted_def restart_budget_def)
qed

lemma sound_event:
  assumes "sound_world w"
  shows "sound_world (snd (push_event m w))"
proof -
  have "preserves (knows {}) (update (\<lambda>w. snd (push_event m w)))"
    unfolding run_push_event snd_conv by (rule preserves_wf_frame) simp_all
  from sound_update [OF this assms] show ?thesis by (simp add: run_push_event restart_budget_def)
qed

interpretation sound: kept_by_events sound_world
  by unfold_locales (auto elim!: driver_stepE intro: sound_fire sound_status sound_block sound_event)

interpretation runs: kept_by_events "driver_step\<^sup>*\<^sup>* w" for w
  by unfold_locales (rule rtranclp.rtrancl_into_rtrancl)

section \<open>What a handler returns is stored\<close>

definition synced :: "session \<Rightarrow> bool" where
  "synced s \<longleftrightarrow> fst s = snd s"

lemma store_synced: "store_and_project sv reason s = (Inr x, t) \<Longrightarrow> t = (fst s, fst s)"
  by (auto simp: store_and_project_def project_state_def persist_def live_def split: if_splits)

lemma bind_store_synced:
  "bindR (store_and_project sv reason) (\<lambda>_. ok y) s = (Inr x, t) \<Longrightarrow> t = (fst s, fst s)"
  by (erule bindR_InrE) (auto dest: store_synced)

text \<open>The states in which an approval stops the driver.\<close>

lemma approval_waits:
  assumes "ensure_task_approval_or_request i w = (Inr (Some a), v)"
  shows "gs_status v \<in> {GS_Failed, GS_Blocked, GS_WaitingApproval}"
proof -
  define waiting where "waiting u \<longleftrightarrow> gs_status u \<in> {GS_Failed, GS_Blocked, GS_WaitingApproval}" for u :: world
  obtain t where t: "bt_get (gs_tasks w) i = Some t" and live: "\<not> goal_terminal w"
    and task: "ensure_task_accepts_mutation i ''request task approval'' w = Inr ()"
    using assms by (auto simp: ensure_task_approval_or_request_def ensure_task_accepts_mutation_def task_def
        split: sum.splits option.splits)
  have waits: "waiting (refresh s)"
    if "gs_tasks s = bt_adjust i (\<lambda>t. t (| tn_status := TS_WaitingApproval |)) (gs_tasks w)" "gs_status s = gs_status w"
    for s :: world
  proof -
    have "bt_get (gs_tasks s) i = Some (t (| tn_status := TS_WaitingApproval |))"
      using that(1) t by (simp add: get_adjust)
    from get_Some_values [OF this] have "some_task TS_WaitingApproval s"
      by (auto simp: some_task_def tasks_of_def intro!: bexI)
    then show ?thesis using that(2) live
      by (simp add: waiting_def status_refresh refreshed_status_def goal_terminal_def)
  qed
  have "task_mut i w = (Inr t, w)" using t by simp
  note run = assms [unfolded ensure_task_approval_or_request_def bindR_lift_result ensure_goal_live [OF live] task sum.case
      bindR_Inr [of "task_mut i", OF this] run_reads Let_def]
  have [simp]: "waiting (u (| gs_events := es |)) = waiting u" for u es by (simp add: waiting_def)
  from run t have "waiting v"
    by (auto simp: bind_set_task_status bind_rules push_approval_def split: if_splits intro!: waits)
  then show ?thesis by (simp add: waiting_def)
qed

end
