(* ===== verification/Handlers.thy ===== *)
theory Handlers
  imports Drive
begin

text \<open>
  Properties of the coordinator's handlers: every state they store is a state of the abstract
  driver system and keeps the invariants, what a driver returns is what it stored, and when it
  stops.
\<close>

section \<open>Stored states\<close>

text \<open>
  The states that the goal object stores: those that \<open>run\<close> and the control handlers leave in the
  store, on success and on error, whatever the services answer.
\<close>

inductive stored :: "goal_spec \<Rightarrow> world \<Rightarrow> bool" for goal where
  run_new: "inj (uuid_tape w) \<Longrightarrow> run_goal sv policy goal w None = (res, (v, p)) \<Longrightarrow> stored goal p"
| run_again: "stored goal p \<Longrightarrow> run_goal sv policy goal' w (Some p) = (res, (v, q)) \<Longrightarrow> stored goal q"
| control: "stored goal p \<Longrightarrow> apply_goal_control sv u policy handler t (Some p) = Some (res, Some q) \<Longrightarrow> stored goal q"

lemma run_goal_state:
  "run_goal sv policy goal w None = drive_state sv policy (snd (goal_state_new goal w), snd (goal_state_new goal w))"
  "run_goal sv policy goal w (Some p) = drive_state sv policy (p, p)"
  by (simp_all add: run_goal_def Let_def)

context kept_by_events
begin

lemma keep_run:
  assumes "P p" and "drive_state sv policy (p, p) = (res, (v, q))"
  shows "P q"
  using preservesD [OF keep_drive_state, of "(p, p)" sv policy] assms by (simp add: both_def)

lemma keep_stored:
  assumes "stored goal p" and new: "\<And>w. inj (uuid_tape w) \<Longrightarrow> P (snd (goal_state_new goal w))"
  shows "P p"
  using assms(1)
proof (induction rule: stored.induct)
  case (run_new w sv policy res v p)
  then show ?case using keep_run new run_goal_state(1) by metis
next
  case (run_again p sv policy goal' w res v q)
  then show ?case using keep_run run_goal_state(2) by metis
next
  case (control p sv u policy handler t res q)
  then show ?case using keep_goal_control by blast
qed

end

lemma new_goal_sound:
  assumes "inj (uuid_tape w)"
  shows "sound_world (snd (goal_state_new goal w))"
  unfolding sound_world_def
  by (intro conjI tree.inv_start thunks.inv_start restarts.inv_start branches.inv_start reviews.inv_start
      rounds.inv_start steering.inv_start assms)

text \<open>The start of the abstract runs.\<close>

inductive driver_reachable :: "goal_spec \<Rightarrow> world \<Rightarrow> bool" for goal where
  new: "inj (uuid_tape w) \<Longrightarrow> driver_reachable goal (snd (goal_state_new goal w))"
| step: "driver_reachable goal w \<Longrightarrow> driver_step w v \<Longrightarrow> driver_reachable goal v"

interpretation abstract_runs: kept_by_events "driver_reachable goal" for goal
  by unfold_locales (rule driver_reachable.step)

text \<open>
  C3: The coordinator refines the event system of the goal.  Every state that the handlers store,
  whether they succeed or fail and whatever the runners, the notifier and the goal store
  answer, is reached from \<open>GoalState::new\<close> by events of \<open>GoalState\<close>, log entries and three
  assignments: \<open>frontier_idle_status\<close> of the state, Blocked at the round limit, and
  blocking exhausted tasks of an unsettled goal.  All of these keep the invariants of the
  task tree, thunks, restarts, branch groups, review rounds, mechanism rounds and directives,
  so that every stored state is sound.
\<close>
theorem handlers_refine_the_event_system:
  assumes "stored goal p"
  shows "driver_reachable goal p \<and> sound_world p"
  using abstract_runs.keep_stored [OF assms] sound.keep_stored [OF assms] driver_reachable.new new_goal_sound by blast

definition deaf_services :: services where
  "deaf_services = (| sv_run_task = (\<lambda>_ _. None), sv_validation_up = (\<lambda>_. False), sv_notify = (\<lambda>_ _ _. None),
     sv_project = (\<lambda>_ _. False) |)"

lemma deaf_run: "snd (snd (run_goal deaf_services spawn_policy_default goal w None)) = snd (goal_state_new goal w)"
  by (simp add: run_goal_def drive_state_def store_and_project_def project_state_def deaf_services_def Let_def
      bindR_Inr [OF run_persist] bindR_Inl)

lemma stored_new: "inj (uuid_tape w) \<Longrightarrow> stored goal (snd (goal_state_new goal w))"
  by (metis deaf_run stored.run_new prod.collapse)

theorem handlers_refine_the_event_system_witness:
  "sound_world (snd (goal_state_new sample_goal (world_of sample_goal [])))"
  by (rule handlers_refine_the_event_system [THEN conjunct2], rule stored_new) simp

section \<open>When the driver stops\<close>

definition at_rest :: "world \<Rightarrow> bool" where
  "at_rest w \<longleftrightarrow> gs_status w \<noteq> GS_Running \<or> is_done w \<or>
     cl_mode (gsp_control_policy (gs_goal w)) \<in> {CLM_MonitorUntilCancelled, CLM_HumanSteeredContinuous}"

definition rests :: "session \<Rightarrow> bool" where
  "rests s \<longleftrightarrow> synced s \<and> at_rest (fst s)"

lemma store_rests: "store_and_project sv reason s = (Inr x, t) \<Longrightarrow> at_rest (fst s) \<Longrightarrow> rests t"
  by (drule store_synced) (simp add: rests_def synced_def)

lemma bind_store_rests: "bindR (store_and_project sv reason) (\<lambda>_. ok y) s = (Inr x, t) \<Longrightarrow> at_rest (fst s) \<Longrightarrow> rests t"
  by (drule bind_store_synced) (simp add: rests_def synced_def)

lemma settled_at_rest: "settled_reason w = Some r \<Longrightarrow> at_rest w"
  by (auto simp: settled_reason_def at_rest_def split: if_splits)

lemma stop_exhausted_rests:
  assumes "stop_exhausted sv s = (Inr b, t)"
  shows "rests t"
  using assms bind_store_rests
  by (fastforce simp: stop_exhausted_def bindR_Inr [OF on_state_push] at_rest_def block_exhausted_def run_push_event)

lemma settle_idle_rests:
  assumes "settle_idle sv s = (Inr b, t)"
  shows "rests t"
proof -
  have idle: "at_rest (w (| gs_status := frontier_idle_status v |))" if "gs_goal w = gs_goal v" "gs_satisfaction w = gs_satisfaction v" for w v
    using that by (auto simp: at_rest_def frontier_idle_status_def)
  have "\<exists>w. bindR (store_and_project sv ''frontier_idle'') (\<lambda>_. ok True) (w, snd s) = (Inr b, t) \<and> at_rest w"
  proof (cases "frontier_idle_status (fst s) = GS_Running \<and>
      cl_mode (gsp_control_policy (gs_goal (fst s))) \<in> {CLM_MonitorUntilCancelled, CLM_HumanSteeredContinuous}")
    case True
    then show ?thesis
      using assms idle [of "fst s (| gs_events := es |)" "fst s" for es]
      by (auto simp: settle_idle_def Let_def bindR_Inr [OF on_state_push] bindR_Inr [OF run_set_live_status] run_push_event)
  next
    case False
    then show ?thesis
      using assms idle [of "fst s" "fst s"]
      by (auto simp: settle_idle_def Let_def bindR_Inr [OF run_set_live_status])
  qed
  then show ?thesis using bind_store_rests by fastforce
qed

lemma on_state_InrE:
  assumes "on_state m s = (Inr x, t)"
  obtains v where "m (fst s) = (Inr x, v)" and "t = (v, snd s)"
  using assms by (auto simp: on_state_def split: prod.splits sum.splits)

lemma notification_status: "snd (record_approval_notification i reports w) = v \<Longrightarrow> gs_status v = gs_status w"
  by (auto simp: record_approval_notification_def update_approval_def split: option.splits)

lemma drive_approval_rests:
  assumes "drive_approval sv t a s = (Inr b, u)" and "gs_status (fst s) \<in> {GS_Failed, GS_Blocked, GS_WaitingApproval}"
  shows "b \<and> rests u"
proof -
  from assms(1) obtain reports s' where r: "on_state (record_approval_notification (apr_id a) reports) (fst s, fst s) = (Inr (), s')"
    and st: "bindR (store_and_project sv ''approval_requested'') (\<lambda>_. ok True) s' = (Inr b, u)"
    by (simp add: drive_approval_def bindR_Inr [OF run_persist] answer_def split: option.splits)
       (erule bindR_InrE, simp)
  from r obtain v where "record_approval_notification (apr_id a) reports (fst s) = (Inr (), v)" and v: "s' = (v, fst s)"
    by (rule on_state_InrE) simp
  with notification_status [of "apr_id a" reports "fst s" v] assms(2) have "at_rest (fst s')"
    by (auto simp: at_rest_def)
  from bind_store_rests [OF st this] st show ?thesis by (auto elim: bindR_InrE)
qed

text \<open>A step of the driver that stops it leaves it at rest; the rules follow the shape of the step.\<close>

definition stops_at_rest :: "bool sop \<Rightarrow> bool" where
  "stops_at_rest m \<longleftrightarrow> (\<forall>s t. m s = (Inr True, t) \<longrightarrow> rests t)"

lemma stopsI: "(\<And>s t. m s = (Inr True, t) \<Longrightarrow> rests t) \<Longrightarrow> stops_at_rest m"
  by (simp add: stops_at_rest_def)

lemma stopsD: "stops_at_rest m \<Longrightarrow> m s = (Inr True, t) \<Longrightarrow> rests t"
  unfolding stops_at_rest_def by blast

lemma stops_bind: "(\<And>x. stops_at_rest (f x)) \<Longrightarrow> stops_at_rest (bindR m f)"
  unfolding stops_at_rest_def by (blast elim: bindR_InrE)

lemma stops_live: "(\<And>w. stops_at_rest (f w)) \<Longrightarrow> stops_at_rest (live f)"
  unfolding stops_at_rest_def by simp

lemma stops_rest:
  "stops_at_rest (ok False)" "stops_at_rest (settle_idle sv)" "stops_at_rest (stop_exhausted sv)"
  unfolding stops_at_rest_def using settle_idle_rests stop_exhausted_rests by auto

lemma stops_if: "stops_at_rest m \<Longrightarrow> stops_at_rest n \<Longrightarrow> stops_at_rest (if b then m else n)"
  by simp

lemmas stops_rules = stops_rest stops_bind stops_live stops_if

lemma stops_drive_run: "stops_at_rest (drive_run sv policy t)"
  unfolding drive_run_def Let_def by (intro stops_rules)

lemma stops_drive_task: "stops_at_rest (drive_task sv policy t)"
proof -
  have "rests u" if "drive_task sv policy t s = (Inr True, u)" for s u
    using that unfolding drive_task_def
  proof (rule bindR_InrE)
    fix a v
    assume a: "on_state (ensure_task_approval_or_request (tn_id t)) s = (Inr a, v)"
      and run: "(case a of None \<Rightarrow> drive_run sv policy t | Some x \<Rightarrow> drive_approval sv t x) v = (Inr True, u)"
    show "rests u"
    proof (cases a)
      case None
      then show ?thesis using run by (auto intro: stopsD [OF stops_drive_run])
    next
      case (Some x)
      then have "gs_status (fst v) \<in> {GS_Failed, GS_Blocked, GS_WaitingApproval}"
        using a by (auto elim!: on_state_InrE dest!: approval_waits)
      then show ?thesis using run Some drive_approval_rests by fastforce
    qed
  qed
  then show ?thesis by (rule stopsI)
qed

lemma stops_drive_tasks: "stops_at_rest (drive_tasks sv policy ts)"
proof (induction ts)
  case (Cons t ts)
  have "rests u" if "drive_tasks sv policy (t # ts) s = (Inr True, u)" for s u
  proof -
    from that obtain b v where step: "drive_task sv policy t s = (Inr b, v)"
      and rest: "(if b then ok True else drive_tasks sv policy ts) v = (Inr True, u)"
      unfolding drive_tasks.simps by (rule bindR_InrE)
    show ?thesis using step rest by (cases b) (auto intro: stopsD [OF stops_drive_task] stopsD [OF Cons])
  qed
  then show ?case by (rule stopsI)
qed (unfold drive_tasks.simps, rule stops_rules)

lemma stops_drive_round: "stops_at_rest (drive_round sv policy)"
proof -
  have idle: "stops_at_rest (drive_idle sv policy)"
    unfolding drive_idle_def by (intro stops_rules)
  have "rests t" if "drive_round sv policy s = (Inr True, t)" for s t
  proof (cases "settled_reason (fst s)")
    case None
    then show ?thesis using that
      by (auto simp: drive_round_def split: if_splits intro: stopsD [OF idle] stopsD [OF stops_drive_tasks] stopsD [OF stops_rest(3)])
  next
    case (Some r)
    then show ?thesis using that by (auto simp: drive_round_def intro: bind_store_rests settled_at_rest)
  qed
  then show ?thesis by (rule stopsI)
qed

lemma drive_rounds_rest: "drive_rounds sv policy n s = (Inr x, t) \<Longrightarrow> rests t"
proof (induction n arbitrary: s)
  case 0
  then have "store_and_project sv ''frontier_limit'' ((fst s) (| gs_status := GS_Blocked |), snd s) = (Inr x, t)"
    by (simp add: bindR_Inr [OF run_set_live_status])
  then show ?case by (rule store_rests) (simp add: at_rest_def)
next
  case (Suc n)
  then obtain b v where step: "drive_round sv policy s = (Inr b, v)"
    and rest: "(if b then ok () else drive_rounds sv policy n) v = (Inr x, t)"
    unfolding drive_rounds.simps by (blast elim: bindR_InrE)
  show ?case using step rest Suc.IH by (cases b) (auto intro: stopsD [OF stops_drive_round])
qed

text \<open>
  C7: The driver returns at rest, with what it stored.  When \<open>drive_state\<close> succeeds, the state
  it returns is the one in the store, and the goal needs no further driving: it is not
  Running, or it is done, or its control loop runs until it is cancelled or steered.
\<close>
theorem driver_returns_at_rest:
  assumes "drive_state sv policy (w, p) = (Inr (), (v, q))"
  shows "v = q \<and> (gs_status v = GS_Running \<longrightarrow> is_done v \<or>
    cl_mode (gsp_control_policy (gs_goal v)) \<in> {CLM_MonitorUntilCancelled, CLM_HumanSteeredContinuous})"
proof -
  from assms have "rests (v, q)"
    unfolding drive_state_def by (auto elim!: bindR_InrE intro: drive_rounds_rest)
  then show ?thesis by (auto simp: rests_def synced_def at_rest_def)
qed

section \<open>Settled goals\<close>

lemma store_projected: "sv_project sv (fst s) reason \<Longrightarrow> store_and_project sv reason s = (Inr (), (fst s, fst s))"
  by (simp add: store_and_project_def project_state_def bindR_Inr [OF run_persist])

lemma drive_start:
  assumes "\<forall>v reason. sv_project sv v reason"
  shows "drive_state sv policy (w, p) =
      drive_rounds sv policy (min (cl_max_frontier_rounds (gsp_control_policy (gs_goal w))) max_frontier_rounds) (w, w)"
  using assms by (simp add: drive_state_def bindR_Inr [OF store_projected])

lemma drive_settled:
  assumes "settled_reason w = Some r" and "\<forall>v reason. sv_project sv v reason"
    and "cl_max_frontier_rounds (gsp_control_policy (gs_goal w)) \<noteq> 0"
  shows "drive_state sv policy (w, p) = (Inr (), (w, w))"
proof -
  obtain m where "min (cl_max_frontier_rounds (gsp_control_policy (gs_goal w))) max_frontier_rounds = Suc m"
    using assms(3) by (cases "cl_max_frontier_rounds (gsp_control_policy (gs_goal w))") (auto simp: max_frontier_rounds_def)
  moreover have "drive_round sv policy (w, w) = (Inr True, (w, w))"
    using assms(1,2) by (simp add: drive_round_def bindR_Inr [OF store_projected])
  ultimately show ?thesis by (simp add: drive_start [OF assms(2)] bindR_Inr)
qed

text \<open>
  A settled goal is left alone, unless the round limit is zero.  On a goal that is
  Cancelled, done or Paused the driver dispatches nothing and only stores the state again; but
  with \<open>max_frontier_rounds = 0\<close> the check is never reached and the goal becomes Blocked
  whatever its status, a Cancelled goal included.
\<close>
theorem settled_goal_is_left_alone:
  assumes "settled_reason w \<noteq> None" and "\<forall>v reason. sv_project sv v reason"
  shows "drive_state sv policy (w, p) =
    (let v = (if cl_max_frontier_rounds (gsp_control_policy (gs_goal w)) = 0 then w (| gs_status := GS_Blocked |) else w)
     in (Inr (), (v, v)))"
proof (cases "cl_max_frontier_rounds (gsp_control_policy (gs_goal w)) = 0")
  case True
  then show ?thesis using assms(2)
    by (simp add: drive_start [OF assms(2)] bindR_Inr [OF run_set_live_status] store_projected Let_def)
next
  case False
  then show ?thesis using assms drive_settled by (auto simp: Let_def)
qed

definition projecting_services :: services where
  "projecting_services = deaf_services (| sv_project := (\<lambda>_ _. True) |)"

lemma projecting [simp]: "sv_project projecting_services v reason"
  by (simp add: projecting_services_def)

definition cancelled_sample :: world where
  "cancelled_sample = (world_of sample_goal [sample_task ''a'' TS_Runnable]) (| gs_status := GS_Cancelled |)"

lemma cancelled_sample_settled:
  "settled_reason cancelled_sample = Some ''cancelled''"
  "cl_max_frontier_rounds (gsp_control_policy (gs_goal cancelled_sample)) \<noteq> 0"
  by (simp_all add: cancelled_sample_def settled_reason_def world_of_def control_loop_policy_default_def)

theorem settled_goal_is_left_alone_witness:
  "drive_state projecting_services spawn_policy_default (cancelled_sample, world_of sample_goal []) =
     (Inr (), (cancelled_sample, cancelled_sample))"
  using settled_goal_is_left_alone [of cancelled_sample projecting_services spawn_policy_default "world_of sample_goal []"]
  by (simp add: cancelled_sample_settled Let_def)

theorem driver_returns_at_rest_witness:
  "drive_state projecting_services spawn_policy_default (cancelled_sample, world_of sample_goal []) =
     (Inr (), (cancelled_sample, cancelled_sample)) \<and>
   \<not> (gs_status cancelled_sample = GS_Running \<and> \<not> is_done cancelled_sample \<and>
      cl_mode (gsp_control_policy (gs_goal cancelled_sample)) \<notin> {CLM_MonitorUntilCancelled, CLM_HumanSteeredContinuous})"
proof -
  have run: "drive_state projecting_services spawn_policy_default (cancelled_sample, world_of sample_goal []) =
     (Inr (), (cancelled_sample, cancelled_sample))"
    by (rule drive_settled [OF cancelled_sample_settled(1) _ cancelled_sample_settled(2)]) simp
  from driver_returns_at_rest [OF run] run show ?thesis by blast
qed

section \<open>Work injected into a finished goal\<close>

lemma inject_keeps: "preserves (\<lambda>w. (gs_status w, gs_goal w) = x) (steer_inject_task policy role prompt reason)"
  unfolding steer_inject_task_def steering_spawn_def
  by (intro control_rules frame_rules) simp_all

lemma steering_injects:
  assumes "apply_steering d policy w = (Inr x, v)" and "st_kind d = SK_InjectTask role prompt reason"
  obtains m u where "steer_inject_task policy role prompt reason w = (Inr m, u)" and "gs_tasks v = gs_tasks u"
    and "gs_status v = gs_status w" and "gs_goal v = gs_goal w"
proof -
  have "bindR (steer_inject_task policy role prompt reason) (\<lambda>m. bindR (push_directive d) (\<lambda>_. push_event m)) w = (Inr x, v)"
    using assms by (simp add: apply_steering_def split: if_splits)
  then obtain m u where u: "steer_inject_task policy role prompt reason w = (Inr m, u)"
    and v: "bindR (push_directive d) (\<lambda>_. push_event m) u = (Inr x, v)"
    by (rule bindR_InrE)
  from frame_run [OF inject_keeps u] v show ?thesis
    by (intro that [OF u]) (auto simp: push_directive_def push_event_def)
qed

text \<open>
  C28: Work injected into a Done goal is accepted and never run.  When the control plane
  accepts an InjectTask directive for a Done goal, the new task is stored in the ready queue, but
  the goal stays Done, so that the driver returns without dispatching it, and so does every
  later \<open>run\<close>.
\<close>
theorem work_injected_into_a_done_goal_is_stranded:
  assumes run: "apply_goal_control sv u policy handler (GC_Steer d) (Some w) = Some (Inr a, Some v)"
    and kind: "st_kind d = SK_InjectTask role prompt reason" and fin: "gs_status w = GS_Done"
    and wf: "wf_world w" and up: "\<forall>x r. sv_project sv x r"
    and rounds: "cl_max_frontier_rounds (gsp_control_policy (gs_goal w)) \<noteq> 0"
  shows "agc_state a = v \<and> gs_status v = GS_Done \<and>
    (\<exists>t \<in> set (runnable_tasks v). tn_prompt t = prompt \<and> bt_get (gs_tasks w) (tn_id t) = None) \<and>
    run_goal sv policy goal x (Some v) = (Inr (), (v, v))"
proof -
  from run obtain res s where c: "apply_serialized_control_transition u policy (GC_Steer d) w = Some (res, s)"
    and f: "fst (finish_control sv policy handler res (s, w)) = Inr a"
    and g: "snd (snd (finish_control sv policy handler res (s, w))) = v"
    by (auto simp: apply_goal_control_def Let_def split_def)
  from c f kind fin obtain y where steer: "apply_steering d policy w = (Inr y, s)" and out: "gco_drive_frontier (projr res)"
      "isl res = False"
    by (cases "apply_steering d policy w")
       (auto simp: apply_serialized_control_transition_def try_domain_def try_skip_def outcome_def bindR_def
          finish_control_def split: sum.splits)
  obtain m z where inject: "steer_inject_task policy role prompt reason w = (Inr m, z)" and z: "gs_tasks s = gs_tasks z"
    and keep: "gs_status s = gs_status w" "gs_goal s = gs_goal w"
    using steering_injects [OF steer kind] .
  have idle: "drive_state sv policy (s, p) = (Inr (), (s, s))" for p
    by (rule drive_settled [of _ "''done''"]) (use keep fin up rounds in \<open>simp_all add: settled_reason_def is_done_def\<close>)
  then have v: "v = s" "agc_state a = s"
    using f g out by (auto simp: finish_control_def applied_def bindR_Inr [of "drive_state sv policy", OF idle] split: sum.splits)
  obtain t where "t \<in> set (runnable_tasks z)" "bt_get (gs_tasks w) (tn_id t) = None" "tn_prompt t = prompt"
    using injected_task [OF inject wf] by blast
  moreover from this z have "t \<in> set (runnable_tasks s)"
    by (simp add: set_runnable_tasks tasks_of_def dependencies_done_def)
  ultimately show ?thesis using v keep fin by (auto simp: run_goal_state(2) idle)
qed

definition done_sample :: world where
  "done_sample = (world_of sample_goal [sample_task ''a'' TS_Done]) (| gs_status := GS_Done |)"

lemma done_sample_steered:
  "\<exists>v. apply_steering (sample_directive (SK_InjectTask WK_Codex ''fix'' [])) spawn_policy_default done_sample = (Inr (), v)"
proof -
  have "root_task done_sample = Inr (sample_task ''a'' TS_Done)" by (simp add: root_task_def done_sample_def)
  then obtain m v where run: "steer_inject_task spawn_policy_default WK_Codex ''fix'' [] done_sample = (Inr m, v)"
    by (simp add: done_sample_def steer_inject_task_def control_loop_policy_default_def steering_spawn_def
        ensure_spawn_allowed_def spawn_policy_default_def run_insert_child_task bindR_def Let_def default_goal_def)
  have "gsp_id (gs_goal done_sample) = ''g''" "gs_steering_directives done_sample = []"
    "gsp_control_policy (gs_goal done_sample) = control_loop_policy_default"
    by (simp_all add: done_sample_def)
  then show ?thesis
    by (simp add: apply_steering_def control_loop_policy_default_def sample_directive_def
        bindR_Inr [of "steer_inject_task spawn_policy_default WK_Codex ''fix'' []", OF run] push_directive_def push_event_def)
qed

theorem work_injected_into_a_done_goal_is_stranded_witness:
  "\<exists>a v. apply_goal_control projecting_services (\<lambda>s. s) spawn_policy_default ''steer''
        (GC_Steer (sample_directive (SK_InjectTask WK_Codex ''fix'' []))) (Some done_sample) = Some (Inr a, Some v) \<and>
     gs_status v = GS_Done \<and> runnable_tasks v \<noteq> []"
proof -
  let ?d = "sample_directive (SK_InjectTask WK_Codex ''fix'' [])"
  obtain s where steer: "apply_steering ?d spawn_policy_default done_sample = (Inr (), s)"
    using done_sample_steered by blast
  have kind: "st_kind ?d = SK_InjectTask WK_Codex ''fix'' []" by (simp add: sample_directive_def)
  have "preserves (knows {}) (update (\<lambda>w. w (| gs_status := GS_Done |)))" by (rule preserves_wf_frame) simp_all
  from preservesD [OF this, of "world_of sample_goal [sample_task ''a'' TS_Done]"] have wf: "wf_world done_sample"
    using wf_world_of_one [of "''a''" TS_Done] by (simp add: knows_empty done_sample_def)
  have fin: "gs_status done_sample = GS_Done" "cl_max_frontier_rounds (gsp_control_policy (gs_goal done_sample)) \<noteq> 0"
    by (simp_all add: done_sample_def control_loop_policy_default_def)
  have keep: "gs_status s = GS_Done" "gs_goal s = gs_goal done_sample"
    using steering_injects [OF steer kind] fin by metis+
  have "drive_state projecting_services spawn_policy_default (s, done_sample) = (Inr (), (s, s))"
    by (rule drive_settled [of _ "''done''"]) (use keep fin in \<open>simp_all add: settled_reason_def is_done_def\<close>)
  then obtain a where run: "apply_goal_control projecting_services (\<lambda>s. s) spawn_policy_default ''steer'' (GC_Steer ?d)
      (Some done_sample) = Some (Inr a, Some s)"
    using steer fin
    by (simp add: apply_goal_control_def apply_serialized_control_transition_def try_domain_def try_skip_def outcome_def
        bindR_def finish_control_def applied_def kind)
  show ?thesis
    using run work_injected_into_a_done_goal_is_stranded [OF run kind fin(1) wf _ fin(2)] by fastforce
qed

end
