(* ===== verification/Routing.thy ===== *)
theory Routing
  imports Execution_Profile Rust_Order Rust_Int
begin

text \<open>
  Model routing: which models of a runner are compatible with the model route of a task, which of
  them is selected and how it scores (\<open>ModelRoute\<close> and its helpers), and the registration that
  a runner advertises.

  The hash of \<open>DefaultHasher\<close> is a parameter: the standard library does not specify its
  algorithm.  \<open>route_hash\<close> is \<open>stable_route_hash\<close>, \<open>model_hash\<close> is \<open>stable_model_hash\<close> of the
  goal, the task, the provider and the model.
\<close>

section \<open>Registrations\<close>

record runner_registration =
  rr_runner_id :: string
  rr_node_id :: string
  rr_endpoint :: string
  rr_roles :: "worker_kind list"
  rr_capabilities :: "runner_capability list"
  rr_models :: "model_candidate list"
  rr_labels :: string_map
  rr_mcp_servers :: "mcp_server_ref list"
  rr_max_concurrency :: nat
  rr_lease_ttl_seconds :: nat

record std_hash =
  route_hash :: "uuid option \<Rightarrow> uuid option \<Rightarrow> nat"
  model_hash :: "uuid option \<Rightarrow> uuid option \<Rightarrow> string \<Rightarrow> string \<Rightarrow> nat"

text \<open>All entries of a map are present in another.\<close>

definition map_within :: "string_map \<Rightarrow> string_map \<Rightarrow> bool" where
  "map_within required actual \<longleftrightarrow> (\<forall>(k, v) \<in> set required. bt_get actual k = Some v)"

section \<open>Compatible models\<close>

definition requested_ok :: "'a option \<Rightarrow> 'a option \<Rightarrow> bool" where
  "requested_ok requested actual \<longleftrightarrow> requested = None \<or> actual = requested"

definition params_match_request :: "model_runtime_parameters \<Rightarrow> model_runtime_parameters \<Rightarrow> bool" where
  "params_match_request actual requested \<longleftrightarrow>
     requested_ok (mrp_latency_class requested) (mrp_latency_class actual) \<and>
     requested_ok (mrp_speed_tier requested) (mrp_speed_tier actual) \<and>
     requested_ok (mrp_temperature_milli requested) (mrp_temperature_milli actual) \<and>
     requested_ok (mrp_top_p_milli requested) (mrp_top_p_milli actual) \<and>
     requested_ok (mrp_max_output_tokens requested) (mrp_max_output_tokens actual) \<and>
     requested_ok (mrp_reasoning_effort requested) (mrp_reasoning_effort actual) \<and>
     requested_ok (mrp_timeout_seconds requested) (mrp_timeout_seconds actual) \<and>
     map_within (mrp_extra requested) (mrp_extra actual)"

definition params_is_empty :: "model_runtime_parameters \<Rightarrow> bool" where
  "params_is_empty p \<longleftrightarrow> mrp_latency_class p = None \<and> mrp_speed_tier p = None \<and> mrp_temperature_milli p = None \<and>
     mrp_top_p_milli p = None \<and> mrp_max_output_tokens p = None \<and> mrp_reasoning_effort p = None \<and>
     mrp_timeout_seconds p = None \<and> mrp_extra p = []"

definition matches_candidate :: "model_candidate \<Rightarrow> model_candidate \<Rightarrow> bool" where
  "matches_candidate actual requested \<longleftrightarrow>
     mc_provider actual = mc_provider requested \<and> mc_model actual = mc_model requested \<and>
     set (mc_features requested) \<subseteq> set (mc_features actual) \<and>
     params_match_request (mc_params actual) (mc_params requested) \<and>
     map_within (mc_labels requested) (mc_labels actual)"

definition has_required_features :: "model_route \<Rightarrow> model_candidate \<Rightarrow> bool" where
  "has_required_features r c \<longleftrightarrow> set (mr_required_features r) \<subseteq> set (mc_features c)"

definition exact_candidates :: "model_route \<Rightarrow> runner_registration \<Rightarrow> model_candidate list" where
  "exact_candidates r reg =
     filter (has_required_features r)
       (concat (map (\<lambda>requested. filter (\<lambda>actual. matches_candidate actual requested) (rr_models reg)) (mr_candidates r)))"

definition compatible_candidates :: "model_route \<Rightarrow> runner_registration \<Rightarrow> model_candidate list" where
  "compatible_candidates r reg =
     (if exact_candidates r reg \<noteq> [] then exact_candidates r reg
      else if mr_fallback r = MFP_DisallowFallback then []
      else filter (\<lambda>c. mr_fallback r = MFP_AllowFallback \<or> is_local_provider (mc_provider c))
             (filter (has_required_features r) (rr_models reg)))"

section \<open>Scores\<close>

definition i64_max :: int where
  "i64_max = 2 ^ 63 - 1"

fun find_label :: "string_map \<Rightarrow> string list \<Rightarrow> string option" where
  "find_label labels [] = None"
| "find_label labels (k # ks) = (case bt_get labels k of Some v \<Rightarrow> Some v | None \<Rightarrow> find_label labels ks)"

definition label_i64 :: "model_candidate \<Rightarrow> string list \<Rightarrow> int option" where
  "label_i64 c keys = Option.bind (find_label (mc_labels c) keys) parse_i64"

definition cost_keys :: "string list" where
  "cost_keys = [''cost_microusd_per_1k'', ''cost_per_million_microusd'']"

definition model_latency_score :: "model_candidate \<Rightarrow> int" where
  "model_latency_score c =
     (case label_i64 c [''latency_ms'', ''p50_latency_ms'', ''p95_latency_ms''] of
        Some n \<Rightarrow> n
      | None \<Rightarrow> (case mrp_latency_class (mc_params c) of Some l \<Rightarrow> latency_score l | None \<Rightarrow> i64_max))"

definition model_cost :: "int \<Rightarrow> model_candidate \<Rightarrow> int" where
  "model_cost otherwise c = (case label_i64 c cost_keys of Some n \<Rightarrow> n | None \<Rightarrow> otherwise)"

definition tier_score :: "model_candidate \<Rightarrow> int" where
  "tier_score c =
     (case bt_get (mc_labels c) ''quality_tier'' of
        None \<Rightarrow> 0
      | Some t \<Rightarrow> if t = ''frontier'' then 1000000 else if t = ''high'' then 750000
          else if t = ''medium'' then 500000 else if t = ''low'' then 250000 else 0)"

definition model_quality_score :: "model_candidate \<Rightarrow> int" where
  "model_quality_score c =
     tier_score c + int (length (mc_features c)) * 10000
       + int (case mc_context_window c of Some n \<Rightarrow> n | None \<Rightarrow> 0) div 128 - int (mc_priority c)"

section \<open>Selection\<close>

definition candidate_priority_le :: "model_candidate \<Rightarrow> model_candidate \<Rightarrow> bool" where
  "candidate_priority_le =
     then_with (\<lambda>x y. mc_priority x \<le> mc_priority y)
       (then_with (\<lambda>x y. mpk_as_str (mc_provider x) \<le> mpk_as_str (mc_provider y))
         (\<lambda>x y. mc_model x \<le> mc_model y))"

definition first_by :: "('a \<Rightarrow> 'a \<Rightarrow> bool) \<Rightarrow> 'a list \<Rightarrow> 'a option" where
  "first_by le xs = (case sort_by le xs of [] \<Rightarrow> None | x # _ \<Rightarrow> Some x)"

definition candidate_weight :: "model_candidate \<Rightarrow> nat" where
  "candidate_weight c = max (mc_weight c) 1"

fun pick_weighted :: "model_candidate list \<Rightarrow> nat \<Rightarrow> model_candidate option" where
  "pick_weighted [] bucket = None"
| "pick_weighted (c # cs) bucket =
     (if bucket < candidate_weight c then Some c else pick_weighted cs (bucket - candidate_weight c))"

definition select_weighted_candidate ::
  "std_hash \<Rightarrow> model_candidate list \<Rightarrow> uuid option \<Rightarrow> uuid option \<Rightarrow> bool \<Rightarrow> model_candidate option" where
  "select_weighted_candidate h candidates goal_id task_id sticky =
     (let cs = sort_by candidate_priority_le candidates;
          total = sum_list (map candidate_weight cs)
      in if total = 0 then (case cs of [] \<Rightarrow> None | c # _ \<Rightarrow> Some c)
         else pick_weighted cs (route_hash h goal_id (if sticky then None else task_id) mod total))"

definition strategy_le :: "model_routing_strategy \<Rightarrow> model_candidate \<Rightarrow> model_candidate \<Rightarrow> bool" where
  "strategy_le s =
     (case s of
        MRS_LowestLatency \<Rightarrow> then_with (\<lambda>x y. model_latency_score x \<le> model_latency_score y) candidate_priority_le
      | MRS_LowestCost \<Rightarrow> then_with (\<lambda>x y. model_cost i64_max x \<le> model_cost i64_max y) candidate_priority_le
      | MRS_HighestQuality \<Rightarrow> then_with (\<lambda>x y. model_quality_score y \<le> model_quality_score x) candidate_priority_le
      | _ \<Rightarrow> candidate_priority_le)"

definition select_candidate ::
  "std_hash \<Rightarrow> model_route \<Rightarrow> runner_registration \<Rightarrow> uuid option \<Rightarrow> uuid option \<Rightarrow> model_candidate option" where
  "select_candidate h r reg goal_id task_id =
     (let cs = compatible_candidates r reg in
      if cs = [] then None
      else case mr_strategy r of
        MRS_Weighted \<Rightarrow> select_weighted_candidate h cs goal_id task_id False
      | MRS_StickyPerGoal \<Rightarrow> select_weighted_candidate h cs goal_id task_id True
      | s \<Rightarrow> first_by (strategy_le s) cs)"

definition preferred_candidate :: "std_hash \<Rightarrow> model_route \<Rightarrow> runner_registration \<Rightarrow> model_candidate option" where
  "preferred_candidate h r reg = select_candidate h r reg None None"

definition hash_score :: "std_hash \<Rightarrow> uuid option \<Rightarrow> uuid option \<Rightarrow> model_candidate \<Rightarrow> int" where
  "hash_score h goal_id task_id c =
     int (model_hash h goal_id task_id (mpk_as_str (mc_provider c)) (mc_model c) mod candidate_weight c)
       + (1000000 - int (mc_priority c))"

definition dispatch_score :: "std_hash \<Rightarrow> model_route \<Rightarrow> model_candidate \<Rightarrow> uuid \<Rightarrow> uuid \<Rightarrow> int" where
  "dispatch_score h r c goal_id task_id =
     (case mr_strategy r of
        MRS_FirstAvailable \<Rightarrow> 1000000 - int (mc_priority c)
      | MRS_LowestLatency \<Rightarrow> wrap_i64 (1000000 - min (model_latency_score c) 999999)
      | MRS_LowestCost \<Rightarrow> wrap_i64 (1000000 - model_cost 999999 c)
      | MRS_HighestQuality \<Rightarrow> model_quality_score c
      | MRS_Weighted \<Rightarrow> hash_score h (Some goal_id) (Some task_id) c
      | MRS_StickyPerGoal \<Rightarrow> hash_score h (Some goal_id) None c)"

section \<open>Selection finds the best\<close>

lemma comparator_candidate_priority: "comparator candidate_priority_le"
  unfolding candidate_priority_le_def by (intro comparator_then_with comparator_key)

lemma comparator_strategy: "comparator (strategy_le s)"
proof -
  have neg: "comparator (\<lambda>x y. (f y :: int) \<le> f x)" for f :: "model_candidate \<Rightarrow> int"
    by unfold_locales auto
  show ?thesis
    by (cases s) (simp_all add: strategy_le_def comparator_candidate_priority comparator_then_with comparator_key neg)
qed

interpretation strategy: comparator "strategy_le s" for s
  by (rule comparator_strategy)

lemma first_by_None [simp]: "first_by le xs = None \<longleftrightarrow> xs = []"
  by (cases "sort_by le xs") (auto simp: first_by_def)

lemma first_by_strategy:
  assumes "first_by (strategy_le s) cs = Some m"
  shows "m \<in> set cs \<and> (\<forall>c \<in> set cs. strategy_le s m c)"
proof -
  obtain ys where "sort_by (strategy_le s) cs = m # ys"
    using assms by (auto simp: first_by_def split: list.splits)
  then show ?thesis
    using strategy.sort_by_head_least set_sort_by [of "strategy_le s" cs] by fastforce
qed

lemma candidate_weight_pos: "candidate_weight c > 0"
  by (simp add: candidate_weight_def)

lemma pick_weighted_mem: "pick_weighted cs b = Some c \<Longrightarrow> c \<in> set cs"
  by (induction cs b rule: pick_weighted.induct) (auto split: if_splits)

lemma pick_weighted_total: "b < sum_list (map candidate_weight cs) \<Longrightarrow> \<exists>c. pick_weighted cs b = Some c"
  by (induction cs b rule: pick_weighted.induct) auto

lemma weighted_Some:
  assumes "cs \<noteq> []"
  shows "\<exists>c \<in> set cs. select_weighted_candidate h cs g t sticky = Some c"
proof -
  let ?cs = "sort_by candidate_priority_le cs"
  obtain x xs where x: "?cs = x # xs" using assms by (metis neq_Nil_conv sort_by_eq_Nil)
  then have pos: "sum_list (map candidate_weight ?cs) > 0" using candidate_weight_pos [of x] by simp
  then have "b mod sum_list (map candidate_weight ?cs) < sum_list (map candidate_weight ?cs)" for b by simp
  then obtain c where c: "pick_weighted ?cs (route_hash h g (if sticky then None else t) mod sum_list (map candidate_weight ?cs)) = Some c"
    using pick_weighted_total by blast
  have "(sum_list (map candidate_weight ?cs) = 0) = False" using pos by (metis less_irrefl)
  then have "select_weighted_candidate h cs g t sticky = Some c"
    by (simp only: select_weighted_candidate_def Let_def c if_False)
  moreover have "c \<in> set cs" using pick_weighted_mem [OF c] by simp
  ultimately show ?thesis by blast
qed

lemma select_cases:
  assumes "select_candidate h r reg g t = Some m"
  shows "m \<in> set (compatible_candidates r reg)"
proof -
  have ne: "compatible_candidates r reg \<noteq> []" using assms by (auto simp: select_candidate_def Let_def)
  note weighted = weighted_Some [OF ne, of h g t]
  show ?thesis
    using assms ne weighted [of True] weighted [of False]
    by (cases "mr_strategy r") (auto simp: select_candidate_def Let_def dest: first_by_strategy)
qed

lemma select_None_iff: "select_candidate h r reg g t = None \<longleftrightarrow> compatible_candidates r reg = []"
proof (cases "compatible_candidates r reg = []")
  case False
  note weighted = weighted_Some [OF False, of h g t]
  show ?thesis
    using False weighted [of True] weighted [of False] by (cases "mr_strategy r") (auto simp: select_candidate_def Let_def)
qed (simp add: select_candidate_def)

section \<open>Properties\<close>

text \<open>
  The selected model is compatible and the best.  It is one of the runner's models and has the
  required features.  It matches a requested candidate; only when no model of the runner
  does, and the policy allows a fallback, may it be another one, a local one if the policy
  says so.  Unless the strategy spreads the load, no compatible model is better by the
  strategy.  Under StickyPerGoal all tasks of a goal get the same model.
\<close>
theorem selected_model_is_best:
  assumes "select_candidate h r reg g t = Some m"
  shows "m \<in> set (rr_models reg) \<and> has_required_features r m \<and>
    ((\<exists>q \<in> set (mr_candidates r). matches_candidate m q) \<or>
     mr_fallback r \<noteq> MFP_DisallowFallback \<and>
     (mr_fallback r = MFP_AllowLowerTierLocal \<longrightarrow> is_local_provider (mc_provider m)) \<and>
     (\<forall>c \<in> set (rr_models reg). \<forall>q \<in> set (mr_candidates r). has_required_features r c \<longrightarrow> \<not> matches_candidate c q)) \<and>
    (mr_strategy r \<notin> {MRS_Weighted, MRS_StickyPerGoal} \<longrightarrow>
       (\<forall>c \<in> set (compatible_candidates r reg). strategy_le (mr_strategy r) m c)) \<and>
    (mr_strategy r = MRS_StickyPerGoal \<longrightarrow> (\<forall>t'. select_candidate h r reg g t' = Some m))"
proof (intro conjI)
  note mem = select_cases [OF assms]
  show "m \<in> set (rr_models reg)" "has_required_features r m"
    using mem by (auto simp: compatible_candidates_def exact_candidates_def split: if_splits)
  show "(\<exists>q \<in> set (mr_candidates r). matches_candidate m q) \<or>
     mr_fallback r \<noteq> MFP_DisallowFallback \<and>
     (mr_fallback r = MFP_AllowLowerTierLocal \<longrightarrow> is_local_provider (mc_provider m)) \<and>
     (\<forall>c \<in> set (rr_models reg). \<forall>q \<in> set (mr_candidates r). has_required_features r c \<longrightarrow> \<not> matches_candidate c q)"
    using mem by (auto simp: compatible_candidates_def exact_candidates_def filter_empty_conv split: if_splits)
  show "mr_strategy r \<notin> {MRS_Weighted, MRS_StickyPerGoal} \<longrightarrow>
       (\<forall>c \<in> set (compatible_candidates r reg). strategy_le (mr_strategy r) m c)"
    using assms by (cases "mr_strategy r") (auto simp: select_candidate_def Let_def split: if_splits dest: first_by_strategy)
  show "mr_strategy r = MRS_StickyPerGoal \<longrightarrow> (\<forall>t'. select_candidate h r reg g t' = Some m)"
  proof (intro impI allI)
    fix t' assume "mr_strategy r = MRS_StickyPerGoal"
    then have "select_candidate h r reg g t' = select_candidate h r reg g t"
      by (simp add: select_candidate_def select_weighted_candidate_def Let_def)
    then show "select_candidate h r reg g t' = Some m" using assms by simp
  qed
qed

definition zero_hash :: std_hash where
  "zero_hash = (| route_hash = (\<lambda>_ _. 0), model_hash = (\<lambda>_ _ _ _. 0) |)"

definition sample_runner :: "string \<Rightarrow> runner_registration" where
  "sample_runner i = (| rr_runner_id = i, rr_node_id = ''n'', rr_endpoint = ''http'', rr_roles = [WK_Planner],
     rr_capabilities = [], rr_models = mr_candidates model_route_default, rr_labels = [], rr_mcp_servers = [],
     rr_max_concurrency = 1, rr_lease_ttl_seconds = 30 |)"

theorem selected_model_is_best_witness:
  "\<exists>m. select_candidate zero_hash model_route_default (sample_runner ''r'') None None = Some m \<and>
     m \<in> set (rr_models (sample_runner ''r''))"
proof -
  have "compatible_candidates model_route_default (sample_runner ''r'') \<noteq> []"
    by (simp add: sample_runner_def compatible_candidates_def exact_candidates_def model_route_default_def
        has_required_features_def matches_candidate_def params_match_request_def requested_ok_def map_within_def
        model_runtime_parameters_default_def)
  then obtain m where "select_candidate zero_hash model_route_default (sample_runner ''r'') None None = Some m"
    using select_None_iff by blast
  with selected_model_is_best [OF this] show ?thesis by blast
qed

lemma pick_weighted_Cons:
  "{b. b < sum_list (map candidate_weight (x # xs)) \<and> pick_weighted (x # xs) b = Some c} =
     {b. b < candidate_weight x \<and> x = c} \<union>
     (\<lambda>b. b + candidate_weight x) ` {b. b < sum_list (map candidate_weight xs) \<and> pick_weighted xs b = Some c}"
  (is "?l = ?a \<union> ?f ` ?r")
proof (rule set_eqI)
  fix b
  show "b \<in> ?l \<longleftrightarrow> b \<in> ?a \<union> ?f ` ?r"
  proof (cases "b < candidate_weight x")
    case True
    then show ?thesis by auto
  next
    case False
    then have "b \<in> ?f ` ?r \<longleftrightarrow> b - candidate_weight x \<in> ?r"
      by (auto intro!: image_eqI [where x = "b - candidate_weight x"])
    with False show ?thesis by auto
  qed
qed

text \<open>
  Weighted routing is proportional.  Of the possible hash buckets every model gets exactly
  as many as its weight (at least one), summed over its occurrences, and every bucket gets a
  model.
\<close>
theorem weighted_pick_is_proportional:
  "card {b. b < sum_list (map candidate_weight cs) \<and> pick_weighted cs b = Some c} =
     sum_list (map candidate_weight (filter (\<lambda>x. x = c) cs)) \<and>
   {b. b < sum_list (map candidate_weight cs) \<and> pick_weighted cs b = None} = {}"
proof (rule conjI)
  show "card {b. b < sum_list (map candidate_weight cs) \<and> pick_weighted cs b = Some c} =
     sum_list (map candidate_weight (filter (\<lambda>x. x = c) cs))"
  proof (induction cs)
    case (Cons x xs)
    let ?r = "{b. b < sum_list (map candidate_weight xs) \<and> pick_weighted xs b = Some c}"
    have "card {b. b < candidate_weight x \<and> x = c} = (if x = c then candidate_weight x else 0)" by simp
    moreover have "card ((\<lambda>b. b + candidate_weight x) ` ?r) = card ?r" by (rule card_image) simp
    ultimately show ?case
      unfolding pick_weighted_Cons using Cons by (subst card_Un_disjoint) auto
  qed simp
  show "{b. b < sum_list (map candidate_weight cs) \<and> pick_weighted cs b = None} = {}"
    using pick_weighted_total by fastforce
qed

end
