(* ===== verification/Dispatch.thy ===== *)
theory Dispatch
  imports Routing Samples
begin

text \<open>
  Dispatch: whether a registered runner can take a task (\<open>RunnerRegistration::evaluate_for_task\<close>
  with the checks of locality, local tools and MCP context) and which runner gets it
  (\<open>RunnerDispatchDecision::choose\<close>).
\<close>

section \<open>Reasons against a runner\<close>

definition selector_matches :: "runner_selector \<Rightarrow> runner_registration \<Rightarrow> bool" where
  "selector_matches s reg \<longleftrightarrow>
     (case rs_runner_id s of Some i \<Rightarrow> i = rr_runner_id reg | None \<Rightarrow> True) \<and>
     (case rs_worker s of Some k \<Rightarrow> k \<in> set (rr_roles reg) | None \<Rightarrow> True) \<and>
     set (rs_required_capabilities s) \<subseteq> set (rr_capabilities reg) \<and>
     map_within (rs_required_labels s) (rr_labels reg)"

definition label_reasons ::
  "string_map \<Rightarrow> string_map \<Rightarrow> (string \<Rightarrow> string \<Rightarrow> string \<Rightarrow> string) \<Rightarrow> (string \<Rightarrow> string \<Rightarrow> string) \<Rightarrow> string list" where
  "label_reasons actual required mismatch missing =
     concat (map (\<lambda>(k, v). case bt_get actual k of
         Some a \<Rightarrow> (if a = v then [] else [mismatch k v a])
       | None \<Rightarrow> [missing k v]) required)"

definition locality_mismatch :: "runner_locality \<Rightarrow> string option \<Rightarrow> runner_registration \<Rightarrow> string option" where
  "locality_mismatch l coordinator reg =
     (if l = RL_AnyNode then None
      else if l \<in> {RL_SameNode, RL_LocalOnly}
      then (case coordinator of
              Some n \<Rightarrow> if n = rr_node_id reg then None
                else Some (''locality requires node '' @ n @ '', runner is on '' @ rr_node_id reg)
            | None \<Rightarrow> Some ''locality requires a coordinator node id'')
      else (case coordinator of
              Some n \<Rightarrow> if n \<noteq> rr_node_id reg then None
                else Some (''locality requires a remote node, runner is also on '' @ n)
            | None \<Rightarrow> Some ''remote locality requires a coordinator node id''))"

definition tool_mismatch_reasons :: "local_tool_policy \<Rightarrow> runner_registration \<Rightarrow> string list" where
  "tool_mismatch_reasons l reg =
     (if \<not> local_tools_active l then []
      else map (\<lambda>c. ''task local_tools require capability '' @ runner_capability_debug c)
             (filter (\<lambda>c. c \<notin> set (rr_capabilities reg)) (tool_runner_capabilities l))
           @ concat (map (\<lambda>tool. label_reasons (rr_labels reg) (ltp_required_labels tool)
               (\<lambda>k v a. ''runner label '' @ k @ ''='' @ a @ '' does not satisfy local tool requirement '' @ k @ ''='' @ v
                  @ '' for '' @ ltp_binary tool)
               (\<lambda>k v. ''runner lacks local tool label '' @ k @ ''='' @ v @ '' for '' @ ltp_binary tool))
               (lt_allowed_tools l)))"

definition mcp_mismatch_reasons :: "runner_registration \<Rightarrow> mcp_context_ref \<Rightarrow> string list" where
  "mcp_mismatch_reasons reg m =
     (if mcp_servers m = [] \<and> mcp_secret_refs m = [] \<and> ad_required_runner_labels (mcp_auth_distribution m) = [] \<and>
         \<not> uses_multi_user_oidc m
      then []
      else
        (if (mcp_servers m \<noteq> [] \<or> mcp_secret_refs m \<noteq> []) \<and> RC_McpTools \<notin> set (rr_capabilities reg)
         then [''task has MCP context but runner lacks mcp_tools capability''] else [])
        @ (if uses_multi_user_oidc m \<and> RC_OidcUserDelegation \<notin> set (rr_capabilities reg)
           then [''task requires multi-user OIDC MCP delegation but runner lacks oidc_user_delegation capability''] else [])
        @ label_reasons (rr_labels reg) (ad_required_runner_labels (mcp_auth_distribution m))
            (\<lambda>k v a. ''runner label '' @ k @ ''='' @ a @ '' does not satisfy MCP auth distribution requirement '' @ k @ ''='' @ v)
            (\<lambda>k v. ''runner lacks MCP auth distribution label '' @ k @ ''='' @ v)
        @ label_reasons (rr_labels reg) (oidc_required_runner_labels m)
            (\<lambda>k v a. ''runner label '' @ k @ ''='' @ a @ '' does not satisfy OIDC delegation requirement '' @ k @ ''='' @ v)
            (\<lambda>k v. ''runner lacks OIDC delegation label '' @ k @ ''='' @ v)
        @ (if mcp_servers m \<noteq> [] \<and> rr_mcp_servers reg \<noteq> []
           then map (\<lambda>s. ''runner does not advertise requested MCP server '' @ ms_name s @ '' ('' @ ms_uri s @ '')'')
                  (filter (\<lambda>s. \<not> (\<exists>a \<in> set (rr_mcp_servers reg). ms_name a = ms_name s \<or> ms_uri a = ms_uri s)) (mcp_servers m))
           else []))"

section \<open>Evaluation of one runner\<close>

record runner_match_evaluation =
  rme_matched :: bool
  rme_selected_model :: "model_candidate option"
  rme_score :: int
  rme_reasons :: "string list"

definition mismatch_reasons :: "std_hash \<Rightarrow> runner_registration \<Rightarrow> task_node \<Rightarrow> string option \<Rightarrow> string list" where
  "mismatch_reasons h reg t coordinator =
     (let e = tn_execution t; s = ep_runner e; iso = iso_backend (sbx_isolation (tn_sandbox t)) in
      (case rs_runner_id s of
         Some i \<Rightarrow> (if i \<noteq> rr_runner_id reg
                   then [''runner_id mismatch: requested '' @ i @ '', runner is '' @ rr_runner_id reg] else [])
       | None \<Rightarrow> [])
      @ (case rs_worker s of
           Some k \<Rightarrow> (if k \<notin> set (rr_roles reg) then [''runner does not advertise role '' @ wk_as_str k] else [])
         | None \<Rightarrow> [])
      @ map (\<lambda>c. ''missing capability '' @ runner_capability_debug c)
          (filter (\<lambda>c. c \<notin> set (rr_capabilities reg)) (rs_required_capabilities s))
      @ (if iso \<noteq> SB_LocalWorkspace
         then map (\<lambda>c. ''missing sandbox capability '' @ runner_capability_debug c @ '' for backend '' @ sb_as_str iso)
                (filter (\<lambda>c. c \<notin> set (rr_capabilities reg)) (required_runner_capabilities (tn_sandbox t)))
         else [])
      @ tool_mismatch_reasons (ep_local_tools e) reg
      @ label_reasons (rr_labels reg) (rs_required_labels s)
          (\<lambda>k v a. ''label '' @ k @ '' mismatch: requested '' @ v @ '', runner has '' @ a)
          (\<lambda>k v. ''missing label '' @ k @ ''='' @ v)
      @ (case locality_mismatch (rs_locality s) coordinator reg of Some r \<Rightarrow> [r] | None \<Rightarrow> [])
      @ mcp_mismatch_reasons reg (ep_mcp e)
      @ (if select_candidate h (ep_model e) reg (Some (tn_goal_id t)) (Some (tn_id t)) = None
         then [''no compatible model for task model route''] else []))"

definition match_score :: "std_hash \<Rightarrow> runner_registration \<Rightarrow> task_node \<Rightarrow> model_candidate option \<Rightarrow> int" where
  "match_score h reg t model =
     (let e = tn_execution t; s = ep_runner e in
      wrap_i64 (
        (case model of Some m \<Rightarrow> dispatch_score h (ep_model e) m (tn_goal_id t) (tn_id t) | None \<Rightarrow> 0)
        + int (length (rr_capabilities reg)) * 100
        + int (length (rs_required_labels s)) * 500
        + (if rs_runner_id s = Some (rr_runner_id reg) then 10000 else 0)
        + (if rs_locality s \<in> {RL_SameNode, RL_LocalOnly} then 1000 else 0)))"

definition evaluate_for_task ::
  "std_hash \<Rightarrow> runner_registration \<Rightarrow> task_node \<Rightarrow> string option \<Rightarrow> runner_match_evaluation" where
  "evaluate_for_task h reg t coordinator =
     (let reasons = mismatch_reasons h reg t coordinator;
          model = select_candidate h (ep_model (tn_execution t)) reg (Some (tn_goal_id t)) (Some (tn_id t)) in
      if reasons \<noteq> []
      then (| rme_matched = False, rme_selected_model = None, rme_score = 0, rme_reasons = reasons |)
      else (| rme_matched = True, rme_selected_model = model, rme_score = match_score h reg t model,
              rme_reasons = [''runner '' @ rr_runner_id reg @ '' on node '' @ rr_node_id reg
                @ '' satisfies role, capability, locality, MCP, and model constraints''] |))"

definition can_run_task :: "std_hash \<Rightarrow> runner_registration \<Rightarrow> task_node \<Rightarrow> bool" where
  "can_run_task h reg t = rme_matched (evaluate_for_task h reg t None)"

section \<open>The dispatch decision\<close>

record runner_dispatch_request =
  rdq_goal_id :: uuid
  rdq_task :: task_node
  rdq_coordinator_node_id :: "string option"
  rdq_registered_runners :: "runner_registration list"

record runner_dispatch_candidate =
  rdc_runner_id :: string
  rdc_node_id :: string
  rdc_runner_endpoint :: string
  rdc_model :: "model_candidate option"
  rdc_score :: int
  rdc_reasons :: "string list"

record runner_dispatch_rejection =
  rdj_runner_id :: string
  rdj_node_id :: string
  rdj_reasons :: "string list"

datatype (plugins only: code size) runner_dispatch_status =
    RDS_Matched
  | RDS_NoMatch

record runner_dispatch_decision =
  rdd_status :: runner_dispatch_status
  rdd_runner_id :: "string option"
  rdd_runner_endpoint :: "string option"
  rdd_model :: "model_candidate option"
  rdd_mcp_context :: mcp_context_ref
  rdd_candidates :: "runner_dispatch_candidate list"
  rdd_rejections :: "runner_dispatch_rejection list"
  rdd_reasons :: "string list"

definition dispatch_candidate :: "runner_registration \<Rightarrow> runner_match_evaluation \<Rightarrow> runner_dispatch_candidate" where
  "dispatch_candidate reg e = (| rdc_runner_id = rr_runner_id reg, rdc_node_id = rr_node_id reg,
     rdc_runner_endpoint = rr_endpoint reg, rdc_model = rme_selected_model e, rdc_score = rme_score e,
     rdc_reasons = rme_reasons e |)"

definition dispatch_le :: "runner_dispatch_candidate \<Rightarrow> runner_dispatch_candidate \<Rightarrow> bool" where
  "dispatch_le = then_with (\<lambda>x y. rdc_score y \<le> rdc_score x) (\<lambda>x y. rdc_runner_id x \<le> rdc_runner_id y)"

definition dispatch_candidates :: "std_hash \<Rightarrow> runner_dispatch_request \<Rightarrow> runner_dispatch_candidate list" where
  "dispatch_candidates h q =
     (let eval = (\<lambda>reg. evaluate_for_task h reg (rdq_task q) (rdq_coordinator_node_id q)) in
      sort_by dispatch_le (map (\<lambda>reg. dispatch_candidate reg (eval reg))
        (filter (\<lambda>reg. rme_matched (eval reg)) (rdq_registered_runners q))))"

definition dispatch_rejections :: "std_hash \<Rightarrow> runner_dispatch_request \<Rightarrow> runner_dispatch_rejection list" where
  "dispatch_rejections h q =
     (let eval = (\<lambda>reg. evaluate_for_task h reg (rdq_task q) (rdq_coordinator_node_id q)) in
      map (\<lambda>reg. (| rdj_runner_id = rr_runner_id reg, rdj_node_id = rr_node_id reg, rdj_reasons = rme_reasons (eval reg) |))
        (filter (\<lambda>reg. \<not> rme_matched (eval reg)) (rdq_registered_runners q)))"

definition choose_runner :: "std_hash \<Rightarrow> runner_dispatch_request \<Rightarrow> runner_dispatch_decision" where
  "choose_runner h q =
     (case dispatch_candidates h q of
        [] \<Rightarrow> (| rdd_status = RDS_NoMatch, rdd_runner_id = None, rdd_runner_endpoint = None, rdd_model = None,
                rdd_mcp_context = ep_mcp (tn_execution (rdq_task q)), rdd_candidates = [],
                rdd_rejections = dispatch_rejections h q,
                rdd_reasons = [''no registered runner satisfied the task execution profile''] |)
      | c # cs \<Rightarrow> (| rdd_status = RDS_Matched, rdd_runner_id = Some (rdc_runner_id c),
                rdd_runner_endpoint = Some (rdc_runner_endpoint c), rdd_model = rdc_model c,
                rdd_mcp_context = ep_mcp (tn_execution (rdq_task q)), rdd_candidates = c # cs,
                rdd_rejections = dispatch_rejections h q,
                rdd_reasons = [''selected runner '' @ rdc_runner_id c @ '' with dispatch score '' @ int_dec (rdc_score c),
                  ''matched runner capabilities, labels, locality, MCP, role, and model route''] |))"

section \<open>What a matched runner satisfies\<close>

definition locality_ok :: "runner_locality \<Rightarrow> string option \<Rightarrow> runner_registration \<Rightarrow> bool" where
  "locality_ok l coordinator reg \<longleftrightarrow>
     (case l of
        RL_AnyNode \<Rightarrow> True
      | RL_RemoteOnly \<Rightarrow> coordinator \<noteq> None \<and> coordinator \<noteq> Some (rr_node_id reg)
      | _ \<Rightarrow> coordinator = Some (rr_node_id reg))"

definition tools_ok :: "local_tool_policy \<Rightarrow> runner_registration \<Rightarrow> bool" where
  "tools_ok l reg \<longleftrightarrow> local_tools_active l \<longrightarrow>
     set (tool_runner_capabilities l) \<subseteq> set (rr_capabilities reg) \<and>
     (\<forall>tool \<in> set (lt_allowed_tools l). map_within (ltp_required_labels tool) (rr_labels reg))"

definition mcp_ok :: "mcp_context_ref \<Rightarrow> runner_registration \<Rightarrow> bool" where
  "mcp_ok m reg \<longleftrightarrow>
     (mcp_servers m \<noteq> [] \<or> mcp_secret_refs m \<noteq> [] \<longrightarrow> RC_McpTools \<in> set (rr_capabilities reg)) \<and>
     (uses_multi_user_oidc m \<longrightarrow> RC_OidcUserDelegation \<in> set (rr_capabilities reg)) \<and>
     map_within (ad_required_runner_labels (mcp_auth_distribution m)) (rr_labels reg) \<and>
     map_within (oidc_required_runner_labels m) (rr_labels reg) \<and>
     (rr_mcp_servers reg \<noteq> [] \<longrightarrow>
        (\<forall>s \<in> set (mcp_servers m). \<exists>a \<in> set (rr_mcp_servers reg). ms_name a = ms_name s \<or> ms_uri a = ms_uri s))"

definition can_serve :: "runner_registration \<Rightarrow> task_node \<Rightarrow> string option \<Rightarrow> bool" where
  "can_serve reg t coordinator \<longleftrightarrow>
     (let e = tn_execution t in
      selector_matches (ep_runner e) reg \<and>
      (iso_backend (sbx_isolation (tn_sandbox t)) \<noteq> SB_LocalWorkspace \<longrightarrow>
         set (required_runner_capabilities (tn_sandbox t)) \<subseteq> set (rr_capabilities reg)) \<and>
      tools_ok (ep_local_tools e) reg \<and> locality_ok (rs_locality (ep_runner e)) coordinator reg \<and>
      mcp_ok (ep_mcp e) reg \<and> compatible_candidates (ep_model e) reg \<noteq> [])"

lemma label_reasons_Nil: "label_reasons actual required f g = [] \<longleftrightarrow> map_within required actual"
  by (auto simp: label_reasons_def map_within_def split: option.splits if_splits)

lemma locality_mismatch_None: "locality_mismatch l coordinator reg = None \<longleftrightarrow> locality_ok l coordinator reg"
  by (cases l) (auto simp: locality_mismatch_def locality_ok_def split: option.splits)

lemma not_in_Nil: "filter (\<lambda>c. c \<notin> A) cs = [] \<longleftrightarrow> set cs \<subseteq> A"
  by (auto simp: filter_empty_conv)

lemma tool_mismatch_Nil: "tool_mismatch_reasons l reg = [] \<longleftrightarrow> tools_ok l reg"
  by (auto simp: tool_mismatch_reasons_def tools_ok_def label_reasons_Nil not_in_Nil)

lemma no_oidc_labels: "\<not> uses_multi_user_oidc m \<Longrightarrow> oidc_required_runner_labels m = []"
  by (auto simp: oidc_required_runner_labels_def uses_multi_user_oidc_def Let_def split: option.splits)

lemma mcp_mismatch_Nil: "mcp_mismatch_reasons reg m = [] \<longleftrightarrow> mcp_ok m reg"
  using no_oidc_labels [of m]
  by (auto simp: mcp_mismatch_reasons_def mcp_ok_def label_reasons_Nil filter_empty_conv map_within_def)

lemma selector_reasons_Nil:
  "selector_matches s reg \<longleftrightarrow>
     (case rs_runner_id s of Some i \<Rightarrow> (if i \<noteq> rr_runner_id reg then [f i] else []) | None \<Rightarrow> []) = [] \<and>
     (case rs_worker s of Some k \<Rightarrow> (if k \<notin> set (rr_roles reg) then [g k] else []) | None \<Rightarrow> []) = [] \<and>
     filter (\<lambda>c. c \<notin> set (rr_capabilities reg)) (rs_required_capabilities s) = [] \<and>
     map_within (rs_required_labels s) (rr_labels reg)"
  by (auto simp: selector_matches_def not_in_Nil split: option.splits if_splits)

lemma mismatch_reasons_Nil: "mismatch_reasons h reg t coordinator = [] \<longleftrightarrow> can_serve reg t coordinator"
proof -
  have loc: "(case locality_mismatch l c reg of Some r \<Rightarrow> [r] | None \<Rightarrow> []) = [] \<longleftrightarrow> locality_ok l c reg" for l c
    by (auto simp: locality_mismatch_None [symmetric] split: option.splits)
  show ?thesis
    unfolding mismatch_reasons_def can_serve_def Let_def
      selector_reasons_Nil [where f = "\<lambda>i. ''runner_id mismatch: requested '' @ i @ '', runner is '' @ rr_runner_id reg"
        and g = "\<lambda>k. ''runner does not advertise role '' @ wk_as_str k"]
    by (auto simp: loc label_reasons_Nil tool_mismatch_Nil mcp_mismatch_Nil not_in_Nil select_None_iff)
qed

lemma evaluate_matched: "rme_matched (evaluate_for_task h reg t c) \<longleftrightarrow> can_serve reg t c"
  by (simp add: evaluate_for_task_def Let_def mismatch_reasons_Nil)

lemma comparator_dispatch: "comparator dispatch_le"
proof -
  have "comparator (\<lambda>x y. rdc_score y \<le> rdc_score x)" by unfold_locales auto
  then show ?thesis unfolding dispatch_le_def by (intro comparator_then_with comparator_key)
qed

interpretation dispatch_order: comparator dispatch_le
  by (rule comparator_dispatch)

section \<open>Properties\<close>

text \<open>
  A runner is eligible exactly when it meets the execution profile.  The evaluation of a
  runner for a task succeeds if and only if the runner has the demanded identity, role,
  capabilities and labels, the capabilities of the sandbox backend and of the local tools, the
  locality, the MCP context with its labels, and a compatible model; a refusal
  names at least one reason.
\<close>
theorem eligible_iff_profile_met:
  "(rme_matched (evaluate_for_task h reg t coordinator) \<longleftrightarrow> can_serve reg t coordinator) \<and>
   (can_serve reg t coordinator \<longrightarrow> rme_selected_model (evaluate_for_task h reg t coordinator) =
      select_candidate h (ep_model (tn_execution t)) reg (Some (tn_goal_id t)) (Some (tn_id t)) \<and>
      rme_selected_model (evaluate_for_task h reg t coordinator) \<noteq> None) \<and>
   rme_reasons (evaluate_for_task h reg t coordinator) \<noteq> []"
proof -
  have "can_serve reg t coordinator \<Longrightarrow>
      select_candidate h (ep_model (tn_execution t)) reg (Some (tn_goal_id t)) (Some (tn_id t)) \<noteq> None"
    by (simp add: can_serve_def Let_def select_None_iff)
  then show ?thesis
    using mismatch_reasons_Nil [of h reg t coordinator] by (auto simp: evaluate_for_task_def Let_def)
qed

lemma sample_runner_serves: "can_serve (sample_runner i) (sample_task ''a'' TS_Runnable) None"
  by (simp add: can_serve_def sample_runner_def compatible_candidates_def exact_candidates_def with_role_def
      execution_profile_default_def model_route_default_def has_required_features_def matches_candidate_def
      params_match_request_def requested_ok_def map_within_def model_runtime_parameters_default_def Let_def
      selector_matches_def runner_selector_default_def tools_ok_def local_tool_policy_default_def local_tools_active_def
      locality_ok_def mcp_ok_def mcp_context_ref_default_def auth_distribution_policy_default_def uses_multi_user_oidc_def
      oidc_required_runner_labels_def sandbox_profile_default_def sandbox_isolation_profile_default_def)

theorem eligible_iff_profile_met_witness:
  "rme_selected_model (evaluate_for_task zero_hash (sample_runner ''r'') (sample_task ''a'' TS_Runnable) None) \<noteq> None"
  using eligible_iff_profile_met [THEN conjunct2, THEN conjunct1] sample_runner_serves by blast

lemma choose_runner_exact:
  "let d = choose_runner h q; ok = (\<lambda>reg. can_serve reg (rdq_task q) (rdq_coordinator_node_id q)) in
   (rdd_status d = RDS_Matched \<longleftrightarrow> (\<exists>reg \<in> set (rdq_registered_runners q). ok reg)) \<and>
   (rdd_status d = RDS_Matched \<longrightarrow>
     (\<exists>reg \<in> set (rdq_registered_runners q). ok reg \<and> rdd_runner_id d = Some (rr_runner_id reg) \<and>
        rdd_runner_endpoint d = Some (rr_endpoint reg) \<and>
        rdd_model d = select_candidate h (ep_model (tn_execution (rdq_task q))) reg
          (Some (tn_goal_id (rdq_task q))) (Some (tn_id (rdq_task q))) \<and>
        (\<forall>other \<in> set (rdq_registered_runners q). ok other \<longrightarrow>
           dispatch_le (dispatch_candidate reg (evaluate_for_task h reg (rdq_task q) (rdq_coordinator_node_id q)))
             (dispatch_candidate other (evaluate_for_task h other (rdq_task q) (rdq_coordinator_node_id q)))))) \<and>
   length (rdd_candidates d) + length (rdd_rejections d) = length (rdq_registered_runners q)"
proof -
  let ?ev = "\<lambda>reg. evaluate_for_task h reg (rdq_task q) (rdq_coordinator_node_id q)"
  let ?ok = "\<lambda>reg. can_serve reg (rdq_task q) (rdq_coordinator_node_id q)"
  let ?cs = "map (\<lambda>reg. dispatch_candidate reg (?ev reg)) (filter ?ok (rdq_registered_runners q))"
  have cands: "dispatch_candidates h q = sort_by dispatch_le ?cs"
    by (simp add: dispatch_candidates_def Let_def evaluate_matched)
  have "length (dispatch_candidates h q) + length (dispatch_rejections h q) = length (rdq_registered_runners q)"
    using sum_length_filter_compl [of ?ok "rdq_registered_runners q"]
    by (simp add: cands dispatch_rejections_def Let_def evaluate_matched)
  then have len: "length (rdd_candidates (choose_runner h q)) + length (rdd_rejections (choose_runner h q)) =
      length (rdq_registered_runners q)"
    by (cases "dispatch_candidates h q") (simp_all add: choose_runner_def)
  show ?thesis
  proof (cases "dispatch_candidates h q")
    case Nil
    then have "filter ?ok (rdq_registered_runners q) = []" by (simp add: cands)
    then have "\<not> (\<exists>reg \<in> set (rdq_registered_runners q). ?ok reg)" by (simp add: filter_empty_conv)
    then show ?thesis using Nil len by (simp add: choose_runner_def Let_def)
  next
    case (Cons c rest)
    then have "c \<in> set ?cs" by (metis cands list.set_intros(1) set_sort_by)
    then obtain reg where reg: "reg \<in> set (rdq_registered_runners q)" "?ok reg" "c = dispatch_candidate reg (?ev reg)"
      by auto
    have best: "dispatch_le c (dispatch_candidate other (?ev other))"
      if "other \<in> set (rdq_registered_runners q)" "?ok other" for other
      using dispatch_order.sort_by_head_least [of ?cs c rest] Cons that by (simp add: cands)
    have model: "rdc_model c = select_candidate h (ep_model (tn_execution (rdq_task q))) reg
        (Some (tn_goal_id (rdq_task q))) (Some (tn_id (rdq_task q)))"
      using reg(2,3) mismatch_reasons_Nil [of h reg] by (simp add: dispatch_candidate_def evaluate_for_task_def Let_def)
    show ?thesis
      using reg best model len
      by (auto simp: choose_runner_def Let_def Cons dispatch_candidate_def [of reg] intro!: bexI [of _ reg])
  qed
qed

text \<open>
  C30: Dispatch picks the best eligible runner.  A task is matched if and only if some registered
  runner is eligible.  The chosen runner is eligible and comes with the endpoint and the
  model of its registration; no eligible runner has a higher score, and among equals the
  smallest identifier wins.  Every runner is either a candidate or a rejection.
\<close>
theorem dispatch_picks_the_best_runner:
  "let d = choose_runner h q; ok = (\<lambda>reg. can_serve reg (rdq_task q) (rdq_coordinator_node_id q)) in
   (rdd_status d = RDS_Matched \<longleftrightarrow> (\<exists>reg \<in> set (rdq_registered_runners q). ok reg)) \<and>
   (rdd_status d = RDS_Matched \<longrightarrow>
     (\<exists>reg \<in> set (rdq_registered_runners q). ok reg \<and> rdd_runner_id d = Some (rr_runner_id reg) \<and>
        rdd_runner_endpoint d = Some (rr_endpoint reg) \<and>
        rdd_model d = select_candidate h (ep_model (tn_execution (rdq_task q))) reg
          (Some (tn_goal_id (rdq_task q))) (Some (tn_id (rdq_task q))) \<and>
        (\<forall>other \<in> set (rdq_registered_runners q). ok other \<longrightarrow>
           dispatch_le (dispatch_candidate reg (evaluate_for_task h reg (rdq_task q) (rdq_coordinator_node_id q)))
             (dispatch_candidate other (evaluate_for_task h other (rdq_task q) (rdq_coordinator_node_id q)))))) \<and>
   length (rdd_candidates d) + length (rdd_rejections d) = length (rdq_registered_runners q)"
  by (rule choose_runner_exact)

definition sample_dispatch :: runner_dispatch_request where
  "sample_dispatch = (| rdq_goal_id = ''g'', rdq_task = sample_task ''a'' TS_Runnable, rdq_coordinator_node_id = None,
     rdq_registered_runners = [sample_runner ''r''] |)"

theorem dispatch_picks_the_best_runner_witness:
  "rdd_runner_id (choose_runner zero_hash sample_dispatch) = Some ''r''"
proof -
  have "\<exists>reg \<in> set (rdq_registered_runners sample_dispatch).
      can_serve reg (rdq_task sample_dispatch) (rdq_coordinator_node_id sample_dispatch)"
    using sample_runner_serves by (simp add: sample_dispatch_def)
  with dispatch_picks_the_best_runner [of zero_hash sample_dispatch] show ?thesis
    by (auto simp: Let_def) (simp add: sample_dispatch_def sample_runner_def)
qed

end
