(* ===== verification/Scaling.thy ===== *)
theory Scaling
  imports Execution_Profile Rust_Int
begin

text \<open>
  Capacity scaling: \<open>RunnerScalingDecision::recommend\<close> and \<open>recommend_pool_scaling\<close>, which turn
  the durable demand for runners and the supply of registered runners into bounded
  recommendations.  Counts are \<open>u32\<close> values as natural numbers; the operations saturate.
\<close>

section \<open>Demand, supply and decisions\<close>

record runner_pool_demand =
  pd_pool_key :: string
  pd_worker :: "worker_kind option"
  pd_required_capabilities :: "runner_capability list"
  pd_required_labels :: string_map
  pd_queued_tasks :: nat
  pd_running_tasks :: nat
  pd_blocked_tasks :: nat
  pd_unmatched_tasks :: nat
  pd_event_backlog :: nat
  pd_priority_boost :: nat

record runner_pool_supply =
  ps_pool_key :: string
  ps_registered_runners :: nat
  ps_dispatchable_runners :: nat
  ps_running_tasks :: nat
  ps_capacity_remaining :: nat
  ps_max_concurrency :: nat
  ps_pending_provisions :: nat
  ps_stale_runners :: nat

record runner_scaling_request =
  srq_generated_at_unix_seconds :: nat
  srq_policy :: capacity_scaling_policy
  srq_demands :: "runner_pool_demand list"
  srq_supplies :: "runner_pool_supply list"

datatype (plugins only: code size) runner_scaling_status =
    SS_Noop
  | SS_Steady
  | SS_ProvisionRecommended
  | SS_RetirementRecommended

datatype (plugins only: code size) runner_scaling_action =
    SA_ScaleUp
  | SA_ScaleDown
  | SA_Steady

record runner_pool_scaling_decision =
  psd_pool_key :: string
  psd_action :: runner_scaling_action
  psd_desired_runners :: nat
  psd_current_runners :: nat
  psd_desired_slots :: nat
  psd_current_slots :: nat
  psd_provision_runners :: nat
  psd_retire_runners :: nat
  psd_demand_units :: nat
  psd_queue_depth :: nat
  psd_event_backlog :: nat
  psd_reasons :: "string list"

record runner_scaling_decision =
  sd_status :: runner_scaling_status
  sd_mode :: capacity_scaling_mode
  sd_pool_decisions :: "runner_pool_scaling_decision list"
  sd_reasons :: "string list"

definition scaling_disabled :: capacity_scaling_policy where
  "scaling_disabled = capacity_scaling_policy_default"

definition recommend_only :: "nat \<Rightarrow> capacity_scaling_policy" where
  "recommend_only n = capacity_scaling_policy_default
     (| sp_enabled := True, sp_mode := CSM_RecommendOnly, sp_max_runners := n |)"

definition bounded_ephemeral :: "nat \<Rightarrow> capacity_scaling_policy" where
  "bounded_ephemeral n = capacity_scaling_policy_default
     (| sp_enabled := True, sp_mode := CSM_ProvisionEphemeral, sp_max_runners := n |)"

section \<open>The recommendation for one pool\<close>

definition ceil_div :: "nat \<Rightarrow> nat \<Rightarrow> nat" where
  "ceil_div n d = (if n = 0 then 0 else 1 + (n - 1) div max d 1)"

definition pool_demand_units :: "capacity_scaling_policy \<Rightarrow> runner_pool_demand \<Rightarrow> nat" where
  "pool_demand_units p d =
     (let events = (if sp_scale_from_events p then sat_mul (pd_event_backlog d) (max (sp_event_weight p) 1) else 0)
      in sat_add (sat_add (sat_add (pd_queued_tasks d) (pd_unmatched_tasks d)) events) (pd_priority_boost d))"

definition backlog_runners :: "capacity_scaling_policy \<Rightarrow> runner_pool_demand \<Rightarrow> nat" where
  "backlog_runners p d = ceil_div (pool_demand_units p d) (max (sp_target_backlog_per_runner p) 1)"

definition utilization_runners ::
  "capacity_scaling_policy \<Rightarrow> runner_pool_demand \<Rightarrow> runner_pool_supply \<Rightarrow> nat" where
  "utilization_runners p d s =
     ceil_div (sat_mul (max (pd_running_tasks d) (ps_running_tasks s)) 100)
       (sat_mul (max (sp_slots_per_runner p) 1) (min (max (sp_target_utilization_percent p) 1) 100))"

definition desired_runners ::
  "capacity_scaling_policy \<Rightarrow> runner_pool_demand \<Rightarrow> runner_pool_supply \<Rightarrow> nat" where
  "desired_runners p d s =
     min (max (max (sp_min_runners p) (sat_add (backlog_runners p d) (sp_headroom_runners p)))
            (utilization_runners p d s))
       (sp_max_runners p)"

definition effective_runners :: "runner_pool_supply \<Rightarrow> nat" where
  "effective_runners s = sat_add (ps_dispatchable_runners s) (ps_pending_provisions s)"

definition pool_reasons ::
  "capacity_scaling_policy \<Rightarrow> runner_pool_demand \<Rightarrow> runner_pool_supply \<Rightarrow> string list" where
  "pool_reasons p d s =
     [''demand_units='' @ dec (pool_demand_units p d) @ '', backlog_runners='' @ dec (backlog_runners p d)
        @ '', utilization_runners='' @ dec (utilization_runners p d s),
      ''current_effective_runners='' @ dec (effective_runners s) @ '', desired_runners='' @ dec (desired_runners p d s)
        @ '', pending_provisions='' @ dec (ps_pending_provisions s)]"

definition recommend_pool_scaling ::
  "capacity_scaling_policy \<Rightarrow> runner_pool_demand \<Rightarrow> runner_pool_supply \<Rightarrow> runner_pool_scaling_decision" where
  "recommend_pool_scaling p d s =
     (let slots = max (sp_slots_per_runner p) 1;
          desired = desired_runners p d s;
          current = effective_runners s;
          decision = (\<lambda>action provision retire reasons. (|
            psd_pool_key = pd_pool_key d, psd_action = action, psd_desired_runners = desired,
            psd_current_runners = ps_dispatchable_runners s, psd_desired_slots = sat_mul desired slots,
            psd_current_slots = max (ps_max_concurrency s) (sat_mul current slots),
            psd_provision_runners = provision, psd_retire_runners = retire,
            psd_demand_units = pool_demand_units p d, psd_queue_depth = pd_queued_tasks d,
            psd_event_backlog = pd_event_backlog d, psd_reasons = pool_reasons p d s @ reasons |))
      in if desired > current
         then let provision = min (desired - current) (sp_max_scale_up_step p)
              in decision SA_ScaleUp provision 0
                   [''scale-up bounded to '' @ dec provision @ '' runner(s) by max_scale_up_step'']
         else if current > desired
         then decision SA_ScaleDown 0 (min (current - desired) (sp_max_scale_down_step p))
                [''scale-down is a recommendation; active task runners should retire by TTL or drain policy'']
         else decision SA_Steady 0 0 [])"

section \<open>The recommendation for all pools\<close>

definition supply_of :: "runner_pool_supply list \<Rightarrow> string \<Rightarrow> runner_pool_supply" where
  "supply_of supplies key =
     (case find (\<lambda>s. ps_pool_key s = key) supplies of
        Some s \<Rightarrow> s
      | None \<Rightarrow> (| ps_pool_key = key, ps_registered_runners = 0, ps_dispatchable_runners = 0, ps_running_tasks = 0,
          ps_capacity_remaining = 0, ps_max_concurrency = 0, ps_pending_provisions = 0, ps_stale_runners = 0 |))"

definition recommend :: "runner_scaling_request \<Rightarrow> runner_scaling_decision" where
  "recommend request =
     (let policy = srq_policy request in
      if \<not> sp_enabled policy \<or> sp_mode policy = CSM_Manual
      then (| sd_status = SS_Noop, sd_mode = sp_mode policy, sd_pool_decisions = [],
              sd_reasons = [''capacity scaling is disabled or manual; coordinator should not provision automatically''] |)
      else
        let decisions = map (\<lambda>d. recommend_pool_scaling policy d (supply_of (srq_supplies request) (pd_pool_key d)))
              (srq_demands request);
            status = (if \<exists>x \<in> set decisions. psd_action x = SA_ScaleUp \<and> psd_provision_runners x > 0
                      then SS_ProvisionRecommended
                      else if \<exists>x \<in> set decisions. psd_action x = SA_ScaleDown then SS_RetirementRecommended
                      else SS_Steady)
        in (| sd_status = status, sd_mode = sp_mode policy, sd_pool_decisions = decisions,
              sd_reasons = [''capacity decision uses durable task/event demand, runner heartbeat supply, and bounded scaling policy''] |))"

section \<open>What a decision says\<close>

lemma recommended_fields:
  "psd_pool_key (recommend_pool_scaling p d s) = pd_pool_key d"
  "psd_desired_runners (recommend_pool_scaling p d s) = desired_runners p d s"
  "psd_provision_runners (recommend_pool_scaling p d s) = min (desired_runners p d s - effective_runners s) (sp_max_scale_up_step p)"
  "psd_retire_runners (recommend_pool_scaling p d s) = min (effective_runners s - desired_runners p d s) (sp_max_scale_down_step p)"
  "psd_action (recommend_pool_scaling p d s) =
     (if effective_runners s < desired_runners p d s then SA_ScaleUp
      else if desired_runners p d s < effective_runners s then SA_ScaleDown else SA_Steady)"
  by (simp_all add: recommend_pool_scaling_def Let_def)

lemma ceil_div_covers: "d \<ge> 1 \<Longrightarrow> n \<le> ceil_div n d * d"
proof (cases "n = 0")
  case False
  assume d: "d \<ge> 1"
  have "n - 1 < ((n - 1) div d + 1) * d"
    using d dividend_less_div_times [of d "n - 1"] by simp
  then show ?thesis using False d by (simp add: ceil_div_def max_def)
qed simp

lemma ceil_div_least: "d \<ge> 1 \<Longrightarrow> n \<le> k * d \<Longrightarrow> ceil_div n d \<le> k"
proof (cases "n = 0")
  case False
  assume d: "d \<ge> 1" and n: "n \<le> k * d"
  then have "n - 1 < k * d" using False by simp
  then have "(n - 1) div d < k" using d by (simp add: less_mult_imp_div_less)
  then show ?thesis using False d by (simp add: ceil_div_def max_def)
qed (simp add: ceil_div_def)

lemma pool_decision_of:
  assumes "x \<in> set (sd_pool_decisions (recommend request))"
  obtains d where "d \<in> set (srq_demands request)"
    and "x = recommend_pool_scaling (srq_policy request) d (supply_of (srq_supplies request) (pd_pool_key d))"
  using assms by (auto simp: recommend_def Let_def split: if_splits)

text \<open>Enough runners for the backlog and for the running tasks.\<close>

definition covers_demand ::
  "capacity_scaling_policy \<Rightarrow> runner_pool_demand \<Rightarrow> runner_pool_supply \<Rightarrow> nat \<Rightarrow> bool" where
  "covers_demand p d s n \<longleftrightarrow>
     pool_demand_units p d \<le> n * max (sp_target_backlog_per_runner p) 1 \<and>
     sat_mul (max (pd_running_tasks d) (ps_running_tasks s)) 100
       \<le> n * sat_mul (max (sp_slots_per_runner p) 1) (min (max (sp_target_utilization_percent p) 1) 100)"

lemma desired_runners_cover:
  assumes "desired_runners p d s < sp_max_runners p" and "sp_max_runners p \<le> u32_max"
  shows "covers_demand p d s (desired_runners p d s)"
proof -
  let ?n = "desired_runners p d s"
  have n: "?n = max (max (sp_min_runners p) (sat_add (backlog_runners p d) (sp_headroom_runners p))) (utilization_runners p d s)"
    using assms(1) by (auto simp: desired_runners_def)
  then have "sat_add (backlog_runners p d) (sp_headroom_runners p) < u32_max" using assms by simp
  then have "backlog_runners p d \<le> sat_add (backlog_runners p d) (sp_headroom_runners p)"
    by (auto simp: sat_add_def)
  then have b: "backlog_runners p d \<le> ?n" and u: "utilization_runners p d s \<le> ?n" using n by simp_all
  let ?t = "max (sp_target_backlog_per_runner p) 1"
  let ?c = "sat_mul (max (sp_slots_per_runner p) 1) (min (max (sp_target_utilization_percent p) 1) 100)"
  have c: "?c \<ge> 1" by (simp add: sat_mul_def u32_max_def min_def max_def)
  have "pool_demand_units p d \<le> backlog_runners p d * ?t"
    unfolding backlog_runners_def by (rule ceil_div_covers) simp
  then have 1: "pool_demand_units p d \<le> ?n * ?t" using b by (meson le_trans mult_le_mono1)
  have "sat_mul (max (pd_running_tasks d) (ps_running_tasks s)) 100 \<le> utilization_runners p d s * ?c"
    unfolding utilization_runners_def by (rule ceil_div_covers [OF c])
  then have 2: "sat_mul (max (pd_running_tasks d) (ps_running_tasks s)) 100 \<le> ?n * ?c"
    using u by (meson le_trans mult_le_mono1)
  show ?thesis using 1 2 by (simp only: covers_demand_def)
qed

section \<open>Properties\<close>

text \<open>
  C36: Scaling stays within its policy.  Every recommendation wants at most \<open>max_runners\<close> runners,
  provisions at most \<open>max_scale_up_step\<close> and retires at most \<open>max_scale_down_step\<close>, never both;
  provisioning does not exceed what is wanted and retiring does not go below it.  What is wanted
  covers the backlog and the running tasks at the targets of the policy unless it is capped by
  \<open>max_runners\<close>.  Nothing is recommended when scaling is disabled or manual.
\<close>
theorem scaling_stays_within_policy:
  assumes "x \<in> set (sd_pool_decisions (recommend request))" and "sp_max_runners (srq_policy request) \<le> u32_max"
  shows "\<exists>d \<in> set (srq_demands request). let p = srq_policy request; s = supply_of (srq_supplies request) (pd_pool_key d);
      wanted = psd_desired_runners x; have_now = effective_runners s in
    sp_enabled p \<and> sp_mode p \<noteq> CSM_Manual \<and> psd_pool_key x = pd_pool_key d \<and>
    wanted \<le> sp_max_runners p \<and> psd_provision_runners x \<le> sp_max_scale_up_step p \<and>
    psd_retire_runners x \<le> sp_max_scale_down_step p \<and> (psd_provision_runners x = 0 \<or> psd_retire_runners x = 0) \<and>
    have_now + psd_provision_runners x \<le> max have_now wanted \<and>
    have_now - psd_retire_runners x \<ge> min have_now wanted \<and>
    (wanted = sp_max_runners p \<or> covers_demand p d s wanted)"
proof -
  obtain d where d: "d \<in> set (srq_demands request)"
    and x: "x = recommend_pool_scaling (srq_policy request) d (supply_of (srq_supplies request) (pd_pool_key d))"
    using assms(1) by (rule pool_decision_of)
  have on: "sp_enabled (srq_policy request) \<and> sp_mode (srq_policy request) \<noteq> CSM_Manual"
    using assms(1) by (auto simp: recommend_def Let_def split: if_splits)
  have cap: "desired_runners (srq_policy request) d s \<le> sp_max_runners (srq_policy request)" for s
    by (simp add: desired_runners_def)
  have cover: "desired_runners (srq_policy request) d s = sp_max_runners (srq_policy request) \<or>
      covers_demand (srq_policy request) d s (desired_runners (srq_policy request) d s)" for s
    using desired_runners_cover [OF _ assms(2)] cap le_neq_implies_less by blast
  show ?thesis
    using d on cap cover by (intro bexI [of _ d]) (auto simp: x Let_def recommended_fields)
qed

definition sample_demand :: runner_pool_demand where
  "sample_demand = (| pd_pool_key = ''codex'', pd_worker = None, pd_required_capabilities = [], pd_required_labels = [],
     pd_queued_tasks = 9, pd_running_tasks = 1, pd_blocked_tasks = 0, pd_unmatched_tasks = 0, pd_event_backlog = 0,
     pd_priority_boost = 0 |)"

definition sample_scaling :: runner_scaling_request where
  "sample_scaling = (| srq_generated_at_unix_seconds = 0, srq_policy = recommend_only 4, srq_demands = [sample_demand],
     srq_supplies = [] |)"

theorem scaling_stays_within_policy_witness:
  "psd_provision_runners (hd (sd_pool_decisions (recommend sample_scaling))) \<le> 2"
proof -
  have "hd (sd_pool_decisions (recommend sample_scaling)) \<in> set (sd_pool_decisions (recommend sample_scaling))"
    by (simp add: recommend_def sample_scaling_def recommend_only_def capacity_scaling_policy_default_def Let_def)
  from scaling_stays_within_policy [OF this] show ?thesis
    by (auto simp: sample_scaling_def recommend_only_def capacity_scaling_policy_default_def u32_max_def Let_def)
qed

text \<open>A provisioner that follows the recommendation of its pool.\<close>

definition follow :: "capacity_scaling_policy \<Rightarrow> runner_pool_demand \<Rightarrow> runner_pool_supply \<Rightarrow> runner_pool_supply" where
  "follow p d s = (let x = recommend_pool_scaling p d s in
     s (| ps_dispatchable_runners := ps_dispatchable_runners s + psd_provision_runners x - psd_retire_runners x |))"

definition distance :: "nat \<Rightarrow> nat \<Rightarrow> nat" where
  "distance m n = (m - n) + (n - m)"

lemma distance_step:
  assumes "u \<ge> 1" "r \<ge> 1"
  shows "a + min (b - a) u - min (a - b) r \<le> max a b \<and>
    distance (a + min (b - a) u - min (a - b) r) b \<le> distance a b - 1"
  using assms by (cases a b rule: linorder_cases) (auto simp: distance_def min_def)

lemma follow_closer:
  assumes "ps_pending_provisions s = 0" "ps_dispatchable_runners s \<le> u32_max" "sp_max_runners p \<le> u32_max"
    and "sp_max_scale_up_step p \<ge> 1" "sp_max_scale_down_step p \<ge> 1"
  shows "ps_pending_provisions (follow p d s) = 0 \<and> ps_dispatchable_runners (follow p d s) \<le> u32_max \<and>
    desired_runners p d (follow p d s) = desired_runners p d s \<and>
    distance (ps_dispatchable_runners (follow p d s)) (desired_runners p d s)
      \<le> distance (ps_dispatchable_runners s) (desired_runners p d s) - 1"
proof -
  have "desired_runners p d s \<le> u32_max" using assms(3) by (simp add: desired_runners_def)
  moreover have "effective_runners s = ps_dispatchable_runners s"
    using assms(1,2) by (simp add: effective_runners_def sat_add_exact)
  moreover have "desired_runners p d (follow p d s) = desired_runners p d s"
    by (simp add: follow_def Let_def desired_runners_def utilization_runners_def)
  ultimately show ?thesis
    using assms(1,2) distance_step [OF assms(4,5), of "ps_dispatchable_runners s" "desired_runners p d s"]
    by (auto simp: follow_def Let_def recommended_fields intro: order_trans)
qed

lemma follow_converges:
  assumes "ps_pending_provisions s = 0" "ps_dispatchable_runners s \<le> u32_max" "sp_max_runners p \<le> u32_max"
    and "sp_max_scale_up_step p \<ge> 1" "sp_max_scale_down_step p \<ge> 1"
    and "distance (ps_dispatchable_runners s) (desired_runners p d s) \<le> n"
  shows "effective_runners ((follow p d ^^ n) s) = desired_runners p d s \<and>
    desired_runners p d ((follow p d ^^ n) s) = desired_runners p d s"
  using assms
proof (induction n arbitrary: s)
  case 0
  then show ?case by (simp add: effective_runners_def sat_add_exact distance_def)
next
  case (Suc n)
  note closer = follow_closer [OF Suc.prems(1-5), of d]
  from closer have same: "desired_runners p d (follow p d s) = desired_runners p d s" by blast
  from closer have "distance (ps_dispatchable_runners (follow p d s)) (desired_runners p d s)
      \<le> distance (ps_dispatchable_runners s) (desired_runners p d s) - 1" by blast
  with Suc.prems(6) have "distance (ps_dispatchable_runners (follow p d s)) (desired_runners p d (follow p d s)) \<le> n"
    unfolding same by linarith
  from Suc.IH [OF _ _ Suc.prems(3-5) this] closer show ?case by (simp add: funpow_swap1 del: funpow.simps add: funpow_Suc_right)
qed

text \<open>
  Following the plan converges.  For a constant demand, a provisioner that carries out
  the recommendations reaches the wanted number of runners after at most as many rounds as
  runners are missing or spare, and the recommendation is then Steady, in every later
  round.
\<close>
theorem following_the_plan_converges:
  assumes "ps_pending_provisions s = 0" and "ps_dispatchable_runners s \<le> u32_max" and "sp_max_runners p \<le> u32_max"
    and "sp_max_scale_up_step p \<ge> 1" and "sp_max_scale_down_step p \<ge> 1"
    and "distance (ps_dispatchable_runners s) (desired_runners p d s) \<le> n"
  shows "psd_action (recommend_pool_scaling p d ((follow p d ^^ n) s)) = SA_Steady \<and>
    effective_runners ((follow p d ^^ n) s) = desired_runners p d s"
  using follow_converges [OF assms] by (simp add: recommended_fields)

theorem following_the_plan_converges_witness:
  "psd_action (recommend_pool_scaling (recommend_only 4) sample_demand
     ((follow (recommend_only 4) sample_demand ^^ 4) (supply_of [] ''codex''))) = SA_Steady"
  by (rule following_the_plan_converges [THEN conjunct1])
     (simp_all add: supply_of_def recommend_only_def capacity_scaling_policy_default_def u32_max_def distance_def
       desired_runners_def)

end
