(* ===== verification/Registry.thy ===== *)
theory Registry
  imports Dispatch Scaling
begin

text \<open>
  The runner registry (\<open>crates/runner-registry/src/main.rs\<close>): registrations and heartbeats with
  leases, the journal they are appended to, its replay at start-up, and the dispatch and
  capacity handlers over the live runners.

  A clock reading has the monotonic instant in nanoseconds and the wall clock in seconds;
  \<open>ck_floor\<close> is the earliest instant that the platform can represent (\<open>checked_sub\<close>).  Every call
  of \<open>Instant::now\<close> or \<open>unix_now\<close> is a reading of its own.  The encoding of a journal line is
  serde's; a line is an entry, blank or invalid.
\<close>

section \<open>Records and leases\<close>

record clock =
  ck_instant :: int
  ck_unix :: nat
  ck_floor :: int

record runner_heartbeat =
  hb_runner_id :: string
  hb_node_id :: string
  hb_running_tasks :: nat
  hb_capacity_remaining :: nat

record runner_record =
  rec_registration :: runner_registration
  rec_last_seen :: int
  rec_last_seen_unix_seconds :: nat
  rec_running_tasks :: nat
  rec_capacity_remaining :: nat

record runner_status =
  rst_registration :: runner_registration
  rst_running_tasks :: nat
  rst_capacity_remaining :: nat
  rst_last_seen_age_seconds :: nat
  rst_dispatchable :: bool
  rst_stale :: bool
  rst_full :: bool

definition nanos :: int where
  "nanos = 1000000000"

definition new_record :: "clock \<Rightarrow> runner_registration \<Rightarrow> runner_record" where
  "new_record c reg = (| rec_registration = reg, rec_last_seen = ck_instant c, rec_last_seen_unix_seconds = ck_unix c,
     rec_running_tasks = 0, rec_capacity_remaining = rr_max_concurrency reg |)"

definition beat :: "clock \<Rightarrow> runner_heartbeat \<Rightarrow> runner_record \<Rightarrow> runner_record" where
  "beat c hb r = r (| rec_last_seen := ck_instant c, rec_last_seen_unix_seconds := ck_unix c,
     rec_running_tasks := hb_running_tasks hb, rec_capacity_remaining := hb_capacity_remaining hb |)"

text \<open>\<open>Instant::duration_since\<close> is zero for a later instant.\<close>

definition age :: "int \<Rightarrow> runner_record \<Rightarrow> int" where
  "age tm r = max 0 (tm - rec_last_seen r)"

definition lease :: "runner_record \<Rightarrow> int" where
  "lease r = int (rr_lease_ttl_seconds (rec_registration r)) * nanos"

definition is_dispatchable :: "int \<Rightarrow> runner_record \<Rightarrow> bool" where
  "is_dispatchable tm r \<longleftrightarrow> age tm r \<le> lease r \<and> rec_capacity_remaining r > 0"

definition status_of :: "int \<Rightarrow> runner_record \<Rightarrow> runner_status" where
  "status_of tm r =
     (let stale = age tm r > lease r; full = (rec_capacity_remaining r = 0) in
      (| rst_registration = rec_registration r, rst_running_tasks = rec_running_tasks r,
         rst_capacity_remaining = rec_capacity_remaining r, rst_last_seen_age_seconds = nat (age tm r div nanos),
         rst_dispatchable = (\<not> stale \<and> \<not> full), rst_stale = stale, rst_full = full |))"

section \<open>The journal\<close>

datatype (plugins only: code size) journal_entry =
    JE_Registered runner_registration nat
  | JE_Heartbeat runner_heartbeat nat

datatype (plugins only: code size) journal_line =
    JL_Entry journal_entry
  | JL_Blank
  | JL_Invalid

type_synonym runners = "(string, runner_record) btree"

record app_state =
  as_runners :: runners
  as_journal :: "journal_line list option"

definition instant_from_wall_clock :: "clock \<Rightarrow> nat \<Rightarrow> int" where
  "instant_from_wall_clock c recorded_at =
     (let t = ck_instant c - int (ck_unix c - recorded_at) * nanos
      in if ck_floor c \<le> t then t else ck_instant c)"

fun apply_journal_entry :: "clock \<Rightarrow> journal_entry \<Rightarrow> runners \<Rightarrow> runners" where
  "apply_journal_entry c (JE_Registered reg at) m =
     bt_insert (rr_runner_id reg)
       ((new_record c reg) (| rec_last_seen_unix_seconds := at, rec_last_seen := instant_from_wall_clock c at |)) m"
| "apply_journal_entry c (JE_Heartbeat hb at) m =
     bt_adjust (hb_runner_id hb) (\<lambda>r. r (| rec_running_tasks := hb_running_tasks hb,
       rec_capacity_remaining := hb_capacity_remaining hb, rec_last_seen_unix_seconds := at,
       rec_last_seen := instant_from_wall_clock c at |)) m"

fun replay_lines :: "(nat \<Rightarrow> clock) \<Rightarrow> nat \<Rightarrow> journal_line list \<Rightarrow> runners \<Rightarrow> runners" where
  "replay_lines clocks k [] m = m"
| "replay_lines clocks k (JL_Entry e # ls) m = replay_lines clocks (Suc k) ls (apply_journal_entry (clocks k) e m)"
| "replay_lines clocks k (_ # ls) m = replay_lines clocks (Suc k) ls m"

text \<open>The reading taken at line \<open>k\<close> is \<open>clocks k\<close>; without a path or a file the registry is empty.\<close>

definition replay_journal :: "(nat \<Rightarrow> clock) \<Rightarrow> journal_line list option \<Rightarrow> runners" where
  "replay_journal clocks journal = (case journal of None \<Rightarrow> [] | Some ls \<Rightarrow> replay_lines clocks 0 ls [])"

text \<open>Appending writes one line, or fails and is only logged.\<close>

definition append_journal :: "bool \<Rightarrow> journal_entry \<Rightarrow> app_state \<Rightarrow> app_state" where
  "append_journal written e s =
     (if written then s (| as_journal := map_option (\<lambda>ls. ls @ [JL_Entry e]) (as_journal s) |) else s)"

section \<open>Handlers\<close>

definition put_registration :: "clock \<Rightarrow> runner_registration \<Rightarrow> app_state \<Rightarrow> app_state" where
  "put_registration c reg s = s (| as_runners := bt_insert (rr_runner_id reg) (new_record c reg) (as_runners s) |)"

definition register_runner ::
  "clock \<Rightarrow> clock \<Rightarrow> bool \<Rightarrow> runner_registration \<Rightarrow> app_state \<Rightarrow> runner_registration \<times> app_state" where
  "register_runner c c' written reg s =
     (reg, append_journal written (JE_Registered reg (ck_unix c')) (put_registration c reg s))"

definition known_runner :: "runner_heartbeat \<Rightarrow> app_state \<Rightarrow> bool" where
  "known_runner hb s \<longleftrightarrow> bt_get (as_runners s) (hb_runner_id hb) \<noteq> None"

definition put_heartbeat :: "clock \<Rightarrow> runner_heartbeat \<Rightarrow> app_state \<Rightarrow> app_state" where
  "put_heartbeat c hb s = s (| as_runners := bt_adjust (hb_runner_id hb) (beat c hb) (as_runners s) |)"

definition heartbeat :: "clock \<Rightarrow> clock \<Rightarrow> bool \<Rightarrow> runner_heartbeat \<Rightarrow> app_state \<Rightarrow> bool \<times> app_state" where
  "heartbeat c c' written hb s =
     (let known = known_runner hb s; s' = put_heartbeat c hb s
      in (known, if known then append_journal written (JE_Heartbeat hb (ck_unix c')) s' else s'))"

definition list_runners :: "app_state \<Rightarrow> runner_registration list" where
  "list_runners s = map rec_registration (bt_values (as_runners s))"

definition list_runner_status :: "int \<Rightarrow> app_state \<Rightarrow> runner_status list" where
  "list_runner_status tm s = map (status_of tm) (bt_values (as_runners s))"

definition dispatch :: "std_hash \<Rightarrow> int \<Rightarrow> runner_dispatch_request \<Rightarrow> app_state \<Rightarrow> runner_dispatch_decision" where
  "dispatch h tm q s =
     choose_runner h (if rdq_registered_runners q = []
       then q (| rdq_registered_runners := map rec_registration (filter (is_dispatchable tm) (bt_values (as_runners s))) |)
       else q)"

definition runner_pool_key :: "runner_registration \<Rightarrow> string" where
  "runner_pool_key reg =
     (case bt_get (rr_labels reg) ''pool'' of
        Some k \<Rightarrow> k
      | None \<Rightarrow> (case bt_get (rr_labels reg) ''lane'' of
          Some k \<Rightarrow> k
        | None \<Rightarrow> (case rr_roles reg of k # _ \<Rightarrow> wk_as_str k | [] \<Rightarrow> ''default'')))"

definition add_to_pool :: "runner_status \<Rightarrow> runner_pool_supply \<Rightarrow> runner_pool_supply" where
  "add_to_pool st p = p (|
     ps_registered_runners := sat_add (ps_registered_runners p) 1,
     ps_dispatchable_runners := (if rst_dispatchable st then sat_add (ps_dispatchable_runners p) 1 else ps_dispatchable_runners p),
     ps_stale_runners := (if rst_stale st then sat_add (ps_stale_runners p) 1 else ps_stale_runners p),
     ps_running_tasks := sat_add (ps_running_tasks p) (rst_running_tasks st),
     ps_capacity_remaining := sat_add (ps_capacity_remaining p) (rst_capacity_remaining st),
     ps_max_concurrency := sat_add (ps_max_concurrency p) (rr_max_concurrency (rst_registration st)) |)"

definition count_runner :: "runner_status \<Rightarrow> (string, runner_pool_supply) btree \<Rightarrow> (string, runner_pool_supply) btree" where
  "count_runner st pools =
     (let k = runner_pool_key (rst_registration st);
          p = (case bt_get pools k of Some p \<Rightarrow> p | None \<Rightarrow> supply_of [] k)
      in bt_insert k (add_to_pool st p) pools)"

definition runner_pool_supplies :: "int \<Rightarrow> app_state \<Rightarrow> runner_pool_supply list" where
  "runner_pool_supplies tm s =
     bt_values (foldl (\<lambda>pools r. count_runner (status_of tm r) pools) [] (bt_values (as_runners s)))"

definition capacity_plan :: "int \<Rightarrow> runner_scaling_request \<Rightarrow> app_state \<Rightarrow> runner_scaling_decision" where
  "capacity_plan tm q s =
     recommend (if srq_supplies q = [] then q (| srq_supplies := runner_pool_supplies tm s |) else q)"

section \<open>The journal records the registry\<close>

text \<open>One handler after the other, every append succeeding.\<close>

datatype (plugins only: code size) registry_op =
    RO_Register clock clock runner_registration
  | RO_Heartbeat clock clock runner_heartbeat

fun serve :: "registry_op \<Rightarrow> app_state \<Rightarrow> app_state" where
  "serve (RO_Register c c' reg) s = snd (register_runner c c' True reg s)"
| "serve (RO_Heartbeat c c' hb) s = snd (heartbeat c c' True hb s)"

definition started :: app_state where
  "started = (| as_runners = [], as_journal = Some [] |)"

definition served :: "registry_op list \<Rightarrow> app_state" where
  "served ops = foldl (\<lambda>s op. serve op s) started ops"

text \<open>What a record says apart from when its runner was last seen.\<close>

definition timeless :: "runner_record \<Rightarrow> runner_record" where
  "timeless r = r (| rec_last_seen := 0, rec_last_seen_unix_seconds := 0 |)"

lemma map_values_insert: "bt_map_values g (bt_insert k v m) = bt_insert k (g v) (bt_map_values g m)"
  by (induction k v m rule: bt_insert.induct) (auto simp: bt_map_values_def)

lemma map_values_adjust:
  "(\<And>v. g (f v) = h (g v)) \<Longrightarrow> bt_map_values g (bt_adjust k f m) = bt_adjust k h (bt_map_values g m)"
  by (induction m) (auto simp: bt_map_values_def bt_adjust_def)

lemma adjust_absent: "bt_get m k = None \<Longrightarrow> bt_adjust k f m = m"
  by (induction m) (auto simp: bt_get_def bt_adjust_def split: if_splits)

lemma replay_append:
  "replay_lines clocks k (ls @ [JL_Entry e]) m = apply_journal_entry (clocks (k + length ls)) e (replay_lines clocks k ls m)"
  by (induction clocks k ls m rule: replay_lines.induct) simp_all

lemma timeless_register:
  "bt_map_values timeless (apply_journal_entry c (JE_Registered reg at) m) =
     bt_insert (rr_runner_id reg) (timeless (new_record c' reg)) (bt_map_values timeless m)"
  by (simp add: map_values_insert) (simp add: timeless_def new_record_def)

lemma timeless_beats:
  "bt_map_values timeless (apply_journal_entry c (JE_Heartbeat hb at) m) =
     bt_adjust (hb_runner_id hb) (\<lambda>r. r (| rec_running_tasks := hb_running_tasks hb,
       rec_capacity_remaining := hb_capacity_remaining hb |)) (bt_map_values timeless m)"
  "bt_map_values timeless (bt_adjust (hb_runner_id hb) (beat c hb) m) =
     bt_adjust (hb_runner_id hb) (\<lambda>r. r (| rec_running_tasks := hb_running_tasks hb,
       rec_capacity_remaining := hb_capacity_remaining hb |)) (bt_map_values timeless m)"
  unfolding apply_journal_entry.simps by (rule map_values_adjust, simp add: timeless_def beat_def)+

lemma served_snoc: "served (ops @ [op]) = serve op (served ops)"
  by (simp add: served_def)

lemma served_journal:
  "\<exists>ls. as_journal (served ops) = Some ls \<and>
     bt_map_values timeless (replay_lines clocks 0 ls []) = bt_map_values timeless (as_runners (served ops))"
proof (induction ops rule: rev_induct)
  case Nil
  then show ?case by (simp add: served_def started_def)
next
  case (snoc op ops)
  then obtain ls where ls: "as_journal (served ops) = Some ls"
    and eq: "bt_map_values timeless (replay_lines clocks 0 ls []) = bt_map_values timeless (as_runners (served ops))"
    by blast
  show ?case
  proof (cases op)
    case (RO_Register c c' reg)
    show ?thesis
      by (simp add: served_snoc RO_Register register_runner_def append_journal_def put_registration_def ls replay_append
          timeless_register [where c' = c] eq map_values_insert del: apply_journal_entry.simps)
  next
    case (RO_Heartbeat c c' hb)
    show ?thesis
    proof (cases "known_runner hb (served ops)")
      case True
      then show ?thesis
        by (simp add: served_snoc RO_Heartbeat heartbeat_def append_journal_def put_heartbeat_def ls replay_append
            timeless_beats eq Let_def del: apply_journal_entry.simps)
    next
      case False
      then show ?thesis
        using ls eq by (simp add: served_snoc RO_Heartbeat heartbeat_def put_heartbeat_def known_runner_def adjust_absent Let_def)
    qed
  qed
qed

section \<open>Properties\<close>

text \<open>
  C35: Replaying the journal restores the registry.  After any sequence of registrations and
  heartbeats, served one after the other and appended without error, replaying the journal at
  any later time yields the same runners with the same registrations, running tasks and
  remaining capacity; only the times at which they were last seen are recomputed.
\<close>
theorem replay_restores_the_registry:
  "bt_map_values timeless (replay_journal clocks (as_journal (served ops))) =
     bt_map_values timeless (as_runners (served ops))"
  using served_journal [of ops clocks] by (auto simp: replay_journal_def)

text \<open>
  A handler changes the map under the lock and appends to the journal after releasing it.  Two
  registrations of the same runner whose appends overtake each other:
\<close>

definition overtaken :: "clock \<Rightarrow> runner_registration \<Rightarrow> runner_registration \<Rightarrow> app_state" where
  "overtaken c first second =
     append_journal True (JE_Registered first (ck_unix c))
       (append_journal True (JE_Registered second (ck_unix c))
         (put_registration c second (put_registration c first started)))"

text \<open>
  Concurrent registrations can be reordered by a restart.  When two registrations of one
  runner are served in one order and appended in the other, which the handlers permit, the
  registry holds the second one before a restart and the first one after it.
\<close>
theorem concurrent_registrations_can_be_lost:
  assumes "rr_runner_id first = rr_runner_id second"
  shows "map_option rec_registration (bt_get (as_runners (overtaken c first second)) (rr_runner_id second)) = Some second \<and>
    map_option rec_registration
      (bt_get (replay_journal clocks (as_journal (overtaken c first second))) (rr_runner_id second)) = Some first"
  using assms
  by (simp add: overtaken_def append_journal_def put_registration_def started_def replay_journal_def new_record_def get_insert)

definition zero_clock :: clock where
  "zero_clock = (| ck_instant = 0, ck_unix = 0, ck_floor = 0 |)"

theorem concurrent_registrations_can_be_lost_witness:
  "map_option rec_registration (bt_get (replay_journal (\<lambda>_. zero_clock) (as_journal (overtaken zero_clock
     (sample_runner ''r'') ((sample_runner ''r'') (| rr_max_concurrency := 9 |))))) (rr_runner_id (sample_runner ''r''))) =
   Some (sample_runner ''r'')"
proof -
  have "rr_runner_id (sample_runner ''r'') = rr_runner_id ((sample_runner ''r'') (| rr_max_concurrency := 9 |))" by simp
  from concurrent_registrations_can_be_lost [OF this, THEN conjunct2] show ?thesis by simp
qed

text \<open>Dispatch from the registry considers live runners only.\<close>

lemma dispatch_uses_live_runners:
  assumes "rdq_registered_runners q = []" and "rdd_status (dispatch h tm q s) = RDS_Matched"
  obtains r where "r \<in> set (bt_values (as_runners s))" and "is_dispatchable tm r"
    and "can_serve (rec_registration r) (rdq_task q) (rdq_coordinator_node_id q)"
    and "rdd_runner_id (dispatch h tm q s) = Some (rr_runner_id (rec_registration r))"
  using assms choose_runner_exact [of h "q (| rdq_registered_runners :=
      map rec_registration (filter (is_dispatchable tm) (bt_values (as_runners s))) |)"]
  by (auto simp: dispatch_def Let_def)

end
