(* ===== verification/Distributed.thy ===== *)
theory Distributed
  imports Handlers Registry
begin

text \<open>
  The agent-runner service of the coordinator (\<open>run_distributed_task\<close> and its helpers in
  \<open>crates/coordinator/src/main.rs\<close>): dispatch of a task to a registered runner, and what becomes
  of the task when no runner answers: a Blocked or TimedOut result, or the local stub.

  The HTTP calls are parameters: \<open>rn_dispatch\<close> is the registry's reply to a dispatch request,
  \<open>rn_post\<close> the runner's reply within the timeout (None when it elapsed), \<open>rn_notify\<close> the notifier's
  reply; an error is the text that the code builds from the transport or status error.  The
  identifier and the time that a stub's checkpoint draws are arguments.
\<close>

section \<open>Results without a runner\<close>

fun filesystem_access_debug :: "filesystem_access \<Rightarrow> string" where
  "filesystem_access_debug FA_ReadOnly = ''ReadOnly''"
| "filesystem_access_debug FA_WorkspaceWrite = ''WorkspaceWrite''"

fun network_access_debug :: "network_access \<Rightarrow> string" where
  "network_access_debug NA_Disabled = ''Disabled''"
| "network_access_debug NA_Restricted = ''Restricted''"
| "network_access_debug NA_Open = ''Open''"

fun approval_risk_debug :: "approval_risk \<Rightarrow> string" where
  "approval_risk_debug AR_Low = ''Low''"
| "approval_risk_debug AR_Medium = ''Medium''"
| "approval_risk_debug AR_High = ''High''"
| "approval_risk_debug AR_Critical = ''Critical''"

definition trim_slashes :: "string \<Rightarrow> string" where
  "trim_slashes s = rev (dropWhile (\<lambda>c. c = CHR ''/'') (rev s))"

definition declared_attestation :: "sandbox_profile \<Rightarrow> sandbox_attestation" where
  "declared_attestation p = (|
     sa_backend = iso_backend (sbx_isolation p), sa_runtime_class = iso_runtime_class (sbx_isolation p),
     sa_enforceable = False, sa_strong_isolation = False,
     sa_isolation_summary = sb_as_str (iso_backend (sbx_isolation p))
       @ '' sandbox declared but not independently attested with filesystem='' @ filesystem_access_debug (sbx_filesystem p)
       @ '', network='' @ network_access_debug (sbx_network p),
     sa_warnings = (if strongly_isolated p
       then [''strong sandbox was requested; runner must replace this declaration with enforcement evidence'']
       else [''sandbox profile is not a strong isolation boundary'']),
     sa_evidence = [] |)"

definition branch_for :: "git_result_policy \<Rightarrow> uuid \<Rightarrow> uuid \<Rightarrow> string" where
  "branch_for g goal_id task_id = trim_slashes (gp_branch_prefix g) @ ''/'' @ goal_id @ ''/'' @ task_id"

definition stub_git_result :: "task_node \<Rightarrow> git_result_ref option" where
  "stub_git_result t =
     (let g = rcp_git (ep_results (tn_execution t)) in
      if gp_enabled g
      then Some (| gr_repo = None, gr_remote = gp_remote g, gr_base_ref = gp_base_ref g,
             gr_branch = branch_for g (tn_goal_id t) (tn_id t),
             gr_worktree_path = map_option (\<lambda>root. trim_slashes root @ ''/'' @ tn_goal_id t @ ''/'' @ tn_id t) (gp_worktree_root g),
             gr_commit = None, gr_pushed = False, gr_pull_request_url = None, gr_diff_uri = None |)
      else None)"

definition stub_done :: "uuid \<Rightarrow> string \<Rightarrow> task_node \<Rightarrow> agent_run_result" where
  "stub_done new_id time t = (|
     res_task_id = tn_id t, res_status = WRS_Done,
     res_summary = ''stub '' @ wk_as_str (tn_role t) @ '' worker completed task '' @ tn_id t,
     res_review = review_for_task t, res_research = research_for_task_purpose (tn_purpose t),
     res_branch_vote = branch_vote_for_task_purpose (tn_purpose t), res_runner_id = Some ''stub-runner'',
     res_model_used = (case mr_candidates (ep_model (tn_execution t)) of m # _ \<Rightarrow> Some m | [] \<Rightarrow> None),
     res_mcp_context_used = Some (ep_mcp (tn_execution t)),
     res_sandbox_attestation = Some (declared_attestation (tn_sandbox t)),
     res_artifacts = [(| ar_kind = AK_Report, ar_uri = ''memory://task/'' @ tn_id t,
       ar_description = ''stub worker result'', ar_sha256 = None |)],
     res_git_result = stub_git_result t, res_object_artifacts = [],
     res_checkpoints = [metadata_for_task new_id time t ''stub-result'' ''stub worker result checkpoint''],
     res_test_evidence = (if dc_tests_pass (tn_done_criteria t) \<and> is_work_like (tn_purpose t) then [stub_pass (tn_id t)] else []),
     res_child_requests = [], res_delayed_compute_thunks = [], res_confidence = f32_0_9, res_next_actions = [],
     res_diagnostics = [], res_notification_reports = [] |)"

definition local_stub_result :: "uuid \<Rightarrow> string \<Rightarrow> agent_run_request \<Rightarrow> string list \<Rightarrow> agent_run_result" where
  "local_stub_result new_id time request diagnostics =
     (stub_done new_id time (arq_task request))
       (| res_runner_id := Some ''local-stub-fallback'', res_diagnostics := diagnostics |)"

definition empty_result :: "agent_run_request \<Rightarrow> worker_run_status \<Rightarrow> string \<Rightarrow> agent_run_result" where
  "empty_result request status summary = (|
     res_task_id = tn_id (arq_task request), res_status = status, res_summary = summary, res_review = None,
     res_research = None, res_branch_vote = None, res_runner_id = None, res_model_used = None,
     res_mcp_context_used = None, res_sandbox_attestation = None, res_artifacts = [], res_git_result = None,
     res_object_artifacts = [], res_checkpoints = [], res_test_evidence = [], res_child_requests = [],
     res_delayed_compute_thunks = [], res_confidence = f32_0, res_next_actions = [], res_diagnostics = [],
     res_notification_reports = [] |)"

definition blocked_result ::
  "agent_run_request \<Rightarrow> string option \<Rightarrow> model_candidate option \<Rightarrow> mcp_context_ref option \<Rightarrow> string list \<Rightarrow>
   notification_delivery_report list \<Rightarrow> agent_run_result" where
  "blocked_result request runner model mcp diagnostics reports =
     (empty_result request WRS_Blocked ''no distributed runner is available for this task'') (|
       res_runner_id := runner, res_model_used := model, res_mcp_context_used := mcp,
       res_next_actions := [''register a compatible runner'', ''relax the task execution profile'',
         ''enable local stub fallback for development''],
       res_diagnostics := diagnostics, res_notification_reports := reports |)"

definition timeout_result ::
  "agent_run_request \<Rightarrow> string option \<Rightarrow> model_candidate option \<Rightarrow> mcp_context_ref option \<Rightarrow> nat \<Rightarrow> string list \<Rightarrow>
   notification_delivery_report list \<Rightarrow> agent_run_result" where
  "timeout_result request runner model mcp seconds diagnostics reports =
     (empty_result request WRS_TimedOut (''runner timed out after '' @ dec seconds @ ''s'')) (|
       res_runner_id := runner, res_model_used := model, res_mcp_context_used := mcp,
       res_next_actions := [''restart the task if policy allows'',
         ''increase timeout policy if the work is expected to run longer'',
         ''route the task to a faster or more capable runner''],
       res_diagnostics := diagnostics, res_notification_reports := reports |)"

section \<open>Calls\<close>

record notification_request =
  nrq_goal_id :: uuid
  nrq_task_id :: "uuid option"
  nrq_event :: notification_event
  nrq_message :: string
  nrq_policy :: notification_policy

record network =
  rn_dispatch :: "runner_dispatch_request \<Rightarrow> string + runner_dispatch_decision"
  rn_post :: "string \<Rightarrow> agent_run_request \<Rightarrow> (string + agent_run_result) option"
  rn_notify :: "notification_request \<Rightarrow> string + notification_delivery_report list"
  rn_node_id :: "string option"

datatype (plugins only: code size) runner_call_outcome =
    RCO_Ok agent_run_result
  | RCO_TimedOut nat
  | RCO_Err string

definition call_timeout :: "agent_run_request \<Rightarrow> nat" where
  "call_timeout request = max (case arq_timeout_seconds request of Some n \<Rightarrow> n | None \<Rightarrow> 3600) 1"

definition call_runner :: "network \<Rightarrow> string \<Rightarrow> agent_run_request \<Rightarrow> runner_call_outcome" where
  "call_runner net endpoint request =
     (case rn_post net (trim_slashes endpoint @ ''/run-task'') request of
        Some (Inr result) \<Rightarrow> RCO_Ok result
      | Some (Inl e) \<Rightarrow> RCO_Err e
      | None \<Rightarrow> RCO_TimedOut (call_timeout request))"

definition dispatch_task :: "network \<Rightarrow> agent_run_request \<Rightarrow> string + runner_dispatch_decision" where
  "dispatch_task net request = rn_dispatch net (| rdq_goal_id = arq_goal_id request, rdq_task = arq_task request,
     rdq_coordinator_node_id = rn_node_id net, rdq_registered_runners = [] |)"

definition send_notification :: "network \<Rightarrow> notification_request \<Rightarrow> notification_delivery_report list" where
  "send_notification net n =
     (case rn_notify net n of
        Inr reports \<Rightarrow> reports
      | Inl e \<Rightarrow> [(| ndr_target = None, ndr_delivered = False, ndr_external_ref = None, ndr_error = Some e |)])"

definition notify_approval_requested ::
  "network \<Rightarrow> task_node \<Rightarrow> approval_request \<Rightarrow> notification_delivery_report list" where
  "notify_approval_requested net t a = send_notification net (|
     nrq_goal_id = apr_goal_id a, nrq_task_id = apr_task_id a, nrq_event = NE_ApprovalRequested,
     nrq_message = ''Approval '' @ apr_id a @ '' is required to '' @ apr_requested_action a @ ''. Risk: ''
       @ approval_risk_debug (apr_risk a) @ ''. Reason: '' @ apr_reason a
       @ ''. Approve with: coat human approve --goal-id '' @ apr_goal_id a @ '' --approval-id '' @ apr_id a @ '' --approved true'',
     nrq_policy = ep_notifications (tn_execution t) |)"

definition notify_blocked :: "network \<Rightarrow> agent_run_request \<Rightarrow> string list \<Rightarrow> notification_delivery_report list" where
  "notify_blocked net request diagnostics = send_notification net (|
     nrq_goal_id = arq_goal_id request, nrq_task_id = Some (tn_id (arq_task request)), nrq_event = NE_TaskBlocked,
     nrq_message = ''No runner is available for '' @ wk_as_str (tn_role (arq_task request)) @ '' task ''
       @ tn_id (arq_task request) @ ''. '' @ join ''; '' diagnostics,
     nrq_policy = ep_notifications (tn_execution (arq_task request)) |)"

section \<open>Running a task\<close>

definition or_else :: "'a option \<Rightarrow> 'a option \<Rightarrow> 'a option" where
  "or_else x y = (case x of Some v \<Rightarrow> Some v | None \<Rightarrow> y)"

definition completed_reply :: "runner_dispatch_decision \<Rightarrow> string list \<Rightarrow> agent_run_result \<Rightarrow> agent_run_result" where
  "completed_reply d diagnostics r = r (|
     res_runner_id := or_else (res_runner_id r) (rdd_runner_id d),
     res_model_used := or_else (res_model_used r) (rdd_model d),
     res_mcp_context_used := or_else (res_mcp_context_used r) (Some (rdd_mcp_context d)),
     res_diagnostics := res_diagnostics r @ diagnostics |)"

definition block_task ::
  "network \<Rightarrow> agent_run_request \<Rightarrow> runner_dispatch_decision option \<Rightarrow> string list \<Rightarrow> agent_run_result" where
  "block_task net request d diagnostics =
     blocked_result request (Option.bind d rdd_runner_id) (Option.bind d rdd_model) (map_option rdd_mcp_context d)
       diagnostics (notify_blocked net request diagnostics)"

definition run_distributed_task ::
  "network \<Rightarrow> bool \<Rightarrow> uuid \<Rightarrow> string \<Rightarrow> agent_run_request \<Rightarrow> agent_run_result" where
  "run_distributed_task net fallback new_id time request =
     (case dispatch_task net request of
        Inl e \<Rightarrow>
          if fallback
          then local_stub_result new_id time request [''runner registry unavailable; using local stub fallback: '' @ e]
          else block_task net request None [''runner registry unavailable: '' @ e]
      | Inr d \<Rightarrow>
          (let reasons = rdd_reasons d in
           case rdd_status d of
             RDS_Matched \<Rightarrow>
               (case rdd_runner_endpoint d of
                  None \<Rightarrow> block_task net request (Some d) (reasons @ [''dispatch matched without runner endpoint''])
                | Some endpoint \<Rightarrow>
                    (case call_runner net endpoint request of
                       RCO_Ok r \<Rightarrow> completed_reply d reasons r
                     | RCO_TimedOut n \<Rightarrow>
                         (let diagnostics = reasons @ [''matched runner invocation timed out after '' @ dec n @ ''s''] in
                          timeout_result request (rdd_runner_id d) (rdd_model d) (Some (rdd_mcp_context d)) n diagnostics
                            (notify_blocked net request diagnostics))
                     | RCO_Err e \<Rightarrow>
                         if fallback
                         then local_stub_result new_id time request
                                (reasons @ [''matched runner invocation failed; using local stub fallback: '' @ e])
                         else block_task net request (Some d) (reasons @ [''matched runner invocation failed: '' @ e])))
           | RDS_NoMatch \<Rightarrow>
               if fallback
               then local_stub_result new_id time request
                      (reasons @ [''no distributed runner matched; using local stub fallback''])
               else block_task net request (Some d) reasons))"

section \<open>Configuration\<close>

definition env_bool :: "(string \<Rightarrow> string option) \<Rightarrow> string \<Rightarrow> bool \<Rightarrow> bool" where
  "env_bool env name otherwise =
     (case env name of
        None \<Rightarrow> otherwise
      | Some v \<Rightarrow> (let l = to_ascii_lowercase v in
          if l \<in> {''1'', ''true'', ''yes'', ''on''} then True
          else if l \<in> {''0'', ''false'', ''no'', ''off''} then False
          else otherwise))"

definition configured_goal_store_url :: "string option \<Rightarrow> string option" where
  "configured_goal_store_url raw =
     (case map_option trim raw of
        Some v \<Rightarrow> if v = [] \<or> to_ascii_lowercase v \<in> {''disabled'', ''none''} then None else Some v
      | None \<Rightarrow> Some ''http://localhost:9088'')"

definition stub_fallback_allowed :: "(string \<Rightarrow> string option) \<Rightarrow> bool" where
  "stub_fallback_allowed env = env_bool env ''COAT_ALLOW_LOCAL_STUB_FALLBACK'' True"

section \<open>Where results come from\<close>

lemma or_else_simps [simp]: "or_else x None = x" "or_else (Some y) z = Some y"
  by (simp_all add: or_else_def split: option.split)

lemma run_cases:
  obtains (reply) d e r where "dispatch_task net q = Inr d" "rdd_status d = RDS_Matched" "rdd_runner_endpoint d = Some e"
      "call_runner net e q = RCO_Ok r" "run_distributed_task net fb i tm q = completed_reply d (rdd_reasons d) r"
    | (stub) ds where "fb" "run_distributed_task net fb i tm q = local_stub_result i tm q ds"
    | (blocked) d ds where "run_distributed_task net fb i tm q = block_task net q d ds"
    | (late) d :: runner_dispatch_decision and n ds reports where "run_distributed_task net fb i tm q =
        timeout_result q (rdd_runner_id d) (rdd_model d) (Some (rdd_mcp_context d)) n ds reports"
proof (cases "dispatch_task net q")
  case (Inl e)
  then show ?thesis using stub blocked by (cases fb) (simp_all add: run_distributed_task_def)
next
  case (Inr d)
  show ?thesis
  proof (cases "rdd_status d")
    case RDS_NoMatch
    then show ?thesis using Inr stub blocked by (cases fb) (simp_all add: run_distributed_task_def Let_def)
  next
    case RDS_Matched
    show ?thesis
    proof (cases "rdd_runner_endpoint d")
      case None
      then show ?thesis using Inr RDS_Matched blocked by (simp add: run_distributed_task_def Let_def)
    next
      case (Some e)
      note run = Inr RDS_Matched Some
      show ?thesis
      proof (cases "call_runner net e q")
        case (RCO_Ok r)
        then show ?thesis using run reply by (simp add: run_distributed_task_def Let_def)
      next
        case (RCO_TimedOut n)
        obtain ds reports where "run_distributed_task net fb i tm q =
            timeout_result q (rdd_runner_id d) (rdd_model d) (Some (rdd_mcp_context d)) n ds reports"
          by (simp add: run RCO_TimedOut run_distributed_task_def Let_def)
        then show ?thesis by (rule late)
      next
        case (RCO_Err x)
        then show ?thesis using run stub blocked by (cases fb) (simp_all add: run_distributed_task_def Let_def)
      qed
    qed
  qed
qed

lemma passed_iff: "vr_passed (from_result req) \<longleftrightarrow>
    res_status (vrq_result req) = WRS_Done \<and> contract_met (vrq_task req) (vrq_result req)"
proof (cases "unfinished_status (res_status (vrq_result req))")
  case (Some s)
  then show ?thesis
    by (cases "res_status (vrq_result req)") (simp_all add: from_result_def report_of_def Let_def)
next
  case None
  then have "res_status (vrq_result req) \<notin> {WRS_Waiting, WRS_Blocked}" by auto
  from missing_criteria_Nil [OF this, of "vrq_task req"] None show ?thesis
    by (simp add: from_result_def report_of_def Let_def split_def)
qed

lemma stub_is_marked: "result_has_stub_marker (local_stub_result i tm q ds)"
  by (simp add: result_has_stub_marker_def local_stub_result_def stub_done_def starts_with_def)

lemma stub_is_untruthful:
  assumes "task_requires_non_stub_execution (arq_task q)" and "\<And>g cs. tn_purpose (arq_task q) \<noteq> TP_BranchVote g cs"
  shows "\<not> truthful (arq_task q) (local_stub_result i tm q ds)"
proof -
  have "is_work_like (tn_purpose (arq_task q)) \<or> is_research (tn_purpose (arq_task q)) \<or>
      is_review (tn_purpose (arq_task q)) \<or> is_unification (tn_purpose (arq_task q))"
    using assms(2) by (cases "tn_purpose (arq_task q)") (simp_all, metis)
  then show ?thesis using assms(1) stub_is_marked by (auto simp: truthful_def)
qed

lemma stub_vote_passes:
  assumes "tn_purpose (arq_task q) = TP_BranchVote b (c # cs)" and "tn_role (arq_task q) \<noteq> WK_Tester"
    and "\<not> eg_enabled (ep_guardrails (tn_execution (arq_task q)))" and "\<not> rd_enabled (tn_review_doctrine (arq_task q))"
    and "\<not> result_has_replay_marker (local_stub_result i tm q ds)"
  shows "vr_passed (from_result (| vrq_goal_id = g, vrq_task = arq_task q, vrq_result = local_stub_result i tm q ds |)) \<and>
    (\<exists>v. res_branch_vote (local_stub_result i tm q ds) = Some v \<and> bvo_selected_task_id v = c)"
proof -
  let ?r = "local_stub_result i tm q ds"
  have r: "res_status ?r = WRS_Done" "res_child_requests ?r = []" "res_delayed_compute_thunks ?r = []"
    "res_artifacts ?r \<noteq> []" "res_branch_vote ?r = stub_branch_vote b (c # cs)"
    "\<exists>v. res_review ?r = Some v \<and> rv_findings v = []"
    using assms(1) by (simp_all add: local_stub_result_def stub_done_def review_for_task_def stub_review_def)
  have "contract_met (arq_task q) ?r"
    using assms r by (auto simp: contract_met_def delivers_def code_task_requires_checkpoint_def tested_def truthful_def
        researched_def voted_def guarded_def reviewed_def doctrine_applies_def stub_branch_vote_def Let_def)
  then show ?thesis using r by (simp add: passed_iff stub_branch_vote_def)
qed

section \<open>Properties\<close>

text \<open>
  C29: Accepted work comes from a runner.  When the validation accepts the result of a task run,
  the registry matched a runner and that runner replied that the work is Done; or the stub
  fallback is enabled, and then the task does not demand live execution, branch votes
  excepted.
\<close>
theorem accepted_work_comes_from_a_runner:
  assumes "vr_passed (from_result (| vrq_goal_id = g, vrq_task = arq_task q,
    vrq_result = run_distributed_task net fb i tm q |))"
  shows "(\<exists>d e r. dispatch_task net q = Inr d \<and> rdd_status d = RDS_Matched \<and> rdd_runner_endpoint d = Some e \<and>
      call_runner net e q = RCO_Ok r \<and> res_status r = WRS_Done) \<or>
    (fb \<and> (task_requires_non_stub_execution (arq_task q) \<longrightarrow> (\<exists>b cs. tn_purpose (arq_task q) = TP_BranchVote b cs)))"
proof -
  let ?r = "run_distributed_task net fb i tm q"
  have fin: "res_status ?r = WRS_Done" and met: "contract_met (arq_task q) ?r"
    using assms by (simp_all add: passed_iff)
  show ?thesis
  proof (rule run_cases [of net q fb i tm])
    fix d e r assume "dispatch_task net q = Inr d" "rdd_status d = RDS_Matched" "rdd_runner_endpoint d = Some e"
      "call_runner net e q = RCO_Ok r" "?r = completed_reply d (rdd_reasons d) r"
    then show ?thesis using fin by (simp add: completed_reply_def)
  next
    fix ds assume "fb" "?r = local_stub_result i tm q ds"
    then show ?thesis using met stub_is_untruthful [of q i tm ds] by (auto simp: contract_met_def)
  next
    fix d ds assume "?r = block_task net q d ds"
    then show ?thesis using fin by (simp add: block_task_def blocked_result_def empty_result_def)
  next
    fix d :: runner_dispatch_decision and n ds reports assume "?r = timeout_result q (rdd_runner_id d) (rdd_model d) (Some (rdd_mcp_context d)) n ds reports"
    then show ?thesis using fin by (simp add: timeout_result_def empty_result_def)
  qed
qed

text \<open>
  Stub votes pass.  A branch-vote task that no runner takes gets a stub vote for the first
  candidate, and the validation accepts it even when the task demands live execution: the
  check for stub output does not cover branch votes.
\<close>
theorem stub_votes_pass:
  assumes "tn_purpose (arq_task q) = TP_BranchVote b (c # cs)" and "tn_role (arq_task q) \<noteq> WK_Tester"
    and "\<not> eg_enabled (ep_guardrails (tn_execution (arq_task q)))" and "\<not> rd_enabled (tn_review_doctrine (arq_task q))"
    and "\<not> result_has_replay_marker (local_stub_result i tm q ds)"
  shows "vr_passed (from_result (| vrq_goal_id = g, vrq_task = arq_task q, vrq_result = local_stub_result i tm q ds |)) \<and>
    (\<exists>v. res_branch_vote (local_stub_result i tm q ds) = Some v \<and> bvo_selected_task_id v = c)"
  by (rule stub_vote_passes [OF assms])

text \<open>A planner of one runner, reached over a network that answers every call.\<close>

definition sample_run_request :: "task_node \<Rightarrow> agent_run_request" where
  "sample_run_request t = (| arq_goal_id = ''g'', arq_task = t, arq_context_artifacts = [],
     arq_coordinator_trace_id = None, arq_timeout_seconds = None |)"

definition sample_voter :: task_node where
  "sample_voter = (sample_task ''a'' TS_Runnable)
     (| tn_purpose := TP_BranchVote ''b'' [''c''], tn_review_doctrine := (tn_review_doctrine (sample_task ''a'' TS_Runnable)) (| rd_enabled := False |),
        tn_execution := (tn_execution (sample_task ''a'' TS_Runnable))
          (| ep_guardrails := (ep_guardrails (tn_execution (sample_task ''a'' TS_Runnable))) (| eg_enabled := False |) |) |)"

definition sample_network :: network where
  "sample_network = (|
     rn_dispatch = (\<lambda>_. Inr (| rdd_status = RDS_Matched, rdd_runner_id = Some ''r'', rdd_runner_endpoint = Some ''http'',
       rdd_model = None, rdd_mcp_context = mcp_context_ref_default, rdd_candidates = [], rdd_rejections = [], rdd_reasons = [] |)),
     rn_post = (\<lambda>_ q. Some (Inr (local_stub_result ''i'' ''0'' q []))), rn_notify = (\<lambda>_. Inl ''down''),
     rn_node_id = None |)"

lemma sample_voter_simps [simp]:
  "tn_purpose sample_voter = TP_BranchVote ''b'' [''c'']" "tn_role sample_voter = WK_Planner"
  "\<not> eg_enabled (ep_guardrails (tn_execution sample_voter))" "\<not> rd_enabled (tn_review_doctrine sample_voter)"
  "tn_id sample_voter = ''a''" "tn_goal_id sample_voter = ''g''" "tn_done_criteria sample_voter = done_criteria_default"
  by (simp_all add: sample_voter_def sample_task_def root_of_def with_role_def sample_goal_def)

lemma set_strip: "set (strip w s) \<subseteq> set s"
proof (induction w s rule: strip.induct)
  case (1 w s)
  then show ?case using set_drop_subset [of "w s" s] by (subst strip.simps) auto
qed

lemma set_trim: "set (trim s) \<subseteq> set s"
  using set_strip [of ws_back "rev (trim_start s)"] set_strip [of ws_front s]
  by (simp add: trim_def trim_end_def trim_start_def)

lemma replay_letters: "is_replayish_text s \<Longrightarrow> {CHR ''p'', CHR ''y''} \<subseteq> lower_char ` set s"
proof -
  assume r: "is_replayish_text s"
  let ?n = "to_ascii_lowercase (trim s)"
  have sub: "contains n p \<Longrightarrow> set p \<subseteq> set n" for n p by (auto simp: contains_iff)
  have "{CHR ''p'', CHR ''y''} \<subseteq> set ?n"
    using r by (auto simp: is_replayish_text_def Let_def dest: sub)
  also have "set ?n \<subseteq> lower_char ` set s"
    using set_trim by (simp add: to_ascii_lowercase_def image_mono)
  finally show ?thesis .
qed

lemma not_replayish: "CHR ''p'' \<notin> lower_char ` set s \<or> CHR ''y'' \<notin> lower_char ` set s \<Longrightarrow> \<not> is_replayish_text s"
  using replay_letters by auto

lemma sample_texts:
  "\<not> is_replayish_text ''local-stub-fallback''" "\<not> is_replayish_text ''stub planner worker completed task a''"
  "\<not> is_replayish_text ''stub worker result''" "\<not> is_replayish_text ''memory://task/a''"
  "\<not> is_replayish_text ''stub-result''" "\<not> is_replayish_text ''stub worker result checkpoint''"
  by (rule not_replayish, simp add: lower_char_def byte_def)+

lemma sample_vote_is_no_replay: "\<not> result_has_replay_marker (local_stub_result ''i'' ''0'' (sample_run_request sample_voter) [])"
  by (simp add: result_has_replay_marker_def local_stub_result_def stub_done_def sample_run_request_def
      metadata_for_task_def sample_texts)

theorem stub_votes_pass_witness:
  "vr_passed (from_result (| vrq_goal_id = ''g'', vrq_task = sample_voter,
     vrq_result = local_stub_result ''i'' ''0'' (sample_run_request sample_voter) [] |))"
  using stub_votes_pass [of "sample_run_request sample_voter" "''b''" "''c''" "[]" "''i''" "''0''" "[]" "''g''"]
    sample_vote_is_no_replay
  by (simp add: sample_run_request_def)

text \<open>The runner of the sample network answers like the stub.\<close>

lemma sample_run:
  "run_distributed_task sample_network False ''n'' ''1'' (sample_run_request sample_voter) =
     local_stub_result ''i'' ''0'' (sample_run_request sample_voter) []"
  by (simp add: run_distributed_task_def dispatch_task_def call_runner_def sample_network_def completed_reply_def
      local_stub_result_def stub_done_def)

theorem accepted_work_comes_from_a_runner_witness:
  "\<exists>d e r. dispatch_task sample_network (sample_run_request sample_voter) = Inr d \<and> rdd_status d = RDS_Matched \<and>
      rdd_runner_endpoint d = Some e \<and> call_runner sample_network e (sample_run_request sample_voter) = RCO_Ok r \<and>
      res_status r = WRS_Done"
  using accepted_work_comes_from_a_runner [of "''g''" "sample_run_request sample_voter" sample_network False "''n''" "''1''"]
    stub_vote_passes [of "sample_run_request sample_voter" "''b''" "''c''" "[]" "''i''" "''0''" "[]" "''g''"]
    sample_vote_is_no_replay
  by (simp add: sample_run) (simp add: sample_run_request_def)

end
