(* ===== verification/Journal_File.thy ===== *)
theory Journal_File
  imports Prelude
begin

text \<open>
  A journal file to which the goal store and the notifier append lines (\<open>append_journal\<close> in
  \<open>crates/goal-store/src/main.rs\<close>, \<open>append_journal_path\<close> in \<open>crates/notifier/src/main.rs\<close>): an entry is
  written in two steps, the line and then its newline, and may break off before, inside and between them.

  A line is an entry, blank, or text that does not decode.  The last line may lack its newline; what is
  appended then continues it, and the two do not parse as one value.
\<close>

datatype (plugins only: code size) 'e file_line =
    FL_Entry 'e
  | FL_Blank
  | FL_Invalid

record 'e journal_file =
  jf_lines :: "'e file_line list"
  jf_unfinished :: bool

definition new_journal_file :: "'e journal_file" where
  "new_journal_file = (| jf_lines = [], jf_unfinished = False |)"

text \<open>How far an append gets: to its end, nowhere, into the line, or to the end of the line.\<close>

datatype (plugins only: code size) append_outcome =
    AO_Written
  | AO_Nothing
  | AO_Partial
  | AO_No_Newline

definition add_line :: "'e file_line \<Rightarrow> bool \<Rightarrow> 'e journal_file \<Rightarrow> 'e journal_file" where
  "add_line l unfinished f = (|
     jf_lines = (if jf_unfinished f then butlast (jf_lines f) @ [FL_Invalid] else jf_lines f @ [l]),
     jf_unfinished = unfinished |)"

definition append_entry :: "append_outcome \<Rightarrow> 'e \<Rightarrow> 'e journal_file \<Rightarrow> 'e journal_file" where
  "append_entry outcome e f =
     (case outcome of
        AO_Written \<Rightarrow> add_line (FL_Entry e) False f
      | AO_Nothing \<Rightarrow> f
      | AO_Partial \<Rightarrow> add_line FL_Invalid True f
      | AO_No_Newline \<Rightarrow> add_line (FL_Entry e) True f)"

lemma append_written: "\<not> jf_unfinished f \<Longrightarrow>
    append_entry AO_Written e f = (| jf_lines = jf_lines f @ [FL_Entry e], jf_unfinished = False |)"
  by (simp add: append_entry_def add_line_def)

lemma append_nothing [simp]: "append_entry AO_Nothing e f = f"
  by (simp add: append_entry_def)

lemma append_entry_lines:
  "FL_Entry x \<in> set (jf_lines (append_entry outcome e f)) \<Longrightarrow> x = e \<or> FL_Entry x \<in> set (jf_lines f)"
  by (auto simp: append_entry_def add_line_def dest: in_set_butlastD split: append_outcome.splits if_splits)

text \<open>A line that does not decode stays in the file, whatever is appended behind it.\<close>

lemma append_keeps_invalid: "FL_Invalid \<in> set (jf_lines f) \<Longrightarrow> FL_Invalid \<in> set (jf_lines (append_entry outcome e f))"
  by (auto simp: append_entry_def add_line_def split: append_outcome.splits)

end
