(* ===== verification/Notifier.thy ===== *)
theory Notifier
  imports Distributed Journal_File
begin

text \<open>
  The notifier service (\<open>crates/notifier/src/main.rs\<close>): feedback threads, and an outbox whose
  entries are delivered, retried, acknowledged or dead-lettered, both kept in memory and in a
  journal that is replayed at the start.

  A handler is an operation on \<open>notifier\<close>: the store, the journal and the configuration, with
  tapes of identifiers, clock readings and outgoing calls.  What lies outside (environment
  variables, secret files, HTTP and SQS replies, the mail directory, the outcome of a journal
  append) is the record \<open>outside\<close>; the answer to the n-th call may be any.  An append may get as far as
  it likes into the file, whether it then reports an error or not: the last of its two writes is
  not flushed, so that its failure may go unnoticed.
\<close>

section \<open>Data\<close>

datatype (plugins only: code size) outbox_status =
    OS_Pending
  | OS_Delivered
  | OS_AwaitingAck
  | OS_Acknowledged
  | OS_RetryScheduled
  | OS_DeadLettered

record outbox_entry =
  oe_id :: uuid
  oe_thread_key :: string
  oe_request :: notification_request
  oe_target :: notification_target
  oe_status :: outbox_status
  oe_attempts :: nat
  oe_max_attempts :: nat
  oe_last_attempt_at :: "nat option"
  oe_next_attempt_after :: "nat option"
  oe_external_ref :: "string option"
  oe_last_error :: "string option"
  oe_delivered_at :: "nat option"
  oe_acknowledged_at :: "nat option"
  oe_acknowledged_by :: "string option"
  oe_ack_note :: "string option"
  oe_dead_lettered_at :: "nat option"
  oe_reports :: "notification_delivery_report list"

record thread_entry =
  te_id :: uuid
  te_thread_key :: string
  te_request :: notification_request
  te_reports :: "notification_delivery_report list"

record thread_summary =
  tsm_thread_key :: string
  tsm_count :: nat
  tsm_latest_event :: "notification_event option"

record queue_entry =
  qe_id :: uuid
  qe_thread_key :: string
  qe_event :: notification_event
  qe_goal_id :: uuid
  qe_task_id :: "uuid option"
  qe_message :: string
  qe_require_ack :: bool
  qe_targets :: "notification_target list"
  qe_status :: outbox_status
  qe_attempts :: nat
  qe_max_attempts :: nat
  qe_next_attempt_after :: "nat option"
  qe_external_ref :: "string option"
  qe_last_error :: "string option"
  qe_delivered_at :: "nat option"
  qe_acknowledged_at :: "nat option"
  qe_acknowledged_by :: "string option"
  qe_ack_note :: "string option"
  qe_dead_lettered_at :: "nat option"

record ack_request =
  ack_by :: "string option"
  ack_text :: "string option"

datatype (plugins only: code size) notifier_journal_entry =
    NJ_Thread thread_entry
  | NJ_Outbox outbox_entry

type_synonym notifier_journal = "notifier_journal_entry journal_file"

datatype (plugins only: code size) notifier_error =
    NErr_NotFound string
  | NErr_BadRequest string
  | NErr_Internal string

record notification_store =
  nst_threads :: "(string, thread_entry list) btree"
  nst_outbox :: "(uuid, outbox_entry) btree"

section \<open>Outgoing calls\<close>

record pager_duty_event =
  pde_routing_key :: string
  pde_event_action :: string
  pde_dedup_key :: string
  pde_summary :: string
  pde_source :: string
  pde_severity :: string
  pde_custom_details :: notification_request

record tracker_payload =
  tpl_provider :: notification_target_kind
  tpl_goal_id :: uuid
  tpl_task_id :: "uuid option"
  tpl_event :: notification_event
  tpl_message :: string
  tpl_require_ack :: bool

datatype (plugins only: code size) http_body =
    HB_Notification notification_request
  | HB_Slack string
  | HB_PagerDuty pager_duty_event
  | HB_Tracker tracker_payload

record http_request =
  hq_url :: string
  hq_bearer :: "string option"
  hq_body :: http_body

record queue_envelope =
  qn_provider :: notification_target_kind
  qn_id :: uuid
  qn_goal_id :: uuid
  qn_task_id :: "uuid option"
  qn_event :: notification_event
  qn_message :: string
  qn_require_ack :: bool
  qn_target_address :: string
  qn_created_at :: nat
  qn_request :: notification_request

record sqs_message =
  sm_queue_url :: string
  sm_body :: queue_envelope
  sm_group :: "(string \<times> uuid) option"

record email_message =
  em_to :: string
  em_subject :: string
  em_text :: string
  em_request :: notification_request

text \<open>
  An HTTP reply is the text of a transport error, or the status as it is displayed and whether
  it is a success; an SQS reply an error or the message identifier; a mail that was written has
  the path it was written to; an append to the journal gets somewhere and has an error or not.
\<close>

record outside =
  out_env :: "string \<Rightarrow> string option"
  out_file :: "nat \<Rightarrow> string \<Rightarrow> string + string"
  out_http :: "nat \<Rightarrow> http_request \<Rightarrow> string + (string \<times> bool)"
  out_sqs :: "nat \<Rightarrow> sqs_message \<Rightarrow> string + string option"
  out_mail :: "nat \<Rightarrow> string \<Rightarrow> uuid \<Rightarrow> email_message \<Rightarrow> string + string"
  out_append :: "nat \<Rightarrow> append_outcome \<times> string option"

record notifier =
  nf_store :: notification_store
  nf_journal :: "notifier_journal option"
  nf_max_attempts :: nat
  nf_retry_backoff :: nat
  nf_uuids :: "nat \<Rightarrow> uuid"
  nf_drawn :: nat
  nf_clock :: "nat \<Rightarrow> nat"
  nf_reads :: nat
  nf_calls :: nat
  nf_outside :: outside

type_synonym 'a nop = "(notifier, notifier_error, 'a) op"

definition draw_uuid :: "uuid nop" where
  "draw_uuid = draw (\<lambda>s. (nf_uuids s (nf_drawn s), s (| nf_drawn := Suc (nf_drawn s) |)))"

definition unix_seconds :: "nat nop" where
  "unix_seconds = draw (\<lambda>s. (nf_clock s (nf_reads s), s (| nf_reads := Suc (nf_reads s) |)))"

definition call_out :: "(outside \<Rightarrow> nat \<Rightarrow> 'a) \<Rightarrow> 'a nop" where
  "call_out f = draw (\<lambda>s. (f (nf_outside s) (nf_calls s), s (| nf_calls := Suc (nf_calls s) |)))"

definition post_http :: "http_request \<Rightarrow> (string + (string \<times> bool)) nop" where
  "post_http q = call_out (\<lambda>out n. out_http out n q)"

section \<open>Delivery to a target\<close>

fun secret_provider_debug :: "secret_provider \<Rightarrow> string" where
  "secret_provider_debug SP_Env = ''Env''"
| "secret_provider_debug SP_KubernetesSecret = ''KubernetesSecret''"
| "secret_provider_debug SP_Vault = ''Vault''"
| "secret_provider_debug SP_AwsSecretsManager = ''AwsSecretsManager''"
| "secret_provider_debug SP_GcpSecretManager = ''GcpSecretManager''"
| "secret_provider_debug SP_AzureKeyVault = ''AzureKeyVault''"
| "secret_provider_debug SP_OnePassword = ''OnePassword''"
| "secret_provider_debug SP_Bitwarden = ''Bitwarden''"
| "secret_provider_debug SP_Doppler = ''Doppler''"
| "secret_provider_debug SP_Sops = ''Sops''"
| "secret_provider_debug SP_ExternalBroker = ''ExternalBroker''"
| "secret_provider_debug SP_LocalFile = ''LocalFile''"

fun notification_event_debug :: "notification_event \<Rightarrow> string" where
  "notification_event_debug NE_HumanFeedbackRequested = ''HumanFeedbackRequested''"
| "notification_event_debug NE_ApprovalRequested = ''ApprovalRequested''"
| "notification_event_debug NE_TaskBlocked = ''TaskBlocked''"
| "notification_event_debug NE_TaskFailed = ''TaskFailed''"
| "notification_event_debug NE_GoalCompleted = ''GoalCompleted''"
| "notification_event_debug NE_BudgetWarning = ''BudgetWarning''"
| "notification_event_debug NE_RunnerLost = ''RunnerLost''"

definition option_debug :: "string option \<Rightarrow> string" where
  "option_debug x = (case x of None \<Rightarrow> ''None'' | Some v \<Rightarrow> ''Some('' @ v @ '')'')"

definition ends_with :: "string \<Rightarrow> string \<Rightarrow> bool" where
  "ends_with s p \<longleftrightarrow> starts_with (rev s) (rev p)"

definition delivered_to :: "notification_target \<Rightarrow> string \<Rightarrow> notification_delivery_report" where
  "delivered_to t ref = (| ndr_target = Some t, ndr_delivered = True, ndr_external_ref = Some ref, ndr_error = None |)"

definition undelivered :: "notification_target \<Rightarrow> string \<Rightarrow> notification_delivery_report" where
  "undelivered t e = (| ndr_target = Some t, ndr_delivered = False, ndr_external_ref = None, ndr_error = Some e |)"

text \<open>The report of an HTTP reply; \<open>scheme\<close> and \<open>what\<close> come before the status.\<close>

definition http_report ::
  "notification_target \<Rightarrow> string \<Rightarrow> string \<Rightarrow> string + (string \<times> bool) \<Rightarrow> notification_delivery_report" where
  "http_report t scheme what reply =
     (case reply of
        Inl e \<Rightarrow> undelivered t e
      | Inr (status, success) \<Rightarrow>
          (| ndr_target = Some t, ndr_delivered = success, ndr_external_ref = Some (scheme @ status),
             ndr_error = (if success then None else Some (what @ status)) |))"

definition resolve_secret :: "secret_ref \<Rightarrow> (string + string) nop" where
  "resolve_secret r =
     (if sr_provider r = SP_Env
      then call_out (\<lambda>out n. case out_env out (case sr_key r of Some k \<Rightarrow> k | None \<Rightarrow> sr_name r) of
          Some v \<Rightarrow> Inr v
        | None \<Rightarrow> Inl ''notification secret env var is not available'')
      else if sr_provider r = SP_LocalFile
      then call_out (\<lambda>out n. case out_file out n (sr_name r) of
          Inr v \<Rightarrow> Inr (trim v)
        | Inl e \<Rightarrow> Inl (''read notification secret file: '' @ e))
      else ok (Inl (''secret provider '' @ secret_provider_debug (sr_provider r)
        @ '' must be resolved by production secret middleware'')))"

text \<open>The rest of a delivery runs with the secret, if the target has one.\<close>

definition with_bearer ::
  "notification_target \<Rightarrow> (string option \<Rightarrow> notification_delivery_report nop) \<Rightarrow> notification_delivery_report nop" where
  "with_bearer t f =
     (case nt_secret_ref t of
        None \<Rightarrow> f None
      | Some r \<Rightarrow> bindR (resolve_secret r) (\<lambda>x. case x of Inl e \<Rightarrow> ok (undelivered t e) | Inr secret \<Rightarrow> f (Some secret)))"

definition deliver_webhook ::
  "notification_request \<Rightarrow> notification_target \<Rightarrow> notification_delivery_report nop" where
  "deliver_webhook q t = with_bearer t (\<lambda>bearer.
     bindR (post_http (| hq_url = nt_address t, hq_bearer = bearer, hq_body = HB_Notification q |)) (\<lambda>reply.
     ok (http_report t ''webhook://status/'' ''webhook returned status '' reply)))"

definition slack_text :: "notification_request \<Rightarrow> string" where
  "slack_text q = ''[COAT '' @ notification_event_debug (nrq_event q) @ ''] goal='' @ nrq_goal_id q @ '' task=''
     @ option_debug (nrq_task_id q) @ '': '' @ nrq_message q"

definition deliver_slack ::
  "notification_request \<Rightarrow> notification_target \<Rightarrow> notification_delivery_report nop" where
  "deliver_slack q t =
     bindR (if starts_with (nt_address t) ''http://'' \<or> starts_with (nt_address t) ''https://''
            then ok (Inr (nt_address t))
            else case nt_secret_ref t of
              Some r \<Rightarrow> resolve_secret r
            | None \<Rightarrow> ok (Inl ''slack target requires an incoming webhook URL or a secret ref containing one''))
       (\<lambda>x. case x of
          Inl e \<Rightarrow> ok (undelivered t e)
        | Inr url \<Rightarrow> bindR (post_http (| hq_url = url, hq_bearer = None, hq_body = HB_Slack (slack_text q) |)) (\<lambda>reply.
            ok (http_report t ''slack://incoming-webhook/status/'' ''slack webhook returned status '' reply)))"

definition deliver_email ::
  "notification_request \<Rightarrow> notification_target \<Rightarrow> notification_delivery_report nop" where
  "deliver_email q t =
     bindR draw_uuid (\<lambda>outbox_id.
     bindR (call_out (\<lambda>out n. case out_env out ''COAT_EMAIL_OUTBOX_DIR'' of
         None \<Rightarrow> Inr (''memory/'' @ outbox_id)
       | Some dir \<Rightarrow> out_mail out n dir outbox_id (| em_to = nt_address t,
           em_subject = ''COAT '' @ notification_event_debug (nrq_event q) @ '': '' @ nrq_goal_id q,
           em_text = nrq_message q, em_request = q |))) (\<lambda>x.
     case x of
       Inl e \<Rightarrow> ok (undelivered t e)
     | Inr path \<Rightarrow> ok (delivered_to t (''email-outbox://'' @ path))))"

definition queue_envelope_of ::
  "uuid \<Rightarrow> nat \<Rightarrow> notification_request \<Rightarrow> notification_target \<Rightarrow> queue_envelope" where
  "queue_envelope_of i at q t = (| qn_provider = nt_kind t, qn_id = i, qn_goal_id = nrq_goal_id q,
     qn_task_id = nrq_task_id q, qn_event = nrq_event q, qn_message = nrq_message q,
     qn_require_ack = nt_require_ack t, qn_target_address = nt_address t, qn_created_at = at, qn_request = q |)"

definition sqs_queue_url :: "notification_target \<Rightarrow> (string + string) nop" where
  "sqs_queue_url t =
     (if \<not> blank (nt_address t) then ok (Inr (nt_address t))
      else case nt_secret_ref t of
        Some r \<Rightarrow> resolve_secret r
      | None \<Rightarrow> ok (Inl ''sqs target requires queue URL in address or secret_ref''))"

definition sqs_message_group_id :: "(string \<Rightarrow> string option) \<Rightarrow> string \<Rightarrow> string option" where
  "sqs_message_group_id env url =
     (if \<not> ends_with url ''.fifo'' then None
      else case env ''COAT_SQS_MESSAGE_GROUP_ID'' of
        Some v \<Rightarrow> if blank v then Some ''coat-notifications'' else Some v
      | None \<Rightarrow> Some ''coat-notifications'')"

definition deliver_sqs ::
  "notification_request \<Rightarrow> notification_target \<Rightarrow> notification_delivery_report nop" where
  "deliver_sqs q t =
     bindR (sqs_queue_url t) (\<lambda>x. case x of
       Inl e \<Rightarrow> ok (undelivered t e)
     | Inr url \<Rightarrow>
         bindR draw_uuid (\<lambda>i.
         bindR unix_seconds (\<lambda>at.
         bindR (call_out (\<lambda>out n. out_sqs out n (| sm_queue_url = url, sm_body = queue_envelope_of i at q t,
             sm_group = map_option (\<lambda>g. (g, i)) (sqs_message_group_id (out_env out) url) |))) (\<lambda>y.
         case y of
           Inl e \<Rightarrow> ok (undelivered t (''send SQS notification: '' @ e))
         | Inr m \<Rightarrow> ok (delivered_to t (''sqs://message/'' @ (case m of Some v \<Rightarrow> v | None \<Rightarrow> ''unknown'')))))))"

fun pagerduty_severity :: "notification_event \<Rightarrow> string" where
  "pagerduty_severity NE_TaskFailed = ''error''"
| "pagerduty_severity NE_RunnerLost = ''error''"
| "pagerduty_severity NE_TaskBlocked = ''warning''"
| "pagerduty_severity NE_BudgetWarning = ''warning''"
| "pagerduty_severity _ = ''info''"

definition pagerduty_event :: "string \<Rightarrow> notification_request \<Rightarrow> notification_target \<Rightarrow> pager_duty_event" where
  "pagerduty_event key q t = (| pde_routing_key = key, pde_event_action = ''trigger'',
     pde_dedup_key = ''coat-'' @ nrq_goal_id q @ ''-'' @ (case nrq_task_id q of Some i \<Rightarrow> i | None \<Rightarrow> ''goal'') @ ''-''
       @ notification_event_debug (nrq_event q),
     pde_summary = nrq_message q, pde_source = (if blank (nt_address t) then ''coat-notifier'' else nt_address t),
     pde_severity = pagerduty_severity (nrq_event q), pde_custom_details = q |)"

definition deliver_pagerduty ::
  "notification_request \<Rightarrow> notification_target \<Rightarrow> notification_delivery_report nop" where
  "deliver_pagerduty q t =
     (case nt_secret_ref t of
        None \<Rightarrow> ok (undelivered t ''pagerduty target requires a SecretRef routing key'')
      | Some r \<Rightarrow> bindR (resolve_secret r) (\<lambda>x. case x of
            Inl e \<Rightarrow> ok (undelivered t e)
          | Inr key \<Rightarrow>
              bindR (post_http (| hq_url = ''https://events.pagerduty.com/v2/enqueue'', hq_bearer = None,
                hq_body = HB_PagerDuty (pagerduty_event key q t) |)) (\<lambda>reply.
              ok (http_report t ''pagerduty://events-v2/status/'' ''pagerduty returned status '' reply))))"

definition deliver_tracker ::
  "notification_request \<Rightarrow> notification_target \<Rightarrow> notification_delivery_report nop" where
  "deliver_tracker q t =
     (if blank (nt_address t) then ok (undelivered t ''tracker target requires an HTTP endpoint address'')
      else with_bearer t (\<lambda>bearer.
        bindR (post_http (| hq_url = nt_address t, hq_bearer = bearer,
          hq_body = HB_Tracker (| tpl_provider = nt_kind t, tpl_goal_id = nrq_goal_id q, tpl_task_id = nrq_task_id q,
            tpl_event = nrq_event q, tpl_message = nrq_message q, tpl_require_ack = nt_require_ack t |) |)) (\<lambda>reply.
        ok (http_report t ''tracker://status/'' ''tracker endpoint returned status '' reply))))"

definition deliver_target ::
  "notification_request \<Rightarrow> string \<Rightarrow> notification_target \<Rightarrow> notification_delivery_report nop" where
  "deliver_target q thread_key t =
     (case nt_kind t of
        NTK_Thread \<Rightarrow> bindR draw_uuid (\<lambda>i. ok (delivered_to t (''thread://'' @ thread_key @ ''/'' @ i)))
      | NTK_Dashboard \<Rightarrow> bindR draw_uuid (\<lambda>i. ok (delivered_to t (''dashboard://queue/'' @ thread_key @ ''/'' @ i)))
      | NTK_Webhook \<Rightarrow> deliver_webhook q t
      | NTK_Slack \<Rightarrow> deliver_slack q t
      | NTK_Email \<Rightarrow> deliver_email q t
      | NTK_Sqs \<Rightarrow> deliver_sqs q t
      | NTK_PagerDuty \<Rightarrow> deliver_pagerduty q t
      | NTK_GitHub \<Rightarrow> deliver_tracker q t
      | NTK_Linear \<Rightarrow> deliver_tracker q t
      | NTK_Jira \<Rightarrow> deliver_tracker q t
      | _ \<Rightarrow> ok (undelivered t ''target kind requires a provider-specific notifier adapter''))"

section \<open>Entries of the outbox\<close>

definition u64_sat_add :: "nat \<Rightarrow> nat \<Rightarrow> nat" where
  "u64_sat_add a b = min (a + b) (2 ^ 64 - 1)"

definition new_outbox_entry ::
  "uuid \<Rightarrow> string \<Rightarrow> notification_request \<Rightarrow> notification_target \<Rightarrow> nat \<Rightarrow> outbox_entry" where
  "new_outbox_entry i thread_key q t max_attempts = (|
     oe_id = i, oe_thread_key = thread_key, oe_request = q, oe_target = t, oe_status = OS_Pending, oe_attempts = 0,
     oe_max_attempts = max max_attempts 1, oe_last_attempt_at = None, oe_next_attempt_after = None,
     oe_external_ref = None, oe_last_error = None, oe_delivered_at = None, oe_acknowledged_at = None,
     oe_acknowledged_by = None, oe_ack_note = None, oe_dead_lettered_at = None, oe_reports = [] |)"

definition visible_in_operator_queue :: "outbox_entry \<Rightarrow> bool" where
  "visible_in_operator_queue e \<longleftrightarrow> oe_status e \<noteq> OS_Acknowledged \<and>
     (oe_status e \<in> {OS_RetryScheduled, OS_DeadLettered} \<or> nt_require_ack (oe_target e) \<or>
      nt_kind (oe_target e) \<in> {NTK_Thread, NTK_Dashboard, NTK_Email})"

definition queue_entry_of :: "outbox_entry \<Rightarrow> queue_entry" where
  "queue_entry_of e = (|
     qe_id = oe_id e, qe_thread_key = oe_thread_key e, qe_event = nrq_event (oe_request e),
     qe_goal_id = nrq_goal_id (oe_request e), qe_task_id = nrq_task_id (oe_request e),
     qe_message = nrq_message (oe_request e), qe_require_ack = nt_require_ack (oe_target e),
     qe_targets = [oe_target e], qe_status = oe_status e, qe_attempts = oe_attempts e,
     qe_max_attempts = oe_max_attempts e, qe_next_attempt_after = oe_next_attempt_after e,
     qe_external_ref = oe_external_ref e, qe_last_error = oe_last_error e, qe_delivered_at = oe_delivered_at e,
     qe_acknowledged_at = oe_acknowledged_at e, qe_acknowledged_by = oe_acknowledged_by e,
     qe_ack_note = oe_ack_note e, qe_dead_lettered_at = oe_dead_lettered_at e |)"

definition retryable :: "outbox_status \<Rightarrow> bool" where
  "retryable st \<longleftrightarrow> st \<in> {OS_Pending, OS_RetryScheduled, OS_DeadLettered}"

fun outbox_status_debug :: "outbox_status \<Rightarrow> string" where
  "outbox_status_debug OS_Pending = ''Pending''"
| "outbox_status_debug OS_Delivered = ''Delivered''"
| "outbox_status_debug OS_AwaitingAck = ''AwaitingAck''"
| "outbox_status_debug OS_Acknowledged = ''Acknowledged''"
| "outbox_status_debug OS_RetryScheduled = ''RetryScheduled''"
| "outbox_status_debug OS_DeadLettered = ''DeadLettered''"

definition apply_delivery_report ::
  "notification_delivery_report \<Rightarrow> nat \<Rightarrow> nat \<Rightarrow> outbox_entry \<Rightarrow> outbox_entry" where
  "apply_delivery_report r backoff at e =
     (let e' = (if ndr_delivered r
        then e (| oe_status := (if nt_require_ack (oe_target e) then OS_AwaitingAck else OS_Delivered),
          oe_external_ref := ndr_external_ref r, oe_last_error := None, oe_next_attempt_after := None,
          oe_delivered_at := Some at, oe_dead_lettered_at := None |)
        else let e'' = e (| oe_external_ref := ndr_external_ref r,
               oe_last_error := or_else (ndr_error r) (Some ''notification delivery failed''),
               oe_delivered_at := None |)
             in if oe_attempts e'' \<ge> oe_max_attempts e''
                then e'' (| oe_status := OS_DeadLettered, oe_next_attempt_after := None, oe_dead_lettered_at := Some at |)
                else e'' (| oe_status := OS_RetryScheduled, oe_next_attempt_after := Some (u64_sat_add at backoff),
                  oe_dead_lettered_at := None |))
      in e' (| oe_reports := oe_reports e' @ [r] |))"

definition acknowledge_outbox_entry :: "ack_request \<Rightarrow> nat \<Rightarrow> outbox_entry \<Rightarrow> notifier_error + outbox_entry" where
  "acknowledge_outbox_entry q at e =
     (if oe_status e = OS_DeadLettered
      then Inl (NErr_BadRequest (''notification outbox entry '' @ oe_id e @ '' is dead-lettered and cannot be acknowledged''))
      else if oe_status e \<in> {OS_Pending, OS_RetryScheduled}
      then Inl (NErr_BadRequest (''notification outbox entry '' @ oe_id e @ '' has not been delivered and cannot be acknowledged''))
      else let ref = Some (''ack://notification/'' @ oe_id e) in
        Inr (e (| oe_status := OS_Acknowledged, oe_acknowledged_at := Some at, oe_acknowledged_by := ack_by q,
          oe_ack_note := ack_text q, oe_next_attempt_after := None, oe_external_ref := ref, oe_last_error := None,
          oe_reports := oe_reports e @ [(| ndr_target = Some (oe_target e), ndr_delivered = True,
            ndr_external_ref = ref, ndr_error = None |)] |)))"

section \<open>The store and its journal\<close>

definition put_outbox :: "uuid \<Rightarrow> outbox_entry \<Rightarrow> notification_store \<Rightarrow> notification_store" where
  "put_outbox i e st = st (| nst_outbox := bt_insert i e (nst_outbox st) |)"

definition push_thread :: "string \<Rightarrow> thread_entry \<Rightarrow> notification_store \<Rightarrow> notification_store" where
  "push_thread key e st = st (| nst_threads :=
     bt_insert key ((case bt_get (nst_threads st) key of Some es \<Rightarrow> es | None \<Rightarrow> []) @ [e]) (nst_threads st) |)"

fun apply_notifier_entry :: "notifier_journal_entry \<Rightarrow> notification_store \<Rightarrow> notification_store" where
  "apply_notifier_entry (NJ_Thread e) st = push_thread (te_thread_key e) e st"
| "apply_notifier_entry (NJ_Outbox e) st = put_outbox (oe_id e) e st"

definition empty_store :: notification_store where
  "empty_store = (| nst_threads = [], nst_outbox = [] |)"

text \<open>The error of a replay is the number of the line that does not decode.\<close>

fun replay_notifier_lines ::
  "nat \<Rightarrow> notifier_journal_entry file_line list \<Rightarrow> notification_store \<Rightarrow> nat + notification_store" where
  "replay_notifier_lines n [] st = Inr st"
| "replay_notifier_lines n (FL_Entry e # ls) st = replay_notifier_lines (Suc n) ls (apply_notifier_entry e st)"
| "replay_notifier_lines n (FL_Blank # ls) st = replay_notifier_lines (Suc n) ls st"
| "replay_notifier_lines n (FL_Invalid # ls) st = Inl n"

definition replay_notifier_journal :: "notifier_journal option \<Rightarrow> nat + notification_store" where
  "replay_notifier_journal journal =
     (case journal of None \<Rightarrow> Inr empty_store | Some f \<Rightarrow> replay_notifier_lines 1 (jf_lines f) empty_store)"

definition append_notifier_journal :: "notifier_journal_entry \<Rightarrow> unit nop" where
  "append_notifier_journal e =
     reads (\<lambda>s. if nf_journal s = None then ok ()
       else bindR (call_out out_append) (\<lambda>ended.
         bindR (update (\<lambda>s. s (| nf_journal := map_option (append_entry (fst ended) e) (nf_journal s) |))) (\<lambda>_.
         case snd ended of Some x \<Rightarrow> fail (NErr_Internal x) | None \<Rightarrow> ok ())))"

definition update_store :: "(notification_store \<Rightarrow> notification_store) \<Rightarrow> unit nop" where
  "update_store f = update (\<lambda>s. s (| nf_store := f (nf_store s) |))"

section \<open>Handlers\<close>

definition feedback_thread_key :: "notification_request \<Rightarrow> string" where
  "feedback_thread_key q =
     (case np_feedback_thread_key (nrq_policy q) of
        Some k \<Rightarrow> k
      | None \<Rightarrow> (case find (\<lambda>t. nt_kind t = NTK_Thread) (np_targets (nrq_policy q)) of
          Some t \<Rightarrow> nt_address t
        | None \<Rightarrow> nrq_goal_id q))"

definition attempt_outbox_delivery :: "outbox_entry \<Rightarrow> (notification_delivery_report \<times> outbox_entry) nop" where
  "attempt_outbox_delivery e =
     bindR unix_seconds (\<lambda>at.
     (let e' = e (| oe_attempts := sat_add (oe_attempts e) 1, oe_last_attempt_at := Some at |) in
      bindR (deliver_target (oe_request e') (oe_thread_key e') (oe_target e')) (\<lambda>r.
      bindR unix_seconds (\<lambda>at'.
      reads (\<lambda>s. ok (r, apply_delivery_report r (nf_retry_backoff s) at' e'))))))"

definition record_outbox :: "uuid \<Rightarrow> outbox_entry \<Rightarrow> unit nop" where
  "record_outbox i e =
     bindR (append_notifier_journal (NJ_Outbox e)) (\<lambda>_. update_store (put_outbox i e))"

definition record_thread :: "thread_entry \<Rightarrow> unit nop" where
  "record_thread e =
     bindR (append_notifier_journal (NJ_Thread e)) (\<lambda>_. update_store (push_thread (te_thread_key e) e))"

definition notify_target ::
  "string \<Rightarrow> notification_request \<Rightarrow> notification_target \<Rightarrow> (notification_delivery_report \<times> outbox_entry) nop" where
  "notify_target key q t =
     bindR draw_uuid (\<lambda>i. reads (\<lambda>s. attempt_outbox_delivery (new_outbox_entry i key q t (nf_max_attempts s))))"

definition notify_targets :: "string \<Rightarrow> notification_request \<Rightarrow> notification_delivery_report list nop" where
  "notify_targets key q =
     (if np_targets (nrq_policy q) = []
      then bindR draw_uuid (\<lambda>i. ok [(| ndr_target = None, ndr_delivered = True,
        ndr_external_ref = Some (''thread://'' @ key @ ''/'' @ i), ndr_error = None |)])
      else bindR (for_each (np_targets (nrq_policy q)) (notify_target key q)) (\<lambda>tried.
        bindR (for_each (map snd tried) (\<lambda>e. record_outbox (oe_id e) e)) (\<lambda>_. ok (map fst tried))))"

definition notify :: "notification_request \<Rightarrow> notification_delivery_report list nop" where
  "notify q =
     (let key = feedback_thread_key q in
      bindR (notify_targets key q) (\<lambda>reports.
      bindR draw_uuid (\<lambda>i.
      bindR (record_thread (| te_id = i, te_thread_key = key, te_request = q, te_reports = reports |)) (\<lambda>_.
      ok reports))))"

definition read_outbox_entry :: "uuid \<Rightarrow> outbox_entry nop" where
  "read_outbox_entry i =
     reads (\<lambda>s. case bt_get (nst_outbox (nf_store s)) i of
       Some e \<Rightarrow> ok e
     | None \<Rightarrow> fail (NErr_NotFound (''notification outbox entry '' @ i)))"

definition ack_entry :: "uuid \<Rightarrow> ack_request \<Rightarrow> outbox_entry \<Rightarrow> outbox_entry nop" where
  "ack_entry i q e =
     bindR unix_seconds (\<lambda>at.
     bindR (lift_result (\<lambda>_. acknowledge_outbox_entry q at e)) (\<lambda>e'.
     bindR (record_outbox i e') (\<lambda>_. ok e')))"

definition ack_outbox :: "uuid \<Rightarrow> ack_request \<Rightarrow> outbox_entry nop" where
  "ack_outbox i q = bindR (read_outbox_entry i) (ack_entry i q)"

definition retry_entry :: "uuid \<Rightarrow> outbox_entry \<Rightarrow> outbox_entry nop" where
  "retry_entry i e =
     (if \<not> retryable (oe_status e)
      then fail (NErr_BadRequest (''notification outbox entry '' @ i @ '' is '' @ outbox_status_debug (oe_status e)
        @ '', not retryable''))
      else bindR (attempt_outbox_delivery e) (\<lambda>(r, e'). bindR (record_outbox i e') (\<lambda>_. ok e')))"

definition retry_outbox_entry :: "uuid \<Rightarrow> outbox_entry nop" where
  "retry_outbox_entry i = bindR (read_outbox_entry i) (retry_entry i)"

definition is_due :: "nat \<Rightarrow> outbox_entry \<Rightarrow> bool" where
  "is_due at e \<longleftrightarrow> oe_status e = OS_RetryScheduled \<and>
     (case oe_next_attempt_after e of Some n \<Rightarrow> n \<le> at | None \<Rightarrow> False)"

definition retry_due_outbox :: "outbox_entry list nop" where
  "retry_due_outbox =
     bindR unix_seconds (\<lambda>at.
     reads (\<lambda>s. for_each (map oe_id (filter (is_due at) (bt_values (nst_outbox (nf_store s))))) retry_outbox_entry))"

definition list_threads :: "notifier \<Rightarrow> thread_summary list" where
  "list_threads s = map (\<lambda>(key, es). (| tsm_thread_key = key, tsm_count = length es,
     tsm_latest_event = (if es = [] then None else Some (nrq_event (te_request (last es)))) |)) (nst_threads (nf_store s))"

definition get_thread :: "string \<Rightarrow> notifier \<Rightarrow> thread_entry list" where
  "get_thread key s = (case bt_get (nst_threads (nf_store s)) key of Some es \<Rightarrow> es | None \<Rightarrow> [])"

definition list_queue :: "notifier \<Rightarrow> queue_entry list" where
  "list_queue s = map queue_entry_of (filter visible_in_operator_queue (bt_values (nst_outbox (nf_store s))))"

definition list_outbox :: "outbox_status option \<Rightarrow> notifier \<Rightarrow> outbox_entry list" where
  "list_outbox st s =
     filter (\<lambda>e. case st of None \<Rightarrow> True | Some x \<Rightarrow> oe_status e = x) (bt_values (nst_outbox (nf_store s)))"

definition list_dlq :: "notifier \<Rightarrow> outbox_entry list" where
  "list_dlq s = filter (\<lambda>e. oe_status e = OS_DeadLettered) (bt_values (nst_outbox (nf_store s)))"

section \<open>Operations with a postcondition\<close>

text \<open>\<open>ensures P m Q\<close>: the operation keeps \<open>P\<close>, and what it returns on success satisfies \<open>Q\<close>.\<close>

named_theorems ensures_rules "introduction rules for the postconditions of operations"

definition ensures :: "('s \<Rightarrow> bool) \<Rightarrow> ('s, 'e, 'a) op \<Rightarrow> ('a \<Rightarrow> bool) \<Rightarrow> bool" where
  "ensures P m Q \<longleftrightarrow> (\<forall>s. P s \<longrightarrow> P (snd (m s)) \<and> (\<forall>x. fst (m s) = Inr x \<longrightarrow> Q x))"

lemma ensures_preserves: "ensures P m Q \<Longrightarrow> preserves P m"
  by (simp add: ensures_def preserves_def)

lemma preserves_ensures: "preserves P m \<Longrightarrow> ensures P m (\<lambda>_. True)"
  by (simp add: ensures_def preserves_def)

lemma ensures_weaken: "ensures P m Q \<Longrightarrow> (\<And>x. Q x \<Longrightarrow> R x) \<Longrightarrow> ensures P m R"
  by (auto simp: ensures_def)

lemma ensures_ok [ensures_rules]: "Q x \<Longrightarrow> ensures P (ok x) Q"
  by (simp add: ensures_def)

lemma ensures_fail [ensures_rules]: "ensures P (fail e) Q"
  by (simp add: ensures_def)

lemma ensures_reads [ensures_rules]: "(\<And>s. P s \<Longrightarrow> ensures P (f s) Q) \<Longrightarrow> ensures P (reads f) Q"
  by (simp add: ensures_def)

lemma ensures_lift_result [ensures_rules]: "(\<And>s y. P s \<Longrightarrow> r s = Inr y \<Longrightarrow> Q y) \<Longrightarrow> ensures P (lift_result r) Q"
  by (auto simp: ensures_def)

lemma ensures_bindR: "ensures P m Q \<Longrightarrow> (\<And>x. Q x \<Longrightarrow> ensures P (f x) R) \<Longrightarrow> ensures P (bindR m f) R"
  unfolding ensures_def bindR_def by (auto split: prod.splits sum.splits)

lemma ensures_if [ensures_rules]:
  "(b \<Longrightarrow> ensures P m Q) \<Longrightarrow> (\<not> b \<Longrightarrow> ensures P n Q) \<Longrightarrow> ensures P (if b then m else n) Q"
  by simp

lemma ensures_case_option [ensures_rules]:
  "(x = None \<Longrightarrow> ensures P m Q) \<Longrightarrow> (\<And>y. x = Some y \<Longrightarrow> ensures P (f y) Q) \<Longrightarrow>
   ensures P (case x of None \<Rightarrow> m | Some y \<Rightarrow> f y) Q"
  by (simp split: option.splits)

lemma ensures_case_sum [ensures_rules]:
  "(\<And>y. x = Inl y \<Longrightarrow> ensures P (f y) Q) \<Longrightarrow> (\<And>y. x = Inr y \<Longrightarrow> ensures P (g y) Q) \<Longrightarrow>
   ensures P (case x of Inl y \<Rightarrow> f y | Inr y \<Rightarrow> g y) Q"
  by (simp split: sum.splits)

lemma ensures_for_each:
  "(\<And>x. x \<in> set xs \<Longrightarrow> ensures P (f x) Q) \<Longrightarrow> ensures P (for_each xs f) (list_all Q)"
  by (induction xs) (auto intro!: ensures_rules ensures_bindR)

text \<open>An operation whose result does not matter may be bound to anything.\<close>

lemma ensures_then [ensures_rules]:
  "preserves P m \<Longrightarrow> (\<And>x. ensures P (f x) R) \<Longrightarrow> ensures P (bindR m f) R"
  by (rule ensures_bindR [OF preserves_ensures])

section \<open>What a delivery leaves alone\<close>

text \<open>Predicates that do not look at the tapes are kept by deliveries.\<close>

locale delivery_view =
  fixes P :: "notifier \<Rightarrow> bool"
  assumes drawn: "P (s (| nf_drawn := n |)) = P s"
    and clock: "P (s (| nf_reads := n |)) = P s"
    and calls: "P (s (| nf_calls := n |)) = P s"
begin

lemma keeps_draw_uuid: "preserves P draw_uuid"
  unfolding draw_uuid_def by (rule preserves_draw) (simp add: drawn)

lemma keeps_unix_seconds: "preserves P unix_seconds"
  unfolding unix_seconds_def by (rule preserves_draw) (simp add: clock)

lemma keeps_call_out: "preserves P (call_out f)"
  unfolding call_out_def by (rule preserves_draw) (simp add: calls)

lemma keeps_post_http: "preserves P (post_http q)"
  unfolding post_http_def by (rule keeps_call_out)

lemmas keeps_calls = keeps_draw_uuid keeps_unix_seconds keeps_call_out keeps_post_http

lemma keeps_resolve_secret: "preserves P (resolve_secret r)"
  unfolding resolve_secret_def by (intro preserves_rules keeps_calls)

lemma keeps_with_bearer: "(\<And>x. preserves P (f x)) \<Longrightarrow> preserves P (with_bearer t f)"
  unfolding with_bearer_def by (intro preserves_rules keeps_resolve_secret)

lemmas keeps_delivery = keeps_calls keeps_resolve_secret keeps_with_bearer

lemma keeps_adapters:
  "preserves P (deliver_webhook q t)" "preserves P (deliver_slack q t)" "preserves P (deliver_email q t)"
  "preserves P (deliver_sqs q t)" "preserves P (deliver_pagerduty q t)" "preserves P (deliver_tracker q t)"
  unfolding deliver_webhook_def deliver_slack_def deliver_email_def deliver_sqs_def sqs_queue_url_def
    deliver_pagerduty_def deliver_tracker_def
  by (intro preserves_rules keeps_delivery)+

lemma keeps_deliver_target: "preserves P (deliver_target q key t)"
  unfolding deliver_target_def
  by (cases "nt_kind t") (simp_all add: keeps_adapters keeps_draw_uuid preserves_bindR preserves_ok preserves_fail)

text \<open>The entry after an attempt.\<close>

lemma attempt_entry:
  "ensures P (attempt_outbox_delivery e) (\<lambda>(r, e'). \<exists>at at' backoff.
     e' = apply_delivery_report r backoff at'
       (e (| oe_attempts := sat_add (oe_attempts e) 1, oe_last_attempt_at := Some at |)))"
  unfolding attempt_outbox_delivery_def Let_def
  by (intro ensures_rules keeps_calls keeps_deliver_target) auto

end

section \<open>What the handlers keep\<close>

definition attempted :: "outbox_entry \<Rightarrow> nat \<Rightarrow> outbox_entry" where
  "attempted e at = e (| oe_attempts := sat_add (oe_attempts e) 1, oe_last_attempt_at := Some at |)"

text \<open>A record is appended to the journal and, unless that reports an error, stored.\<close>

definition log_entry :: "notifier_journal_entry \<Rightarrow> unit nop" where
  "log_entry e = bindR (append_notifier_journal e) (\<lambda>_. update_store (apply_notifier_entry e))"

lemma apply_entry_unfold:
  "apply_notifier_entry (NJ_Outbox e) = put_outbox (oe_id e) e"
  "apply_notifier_entry (NJ_Thread te) = push_thread (te_thread_key te) te"
  by (simp_all add: fun_eq_iff)

interpretation stored: delivery_view "\<lambda>s. Q (nf_store s)" for Q
  by unfold_locales simp_all

lemma retry_other: "j \<noteq> i \<Longrightarrow> preserves (\<lambda>s. bt_get (nst_outbox (nf_store s)) i = x) (retry_outbox_entry j)"
proof -
  assume ne: "j \<noteq> i"
  let ?P = "\<lambda>s. bt_get (nst_outbox (nf_store s)) i = x"
  note view = stored.keeps_calls [where Q = "\<lambda>st. bt_get (nst_outbox st) i = x"]
  have "preserves ?P (append_notifier_journal e)" for e
    unfolding append_notifier_journal_def by (intro preserves_rules view preserves_update) simp_all
  moreover have "preserves ?P (update_store (put_outbox j e))" for e
    unfolding update_store_def using ne by (intro preserves_update) (simp add: put_outbox_def get_insert)
  ultimately have "preserves ?P (record_outbox j e)" for e
    unfolding record_outbox_def by (intro preserves_rules)
  moreover have "preserves ?P (attempt_outbox_delivery e)" for e
    using ensures_preserves [OF stored.attempt_entry [where Q = "\<lambda>st. bt_get (nst_outbox st) i = x"]] .
  ultimately show ?thesis
    unfolding retry_outbox_entry_def read_outbox_entry_def retry_entry_def
    by (auto intro!: preserves_rules)
qed

datatype (plugins only: code size) notifier_call =
    NC_Notify notification_request
  | NC_Ack uuid ack_request
  | NC_Retry uuid
  | NC_RetryDue

fun handle_call :: "notifier_call \<Rightarrow> notifier \<Rightarrow> notifier" where
  "handle_call (NC_Notify q) s = snd (notify q s)"
| "handle_call (NC_Ack i a) s = snd (ack_outbox i a s)"
| "handle_call (NC_Retry i) s = snd (retry_outbox_entry i s)"
| "handle_call NC_RetryDue s = snd (retry_due_outbox s)"

text \<open>
  A predicate of the notifier together with what it says of an entry.  \<open>may_retry\<close> are the
  entries that a retry may pick up.
\<close>

locale outbox_invariant = delivery_view P
  for P :: "notifier \<Rightarrow> bool" +
  fixes E :: "outbox_entry \<Rightarrow> bool"
    and may_retry :: "outbox_entry \<Rightarrow> bool"
  assumes known: "P s \<Longrightarrow> bt_get (nst_outbox (nf_store s)) i = Some e \<Longrightarrow> E e \<and> oe_id e = i"
    and fresh_attempt: "E (apply_delivery_report r backoff at' (attempted (new_outbox_entry i key q t n) at))"
    and next_attempt: "E e \<Longrightarrow> may_retry e \<Longrightarrow> E (apply_delivery_report r backoff at' (attempted e at))"
    and acknowledged: "E e \<Longrightarrow> acknowledge_outbox_entry a at e = Inr e' \<Longrightarrow> E e'"
    and outbox_kept: "E e \<Longrightarrow> preserves P (log_entry (NJ_Outbox e))"
    and thread_kept: "preserves P (log_entry (NJ_Thread te))"
    and sorted_outbox: "P s \<Longrightarrow> bt_wf (nst_outbox (nf_store s))"
    and scheduled_retry: "oe_status e = OS_RetryScheduled \<Longrightarrow> may_retry e"
begin

lemma keeps_record_outbox: "E e \<Longrightarrow> i = oe_id e \<Longrightarrow> preserves P (record_outbox i e)"
  using outbox_kept by (simp add: record_outbox_def log_entry_def apply_entry_unfold)

lemma keeps_record_thread: "preserves P (record_thread e)"
  using thread_kept [of e] by (simp add: record_thread_def log_entry_def apply_entry_unfold)

lemma attempt_keeps_id: "oe_id (apply_delivery_report r backoff at' (attempted e at)) = oe_id e"
  by (simp add: apply_delivery_report_def attempted_def Let_def)

lemma attempt_ensures:
  assumes "\<And>r backoff at at'. E (apply_delivery_report r backoff at' (attempted e at))"
  shows "ensures P (attempt_outbox_delivery e) (\<lambda>(r, e'). E e' \<and> oe_id e' = oe_id e)"
  by (rule ensures_weaken [OF attempt_entry]) (use assms attempt_keeps_id in \<open>auto simp: attempted_def\<close>)

lemma keeps_notify: "preserves P (notify q)"
proof -
  have target: "ensures P (notify_target key q t) (\<lambda>(r, e). E e)" for key t
    unfolding notify_target_def
    by (intro ensures_rules keeps_draw_uuid ensures_weaken [OF attempt_ensures] fresh_attempt) auto
  have recorded: "preserves P (for_each (map snd tried) (\<lambda>e. record_outbox (oe_id e) e))"
    if "list_all (\<lambda>(r, e). E e) tried" for tried :: "(notification_delivery_report \<times> outbox_entry) list"
    using that by (intro preserves_for_each keeps_record_outbox) (auto simp: list_all_iff)
  have "preserves P (notify_targets key q)" for key
  proof (cases "np_targets (nrq_policy q) = []")
    case True
    then show ?thesis by (simp add: notify_targets_def preserves_bindR keeps_draw_uuid preserves_ok)
  next
    case False
    have "ensures P (for_each (np_targets (nrq_policy q)) (notify_target key q)) (list_all (\<lambda>(r, e). E e))"
      by (rule ensures_for_each) (rule target)
    then have "ensures P (bindR (for_each (np_targets (nrq_policy q)) (notify_target key q)) (\<lambda>tried.
        bindR (for_each (map snd tried) (\<lambda>e. record_outbox (oe_id e) e)) (\<lambda>_. ok (map fst tried)))) (\<lambda>_. True)"
      by (rule ensures_bindR) (intro ensures_then recorded ensures_ok TrueI)
    with False show ?thesis by (simp add: notify_targets_def ensures_preserves)
  qed
  then show ?thesis
    unfolding notify_def by (intro preserves_rules keeps_draw_uuid keeps_record_thread)
qed

lemma reads_known: "ensures P (read_outbox_entry i) (\<lambda>e. E e \<and> oe_id e = i)"
  unfolding read_outbox_entry_def by (intro ensures_rules) (auto dest: known)

lemma keeps_ack: "preserves P (ack_outbox i q)"
proof -
  have "ensures P (ack_entry i q e) (\<lambda>_. True)" if "E e" "oe_id e = i" for e
    unfolding ack_entry_def
    by (intro ensures_rules keeps_unix_seconds ensures_bindR [OF ensures_lift_result [where Q = "\<lambda>e'. E e' \<and> oe_id e' = i"]]
        keeps_record_outbox)
      (use that acknowledged in \<open>auto simp: acknowledge_outbox_entry_def Let_def split: if_splits\<close>)
  then show ?thesis
    unfolding ack_outbox_def by (intro ensures_preserves ensures_bindR [OF reads_known]) auto
qed

lemma keeps_retry_entry:
  assumes "E e" "oe_id e = i" "retryable (oe_status e) \<Longrightarrow> may_retry e"
  shows "preserves P (retry_entry i e)"
proof (cases "retryable (oe_status e)")
  case True
  have "ensures P (bindR (attempt_outbox_delivery e) (\<lambda>(r, e'). bindR (record_outbox i e') (\<lambda>_. ok e'))) (\<lambda>_. True)"
    by (rule ensures_bindR [OF attempt_ensures]) (use True assms next_attempt in \<open>auto intro!: ensures_rules keeps_record_outbox\<close>)
  with True show ?thesis by (simp add: retry_entry_def ensures_preserves)
next
  case False
  then show ?thesis by (simp add: retry_entry_def preserves_fail)
qed

lemma keeps_retry:
  assumes "P s" and "\<And>e. bt_get (nst_outbox (nf_store s)) i = Some e \<Longrightarrow> retryable (oe_status e) \<Longrightarrow> may_retry e"
  shows "P (snd (retry_outbox_entry i s))"
proof (cases "bt_get (nst_outbox (nf_store s)) i")
  case None
  then show ?thesis using assms(1) by (simp add: retry_outbox_entry_def read_outbox_entry_def)
next
  case (Some e)
  with preservesD [OF keeps_retry_entry assms(1)] known [OF assms(1) Some] assms(2) show ?thesis
    by (simp add: retry_outbox_entry_def read_outbox_entry_def)
qed

lemma keeps_retries:
  assumes "P s" and "distinct ids"
    and "\<And>i. i \<in> set ids \<Longrightarrow> \<exists>e. bt_get (nst_outbox (nf_store s)) i = Some e \<and> oe_status e = OS_RetryScheduled"
  shows "P (snd (for_each ids retry_outbox_entry s))"
  using assms
proof (induction ids arbitrary: s)
  case (Cons i ids)
  obtain r t where run: "retry_outbox_entry i s = (r, t)" by (cases "retry_outbox_entry i s")
  have "P (snd (retry_outbox_entry i s))"
    using Cons.prems(3) [of i] by (intro keeps_retry Cons.prems(1)) (auto intro: scheduled_retry)
  then have t: "P t" by (simp add: run)
  have same: "bt_get (nst_outbox (nf_store t)) j = bt_get (nst_outbox (nf_store s)) j" if "j \<in> set ids" for j
  proof -
    have "i \<noteq> j" using that Cons.prems(2) by auto
    from preserves_run [OF retry_other [OF this] run refl] show ?thesis .
  qed
  have "P (snd (for_each ids retry_outbox_entry t))"
    using Cons.prems(2,3) same by (intro Cons.IH t) auto
  then show ?case
    by (cases r; cases "for_each ids retry_outbox_entry t") (auto simp: bindR_def run t split: sum.splits)
qed simp

lemma keeps_retry_due: "preserves P retry_due_outbox"
proof (rule preservesI)
  fix s assume s: "P s"
  let ?t = "s (| nf_reads := Suc (nf_reads s) |)"
  let ?m = "nst_outbox (nf_store s)"
  let ?due = "\<lambda>at. map oe_id (filter (is_due at) (bt_values ?m))"
  have t: "P ?t" using s by (simp add: clock)
  have id: "oe_id e = i" if "(i, e) \<in> set ?m" for i e
    using that known [OF s] btree.entries_get [OF sorted_outbox [OF s]] by blast
  have ids: "map oe_id (bt_values ?m) = map fst ?m"
    using id by (auto simp: bt_values_def)
  have "distinct (map oe_id (bt_values ?m))"
    unfolding ids by (rule bt_wf_distinct [OF sorted_outbox [OF s]])
  then have "distinct (?due at)" for at by (rule distinct_map_filter)
  moreover have "\<exists>e. bt_get ?m i = Some e \<and> oe_status e = OS_RetryScheduled" if "i \<in> set (?due at)" for i at
    using that id btree.entries_get [OF sorted_outbox [OF s]]
    by (fastforce simp: bt_values_def is_due_def)
  ultimately have "P (snd (for_each (?due at) retry_outbox_entry ?t))" for at
    by (intro keeps_retries t) auto
  then show "P (snd (retry_due_outbox s))"
    by (simp add: retry_due_outbox_def unix_seconds_def)
qed

lemma keeps_call:
  assumes "P s" and "\<And>i e. c = NC_Retry i \<Longrightarrow> retryable (oe_status e) \<Longrightarrow> may_retry e"
  shows "P (handle_call c s)"
  using assms preservesD [OF keeps_notify] preservesD [OF keeps_ack] preservesD [OF keeps_retry_due] keeps_retry
  by (cases c) auto

end

section \<open>Runs of the service\<close>

text \<open>
  The states that a notifier goes through when its handlers run one after the other, every
  handler is \<open>allowed\<close> and every append to the journal \<open>ends\<close> in a certain way.  A restart replays the
  journal; the configuration and what lies outside may change.
\<close>

inductive runs :: "(notifier_call \<Rightarrow> bool) \<Rightarrow> (append_outcome \<times> string option \<Rightarrow> bool) \<Rightarrow> notifier \<Rightarrow> bool"
  for allowed ends where
  start: "nf_store s = empty_store \<Longrightarrow> nf_journal s = None \<or> nf_journal s = Some new_journal_file \<Longrightarrow>
    (\<And>n. ends (out_append (nf_outside s) n)) \<Longrightarrow> runs allowed ends s"
| call: "runs allowed ends s \<Longrightarrow> allowed c \<Longrightarrow> runs allowed ends (handle_call c s)"
| restart: "runs allowed ends s \<Longrightarrow> replay_notifier_journal (nf_journal s) = Inr (nf_store t) \<Longrightarrow>
    nf_journal t = nf_journal s \<Longrightarrow> (\<And>n. ends (out_append (nf_outside t) n)) \<Longrightarrow> runs allowed ends t"

text \<open>An append that is whole, or reports an error and wrote nothing.\<close>

definition whole_append :: "append_outcome \<times> string option \<Rightarrow> bool" where
  "whole_append p \<longleftrightarrow> fst p = (if snd p = None then AO_Written else AO_Nothing)"

definition store_all :: "(outbox_entry \<Rightarrow> bool) \<Rightarrow> notification_store \<Rightarrow> bool" where
  "store_all E st \<longleftrightarrow> bt_wf (nst_outbox st) \<and> all_entries (\<lambda>i e. oe_id e = i \<and> E e) (nst_outbox st)"

text \<open>Every entry in the store and in the journal.\<close>

definition outbox_all :: "(outbox_entry \<Rightarrow> bool) \<Rightarrow> notifier \<Rightarrow> bool" where
  "outbox_all E s \<longleftrightarrow> store_all E (nf_store s) \<and>
     (\<forall>f e. nf_journal s = Some f \<longrightarrow> FL_Entry (NJ_Outbox e) \<in> set (jf_lines f) \<longrightarrow> E e)"

definition mirrored :: "notifier \<Rightarrow> bool" where
  "mirrored s \<longleftrightarrow> (case nf_journal s of
       None \<Rightarrow> True
     | Some f \<Rightarrow> \<not> jf_unfinished f \<and> replay_notifier_lines 1 (jf_lines f) empty_store = Inr (nf_store s))"

definition entry_sound :: "outbox_entry \<Rightarrow> bool" where
  "entry_sound e \<longleftrightarrow> oe_max_attempts e \<ge> 1 \<and> oe_attempts e \<ge> 1 \<and>
     (case oe_status e of
        OS_Pending \<Rightarrow> False
      | OS_Delivered \<Rightarrow> \<not> nt_require_ack (oe_target e) \<and> oe_delivered_at e \<noteq> None \<and> oe_next_attempt_after e = None
      | OS_AwaitingAck \<Rightarrow> nt_require_ack (oe_target e) \<and> oe_delivered_at e \<noteq> None \<and> oe_next_attempt_after e = None
      | OS_Acknowledged \<Rightarrow> oe_delivered_at e \<noteq> None \<and> oe_acknowledged_at e \<noteq> None \<and> oe_next_attempt_after e = None
      | OS_RetryScheduled \<Rightarrow> oe_delivered_at e = None \<and> oe_next_attempt_after e \<noteq> None \<and> oe_attempts e < oe_max_attempts e \<and>
          oe_last_error e \<noteq> None
      | OS_DeadLettered \<Rightarrow> oe_delivered_at e = None \<and> oe_next_attempt_after e = None \<and> oe_max_attempts e \<le> oe_attempts e \<and>
          oe_dead_lettered_at e \<noteq> None \<and> oe_last_error e \<noteq> None)"

definition within_attempts :: "outbox_entry \<Rightarrow> bool" where
  "within_attempts e \<longleftrightarrow> entry_sound e \<and> oe_attempts e \<le> oe_max_attempts e"

lemma outbox_all_get: "outbox_all E s \<Longrightarrow> bt_get (nst_outbox (nf_store s)) i = Some e \<Longrightarrow> E e \<and> oe_id e = i"
  unfolding outbox_all_def store_all_def by (auto dest: all_entries_get)

lemma store_all_apply: "store_all E st \<Longrightarrow> (\<And>x. e = NJ_Outbox x \<Longrightarrow> E x) \<Longrightarrow> store_all E (apply_notifier_entry e st)"
  by (cases e) (simp_all add: store_all_def put_outbox_def push_thread_def bt_wf_insert all_entries_insert)

lemma store_all_replay:
  "replay_notifier_lines n ls st = Inr u \<Longrightarrow> store_all E st \<Longrightarrow> (\<And>e. FL_Entry (NJ_Outbox e) \<in> set ls \<Longrightarrow> E e) \<Longrightarrow> store_all E u"
  by (induction n ls st rule: replay_notifier_lines.induct) (auto simp: store_all_apply)

lemma outbox_all_tapes [simp]:
  "outbox_all E (s (| nf_drawn := n |)) = outbox_all E s" "outbox_all E (s (| nf_reads := n |)) = outbox_all E s"
  "outbox_all E (s (| nf_calls := n |)) = outbox_all E s"
  by (simp_all add: outbox_all_def)

lemma mirrored_tapes [simp]:
  "mirrored (s (| nf_drawn := n |)) = mirrored s" "mirrored (s (| nf_reads := n |)) = mirrored s"
  "mirrored (s (| nf_calls := n |)) = mirrored s"
  by (simp_all add: mirrored_def split: option.split)

lemma outbox_all_sorted: "outbox_all E s \<Longrightarrow> bt_wf (nst_outbox (nf_store s))"
  by (simp add: outbox_all_def store_all_def)

interpretation all_outbox: delivery_view "outbox_all E" for E
  by unfold_locales simp_all

lemma outbox_all_log: "(\<And>x. e = NJ_Outbox x \<Longrightarrow> E x) \<Longrightarrow> preserves (outbox_all E) (log_entry e)"
  unfolding log_entry_def append_notifier_journal_def update_store_def
  by (intro preserves_rules preserves_update all_outbox.keeps_calls)
    (auto simp: outbox_all_def store_all_apply dest: append_entry_lines)

lemma outbox_all_logs:
  "E x \<Longrightarrow> preserves (outbox_all E) (log_entry (NJ_Outbox x))" "preserves (outbox_all E) (log_entry (NJ_Thread te))"
  by (rule outbox_all_log; simp)+

lemma entry_sound_attempt: "entry_sound (apply_delivery_report r backoff at' (attempted e at))"
  if "oe_max_attempts e \<ge> 1"
  using that by (auto simp: entry_sound_def apply_delivery_report_def attempted_def Let_def or_else_def sat_add_def u32_max_def
      split: option.splits)

lemma attempt_counts:
  "oe_attempts (apply_delivery_report r backoff at' (attempted e at)) = sat_add (oe_attempts e) 1"
  "oe_max_attempts (apply_delivery_report r backoff at' (attempted e at)) = oe_max_attempts e"
  by (simp_all add: apply_delivery_report_def attempted_def Let_def)

lemma entry_sound_new: "oe_max_attempts (new_outbox_entry i key q t n) \<ge> 1"
  by (simp add: new_outbox_entry_def)

lemma acknowledged_fields:
  assumes "acknowledge_outbox_entry a at e = Inr e'"
  shows "oe_status e' = OS_Acknowledged" "oe_acknowledged_at e' = Some at" "oe_next_attempt_after e' = None"
    "oe_delivered_at e' = oe_delivered_at e" "oe_attempts e' = oe_attempts e" "oe_max_attempts e' = oe_max_attempts e"
    "oe_status e \<in> {OS_Delivered, OS_AwaitingAck, OS_Acknowledged}"
  using assms by (cases "oe_status e"; auto simp: acknowledge_outbox_entry_def Let_def)+

lemma entry_sound_acknowledged: "entry_sound e \<Longrightarrow> acknowledge_outbox_entry a at e = Inr e' \<Longrightarrow> entry_sound e'"
  using acknowledged_fields [of a at e e'] by (auto simp: entry_sound_def)

lemma entry_sound_within:
  assumes "entry_sound e" "oe_status e = OS_RetryScheduled"
  shows "within_attempts (apply_delivery_report r backoff at' (attempted e at))"
proof -
  have "oe_attempts e < oe_max_attempts e" "oe_max_attempts e \<ge> 1"
    using assms by (simp_all add: entry_sound_def)
  then show ?thesis
    using entry_sound_attempt [of e r backoff at' at]
    unfolding within_attempts_def attempt_counts by (simp add: sat_add_def)
qed

lemma replay_snoc:
  "replay_notifier_lines n ls st = Inr u \<Longrightarrow>
   replay_notifier_lines n (ls @ [FL_Entry e]) st = Inr (apply_notifier_entry e u)"
  by (induction n ls st rule: replay_notifier_lines.induct) auto

definition mirrored_whole :: "notifier \<Rightarrow> bool" where
  "mirrored_whole s \<longleftrightarrow> outbox_all (\<lambda>_. True) s \<and> mirrored s \<and> (\<forall>n. whole_append (out_append (nf_outside s) n))"

lemma mirrored_log: "preserves mirrored_whole (log_entry e)"
proof (rule preservesI)
  fix s assume s: "mirrored_whole s"
  have all: "outbox_all (\<lambda>_. True) (snd (log_entry e s))"
    using preservesD [OF outbox_all_log, of e "\<lambda>_. True" s] s by (simp add: mirrored_whole_def)
  show "mirrored_whole (snd (log_entry e s))"
  proof (cases "nf_journal s")
    case None
    with s all show ?thesis
      by (simp add: mirrored_whole_def mirrored_def log_entry_def append_notifier_journal_def update_store_def)
  next
    case (Some f)
    obtain got failure where p: "out_append (nf_outside s) (nf_calls s) = (got, failure)" by (cases "out_append (nf_outside s) (nf_calls s)")
    then have "whole_append (got, failure)" using s by (metis mirrored_whole_def)
    with s all Some p show ?thesis
      by (cases failure)
        (simp_all add: mirrored_whole_def mirrored_def whole_append_def log_entry_def append_notifier_journal_def call_out_def
          update_store_def append_written replay_snoc)
  qed
qed

text \<open>A line that does not decode stays in the journal.\<close>

definition torn_journal :: "notifier \<Rightarrow> bool" where
  "torn_journal s \<longleftrightarrow> outbox_all (\<lambda>_. True) s \<and> (\<exists>f. nf_journal s = Some f \<and> FL_Invalid \<in> set (jf_lines f))"

lemma torn_log: "preserves torn_journal (log_entry e)"
proof -
  have "preserves (\<lambda>s. \<exists>f. nf_journal s = Some f \<and> FL_Invalid \<in> set (jf_lines f)) (log_entry e)"
    unfolding log_entry_def append_notifier_journal_def update_store_def call_out_def
    by (intro preserves_rules preserves_update preserves_draw) (auto simp: append_keeps_invalid)
  then show ?thesis
    using outbox_all_log [of e "\<lambda>_. True"] by (simp add: preserves_def torn_journal_def)
qed

lemma replay_torn: "FL_Invalid \<in> set ls \<Longrightarrow> \<exists>k. replay_notifier_lines n ls st = Inl k"
  by (induction n ls st rule: replay_notifier_lines.induct) auto

interpretation delivery: outbox_invariant "outbox_all entry_sound" entry_sound "\<lambda>_. True"
proof
  show "entry_sound (apply_delivery_report r backoff at' (attempted (new_outbox_entry i key q t n) at))" for r backoff at' i key q t n at
    by (rule entry_sound_attempt [OF entry_sound_new])
  show "entry_sound (apply_delivery_report r backoff at' (attempted e at))" if "entry_sound e" for e r backoff at' at
    using that by (intro entry_sound_attempt) (simp add: entry_sound_def)
qed (auto simp: outbox_all_logs entry_sound_acknowledged dest: outbox_all_get outbox_all_sorted)

interpretation mirror: outbox_invariant mirrored_whole "\<lambda>_. True" "\<lambda>_. True"
  by unfold_locales (auto simp: mirrored_log mirrored_whole_def dest: outbox_all_get outbox_all_sorted)

interpretation broken: outbox_invariant torn_journal "\<lambda>_. True" "\<lambda>_. True"
  by unfold_locales (auto simp: torn_log torn_journal_def dest: outbox_all_get outbox_all_sorted)

interpretation automatic: outbox_invariant "outbox_all within_attempts" within_attempts "\<lambda>e. oe_status e = OS_RetryScheduled"
proof
  show "within_attempts (apply_delivery_report r backoff at' (attempted (new_outbox_entry i key q t n) at))" for r backoff at' i key q t n at
    using entry_sound_attempt [OF entry_sound_new, of r backoff at' i key q t n at]
    unfolding within_attempts_def attempt_counts by (simp add: new_outbox_entry_def sat_add_def)
  show "within_attempts (apply_delivery_report r backoff at' (attempted e at))"
    if "within_attempts e" "oe_status e = OS_RetryScheduled" for e r backoff at' at
    using that entry_sound_within by (simp add: within_attempts_def)
  show "within_attempts e'" if "within_attempts e" "acknowledge_outbox_entry a at e = Inr e'" for e a at e'
    using that acknowledged_fields [OF that(2)] entry_sound_acknowledged by (auto simp: within_attempts_def)
qed (auto simp: outbox_all_logs dest: outbox_all_get outbox_all_sorted)

lemma store_all_empty: "store_all E empty_store"
  by (simp add: store_all_def empty_store_def btree.wf_emp all_entries_def)

lemma outbox_all_start: "nf_store s = empty_store \<Longrightarrow> nf_journal s = None \<or> nf_journal s = Some new_journal_file \<Longrightarrow> outbox_all E s"
  by (auto simp: outbox_all_def store_all_empty new_journal_file_def)

lemma outbox_all_restart:
  assumes "outbox_all E s" and "replay_notifier_journal (nf_journal s) = Inr (nf_store t)" and "nf_journal t = nf_journal s"
  shows "outbox_all E t"
proof (cases "nf_journal s")
  case None
  with assms store_all_empty show ?thesis by (simp add: outbox_all_def replay_notifier_journal_def)
next
  case (Some f)
  with assms(2) have "replay_notifier_lines 1 (jf_lines f) empty_store = Inr (nf_store t)"
    by (simp add: replay_notifier_journal_def)
  then have "store_all E (nf_store t)"
    using assms(1) Some by (intro store_all_replay [OF _ store_all_empty]) (auto simp: outbox_all_def)
  with assms Some show ?thesis by (simp add: outbox_all_def)
qed

lemma runs_mirrored: "runs allowed whole_append s \<Longrightarrow> mirrored_whole s"
proof (induction rule: runs.induct)
  case (start s)
  then show ?case by (auto simp: mirrored_whole_def outbox_all_start mirrored_def new_journal_file_def split: option.splits)
next
  case (call s c)
  then show ?case using mirror.keeps_call [of s c] by blast
next
  case (restart s t)
  then show ?case
    using outbox_all_restart [of "\<lambda>_. True" s t]
    by (auto simp: mirrored_whole_def mirrored_def replay_notifier_journal_def split: option.splits)
qed

lemma runs_sound: "runs allowed ends s \<Longrightarrow> outbox_all entry_sound s"
proof (induction rule: runs.induct)
  case (start s)
  then show ?case by (simp add: outbox_all_start)
next
  case (call s c)
  then show ?case using delivery.keeps_call [of s c] by blast
next
  case (restart s t)
  then show ?case using outbox_all_restart by blast
qed

definition automatic_call :: "notifier_call \<Rightarrow> bool" where
  "automatic_call c \<longleftrightarrow> (case c of NC_Retry _ \<Rightarrow> False | _ \<Rightarrow> True)"

lemma runs_within: "runs automatic_call ends s \<Longrightarrow> outbox_all within_attempts s"
proof (induction rule: runs.induct)
  case (start s)
  then show ?case by (simp add: outbox_all_start)
next
  case (call s c)
  show ?case by (rule automatic.keeps_call [OF call.IH]) (use call.hyps in \<open>auto simp: automatic_call_def\<close>)
next
  case (restart s t)
  then show ?case using outbox_all_restart by blast
qed

section \<open>Properties\<close>

text \<open>
  C37: A notification is never lost silently.  Whatever is notified, acknowledged and retried, however
  the appends to the journal end and however often the service restarts from it, every entry of the outbox has been attempted and its
  status agrees with its fields: Delivered and AwaitingAck entries were delivered without or
  with the demand to acknowledge, Acknowledged ones were delivered before, a scheduled retry
  has a time and attempts left, a dead letter has none; and an entry that was not
  delivered is in the operator's queue.
\<close>
theorem undelivered_notifications_stay_visible:
  assumes "runs allowed ends s" and "bt_get (nst_outbox (nf_store s)) i = Some e"
  shows "oe_id e = i \<and> entry_sound e \<and> (oe_delivered_at e \<noteq> None \<or> queue_entry_of e \<in> set (list_queue s))"
proof -
  have e: "entry_sound e" "oe_id e = i"
    using outbox_all_get [OF runs_sound assms(2)] assms(1) by auto
  moreover have "visible_in_operator_queue e" if "oe_delivered_at e = None"
    using e(1) that by (auto simp: entry_sound_def visible_in_operator_queue_def split: outbox_status.splits)
  ultimately show ?thesis
    using get_Some_values [OF assms(2)] by (auto simp: list_queue_def)
qed

text \<open>
  C38: A restart restores the notifier.  After any run, restarts included, in which every append to
  the journal was whole, or failed before it wrote anything, replaying the journal yields
  exactly the threads and the outbox that the service holds.
\<close>
theorem notifier_restart_restores_the_store:
  assumes "runs allowed whole_append s" and "nf_journal s = Some f"
  shows "replay_notifier_journal (nf_journal s) = Inr (nf_store s)"
  using runs_mirrored [OF assms(1)] assms(2) by (simp add: mirrored_whole_def mirrored_def replay_notifier_journal_def)

text \<open>
  A torn line stops the notifier.  When an append breaks off inside its line, its request fails; the service
  goes on, but whatever is called afterwards and however those appends end, no replay succeeds
  again.
\<close>
lemma torn_line_stops_the_notifier:
  assumes "runs allowed ends s" and "nf_journal s = Some f" and "out_append (nf_outside s) (nf_calls s) = (AO_Partial, Some x)"
  shows "fst (record_thread te s) = Inl (NErr_Internal x) \<and>
    (\<exists>n. replay_notifier_journal (nf_journal (fold handle_call cs (snd (record_thread te s)))) = Inl n)"
proof
  show "fst (record_thread te s) = Inl (NErr_Internal x)"
    using assms(2,3) by (simp add: record_thread_def append_notifier_journal_def call_out_def)
  have "outbox_all (\<lambda>_. True) s" using runs_sound [OF assms(1)] by (auto simp: outbox_all_def store_all_def all_entries_def)
  then have "torn_journal (snd (record_thread te s))"
    using assms(2,3) preservesD [OF outbox_all_log, of "NJ_Thread te" "\<lambda>_. True" s]
    by (simp add: torn_journal_def record_thread_def log_entry_def apply_entry_unfold)
      (simp add: append_notifier_journal_def call_out_def append_entry_def add_line_def)
  then have "torn_journal (fold handle_call cs (snd (record_thread te s)))"
    by (induction cs arbitrary: s rule: rev_induct) (simp_all add: broken.keeps_call)
  then show "\<exists>n. replay_notifier_journal (nf_journal (fold handle_call cs (snd (record_thread te s)))) = Inl n"
    by (auto simp: torn_journal_def replay_notifier_journal_def intro: replay_torn)
qed

text \<open>
  Automatic retries are bounded.  As long as nobody retries an entry by hand, no entry is
  attempted more often than its maximum.
\<close>
theorem automatic_retries_are_bounded:
  assumes "runs automatic_call ends s" and "bt_get (nst_outbox (nf_store s)) i = Some e"
  shows "oe_attempts e \<le> oe_max_attempts e"
  using outbox_all_get [OF runs_within [OF assms(1)] assms(2)] by (simp add: within_attempts_def)

text \<open>A retry stores the entry that it read, with one attempt more.\<close>

lemma record_stores: "record_outbox i e s = (Inr u, t) \<Longrightarrow> bt_get (nst_outbox (nf_store t)) i = Some e"
  unfolding record_outbox_def update_store_def by (erule bindR_InrE) (auto simp: put_outbox_def get_insert)

lemma retry_stores:
  assumes "retry_entry i e s = (Inr e', t)"
  obtains r backoff at at' where "e' = apply_delivery_report r backoff at' (attempted e at)"
    and "bt_get (nst_outbox (nf_store t)) i = Some e'"
proof -
  have ok: "retryable (oe_status e)" using assms by (auto simp: retry_entry_def split: if_splits)
  then have "bindR (attempt_outbox_delivery e) (\<lambda>(r, e'). bindR (record_outbox i e') (\<lambda>_. ok e')) s = (Inr e', t)"
    using assms by (simp add: retry_entry_def)
  then obtain p u where p: "attempt_outbox_delivery e s = (Inr p, u)"
    and q: "(case p of (r, e') \<Rightarrow> bindR (record_outbox i e') (\<lambda>_. ok e')) u = (Inr e', t)"
    by (rule bindR_InrE)
  have "snd p = e'" "bt_get (nst_outbox (nf_store t)) i = Some e'"
    using q by (auto simp: split_def elim!: bindR_InrE dest: record_stores)
  moreover have "\<exists>at at' backoff. snd p = apply_delivery_report (fst p) backoff at' (attempted e at)"
    using stored.attempt_entry [of "\<lambda>_. True" e] p by (auto simp: ensures_def attempted_def split_def dest!: spec [of _ s])
  ultimately show thesis using that by metis
qed

text \<open>
  A stale retry undoes an acknowledgement.  A retry reads its entry, delivers and stores
  without holding a lock.  When two retries of one entry have read it, the first delivers and
  the delivery is acknowledged, the second one, although the entry is Acknowledged by then,
  delivers once more and overwrites it: the acknowledgement is gone.
\<close>
theorem a_stale_retry_undoes_an_acknowledgement:
  assumes "retry_entry i e s = (Inr e1, s1)" and "ack_outbox i a s1 = (Inr e2, s2)" and "retry_entry i e s2 = (Inr e3, s3)"
  shows "oe_status e2 = OS_Acknowledged \<and> bt_get (nst_outbox (nf_store s2)) i = Some e2 \<and>
    bt_get (nst_outbox (nf_store s3)) i = Some e3 \<and> oe_status e3 \<noteq> OS_Acknowledged \<and>
    oe_acknowledged_at e3 = oe_acknowledged_at e \<and> oe_attempts e3 = oe_attempts e1"
proof -
  obtain r b at at' where e1: "e1 = apply_delivery_report r b at' (attempted e at)"
    and s1: "bt_get (nst_outbox (nf_store s1)) i = Some e1"
    using assms(1) by (rule retry_stores)
  obtain r3 b3 at3 at3' where e3: "e3 = apply_delivery_report r3 b3 at3' (attempted e at3)"
    and s3: "bt_get (nst_outbox (nf_store s3)) i = Some e3"
    using assms(3) by (rule retry_stores)
  have "ack_entry i a e1 s1 = (Inr e2, s2)"
    using assms(2) s1 by (simp add: ack_outbox_def read_outbox_entry_def)
  then have "\<exists>tm. acknowledge_outbox_entry a tm e1 = Inr e2" "bt_get (nst_outbox (nf_store s2)) i = Some e2"
    unfolding ack_entry_def unix_seconds_def by (auto elim!: bindR_InrE dest: record_stores split: sum.splits)
  moreover have "oe_status e3 \<noteq> OS_Acknowledged" "oe_acknowledged_at e3 = oe_acknowledged_at e"
    by (auto simp: e3 apply_delivery_report_def attempted_def Let_def)
  ultimately show ?thesis using s3 acknowledged_fields(1) by (auto simp: e1 e3 attempt_counts)
qed

section \<open>Examples\<close>

definition sample_notice :: "notification_target_kind \<Rightarrow> notification_request" where
  "sample_notice k = (| nrq_goal_id = ''g'', nrq_task_id = None, nrq_event = NE_TaskBlocked, nrq_message = ''m'',
     nrq_policy = notification_policy_default
       (| np_targets := [(| nt_kind = k, nt_address = ''a'', nt_secret_ref = None, nt_require_ack = True |)] |) |)"

definition sample_notifier :: notifier where
  "sample_notifier = (| nf_store = empty_store, nf_journal = Some new_journal_file, nf_max_attempts = 3, nf_retry_backoff = 30,
     nf_uuids = sample_tape, nf_drawn = 0, nf_clock = (\<lambda>n. n), nf_reads = 0, nf_calls = 0,
     nf_outside = (| out_env = (\<lambda>_. None), out_file = (\<lambda>_ _. Inl []), out_http = (\<lambda>_ _. Inl []),
       out_sqs = (\<lambda>_ _. Inl []), out_mail = (\<lambda>_ _ _ _. Inl []), out_append = (\<lambda>_. (AO_Written, None)) |) |)"

lemma record_runs:
  assumes "nf_journal s = Some f" and "\<And>n. out_append (nf_outside s) n = (AO_Written, None)"
  shows "record_outbox i e s = (Inr (), s (| nf_calls := Suc (nf_calls s), nf_journal := Some (append_entry AO_Written (NJ_Outbox e) f),
      nf_store := put_outbox i e (nf_store s) |))"
    and "record_thread te s = (Inr (), s (| nf_calls := Suc (nf_calls s), nf_journal := Some (append_entry AO_Written (NJ_Thread te) f),
      nf_store := push_thread (te_thread_key te) te (nf_store s) |))"
  using assms by (simp_all add: record_outbox_def record_thread_def append_notifier_journal_def call_out_def update_store_def)

lemma attempt_other:
  "nt_kind (oe_target e) = NTK_Other \<Longrightarrow> attempt_outbox_delivery e s =
     (let r = undelivered (oe_target e) ''target kind requires a provider-specific notifier adapter''
      in (Inr (r, apply_delivery_report r (nf_retry_backoff s) (nf_clock s (Suc (nf_reads s))) (attempted e (nf_clock s (nf_reads s)))),
          s (| nf_reads := Suc (Suc (nf_reads s)) |)))"
  by (simp add: attempt_outbox_delivery_def unix_seconds_def deliver_target_def attempted_def Let_def)

lemma sample_notified:
  "\<exists>e ls. bt_get (nst_outbox (nf_store (handle_call (NC_Notify (sample_notice NTK_Other)) sample_notifier))) (sample_tape 0) = Some e \<and>
     oe_delivered_at e = None \<and> nf_journal (handle_call (NC_Notify (sample_notice NTK_Other)) sample_notifier) = Some ls"
proof -
  let ?q = "sample_notice NTK_Other"
  obtain t where t: "np_targets (nrq_policy ?q) = [t]" "nt_kind t = NTK_Other"
    by (simp add: sample_notice_def)
  let ?s = "sample_notifier (| nf_drawn := 1 |)"
  have try_it: "notify_target k ?q t sample_notifier =
      (let r = undelivered t ''target kind requires a provider-specific notifier adapter''
       in (Inr (r, apply_delivery_report r 30 1 (attempted (new_outbox_entry (sample_tape 0) k ?q t 3) 0)), ?s (| nf_reads := 2 |)))" for k
    using t(2) by (simp add: notify_target_def draw_uuid_def attempt_other new_outbox_entry_def Let_def)
      (simp add: sample_notifier_def)
  have tail_of [simp]: "nf_journal sample_notifier = Some new_journal_file" "out_append (nf_outside sample_notifier) n = (AO_Written, None)" for n
    by (simp_all add: sample_notifier_def)
  have entry [simp]: "oe_delivered_at (apply_delivery_report (undelivered t x) b y e) = None"
    "oe_id (apply_delivery_report (undelivered t x) b y (attempted (new_outbox_entry k key ?q t m) z)) = k" for x b y e k key m z
    by (simp_all add: apply_delivery_report_def undelivered_def attempted_def new_outbox_entry_def Let_def)
  show ?thesis
    by (simp add: notify_def notify_targets_def t try_it record_runs draw_uuid_def bindR_def put_outbox_def push_thread_def
        get_insert Let_def)
qed

lemma sample_runs: "runs automatic_call whole_append (handle_call (NC_Notify (sample_notice NTK_Other)) sample_notifier)"
  by (intro runs.call runs.start) (simp_all add: sample_notifier_def automatic_call_def whole_append_def)

theorem undelivered_notifications_stay_visible_witness:
  "list_queue (handle_call (NC_Notify (sample_notice NTK_Other)) sample_notifier) \<noteq> []"
  using undelivered_notifications_stay_visible [OF sample_runs] sample_notified by (metis empty_iff list.set(1))

theorem notifier_restart_restores_the_store_witness:
  "replay_notifier_journal (nf_journal (handle_call (NC_Notify (sample_notice NTK_Other)) sample_notifier)) =
     Inr (nf_store (handle_call (NC_Notify (sample_notice NTK_Other)) sample_notifier))"
  using notifier_restart_restores_the_store [OF sample_runs] sample_notified by blast

theorem automatic_retries_are_bounded_witness:
  "\<exists>e. bt_get (nst_outbox (nf_store (handle_call (NC_Notify (sample_notice NTK_Other)) sample_notifier))) (sample_tape 0) = Some e \<and>
     oe_attempts e \<le> oe_max_attempts e"
  using automatic_retries_are_bounded [OF sample_runs] sample_notified by blast

lemma retry_runs:
  assumes "nf_journal s = None" and "retryable (oe_status e)" and "nt_kind (oe_target e) = NTK_Thread"
    and "nt_require_ack (oe_target e)"
  shows "\<exists>e' t. retry_entry i e s = (Inr e', t) \<and> nf_journal t = None \<and> oe_status e' = OS_AwaitingAck \<and>
    bt_get (nst_outbox (nf_store t)) i = Some e'"
proof -
  have "\<exists>ref at at' t. attempt_outbox_delivery e s =
      (Inr (delivered_to (oe_target e) ref,
         apply_delivery_report (delivered_to (oe_target e) ref) (nf_retry_backoff s) at' (attempted e at)), t) \<and> nf_journal t = None"
    using assms(1,3)
    by (simp add: attempt_outbox_delivery_def unix_seconds_def deliver_target_def draw_uuid_def bindR_def attempted_def Let_def) blast
  then obtain ref at at' t where "attempt_outbox_delivery e s =
      (Inr (delivered_to (oe_target e) ref,
         apply_delivery_report (delivered_to (oe_target e) ref) (nf_retry_backoff s) at' (attempted e at)), t)" "nf_journal t = None"
    by blast
  then show ?thesis
    using assms(2,4)
    by (simp add: retry_entry_def bindR_def record_outbox_def append_notifier_journal_def update_store_def put_outbox_def get_insert)
      (simp add: apply_delivery_report_def delivered_to_def attempted_def)
qed

lemma ack_runs:
  assumes "nf_journal s = None" and "bt_get (nst_outbox (nf_store s)) i = Some e" and "oe_status e = OS_AwaitingAck"
  shows "\<exists>e' t. ack_outbox i a s = (Inr e', t) \<and> nf_journal t = None"
  using assms
  by (simp add: ack_outbox_def read_outbox_entry_def ack_entry_def unix_seconds_def acknowledge_outbox_entry_def
      record_outbox_def append_notifier_journal_def update_store_def Let_def)

theorem a_stale_retry_undoes_an_acknowledgement_witness:
  "\<exists>e s1 e2 s2 e3 s3. retryable (oe_status e) \<and> ack_outbox ''i'' (| ack_by = Some ''b'', ack_text = None |) s1 = (Inr e2, s2) \<and>
     oe_status e2 = OS_Acknowledged \<and> retry_entry ''i'' e s2 = (Inr e3, s3) \<and> oe_status e3 \<noteq> OS_Acknowledged"
proof -
  let ?a = "(| ack_by = Some ''b'', ack_text = None |)"
  let ?q = "sample_notice NTK_Thread"
  define e where "e = new_outbox_entry ''i'' ''k'' ?q (hd (np_targets (nrq_policy ?q))) 3"
  let ?s = "sample_notifier (| nf_journal := None |)"
  have e: "retryable (oe_status e)" "nt_kind (oe_target e) = NTK_Thread" "nt_require_ack (oe_target e)"
    by (simp_all add: e_def new_outbox_entry_def retryable_def sample_notice_def)
  obtain e1 s1 where r1: "retry_entry ''i'' e ?s = (Inr e1, s1)" "nf_journal s1 = None" "oe_status e1 = OS_AwaitingAck"
      "bt_get (nst_outbox (nf_store s1)) ''i'' = Some e1"
    using retry_runs [of ?s e "''i''"] e by auto
  obtain e2 s2 where r2: "ack_outbox ''i'' ?a s1 = (Inr e2, s2)" "nf_journal s2 = None"
    using ack_runs [of s1 "''i''" e1 ?a] r1 by auto
  obtain e3 s3 where r3: "retry_entry ''i'' e s2 = (Inr e3, s3)"
    using retry_runs [of s2 e "''i''"] e r2 by auto
  from a_stale_retry_undoes_an_acknowledgement [OF r1(1) r2(1) r3] e(1) r2(1) r3 show ?thesis by blast
qed

end
