(* ===== verification/Json.thy ===== *)
theory Json
  imports Task_Model Rust_Int
begin

text \<open>
  \<open>serde_json::Value\<close> and what the services read from it.  An object is an association list; a
  number is kept as its text.  An enum that derives \<open>Serialize\<close> with \<open>rename_all = "snake_case"\<close>
  is the string of its name in that style.
\<close>

datatype json =
    J_Null
  | J_Bool bool
  | J_Number string
  | J_String string
  | J_Array "json list"
  | J_Object "(string \<times> json) list"

definition json_get :: "string \<Rightarrow> json \<Rightarrow> json option" where
  "json_get k v = (case v of J_Object kvs \<Rightarrow> map_of kvs k | _ \<Rightarrow> None)"

fun json_at :: "json \<Rightarrow> string list \<Rightarrow> json option" where
  "json_at v [] = Some v"
| "json_at v (k # ks) = (case json_get k v of Some w \<Rightarrow> json_at w ks | None \<Rightarrow> None)"

definition json_text :: "json \<Rightarrow> string option" where
  "json_text v =
     (case v of
        J_String s \<Rightarrow> (let t = trim s in if t = [] then None else Some t)
      | J_Number n \<Rightarrow> Some n
      | J_Bool b \<Rightarrow> Some (if b then ''true'' else ''false'')
      | _ \<Rightarrow> None)"

definition json_string_at :: "json \<Rightarrow> string list \<Rightarrow> string option" where
  "json_string_at v path = (case json_at v path of Some w \<Rightarrow> json_text w | None \<Rightarrow> None)"

definition json_option :: "string option \<Rightarrow> json" where
  "json_option x = (case x of Some s \<Rightarrow> J_String s | None \<Rightarrow> J_Null)"

fun task_status_json :: "task_status \<Rightarrow> string" where
  "task_status_json TS_Pending = ''pending''"
| "task_status_json TS_Runnable = ''runnable''"
| "task_status_json TS_Running = ''running''"
| "task_status_json TS_NeedsValidation = ''needs_validation''"
| "task_status_json TS_WaitingApproval = ''waiting_approval''"
| "task_status_json TS_WaitingInput = ''waiting_input''"
| "task_status_json TS_Done = ''done''"
| "task_status_json TS_Blocked = ''blocked''"
| "task_status_json TS_Failed = ''failed''"
| "task_status_json TS_Cancelled = ''cancelled''"

lemma task_status_json_inject [simp]: "task_status_json a = task_status_json b \<longleftrightarrow> a = b"
  by (cases a; cases b; simp)

fun approval_risk_json :: "approval_risk \<Rightarrow> string" where
  "approval_risk_json AR_Low = ''low''"
| "approval_risk_json AR_Medium = ''medium''"
| "approval_risk_json AR_High = ''high''"
| "approval_risk_json AR_Critical = ''critical''"

text \<open>\<open>len() as u32\<close>.\<close>

definition as_u32 :: "nat \<Rightarrow> nat" where
  "as_u32 n = n mod 2 ^ 32"

end
