(* ===== verification/Commands.thy ===== *)
theory Commands
  imports Json
begin

text \<open>
  The command service of the sandbox runner (\<open>command_plan_inner\<close> and \<open>command_run_inner\<close> in
  \<open>crates/sandbox-runner/src/main.rs\<close>): which local commands may run, where, and for how long.

  The file system, the process that is run, the clock and \<open>Uuid::new_v5\<close> are the record
  \<open>runner_env\<close>.  A canonical path is a string that \<open>canonicalize\<close> returned; \<open>Path::starts_with\<close>
  compares its components.  Of a workspace record the fields that the command handlers read are
  modelled.
\<close>

section \<open>Data\<close>

record command_config =
  cc_enable_local_command_execution :: bool
  cc_require_command_approval :: bool
  cc_allowed_local_binaries :: "string list"
  cc_command_timeout_seconds :: nat
  cc_command_max_output_bytes :: nat

record workspace_record =
  wr_workspace_id :: uuid
  wr_goal_id :: uuid
  wr_task_id :: uuid
  wr_path :: string
  wr_sandbox :: sandbox_profile

record command_plan_request =
  cpq_workspace_id :: "uuid option"
  cpq_goal_id :: "uuid option"
  cpq_task_id :: "uuid option"
  cpq_command :: json
  cpq_local_tools :: local_tool_policy
  cpq_approval_id :: "string option"

record command_plan_response =
  cps_status :: string
  cps_requires_approval :: bool
  cps_approved :: bool
  cps_workspace_id :: "uuid option"
  cps_workspace_path :: "string option"
  cps_command :: json
  cps_next_service :: string
  cps_artifact_manifest_path :: "string option"
  cps_diagnostics :: "string list"

record command_run_request =
  crq_workspace_id :: "uuid option"
  crq_goal_id :: "uuid option"
  crq_task_id :: "uuid option"
  crq_command :: json
  crq_local_tools :: local_tool_policy
  crq_approval_id :: "string option"
  crq_cwd :: "string option"
  crq_timeout_seconds :: "nat option"

record command_run_response =
  crs_status :: string
  crs_success :: bool
  crs_workspace_id :: "uuid option"
  crs_workspace_path :: "string option"
  crs_command :: "string list"
  crs_exit_code :: "int option"
  crs_stdout :: string
  crs_stderr :: string
  crs_stdout_truncated :: bool
  crs_stderr_truncated :: bool
  crs_artifact :: "artifact_ref option"
  crs_diagnostics :: "string list"
  crs_started_at :: nat
  crs_finished_at :: nat

record command_evidence =
  cev_workspace_id :: uuid
  cev_goal_id :: uuid
  cev_task_id :: uuid
  cev_command :: "string list"
  cev_cwd :: string
  cev_exit_code :: "int option"
  cev_success :: bool
  cev_stdout :: string
  cev_stderr :: string
  cev_stdout_truncated :: bool
  cev_stderr_truncated :: bool
  cev_started_at :: nat
  cev_finished_at :: nat

record process_output =
  po_exit_code :: "int option"
  po_success :: bool
  po_stdout :: string
  po_stderr :: string

text \<open>
  A process that was started: after how many seconds \<open>output()\<close> would return, if ever, and with what, an
  error or the output.
\<close>

record process_run =
  pn_seconds :: "nat option"
  pn_result :: "string + process_output"

text \<open>What the handler leaves behind: a command that runs on in a directory, and nobody waits for it.\<close>

type_synonym abandoned = "(string list \<times> string) option"

text \<open>
  \<open>rv_run\<close> starts a process, or says why it did not start.  \<open>rv_store\<close> writes the evidence below the path of the workspace and returns the digest of
  what it wrote.
\<close>

record runner_env =
  rv_uuid_v5 :: "string \<Rightarrow> uuid"
  rv_read_record :: "uuid \<Rightarrow> string + workspace_record option"
  rv_canonicalize :: "string \<Rightarrow> string + string"
  rv_run :: "string list \<Rightarrow> string \<Rightarrow> string + process_run"
  rv_store :: "string \<Rightarrow> command_evidence \<Rightarrow> string + string"
  rv_started :: nat
  rv_evidence_at :: nat
  rv_finished :: nat

section \<open>Text\<close>

function split_whitespace_from :: "string \<Rightarrow> string \<Rightarrow> string list" where
  "split_whitespace_from acc s =
     (case s of
        [] \<Rightarrow> (if acc = [] then [] else [acc])
      | c # t \<Rightarrow>
          if ws_front s = 0 then split_whitespace_from (acc @ [c]) t
          else (if acc = [] then [] else [acc]) @ split_whitespace_from [] (drop (ws_front s) s))"
  by pat_completeness auto
termination by (relation "measure (\<lambda>(_, s). length s)") auto

declare split_whitespace_from.simps [simp del]

definition split_whitespace :: "string \<Rightarrow> string list" where
  "split_whitespace s = split_whitespace_from [] s"

fun split_on :: "char \<Rightarrow> string \<Rightarrow> string list" where
  "split_on c [] = [[]]"
| "split_on c (x # s) =
     (if x = c then [] # split_on c s
      else case split_on c s of t # ts \<Rightarrow> (x # t) # ts | [] \<Rightarrow> [[x]])"

text \<open>
  \<open>String::from_utf8_lossy\<close>: every maximal prefix of a valid sequence that is cut short, and every
  byte that starts none, becomes U+FFFD.
\<close>

definition replacement :: string where
  "replacement = map char_of [0xEF, 0xBF, 0xBD :: nat]"

definition continuation :: "nat \<Rightarrow> nat \<Rightarrow> nat \<Rightarrow> bool" where
  "continuation lo hi b \<longleftrightarrow> lo \<le> b \<and> b \<le> hi"

text \<open>The ranges of the bytes that must follow a lead byte; None when it cannot lead.\<close>

definition followers :: "nat \<Rightarrow> (nat \<times> nat) list option" where
  "followers b =
     (let tail = (0x80, 0xBF) in
      if b < 0x80 then Some []
      else if 0xC2 \<le> b \<and> b \<le> 0xDF then Some [tail]
      else if b = 0xE0 then Some [(0xA0, 0xBF), tail]
      else if b = 0xED then Some [(0x80, 0x9F), tail]
      else if 0xE1 \<le> b \<and> b \<le> 0xEF then Some [tail, tail]
      else if b = 0xF0 then Some [(0x90, 0xBF), tail, tail]
      else if 0xF1 \<le> b \<and> b \<le> 0xF3 then Some [tail, tail, tail]
      else if b = 0xF4 then Some [(0x80, 0x8F), tail, tail]
      else None)"

fun matching :: "(nat \<times> nat) list \<Rightarrow> string \<Rightarrow> nat" where
  "matching ((lo, hi) # rs) (c # s) = (if continuation lo hi (byte c) then Suc (matching rs s) else 0)"
| "matching _ _ = 0"

function from_utf8_lossy :: "string \<Rightarrow> string" where
  "from_utf8_lossy s =
     (case s of
        [] \<Rightarrow> []
      | c # t \<Rightarrow>
          (case followers (byte c) of
             None \<Rightarrow> replacement @ from_utf8_lossy t
           | Some rs \<Rightarrow>
               let n = matching rs t in
               (if n = length rs then c # take n t else replacement) @ from_utf8_lossy (drop n t)))"
  by pat_completeness auto
termination by (relation "measure length") auto

declare from_utf8_lossy.simps [simp del]

definition truncate_output :: "string \<Rightarrow> nat \<Rightarrow> string \<times> bool" where
  "truncate_output bytes max_bytes =
     (let truncated = length bytes > max_bytes
      in (from_utf8_lossy (if truncated then take max_bytes bytes else bytes), truncated))"

section \<open>The rules for a command\<close>

fun json_strings :: "json list \<Rightarrow> string list option" where
  "json_strings [] = Some []"
| "json_strings (J_String s # xs) = map_option ((#) s) (json_strings xs)"
| "json_strings (_ # xs) = None"

fun parse_command_value :: "json \<Rightarrow> string + string list" where
  "parse_command_value (J_Array items) =
     (case json_strings items of
        None \<Rightarrow> Inl ''command array entries must be strings''
      | Some [] \<Rightarrow> Inl ''command array must not be empty''
      | Some cs \<Rightarrow> Inr cs)"
| "parse_command_value (J_String s) =
     (case split_whitespace s of [] \<Rightarrow> Inl ''command string must not be empty'' | parts \<Rightarrow> Inr parts)"
| "parse_command_value _ = Inl ''command must be a string or an argv array''"

definition validate_allowed_binary :: "command_config \<Rightarrow> string list \<Rightarrow> string + unit" where
  "validate_allowed_binary cfg cmd =
     (case cmd of
        [] \<Rightarrow> Inl ''command must include a binary''
      | binary # _ \<Rightarrow>
          if CHR ''/'' \<in> set binary \<or> CHR 0x5C \<in> set binary
          then Inl ''command binary must be a bare executable name; absolute or relative paths are not allowed''
          else if binary \<in> set (cc_allowed_local_binaries cfg) then Inr ()
          else Inl (''binary '' @ binary @ '' is not in SANDBOX_ALLOWED_LOCAL_BINARIES''))"

definition command_arg_matches_denied :: "string \<Rightarrow> string \<Rightarrow> bool" where
  "command_arg_matches_denied arg denied \<longleftrightarrow>
     arg = denied \<or> starts_with denied ''--'' \<and> starts_with arg (denied @ ''='')"

definition subcommand_error :: "local_tool_permission \<Rightarrow> string \<Rightarrow> string list \<Rightarrow> string option" where
  "subcommand_error p binary args =
     (if ltp_allowed_subcommands p = [] then None
      else case args of
        [] \<Rightarrow> Some (''binary '' @ binary @ '' requires one of the allowed subcommands: '' @ join '', '' (ltp_allowed_subcommands p))
      | sub # _ \<Rightarrow>
          if sub \<in> set (ltp_allowed_subcommands p) then None
          else Some (''subcommand '' @ sub @ '' for binary '' @ binary @ '' is not allowed by task local_tools; allowed: ''
            @ join '', '' (ltp_allowed_subcommands p)))"

fun denied_arg :: "string list \<Rightarrow> string list \<Rightarrow> (string \<times> string) option" where
  "denied_arg denied [] = None"
| "denied_arg denied (arg # args) =
     (case find (command_arg_matches_denied arg) denied of
        Some d \<Rightarrow> Some (arg, d)
      | None \<Rightarrow> denied_arg denied args)"

definition network_disabled :: "workspace_record option \<Rightarrow> bool" where
  "network_disabled r = (case r of None \<Rightarrow> False | Some w \<Rightarrow> sbx_network (wr_sandbox w) = NA_Disabled)"

definition validate_command_policy ::
  "workspace_record option \<Rightarrow> local_tool_policy \<Rightarrow> string list \<Rightarrow> string + nat option" where
  "validate_command_policy r l cmd =
     (case cmd of
        [] \<Rightarrow> Inl ''command must include a binary''
      | binary # args \<Rightarrow>
          if \<not> local_tools_active l then Inr None
          else if binary \<in> set (lt_denied_binaries l)
          then Inl (''binary '' @ binary @ '' is denied by task local_tools.denied_binaries'')
          else case find (\<lambda>p. ltp_binary p = binary) (lt_allowed_tools l) of
            None \<Rightarrow> Inl (''binary '' @ binary @ '' is not declared in task local_tools.allowed_tools'')
          | Some p \<Rightarrow>
              (case subcommand_error p binary args of
                 Some e \<Rightarrow> Inl e
               | None \<Rightarrow>
                   (case denied_arg (ltp_denied_args p) args of
                      Some (arg, d) \<Rightarrow> Inl (''argument '' @ arg @ '' for binary '' @ binary
                        @ '' is denied by task local_tools.denied_args entry '' @ d)
                    | None \<Rightarrow>
                        if ltp_requires_network p \<and> network_disabled r
                        then Inl (''binary '' @ binary
                          @ '' requires network access, but the workspace sandbox profile has network disabled'')
                        else Inr (case ltp_timeout_seconds p of
                            Some n \<Rightarrow> Some n
                          | None \<Rightarrow> if lt_default_timeout_seconds l > 0 then Some (lt_default_timeout_seconds l) else None))))"

definition command_max_output_bytes :: "command_config \<Rightarrow> local_tool_policy \<Rightarrow> nat" where
  "command_max_output_bytes cfg l =
     (if local_tools_active l \<and> lt_max_output_bytes l > 0
      then min (cc_command_max_output_bytes cfg) (lt_max_output_bytes l)
      else cc_command_max_output_bytes cfg)"

section \<open>The working directory\<close>

definition path_components :: "string \<Rightarrow> string list" where
  "path_components p = filter (\<lambda>c. c \<noteq> [] \<and> c \<noteq> ''.'') (split_on CHR ''/'' p)"

definition path_starts_with :: "string \<Rightarrow> string \<Rightarrow> bool" where
  "path_starts_with p q \<longleftrightarrow> take (length (path_components q)) (path_components p) = path_components q"

definition path_join :: "string \<Rightarrow> string \<Rightarrow> string" where
  "path_join base p =
     (if starts_with p ''/'' then p
      else if base = [] \<or> starts_with (rev base) ''/'' then base @ p else base @ ''/'' @ p)"

definition resolve_command_cwd :: "runner_env \<Rightarrow> workspace_record \<Rightarrow> string option \<Rightarrow> string + string" where
  "resolve_command_cwd env r requested =
     (case rv_canonicalize env (wr_path r) of
        Inl e \<Rightarrow> Inl e
      | Inr workspace \<Rightarrow>
          (let candidate = (case requested of Some v \<Rightarrow> (if blank v then workspace else v) | None \<Rightarrow> workspace) in
           case rv_canonicalize env (path_join workspace candidate) of
             Inl e \<Rightarrow> Inl e
           | Inr canonical \<Rightarrow>
               if path_starts_with canonical workspace then Inr canonical
               else Inl (''command cwd '' @ canonical @ '' is outside workspace '' @ workspace)))"

section \<open>Handlers\<close>

definition deterministic_workspace_id :: "runner_env \<Rightarrow> uuid \<Rightarrow> uuid \<Rightarrow> uuid" where
  "deterministic_workspace_id env g t = rv_uuid_v5 env (''coat-workspace:'' @ g @ '':'' @ t)"

definition workspace_of :: "runner_env \<Rightarrow> uuid option \<Rightarrow> uuid option \<Rightarrow> uuid option \<Rightarrow> uuid option" where
  "workspace_of env w g t =
     (case w of
        Some i \<Rightarrow> Some i
      | None \<Rightarrow> (case (g, t) of (Some g, Some t) \<Rightarrow> Some (deterministic_workspace_id env g t) | _ \<Rightarrow> None))"

definition has_approval :: "string option \<Rightarrow> bool" where
  "has_approval a = (case a of Some v \<Rightarrow> \<not> blank v | None \<Rightarrow> False)"

definition planned_record ::
  "runner_env \<Rightarrow> uuid option \<Rightarrow> workspace_record option \<times> string list" where
  "planned_record env w =
     (case w of
        None \<Rightarrow> (None, [''command plan requires workspace_id or both goal_id and task_id''])
      | Some i \<Rightarrow> (case rv_read_record env i of
          Inr r \<Rightarrow> (r, [])
        | Inl e \<Rightarrow> (None, [''workspace lookup failed: '' @ e])))"

definition policy_refusal ::
  "workspace_record option \<Rightarrow> local_tool_policy \<Rightarrow> json \<Rightarrow> (string \<times> string) option" where
  "policy_refusal r l v =
     (case parse_command_value v of
        Inl e \<Rightarrow> Some (''invalid_command'', e)
      | Inr cmd \<Rightarrow> (case validate_command_policy r l cmd of
          Inl e \<Rightarrow> Some (''tool_policy_denied'', e)
        | Inr _ \<Rightarrow> None))"

definition command_plan_inner :: "command_config \<Rightarrow> runner_env \<Rightarrow> command_plan_request \<Rightarrow> command_plan_response" where
  "command_plan_inner cfg env q =
     (let w = workspace_of env (cpq_workspace_id q) (cpq_goal_id q) (cpq_task_id q);
          found = planned_record env w;
          r = fst found;
          approved = has_approval (cpq_approval_id q);
          satisfied = (\<not> cc_require_command_approval cfg \<or> approved);
          refusal = policy_refusal r (cpq_local_tools q) (cpq_command q);
          status = (if r = None then ''workspace_not_found''
            else case refusal of
              Some (st, _) \<Rightarrow> st
            | None \<Rightarrow> (if satisfied then ''ready_for_executor'' else ''waiting_approval''));
          path = map_option wr_path r
      in (| cps_status = status, cps_requires_approval = cc_require_command_approval cfg, cps_approved = satisfied,
            cps_workspace_id = w, cps_workspace_path = path, cps_command = cpq_command q,
            cps_next_service = (if status \<in> {''workspace_not_found'', ''invalid_command'', ''tool_policy_denied''} then ''operator-fix''
              else if satisfied then (if cc_enable_local_command_execution cfg then ''sandbox-runner:/commands/run'' else ''sandbox-executor'')
              else ''coordinator-approval''),
            cps_artifact_manifest_path = map_option (\<lambda>p. path_join p ''artifacts/artifact-manifest.json'') path,
            cps_diagnostics = snd found
              @ [if cc_enable_local_command_execution cfg
                 then ''local command execution is enabled for allowlisted binaries: '' @ join '', '' (cc_allowed_local_binaries cfg)
                 else ''local command execution is disabled; an external sandbox executor must consume this plan'']
              @ (if cc_require_command_approval cfg \<and> \<not> approved
                 then [''test command planning requires approval_id before an executor may run it''] else [])
              @ (case refusal of Some (_, e) \<Rightarrow> [e] | None \<Rightarrow> []) |))"

definition command_run_blocked ::
  "runner_env \<Rightarrow> string \<Rightarrow> uuid option \<Rightarrow> string option \<Rightarrow> string list \<Rightarrow> string list \<Rightarrow> command_run_response" where
  "command_run_blocked env status w path cmd diagnostics = (|
     crs_status = status, crs_success = False, crs_workspace_id = w, crs_workspace_path = path, crs_command = cmd,
     crs_exit_code = None, crs_stdout = [], crs_stderr = [], crs_stdout_truncated = False, crs_stderr_truncated = False,
     crs_artifact = None, crs_diagnostics = diagnostics, crs_started_at = rv_started env, crs_finished_at = rv_finished env |)"

definition write_command_evidence :: "runner_env \<Rightarrow> string \<Rightarrow> command_evidence \<Rightarrow> string + artifact_ref" where
  "write_command_evidence env path ev =
     (case rv_store env path ev of
        Inl e \<Rightarrow> Inl e
      | Inr digest \<Rightarrow> Inr (| ar_kind = AK_TestResult,
          ar_uri = ''workspace://'' @ cev_workspace_id ev @ ''/artifacts/command-'' @ digest @ ''.json'',
          ar_description = ''local command evidence for '' @ join '' '' (cev_command ev), ar_sha256 = Some digest |))"

definition effective_timeout :: "command_config \<Rightarrow> nat option \<Rightarrow> nat option \<Rightarrow> nat" where
  "effective_timeout cfg requested policy =
     (let n = (case requested of Some n \<Rightarrow> n | None \<Rightarrow> (case policy of Some n \<Rightarrow> n | None \<Rightarrow> cc_command_timeout_seconds cfg))
      in min (max n 1) (max (cc_command_timeout_seconds cfg) 1))"

definition finished_command ::
  "command_config \<Rightarrow> runner_env \<Rightarrow> command_run_request \<Rightarrow> uuid \<Rightarrow> workspace_record \<Rightarrow> string list \<Rightarrow> string \<Rightarrow> process_output \<Rightarrow>
   command_run_response" where
  "finished_command cfg env q w r cmd cwd out =
     (let limit = command_max_output_bytes cfg (crq_local_tools q);
          stdout = truncate_output (po_stdout out) limit;
          stderr = truncate_output (po_stderr out) limit;
          artifact = write_command_evidence env (wr_path r) (|
            cev_workspace_id = w, cev_goal_id = wr_goal_id r, cev_task_id = wr_task_id r, cev_command = cmd, cev_cwd = cwd,
            cev_exit_code = po_exit_code out, cev_success = po_success out, cev_stdout = fst stdout, cev_stderr = fst stderr,
            cev_stdout_truncated = snd stdout, cev_stderr_truncated = snd stderr,
            cev_started_at = rv_started env, cev_finished_at = rv_evidence_at env |)
      in (| crs_status = (if po_success out then ''completed'' else ''failed''), crs_success = po_success out,
            crs_workspace_id = Some w, crs_workspace_path = Some (wr_path r), crs_command = cmd,
            crs_exit_code = po_exit_code out, crs_stdout = fst stdout, crs_stderr = fst stderr,
            crs_stdout_truncated = snd stdout, crs_stderr_truncated = snd stderr,
            crs_artifact = (case artifact of Inr a \<Rightarrow> Some a | Inl _ \<Rightarrow> None),
            crs_diagnostics = (case artifact of Inl e \<Rightarrow> [''failed to write command evidence artifact: '' @ e] | Inr _ \<Rightarrow> []),
            crs_started_at = rv_started env, crs_finished_at = rv_finished env |))"

text \<open>
  \<open>timeout\<close> waits for \<open>output()\<close> at most so many seconds.  When it gives up, or reading the output fails, the
  future is dropped; the command was built without \<open>kill_on_drop\<close>, so that the process is not killed.
\<close>

definition execute_command ::
  "command_config \<Rightarrow> runner_env \<Rightarrow> command_run_request \<Rightarrow> uuid \<Rightarrow> workspace_record \<Rightarrow> string list \<Rightarrow> string \<Rightarrow> nat \<Rightarrow>
   command_run_response \<times> abandoned" where
  "execute_command cfg env q w r cmd cwd seconds =
     (let blocked = (\<lambda>st e. command_run_blocked env st (Some w) (Some (wr_path r)) cmd [e]);
          error = (\<lambda>e. blocked ''execution_failed'' (''failed to execute local command: '' @ e)) in
      case rv_run env cmd cwd of
        Inl e \<Rightarrow> (error e, None)
      | Inr p \<Rightarrow>
          if (case pn_seconds p of None \<Rightarrow> False | Some n \<Rightarrow> n \<le> seconds)
          then (case pn_result p of
              Inr out \<Rightarrow> (finished_command cfg env q w r cmd cwd out, None)
            | Inl e \<Rightarrow> (error e, Some (cmd, cwd)))
          else (blocked ''timed_out'' (''command timed out after '' @ dec seconds @ ''s''), Some (cmd, cwd)))"

definition run_in_workspace ::
  "command_config \<Rightarrow> runner_env \<Rightarrow> command_run_request \<Rightarrow> uuid \<Rightarrow> workspace_record \<Rightarrow> command_run_response \<times> abandoned" where
  "run_in_workspace cfg env q w r =
     (let blocked = (\<lambda>st cmd e. (command_run_blocked env st (Some w) (Some (wr_path r)) cmd [e], None)) in
      case parse_command_value (crq_command q) of
        Inl e \<Rightarrow> blocked ''invalid_command'' [] e
      | Inr cmd \<Rightarrow>
          (case validate_command_policy (Some r) (crq_local_tools q) cmd of
             Inl e \<Rightarrow> blocked ''tool_policy_denied'' cmd e
           | Inr seconds \<Rightarrow>
               (case validate_allowed_binary cfg cmd of
                  Inl e \<Rightarrow> blocked ''binary_not_allowed'' cmd e
                | Inr _ \<Rightarrow>
                    (case resolve_command_cwd env r (crq_cwd q) of
                       Inl e \<Rightarrow> blocked ''invalid_cwd'' cmd e
                     | Inr cwd \<Rightarrow> execute_command cfg env q w r cmd cwd
                         (effective_timeout cfg (crq_timeout_seconds q) seconds)))))"

definition command_run_inner ::
  "command_config \<Rightarrow> runner_env \<Rightarrow> command_run_request \<Rightarrow> command_run_response \<times> abandoned" where
  "command_run_inner cfg env q =
     (let w = workspace_of env (crq_workspace_id q) (crq_goal_id q) (crq_task_id q);
          blocked = (\<lambda>st e. (command_run_blocked env st w None [] [e], None)) in
      case w of
        None \<Rightarrow> blocked ''workspace_not_found'' ''command run requires workspace_id or both goal_id and task_id''
      | Some i \<Rightarrow>
          if \<not> cc_enable_local_command_execution cfg
          then blocked ''execution_disabled'' ''SANDBOX_ENABLE_LOCAL_COMMAND_EXECUTION is false; use /commands/plan and an external sandbox executor''
          else if cc_require_command_approval cfg \<and> \<not> has_approval (crq_approval_id q)
          then blocked ''waiting_approval'' ''approval_id is required before local command execution''
          else (case rv_read_record env i of
              Inr (Some r) \<Rightarrow> run_in_workspace cfg env q i r
            | Inr None \<Rightarrow> blocked ''workspace_not_found'' (''workspace '' @ i @ '' was not found'')
            | Inl e \<Rightarrow> blocked ''workspace_not_found'' (''workspace lookup failed: '' @ e)))"

section \<open>What a permitted command satisfies\<close>

definition permitted :: "workspace_record \<Rightarrow> local_tool_policy \<Rightarrow> string list \<Rightarrow> bool" where
  "permitted r l cmd \<longleftrightarrow> cmd \<noteq> [] \<and>
     (local_tools_active l \<longrightarrow> hd cmd \<notin> set (lt_denied_binaries l) \<and>
       (\<exists>p. find (\<lambda>p. ltp_binary p = hd cmd) (lt_allowed_tools l) = Some p \<and>
          (ltp_allowed_subcommands p = [] \<or> tl cmd \<noteq> [] \<and> hd (tl cmd) \<in> set (ltp_allowed_subcommands p)) \<and>
          (\<forall>arg \<in> set (tl cmd). \<forall>d \<in> set (ltp_denied_args p). \<not> command_arg_matches_denied arg d) \<and>
          \<not> (ltp_requires_network p \<and> sbx_network (wr_sandbox r) = NA_Disabled)))"

text \<open>
  A policy that is not active, that is neither enabled nor has allowed tools, forbids nothing, not even
  its denied binaries.
\<close>

lemma inactive_policy_permits: "\<not> local_tools_active l \<Longrightarrow> permitted r l cmd \<longleftrightarrow> cmd \<noteq> []"
  by (simp add: permitted_def)

definition bare_binary :: "command_config \<Rightarrow> string list \<Rightarrow> bool" where
  "bare_binary cfg cmd \<longleftrightarrow> cmd \<noteq> [] \<and> CHR ''/'' \<notin> set (hd cmd) \<and> CHR 0x5C \<notin> set (hd cmd) \<and>
     hd cmd \<in> set (cc_allowed_local_binaries cfg)"

definition approval_given :: "command_config \<Rightarrow> string option \<Rightarrow> bool" where
  "approval_given cfg a \<longleftrightarrow> \<not> cc_require_command_approval cfg \<or> has_approval a"

definition executed :: "command_run_response \<times> abandoned \<Rightarrow> bool" where
  "executed a \<longleftrightarrow> crs_status (fst a) \<in> {''completed'', ''failed'', ''execution_failed'', ''timed_out''}"

lemma subcommand_error_None: "subcommand_error p b args = None \<longleftrightarrow>
    ltp_allowed_subcommands p = [] \<or> args \<noteq> [] \<and> hd args \<in> set (ltp_allowed_subcommands p)"
  by (auto simp: subcommand_error_def split: list.splits)

lemma denied_arg_None: "denied_arg denied args = None \<longleftrightarrow>
    (\<forall>arg \<in> set args. \<forall>d \<in> set denied. \<not> command_arg_matches_denied arg d)"
  by (induction denied args rule: denied_arg.induct) (auto split: option.splits simp: find_None_iff find_Some_iff)

lemma validate_policy_permitted:
  "(\<exists>n. validate_command_policy (Some r) l cmd = Inr n) \<longleftrightarrow> permitted r l cmd"
proof (cases cmd)
  case Nil
  then show ?thesis by (simp add: validate_command_policy_def permitted_def)
next
  case (Cons b args)
  show ?thesis
  proof (cases "find (\<lambda>p. ltp_binary p = b) (lt_allowed_tools l)")
    case None
    then show ?thesis by (simp add: validate_command_policy_def permitted_def Cons)
  next
    case (Some p)
    note parts = subcommand_error_None [of p b args] denied_arg_None [of "ltp_denied_args p" args]
    show ?thesis
    proof (cases "local_tools_active l")
      case False
      then show ?thesis using Cons by (simp add: validate_command_policy_def permitted_def)
    next
      case True
      show ?thesis
      proof (cases "b \<notin> set (lt_denied_binaries l) \<and> subcommand_error p b args = None \<and> denied_arg (ltp_denied_args p) args = None")
        case good: True
        then show ?thesis
          using Cons Some True parts by (simp add: validate_command_policy_def permitted_def network_disabled_def)
      next
        case False
        then have "\<not> permitted r l cmd" using Cons Some True parts by (simp add: permitted_def) blast
        moreover have "\<exists>e. validate_command_policy (Some r) l cmd = Inl e"
          using False Cons Some True
          by (cases "subcommand_error p b args"; cases "denied_arg (ltp_denied_args p) args")
            (simp_all add: validate_command_policy_def split_def)
        ultimately show ?thesis by auto
      qed
    qed
  qed
qed

lemma allowed_binary_bare: "validate_allowed_binary cfg cmd = Inr u \<longleftrightarrow> bare_binary cfg cmd"
  by (auto simp: validate_allowed_binary_def bare_binary_def split: list.splits)

lemma cwd_confined:
  assumes "resolve_command_cwd env r requested = Inr cwd"
  shows "\<exists>base. rv_canonicalize env (wr_path r) = Inr base \<and> path_starts_with cwd base"
  using assms by (auto simp: resolve_command_cwd_def Let_def split: sum.splits if_splits)

lemma effective_timeout_bounds:
  "1 \<le> effective_timeout cfg a b" "effective_timeout cfg a b \<le> max (cc_command_timeout_seconds cfg) 1"
  by (simp_all add: effective_timeout_def Let_def)

lemma executed_execute [simp]: "executed (execute_command cfg env q w r cmd cwd n)"
  by (simp add: executed_def execute_command_def finished_command_def command_run_blocked_def Let_def split: sum.splits)

lemma abandoned_execute:
  "crs_status (fst (execute_command cfg env q w r cmd cwd n)) = ''timed_out'' \<Longrightarrow> snd (execute_command cfg env q w r cmd cwd n) = Some (cmd, cwd)"
  "snd (execute_command cfg env q w r cmd cwd n) \<noteq> None \<Longrightarrow>
     crs_status (fst (execute_command cfg env q w r cmd cwd n)) \<in> {''timed_out'', ''execution_failed''}"
  by (auto simp: execute_command_def finished_command_def command_run_blocked_def Let_def split: sum.splits if_splits)

lemma blocked_status: "crs_status (command_run_blocked env st w path cmd ds) = st"
  by (simp add: command_run_blocked_def)

lemma not_executed_blocked [simp]:
  "executed (command_run_blocked env st w path cmd ds, x) \<longleftrightarrow> st \<in> {''completed'', ''failed'', ''execution_failed'', ''timed_out''}"
  by (simp add: executed_def command_run_blocked_def)

lemma executed_in_workspace:
  "executed (run_in_workspace cfg env q w r) \<longleftrightarrow>
     (\<exists>cmd seconds cwd. parse_command_value (crq_command q) = Inr cmd \<and>
        validate_command_policy (Some r) (crq_local_tools q) cmd = Inr seconds \<and> bare_binary cfg cmd \<and>
        resolve_command_cwd env r (crq_cwd q) = Inr cwd \<and>
        run_in_workspace cfg env q w r = execute_command cfg env q w r cmd cwd (effective_timeout cfg (crq_timeout_seconds q) seconds))"
  by (auto simp: run_in_workspace_def Let_def allowed_binary_bare [of _ _ "()", symmetric] split: sum.splits)

lemma executed_run:
  "executed (command_run_inner cfg env q) \<longleftrightarrow>
     (\<exists>w r. workspace_of env (crq_workspace_id q) (crq_goal_id q) (crq_task_id q) = Some w \<and>
        cc_enable_local_command_execution cfg \<and> approval_given cfg (crq_approval_id q) \<and>
        rv_read_record env w = Inr (Some r) \<and> executed (run_in_workspace cfg env q w r) \<and>
        command_run_inner cfg env q = run_in_workspace cfg env q w r)"
  by (auto simp: command_run_inner_def approval_given_def Let_def split: option.splits sum.splits)

section \<open>Properties\<close>

lemma executed_exactly:
  "executed (command_run_inner cfg env q) \<longleftrightarrow>
     (\<exists>w r cmd cwd base seconds. workspace_of env (crq_workspace_id q) (crq_goal_id q) (crq_task_id q) = Some w \<and>
        cc_enable_local_command_execution cfg \<and> approval_given cfg (crq_approval_id q) \<and>
        rv_read_record env w = Inr (Some r) \<and> parse_command_value (crq_command q) = Inr cmd \<and>
        permitted r (crq_local_tools q) cmd \<and> bare_binary cfg cmd \<and>
        resolve_command_cwd env r (crq_cwd q) = Inr cwd \<and> rv_canonicalize env (wr_path r) = Inr base \<and> path_starts_with cwd base \<and>
        1 \<le> seconds \<and> seconds \<le> max (cc_command_timeout_seconds cfg) 1 \<and>
        command_run_inner cfg env q = execute_command cfg env q w r cmd cwd seconds)"
    (is "_ = ?admitted")
proof
  assume "executed (command_run_inner cfg env q)"
  then obtain w r where w: "workspace_of env (crq_workspace_id q) (crq_goal_id q) (crq_task_id q) = Some w"
      "cc_enable_local_command_execution cfg" "approval_given cfg (crq_approval_id q)"
      "rv_read_record env w = Inr (Some r)" "command_run_inner cfg env q = run_in_workspace cfg env q w r"
    and ran: "executed (run_in_workspace cfg env q w r)"
    unfolding executed_run by blast
  from ran obtain cmd seconds cwd where c: "parse_command_value (crq_command q) = Inr cmd"
      "validate_command_policy (Some r) (crq_local_tools q) cmd = Inr seconds" "bare_binary cfg cmd"
      "resolve_command_cwd env r (crq_cwd q) = Inr cwd"
      "run_in_workspace cfg env q w r = execute_command cfg env q w r cmd cwd (effective_timeout cfg (crq_timeout_seconds q) seconds)"
    unfolding executed_in_workspace by blast
  from c(2) have "permitted r (crq_local_tools q) cmd" by (auto simp flip: validate_policy_permitted)
  with w c cwd_confined [OF c(4)] effective_timeout_bounds [of cfg "crq_timeout_seconds q" seconds]
  show ?admitted by metis
next
  assume ?admitted
  then show "executed (command_run_inner cfg env q)" by auto
qed

lemma only_executed_abandoned: "snd (command_run_inner cfg env q) \<noteq> None \<Longrightarrow> executed (command_run_inner cfg env q)"
  by (auto simp: command_run_inner_def run_in_workspace_def Let_def split: option.splits sum.splits if_splits)

text \<open>
  C39: Only permitted commands run, but not only in their time.  A command is executed exactly when execution is
  enabled, the approval that the configuration demands is given, the workspace has a record, the command
  parses, the task's tool policy permits it, its binary is a bare name of the allow list and the
  working directory resolves; then it runs below the canonical path of its workspace, and the handler waits
  for it at least one second and at most the configured time.  A command that is answered as
  timed out is left running in its directory; the process is otherwise abandoned only when reading its output
  failed.  A tool policy that is not active permits every command, also its denied binaries.
\<close>
theorem only_permitted_commands_run:
  "(executed (command_run_inner cfg env q) \<longleftrightarrow>
     (\<exists>w r cmd cwd base seconds. workspace_of env (crq_workspace_id q) (crq_goal_id q) (crq_task_id q) = Some w \<and>
        cc_enable_local_command_execution cfg \<and> approval_given cfg (crq_approval_id q) \<and>
        rv_read_record env w = Inr (Some r) \<and> parse_command_value (crq_command q) = Inr cmd \<and>
        permitted r (crq_local_tools q) cmd \<and> bare_binary cfg cmd \<and>
        resolve_command_cwd env r (crq_cwd q) = Inr cwd \<and> rv_canonicalize env (wr_path r) = Inr base \<and> path_starts_with cwd base \<and>
        1 \<le> seconds \<and> seconds \<le> max (cc_command_timeout_seconds cfg) 1 \<and>
        command_run_inner cfg env q = execute_command cfg env q w r cmd cwd seconds)) \<and>
   (crs_status (fst (command_run_inner cfg env q)) = ''timed_out'' \<longrightarrow> snd (command_run_inner cfg env q) \<noteq> None) \<and>
   (snd (command_run_inner cfg env q) \<noteq> None \<longrightarrow>
      crs_status (fst (command_run_inner cfg env q)) \<in> {''timed_out'', ''execution_failed''}) \<and>
   (\<not> local_tools_active (crq_local_tools q) \<longrightarrow> (permitted r' (crq_local_tools q) cmd' \<longleftrightarrow> cmd' \<noteq> []))"
proof (intro conjI impI)
  have ran: "\<exists>w r cmd cwd n. command_run_inner cfg env q = execute_command cfg env q w r cmd cwd n"
    if "executed (command_run_inner cfg env q)"
    using that unfolding executed_exactly by blast
  show "snd (command_run_inner cfg env q) \<noteq> None" if "crs_status (fst (command_run_inner cfg env q)) = ''timed_out''"
  proof -
    have "executed (command_run_inner cfg env q)" using that by (simp add: executed_def)
    with ran that abandoned_execute(1) show ?thesis by (metis option.distinct(1))
  qed
  show "crs_status (fst (command_run_inner cfg env q)) \<in> {''timed_out'', ''execution_failed''}"
    if "snd (command_run_inner cfg env q) \<noteq> None"
    using that ran [OF only_executed_abandoned [OF that]] abandoned_execute(2) by metis
qed (fact executed_exactly, rule inactive_policy_permits)

definition slow_runner :: "workspace_record \<Rightarrow> runner_env" where
  "slow_runner r = (| rv_uuid_v5 = id, rv_read_record = (\<lambda>_. Inr (Some r)), rv_canonicalize = Inr,
     rv_run = (\<lambda>_ _. Inr (| pn_seconds = None, pn_result = Inl [] |)), rv_store = (\<lambda>_ _. Inl []),
     rv_started = 0, rv_evidence_at = 0, rv_finished = 0 |)"

definition sample_commands :: command_config where
  "sample_commands = (| cc_enable_local_command_execution = True, cc_require_command_approval = False,
     cc_allowed_local_binaries = [''git''], cc_command_timeout_seconds = 5, cc_command_max_output_bytes = 10 |)"

definition sample_command_run :: "local_tool_policy \<Rightarrow> command_run_request" where
  "sample_command_run l = (| crq_workspace_id = Some ''w'', crq_goal_id = None, crq_task_id = None, crq_command = J_Array [J_String ''git''],
     crq_local_tools = l, crq_approval_id = None, crq_cwd = None, crq_timeout_seconds = None |)"

definition sample_workspace :: workspace_record where
  "sample_workspace = (| wr_workspace_id = ''w'', wr_goal_id = ''g'', wr_task_id = ''t'', wr_path = ''/w'',
     wr_sandbox = sandbox_profile_default |)"

definition deny_git :: local_tool_policy where
  "deny_git = local_tool_policy_default (| lt_denied_binaries := [''git''] |)"

lemma slow_command_times_out:
  "crs_status (fst (command_run_inner sample_commands (slow_runner sample_workspace) (sample_command_run deny_git))) = ''timed_out''"
  by (simp add: command_run_inner_def run_in_workspace_def execute_command_def sample_commands_def slow_runner_def sample_command_run_def
      workspace_of_def deny_git_def local_tool_policy_default_def validate_command_policy_def local_tools_active_def
      validate_allowed_binary_def resolve_command_cwd_def sample_workspace_def path_join_def path_starts_with_def
      path_components_def starts_with_def command_run_blocked_def Let_def)

theorem only_permitted_commands_run_witness:
  "snd (command_run_inner sample_commands (slow_runner sample_workspace) (sample_command_run deny_git)) \<noteq> None \<and>
   permitted sample_workspace deny_git [''git'']"
proof -
  have "\<not> local_tools_active (crq_local_tools (sample_command_run deny_git))" "crq_local_tools (sample_command_run deny_git) = deny_git"
    by (simp_all add: sample_command_run_def deny_git_def local_tool_policy_default_def local_tools_active_def)
  with only_permitted_commands_run [of sample_commands "slow_runner sample_workspace" "sample_command_run deny_git"] slow_command_times_out
  show ?thesis by (metis list.distinct(1))
qed

definition plan_of :: "command_run_request \<Rightarrow> command_plan_request" where
  "plan_of q = (| cpq_workspace_id = crq_workspace_id q, cpq_goal_id = crq_goal_id q, cpq_task_id = crq_task_id q,
     cpq_command = crq_command q, cpq_local_tools = crq_local_tools q, cpq_approval_id = crq_approval_id q |)"

text \<open>What a plan and a run both ask for.\<close>

definition acceptable :: "command_config \<Rightarrow> runner_env \<Rightarrow> command_run_request \<Rightarrow> bool" where
  "acceptable cfg env q \<longleftrightarrow> cc_enable_local_command_execution cfg \<and>
     approval_given cfg (crq_approval_id q) \<and>
     (\<exists>w r cmd seconds. workspace_of env (crq_workspace_id q) (crq_goal_id q) (crq_task_id q) = Some w \<and>
        rv_read_record env w = Inr (Some r) \<and> parse_command_value (crq_command q) = Inr cmd \<and>
        validate_command_policy (Some r) (crq_local_tools q) cmd = Inr seconds)"

lemma planned_record_Some: "fst (planned_record env w) = Some r \<longleftrightarrow> (\<exists>i. w = Some i \<and> rv_read_record env i = Inr (Some r))"
  by (auto simp: planned_record_def split: option.splits sum.splits)

lemma policy_refusal_None: "policy_refusal r l v = None \<longleftrightarrow>
    (\<exists>cmd seconds. parse_command_value v = Inr cmd \<and> validate_command_policy r l cmd = Inr seconds)"
  by (auto simp: policy_refusal_def split: sum.splits)

lemma policy_refusal_status: "policy_refusal r l v = Some (st, e) \<Longrightarrow> st \<in> {''invalid_command'', ''tool_policy_denied''}"
  by (auto simp: policy_refusal_def split: sum.splits)

lemma plan_acceptable:
  "cps_next_service (command_plan_inner cfg env (plan_of q)) = ''sandbox-runner:/commands/run'' \<longleftrightarrow> acceptable cfg env q"
  "acceptable cfg env q \<Longrightarrow> cps_status (command_plan_inner cfg env (plan_of q)) = ''ready_for_executor''"
proof -
  let ?w = "workspace_of env (crq_workspace_id q) (crq_goal_id q) (crq_task_id q)"
  let ?r = "fst (planned_record env ?w)"
  let ?p = "policy_refusal ?r (crq_local_tools q) (crq_command q)"
  have acc: "acceptable cfg env q \<longleftrightarrow> cc_enable_local_command_execution cfg \<and>
      approval_given cfg (crq_approval_id q) \<and> ?r \<noteq> None \<and> ?p = None"
    unfolding acceptable_def policy_refusal_None not_None_eq planned_record_Some by auto (metis option.sel planned_record_Some)+
  show "cps_next_service (command_plan_inner cfg env (plan_of q)) = ''sandbox-runner:/commands/run'' \<longleftrightarrow> acceptable cfg env q"
    unfolding acc
    by (cases ?r; cases ?p)
      (auto simp: command_plan_inner_def plan_of_def approval_given_def Let_def dest: policy_refusal_status)
  show "acceptable cfg env q \<Longrightarrow> cps_status (command_plan_inner cfg env (plan_of q)) = ''ready_for_executor''"
    unfolding acc by (auto simp: command_plan_inner_def plan_of_def approval_given_def Let_def)
qed

lemma run_in_workspace_acceptable:
  "executed (run_in_workspace cfg env q w r) \<or>
     crs_status (fst (run_in_workspace cfg env q w r)) \<in> {''binary_not_allowed'', ''invalid_cwd''} \<longleftrightarrow>
     (\<exists>cmd seconds. parse_command_value (crq_command q) = Inr cmd \<and>
        validate_command_policy (Some r) (crq_local_tools q) cmd = Inr seconds)"
proof (cases "parse_command_value (crq_command q)")
  case (Inl e)
  then show ?thesis by (simp add: run_in_workspace_def blocked_status Let_def)
next
  case (Inr cmd)
  show ?thesis
  proof (cases "validate_command_policy (Some r) (crq_local_tools q) cmd")
    case (Inl e)
    with Inr show ?thesis by (simp add: run_in_workspace_def blocked_status Let_def)
  next
    case policy: (Inr seconds)
    show ?thesis
      by (cases "validate_allowed_binary cfg cmd"; cases "resolve_command_cwd env r (crq_cwd q)")
        (simp_all add: run_in_workspace_def Inr policy blocked_status Let_def)
  qed
qed

lemma run_acceptable:
  "executed (command_run_inner cfg env q) \<or> crs_status (fst (command_run_inner cfg env q)) \<in> {''binary_not_allowed'', ''invalid_cwd''} \<longleftrightarrow>
     acceptable cfg env q"
proof (cases "workspace_of env (crq_workspace_id q) (crq_goal_id q) (crq_task_id q)")
  case None
  then show ?thesis by (simp add: command_run_inner_def acceptable_def blocked_status Let_def)
next
  case (Some w)
  show ?thesis
  proof (cases "cc_enable_local_command_execution cfg \<and> approval_given cfg (crq_approval_id q)")
    case False
    then show ?thesis
      by (cases "cc_enable_local_command_execution cfg")
        (simp_all add: command_run_inner_def acceptable_def approval_given_def blocked_status Some Let_def)
  next
    case go: True
    then show ?thesis
      using run_in_workspace_acceptable [of cfg env q w]
      by (cases "rv_read_record env w"; cases "projr (rv_read_record env w)")
        (auto simp: command_run_inner_def acceptable_def approval_given_def blocked_status Some Let_def)
  qed
qed

text \<open>
  Plans agree with runs.  A command whose plan sends it to this runner is executed, unless its
  binary is not on the allow list or its working directory does not resolve; and a command that is
  executed has a plan that is ready and names this runner.
\<close>
theorem plans_agree_with_runs:
  "cps_next_service (command_plan_inner cfg env (plan_of q)) = ''sandbox-runner:/commands/run'' \<longleftrightarrow>
     cc_enable_local_command_execution cfg \<and> cps_status (command_plan_inner cfg env (plan_of q)) = ''ready_for_executor'' \<and>
     (executed (command_run_inner cfg env q) \<or> crs_status (fst (command_run_inner cfg env q)) \<in> {''binary_not_allowed'', ''invalid_cwd''})"
  unfolding run_acceptable plan_acceptable(1) using plan_acceptable(2) by (auto simp: acceptable_def)

end
