(* ===== verification/Cycles.thy ===== *)
theory Cycles
  imports Samples
begin

text \<open>
  \<open>detect_cycles\<close> and \<open>visit\<close> of \<open>crates/domain/src/lib.rs\<close>: a depth-first search through the
  dependencies of the tasks with the set of the tasks on the current path.

  The recursion has fuel: None when it runs out.  \<open>detect_cycles\<close> gives it one step more than
  there are tasks, which is proved to be enough, because every level puts a new task on the path.
\<close>

section \<open>The search\<close>

fun visit :: "nat \<Rightarrow> uuid \<Rightarrow> uuid \<Rightarrow> (uuid, task_node) btree \<Rightarrow> uuid set \<Rightarrow> ((domain_error + unit) \<times> uuid set) option"
and visit_all :: "nat \<Rightarrow> uuid \<Rightarrow> uuid list \<Rightarrow> (uuid, task_node) btree \<Rightarrow> uuid set \<Rightarrow> ((domain_error + unit) \<times> uuid set) option" where
  "visit 0 root current tasks seen = None"
| "visit (Suc n) root current tasks seen =
     (if current \<in> seen then Some (Inl (DE_CycleDetected root), seen)
      else case bt_get tasks current of
        None \<Rightarrow> Some (Inr (), insert current seen)
      | Some t \<Rightarrow>
          (case visit_all n root (tn_dependencies t) tasks (insert current seen) of
             None \<Rightarrow> None
           | Some (Inl e, s) \<Rightarrow> Some (Inl e, s)
           | Some (Inr _, s) \<Rightarrow> Some (Inr (), s - {current})))"
| "visit_all n root [] tasks seen = Some (Inr (), seen)"
| "visit_all n root (d # ds) tasks seen =
     (case visit n root d tasks seen of
        None \<Rightarrow> None
      | Some (Inl e, s) \<Rightarrow> Some (Inl e, s)
      | Some (Inr _, s) \<Rightarrow> visit_all n root ds tasks s)"

fun detect_from :: "uuid list \<Rightarrow> (uuid, task_node) btree \<Rightarrow> (domain_error + unit) option" where
  "detect_from [] tasks = Some (Inr ())"
| "detect_from (i # is) tasks =
     (case visit (Suc (length tasks)) i i tasks {} of
        None \<Rightarrow> None
      | Some (Inl e, _) \<Rightarrow> Some (Inl e)
      | Some (Inr _, _) \<Rightarrow> detect_from is tasks)"

definition detect_cycles :: "(uuid, task_node) btree \<Rightarrow> (domain_error + unit) option" where
  "detect_cycles tasks = detect_from (bt_keys tasks) tasks"

section \<open>The search ends\<close>

lemma visit_grows:
  "visit n r c tasks seen = Some (Inr u, s) \<Longrightarrow> seen \<subseteq> s"
  "visit_all n r ds tasks seen = Some (Inr u, s) \<Longrightarrow> seen \<subseteq> s"
  by (induction n r c tasks seen and n r ds tasks seen arbitrary: s and s rule: visit_visit_all.induct)
    (fastforce split: if_splits option.splits sum.splits)+

definition unseen :: "(uuid, task_node) btree \<Rightarrow> uuid set \<Rightarrow> nat" where
  "unseen tasks seen = card (fst ` set tasks - seen)"

lemma unseen_insert: "bt_get tasks c = Some t \<Longrightarrow> c \<notin> seen \<Longrightarrow> unseen tasks (insert c seen) < unseen tasks seen"
proof -
  assume "bt_get tasks c = Some t" "c \<notin> seen"
  then have "c \<in> fst ` set tasks - seen" by (force dest: get_Some_mem)
  then show ?thesis unfolding unseen_def by (intro psubset_card_mono) auto
qed

lemma unseen_mono: "seen \<subseteq> s \<Longrightarrow> unseen tasks s \<le> unseen tasks seen"
  unfolding unseen_def by (rule card_mono) auto

lemma visit_ends:
  "unseen tasks seen < n \<Longrightarrow> visit n r c tasks seen \<noteq> None"
  "unseen tasks seen < n \<Longrightarrow> visit_all n r ds tasks seen \<noteq> None"
proof (induction n r c tasks seen and n r ds tasks seen rule: visit_visit_all.induct)
  case (2 n root current tasks seen)
  show ?case
  proof (cases "current \<in> seen \<or> bt_get tasks current = None")
    case True
    then show ?thesis by auto
  next
    case False
    then obtain t where t: "current \<notin> seen" "bt_get tasks current = Some t" by auto
    have "visit_all n root (tn_dependencies t) tasks (insert current seen) \<noteq> None"
      using "2.IH" [OF t] unseen_insert [OF t(2,1)] "2.prems" by simp
    with t show ?thesis by (auto split: sum.splits)
  qed
next
  case (4 n root d ds tasks seen)
  obtain x s where v: "visit n root d tasks seen = Some (x, s)"
    using "4.IH"(1) [OF "4.prems"] by auto
  show ?case
  proof (cases x)
    case (Inr u)
    have "unseen tasks s < n"
      using unseen_mono [OF visit_grows(1) [OF v [unfolded Inr]], of tasks] "4.prems" by simp
    with "4.IH"(2) [OF v refl Inr] v Inr show ?thesis by simp
  qed (simp add: v)
qed simp_all

lemma detect_from_ends: "detect_from is tasks \<noteq> None"
proof (induction "is")
  case (Cons i "is")
  have "unseen tasks {} \<le> length tasks"
    unfolding unseen_def using card_length [of "map fst tasks"] by simp
  then have "visit (Suc (length tasks)) i i tasks {} \<noteq> None"
    by (intro visit_ends(1)) simp
  with Cons show ?case by (auto split: sum.splits)
qed simp

section \<open>What it finds\<close>

definition depends :: "(uuid, task_node) btree \<Rightarrow> (uuid \<times> uuid) set" where
  "depends tasks = {(x, y). \<exists>t. bt_get tasks x = Some t \<and> y \<in> set (tn_dependencies t)}"

definition closed_dependencies :: "(uuid, task_node) btree \<Rightarrow> bool" where
  "closed_dependencies tasks \<longleftrightarrow> (\<forall>(i, t) \<in> set tasks. \<forall>d \<in> set (tn_dependencies t). bt_get tasks d \<noteq> None)"

text \<open>Below a task the search finds a cycle, or a task of the path.\<close>

definition hits :: "(uuid, task_node) btree \<Rightarrow> uuid set \<Rightarrow> uuid \<Rightarrow> bool" where
  "hits tasks seen c \<longleftrightarrow> (\<exists>y. (c, y) \<in> (depends tasks)\<^sup>* \<and> (y \<in> seen \<or> (y, y) \<in> (depends tasks)\<^sup>+))"

lemma hits_step:
  assumes "bt_get tasks c = Some t" and "c \<notin> seen"
  shows "hits tasks seen c \<longleftrightarrow> (\<exists>d \<in> set (tn_dependencies t). hits tasks (insert c seen) d)"
proof
  let ?R = "depends tasks"
  assume "hits tasks seen c"
  then obtain y where y: "(c, y) \<in> ?R\<^sup>*" "y \<in> seen \<or> (y, y) \<in> ?R\<^sup>+" by (auto simp: hits_def)
  have dep: "d \<in> set (tn_dependencies t)" if "(c, d) \<in> ?R" for d
    using that assms(1) by (auto simp: depends_def)
  show "\<exists>d \<in> set (tn_dependencies t). hits tasks (insert c seen) d"
  proof (cases "c = y")
    case True
    with y assms(2) have "(c, c) \<in> ?R\<^sup>+" by auto
    then obtain d where "(c, d) \<in> ?R" "(d, c) \<in> ?R\<^sup>*" by (meson tranclD)
    with dep show ?thesis by (auto simp: hits_def)
  next
    case False
    with y(1) obtain d where "(c, d) \<in> ?R" "(d, y) \<in> ?R\<^sup>*" by (meson converse_rtranclE)
    with dep y(2) show ?thesis by (auto simp: hits_def)
  qed
next
  let ?R = "depends tasks"
  assume "\<exists>d \<in> set (tn_dependencies t). hits tasks (insert c seen) d"
  then obtain d y where d: "(c, d) \<in> ?R" "(d, y) \<in> ?R\<^sup>*" and y: "y = c \<or> y \<in> seen \<or> (y, y) \<in> ?R\<^sup>+"
    using assms(1) by (auto simp: hits_def depends_def)
  have "(c, y) \<in> ?R\<^sup>*" "y = c \<longrightarrow> (y, y) \<in> ?R\<^sup>+"
    using d by (meson converse_rtrancl_into_rtrancl, metis rtrancl_into_trancl2)
  with y show "hits tasks seen c" by (auto simp: hits_def)
qed

text \<open>
  The search takes what it visits off the path again, except a dependency that names no task.  So what
  it adds to the set are the missing identifiers below a task, and it must not meet one of them twice:
  \<open>separated\<close> says that no two dependencies in a list lead to the same one.
\<close>

definition missing_below :: "(uuid, task_node) btree \<Rightarrow> uuid \<Rightarrow> uuid set" where
  "missing_below tasks c = {m. (c, m) \<in> (depends tasks)\<^sup>* \<and> bt_get tasks m = None}"

fun separated :: "(uuid, task_node) btree \<Rightarrow> uuid list \<Rightarrow> bool" where
  "separated tasks [] \<longleftrightarrow> True"
| "separated tasks (d # ds) \<longleftrightarrow> (\<forall>d' \<in> set ds. missing_below tasks d \<inter> missing_below tasks d' = {}) \<and> separated tasks ds"

definition separated_dependencies :: "(uuid, task_node) btree \<Rightarrow> bool" where
  "separated_dependencies tasks \<longleftrightarrow> (\<forall>i t. bt_get tasks i = Some t \<longrightarrow> separated tasks (tn_dependencies t))"

definition clear :: "(uuid, task_node) btree \<Rightarrow> uuid set \<Rightarrow> uuid \<Rightarrow> bool" where
  "clear tasks seen c \<longleftrightarrow> \<not> hits tasks seen c \<and>
     (\<forall>y t. (c, y) \<in> (depends tasks)\<^sup>* \<longrightarrow> bt_get tasks y = Some t \<longrightarrow> separated tasks (tn_dependencies t))"

lemma depends_step: "bt_get tasks c = Some t \<Longrightarrow> (c, y) \<in> depends tasks \<longleftrightarrow> y \<in> set (tn_dependencies t)"
  by (auto simp: depends_def)

lemma rtrancl_converse_step: "(x, y) \<in> R\<^sup>* \<longleftrightarrow> y = x \<or> (\<exists>z. (x, z) \<in> R \<and> (z, y) \<in> R\<^sup>*)"
  by (metis converse_rtranclE converse_rtrancl_into_rtrancl rtrancl.rtrancl_refl)

lemma reaches_step: "bt_get tasks c = Some t \<Longrightarrow>
    (c, y) \<in> (depends tasks)\<^sup>* \<longleftrightarrow> y = c \<or> (\<exists>d \<in> set (tn_dependencies t). (d, y) \<in> (depends tasks)\<^sup>*)"
  using rtrancl_converse_step [of c y "depends tasks"] by (simp add: depends_step Bex_def)

lemma reaches_missing: "bt_get tasks c = None \<Longrightarrow> (c, y) \<in> (depends tasks)\<^sup>* \<longleftrightarrow> y = c"
  by (auto simp: depends_def elim: converse_rtranclE)

lemma missing_below_task: "bt_get tasks c = Some t \<Longrightarrow> missing_below tasks c = (\<Union>d \<in> set (tn_dependencies t). missing_below tasks d)"
  by (auto simp: missing_below_def reaches_step)

lemma missing_below_missing: "bt_get tasks c = None \<Longrightarrow> missing_below tasks c = {c}"
  by (auto simp: missing_below_def reaches_missing)

lemma clear_task:
  assumes "bt_get tasks c = Some t" and "c \<notin> seen"
  shows "clear tasks seen c \<longleftrightarrow>
    separated tasks (tn_dependencies t) \<and> (\<forall>d \<in> set (tn_dependencies t). clear tasks (insert c seen) d)"
  unfolding clear_def hits_step [OF assms] reaches_step [OF assms(1)] using assms(1) by auto

lemma clear_missing: "bt_get tasks c = None \<Longrightarrow> clear tasks seen c \<longleftrightarrow> c \<notin> seen"
proof -
  assume c: "bt_get tasks c = None"
  then have "(c, c) \<notin> (depends tasks)\<^sup>+" by (auto simp: depends_def dest: tranclD)
  with c show ?thesis by (simp add: clear_def hits_def reaches_missing)
qed

lemma clear_more: "clear tasks (seen \<union> missing_below tasks d) c \<longleftrightarrow>
    clear tasks seen c \<and> missing_below tasks d \<inter> missing_below tasks c = {}"
  unfolding clear_def hits_def by (auto simp: missing_below_def)

text \<open>What the search returns and what it leaves in the set, whatever the dependencies name.\<close>

lemma visit_exact:
  "visit n r c tasks seen = Some (x, s) \<Longrightarrow>
     (if clear tasks seen c then x = Inr () \<and> s = seen \<union> missing_below tasks c else x = Inl (DE_CycleDetected r))"
  "visit_all n r ds tasks seen = Some (x, s) \<Longrightarrow>
     (if separated tasks ds \<and> (\<forall>d \<in> set ds. clear tasks seen d)
      then x = Inr () \<and> s = seen \<union> (\<Union>d \<in> set ds. missing_below tasks d) else x = Inl (DE_CycleDetected r))"
proof (induction n r c tasks seen and n r ds tasks seen arbitrary: x s and x s rule: visit_visit_all.induct)
  case (2 n root current tasks seen)
  show ?case
  proof (cases "current \<in> seen")
    case True
    then have "\<not> clear tasks seen current" by (auto simp: clear_def hits_def)
    with True "2.prems" show ?thesis by auto
  next
    case False
    show ?thesis
    proof (cases "bt_get tasks current")
      case None
      with False "2.prems" show ?thesis by (auto simp: clear_missing missing_below_missing)
    next
      case (Some t)
      obtain y u where v: "visit_all n root (tn_dependencies t) tasks (insert current seen) = Some (y, u)"
        using "2.prems" False Some by (auto split: option.splits)
      have "current \<notin> missing_below tasks current" using Some by (simp add: missing_below_def)
      with "2.IH" [OF False Some v] "2.prems" False Some v show ?thesis
        by (auto simp: clear_task [OF Some False] missing_below_task [OF Some] split: if_splits)
    qed
  qed
next
  case (4 n root d ds tasks seen)
  obtain y u where v: "visit n root d tasks seen = Some (y, u)"
    using "4.prems" by (auto split: option.splits)
  note IH = "4.IH"(1) [OF v]
  show ?case
  proof (cases "clear tasks seen d")
    case False
    with IH v "4.prems" show ?thesis by auto
  next
    case True
    with IH have y: "y = Inr ()" "u = seen \<union> missing_below tasks d" by auto
    with v "4.prems" have "visit_all n root ds tasks u = Some (x, s)" by auto
    from "4.IH"(2) [OF v refl y(1) this] show ?thesis
      unfolding y(2) using True by (auto simp: clear_more split: if_splits)
  qed
qed auto

lemma detect_from_exact: "detect_from is tasks = Some (Inr ()) \<longleftrightarrow> (\<forall>i \<in> set is. clear tasks {} i)"
proof (induction "is")
  case (Cons i "is")
  obtain x s where v: "visit (Suc (length tasks)) i i tasks {} = Some (x, s)"
    using detect_from_ends [of "[i]" tasks] by (auto split: option.splits)
  with visit_exact(1) [OF v] Cons show ?case by (auto split: if_splits)
qed simp

lemma closed_separated: "closed_dependencies tasks \<Longrightarrow> separated_dependencies tasks"
proof -
  assume closed: "closed_dependencies tasks"
  have "bt_get tasks y \<noteq> None" if "(c, y) \<in> (depends tasks)\<^sup>*" "bt_get tasks c \<noteq> None" for c y
    using that
  proof (induction rule: rtrancl_induct)
    case (step y z)
    then obtain t where "bt_get tasks y = Some t" "z \<in> set (tn_dependencies t)" by (auto simp: depends_def)
    with closed show ?case by (fastforce simp: closed_dependencies_def dest: get_Some_mem)
  qed
  then have none: "missing_below tasks c = {}" if "bt_get tasks c \<noteq> None" for c
    using that by (auto simp: missing_below_def)
  have "separated tasks ds" if "\<forall>d \<in> set ds. bt_get tasks d \<noteq> None" for ds
    using that none by (induction ds) auto
  with closed show ?thesis
    by (fastforce simp: closed_dependencies_def separated_dependencies_def dest: get_Some_mem)
qed

section \<open>Properties\<close>

text \<open>
  C40: What \<open>detect_cycles\<close> finds.  The search always ends.  It succeeds exactly when no task depends on
  itself, directly or through others, and no task has two dependencies that lead to the same identifier
  which names no task; so when every dependency names a task, it succeeds exactly when there is no cycle.
\<close>
theorem cycles_are_found_exactly:
  "detect_cycles tasks \<noteq> None \<and>
   (detect_cycles tasks = Some (Inr ()) \<longleftrightarrow> acyclic (depends tasks) \<and> separated_dependencies tasks) \<and>
   (closed_dependencies tasks \<longrightarrow> (detect_cycles tasks = Some (Inr ()) \<longleftrightarrow> acyclic (depends tasks)))"
proof -
  have keys: "i \<in> set (bt_keys tasks) \<longleftrightarrow> bt_get tasks i \<noteq> None" for i
    using get_None_keys [of tasks i] by (auto simp: bt_keys_def)
  have "(\<forall>i \<in> set (bt_keys tasks). clear tasks {} i) \<longleftrightarrow> acyclic (depends tasks) \<and> separated_dependencies tasks"
  proof
    assume all: "\<forall>i \<in> set (bt_keys tasks). clear tasks {} i"
    have "acyclic (depends tasks)"
    proof (rule acyclicI, rule allI, rule notI)
      fix x assume x: "(x, x) \<in> (depends tasks)\<^sup>+"
      then obtain y where "(x, y) \<in> depends tasks" by (meson tranclD)
      then have "x \<in> set (bt_keys tasks)" by (auto simp: keys depends_def)
      moreover have "hits tasks {} x" using x by (auto simp: hits_def)
      ultimately show False using all by (auto simp: clear_def)
    qed
    moreover have "separated_dependencies tasks"
      unfolding separated_dependencies_def
    proof (intro allI impI)
      fix i t assume t: "bt_get tasks i = Some t"
      then have "clear tasks {} i" using all by (simp add: keys)
      with t show "separated tasks (tn_dependencies t)" unfolding clear_def by blast
    qed
    ultimately show "acyclic (depends tasks) \<and> separated_dependencies tasks" ..
  qed (auto simp: clear_def hits_def acyclic_def separated_dependencies_def)
  then have "detect_cycles tasks = Some (Inr ()) \<longleftrightarrow> acyclic (depends tasks) \<and> separated_dependencies tasks"
    by (simp add: detect_cycles_def detect_from_exact)
  then show ?thesis using closed_separated [of tasks] detect_from_ends [of "bt_keys tasks" tasks] by (auto simp: detect_cycles_def)
qed

theorem cycles_are_found_exactly_witness:
  "detect_cycles [(''a'', (sample_task ''a'' TS_Runnable) (| tn_dependencies := [''a''] |))] \<noteq> Some (Inr ())"
proof -
  let ?m = "[(''a'', (sample_task ''a'' TS_Runnable) (| tn_dependencies := [''a''] |))]"
  have "closed_dependencies ?m" by (simp add: closed_dependencies_def)
  moreover have "(''a'', ''a'') \<in> depends ?m" by (simp add: depends_def)
  then have "\<not> acyclic (depends ?m)" by (auto simp: acyclic_def)
  ultimately show ?thesis using cycles_are_found_exactly [of ?m] by blast
qed

text \<open>
  A dependency that names no task stays on the path: when two dependencies of a task lead to the same
  missing task, the search reports a cycle where there is none.
\<close>

lemma missing_dependency_looks_like_a_cycle:
  "detect_cycles [(''a'', (sample_task ''a'' TS_Runnable) (| tn_dependencies := [''b'', ''b''] |))] =
     Some (Inl (DE_CycleDetected ''a''))"
  by (simp add: detect_cycles_def bt_keys_def)

end
