(* ===== verification/Plans.thy ===== *)
theory Plans
  imports Samples Json
begin

text \<open>
  Durable plans (\<open>DurablePlan\<close> and \<open>GoalSpec::quality_report\<close> in \<open>crates/domain/src/lib.rs\<close>): a plan
  is drafted, revised, voted on against other plans, and compiled into a goal specification.  Its phase
  and the actions it offers to the operator are derived from its status after every step.

  \<open>now_unix_timestamp_string\<close> and \<open>Uuid::new_v4\<close> are arguments; the goal store draws them.
\<close>

section \<open>Data\<close>

datatype (plugins only: code size) planning_mode =
    PM_Interactive
  | PM_Autonomous
  | PM_HumanSteered
  | PM_ResearchFirst
  | PM_ImplementationReady

datatype (plugins only: code size) plan_status =
    PLS_Draft
  | PLS_NeedsQuestions
  | PLS_ReadyForReview
  | PLS_Approved
  | PLS_Compiled
  | PLS_Superseded
  | PLS_Archived

datatype (plugins only: code size) plan_phase =
    PH_Asking
  | PH_DraftingPlan
  | PH_DraftingGoals
  | PH_Accepting
  | PH_Executing
  | PH_Reviewing
  | PH_Satisfied
  | PH_Cancelled

definition plan_phase_default :: plan_phase where
  "plan_phase_default = PH_Asking"

datatype (plugins only: code size) plan_action_kind =
    PAK_AnswerQuestion
  | PAK_ReviewPlanDraft
  | PAK_AcceptPlanDraft
  | PAK_DraftGoal
  | PAK_ReviewGoalDraft
  | PAK_AcceptGoalIntoPlan
  | PAK_SubmitGoal
  | PAK_ResolveHumanPrompt
  | PAK_Approve
  | PAK_Retry
  | PAK_Replan
  | PAK_Cancel
  | PAK_ReviewEvidence
  | PAK_ConfirmSatisfaction

fun plan_action_kind_as_str :: "plan_action_kind \<Rightarrow> string" where
  "plan_action_kind_as_str PAK_AnswerQuestion = ''answer_question''"
| "plan_action_kind_as_str PAK_ReviewPlanDraft = ''review_plan_draft''"
| "plan_action_kind_as_str PAK_AcceptPlanDraft = ''accept_plan_draft''"
| "plan_action_kind_as_str PAK_DraftGoal = ''draft_goal''"
| "plan_action_kind_as_str PAK_ReviewGoalDraft = ''review_goal_draft''"
| "plan_action_kind_as_str PAK_AcceptGoalIntoPlan = ''accept_goal_into_plan''"
| "plan_action_kind_as_str PAK_SubmitGoal = ''submit_goal''"
| "plan_action_kind_as_str PAK_ResolveHumanPrompt = ''resolve_human_prompt''"
| "plan_action_kind_as_str PAK_Approve = ''approve''"
| "plan_action_kind_as_str PAK_Retry = ''retry''"
| "plan_action_kind_as_str PAK_Replan = ''replan''"
| "plan_action_kind_as_str PAK_Cancel = ''cancel''"
| "plan_action_kind_as_str PAK_ReviewEvidence = ''review_evidence''"
| "plan_action_kind_as_str PAK_ConfirmSatisfaction = ''confirm_satisfaction''"

datatype (plugins only: code size) plan_action_status =
    PAS_Pending
  | PAS_Completed
  | PAS_Dismissed

record plan_action_item =
  pai_action_id :: string
  pai_plan_id :: uuid
  pai_goal_id :: "uuid option"
  pai_task_id :: "uuid option"
  pai_kind :: plan_action_kind
  pai_title :: string
  pai_reason :: string
  pai_allowed_actions :: "plan_action_kind list"
  pai_required_fields :: "string list"
  pai_status :: plan_action_status
  pai_evidence_refs :: "artifact_ref list"

datatype (plugins only: code size) plan_question_status =
    PQS_Open
  | PQS_Answered
  | PQS_Deferred

record plan_question =
  pqn_id :: string
  pqn_question :: string
  pqn_required :: bool
  pqn_status :: plan_question_status
  pqn_answer :: "string option"

record plan_decision =
  pdn_id :: string
  pdn_title :: string
  pdn_decision :: string
  pdn_rationale :: string
  pdn_created_at :: "string option"

record plan_revision =
  prv_id :: uuid
  prv_version :: nat
  prv_author :: string
  prv_summary :: string
  prv_operator_message :: "string option"
  prv_authoring :: goal_authoring_guidance
  prv_plan :: goal_plan
  prv_initial_tasks :: "child_task_request list"
  prv_questions :: "plan_question list"
  prv_decisions :: "plan_decision list"
  prv_created_at :: "string option"

record plan_candidate_vote =
  pcv_id :: uuid
  pcv_source_plan_id :: uuid
  pcv_candidate_plan_id :: uuid
  pcv_ranked_plan_ids :: "uuid list"
  pcv_voter :: "string option"
  pcv_score :: f32
  pcv_confidence :: f32
  pcv_rationale :: string
  pcv_evidence :: "string list"
  pcv_created_at :: "string option"

record plan_candidate_selection =
  psl_source_plan_id :: uuid
  psl_candidate_plan_id :: uuid
  psl_selector :: branch_selector
  psl_reason :: string
  psl_operator :: "string option"
  psl_selected_compiled_goal_id :: "uuid option"
  psl_selected_at :: "string option"

record goal_quality_report =
  gqr_goal_id :: uuid
  gqr_ready :: bool
  gqr_score :: f32
  gqr_missing :: "string list"
  gqr_warnings :: "string list"
  gqr_suggested_next_actions :: "string list"

record durable_plan =
  dp_id :: uuid
  dp_source_plan_id :: "uuid option"
  dp_title :: string
  dp_objective :: string
  dp_repo :: "string option"
  dp_status :: plan_status
  dp_phase :: plan_phase
  dp_mode :: planning_mode
  dp_version :: nat
  dp_source_prompt :: string
  dp_current :: plan_revision
  dp_action_items :: "plan_action_item list"
  dp_revisions :: "plan_revision list"
  dp_candidate_votes :: "plan_candidate_vote list"
  dp_selected_candidate :: "plan_candidate_selection option"
  dp_compiled_goal_id :: "uuid option"
  dp_compiled_quality :: "goal_quality_report option"
  dp_created_at :: "string option"
  dp_updated_at :: "string option"

record plan_draft_request =
  pdr_plan_id :: "uuid option"
  pdr_source_plan_id :: "uuid option"
  pdr_title :: string
  pdr_objective :: string
  pdr_repo :: "string option"
  pdr_prompt :: string
  pdr_mode :: planning_mode
  pdr_status :: "plan_status option"
  pdr_author :: "string option"
  pdr_summary :: "string option"
  pdr_authoring :: goal_authoring_guidance
  pdr_plan :: goal_plan
  pdr_initial_tasks :: "child_task_request list"
  pdr_questions :: "plan_question list"
  pdr_decisions :: "plan_decision list"

record plan_revision_request =
  prr_author :: "string option"
  prr_summary :: "string option"
  prr_operator_message :: "string option"
  prr_status :: "plan_status option"
  prr_authoring :: "goal_authoring_guidance option"
  prr_plan :: "goal_plan option"
  prr_initial_tasks :: "child_task_request list option"
  prr_questions :: "plan_question list"
  prr_decisions :: "plan_decision list"

record plan_compile_request =
  pcr_plan_id :: "uuid option"
  pcr_goal_id :: "uuid option"
  pcr_title_override :: "string option"
  pcr_objective_override :: "string option"
  pcr_strict_review :: bool
  pcr_human_steered :: bool
  pcr_enable_branching :: bool

record plan_compile_result =
  pcs_plan_id :: uuid
  pcs_goal :: goal_spec
  pcs_quality :: goal_quality_report

record plan_candidate_vote_request =
  pcq_candidate_plan_id :: uuid
  pcq_ranked_plan_ids :: "uuid list"
  pcq_voter :: "string option"
  pcq_score :: f32
  pcq_confidence :: f32
  pcq_rationale :: string
  pcq_evidence :: "string list"

record plan_candidate_selection_request =
  psq_candidate_plan_id :: uuid
  psq_selector :: branch_selector
  psq_reason :: string
  psq_operator :: "string option"
  psq_require_compiled_goal :: bool

record durable_plan_summary =
  dps_plan_id :: uuid
  dps_source_plan_id :: "uuid option"
  dps_title :: string
  dps_objective :: string
  dps_repo :: "string option"
  dps_status :: plan_status
  dps_phase :: plan_phase
  dps_mode :: planning_mode
  dps_version :: nat
  dps_subgoal_count :: nat
  dps_initial_task_count :: nat
  dps_action_item_count :: nat
  dps_open_question_count :: nat
  dps_compiled_goal_id :: "uuid option"
  dps_updated_at :: "string option"

section \<open>The quality of a goal\<close>

definition f32_negate :: "f32 \<Rightarrow> f32" where
  "f32_negate x = f32_of (\<not> f32_neg x) (f32_mag x)"

definition f32_sub :: "f32 \<Rightarrow> f32 \<Rightarrow> f32" where
  "f32_sub x y = f32_add x (f32_negate y)"

definition f32_mul :: "f32 \<Rightarrow> f32 \<Rightarrow> f32" where
  "f32_mul x y =
     (let neg = (f32_neg x \<noteq> f32_neg y) in
      if f32_is_nan x \<or> f32_is_nan y then f32_nan
      else if \<not> f32_is_finite x \<or> \<not> f32_is_finite y
      then (if f32_mag x = 0 \<or> f32_mag y = 0 then f32_nan else f32_of neg 0x7F800000)
      else f32_of neg (round_mag (mag_units (f32_mag x) * mag_units (f32_mag y)) (2 ^ 149)))"

definition f32_clamp :: "f32 \<Rightarrow> f32 \<Rightarrow> f32 \<Rightarrow> f32" where
  "f32_clamp lo hi x = (let y = (if f32_lt x lo then lo else x) in if f32_lt hi y then hi else y)"

definition f32_0_05 :: f32 where "f32_0_05 = 0x3D4CCCCD"

definition quality_score :: "nat \<Rightarrow> nat \<Rightarrow> f32" where
  "quality_score missing warnings =
     f32_clamp f32_0 f32_1
       (f32_sub (f32_sub f32_1 (f32_mul (f32_of_nat missing) f32_0_2)) (f32_mul (f32_of_nat warnings) f32_0_05))"

text \<open>A message that is given under a condition.\<close>

definition if_so :: "bool \<Rightarrow> 'a \<Rightarrow> 'a list" where
  "if_so c x = (if c then [x] else [])"

definition goal_missing :: "goal_spec \<Rightarrow> string list" where
  "goal_missing g =
     (let d = gsp_done_criteria g; doctrine = rvp_doctrine (gsp_review_policy g); mcp = ep_mcp (gsp_default_execution g) in
      if_so (length (trim (gsp_title g)) < 4) ''title is missing or too short''
      @ if_so (length (trim (gsp_objective g)) < 20) ''objective should be concrete enough for a reviewer''
      @ if_so (\<not> dc_tests_pass d \<and> \<not> dc_artifact_exists d \<and> dc_validator_score_min d = None)
          ''done criteria do not require tests, artifacts, or score''
      @ if_so (is_exhausted (gsp_root_budget g)) ''root budget is already exhausted''
      @ if_so (cl_max_frontier_rounds (gsp_control_policy g) = 0) ''control policy allows zero frontier rounds''
      @ if_so (rd_enabled doctrine \<and> resolved_objectives doctrine = [])
          ''review doctrine is enabled but no review objectives are selected''
      @ if_so (rd_enabled doctrine \<and> rdc_require_gate_results (rd_coverage doctrine) \<and> resolved_validation_gates doctrine = [])
          ''review doctrine requires gate results but no validation gates are selected''
      @ (if mcp_access_mode mcp = MAM_MultiUserOidc
         then if_so (mcp_user mcp = None) ''multi-user OIDC MCP access requires a UserPrincipalRef''
           @ if_so (mcp_oidc_delegation mcp = None) ''multi-user OIDC MCP access requires an OidcDelegationPolicy''
         else []))"

definition goal_warnings :: "goal_spec \<Rightarrow> string list" where
  "goal_warnings g =
     (let t = gsp_timeout_policy g; b = gsp_branching_policy g; r = gsp_review_policy g; a = gsp_approval_policy g;
          e = gsp_default_execution g in
      if_so (tp_enabled t \<and> tp_goal_timeout_seconds t = None \<and> tp_task_run_timeout_seconds t = None \<and> tp_idle_timeout_seconds t = None)
        ''timeout policy is enabled without any concrete timeout''
      @ if_so (rp_enabled (gsp_restart_policy g) \<and> rp_max_goal_restarts (gsp_restart_policy g) = 0)
          ''restart policy is enabled but max_goal_restarts is zero''
      @ if_so (bp_enabled b \<and> bp_max_candidates_per_group b < 2)
          ''branching policy is enabled but max_candidates_per_group is below two''
      @ if_so (bp_enabled b \<and> bvp_enabled (bp_voting b) \<and> bvp_min_votes (bp_voting b) = 0)
          ''branch voting is enabled but min_votes is zero''
      @ if_so (grp_enabled (gsp_ranking_policy g) \<and> grp_min_votes (gsp_ranking_policy g) = 0)
          ''goal ranking is enabled but min_votes is zero''
      @ if_so (mpol_enabled (gsp_mechanism_policy g) \<and> mpol_quorum (gsp_mechanism_policy g) = 0)
          ''mechanism policy is enabled but quorum is zero''
      @ if_so (rvp_enabled r \<and> rvp_min_reviews r = 0) ''review policy is enabled but min_reviews is zero''
      @ if_so (\<not> rd_enabled (rvp_doctrine r))
          ''review doctrine is disabled; opt in for typed quality, testing, style, and formal-methods review goals''
      @ if_so (\<not> rvp_enabled r) ''review policy is disabled; non-trivial work should keep a critic gate''
      @ if_so (\<not> rpo_require_sources (gsp_research_policy g) \<and> pl_subgoals (gsp_plan g) \<noteq> [])
          ''research sources are optional; current or external claims may need sources''
      @ if_so (gsp_initial_tasks g = [] \<and> pl_subgoals (gsp_plan g) = [])
          ''goal has no subgoals or initial tasks; the planner root must decompose everything''
      @ if_so (ag_enabled a \<and> \<not> ag_require_for_secret_access a \<and> \<not> ag_require_for_brokered_user_auth a)
          ''approval policy does not gate secret or brokered user auth''
      @ if_so (ad_allow_secret_sync (mcp_auth_distribution (ep_mcp e)))
          ''auth distribution allows secret sync; prefer runner-local or brokered leases''
      @ if_so (np_targets (ep_notifications e) = [])
          ''no notification target is configured for approval or blocked-task threads'')"

fun subgoals_missing :: "string list \<Rightarrow> subgoal_spec list \<Rightarrow> string list" where
  "subgoals_missing seen [] = []"
| "subgoals_missing seen (g # gs) =
     if_so (blank (sg_id g)) ''plan contains a subgoal with an empty id''
     @ if_so (sg_id g \<in> set seen) (''duplicate subgoal id: '' @ sg_id g)
     @ if_so (blank (sg_title g)) (''subgoal '' @ sg_id g @ '' has no title'')
     @ subgoals_missing (sg_id g # seen) gs"

definition tasks_missing :: "child_task_request list \<Rightarrow> string list" where
  "tasks_missing ts = concat (map (\<lambda>t. if_so (blank (ctr_prompt t)) ''initial task has an empty prompt'') ts)"

definition tasks_warnings :: "subgoal_spec list \<Rightarrow> child_task_request list \<Rightarrow> string list" where
  "tasks_warnings gs ts = concat (map (\<lambda>t.
     if_so (blank (ctr_reason t)) ''initial task is missing a reason for distribution''
     @ (case ctr_subgoal_id t of
          None \<Rightarrow> []
        | Some i \<Rightarrow> if_so (gs \<noteq> [] \<and> i \<notin> set (map sg_id gs))
            (''initial task references subgoal '' @ i @ '' that is not in plan.subgoals''))) ts)"

definition quality_report :: "goal_spec \<Rightarrow> goal_quality_report" where
  "quality_report g =
     (let gs = pl_subgoals (gsp_plan g); ts = gsp_initial_tasks g;
          missing = goal_missing g @ subgoals_missing [] gs @ tasks_missing ts;
          warnings = goal_warnings g @ tasks_warnings gs ts
      in (| gqr_goal_id = gsp_id g, gqr_ready = (missing = []),
            gqr_score = quality_score (length missing) (length warnings),
            gqr_missing = missing, gqr_warnings = warnings,
            gqr_suggested_next_actions =
              if_so (ts = [] \<and> gs = []) ''add plan.subgoals or initial_tasks for known work''
              @ if_so (missing = [] \<and> warnings = []) ''submit the goal or run it against the local stub stack'' |))"

section \<open>Phase and actions\<close>

definition plan_action_new ::
  "uuid \<Rightarrow> plan_action_kind \<Rightarrow> string \<Rightarrow> string \<Rightarrow> string \<Rightarrow> plan_action_kind list \<Rightarrow> plan_action_item" where
  "plan_action_new i kind suffix title reason allowed = (|
     pai_action_id = ''plan:'' @ i @ '':'' @ plan_action_kind_as_str kind @ '':'' @ suffix, pai_plan_id = i,
     pai_goal_id = None, pai_task_id = None, pai_kind = kind, pai_title = title, pai_reason = reason,
     pai_allowed_actions = allowed, pai_required_fields = [], pai_status = PAS_Pending, pai_evidence_refs = [] |)"

definition validate_action :: "plan_action_item \<Rightarrow> string + unit" where
  "validate_action a =
     (if pai_allowed_actions a = [] then Inl (''plan action item '' @ pai_action_id a @ '' has no allowed actions'')
      else Inr ())"

fun validate_actions :: "plan_action_item list \<Rightarrow> string + unit" where
  "validate_actions [] = Inr ()"
| "validate_actions (a # as) = (case validate_action a of Inl e \<Rightarrow> Inl e | Inr _ \<Rightarrow> validate_actions as)"

definition validate_action_items :: "durable_plan \<Rightarrow> string + unit" where
  "validate_action_items p = validate_actions (dp_action_items p)"

definition must_answer :: "plan_question \<Rightarrow> bool" where
  "must_answer q \<longleftrightarrow> pqn_required q \<and> pqn_status q = PQS_Open"

definition derive_phase :: "durable_plan \<Rightarrow> plan_phase" where
  "derive_phase p =
     (case dp_status p of
        PLS_NeedsQuestions \<Rightarrow> PH_Asking
      | PLS_Draft \<Rightarrow>
          (if pl_subgoals (prv_plan (dp_current p)) = [] \<and> prv_initial_tasks (dp_current p) = []
           then PH_DraftingPlan else PH_DraftingGoals)
      | PLS_ReadyForReview \<Rightarrow> PH_Accepting
      | PLS_Approved \<Rightarrow> PH_Accepting
      | PLS_Compiled \<Rightarrow> PH_Executing
      | PLS_Superseded \<Rightarrow> PH_Satisfied
      | PLS_Archived \<Rightarrow> PH_Cancelled)"

definition answer_action :: "uuid \<Rightarrow> plan_question \<Rightarrow> plan_action_item" where
  "answer_action i q =
     (plan_action_new i PAK_AnswerQuestion (pqn_id q) (''Answer: '' @ pqn_question q)
        ''The plan is waiting for required operator input before goals are drafted.''
        [PAK_AnswerQuestion, PAK_ReviewPlanDraft, PAK_Cancel]) (| pai_required_fields := [''answer''] |)"

definition review_action :: "durable_plan \<Rightarrow> plan_action_item" where
  "review_action p = plan_action_new (dp_id p) PAK_ReviewPlanDraft (dec (dp_version p)) ''Review plan for acceptance''
     ''The plan is ready for operator review before accepted goals are submitted.''
     [PAK_AcceptPlanDraft, PAK_Replan, PAK_Cancel]"

definition derive_action_items :: "durable_plan \<Rightarrow> plan_phase \<Rightarrow> plan_action_item list" where
  "derive_action_items p phase =
     (case phase of
        PH_Asking \<Rightarrow>
          (let actions = map (answer_action (dp_id p)) (filter must_answer (prv_questions (dp_current p))) in
           if actions = []
           then [plan_action_new (dp_id p) PAK_ReviewPlanDraft (dec (dp_version p)) ''Draft plan''
             ''The plan is in the ask phase but has no required open questions.''
             [PAK_ReviewPlanDraft, PAK_DraftGoal, PAK_Cancel]]
           else actions)
      | PH_DraftingPlan \<Rightarrow> [plan_action_new (dp_id p) PAK_ReviewPlanDraft (dec (dp_version p)) ''Review plan draft''
          ''The plan needs an accepted structure before goals are staged for execution.''
          [PAK_AcceptPlanDraft, PAK_DraftGoal, PAK_Cancel]]
      | PH_DraftingGoals \<Rightarrow> [plan_action_new (dp_id p) PAK_ReviewGoalDraft (dec (dp_version p)) ''Review drafted goals''
          ''The plan has staged goal-shaped work that needs review before execution.''
          [PAK_AcceptGoalIntoPlan, PAK_DraftGoal, PAK_AcceptPlanDraft, PAK_Cancel]]
      | PH_Reviewing \<Rightarrow> [review_action p]
      | PH_Accepting \<Rightarrow>
          (if dp_status p = PLS_ReadyForReview then [review_action p]
           else [plan_action_new (dp_id p) PAK_SubmitGoal (dec (dp_version p)) ''Submit accepted goals''
             ''The plan has been accepted and can be compiled into executable goal work.''
             [PAK_SubmitGoal, PAK_DraftGoal, PAK_Cancel]])
      | PH_Executing \<Rightarrow>
          [(plan_action_new (dp_id p) PAK_ReviewEvidence
              (case dp_compiled_goal_id p of Some g \<Rightarrow> g | None \<Rightarrow> dec (dp_version p)) ''Review execution evidence''
              ''The plan has compiled goal work; review evidence before confirming satisfaction.''
              [PAK_ReviewEvidence, PAK_Retry, PAK_Replan, PAK_ConfirmSatisfaction, PAK_Cancel])
            (| pai_goal_id := dp_compiled_goal_id p |)]
      | PH_Satisfied \<Rightarrow> []
      | PH_Cancelled \<Rightarrow> [])"

definition refresh_phase_and_actions :: "durable_plan \<Rightarrow> durable_plan" where
  "refresh_phase_and_actions p =
     (let q = p (| dp_phase := derive_phase p |) in q (| dp_action_items := derive_action_items q (dp_phase q) |))"

section \<open>Operations\<close>

definition first_revision :: "string \<Rightarrow> uuid \<Rightarrow> plan_draft_request \<Rightarrow> plan_revision" where
  "first_revision at i q = (|
     prv_id = i, prv_version = 1, prv_author = unwrap_or (pdr_author q) ''operator'',
     prv_summary = unwrap_or (pdr_summary q)
       ''Initial durable plan draft; refine questions, subgoals, and initial tasks before compiling to a GoalSpec.'',
     prv_operator_message = Some (pdr_prompt q), prv_authoring = pdr_authoring q, prv_plan = pdr_plan q,
     prv_initial_tasks = pdr_initial_tasks q, prv_questions = pdr_questions q, prv_decisions = pdr_decisions q,
     prv_created_at = Some at |)"

text \<open>\<open>i\<close> is the identifier of the revision, \<open>j\<close> the one drawn when the request names none.\<close>

definition draft_plan :: "string \<Rightarrow> uuid \<Rightarrow> uuid \<Rightarrow> plan_draft_request \<Rightarrow> durable_plan" where
  "draft_plan at i j q =
     (let r = first_revision at i q in
      refresh_phase_and_actions (|
        dp_id = unwrap_or (pdr_plan_id q) j, dp_source_plan_id = pdr_source_plan_id q, dp_title = pdr_title q,
        dp_objective = pdr_objective q, dp_repo = pdr_repo q,
        dp_status = (if \<exists>x \<in> set (prv_questions r). must_answer x then PLS_NeedsQuestions
          else unwrap_or (pdr_status q) PLS_Draft),
        dp_phase = plan_phase_default, dp_mode = pdr_mode q, dp_version = 1, dp_source_prompt = pdr_prompt q,
        dp_current = r, dp_action_items = [], dp_revisions = [r], dp_candidate_votes = [],
        dp_selected_candidate = None, dp_compiled_goal_id = None, dp_compiled_quality = None,
        dp_created_at = Some at, dp_updated_at = Some at |))"

definition plan_summary :: "durable_plan \<Rightarrow> durable_plan_summary" where
  "plan_summary p = (|
     dps_plan_id = dp_id p, dps_source_plan_id = dp_source_plan_id p, dps_title = dp_title p,
     dps_objective = dp_objective p, dps_repo = dp_repo p, dps_status = dp_status p, dps_phase = dp_phase p,
     dps_mode = dp_mode p, dps_version = dp_version p,
     dps_subgoal_count = as_u32 (length (pl_subgoals (prv_plan (dp_current p)))),
     dps_initial_task_count = as_u32 (length (prv_initial_tasks (dp_current p))),
     dps_action_item_count = as_u32 (length (dp_action_items p)),
     dps_open_question_count = as_u32 (length (filter (\<lambda>x. pqn_status x = PQS_Open) (prv_questions (dp_current p)))),
     dps_compiled_goal_id = dp_compiled_goal_id p, dps_updated_at = dp_updated_at p |)"

definition next_revision :: "string \<Rightarrow> uuid \<Rightarrow> durable_plan \<Rightarrow> plan_revision_request \<Rightarrow> plan_revision" where
  "next_revision at i p q =
     (let base = dp_current p; version = as_u32 (dp_version p + 1) in (|
        prv_id = i, prv_version = version, prv_author = unwrap_or (prr_author q) ''operator'',
        prv_summary = unwrap_or (prr_summary q) (''Plan revision '' @ dec version),
        prv_operator_message = prr_operator_message q,
        prv_authoring = unwrap_or (prr_authoring q) (prv_authoring base),
        prv_plan = unwrap_or (prr_plan q) (prv_plan base),
        prv_initial_tasks = unwrap_or (prr_initial_tasks q) (prv_initial_tasks base),
        prv_questions = (if prr_questions q = [] then prv_questions base else prr_questions q),
        prv_decisions = (if prr_decisions q = [] then prv_decisions base else prr_decisions q),
        prv_created_at = Some at |))"

definition apply_revision :: "string \<Rightarrow> uuid \<Rightarrow> plan_revision_request \<Rightarrow> durable_plan \<Rightarrow> durable_plan" where
  "apply_revision at i q p =
     (let r = next_revision at i p q in
      refresh_phase_and_actions (p (|
        dp_version := prv_version r,
        dp_status := unwrap_or (prr_status q)
          (if \<exists>x \<in> set (prv_questions r). must_answer x then PLS_NeedsQuestions else PLS_ReadyForReview),
        dp_current := r, dp_revisions := dp_revisions p @ [r], dp_updated_at := Some at,
        dp_compiled_goal_id := None, dp_compiled_quality := None, dp_selected_candidate := None |)))"

definition candidate_vote_of :: "string \<Rightarrow> uuid \<Rightarrow> plan_candidate_vote_request \<Rightarrow> durable_plan \<Rightarrow> plan_candidate_vote" where
  "candidate_vote_of at i q p = (|
     pcv_id = i, pcv_source_plan_id = dp_id p, pcv_candidate_plan_id = pcq_candidate_plan_id q,
     pcv_ranked_plan_ids = pcq_ranked_plan_ids q, pcv_voter = pcq_voter q, pcv_score = pcq_score q,
     pcv_confidence = pcq_confidence q, pcv_rationale = pcq_rationale q, pcv_evidence = pcq_evidence q,
     pcv_created_at = Some at |)"

definition record_candidate_vote :: "string \<Rightarrow> uuid \<Rightarrow> plan_candidate_vote_request \<Rightarrow> durable_plan \<Rightarrow> durable_plan" where
  "record_candidate_vote at i q p =
     refresh_phase_and_actions (p (| dp_candidate_votes := dp_candidate_votes p @ [candidate_vote_of at i q p],
       dp_updated_at := Some at |))"

definition selection_of ::
  "string \<Rightarrow> plan_candidate_selection_request \<Rightarrow> uuid option \<Rightarrow> durable_plan \<Rightarrow> plan_candidate_selection" where
  "selection_of at q compiled p = (|
     psl_source_plan_id = dp_id p, psl_candidate_plan_id = psq_candidate_plan_id q, psl_selector = psq_selector q,
     psl_reason = psq_reason q, psl_operator = psq_operator q, psl_selected_compiled_goal_id = compiled,
     psl_selected_at = Some at |)"

definition select_candidate_plan ::
  "string \<Rightarrow> plan_candidate_selection_request \<Rightarrow> uuid option \<Rightarrow> durable_plan \<Rightarrow> durable_plan" where
  "select_candidate_plan at q compiled p =
     refresh_phase_and_actions (p (| dp_selected_candidate := Some (selection_of at q compiled p),
       dp_status := PLS_Superseded, dp_updated_at := Some at |))"

definition goal_spec_new :: "uuid \<Rightarrow> string \<Rightarrow> string \<Rightarrow> goal_spec" where
  "goal_spec_new i title objective = (|
     gsp_id = i, gsp_title = title, gsp_objective = objective, gsp_repo = None,
     gsp_authoring = goal_authoring_guidance_default, gsp_plan = goal_plan_default,
     gsp_root_budget = default_goal, gsp_done_criteria = done_criteria_default,
     gsp_review_policy = review_policy_default, gsp_control_policy = control_loop_policy_default,
     gsp_research_policy = research_policy_default, gsp_memory_policy = memory_policy_default,
     gsp_approval_policy = approval_gate_policy_default, gsp_restart_policy = restart_policy_default,
     gsp_timeout_policy = timeout_policy_default, gsp_branching_policy = branching_policy_default,
     gsp_ranking_policy = goal_ranking_policy_default, gsp_mechanism_policy = mechanism_policy_default,
     gsp_default_execution = execution_profile_default, gsp_initial_tasks = [] |)"

definition strict_review_policy :: "review_policy \<Rightarrow> review_policy" where
  "strict_review_policy r =
     (let d = strict_engineering (| rd_enabled := True |);
          c = (rd_coverage d) (| rdc_require_objective_results := True, rdc_require_gate_results := True,
                rdc_require_required_evidence := True, rdc_min_objective_score := Some f32_0_85 |)
      in r (| rvp_doctrine := d (| rd_coverage := c |), rvp_min_reviews := max (rvp_min_reviews r) 1,
              rvp_reviewer_roles := [WK_Reviewer, WK_Tester, WK_FormalMethods] |))"

definition compiled_goal :: "uuid \<Rightarrow> plan_compile_request \<Rightarrow> durable_plan \<Rightarrow> goal_spec" where
  "compiled_goal i q p =
     (let g = goal_spec_new i (unwrap_or (pcr_title_override q) (dp_title p)) (unwrap_or (pcr_objective_override q) (dp_objective p));
          g = g (| gsp_id := unwrap_or (pcr_goal_id q) (gsp_id g), gsp_repo := dp_repo p,
                   gsp_authoring := prv_authoring (dp_current p), gsp_plan := prv_plan (dp_current p),
                   gsp_initial_tasks := prv_initial_tasks (dp_current p) |);
          g = (if pcr_human_steered q
               then g (| gsp_control_policy := (gsp_control_policy g) (| cl_mode := CLM_HumanSteeredContinuous |) |) else g);
          g = (if pcr_enable_branching q
               then g (| gsp_branching_policy := (gsp_branching_policy g) (| bp_enabled := True |) |) else g)
      in if pcr_strict_review q then g (| gsp_review_policy := strict_review_policy (gsp_review_policy g) |) else g)"

definition compile_goal :: "string \<Rightarrow> uuid \<Rightarrow> plan_compile_request \<Rightarrow> durable_plan \<Rightarrow> plan_compile_result \<times> durable_plan" where
  "compile_goal at i q p =
     (let g = compiled_goal i q p; quality = quality_report g in
      ((| pcs_plan_id = dp_id p, pcs_goal = g, pcs_quality = quality |),
       refresh_phase_and_actions (p (| dp_status := PLS_Compiled, dp_compiled_goal_id := Some (gsp_id g),
         dp_compiled_quality := Some quality, dp_updated_at := Some at |))))"

section \<open>When a goal is ready\<close>

text \<open>The checklist of \<open>quality_report\<close>, stated as conditions on the goal.\<close>

definition plan_readable :: "goal_plan \<Rightarrow> child_task_request list \<Rightarrow> bool" where
  "plan_readable plan ts \<longleftrightarrow>
     distinct (map sg_id (pl_subgoals plan)) \<and>
     (\<forall>g \<in> set (pl_subgoals plan). \<not> blank (sg_id g) \<and> \<not> blank (sg_title g)) \<and>
     (\<forall>t \<in> set ts. \<not> blank (ctr_prompt t))"

definition doctrine_covered :: "review_doctrine \<Rightarrow> bool" where
  "doctrine_covered d \<longleftrightarrow>
     (rd_enabled d \<longrightarrow> resolved_objectives d \<noteq> [] \<and>
        (rdc_require_gate_results (rd_coverage d) \<longrightarrow> resolved_validation_gates d \<noteq> []))"

definition goal_ready :: "goal_spec \<Rightarrow> bool" where
  "goal_ready g \<longleftrightarrow>
     4 \<le> length (trim (gsp_title g)) \<and> 20 \<le> length (trim (gsp_objective g)) \<and>
     (dc_tests_pass (gsp_done_criteria g) \<or> dc_artifact_exists (gsp_done_criteria g) \<or> dc_validator_score_min (gsp_done_criteria g) \<noteq> None) \<and>
     \<not> is_exhausted (gsp_root_budget g) \<and> 0 < cl_max_frontier_rounds (gsp_control_policy g) \<and>
     doctrine_covered (rvp_doctrine (gsp_review_policy g)) \<and>
     (mcp_access_mode (ep_mcp (gsp_default_execution g)) = MAM_MultiUserOidc \<longrightarrow>
        mcp_user (ep_mcp (gsp_default_execution g)) \<noteq> None \<and> mcp_oidc_delegation (ep_mcp (gsp_default_execution g)) \<noteq> None) \<and>
     plan_readable (gsp_plan g) (gsp_initial_tasks g)"

lemma if_so_Nil [simp]: "if_so c x = [] \<longleftrightarrow> \<not> c"
  by (simp add: if_so_def)

lemma subgoals_missing_Nil:
  "subgoals_missing seen gs = [] \<longleftrightarrow>
     distinct (map sg_id gs) \<and> set (map sg_id gs) \<inter> set seen = {} \<and> (\<forall>g \<in> set gs. \<not> blank (sg_id g) \<and> \<not> blank (sg_title g))"
  by (induction gs arbitrary: seen) auto

lemma tasks_missing_Nil: "tasks_missing ts = [] \<longleftrightarrow> (\<forall>t \<in> set ts. \<not> blank (ctr_prompt t))"
  by (simp add: tasks_missing_def)

lemma goal_missing_Nil:
  "goal_missing g @ subgoals_missing [] (pl_subgoals (gsp_plan g)) @ tasks_missing (gsp_initial_tasks g) = [] \<longleftrightarrow> goal_ready g"
  unfolding goal_ready_def plan_readable_def goal_missing_def append_is_Nil_conv if_so_Nil subgoals_missing_Nil tasks_missing_Nil Let_def
    doctrine_covered_def
  by (auto simp: not_less)

lemma quality_ready: "gqr_ready (quality_report g) \<longleftrightarrow> goal_ready g"
  using goal_missing_Nil [of g] by (simp add: quality_report_def Let_def)

section \<open>The history of a plan\<close>

text \<open>What a client can do to a plan.\<close>

datatype (plugins only: code size) plan_event =
    PE_Revise string uuid plan_revision_request
  | PE_Vote string uuid plan_candidate_vote_request
  | PE_Select string plan_candidate_selection_request "uuid option"
  | PE_Compile string uuid plan_compile_request

fun plan_step :: "plan_event \<Rightarrow> durable_plan \<Rightarrow> durable_plan" where
  "plan_step (PE_Revise at i q) p = apply_revision at i q p"
| "plan_step (PE_Vote at i q) p = record_candidate_vote at i q p"
| "plan_step (PE_Select at q c) p = select_candidate_plan at q c p"
| "plan_step (PE_Compile at i q) p = snd (compile_goal at i q p)"

inductive plan_reachable :: "durable_plan \<Rightarrow> bool" where
  drafted: "plan_reachable (draft_plan at i j q)"
| stepped: "plan_reachable p \<Longrightarrow> plan_reachable (plan_step e p)"

definition revisions_ok :: "durable_plan \<Rightarrow> bool" where
  "revisions_ok p \<longleftrightarrow> dp_revisions p \<noteq> [] \<and> dp_current p = last (dp_revisions p) \<and>
     dp_version p = as_u32 (length (dp_revisions p)) \<and>
     (\<forall>k < length (dp_revisions p). prv_version (dp_revisions p ! k) = as_u32 (k + 1))"

definition compiled_ok :: "durable_plan \<Rightarrow> bool" where
  "compiled_ok p \<longleftrightarrow> map_option gqr_goal_id (dp_compiled_quality p) = dp_compiled_goal_id p \<and>
     (\<forall>v \<in> set (dp_candidate_votes p). pcv_source_plan_id v = dp_id p) \<and>
     (\<forall>x \<in> set_option (dp_selected_candidate p). psl_source_plan_id x = dp_id p) \<and>
     (dp_compiled_goal_id p \<noteq> None \<longrightarrow> dp_status p \<in> {PLS_Compiled, PLS_Superseded})"

definition derived_ok :: "durable_plan \<Rightarrow> bool" where
  "derived_ok p \<longleftrightarrow> dp_phase p = derive_phase p \<and> dp_action_items p = derive_action_items p (derive_phase p)"

lemma refresh_simps [simp]:
  "revisions_ok (refresh_phase_and_actions p) = revisions_ok p"
  "compiled_ok (refresh_phase_and_actions p) = compiled_ok p"
  "dp_status (refresh_phase_and_actions p) = dp_status p" "dp_id (refresh_phase_and_actions p) = dp_id p"
  by (simp_all add: refresh_phase_and_actions_def revisions_ok_def compiled_ok_def Let_def)

lemma derive_irrelevant [simp]:
  "derive_phase (p (| dp_phase := x |)) = derive_phase p"
  "derive_phase (p (| dp_action_items := y |)) = derive_phase p"
  "derive_action_items (p (| dp_phase := x |)) ph = derive_action_items p ph"
  "derive_action_items (p (| dp_action_items := y |)) ph = derive_action_items p ph"
  by (cases p, simp only: derive_phase_def derive_action_items_def review_action_def durable_plan.select_convs durable_plan.update_convs)+

lemma derived_refresh [simp]: "derived_ok (refresh_phase_and_actions p)"
  by (simp add: derived_ok_def refresh_phase_and_actions_def Let_def)

lemma as_u32_Suc: "as_u32 (as_u32 n + 1) = as_u32 (n + 1)"
  by (simp add: as_u32_def mod_simps)

lemma revisions_ok_push:
  assumes "revisions_ok p" and "prv_version r = as_u32 (dp_version p + 1)"
  shows "revisions_ok (p (| dp_version := prv_version r, dp_status := st, dp_current := r, dp_revisions := dp_revisions p @ [r],
     dp_updated_at := at, dp_compiled_goal_id := None, dp_compiled_quality := None, dp_selected_candidate := None |))"
  using assms as_u32_Suc by (auto simp: revisions_ok_def nth_append less_Suc_eq)

lemma compiled_ok_push:
  "compiled_ok p \<Longrightarrow> compiled_ok (p (| dp_version := n, dp_status := st, dp_current := r, dp_revisions := rs,
     dp_updated_at := at, dp_compiled_goal_id := None, dp_compiled_quality := None, dp_selected_candidate := None |))"
  by (simp add: compiled_ok_def)

lemma plan_step_ok:
  assumes "revisions_ok p" and "compiled_ok p"
  shows "revisions_ok (plan_step e p) \<and> compiled_ok (plan_step e p) \<and> derived_ok (plan_step e p)"
proof (cases e)
  case (PE_Revise at i q)
  have "prv_version (next_revision at i p q) = as_u32 (dp_version p + 1)" by (simp add: next_revision_def Let_def)
  from revisions_ok_push [OF assms(1) this] compiled_ok_push [OF assms(2)] show ?thesis
    unfolding PE_Revise plan_step.simps apply_revision_def Let_def refresh_simps by simp
next
  case (PE_Vote at i q)
  have "revisions_ok (p (| dp_candidate_votes := dp_candidate_votes p @ [candidate_vote_of at i q p], dp_updated_at := Some at |))"
    "compiled_ok (p (| dp_candidate_votes := dp_candidate_votes p @ [candidate_vote_of at i q p], dp_updated_at := Some at |))"
    using assms by (auto simp: revisions_ok_def compiled_ok_def candidate_vote_of_def)
  then show ?thesis unfolding PE_Vote plan_step.simps record_candidate_vote_def refresh_simps by simp
next
  case (PE_Select at q c)
  have "revisions_ok (p (| dp_selected_candidate := Some (selection_of at q c p), dp_status := PLS_Superseded, dp_updated_at := Some at |))"
    "compiled_ok (p (| dp_selected_candidate := Some (selection_of at q c p), dp_status := PLS_Superseded, dp_updated_at := Some at |))"
    using assms by (simp_all add: revisions_ok_def compiled_ok_def selection_of_def)
  then show ?thesis unfolding PE_Select plan_step.simps select_candidate_plan_def refresh_simps by simp
next
  case (PE_Compile at i q)
  let ?p = "p (| dp_status := PLS_Compiled, dp_compiled_goal_id := Some (gsp_id (compiled_goal i q p)),
     dp_compiled_quality := Some (quality_report (compiled_goal i q p)), dp_updated_at := Some at |)"
  have "gqr_goal_id (quality_report g) = gsp_id g" for g by (simp add: quality_report_def Let_def)
  then have "revisions_ok ?p" "compiled_ok ?p"
    using assms by (simp_all add: revisions_ok_def compiled_ok_def)
  then show ?thesis unfolding PE_Compile plan_step.simps compile_goal_def Let_def snd_conv refresh_simps by simp
qed

lemma plan_reachable_ok: "plan_reachable p \<Longrightarrow> revisions_ok p \<and> compiled_ok p \<and> derived_ok p"
proof (induction rule: plan_reachable.induct)
  case (drafted at i j q)
  then show ?case
    by (simp add: draft_plan_def Let_def) (simp add: revisions_ok_def compiled_ok_def first_revision_def as_u32_def)
next
  case (stepped p e)
  then show ?case using plan_step_ok by blast
qed

section \<open>Properties\<close>

lemma validate_actions_Inr: "validate_actions as = Inr () \<longleftrightarrow> (\<forall>a \<in> set as. pai_allowed_actions a \<noteq> [])"
  by (induction as) (simp_all add: validate_action_def)

lemma plan_action_new_simps [simp]:
  "pai_plan_id (plan_action_new i k x t m acts) = i" "pai_allowed_actions (plan_action_new i k x t m acts) = acts"
  "pai_status (plan_action_new i k x t m acts) = PAS_Pending" "pai_kind (plan_action_new i k x t m acts) = k"
  by (simp_all add: plan_action_new_def)

lemma answer_action_simps [simp]:
  "pai_plan_id (answer_action i q) = i" "pai_allowed_actions (answer_action i q) \<noteq> []"
  "pai_status (answer_action i q) = PAS_Pending" "pai_kind (answer_action i q) = PAK_AnswerQuestion"
  by (simp_all add: answer_action_def)

lemma derived_actions:
  "\<forall>a \<in> set (derive_action_items p ph). pai_plan_id a = dp_id p \<and> pai_status a = PAS_Pending \<and> pai_allowed_actions a \<noteq> []"
  by (cases ph; simp add: derive_action_items_def review_action_def Let_def)

lemma no_derived_actions: "derive_action_items p ph = [] \<longleftrightarrow> ph \<in> {PH_Satisfied, PH_Cancelled}"
  by (cases ph; simp add: derive_action_items_def Let_def)

lemma final_phase: "derive_phase p \<in> {PH_Satisfied, PH_Cancelled} \<longleftrightarrow> dp_status p \<in> {PLS_Superseded, PLS_Archived}"
  by (cases "dp_status p"; simp add: derive_phase_def)

lemma plan_history_is_sound_parts:
  assumes "plan_reachable p"
  shows "revisions_ok p" and "compiled_ok p" and "validate_action_items p = Inr ()"
    and "\<forall>a \<in> set (dp_action_items p). pai_plan_id a = dp_id p \<and> pai_status a = PAS_Pending"
    and "dp_action_items p = [] \<longleftrightarrow> dp_status p \<in> {PLS_Superseded, PLS_Archived}"
proof -
  have ok: "revisions_ok p" "compiled_ok p" and d: "dp_action_items p = derive_action_items p (derive_phase p)"
    using plan_reachable_ok [OF assms] by (simp_all add: derived_ok_def)
  from ok show "revisions_ok p" "compiled_ok p" .
  show "validate_action_items p = Inr ()"
    using derived_actions [of p "derive_phase p"] by (simp add: validate_action_items_def validate_actions_Inr d)
  show "\<forall>a \<in> set (dp_action_items p). pai_plan_id a = dp_id p \<and> pai_status a = PAS_Pending"
    using derived_actions [of p "derive_phase p"] by (simp add: d)
  show "dp_action_items p = [] \<longleftrightarrow> dp_status p \<in> {PLS_Superseded, PLS_Archived}"
    unfolding d no_derived_actions final_phase ..
qed

text \<open>
  C14: The history of a plan is sound.  After drafting and any sequence of revisions, votes, selections and
  compilations: revisions are numbered from 1 without gaps, modulo 2^32, the current one is the last and gives
  the version; a compiled goal has the quality report of that goal and its plan is Compiled or Superseded; votes and the selection name this plan;
  the plan passes \<open>validate_action_items\<close>; every action offered is pending, for this plan and allows
  something; and the operator is offered an action unless the plan is Superseded or Archived.
\<close>
theorem plan_history_is_sound:
  assumes "plan_reachable p"
  shows "revisions_ok p \<and> compiled_ok p \<and> validate_action_items p = Inr () \<and>
    (\<forall>a \<in> set (dp_action_items p). pai_plan_id a = dp_id p \<and> pai_status a = PAS_Pending) \<and>
    (dp_action_items p = [] \<longleftrightarrow> dp_status p \<in> {PLS_Superseded, PLS_Archived})"
  by (intro conjI plan_history_is_sound_parts [OF assms])

definition sample_draft :: plan_draft_request where
  "sample_draft = (| pdr_plan_id = Some ''p'', pdr_source_plan_id = None, pdr_title = ''Plan'', pdr_objective = ''Ship it'',
     pdr_repo = None, pdr_prompt = ''ship'', pdr_mode = PM_Interactive, pdr_status = None, pdr_author = None,
     pdr_summary = None, pdr_authoring = goal_authoring_guidance_default, pdr_plan = goal_plan_default,
     pdr_initial_tasks = [], pdr_questions = [], pdr_decisions = [] |)"

theorem plan_history_is_sound_witness:
  "dp_action_items (draft_plan ''t'' ''r'' ''x'' sample_draft) \<noteq> []"
proof -
  have "dp_status (draft_plan ''t'' ''r'' ''x'' sample_draft) = PLS_Draft"
    by (simp add: draft_plan_def Let_def first_revision_def sample_draft_def unwrap_or_def)
  with plan_history_is_sound [OF drafted, of "''t''" "''r''" "''x''" sample_draft] show ?thesis by simp
qed

lemma bt_insert_not_Nil [simp]: "bt_insert k v m \<noteq> []"
  by (cases m) (auto split: if_splits)

lemma keyed_Nil [simp]: "keyed key items = [] \<longleftrightarrow> items = []"
proof -
  have "m \<noteq> [] \<or> ps \<noteq> [] \<Longrightarrow> foldl (\<lambda>m p. bt_insert (fst p) (snd p) m) m ps \<noteq> []" for m and ps :: "(string \<times> 'a) list"
    by (induction ps arbitrary: m) auto
  then show ?thesis by (cases items) (auto simp: keyed_def bt_of_list_def split_def)
qed

lemma strict_doctrine_covered: "doctrine_covered (strict_engineering (| rd_coverage := c |))"
  by (simp add: doctrine_covered_def resolved_objectives_def resolved_validation_gates_def bt_values_def
      apply_objective_overrides_def apply_gate_overrides_def apply_overrides_def strict_engineering_def)

lemma quality_report_is_exact_parts:
  shows "gqr_ready (quality_report g) \<longleftrightarrow> goal_ready g"
    and "gqr_ready (pcs_quality (fst (compile_goal at i q p))) \<longleftrightarrow>
      4 \<le> length (trim (unwrap_or (pcr_title_override q) (dp_title p))) \<and>
      20 \<le> length (trim (unwrap_or (pcr_objective_override q) (dp_objective p))) \<and>
      plan_readable (prv_plan (dp_current p)) (prv_initial_tasks (dp_current p))"
proof -
  show "gqr_ready (quality_report g) \<longleftrightarrow> goal_ready g" by (rule quality_ready)
  let ?g = "compiled_goal i q p"
  have "gsp_title ?g = unwrap_or (pcr_title_override q) (dp_title p)" "gsp_objective ?g = unwrap_or (pcr_objective_override q) (dp_objective p)"
    "gsp_done_criteria ?g = done_criteria_default" "gsp_root_budget ?g = default_goal"
    "cl_max_frontier_rounds (gsp_control_policy ?g) = 128" "gsp_default_execution ?g = execution_profile_default"
    "gsp_plan ?g = prv_plan (dp_current p)" "gsp_initial_tasks ?g = prv_initial_tasks (dp_current p)"
    by (simp_all add: compiled_goal_def goal_spec_new_def Let_def control_loop_policy_default_def)
  moreover have "doctrine_covered (rvp_doctrine (gsp_review_policy ?g))"
  proof (cases "pcr_strict_review q")
    case True
    have "rd_enabled strict_engineering" by (simp add: strict_engineering_def)
    then have "strict_engineering (| rd_enabled := True |) = strict_engineering" by simp
    with True strict_doctrine_covered show ?thesis
      by (simp add: compiled_goal_def strict_review_policy_def Let_def)
  next
    case False
    then show ?thesis
      by (simp add: compiled_goal_def goal_spec_new_def Let_def review_policy_default_def doctrine_covered_def review_doctrine_default_def)
  qed
  ultimately show "gqr_ready (pcs_quality (fst (compile_goal at i q p))) \<longleftrightarrow>
      4 \<le> length (trim (unwrap_or (pcr_title_override q) (dp_title p))) \<and>
      20 \<le> length (trim (unwrap_or (pcr_objective_override q) (dp_objective p))) \<and>
      plan_readable (prv_plan (dp_current p)) (prv_initial_tasks (dp_current p))"
    by (simp add: compile_goal_def Let_def quality_ready goal_ready_def done_criteria_default_def default_goal_def
        is_exhausted_def execution_profile_default_def mcp_context_ref_default_def)
qed

text \<open>
  C33: The quality report is exact.  A goal is reported ready exactly when it meets the checklist stated
  independently in \<open>goal_ready\<close>; for the goal that a plan compiles to, whatever the options, that comes
  down to a title of 4 and an objective of 20 bytes and a readable plan: distinct subgoal identifiers, no blank
  identifier, title or prompt.
\<close>
theorem quality_report_is_exact:
  "(gqr_ready (quality_report g) \<longleftrightarrow> goal_ready g) \<and>
   (gqr_ready (pcs_quality (fst (compile_goal at i q p))) \<longleftrightarrow>
      4 \<le> length (trim (unwrap_or (pcr_title_override q) (dp_title p))) \<and>
      20 \<le> length (trim (unwrap_or (pcr_objective_override q) (dp_objective p))) \<and>
      plan_readable (prv_plan (dp_current p)) (prv_initial_tasks (dp_current p)))"
  by (intro conjI quality_report_is_exact_parts)

end
