(* ===== verification/Anchors.thy ===== *)
theory Anchors
  imports Lifecycle
begin

text \<open>
  In every reachable state a thunk that waits for a task names a task of the goal.  No operation
  removes a task, and only \<open>create_delayed_compute_thunk\<close> adds a thunk, after it has looked the task up.
\<close>

definition anchored :: "uuid option set \<Rightarrow> world \<Rightarrow> bool" where
  "anchored A w \<longleftrightarrow> dt_task_id ` set (gs_delayed_compute_thunks w) \<subseteq> A"

definition thunk_tasks_known :: "'a goal_state_scheme \<Rightarrow> bool" where
  "thunk_tasks_known s \<longleftrightarrow>
     (\<forall>d \<in> set (gs_delayed_compute_thunks s). case dt_task_id d of None \<Rightarrow> True | Some i \<Rightarrow> bt_get (gs_tasks s) i \<noteq> None)"

named_theorems anchor_rules "operations that add no thunk of another task"

lemma anchored_update:
  assumes "\<And>w. dt_task_id ` set (gs_delayed_compute_thunks (f w)) \<subseteq> dt_task_id ` set (gs_delayed_compute_thunks w)"
  shows "preserves (anchored A) (update f)"
  unfolding anchored_def by (rule preserves_update) (rule subset_trans [OF assms])

lemma anchored_frame:
  "(\<And>w. gs_delayed_compute_thunks (f w) = gs_delayed_compute_thunks w) \<Longrightarrow> preserves (anchored A) (update f)"
  by (rule anchored_update) simp

lemma anchored_view:
  assumes "\<And>v. preserves (\<lambda>w. gs_delayed_compute_thunks w = v) m"
  shows "preserves (anchored A) m"
proof (rule preservesI)
  fix w assume "anchored A w"
  moreover have "gs_delayed_compute_thunks (snd (m w)) = gs_delayed_compute_thunks w" by (rule frameD [OF assms])
  ultimately show "anchored A (snd (m w))" by (simp add: anchored_def)
qed

lemma anchored_new_uuid [anchor_rules]: "preserves (anchored A) new_uuid"
  unfolding new_uuid_def by (rule preserves_draw) (simp add: anchored_def)

lemma anchored_now [anchor_rules]: "preserves (anchored A) now"
  unfolding now_def by (rule preserves_draw) (simp add: anchored_def)

lemma anchored_push_event [anchor_rules]: "preserves (anchored A) (push_event m)"
  unfolding push_event_def by (rule anchored_frame) simp

lemma anchored_put_task [anchor_rules]: "preserves (anchored A) (put_task i f)"
  unfolding put_task_def by (rule anchored_frame) simp

lemma anchored_modify_task [anchor_rules]: "preserves (anchored A) (modify_task i f)"
  unfolding modify_task_def by (intro anchor_rules preserves_bindR preserves_task_mut)

lemma anchored_set_task_status [anchor_rules]: "preserves (anchored A) (set_task_status i s)"
  unfolding set_task_status_def by (intro anchor_rules)

lemma anchored_refresh [anchor_rules]: "preserves (anchored A) refresh_goal_status"
  unfolding refresh_goal_status_def by (rule anchored_frame) simp

lemma anchored_insert_child_task [anchor_rules]: "preserves (anchored A) (insert_child_task p t r)"
  unfolding insert_child_task_def insert_task_def
  by (intro anchor_rules preserves_bindR preserves_ok anchored_frame) simp

lemma anchored_create:
  assumes "dtr_task_id r \<in> A"
  shows "preserves (anchored A) (create_delayed_compute_thunk r)"
proof -
  have push [anchor_rules]: "preserves (anchored A) (push_thunk (thunk_for r g i c))" for g i c
    unfolding push_thunk_def by (rule preserves_update) (simp add: anchored_def assms)
  show ?thesis
    unfolding create_delayed_compute_thunk_def add_thunk_def suspend_task_def Let_def
    by (intro anchor_rules preserves_bindR preserves_lift_result preserves_reads preserves_if preserves_fail
        preserves_ok preserves_case_option)
qed

lemma anchored_update_thunk [anchor_rules]:
  assumes "\<And>d. dt_task_id (f d) = dt_task_id d"
  shows "preserves (anchored A) (update_thunk k f)"
  unfolding update_thunk_def
proof (rule anchored_update, rule subsetI)
  fix w x assume x: "x \<in> dt_task_id ` set (gs_delayed_compute_thunks (w (| gs_delayed_compute_thunks :=
     (gs_delayed_compute_thunks w)[k := f (gs_delayed_compute_thunks w ! k)] |)))" (is "x \<in> dt_task_id ` set ?ds")
  show "x \<in> dt_task_id ` set (gs_delayed_compute_thunks w)"
  proof (cases "k < length (gs_delayed_compute_thunks w)")
    case True
    have "map dt_task_id ?ds = map dt_task_id (gs_delayed_compute_thunks w)"
      using True by (auto intro: nth_equalityI simp: assms nth_list_update)
    with x show ?thesis by (metis list.set_map)
  next
    case False
    with x show ?thesis by (simp add: list_update_beyond)
  qed
qed

lemma anchored_resume [anchor_rules]: "preserves (anchored A) (resume_delayed_compute_thunk r)"
  unfolding resume_delayed_compute_thunk_def Let_def
  by (intro anchor_rules preserves_bindR preserves_lift_result preserves_reads preserves_if preserves_fail
      preserves_ok preserves_case_option) (simp add: resumed_def)

lemma anchored_map:
  assumes "\<And>d. dt_task_id (f d) = dt_task_id d"
    and "\<And>w. gs_delayed_compute_thunks (g w) = map f (gs_delayed_compute_thunks w)"
  shows "preserves (anchored A) (update g)"
  by (rule anchored_update) (simp add: assms image_image)

lemma anchored_retire_waits [anchor_rules]: "preserves (anchored A) (update (retire_waits ids))"
  by (rule anchored_map [where f = "\<lambda>d. if retire_thunk ids d then d (| dt_status := DS_Cancelled |) else d"])
     (simp_all add: retire_waits_def)

lemma anchored_cancel [anchor_rules]: "preserves (anchored A) (cancel reason)"
  unfolding cancel_def
  by (intro preserves_bindR anchor_rules, rule anchored_map [where f = cancel_thunk])
     (auto simp: cancel_thunk_def)

lemma anchored_restart [anchor_rules]: "preserves (anchored A) (apply_restart_request r)"
  unfolding apply_restart_request_def push_restart_def Let_def
  by (intro preserves_rules anchor_rules anchored_frame) (simp_all add: clear_artifacts_def wake_goal_def)

lemma anchored_timeout [anchor_rules]: "preserves (anchored A) (record_task_timeout_and_maybe_restart i n m)"
  unfolding record_task_timeout_and_maybe_restart_def push_timeout_def Let_def
  by (intro preserves_rules anchor_rules anchored_frame preserves_case_timeout) simp_all

lemma anchored_steering [anchor_rules]: "preserves (anchored A) (apply_steering d policy)"
  unfolding apply_steering_def push_directive_def
  by (intro preserves_rules anchor_rules anchored_frame anchored_view [OF thunk_goal.frame_steer]) simp_all

text \<open>An operation that keeps the tasks and adds no thunk of another task keeps the thunks' tasks known.\<close>

definition anchored_world :: "task_node set \<Rightarrow> world \<Rightarrow> bool" where
  "anchored_world T w \<longleftrightarrow> knows T w \<and> thunk_tasks_known w"

lemma thunk_tasks_known_alt:
  "thunk_tasks_known w \<longleftrightarrow> (\<forall>i. Some i \<in> dt_task_id ` set (gs_delayed_compute_thunks w) \<longrightarrow> bt_get (gs_tasks w) i \<noteq> None)"
  unfolding thunk_tasks_known_def by (force split: option.splits)

lemma known_tasks_kept:
  assumes "\<And>t. preserves (knows (insert t T)) m" and k: "knows T w" and "bt_get (gs_tasks w) i \<noteq> None"
  shows "bt_get (gs_tasks (snd (m w))) i \<noteq> None"
proof -
  obtain t where t: "bt_get (gs_tasks w) i = Some t" using assms(3) by blast
  then have i: "tn_id t = i" by (rule wf_world_id [OF knows_wf [OF k]])
  with t k have "knows (insert t T) w" by (simp add: knows_insert)
  then have "knows (insert t T) (snd (m w))" by (rule preservesD [OF assms(1)])
  with i show ?thesis by (auto simp: knows_insert)
qed

lemma anchored_worldI:
  assumes k: "\<And>T'. T \<subseteq> T' \<Longrightarrow> preserves (knows T') m" and w: "anchored_world T w"
    and sub: "\<And>i. Some i \<in> dt_task_id ` set (gs_delayed_compute_thunks (snd (m w))) \<Longrightarrow>
      Some i \<in> dt_task_id ` set (gs_delayed_compute_thunks w) \<or> bt_get (gs_tasks w) i \<noteq> None"
  shows "anchored_world T (snd (m w))"
proof -
  have T: "knows T w" and known: "thunk_tasks_known w" using w by (simp_all add: anchored_world_def)
  have "knows T (snd (m w))" by (rule preservesD [OF k T]) simp
  moreover have "bt_get (gs_tasks (snd (m w))) i \<noteq> None" if "bt_get (gs_tasks w) i \<noteq> None" for i
    by (rule known_tasks_kept [OF k T that]) blast
  ultimately show ?thesis
    using known sub unfolding anchored_world_def thunk_tasks_known_alt by blast
qed

lemma anchored_world_of:
  assumes k: "\<And>T'. T \<subseteq> T' \<Longrightarrow> preserves (knows T') m" and a: "\<And>A. preserves (anchored A) m"
  shows "preserves (anchored_world T) m"
proof (rule preservesI)
  fix w assume "anchored_world T w"
  moreover have "anchored (dt_task_id ` set (gs_delayed_compute_thunks w)) (snd (m w))"
    by (rule preservesD [OF a]) (simp add: anchored_def)
  ultimately show "anchored_world T (snd (m w))"
    by (intro anchored_worldI [OF k]) (auto simp: anchored_def)
qed

lemma create_needs_task:
  assumes "dtr_task_id r = Some i" and "bt_get (gs_tasks w) i = None"
  shows "gs_delayed_compute_thunks (snd (create_delayed_compute_thunk r w)) = gs_delayed_compute_thunks w"
proof -
  have "\<exists>e. add_thunk r w = (Inl e, w)"
    using assms by (simp add: add_thunk_def suspend_task_def bindR_def lift_result_def ensure_task_accepts_mutation_def task_def)
  then show ?thesis
    unfolding create_delayed_compute_thunk_def
    by (auto simp: bindR_def lift_result_def reads_def fail_def ok_def push_event_def update_def split: sum.splits option.splits if_splits)
qed

lemma anchored_world_create: "preserves (anchored_world T) (create_delayed_compute_thunk r)"
proof (rule preservesI)
  fix w assume w: "anchored_world T w"
  show "anchored_world T (snd (create_delayed_compute_thunk r w))"
  proof (rule anchored_worldI [OF preserves_wf_create_delayed_compute_thunk w])
    fix i assume i: "Some i \<in> dt_task_id ` set (gs_delayed_compute_thunks (snd (create_delayed_compute_thunk r w)))"
    have "anchored (insert (dtr_task_id r) (dt_task_id ` set (gs_delayed_compute_thunks w))) (snd (create_delayed_compute_thunk r w))"
      by (rule preservesD [OF anchored_create]) (auto simp: anchored_def)
    with i have "Some i = dtr_task_id r \<or> Some i \<in> dt_task_id ` set (gs_delayed_compute_thunks w)"
      by (auto simp: anchored_def)
    then show "Some i \<in> dt_task_id ` set (gs_delayed_compute_thunks w) \<or> bt_get (gs_tasks w) i \<noteq> None"
      using i create_needs_task [of r i w] by (cases "bt_get (gs_tasks w) i") auto
  qed
qed

lemma anchored_world_task:
  assumes "\<And>t. tn_id t = i \<Longrightarrow> preserves (anchored_world (insert t T)) (f t)"
  shows "preserves (anchored_world T) (bindR (task_mut i) f)"
proof (rule preservesI)
  fix w assume w: "anchored_world T w"
  then have k: "knows T w" by (simp add: anchored_world_def)
  show "anchored_world T (snd (bindR (task_mut i) f w))"
  proof (cases "task w i")
    case (Inl e)
    with w show ?thesis by (simp add: bindR_def)
  next
    case (Inr t)
    then have t: "bt_get (gs_tasks w) i = Some t" by simp
    with k have i: "tn_id t = i" using wf_world_id knows_wf by blast
    with w t have "anchored_world (insert t T) w" by (simp add: anchored_world_def knows_insert)
    with assms [OF i] have "anchored_world (insert t T) (snd (f t w))" by (rule preservesD)
    with t show ?thesis by (simp add: bindR_def anchored_world_def knows_insert task_def)
  qed
qed

lemma anchored_world_apply_agent_result: "preserves (anchored_world T) (apply_agent_result result policy)"
proof -
  have modify: "preserves (anchored_world T) (modify_task i (\<lambda>t. t (| tn_result := a, tn_status := st |)))" for T i a st
    by (rule anchored_world_of) (intro preserves_rules anchor_rules; simp add: task_shape_def)+
  have thunk: "preserves (anchored_world T) (create_result_thunk i r)" for T i r
    unfolding create_result_thunk_def
    by (intro anchored_world_create preserves_bindR preserves_reads preserves_if preserves_fail)
  have child: "preserves (anchored_world T) (insert_child_task p t r)" if "t \<in> T" "tn_id t = p" for T p t r
    using that by (intro anchored_world_of preserves_wf_insert_child_task anchor_rules) auto
  have event: "preserves (anchored_world T) (push_event m)" for T m
    by (intro anchored_world_of preserves_rules anchor_rules)
  have refresh: "preserves (anchored_world T) refresh_goal_status" for T
    by (intro anchored_world_of preserves_rules anchor_rules)
  show ?thesis
    unfolding apply_agent_result_def Let_def split_def
    by (intro anchored_world_task modify thunk child event refresh preserves_bindR preserves_lift_result preserves_reads
        preserves_for_each) auto
qed

lemma anchored_step:
  assumes w: "anchored_world {} w" and run: "fire u e w = Some v"
  shows "anchored_world {} v"
  by (rule fire_preserves [where P = "anchored_world {}", OF run w])
     (rule anchored_world_create anchored_world_apply_agent_result
       | (rule anchored_world_of, rule preserves_rules, rule anchored_view, rule thunk_frames)
       | (rule anchored_world_of, rule preserves_rules, rule anchor_rules)
       | (rule branch_task_keeps [OF anchored_world_of [OF preserves_wf_branch_task_with
            anchored_view [OF thunk_validation.frame_branch_task]] w], assumption))+

interpretation anchors: invariant_of thunk_tasks_known
proof unfold_locales
  fix goal w show "thunk_tasks_known (snd (goal_state_new goal w))"
    unfolding thunk_tasks_known_def new_goal_fields by simp
next
  fix w u e v assume "wf_world w" "thunk_tasks_known w" "fire u e w = Some v"
  then have "anchored_world {} v"
    by - (rule anchored_step [of w u e v], simp_all add: anchored_world_def knows_empty)
  then show "thunk_tasks_known v" by (simp add: anchored_world_def)
qed

end
