(* ===== verification/Progress.thy ===== *)
theory Progress
  imports Anchors Json
begin

text \<open>
  The read-only views of a goal (\<open>crates/domain/src/lib.rs\<close>): \<open>GoalState::progress\<close>,
  \<open>compute_graph\<close>, \<open>find_tasks\<close> and \<open>subgoal_progress\<close>.  What clients see of a goal, and what the
  coordinator projects into the goal store, is computed here.
\<close>

section \<open>Data\<close>

record task_progress =
  tpr_task_id :: uuid
  tpr_parent_id :: "uuid option"
  tpr_title :: string
  tpr_subgoal_id :: "string option"
  tpr_color :: "graph_color_ref option"
  tpr_status :: task_status
  tpr_role :: worker_kind
  tpr_purpose_kind :: task_purpose_kind
  tpr_depth :: nat
  tpr_priority :: task_priority
  tpr_tags :: "string list"
  tpr_attempts :: nat
  tpr_dependency_count :: nat
  tpr_child_count :: nat
  tpr_runnable :: bool
  tpr_blocked_by :: "uuid list"
  tpr_result :: "artifact_ref option"

datatype (plugins only: code size) subgoal_status =
    SGS_Planned
  | SGS_Open
  | SGS_Running
  | SGS_Done
  | SGS_Blocked
  | SGS_Failed

record subgoal_progress =
  spr_subgoal_id :: string
  spr_title :: "string option"
  spr_owner_role :: "worker_kind option"
  spr_color :: "graph_color_ref option"
  spr_status :: subgoal_status
  spr_total_tasks :: nat
  spr_open_tasks :: nat
  spr_terminal_ok_tasks :: nat
  spr_runnable_tasks :: "uuid list"
  spr_dependencies :: "string list"

datatype (plugins only: code size) node_kind =
    NK_Goal
  | NK_Task
  | NK_DelayedComputeThunk
  | NK_Continuation
  | NK_WaitRef
  | NK_MechanismRound

datatype (plugins only: code size) node_status =
    NS_Pending
  | NS_Runnable
  | NS_Running
  | NS_Waiting
  | NS_NeedsValidation
  | NS_Done
  | NS_Blocked
  | NS_Failed
  | NS_Cancelled
  | NS_Paused
  | NS_Resumed
  | NS_Expired
  | NS_RatificationRequired

datatype (plugins only: code size) edge_kind =
    EK_Owns
  | EK_ParentChild
  | EK_DependsOn
  | EK_SuspendsInto
  | EK_ResumesWith
  | EK_WaitsOn
  | EK_MechanismControls

record graph_node =
  gn_id :: string
  gn_kind :: node_kind
  gn_label :: string
  gn_status :: node_status
  gn_task_id :: "uuid option"
  gn_thunk_id :: "uuid option"
  gn_continuation_id :: "string option"
  gn_requested_input :: "string option"
  gn_wait_ref :: "wait_ref option"

record graph_edge =
  ge_from :: string
  ge_to :: string
  ge_kind :: edge_kind

record compute_graph_snapshot =
  cg_goal_id :: uuid
  cg_nodes :: "graph_node list"
  cg_edges :: "graph_edge list"
  cg_open_thunks :: nat
  cg_runnable_tasks :: "uuid list"
  cg_waiting_tasks :: "uuid list"

record goal_progress =
  gpr_goal_id :: uuid
  gpr_title :: string
  gpr_status :: goal_status
  gpr_total_tasks :: nat
  gpr_open_tasks :: nat
  gpr_terminal_ok_tasks :: nat
  gpr_blocked_tasks :: nat
  gpr_failed_tasks :: nat
  gpr_waiting_approval_tasks :: nat
  gpr_waiting_input_tasks :: nat
  gpr_percent_done :: f32
  gpr_by_status :: "(task_status, nat) btree"
  gpr_subgoals :: "subgoal_progress list"
  gpr_ranking :: goal_ranking_summary
  gpr_open_mechanism_rounds :: nat
  gpr_ratification_required_rounds :: nat
  gpr_pending_thunks :: nat
  gpr_compute_graph :: compute_graph_snapshot
  gpr_runnable_tasks :: "uuid list"
  gpr_next_tasks :: "task_progress list"
  gpr_satisfaction :: "satisfaction_report option"

record task_query =
  tq_subgoal_id :: "string option"
  tq_statuses :: "task_status list"
  tq_roles :: "worker_kind list"
  tq_purpose_kinds :: "task_purpose_kind list"
  tq_tags :: "string list"
  tq_runnable_only :: bool
  tq_limit :: "nat option"

record task_list =
  tl_goal_id :: uuid
  tl_query :: task_query
  tl_tasks :: "task_progress list"
  tl_progress :: goal_progress

section \<open>Tasks\<close>

fun purpose_kind_of :: "task_purpose \<Rightarrow> task_purpose_kind" where
  "purpose_kind_of TP_Work = TPK_Work"
| "purpose_kind_of (TP_Review _ _) = TPK_Review"
| "purpose_kind_of (TP_Unification _ _) = TPK_Unification"
| "purpose_kind_of (TP_ActorRetry _ _) = TPK_ActorRetry"
| "purpose_kind_of (TP_CandidateBranch _ _ _) = TPK_CandidateBranch"
| "purpose_kind_of (TP_BranchVote _ _) = TPK_BranchVote"
| "purpose_kind_of (TP_BranchUnification _ _ _) = TPK_BranchUnification"
| "purpose_kind_of (TP_Research _) = TPK_Research"

definition runnable_now :: "'a goal_state_scheme \<Rightarrow> task_node \<Rightarrow> bool" where
  "runnable_now s t \<longleftrightarrow> tn_status t = TS_Runnable \<and> dependencies_done s t"

definition task_progress_of :: "'a goal_state_scheme \<Rightarrow> task_node \<Rightarrow> task_progress" where
  "task_progress_of s t = (|
     tpr_task_id = tn_id t, tpr_parent_id = tn_parent_id t, tpr_title = tn_title t,
     tpr_subgoal_id = tn_subgoal_id t, tpr_color = tn_color t, tpr_status = tn_status t, tpr_role = tn_role t,
     tpr_purpose_kind = purpose_kind_of (tn_purpose t), tpr_depth = tn_depth t, tpr_priority = tn_priority t,
     tpr_tags = tn_tags t, tpr_attempts = tn_attempts t,
     tpr_dependency_count = as_u32 (length (tn_dependencies t)), tpr_child_count = as_u32 (length (tn_children t)),
     tpr_runnable = runnable_now s t,
     tpr_blocked_by = filter (\<lambda>i. case bt_get (gs_tasks s) i of Some d \<Rightarrow> \<not> is_terminal_ok (tn_status d) | None \<Rightarrow> False)
       (tn_dependencies t),
     tpr_result = tn_result t |)"

definition progress_le :: "task_progress \<Rightarrow> task_progress \<Rightarrow> bool" where
  "progress_le = then_with (\<lambda>x y. priority_rank (tpr_priority y) \<le> priority_rank (tpr_priority x))
     (then_with (\<lambda>x y. tpr_depth x \<le> tpr_depth y) (\<lambda>x y. tpr_task_id x \<le> tpr_task_id y))"

definition count_status :: "task_status \<Rightarrow> (task_status, nat) btree \<Rightarrow> (task_status, nat) btree" where
  "count_status st m = bt_insert st (as_u32 (Suc (case bt_get m st of Some n \<Rightarrow> n | None \<Rightarrow> 0))) m"

definition by_status_of :: "'a goal_state_scheme \<Rightarrow> (task_status, nat) btree" where
  "by_status_of s = foldl (\<lambda>m t. count_status (tn_status t) m) [] (tasks_of s)"

definition status_count :: "(task_status, nat) btree \<Rightarrow> task_status \<Rightarrow> nat" where
  "status_count m st = (case bt_get m st of Some n \<Rightarrow> n | None \<Rightarrow> 0)"

section \<open>Subgoals\<close>

fun first_some :: "('a \<Rightarrow> 'b option) \<Rightarrow> 'a list \<Rightarrow> 'b option" where
  "first_some f [] = None"
| "first_some f (x # xs) = (case f x of Some y \<Rightarrow> Some y | None \<Rightarrow> first_some f xs)"

definition subgoal_progress_for ::
  "'a goal_state_scheme \<Rightarrow> string \<Rightarrow> string option \<Rightarrow> worker_kind option \<Rightarrow> graph_color_ref option \<Rightarrow> string list \<Rightarrow>
   subgoal_progress" where
  "subgoal_progress_for s sub title owner color deps =
     (let matching = filter (\<lambda>t. tn_subgoal_id t = Some sub) (tasks_of s);
          total = as_u32 (length matching);
          terminal_ok = as_u32 (length (filter (\<lambda>t. is_terminal_ok (tn_status t)) matching));
          opened = as_u32 (length (filter (\<lambda>t. \<not> is_terminal (tn_status t)) matching));
          has = (\<lambda>st. \<exists>t \<in> set matching. tn_status t = st)
      in (| spr_subgoal_id = sub, spr_title = title, spr_owner_role = owner,
            spr_color = (case color of Some c \<Rightarrow> Some c | None \<Rightarrow> first_some tn_color matching),
            spr_status = (if total = 0 then SGS_Planned
              else if has TS_Failed then SGS_Failed
              else if has TS_Blocked then SGS_Blocked
              else if opened = 0 then SGS_Done
              else if has TS_Running then SGS_Running
              else SGS_Open),
            spr_total_tasks = total, spr_open_tasks = opened, spr_terminal_ok_tasks = terminal_ok,
            spr_runnable_tasks = map tn_id (filter (runnable_now s) matching), spr_dependencies = deps |))"

definition subgoal_progress_of :: "'a goal_state_scheme \<Rightarrow> subgoal_progress list" where
  "subgoal_progress_of s =
     (let specs = pl_subgoals (gsp_plan (gs_goal s));
          ids = [i. t \<leftarrow> tasks_of s, i \<leftarrow> (case tn_subgoal_id t of Some i \<Rightarrow> [i] | None \<Rightarrow> []), i \<notin> set (map sg_id specs)]
      in map (\<lambda>g. subgoal_progress_for s (sg_id g) (Some (sg_title g)) (Some (sg_owner_role g)) (sg_color g) (sg_dependencies g)) specs
         @ map (\<lambda>i. subgoal_progress_for s i None None None []) (dedup (sort ids)))"

section \<open>The compute graph\<close>

text \<open>The nodes and the edges collected so far.\<close>

type_synonym graph = "graph_node list \<times> graph_edge list"

definition push_node :: "graph_node \<Rightarrow> graph \<Rightarrow> graph" where
  "push_node n g = (if gn_id n \<in> gn_id ` set (fst g) then g else (fst g @ [n], snd g))"

definition push_edge :: "string \<Rightarrow> string \<Rightarrow> edge_kind \<Rightarrow> graph \<Rightarrow> graph" where
  "push_edge a b k g = (fst g, snd g @ [(| ge_from = a, ge_to = b, ge_kind = k |)])"

definition goal_node_id :: "uuid \<Rightarrow> string" where "goal_node_id i = ''goal:'' @ i"
definition task_node_id :: "uuid \<Rightarrow> string" where "task_node_id i = ''task:'' @ i"
definition thunk_node_id :: "uuid \<Rightarrow> string" where "thunk_node_id i = ''thunk:'' @ i"
definition continuation_node_id :: "string \<Rightarrow> string" where "continuation_node_id i = ''continuation:'' @ i"
definition mechanism_node_id :: "uuid \<Rightarrow> string" where "mechanism_node_id i = ''mechanism:'' @ i"

fun wait_ref_kind_debug :: "wait_ref_kind \<Rightarrow> string" where
  "wait_ref_kind_debug WRK_HumanThread = ''HumanThread''"
| "wait_ref_kind_debug WRK_NotificationOutbox = ''NotificationOutbox''"
| "wait_ref_kind_debug WRK_SqsMessage = ''SqsMessage''"
| "wait_ref_kind_debug WRK_WebhookCorrelation = ''WebhookCorrelation''"
| "wait_ref_kind_debug WRK_CalendarEvent = ''CalendarEvent''"
| "wait_ref_kind_debug WRK_DurableTimer = ''DurableTimer''"
| "wait_ref_kind_debug WRK_RunnerCapacity = ''RunnerCapacity''"
| "wait_ref_kind_debug WRK_ModelRoute = ''ModelRoute''"

definition wait_node_id :: "wait_ref \<Rightarrow> string" where
  "wait_node_id r = ''wait:'' @ wait_ref_kind_debug (wr_kind r) @ '':'' @ wr_reference r"

fun goal_node_status :: "goal_status \<Rightarrow> node_status" where
  "goal_node_status GS_Running = NS_Running"
| "goal_node_status GS_WaitingApproval = NS_Waiting"
| "goal_node_status GS_Paused = NS_Paused"
| "goal_node_status GS_Done = NS_Done"
| "goal_node_status GS_Blocked = NS_Blocked"
| "goal_node_status GS_Failed = NS_Failed"
| "goal_node_status GS_Cancelled = NS_Cancelled"

fun task_node_status :: "task_status \<Rightarrow> node_status" where
  "task_node_status TS_Pending = NS_Pending"
| "task_node_status TS_Runnable = NS_Runnable"
| "task_node_status TS_Running = NS_Running"
| "task_node_status TS_NeedsValidation = NS_NeedsValidation"
| "task_node_status TS_WaitingApproval = NS_Waiting"
| "task_node_status TS_WaitingInput = NS_Waiting"
| "task_node_status TS_Done = NS_Done"
| "task_node_status TS_Blocked = NS_Blocked"
| "task_node_status TS_Failed = NS_Failed"
| "task_node_status TS_Cancelled = NS_Cancelled"

fun thunk_node_status :: "delayed_compute_thunk_status \<Rightarrow> node_status" where
  "thunk_node_status DS_Pending = NS_Waiting"
| "thunk_node_status DS_Resumed = NS_Resumed"
| "thunk_node_status DS_Cancelled = NS_Cancelled"
| "thunk_node_status DS_Expired = NS_Expired"

fun mechanism_node_status :: "mechanism_round_status \<Rightarrow> node_status" where
  "mechanism_node_status MRD_Open = NS_Waiting"
| "mechanism_node_status MRD_QuorumPending = NS_Waiting"
| "mechanism_node_status MRD_Decided = NS_Done"
| "mechanism_node_status MRD_RatificationRequired = NS_RatificationRequired"
| "mechanism_node_status MRD_Cancelled = NS_Cancelled"

definition plain_node :: "string \<Rightarrow> node_kind \<Rightarrow> string \<Rightarrow> node_status \<Rightarrow> uuid option \<Rightarrow> graph_node" where
  "plain_node i k l st t = (| gn_id = i, gn_kind = k, gn_label = l, gn_status = st, gn_task_id = t, gn_thunk_id = None,
     gn_continuation_id = None, gn_requested_input = None, gn_wait_ref = None |)"

definition thunk_part_node :: "delayed_compute_thunk \<Rightarrow> string \<Rightarrow> node_kind \<Rightarrow> string \<Rightarrow> wait_ref option \<Rightarrow> graph_node" where
  "thunk_part_node d i k l r = (| gn_id = i, gn_kind = k, gn_label = l, gn_status = thunk_node_status (dt_status d),
     gn_task_id = dt_task_id d, gn_thunk_id = Some (dt_id d),
     gn_continuation_id = Some (con_continuation_id (dt_continuation d)),
     gn_requested_input = dt_requested_input d, gn_wait_ref = r |)"

definition owner_node_id :: "uuid \<Rightarrow> uuid option \<Rightarrow> string" where
  "owner_node_id g i = (case i of Some t \<Rightarrow> task_node_id t | None \<Rightarrow> goal_node_id g)"

definition graph_task :: "'a goal_state_scheme \<Rightarrow> graph \<Rightarrow> task_node \<Rightarrow> graph" where
  "graph_task s g t =
     (let me = task_node_id (tn_id t);
          g1 = push_node (plain_node me NK_Task (tn_title t) (task_node_status (tn_status t)) (Some (tn_id t))) g;
          g2 = push_edge (owner_node_id (gsp_id (gs_goal s)) (tn_parent_id t)) me
                 (if tn_parent_id t = None then EK_Owns else EK_ParentChild) g1
      in foldl (\<lambda>g d. push_edge (task_node_id d) me EK_DependsOn g) g2
           (filter (\<lambda>d. bt_get (gs_tasks s) d \<noteq> None) (tn_dependencies t)))"

definition graph_thunk :: "'a goal_state_scheme \<Rightarrow> graph \<Rightarrow> delayed_compute_thunk \<Rightarrow> graph" where
  "graph_thunk s g d =
     (let me = thunk_node_id (dt_id d);
          con = con_continuation_id (dt_continuation d);
          g1 = push_edge (owner_node_id (gsp_id (gs_goal s)) (dt_task_id d)) me EK_SuspendsInto
                 (push_node (thunk_part_node d me NK_DelayedComputeThunk (dt_reason d) (dt_wait_ref d)) g);
          g2 = push_edge me (continuation_node_id con) EK_ResumesWith
                 (push_node (thunk_part_node d (continuation_node_id con) NK_Continuation con None) g1)
      in case dt_wait_ref d of
           None \<Rightarrow> g2
         | Some r \<Rightarrow> push_edge me (wait_node_id r) EK_WaitsOn
             (push_node (thunk_part_node d (wait_node_id r) NK_WaitRef (wr_reference r) (Some r)) g2))"

definition graph_round :: "'a goal_state_scheme \<Rightarrow> graph \<Rightarrow> mechanism_round \<Rightarrow> graph" where
  "graph_round s g r =
     (let me = mechanism_node_id (mro_id r)
      in push_edge (goal_node_id (gsp_id (gs_goal s))) me EK_MechanismControls
           (push_node (plain_node me NK_MechanismRound (mro_title r) (mechanism_node_status (mro_status r)) None) g))"

definition graph_of :: "'a goal_state_scheme \<Rightarrow> graph" where
  "graph_of s =
     (let g0 = push_node (plain_node (goal_node_id (gsp_id (gs_goal s))) NK_Goal (gsp_title (gs_goal s))
                 (goal_node_status (gs_status s)) None) ([], []);
          g1 = foldl (graph_task s) g0 (tasks_of s);
          g2 = foldl (graph_thunk s) g1 (gs_delayed_compute_thunks s)
      in foldl (graph_round s) g2 (gs_mechanism_rounds s))"

definition pending_thunks :: "'a goal_state_scheme \<Rightarrow> nat" where
  "pending_thunks s = as_u32 (length (filter (\<lambda>d. dt_status d = DS_Pending) (gs_delayed_compute_thunks s)))"

definition compute_graph :: "'a goal_state_scheme \<Rightarrow> compute_graph_snapshot" where
  "compute_graph s = (| cg_goal_id = gsp_id (gs_goal s), cg_nodes = fst (graph_of s), cg_edges = snd (graph_of s),
     cg_open_thunks = pending_thunks s, cg_runnable_tasks = map tn_id (runnable_tasks s),
     cg_waiting_tasks = map tn_id (filter (\<lambda>t. tn_status t \<in> {TS_WaitingApproval, TS_WaitingInput}) (tasks_of s)) |)"

section \<open>The whole view\<close>

definition progress_of :: "'a goal_state_scheme \<Rightarrow> goal_progress" where
  "progress_of s =
     (let ts = tasks_of s;
          by = by_status_of s;
          tp = sort_by progress_le (map (task_progress_of s) ts);
          total = as_u32 (length ts);
          terminal_ok = as_u32 (length (filter (\<lambda>t. is_terminal_ok (tn_status t)) ts))
      in (| gpr_goal_id = gsp_id (gs_goal s), gpr_title = gsp_title (gs_goal s), gpr_status = gs_status s,
            gpr_total_tasks = total,
            gpr_open_tasks = as_u32 (length (filter (\<lambda>t. \<not> is_terminal (tn_status t)) ts)),
            gpr_terminal_ok_tasks = terminal_ok,
            gpr_blocked_tasks = status_count by TS_Blocked, gpr_failed_tasks = status_count by TS_Failed,
            gpr_waiting_approval_tasks = status_count by TS_WaitingApproval,
            gpr_waiting_input_tasks = status_count by TS_WaitingInput,
            gpr_percent_done = (if total = 0 then f32_0 else f32_div_nat (f32_of_nat terminal_ok) total),
            gpr_by_status = by, gpr_subgoals = subgoal_progress_of s, gpr_ranking = goal_ranking_summary_of s,
            gpr_open_mechanism_rounds = as_u32 (length (filter (\<lambda>r. mro_status r \<in> {MRD_Open, MRD_QuorumPending}) (gs_mechanism_rounds s))),
            gpr_ratification_required_rounds = as_u32 (length (filter (\<lambda>r. mro_status r = MRD_RatificationRequired) (gs_mechanism_rounds s))),
            gpr_pending_thunks = pending_thunks s, gpr_compute_graph = compute_graph s,
            gpr_runnable_tasks = map tpr_task_id (filter tpr_runnable tp),
            gpr_next_tasks = take 10 tp, gpr_satisfaction = gs_satisfaction s |))"

definition query_matches :: "task_query \<Rightarrow> task_node \<Rightarrow> 'a goal_state_scheme \<Rightarrow> bool" where
  "query_matches q t s \<longleftrightarrow>
     (case tq_subgoal_id q of Some i \<Rightarrow> tn_subgoal_id t = Some i | None \<Rightarrow> True) \<and>
     (tq_statuses q = [] \<or> tn_status t \<in> set (tq_statuses q)) \<and>
     (tq_roles q = [] \<or> tn_role t \<in> set (tq_roles q)) \<and>
     (tq_purpose_kinds q = [] \<or> purpose_kind_of (tn_purpose t) \<in> set (tq_purpose_kinds q)) \<and>
     (\<forall>tag \<in> set (tq_tags q). tag \<in> set (tn_tags t)) \<and>
     (\<not> tq_runnable_only q \<or> runnable_now s t)"

definition find_tasks :: "task_query \<Rightarrow> 'a goal_state_scheme \<Rightarrow> task_list" where
  "find_tasks q s =
     (let ts = sort_by progress_le (map (task_progress_of s) (filter (\<lambda>t. query_matches q t s) (tasks_of s)))
      in (| tl_goal_id = gsp_id (gs_goal s), tl_query = q,
            tl_tasks = (case tq_limit q of Some n \<Rightarrow> take n ts | None \<Rightarrow> ts), tl_progress = progress_of s |))"

section \<open>What the graph holds\<close>

abbreviation nodes :: "graph \<Rightarrow> string set" where
  "nodes g \<equiv> gn_id ` set (fst g)"

abbreviation edges :: "graph \<Rightarrow> graph_edge set" where
  "edges g \<equiv> set (snd g)"

definition arc :: "string \<Rightarrow> string \<Rightarrow> edge_kind \<Rightarrow> graph_edge" where
  "arc a b k = (| ge_from = a, ge_to = b, ge_kind = k |)"

lemma nodes_push_node [simp]: "nodes (push_node n g) = insert (gn_id n) (nodes g)"
  by (auto simp: push_node_def)

lemma edges_push_node [simp]: "snd (push_node n g) = snd g"
  by (simp add: push_node_def)

lemma push_edge_simps [simp]:
  "fst (push_edge a b k g) = fst g" "edges (push_edge a b k g) = insert (arc a b k) (edges g)"
  by (simp_all add: push_edge_def arc_def)

definition distinct_nodes :: "graph \<Rightarrow> bool" where
  "distinct_nodes g \<longleftrightarrow> distinct (map gn_id (fst g))"

lemma distinct_nodes_push [simp]:
  "distinct_nodes g \<Longrightarrow> distinct_nodes (push_node n g)" "distinct_nodes (push_edge a b k g) = distinct_nodes g"
  by (auto simp: distinct_nodes_def push_node_def)

lemma foldl_edges:
  "fst (foldl (\<lambda>g d. push_edge (f d) b k g) g ds) = fst g"
  "edges (foldl (\<lambda>g d. push_edge (f d) b k g) g ds) = edges g \<union> (\<lambda>d. arc (f d) b k) ` set ds"
  by (induction ds arbitrary: g) auto

text \<open>What a task, a thunk and a round contribute.\<close>

definition task_arcs :: "'a goal_state_scheme \<Rightarrow> task_node \<Rightarrow> graph_edge set" where
  "task_arcs s t =
     insert (arc (owner_node_id (gsp_id (gs_goal s)) (tn_parent_id t)) (task_node_id (tn_id t))
         (if tn_parent_id t = None then EK_Owns else EK_ParentChild))
       {arc (task_node_id d) (task_node_id (tn_id t)) EK_DependsOn | d. d \<in> set (tn_dependencies t) \<and> bt_get (gs_tasks s) d \<noteq> None}"

definition thunk_vertices :: "delayed_compute_thunk \<Rightarrow> string set" where
  "thunk_vertices d = {thunk_node_id (dt_id d), continuation_node_id (con_continuation_id (dt_continuation d))}
     \<union> wait_node_id ` set_option (dt_wait_ref d)"

definition thunk_arcs :: "'a goal_state_scheme \<Rightarrow> delayed_compute_thunk \<Rightarrow> graph_edge set" where
  "thunk_arcs s d =
     {arc (owner_node_id (gsp_id (gs_goal s)) (dt_task_id d)) (thunk_node_id (dt_id d)) EK_SuspendsInto,
      arc (thunk_node_id (dt_id d)) (continuation_node_id (con_continuation_id (dt_continuation d))) EK_ResumesWith}
     \<union> (\<lambda>r. arc (thunk_node_id (dt_id d)) (wait_node_id r) EK_WaitsOn) ` set_option (dt_wait_ref d)"

definition graph_vertices :: "'a goal_state_scheme \<Rightarrow> string set" where
  "graph_vertices s = insert (goal_node_id (gsp_id (gs_goal s)))
     ((\<lambda>t. task_node_id (tn_id t)) ` set (tasks_of s) \<union> (\<Union>d \<in> set (gs_delayed_compute_thunks s). thunk_vertices d)
      \<union> (\<lambda>r. mechanism_node_id (mro_id r)) ` set (gs_mechanism_rounds s))"

definition graph_arcs :: "'a goal_state_scheme \<Rightarrow> graph_edge set" where
  "graph_arcs s = (\<Union>t \<in> set (tasks_of s). task_arcs s t) \<union> (\<Union>d \<in> set (gs_delayed_compute_thunks s). thunk_arcs s d)
     \<union> (\<lambda>r. arc (goal_node_id (gsp_id (gs_goal s))) (mechanism_node_id (mro_id r)) EK_MechanismControls) ` set (gs_mechanism_rounds s)"

lemma node_record_ids [simp]:
  "gn_id (plain_node i k l st t) = i" "gn_id (thunk_part_node d i k l r) = i"
  by (simp_all add: plain_node_def thunk_part_node_def)

lemma graph_task_simps:
  "nodes (graph_task s g t) = insert (task_node_id (tn_id t)) (nodes g)"
  "edges (graph_task s g t) = edges g \<union> task_arcs s t"
  "distinct_nodes g \<Longrightarrow> distinct_nodes (graph_task s g t)"
proof -
  let ?me = "task_node_id (tn_id t)"
  let ?ds = "filter (\<lambda>d. bt_get (gs_tasks s) d \<noteq> None) (tn_dependencies t)"
  let ?g = "push_edge (owner_node_id (gsp_id (gs_goal s)) (tn_parent_id t)) ?me
      (if tn_parent_id t = None then EK_Owns else EK_ParentChild)
      (push_node (plain_node ?me NK_Task (tn_title t) (task_node_status (tn_status t)) (Some (tn_id t))) g)"
  have g: "graph_task s g t = foldl (\<lambda>g d. push_edge (task_node_id d) ?me EK_DependsOn g) ?g ?ds"
    by (simp add: graph_task_def Let_def)
  show "nodes (graph_task s g t) = insert ?me (nodes g)"
    unfolding g foldl_edges by simp
  show "edges (graph_task s g t) = edges g \<union> task_arcs s t"
    unfolding g foldl_edges by (auto simp: task_arcs_def)
  show "distinct_nodes (graph_task s g t)" if "distinct_nodes g"
    using that unfolding g distinct_nodes_def foldl_edges by (simp flip: distinct_nodes_def)
qed

lemma graph_thunk_simps:
  "nodes (graph_thunk s g d) = thunk_vertices d \<union> nodes g"
  "edges (graph_thunk s g d) = edges g \<union> thunk_arcs s d"
  "distinct_nodes g \<Longrightarrow> distinct_nodes (graph_thunk s g d)"
  by (cases "dt_wait_ref d"; auto simp: graph_thunk_def thunk_vertices_def thunk_arcs_def Let_def)+

lemma graph_round_simps:
  "nodes (graph_round s g r) = insert (mechanism_node_id (mro_id r)) (nodes g)"
  "edges (graph_round s g r) = insert (arc (goal_node_id (gsp_id (gs_goal s))) (mechanism_node_id (mro_id r)) EK_MechanismControls) (edges g)"
  "distinct_nodes g \<Longrightarrow> distinct_nodes (graph_round s g r)"
  by (simp_all add: graph_round_def Let_def)

lemma foldl_graph:
  assumes "\<And>g x. nodes (f g x) = N x \<union> nodes g" and "\<And>g x. edges (f g x) = edges g \<union> E x"
    and "\<And>g x. distinct_nodes g \<Longrightarrow> distinct_nodes (f g x)"
  shows "nodes (foldl f g xs) = nodes g \<union> (\<Union>x \<in> set xs. N x)"
    and "edges (foldl f g xs) = edges g \<union> (\<Union>x \<in> set xs. E x)"
    and "distinct_nodes g \<Longrightarrow> distinct_nodes (foldl f g xs)"
  by (induction xs arbitrary: g) (auto simp: assms)

lemma foldl_graph_task:
  "nodes (foldl (graph_task s) g ts) = nodes g \<union> (\<lambda>t. task_node_id (tn_id t)) ` set ts"
  "edges (foldl (graph_task s) g ts) = edges g \<union> (\<Union>t \<in> set ts. task_arcs s t)"
  "distinct_nodes g \<Longrightarrow> distinct_nodes (foldl (graph_task s) g ts)"
  using foldl_graph [of "graph_task s" "\<lambda>t. {task_node_id (tn_id t)}" "task_arcs s"]
  by (auto simp: graph_task_simps)

lemma foldl_graph_thunk:
  "nodes (foldl (graph_thunk s) g ds) = nodes g \<union> (\<Union>d \<in> set ds. thunk_vertices d)"
  "edges (foldl (graph_thunk s) g ds) = edges g \<union> (\<Union>d \<in> set ds. thunk_arcs s d)"
  "distinct_nodes g \<Longrightarrow> distinct_nodes (foldl (graph_thunk s) g ds)"
  by (rule foldl_graph; simp add: graph_thunk_simps)+

lemma foldl_graph_round:
  "nodes (foldl (graph_round s) g rs) = nodes g \<union> (\<lambda>r. mechanism_node_id (mro_id r)) ` set rs"
  "edges (foldl (graph_round s) g rs) =
     edges g \<union> (\<lambda>r. arc (goal_node_id (gsp_id (gs_goal s))) (mechanism_node_id (mro_id r)) EK_MechanismControls) ` set rs"
  "distinct_nodes g \<Longrightarrow> distinct_nodes (foldl (graph_round s) g rs)"
  using foldl_graph [of "graph_round s" "\<lambda>r. {mechanism_node_id (mro_id r)}"
      "\<lambda>r. {arc (goal_node_id (gsp_id (gs_goal s))) (mechanism_node_id (mro_id r)) EK_MechanismControls}"]
  by (auto simp: graph_round_simps)

lemma graph_of_exact:
  "nodes (graph_of s) = graph_vertices s" "edges (graph_of s) = graph_arcs s" "distinct_nodes (graph_of s)"
proof -
  have start: "distinct_nodes ([], [])" by (simp add: distinct_nodes_def)
  show "nodes (graph_of s) = graph_vertices s"
    unfolding graph_of_def Let_def foldl_graph_round foldl_graph_thunk foldl_graph_task
    by (simp add: graph_vertices_def)
  show "edges (graph_of s) = graph_arcs s"
    unfolding graph_of_def Let_def foldl_graph_round foldl_graph_thunk foldl_graph_task
    by (simp add: graph_arcs_def)
  show "distinct_nodes (graph_of s)"
    unfolding graph_of_def Let_def
    by (intro foldl_graph_round foldl_graph_thunk foldl_graph_task distinct_nodes_push start)
qed

lemma owner_vertex:
  assumes "case i of None \<Rightarrow> True | Some p \<Rightarrow> \<exists>t \<in> set (tasks_of s). tn_id t = p"
  shows "owner_node_id (gsp_id (gs_goal s)) i \<in> graph_vertices s"
  using assms by (auto simp: owner_node_id_def graph_vertices_def split: option.splits)

lemma task_vertex: "t \<in> set (tasks_of s) \<Longrightarrow> task_node_id (tn_id t) \<in> graph_vertices s"
  by (simp add: graph_vertices_def)

lemma known_task:
  assumes "wf_world w" and "bt_get (gs_tasks w) i \<noteq> None"
  shows "\<exists>t \<in> set (tasks_of w). tn_id t = i"
proof -
  obtain t where t: "bt_get (gs_tasks w) i = Some t" using assms(2) by blast
  from get_Some_values [OF t] wf_world_id [OF assms(1) t] show ?thesis by (auto simp: tasks_of_def)
qed

lemma parent_known:
  assumes w: "wf_world w" and t: "t \<in> set (tasks_of w)"
  shows "case tn_parent_id t of None \<Rightarrow> True | Some p \<Rightarrow> \<exists>u \<in> set (tasks_of w). tn_id u = p"
proof (cases "tn_parent_id t")
  case (Some p)
  have "bt_get (gs_tasks w) (tn_id t) = Some t" using wf_world_values [OF w] t by (simp add: tasks_of_def)
  then have "node_ok (gsp_id (gs_goal w)) (gs_tasks w) (tn_id t) t"
    using w by (simp add: wf_world_def wf_tree_def)
  then have "bt_get (gs_tasks w) p \<noteq> None" using Some by (auto simp: node_ok_def child_link_ok_def)
  with Some known_task [OF w] show ?thesis by simp
qed simp

lemma task_arcs_end:
  assumes w: "wf_world w" and t: "t \<in> set (tasks_of w)" and e: "e \<in> task_arcs w t"
  shows "ge_from e \<in> graph_vertices w \<and> ge_to e \<in> graph_vertices w"
proof (cases "ge_kind e = EK_DependsOn")
  case True
  then obtain c where c: "e = arc (task_node_id c) (task_node_id (tn_id t)) EK_DependsOn" "bt_get (gs_tasks w) c \<noteq> None"
    using e by (auto simp: task_arcs_def arc_def split: if_splits)
  obtain c' where "c' \<in> set (tasks_of w)" "tn_id c' = c" using known_task [OF w c(2)] by blast
  then have "task_node_id c \<in> graph_vertices w" using task_vertex [of c' w] by simp
  with c(1) task_vertex [OF t] show ?thesis by (simp add: arc_def)
next
  case False
  then show ?thesis
    using e owner_vertex [OF parent_known [OF w t]] task_vertex [OF t] by (auto simp: task_arcs_def arc_def)
qed

lemma thunk_arcs_end:
  assumes w: "wf_world w" and k: "thunk_tasks_known w" and d: "d \<in> set (gs_delayed_compute_thunks w)" and e: "e \<in> thunk_arcs w d"
  shows "ge_from e \<in> graph_vertices w \<and> ge_to e \<in> graph_vertices w"
proof -
  have "case dt_task_id d of None \<Rightarrow> True | Some i \<Rightarrow> \<exists>t \<in> set (tasks_of w). tn_id t = i"
    using k d known_task [OF w] unfolding thunk_tasks_known_def by (cases "dt_task_id d") fastforce+
  then have o: "owner_node_id (gsp_id (gs_goal w)) (dt_task_id d) \<in> graph_vertices w" by (rule owner_vertex)
  have v: "v \<in> graph_vertices w" if "v \<in> thunk_vertices d" for v
    using that d by (auto simp: graph_vertices_def)
  show ?thesis
    using e o v [of "thunk_node_id (dt_id d)"] v [of "continuation_node_id (con_continuation_id (dt_continuation d))"]
      v [of "wait_node_id (the (dt_wait_ref d))"]
    by (cases "dt_wait_ref d") (auto simp: thunk_arcs_def arc_def thunk_vertices_def)
qed

lemma arcs_end_in_vertices:
  assumes w: "wf_world w" and k: "thunk_tasks_known w" and e: "e \<in> graph_arcs w"
  shows "ge_from e \<in> graph_vertices w \<and> ge_to e \<in> graph_vertices w"
proof -
  have "goal_node_id (gsp_id (gs_goal w)) \<in> graph_vertices w" by (simp add: graph_vertices_def)
  moreover have "mechanism_node_id (mro_id r) \<in> graph_vertices w" if "r \<in> set (gs_mechanism_rounds w)" for r
    using that by (simp add: graph_vertices_def)
  ultimately show ?thesis
    using e task_arcs_end [OF w] thunk_arcs_end [OF w k] unfolding graph_arcs_def by (auto simp: arc_def)
qed

section \<open>The order of the views\<close>

lemma sort_by_map: "sort_by le (map f xs) = map f (sort_by (\<lambda>x y. le (f x) (f y)) xs)"
proof -
  have "insert_by le (f x) (map f ys) = map f (insert_by (\<lambda>x y. le (f x) (f y)) x ys)" for x ys
    by (induction ys) auto
  then show ?thesis by (induction xs) simp_all
qed

context comparator
begin

lemma insert_by_filter:
  "sorted_wrt le xs \<Longrightarrow> filter P (insert_by le x xs) = (if P x then insert_by le x (filter P xs) else filter P xs)"
proof (induction xs)
  case (Cons y ys)
  have least: "insert_by le x zs = x # zs" if "\<forall>z \<in> set zs. le x z" for zs
    using that by (cases zs) auto
  show ?case
  proof (cases "le x y")
    case True
    then have "\<forall>z \<in> set (filter P (y # ys)). le x z" using Cons.prems le_trans by auto
    with True least [of "filter P (y # ys)"] show ?thesis by auto
  qed (use Cons in auto)
qed simp

lemma filter_sort_by: "filter P (sort_by le xs) = sort_by le (filter P xs)"
  by (induction xs) (simp_all add: insert_by_filter sort_by_sorted)

end

lemma progress_le_task: "progress_le (task_progress_of s t) (task_progress_of s u) = queue_le t u"
  by (simp add: progress_le_def queue_le_def task_progress_of_def then_with_def)

lemma sorted_progress:
  "sort_by progress_le (map (task_progress_of s) ts) = map (task_progress_of s) (sort_by queue_le ts)"
  by (simp add: sort_by_map progress_le_task)

section \<open>Counts\<close>

lemma count_status_fold:
  "status_count (foldl (\<lambda>m t. count_status (tn_status t) m) m ts) st =
   (if st \<in> tn_status ` set ts then as_u32 (status_count m st + length (filter (\<lambda>t. tn_status t = st) ts)) else status_count m st)"
proof (induction ts arbitrary: m)
  case (Cons t ts)
  have none: "st \<notin> tn_status ` set ts \<Longrightarrow> filter (\<lambda>t. tn_status t = st) ts = []" for st ts
    by (auto simp: filter_empty_conv)
  have "status_count (count_status (tn_status t) m) st =
      (if st = tn_status t then as_u32 (Suc (status_count m st)) else status_count m st)"
    by (simp add: status_count_def count_status_def get_insert)
  then show ?case
    unfolding foldl_Cons Cons.IH using none [of st ts] by (auto simp: as_u32_def mod_simps)
qed simp

lemma by_status_exact: "status_count (by_status_of s) st = as_u32 (length (filter (\<lambda>t. tn_status t = st) (tasks_of s)))"
proof -
  have "status_count [] st = 0" by (simp add: status_count_def bt_get_def)
  moreover have "st \<notin> tn_status ` set (tasks_of s) \<Longrightarrow> filter (\<lambda>t. tn_status t = st) (tasks_of s) = []"
    by (auto simp: filter_empty_conv)
  ultimately show ?thesis unfolding by_status_of_def count_status_fold by (auto simp: as_u32_def)
qed

lemma as_u32_small: "n < 2 ^ 32 \<Longrightarrow> as_u32 n = n"
  by (simp add: as_u32_def)

section \<open>Properties\<close>

lemma compute_graph_is_exact_parts:
  assumes "reachable u goal w"
  shows "distinct (map gn_id (cg_nodes (compute_graph w)))"
    and "gn_id ` set (cg_nodes (compute_graph w)) = graph_vertices w"
    and "set (cg_edges (compute_graph w)) = graph_arcs w"
    and "e \<in> graph_arcs w \<Longrightarrow> ge_from e \<in> graph_vertices w \<and> ge_to e \<in> graph_vertices w"
  using graph_of_exact [of w] arcs_end_in_vertices [OF reachable_wf [OF assms] anchors.inv_reachable [OF assms]]
  by (simp_all add: compute_graph_def distinct_nodes_def)

text \<open>
  C12: The compute graph that clients see is exact.  In every reachable state its nodes are the goal,
  its tasks, its thunks with their continuations and wait references, and its mechanism rounds, each
  once; its edges are the parent, dependency, suspension, resumption, wait and control relations of the
  state and no others; and both ends of every edge are nodes.
\<close>
theorem compute_graph_is_exact:
  assumes "reachable u goal w"
  shows "distinct (map gn_id (cg_nodes (compute_graph w))) \<and>
    gn_id ` set (cg_nodes (compute_graph w)) = graph_vertices w \<and>
    set (cg_edges (compute_graph w)) = graph_arcs w \<and>
    (\<forall>e \<in> graph_arcs w. ge_from e \<in> graph_vertices w \<and> ge_to e \<in> graph_vertices w)"
  using compute_graph_is_exact_parts [OF assms] by blast

theorem compute_graph_is_exact_witness:
  "set (cg_edges (compute_graph (snd (goal_state_new sample_goal (world_of sample_goal []))))) =
   graph_arcs (snd (goal_state_new sample_goal (world_of sample_goal [])))"
  by (rule compute_graph_is_exact [where u = "\<lambda>s. s" and goal = sample_goal, THEN conjunct2, THEN conjunct2, THEN conjunct1])
    (rule reachable.start, simp)

text \<open>
  The views agree with the scheduler and with each other.  The tasks that \<open>progress\<close> reports as runnable
  are the ready queue that the driver dispatches from, in the same order; \<open>find_tasks\<close> lists the tasks that match
  the query in that order; the count of every status is the number of tasks in it; and, below 2^32 tasks,
  open, Done and Cancelled tasks add up to the total.
\<close>
theorem progress_agrees_with_the_scheduler:
  shows "gpr_runnable_tasks (progress_of s) = map tn_id (runnable_tasks s)"
    and "tl_tasks (find_tasks q s) = (case tq_limit q of Some n \<Rightarrow> take n | None \<Rightarrow> id)
       (map (task_progress_of s) (filter (\<lambda>t. query_matches q t s) (sort_by queue_le (tasks_of s))))"
    and "status_count (gpr_by_status (progress_of s)) st = as_u32 (length (filter (\<lambda>t. tn_status t = st) (tasks_of s)))"
    and "length (tasks_of s) < 2 ^ 32 \<Longrightarrow> gpr_total_tasks (progress_of s) = gpr_open_tasks (progress_of s)
       + gpr_terminal_ok_tasks (progress_of s) + status_count (gpr_by_status (progress_of s)) TS_Cancelled"
proof -
  have "filter tpr_runnable (map (task_progress_of s) ts) = map (task_progress_of s) (filter (runnable_now s) ts)" for ts
    by (induction ts) (simp_all add: task_progress_of_def)
  moreover have "tpr_task_id (task_progress_of s t) = tn_id t" for t
    by (simp add: task_progress_of_def)
  moreover have "runnable_now s = (\<lambda>t. tn_status t = TS_Runnable \<and> dependencies_done s t)"
    by (simp add: runnable_now_def fun_eq_iff)
  ultimately show "gpr_runnable_tasks (progress_of s) = map tn_id (runnable_tasks s)"
    by (simp add: progress_of_def Let_def sorted_progress queue.filter_sort_by runnable_tasks_def tasks_of_def)
  show "tl_tasks (find_tasks q s) = (case tq_limit q of Some n \<Rightarrow> take n | None \<Rightarrow> id)
       (map (task_progress_of s) (filter (\<lambda>t. query_matches q t s) (sort_by queue_le (tasks_of s))))"
    by (simp add: find_tasks_def Let_def sorted_progress queue.filter_sort_by split: option.splits)
  show counts: "status_count (gpr_by_status (progress_of s)) st = as_u32 (length (filter (\<lambda>t. tn_status t = st) (tasks_of s)))" for st
    by (simp add: progress_of_def Let_def by_status_exact)
  have split: "length ts = length (filter (\<lambda>t. \<not> is_terminal (tn_status t)) ts) + length (filter (\<lambda>t. is_terminal_ok (tn_status t)) ts)
      + length (filter (\<lambda>t. tn_status t = TS_Cancelled) ts)" for ts
    by (induction ts) (auto simp: is_terminal_def is_terminal_ok_def)
  assume small: "length (tasks_of s) < 2 ^ 32"
  have "as_u32 (length (filter P (tasks_of s))) = length (filter P (tasks_of s))" for P
    using small length_filter_le [of P "tasks_of s"] by (intro as_u32_small) linarith
  with split [of "tasks_of s"] as_u32_small [OF small]
  show "gpr_total_tasks (progress_of s) = gpr_open_tasks (progress_of s)
       + gpr_terminal_ok_tasks (progress_of s) + status_count (gpr_by_status (progress_of s)) TS_Cancelled"
    unfolding counts by (simp add: progress_of_def Let_def)
qed

theorem progress_agrees_with_the_scheduler_witness:
  "gpr_total_tasks (progress_of (world_of sample_goal [sample_task ''a'' TS_Runnable, sample_task ''b'' TS_Cancelled])) = 2"
proof -
  let ?w = "world_of sample_goal [sample_task ''a'' TS_Runnable, sample_task ''b'' TS_Cancelled]"
  have ts: "tasks_of ?w = [sample_task ''a'' TS_Runnable, sample_task ''b'' TS_Cancelled]"
    by (simp add: tasks_of_def world_of_def bt_of_list_def bt_values_def sample_task_def root_of_def)
  then have "length (tasks_of ?w) < 2 ^ 32" by simp
  from progress_agrees_with_the_scheduler(4) [OF this] ts show ?thesis
    by (simp add: progress_of_def Let_def by_status_exact as_u32_def sample_task_def is_terminal_def is_terminal_ok_def)
qed

end
