(* ===== verification/Projection.thy ===== *)
theory Projection
  imports Progress
begin

text \<open>
  What the coordinator sends to the goal store (\<open>crates/domain/src/lib.rs\<close>): records of the goal, its
  tasks, approvals, artifacts and events, and \<open>GoalStoreSnapshot::from_state\<close>, which builds them all.

  The serialisations that \<open>serde\<close> derives and \<open>Uuid::new_v5\<close> are the record \<open>projector\<close>.
\<close>

section \<open>Records\<close>

record goal_record =
  grc_goal_id :: uuid
  grc_title :: string
  grc_objective :: string
  grc_repo :: "string option"
  grc_status :: goal_status
  grc_total_tasks :: nat
  grc_open_tasks :: nat
  grc_blocked_tasks :: nat
  grc_failed_tasks :: nat
  grc_percent_done :: f32
  grc_root_task_id :: "uuid option"
  grc_satisfied :: bool
  grc_satisfaction_score :: "f32 option"
  grc_updated_at :: "string option"
  grc_payload :: json

record task_record =
  trc_goal_id :: uuid
  trc_task_id :: uuid
  trc_parent_task_id :: "uuid option"
  trc_subgoal_id :: "string option"
  trc_title :: string
  trc_color :: "graph_color_ref option"
  trc_role :: worker_kind
  trc_status :: task_status
  trc_purpose_kind :: task_purpose_kind
  trc_depth :: nat
  trc_priority :: task_priority
  trc_priority_rank :: nat
  trc_attempts :: nat
  trc_runnable :: bool
  trc_tags :: "string list"
  trc_result_uri :: "string option"
  trc_payload :: json

datatype (plugins only: code size) goal_event_kind =
    GEK_Submitted
  | GEK_StateProjected
  | GEK_TaskStarted
  | GEK_TaskCompleted
  | GEK_TaskBlocked
  | GEK_ApprovalRequested
  | GEK_ApprovalDecided
  | GEK_SteeringApplied
  | GEK_ValidationRecorded
  | GEK_ArtifactRecorded
  | GEK_Cancelled
  | GEK_Failed
  | GEK_Other

record goal_event_record =
  ger_event_id :: uuid
  ger_goal_id :: uuid
  ger_task_id :: "uuid option"
  ger_sequence :: nat
  ger_kind :: goal_event_kind
  ger_message :: string
  ger_actor :: "string option"
  ger_idempotency_key :: string
  ger_created_at :: "string option"
  ger_payload :: json

record approval_record =
  arc_approval_id :: uuid
  arc_goal_id :: uuid
  arc_task_id :: "uuid option"
  arc_status :: approval_status
  arc_risk :: approval_risk
  arc_reason :: string
  arc_requested_action :: string
  arc_updated_at :: "string option"
  arc_payload :: json

record goal_artifact_record =
  gac_goal_id :: uuid
  gac_task_id :: "uuid option"
  gac_artifact :: artifact_ref
  gac_git_result :: "git_result_ref option"
  gac_object_artifact :: "object_storage_artifact_ref option"
  gac_checkpoint :: "checkpoint_ref option"
  gac_created_at :: "string option"
  gac_payload :: json

record goal_store_snapshot =
  gss_goal :: goal_record
  gss_compute_graph :: compute_graph_snapshot
  gss_tasks :: "task_record list"
  gss_artifacts :: "goal_artifact_record list"
  gss_approvals :: "approval_record list"
  gss_events :: "goal_event_record list"
  gss_full_state :: json

record artifact_record_request =
  arq_goal_id :: uuid
  arq_task_id :: "uuid option"
  arq_artifacts :: "artifact_ref list"
  arq_git_results :: "git_result_ref list"
  arq_object_artifacts :: "object_storage_artifact_ref list"
  arq_checkpoints :: "checkpoint_ref list"

record projector =
  pj_uuid_v5 :: "string \<Rightarrow> uuid"
  pj_goal :: "goal_spec \<Rightarrow> json"
  pj_state :: "goal_state \<Rightarrow> json"
  pj_task :: "task_node \<Rightarrow> json"
  pj_event :: "state_event \<Rightarrow> json"
  pj_approval :: "approval_request \<Rightarrow> json"

section \<open>Building them\<close>

definition artifact_record ::
  "uuid \<Rightarrow> uuid option \<Rightarrow> artifact_ref \<Rightarrow> git_result_ref option \<Rightarrow> object_storage_artifact_ref option \<Rightarrow> checkpoint_ref option \<Rightarrow>
   goal_artifact_record" where
  "artifact_record g t a git object checkpoint = (| gac_goal_id = g, gac_task_id = t, gac_artifact = a,
     gac_git_result = git, gac_object_artifact = object, gac_checkpoint = checkpoint, gac_created_at = None,
     gac_payload = J_Null |)"

definition checkpoint_record :: "uuid \<Rightarrow> checkpoint_ref \<Rightarrow> goal_artifact_record" where
  "checkpoint_record g c =
     artifact_record g (Some (cr_task_id c)) (cr_artifact c) (cr_git_result c) (cr_object_artifact c) (Some c)"

definition into_records :: "artifact_record_request \<Rightarrow> goal_artifact_record list" where
  "into_records q =
     map (\<lambda>a. artifact_record (arq_goal_id q) (arq_task_id q) a None None None) (arq_artifacts q)
     @ map (\<lambda>r. artifact_record (arq_goal_id q) (arq_task_id q) (git_as_artifact r) (Some r) None None) (arq_git_results q)
     @ map (\<lambda>x. artifact_record (arq_goal_id q) (arq_task_id q) (object_as_artifact x) None (Some x) None) (arq_object_artifacts q)
     @ map (checkpoint_record (arq_goal_id q)) (arq_checkpoints q)"

definition classify_state_event :: "string \<Rightarrow> goal_event_kind" where
  "classify_state_event m =
     (if m = ''goal_started'' then GEK_Submitted
      else if starts_with m ''validation_passed'' \<or> starts_with m ''validation_failed'' then GEK_ValidationRecorded
      else if starts_with m ''approval_'' then GEK_ApprovalDecided
      else if starts_with m ''cancelled:'' then GEK_Cancelled
      else if starts_with m ''task_blocked'' then GEK_TaskBlocked
      else if starts_with m ''task_completed'' then GEK_TaskCompleted
      else GEK_StateProjected)"

definition event_record :: "projector \<Rightarrow> uuid \<Rightarrow> nat \<Rightarrow> state_event \<Rightarrow> goal_event_record" where
  "event_record pj g index e =
     (let n = (if ev_sequence e = 0 then index + 1 else ev_sequence e) in (|
        ger_event_id = pj_uuid_v5 pj (''coat://goal/'' @ g @ ''/event/'' @ dec n @ ''/'' @ ev_message e),
        ger_goal_id = g, ger_task_id = None, ger_sequence = n, ger_kind = classify_state_event (ev_message e),
        ger_message = ev_message e, ger_actor = Some ''coordinator'',
        ger_idempotency_key = ''goal:'' @ g @ '':event:'' @ dec n, ger_created_at = None,
        ger_payload = pj_event pj e |))"

definition event_records :: "projector \<Rightarrow> uuid \<Rightarrow> state_event list \<Rightarrow> goal_event_record list" where
  "event_records pj g es = map (\<lambda>(k, e). event_record pj g k e) (enumerate 0 es)"

definition approval_record_of :: "projector \<Rightarrow> approval_request \<Rightarrow> approval_record" where
  "approval_record_of pj a = (| arc_approval_id = apr_id a, arc_goal_id = apr_goal_id a, arc_task_id = apr_task_id a,
     arc_status = apr_status a, arc_risk = apr_risk a, arc_reason = apr_reason a,
     arc_requested_action = apr_requested_action a, arc_updated_at = None, arc_payload = pj_approval pj a |)"

definition task_record_of :: "projector \<Rightarrow> 'a goal_state_scheme \<Rightarrow> task_node \<Rightarrow> task_record" where
  "task_record_of pj s t =
     (let p = task_progress_of s t in (|
        trc_goal_id = tn_goal_id t, trc_task_id = tn_id t, trc_parent_task_id = tn_parent_id t,
        trc_subgoal_id = tn_subgoal_id t, trc_title = tpr_title p, trc_color = tpr_color p, trc_role = tn_role t,
        trc_status = tn_status t, trc_purpose_kind = purpose_kind_of (tn_purpose t), trc_depth = tn_depth t,
        trc_priority = tn_priority t, trc_priority_rank = priority_rank (tn_priority t), trc_attempts = tn_attempts t,
        trc_runnable = tpr_runnable p, trc_tags = tn_tags t, trc_result_uri = map_option ar_uri (tn_result t),
        trc_payload = pj_task pj t |))"

definition goal_record_of :: "projector \<Rightarrow> 'a goal_state_scheme \<Rightarrow> goal_record" where
  "goal_record_of pj s =
     (let p = progress_of s in (|
        grc_goal_id = gsp_id (gs_goal s), grc_title = gsp_title (gs_goal s), grc_objective = gsp_objective (gs_goal s),
        grc_repo = gsp_repo (gs_goal s), grc_status = gs_status s, grc_total_tasks = gpr_total_tasks p,
        grc_open_tasks = gpr_open_tasks p, grc_blocked_tasks = gpr_blocked_tasks p,
        grc_failed_tasks = gpr_failed_tasks p, grc_percent_done = gpr_percent_done p,
        grc_root_task_id = map_option tn_id (find (\<lambda>t. tn_parent_id t = None) (tasks_of s)),
        grc_satisfied = (case gs_satisfaction s of Some r \<Rightarrow> sat_satisfied r | None \<Rightarrow> False),
        grc_satisfaction_score = map_option sat_score (gs_satisfaction s), grc_updated_at = None,
        grc_payload = pj_goal pj (gs_goal s) |))"

definition snapshot_of :: "projector \<Rightarrow> 'a goal_state_scheme \<Rightarrow> goal_store_snapshot" where
  "snapshot_of pj s =
     (let g = gsp_id (gs_goal s) in (|
        gss_goal = goal_record_of pj s, gss_compute_graph = gpr_compute_graph (progress_of s),
        gss_tasks = map (task_record_of pj s) (tasks_of s),
        gss_artifacts = map (\<lambda>a. artifact_record g None a None None None) (gs_final_artifacts s)
          @ map (checkpoint_record g) (gs_checkpoints s),
        gss_approvals = map (approval_record_of pj) (gs_approvals s),
        gss_events = event_records pj g (gs_events s),
        gss_full_state = pj_state pj (goal_state.truncate s) |))"

end
