(* ===== verification/Operators.thy ===== *)
theory Operators
  imports Projection Validation
begin

text \<open>
  The operator's view of the task graph as actors (\<open>crates/domain/src/operator.rs\<close>): which transition
  an actor accepts in its state, and what a rejection tells the operator to do instead.
\<close>

section \<open>Transitions and events\<close>

datatype (plugins only: code size) operator_actor_kind =
    OAK_Goal
  | OAK_Task
  | OAK_Thunk
  | OAK_WorkerRun
  | OAK_Review
  | OAK_Approval
  | OAK_Event

datatype (plugins only: code size) operator_actor_state_class =
    OSC_Active
  | OSC_Waiting
  | OSC_Recoverable
  | OSC_TerminalOk
  | OSC_TerminalStopped
  | OSC_Immutable

definition class_is_terminal :: "operator_actor_state_class \<Rightarrow> bool" where
  "class_is_terminal c \<longleftrightarrow> c \<in> {OSC_TerminalOk, OSC_TerminalStopped}"

definition class_is_recoverable :: "operator_actor_state_class \<Rightarrow> bool" where
  "class_is_recoverable c \<longleftrightarrow> c \<in> {OSC_Waiting, OSC_Recoverable}"

record operator_actor_ref =
  oar_kind :: operator_actor_kind
  oar_id :: string
  oar_goal_id :: "uuid option"
  oar_task_id :: "uuid option"

definition actor_ref_goal :: "uuid \<Rightarrow> operator_actor_ref" where
  "actor_ref_goal g = (| oar_kind = OAK_Goal, oar_id = g, oar_goal_id = Some g, oar_task_id = None |)"

definition actor_ref_task :: "uuid \<Rightarrow> uuid \<Rightarrow> operator_actor_ref" where
  "actor_ref_task g t = (| oar_kind = OAK_Task, oar_id = t, oar_goal_id = Some g, oar_task_id = Some t |)"

datatype (plugins only: code size) operator_transition =
    OT_SubmitGoal
  | OT_DraftAccepted
  | OT_TaskDispatched
  | OT_WorkerResultReceived
  | OT_TaskBlocked
  | OT_ThunkCreated
  | OT_ThunkResumed
  | OT_ApprovalRequested
  | OT_ApprovalResolved
  | OT_ReviewCompleted
  | OT_BranchSelected
  | OT_GoalSteered
  | OT_GoalCancelled
  | OT_GoalSatisfied

fun event_type_of :: "operator_transition \<Rightarrow> string" where
  "event_type_of OT_SubmitGoal = ''goal.updated''"
| "event_type_of OT_DraftAccepted = ''goal.updated''"
| "event_type_of OT_GoalSteered = ''goal.updated''"
| "event_type_of OT_TaskDispatched = ''task.updated''"
| "event_type_of OT_TaskBlocked = ''task.updated''"
| "event_type_of OT_WorkerResultReceived = ''worker.completed''"
| "event_type_of OT_ThunkCreated = ''thunk.created''"
| "event_type_of OT_ThunkResumed = ''task.updated''"
| "event_type_of OT_ApprovalRequested = ''approval.requested''"
| "event_type_of OT_ApprovalResolved = ''task.updated''"
| "event_type_of OT_ReviewCompleted = ''review.completed''"
| "event_type_of OT_BranchSelected = ''task.updated''"
| "event_type_of OT_GoalCancelled = ''goal.cancelled''"
| "event_type_of OT_GoalSatisfied = ''goal.satisfied''"

fun actor_kinds :: "operator_transition \<Rightarrow> operator_actor_kind list" where
  "actor_kinds OT_SubmitGoal = [OAK_Goal]"
| "actor_kinds OT_DraftAccepted = [OAK_Goal]"
| "actor_kinds OT_GoalSteered = [OAK_Goal]"
| "actor_kinds OT_GoalSatisfied = [OAK_Goal]"
| "actor_kinds OT_TaskDispatched = [OAK_Task]"
| "actor_kinds OT_TaskBlocked = [OAK_Task]"
| "actor_kinds OT_WorkerResultReceived = [OAK_Task, OAK_WorkerRun]"
| "actor_kinds OT_ThunkCreated = [OAK_Task, OAK_Thunk]"
| "actor_kinds OT_ThunkResumed = [OAK_Task, OAK_Thunk]"
| "actor_kinds OT_ApprovalRequested = [OAK_Task, OAK_Approval]"
| "actor_kinds OT_ApprovalResolved = [OAK_Task, OAK_Approval]"
| "actor_kinds OT_ReviewCompleted = [OAK_Task, OAK_Review]"
| "actor_kinds OT_BranchSelected = [OAK_Goal]"
| "actor_kinds OT_GoalCancelled = [OAK_Goal, OAK_Task, OAK_Thunk, OAK_Approval]"

definition targets_actor_kind :: "operator_transition \<Rightarrow> operator_actor_kind \<Rightarrow> bool" where
  "targets_actor_kind t k \<longleftrightarrow> k \<in> set (actor_kinds t)"

record operator_recovery_hint =
  orh_action :: string
  orh_label :: string
  orh_reason :: string

record operator_transition_rejection =
  otr_actor :: operator_actor_ref
  otr_transition :: operator_transition
  otr_current_status :: string
  otr_message :: string
  otr_recovery_hints :: "operator_recovery_hint list"

record durable_event_envelope =
  dee_event_id :: uuid
  dee_event_type :: string
  dee_actor :: operator_actor_ref
  dee_transition :: operator_transition
  dee_idempotency_key :: string
  dee_causation_id :: "string option"
  dee_correlation_id :: "string option"
  dee_restate_invocation_id :: "string option"
  dee_created_at :: string
  dee_payload :: json

section \<open>Rejections\<close>

definition hint :: "string \<Rightarrow> string \<Rightarrow> string \<Rightarrow> operator_recovery_hint" where
  "hint action label reason = (| orh_action = action, orh_label = label, orh_reason = reason |)"

definition reject_actor_scope ::
  "operator_actor_ref \<Rightarrow> operator_transition \<Rightarrow> string \<Rightarrow> operator_transition_rejection" where
  "reject_actor_scope actor t status = (| otr_actor = actor, otr_transition = t, otr_current_status = status,
     otr_message = ''transition does not target this actor kind'',
     otr_recovery_hints = [hint ''inspect_actor'' ''Inspect the matching actor''
       ''route the command to the actor kind listed by the typed transition''] |)"

definition reject_actor_state ::
  "operator_actor_ref \<Rightarrow> operator_transition \<Rightarrow> string \<Rightarrow> string \<Rightarrow> operator_recovery_hint list \<Rightarrow>
   operator_transition_rejection" where
  "reject_actor_state actor t status message hints = (| otr_actor = actor, otr_transition = t,
     otr_current_status = status, otr_message = message, otr_recovery_hints = hints |)"

definition refresh_hint :: "string \<Rightarrow> operator_recovery_hint" where
  "refresh_hint = hint ''refresh_actions'' ''Refresh action queue''"

definition restart_hint :: "string \<Rightarrow> operator_recovery_hint" where
  "restart_hint = hint ''retry'' ''Retry recoverable work''"

definition replan_hint :: "string \<Rightarrow> operator_recovery_hint" where
  "replan_hint = hint ''replan'' ''Replan work''"

definition resume_hint :: "string \<Rightarrow> operator_recovery_hint" where
  "resume_hint = hint ''resume_thunk'' ''Resume continuation''"

definition create_thunk_hint :: "string \<Rightarrow> operator_recovery_hint" where
  "create_thunk_hint = hint ''create_thunk'' ''Create human prompt''"

definition cancel_hint :: "string \<Rightarrow> operator_recovery_hint" where
  "cancel_hint = hint ''cancel_goal'' ''Cancel goal''"

text \<open>The shape of every \<open>can_apply\<close>: first the scope, then the state.\<close>

definition scoped ::
  "operator_actor_kind \<Rightarrow> operator_actor_ref \<Rightarrow> string \<Rightarrow> operator_transition \<Rightarrow> bool \<Rightarrow> string \<Rightarrow>
   operator_recovery_hint list \<Rightarrow> operator_transition_rejection + unit" where
  "scoped k actor status t allowed message hints =
     (if \<not> targets_actor_kind t k then Inl (reject_actor_scope actor t status)
      else if allowed then Inr ()
      else Inl (reject_actor_state actor t status message hints))"

section \<open>Goals\<close>

definition goal_actor_ref :: "goal_record \<Rightarrow> operator_actor_ref" where
  "goal_actor_ref r = actor_ref_goal (grc_goal_id r)"

definition goal_actor_status :: "goal_record \<Rightarrow> string" where
  "goal_actor_status r = to_ascii_lowercase (goal_status_debug (grc_status r))"

definition goal_actor_class :: "goal_record \<Rightarrow> operator_actor_state_class" where
  "goal_actor_class r =
     (case grc_status r of
        GS_Running \<Rightarrow> OSC_Active
      | GS_WaitingApproval \<Rightarrow> OSC_Waiting
      | GS_Paused \<Rightarrow> OSC_Waiting
      | GS_Blocked \<Rightarrow> OSC_Recoverable
      | GS_Failed \<Rightarrow> OSC_Recoverable
      | GS_Done \<Rightarrow> OSC_TerminalOk
      | GS_Cancelled \<Rightarrow> OSC_TerminalStopped)"

definition goal_allows :: "goal_status \<Rightarrow> operator_transition \<Rightarrow> bool" where
  "goal_allows st t =
     (case st of
        GS_Done \<Rightarrow> t \<in> {OT_SubmitGoal, OT_GoalSatisfied}
      | GS_Cancelled \<Rightarrow> t = OT_SubmitGoal
      | _ \<Rightarrow> t \<in> {OT_SubmitGoal, OT_DraftAccepted, OT_BranchSelected, OT_GoalSteered, OT_GoalCancelled, OT_GoalSatisfied})"

definition goal_can_apply :: "goal_record \<Rightarrow> operator_transition \<Rightarrow> operator_transition_rejection + unit" where
  "goal_can_apply r t = scoped OAK_Goal (goal_actor_ref r) (goal_actor_status r) t (goal_allows (grc_status r) t)
     ''goal transition is not valid for the current goal state''
     [hint ''select_active_goal'' ''Select an active goal'' ''completed or cancelled goals cannot be restarted in place'']"

section \<open>Tasks\<close>

definition task_actor_ref :: "task_record \<Rightarrow> operator_actor_ref" where
  "task_actor_ref r = actor_ref_task (trc_goal_id r) (trc_task_id r)"

definition task_actor_status :: "task_record \<Rightarrow> string" where
  "task_actor_status r = to_ascii_lowercase (task_status_debug (trc_status r))"

definition task_actor_class :: "task_record \<Rightarrow> operator_actor_state_class" where
  "task_actor_class r =
     (case trc_status r of
        TS_Pending \<Rightarrow> OSC_Active
      | TS_Runnable \<Rightarrow> OSC_Active
      | TS_Running \<Rightarrow> OSC_Active
      | TS_NeedsValidation \<Rightarrow> OSC_Active
      | TS_WaitingApproval \<Rightarrow> OSC_Waiting
      | TS_WaitingInput \<Rightarrow> OSC_Waiting
      | TS_Blocked \<Rightarrow> OSC_Recoverable
      | TS_Failed \<Rightarrow> OSC_Recoverable
      | TS_Done \<Rightarrow> OSC_TerminalOk
      | TS_Cancelled \<Rightarrow> OSC_TerminalStopped)"

definition task_allows :: "task_record \<Rightarrow> operator_transition \<Rightarrow> bool" where
  "task_allows r t =
     (let st = trc_status r in
      case t of
        OT_TaskDispatched \<Rightarrow> st = TS_Runnable
      | OT_WorkerResultReceived \<Rightarrow> st = TS_Running
      | OT_TaskBlocked \<Rightarrow> st \<in> {TS_Runnable, TS_Running, TS_WaitingApproval, TS_WaitingInput, TS_Blocked, TS_Failed}
      | OT_ThunkCreated \<Rightarrow> st \<in> {TS_Runnable, TS_Running, TS_WaitingInput, TS_WaitingApproval, TS_Blocked, TS_Failed}
      | OT_ApprovalRequested \<Rightarrow> st \<in> {TS_Runnable, TS_Running, TS_WaitingApproval, TS_Blocked, TS_Failed}
      | OT_ThunkResumed \<Rightarrow> st \<in> {TS_WaitingInput, TS_WaitingApproval, TS_Blocked}
      | OT_ApprovalResolved \<Rightarrow> st \<in> {TS_WaitingInput, TS_WaitingApproval, TS_Blocked}
      | OT_ReviewCompleted \<Rightarrow> trc_purpose_kind r = TPK_Review \<and> st \<in> {TS_Running, TS_NeedsValidation}
      | OT_GoalCancelled \<Rightarrow> True
      | _ \<Rightarrow> False)"

definition task_hints :: "task_record \<Rightarrow> operator_recovery_hint list" where
  "task_hints r =
     hint ''inspect_task'' ''Inspect task state'' ''choose a recovery action matching the projected task status''
     # (if class_is_recoverable (task_actor_class r)
        then (if trc_status r \<in> {TS_WaitingInput, TS_WaitingApproval}
              then [resume_hint ''waiting tasks should resume through a pending thunk or approval when one is available'',
                    create_thunk_hint ''if the wait has no concrete prompt, create a delayed-compute thunk with a continuation ref'']
              else if trc_status r \<in> {TS_Blocked, TS_Failed}
              then [restart_hint ''blocked and failed tasks should remain retryable through coordinator restart controls'',
                    create_thunk_hint ''blocked work can be converted into an explicit human prompt when retry is not the right next step'']
              else [])
          @ [replan_hint ''route unresolved recovery through a coordinator-owned replan action'',
             cancel_hint ''cancel remains the explicit terminal stop path'']
        else [])"

definition task_can_apply :: "task_record \<Rightarrow> operator_transition \<Rightarrow> operator_transition_rejection + unit" where
  "task_can_apply r t = scoped OAK_Task (task_actor_ref r) (task_actor_status r) t (task_allows r t)
     ''task transition is not valid for the current task state'' (task_hints r)"

section \<open>Approvals and thunks\<close>

fun approval_status_debug :: "approval_status \<Rightarrow> string" where
  "approval_status_debug AS_Pending = ''Pending''"
| "approval_status_debug AS_Approved = ''Approved''"
| "approval_status_debug AS_Rejected = ''Rejected''"
| "approval_status_debug AS_Cancelled = ''Cancelled''"

fun thunk_status_debug :: "delayed_compute_thunk_status \<Rightarrow> string" where
  "thunk_status_debug DS_Pending = ''Pending''"
| "thunk_status_debug DS_Resumed = ''Resumed''"
| "thunk_status_debug DS_Cancelled = ''Cancelled''"
| "thunk_status_debug DS_Expired = ''Expired''"

definition approval_actor_ref :: "approval_record \<Rightarrow> operator_actor_ref" where
  "approval_actor_ref r = (| oar_kind = OAK_Approval, oar_id = arc_approval_id r, oar_goal_id = Some (arc_goal_id r),
     oar_task_id = arc_task_id r |)"

definition approval_actor_status :: "approval_record \<Rightarrow> string" where
  "approval_actor_status r = to_ascii_lowercase (approval_status_debug (arc_status r))"

definition approval_actor_class :: "approval_record \<Rightarrow> operator_actor_state_class" where
  "approval_actor_class r =
     (case arc_status r of
        AS_Pending \<Rightarrow> OSC_Waiting
      | AS_Approved \<Rightarrow> OSC_TerminalOk
      | AS_Rejected \<Rightarrow> OSC_TerminalStopped
      | AS_Cancelled \<Rightarrow> OSC_TerminalStopped)"

definition approval_allows :: "approval_status \<Rightarrow> operator_transition \<Rightarrow> bool" where
  "approval_allows st t =
     (case t of
        OT_ApprovalResolved \<Rightarrow> st = AS_Pending
      | OT_GoalCancelled \<Rightarrow> st \<in> {AS_Pending, AS_Cancelled}
      | _ \<Rightarrow> False)"

definition approval_can_apply :: "approval_record \<Rightarrow> operator_transition \<Rightarrow> operator_transition_rejection + unit" where
  "approval_can_apply r t = scoped OAK_Approval (approval_actor_ref r) (approval_actor_status r) t (approval_allows (arc_status r) t)
     ''approval transition requires a pending approval or idempotent cancellation''
     [refresh_hint ''the approval may already have been resolved by another operator'']"

definition thunk_actor_ref :: "delayed_compute_thunk \<Rightarrow> operator_actor_ref" where
  "thunk_actor_ref d = (| oar_kind = OAK_Thunk, oar_id = dt_id d, oar_goal_id = Some (dt_goal_id d),
     oar_task_id = dt_task_id d |)"

definition thunk_actor_status :: "delayed_compute_thunk \<Rightarrow> string" where
  "thunk_actor_status d = to_ascii_lowercase (thunk_status_debug (dt_status d))"

definition thunk_actor_class :: "delayed_compute_thunk \<Rightarrow> operator_actor_state_class" where
  "thunk_actor_class d =
     (case dt_status d of
        DS_Pending \<Rightarrow> OSC_Waiting
      | DS_Resumed \<Rightarrow> OSC_TerminalOk
      | DS_Cancelled \<Rightarrow> OSC_TerminalStopped
      | DS_Expired \<Rightarrow> OSC_TerminalStopped)"

definition thunk_allows :: "delayed_compute_thunk_status \<Rightarrow> operator_transition \<Rightarrow> bool" where
  "thunk_allows st t =
     (case t of
        OT_ThunkResumed \<Rightarrow> st = DS_Pending
      | OT_GoalCancelled \<Rightarrow> st \<in> {DS_Pending, DS_Expired}
      | _ \<Rightarrow> False)"

definition thunk_can_apply :: "delayed_compute_thunk \<Rightarrow> operator_transition \<Rightarrow> operator_transition_rejection + unit" where
  "thunk_can_apply d t = scoped OAK_Thunk (thunk_actor_ref d) (thunk_actor_status d) t (thunk_allows (dt_status d) t)
     ''thunk transition requires a pending delayed-compute prompt''
     [refresh_hint ''the thunk may already have been resumed, cancelled, or expired'']"

section \<open>Worker runs, reviews and events\<close>

record worker_run_actor =
  wra_result :: agent_run_result
  wra_goal_id :: "uuid option"

record review_actor =
  rac_review :: review_output
  rac_goal_id :: "uuid option"
  rac_task_id :: "uuid option"

definition worker_run_actor_ref :: "worker_run_actor \<Rightarrow> operator_actor_ref" where
  "worker_run_actor_ref a = (| oar_kind = OAK_WorkerRun, oar_id = ''worker-run:'' @ res_task_id (wra_result a),
     oar_goal_id = wra_goal_id a, oar_task_id = Some (res_task_id (wra_result a)) |)"

definition worker_run_actor_status :: "worker_run_actor \<Rightarrow> string" where
  "worker_run_actor_status a = to_ascii_lowercase (worker_run_status_debug (res_status (wra_result a)))"

definition worker_run_can_apply :: "worker_run_actor \<Rightarrow> operator_transition \<Rightarrow> operator_transition_rejection + unit" where
  "worker_run_can_apply a t = scoped OAK_WorkerRun (worker_run_actor_ref a) (worker_run_actor_status a) t
     (t = OT_WorkerResultReceived)
     ''worker runs are immutable results; ingest them with worker_result_received''
     [hint ''inspect_worker_run'' ''Inspect worker result''
        ''follow-up work should be a coordinator-owned task or recovery action'']"

definition review_actor_ref :: "review_actor \<Rightarrow> operator_actor_ref" where
  "review_actor_ref a = (| oar_kind = OAK_Review,
     oar_id = (case rac_task_id a of Some t \<Rightarrow> ''review:'' @ t | None \<Rightarrow> ''review:unscoped''),
     oar_goal_id = rac_goal_id a, oar_task_id = rac_task_id a |)"

definition review_actor_status :: "review_actor \<Rightarrow> string" where
  "review_actor_status a = to_ascii_lowercase (review_decision_debug (rv_decision (rac_review a)))"

definition review_can_apply :: "review_actor \<Rightarrow> operator_transition \<Rightarrow> operator_transition_rejection + unit" where
  "review_can_apply a t = scoped OAK_Review (review_actor_ref a) (review_actor_status a) t (t = OT_ReviewCompleted)
     ''review actors only accept review_completed events''
     [hint ''create_follow_up_task'' ''Create follow-up task''
        ''changes requested by a review must become coordinator-owned work'']"

definition event_can_apply :: "durable_event_envelope \<Rightarrow> operator_transition \<Rightarrow> operator_transition_rejection + unit" where
  "event_can_apply e t =
     (if t = dee_transition e then Inr ()
      else Inl (reject_actor_state (dee_actor e) t (dee_event_type e)
        ''operator events are immutable; append a new event for another transition''
        [hint ''append_new_event'' ''Append a new event'' ''event history is append-only and cannot be rewritten in place'']))"

section \<open>The contract of an actor\<close>

text \<open>
  Every rejection names the actor, the transition and the status it was judged in, and gives at
  least one hint.  An actor with a kind accepts transitions of its kind only.
\<close>

locale operator_actor =
  fixes actor_ref :: "'a \<Rightarrow> operator_actor_ref"
    and status_label :: "'a \<Rightarrow> string"
    and state_class :: "'a \<Rightarrow> operator_actor_state_class"
    and can_apply :: "'a \<Rightarrow> operator_transition \<Rightarrow> operator_transition_rejection + unit"
  assumes rejected: "can_apply a t = Inl r \<Longrightarrow>
      otr_actor r = actor_ref a \<and> otr_transition r = t \<and> otr_current_status r = status_label a \<and> otr_recovery_hints r \<noteq> []"
    and accepts: "can_apply a t = Inr () \<Longrightarrow>
      state_class a = OSC_Immutable \<or> targets_actor_kind t (oar_kind (actor_ref a))"
begin

lemma answered: "can_apply a t = Inr () \<or> (\<exists>r. can_apply a t = Inl r \<and> otr_recovery_hints r \<noteq> [] \<and> otr_actor r = actor_ref a)"
  using rejected by (cases "can_apply a t") auto

lemma scope: "state_class a \<noteq> OSC_Immutable \<Longrightarrow> \<not> targets_actor_kind t (oar_kind (actor_ref a)) \<Longrightarrow>
    \<exists>r. can_apply a t = Inl r"
  using accepts by (cases "can_apply a t") auto

end

lemma scoped_Inl: "scoped k actor st t allowed m hs = Inl r \<Longrightarrow> hs \<noteq> [] \<Longrightarrow>
    otr_actor r = actor \<and> otr_transition r = t \<and> otr_current_status r = st \<and> otr_recovery_hints r \<noteq> []"
  by (auto simp: scoped_def reject_actor_scope_def reject_actor_state_def split: if_splits)

lemma scoped_Inr [simp]: "scoped k actor st t allowed m hs = Inr () \<longleftrightarrow> targets_actor_kind t k \<and> allowed"
  by (simp add: scoped_def)

interpretation goal_operator: operator_actor goal_actor_ref goal_actor_status goal_actor_class goal_can_apply
  by unfold_locales (auto simp: goal_can_apply_def goal_actor_ref_def actor_ref_goal_def dest!: scoped_Inl)

interpretation task_operator: operator_actor task_actor_ref task_actor_status task_actor_class task_can_apply
  by unfold_locales (auto simp: task_can_apply_def task_actor_ref_def actor_ref_task_def task_hints_def dest!: scoped_Inl)

interpretation approval_operator: operator_actor approval_actor_ref approval_actor_status approval_actor_class approval_can_apply
  by unfold_locales (auto simp: approval_can_apply_def approval_actor_ref_def dest!: scoped_Inl)

interpretation thunk_operator: operator_actor thunk_actor_ref thunk_actor_status thunk_actor_class thunk_can_apply
  by unfold_locales (auto simp: thunk_can_apply_def thunk_actor_ref_def dest!: scoped_Inl)

interpretation worker_run_operator: operator_actor worker_run_actor_ref worker_run_actor_status "\<lambda>_. OSC_Immutable" worker_run_can_apply
  by unfold_locales (auto simp: worker_run_can_apply_def dest!: scoped_Inl)

interpretation review_operator: operator_actor review_actor_ref review_actor_status "\<lambda>_. OSC_Immutable" review_can_apply
  by unfold_locales (auto simp: review_can_apply_def dest!: scoped_Inl)

interpretation event_operator: operator_actor dee_actor dee_event_type "\<lambda>_. OSC_Immutable" event_can_apply
  by unfold_locales (auto simp: event_can_apply_def reject_actor_state_def split: if_splits)

section \<open>Properties\<close>

lemma targets_kinds [simp]:
  "targets_actor_kind OT_TaskDispatched OAK_Task" "targets_actor_kind OT_ThunkResumed OAK_Thunk"
  "targets_actor_kind OT_ApprovalResolved OAK_Approval"
  by (simp_all add: targets_actor_kind_def)

lemma task_dispatch_accepted [simp]: "task_can_apply r OT_TaskDispatched = Inr () \<longleftrightarrow> trc_status r = TS_Runnable"
  by (simp add: task_can_apply_def task_allows_def)

lemma approval_resolution_accepted [simp]:
  "approval_can_apply r OT_ApprovalResolved = Inr () \<longleftrightarrow> arc_status r = AS_Pending"
  by (simp add: approval_can_apply_def approval_allows_def)

lemma thunk_resumption_accepted [simp]: "thunk_can_apply d OT_ThunkResumed = Inr () \<longleftrightarrow> dt_status d = DS_Pending"
  by (simp add: thunk_can_apply_def thunk_allows_def)

lemma hint_actions [simp]:
  "orh_action (hint a l m) = a" "orh_action (restart_hint m) = ''retry''" "orh_action (replan_hint m) = ''replan''"
  "orh_action (resume_hint m) = ''resume_thunk''" "orh_action (create_thunk_hint m) = ''create_thunk''"
  "orh_action (cancel_hint m) = ''cancel_goal''"
  by (simp_all add: hint_def restart_hint_def replan_hint_def resume_hint_def create_thunk_hint_def cancel_hint_def)

lemma dispatch_agrees:
  assumes "wf_world w" and "t \<in> set (tasks_of w)"
  shows "fst (mark_running (tn_id t) w) = Inr () \<longleftrightarrow>
    \<not> goal_terminal w \<and> task_can_apply (task_record_of pj w t) OT_TaskDispatched = Inr ()"
proof -
  have "bt_get (gs_tasks w) (tn_id t) = Some t" using assms wf_world_values by (simp add: tasks_of_def)
  then show ?thesis by (simp add: mark_running_Inr may_start_def task_record_of_def Let_def)
qed

lemma approval_agrees:
  assumes "find (\<lambda>a. apr_id a = ha_approval_id h) (gs_approvals w) = Some a"
    and "case apr_task_id a of None \<Rightarrow> True | Some i \<Rightarrow> bt_get (gs_tasks w) i \<noteq> None"
  shows "(\<exists>x. fst (apply_human_approval h w) = Inr x) \<longleftrightarrow> approval_can_apply (approval_record_of pj a) OT_ApprovalResolved = Inr ()"
proof -
  obtain k where k: "position (\<lambda>a. apr_id a = ha_approval_id h) (gs_approvals w) = Some k" "gs_approvals w ! k = a"
    using assms(1) by (auto simp: position_find)
  with assms(2) show ?thesis
    by (auto simp: apply_human_approval_def approval_record_of_def update_approval_def bind_modify_task bind_rules Let_def
        split: option.splits)
qed

text \<open>The task of a thunk, if it has one, still takes changes.\<close>

definition thunk_task_open :: "delayed_compute_thunk \<Rightarrow> world \<Rightarrow> bool" where
  "thunk_task_open d w \<longleftrightarrow>
     (case dt_task_id d of
        None \<Rightarrow> True
      | Some i \<Rightarrow> (case bt_get (gs_tasks w) i of None \<Rightarrow> False | Some t \<Rightarrow> \<not> is_terminal (tn_status t)))"

lemma resumption_agrees:
  assumes "find (\<lambda>d. dt_id d = trq_thunk_id r) (gs_delayed_compute_thunks w) = Some d"
  shows "(\<exists>x. fst (resume_delayed_compute_thunk r w) = Inr x) \<longleftrightarrow>
    \<not> goal_terminal w \<and> thunk_task_open d w \<and> thunk_can_apply d OT_ThunkResumed = Inr ()"
proof -
  obtain k where k: "position (\<lambda>d. dt_id d = trq_thunk_id r) (gs_delayed_compute_thunks w) = Some k"
      "gs_delayed_compute_thunks w ! k = d"
    using assms by (auto simp: position_find)
  show ?thesis
  proof (cases "goal_terminal w")
    case True
    then have "\<exists>e. ensure_goal_accepts_mutation ''resume delayed compute thunk'' w = Inl e"
      by (simp add: ensure_goal_accepts_mutation_def goal_terminal_def)
    with True show ?thesis by (auto simp: resume_delayed_compute_thunk_def)
  next
    case False
    then have "ensure_goal_accepts_mutation ''resume delayed compute thunk'' w = Inr ()" by simp
    with False k show ?thesis
      by (auto simp: resume_delayed_compute_thunk_def thunk_task_open_def ensure_task_accepts_mutation_def
          ensure_task_snapshot_accepts_mutation_def task_def update_thunk_def bind_modify_task bind_rules
          split: option.splits sum.splits if_splits)
  qed
qed

lemma resumed_thunk_rejects:
  assumes "resume_delayed_compute_thunk r w = (Inr d, v)"
  shows "\<exists>x. thunk_can_apply d OT_ThunkResumed = Inl x"
proof -
  obtain k at where "d = resumed r at (gs_delayed_compute_thunks w ! k)" by (rule resume_Inr [OF assms])
  then show ?thesis
    using thunk_resumption_accepted [of d] by (cases "thunk_can_apply d OT_ThunkResumed") (auto simp: resumed_def)
qed

text \<open>
  C11: The operator's view agrees with the workflow, up to what an actor cannot see.  On the records that
  the coordinator projects, \<open>mark_running\<close> starts a task exactly when the task accepts its dispatch and the
  goal is not Done or Cancelled; \<open>apply_human_approval\<close> settles an approval whose task exists exactly when the
  approval accepts its resolution; and \<open>resume_delayed_compute_thunk\<close> resumes a thunk exactly when the thunk
  accepts its resumption, the goal is not Done or Cancelled and the task of the thunk, if any, exists
  and is not closed.  A resumed thunk rejects a second resumption.
\<close>
theorem operators_agree_with_the_workflow:
  "(wf_world w \<and> t \<in> set (tasks_of w) \<longrightarrow>
      (fst (mark_running (tn_id t) w) = Inr () \<longleftrightarrow>
        \<not> goal_terminal w \<and> task_can_apply (task_record_of pj w t) OT_TaskDispatched = Inr ())) \<and>
   (find (\<lambda>a. apr_id a = ha_approval_id h) (gs_approvals w) = Some a \<and>
      (case apr_task_id a of None \<Rightarrow> True | Some i \<Rightarrow> bt_get (gs_tasks w) i \<noteq> None) \<longrightarrow>
      ((\<exists>x. fst (apply_human_approval h w) = Inr x) \<longleftrightarrow> approval_can_apply (approval_record_of pj a) OT_ApprovalResolved = Inr ())) \<and>
   (find (\<lambda>d. dt_id d = trq_thunk_id r) (gs_delayed_compute_thunks w) = Some d \<longrightarrow>
      ((\<exists>x. fst (resume_delayed_compute_thunk r w) = Inr x) \<longleftrightarrow>
        \<not> goal_terminal w \<and> thunk_task_open d w \<and> thunk_can_apply d OT_ThunkResumed = Inr ())) \<and>
   (fst (resume_delayed_compute_thunk r w) = Inr d' \<longrightarrow>
      (\<exists>d0 \<in> set (gs_delayed_compute_thunks w). dt_id d0 = trq_thunk_id r \<and> thunk_can_apply d0 OT_ThunkResumed = Inr ()) \<and>
      (\<exists>x. thunk_can_apply d' OT_ThunkResumed = Inl x))"
proof (intro conjI impI)
  assume "fst (resume_delayed_compute_thunk r w) = Inr d'"
  then obtain v where run: "resume_delayed_compute_thunk r w = (Inr d', v)" by (cases "resume_delayed_compute_thunk r w") auto
  show "\<exists>x. thunk_can_apply d' OT_ThunkResumed = Inl x" by (rule resumed_thunk_rejects [OF run])
  obtain k where k: "position (\<lambda>d. dt_id d = trq_thunk_id r) (gs_delayed_compute_thunks w) = Some k"
      "dt_status (gs_delayed_compute_thunks w ! k) = DS_Pending"
    by (rule resume_Inr [OF run])
  then show "\<exists>d0 \<in> set (gs_delayed_compute_thunks w). dt_id d0 = trq_thunk_id r \<and> thunk_can_apply d0 OT_ThunkResumed = Inr ()"
    using position_Some [OF k(1)] by (intro bexI [of _ "gs_delayed_compute_thunks w ! k"]) (auto simp: thunk_resumption_accepted)
qed (use dispatch_agrees approval_agrees resumption_agrees in blast)+

theorem operators_agree_with_the_workflow_witness:
  "fst (mark_running ''a'' (world_of sample_goal [sample_task ''a'' TS_Runnable])) = Inr () \<and>
   (\<exists>x. fst (apply_human_approval (| ha_approval_id = ''q'', ha_approved = True, ha_note = None |)
     ((world_of sample_goal []) (| gs_approvals := [sample_request ''q''] |))) = Inr x)"
proof
  let ?w = "world_of sample_goal [sample_task ''a'' TS_Runnable]" and ?t = "sample_task ''a'' TS_Runnable"
  let ?v = "(world_of sample_goal []) (| gs_approvals := [sample_request ''q''] |)"
  let ?h = "(| ha_approval_id = ''q'', ha_approved = True, ha_note = None |)"
  fix pj :: projector
  have "?t \<in> set (tasks_of ?w)" "tn_id ?t = ''a''"
    by (simp_all add: tasks_of_def world_of_def bt_of_list_def bt_values_def sample_task_def root_of_def)
  then show "fst (mark_running ''a'' ?w) = Inr ()"
    using operators_agree_with_the_workflow [of ?w ?t pj, THEN conjunct1] wf_world_of_one [of "''a''" TS_Runnable]
    by (simp add: goal_terminal_def task_record_of_def Let_def)
  have "find (\<lambda>a. apr_id a = ha_approval_id ?h) (gs_approvals ?v) = Some (sample_request ''q'')"
    by (simp add: sample_request_def)
  with operators_agree_with_the_workflow [of ?v ?t pj ?h "sample_request ''q''", THEN conjunct2, THEN conjunct1]
  show "\<exists>x. fst (apply_human_approval ?h ?v) = Inr x"
    by (simp add: sample_request_def approval_record_of_def)
qed

text \<open>
  A rejection is a way forward.  Whatever transition a task rejects, the rejection names the task, the
  transition and the status it was judged in; when the transition was meant for tasks and the task is
  waiting, blocked or failed, it offers replanning and cancelling, and for a wait also the resumption and a
  prompt, for a blocked or failed task a retry and a prompt.  A transition of another kind of actor is rejected.
\<close>
theorem rejected_tasks_have_a_way_forward:
  assumes "task_can_apply r t = Inl x"
  shows "otr_actor x = task_actor_ref r \<and> otr_transition x = t \<and> otr_current_status x = task_actor_status r"
    and "\<not> targets_actor_kind t OAK_Task \<longleftrightarrow> otr_message x = ''transition does not target this actor kind''"
    and "targets_actor_kind t OAK_Task \<Longrightarrow> class_is_recoverable (task_actor_class r) \<Longrightarrow>
      {''replan'', ''cancel_goal'', ''create_thunk'',
       if trc_status r \<in> {TS_WaitingInput, TS_WaitingApproval} then ''resume_thunk'' else ''retry''}
        \<subseteq> orh_action ` set (otr_recovery_hints x)"
proof -
  show "otr_actor x = task_actor_ref r \<and> otr_transition x = t \<and> otr_current_status x = task_actor_status r"
    using task_operator.rejected [OF assms] by simp
  show "\<not> targets_actor_kind t OAK_Task \<longleftrightarrow> otr_message x = ''transition does not target this actor kind''"
    using assms by (auto simp: task_can_apply_def scoped_def reject_actor_scope_def reject_actor_state_def split: if_splits)
  assume t: "targets_actor_kind t OAK_Task" and c: "class_is_recoverable (task_actor_class r)"
  have st: "trc_status r \<in> {TS_WaitingInput, TS_WaitingApproval, TS_Blocked, TS_Failed}"
    using c by (cases "trc_status r") (simp_all add: class_is_recoverable_def task_actor_class_def)
  have "otr_recovery_hints x = task_hints r"
    using assms t by (auto simp: task_can_apply_def scoped_def reject_actor_state_def split: if_splits)
  then show "{''replan'', ''cancel_goal'', ''create_thunk'',
       if trc_status r \<in> {TS_WaitingInput, TS_WaitingApproval} then ''resume_thunk'' else ''retry''}
        \<subseteq> orh_action ` set (otr_recovery_hints x)"
    using st c by (elim insertE; simp add: task_hints_def)
qed

definition sample_task_record :: "task_status \<Rightarrow> task_record" where
  "sample_task_record st = (| trc_goal_id = ''g'', trc_task_id = ''a'', trc_parent_task_id = None, trc_subgoal_id = None,
     trc_title = [], trc_color = None, trc_role = WK_Planner, trc_status = st, trc_purpose_kind = TPK_Work, trc_depth = 0,
     trc_priority = TPR_Normal, trc_priority_rank = 1, trc_attempts = 0, trc_runnable = False, trc_tags = [],
     trc_result_uri = None, trc_payload = J_Null |)"

theorem rejected_tasks_have_a_way_forward_witness:
  "\<exists>x. task_can_apply (sample_task_record TS_Failed) OT_ThunkResumed = Inl x \<and> ''retry'' \<in> orh_action ` set (otr_recovery_hints x)"
proof -
  let ?r = "sample_task_record TS_Failed"
  have "\<not> task_allows ?r OT_ThunkResumed" and t: "targets_actor_kind OT_ThunkResumed OAK_Task"
    by (simp_all add: task_allows_def sample_task_record_def targets_actor_kind_def)
  then obtain x where x: "task_can_apply ?r OT_ThunkResumed = Inl x"
    by (simp add: task_can_apply_def scoped_def)
  have "class_is_recoverable (task_actor_class ?r)"
    by (simp add: class_is_recoverable_def task_actor_class_def sample_task_record_def)
  from rejected_tasks_have_a_way_forward(3) [OF x t this] x show ?thesis
    by (auto simp: sample_task_record_def)
qed

end
