(* ===== verification/Goal_Store.thy ===== *)
theory Goal_Store
  imports Plans Operators Journal_File
begin

text \<open>
  The goal store (\<open>crates/goal-store/src/main.rs\<close>): the read model of goals, tasks, events, plans,
  drafts and operator actions.

  Here are its data, \<open>GoalStore\<close> with its operations, and the replay of the journal; the handlers are in
  \<open>Goal_Service\<close>.  \<open>Uuid::parse_str\<close> and the serialisation of a plan are arguments.
\<close>

section \<open>Data\<close>

datatype (plugins only: code size) event_source_kind =
    ESK_Webhook
  | ESK_CloudEventsWebhook
  | ESK_Cron
  | ESK_CalendarPoll
  | ESK_CalendarPush
  | ESK_Queue
  | ESK_Sqs
  | ESK_PubSub
  | ESK_GitHubWebhook
  | ESK_GitLabWebhook
  | ESK_JiraWebhook
  | ESK_LinearWebhook
  | ESK_SlackEvent
  | ESK_StripeWebhook
  | ESK_Email
  | ESK_ObjectStorage
  | ESK_Kubernetes
  | ESK_Generic
  | ESK_AgentEvent
  | ESK_RunnerEvent
  | ESK_GoalLifecycle
  | ESK_MemoryEvent
  | ESK_Ci
  | ESK_CiTestFailure
  | ESK_Git
  | ESK_BranchActivity
  | ESK_PullRequest
  | ESK_PullRequestReview
  | ESK_PullRequestCheck
  | ESK_GitHubActionsCheck
  | ESK_GitLabPipelineCheck
  | ESK_IssueTracker
  | ESK_IdeLsp
  | ESK_IdeDiagnostics
  | ESK_Chat
  | ESK_MonitoringAlert
  | ESK_PrometheusAlertmanager
  | ESK_DatadogWebhook
  | ESK_OpenTelemetrySignal
  | ESK_DatabaseChange
  | ESK_Manual
  | ESK_Other

datatype (plugins only: code size) event_source_approval_status = ESAS_Provided

record event_source_approval_record =
  esa_record_id :: uuid
  esa_approval_ref :: string
  esa_source_id :: string
  esa_source_kind :: event_source_kind
  esa_status :: event_source_approval_status
  esa_risky :: bool
  esa_reason :: string
  esa_operator :: "string option"
  esa_recorded_at :: "string option"
  esa_payload :: json

datatype (plugins only: code size) operator_action_kind =
    OACK_AcceptDraft
  | OACK_ResumeThunk
  | OACK_ResolveApproval
  | OACK_CreateThunk
  | OACK_RestartTask
  | OACK_ReplanTask
  | OACK_SelectBranch
  | OACK_CancelGoal

datatype (plugins only: code size) operator_action_resolution_kind =
    OARK_Continue
  | OARK_Answer
  | OARK_AddContext
  | OARK_Approve
  | OARK_Reject
  | OARK_Retry
  | OARK_Replan
  | OARK_CreateThunk
  | OARK_CancelGoal
  | OARK_AcceptDraft
  | OARK_DiscardDraft
  | OARK_SelectBranch

text \<open>The payload of an action is an object, because only the functions below build actions.\<close>

record operator_action =
  oac_action_id :: string
  oac_kind :: operator_action_kind
  oac_goal_id :: uuid
  oac_task_id :: "uuid option"
  oac_title :: string
  oac_question :: string
  oac_status :: string
  oac_allowed_resolutions :: "operator_action_resolution_kind list"
  oac_approval :: "approval_record option"
  oac_thunk :: "delayed_compute_thunk option"
  oac_payload :: "(string, json) btree"

record chat_turn_record =
  ctu_id :: uuid
  ctu_idempotency_key :: "string option"
  ctu_draft_id :: "uuid option"
  ctu_session_id :: string
  ctu_goal_id :: "uuid option"
  ctu_mode :: string
  ctu_role :: string
  ctu_content :: string
  ctu_created_at :: "string option"
  ctu_provider :: "string option"
  ctu_model :: "string option"
  ctu_payload :: json

record chat_turn_append_request =
  ctq_id :: "uuid option"
  ctq_idempotency_key :: "string option"
  ctq_draft_id :: "uuid option"
  ctq_session_id :: string
  ctq_goal_id :: "uuid option"
  ctq_mode :: "string option"
  ctq_role :: string
  ctq_content :: string
  ctq_created_at :: "string option"
  ctq_provider :: "string option"
  ctq_model :: "string option"
  ctq_payload :: "json option"

record goal_draft_record =
  gdr_draft_id :: uuid
  gdr_idempotency_key :: "string option"
  gdr_session_id :: "string option"
  gdr_plan_id :: "uuid option"
  gdr_goal_id :: "uuid option"
  gdr_title :: string
  gdr_objective :: string
  gdr_status :: string
  gdr_created_at :: "string option"
  gdr_updated_at :: "string option"
  gdr_payload :: json

record goal_draft_record_request =
  gdq_draft_id :: "uuid option"
  gdq_idempotency_key :: "string option"
  gdq_session_id :: "string option"
  gdq_plan_id :: "uuid option"
  gdq_goal_id :: "uuid option"
  gdq_title :: string
  gdq_objective :: string
  gdq_status :: "string option"
  gdq_created_at :: "string option"
  gdq_updated_at :: "string option"
  gdq_payload :: "json option"

record goal_store =
  gst_goals :: "(uuid, goal_record) btree"
  gst_tasks :: "(uuid, task_record) btree"
  gst_events :: "(uuid, goal_event_record list) btree"
  gst_artifacts :: "(uuid, goal_artifact_record list) btree"
  gst_operator_events :: "durable_event_envelope list"
  gst_actions :: "(string, operator_action) btree"
  gst_approvals :: "(uuid, approval_record list) btree"
  gst_event_source_approvals :: "(uuid, event_source_approval_record) btree"
  gst_snapshots :: "(uuid, goal_store_snapshot) btree"
  gst_plans :: "(uuid, durable_plan) btree"
  gst_drafts :: "(uuid, goal_draft_record) btree"
  gst_chat_turns :: "(string, chat_turn_record list) btree"

definition empty_goal_store :: goal_store where
  "empty_goal_store = (| gst_goals = [], gst_tasks = [], gst_events = [], gst_artifacts = [], gst_operator_events = [],
     gst_actions = [], gst_approvals = [], gst_event_source_approvals = [], gst_snapshots = [], gst_plans = [],
     gst_drafts = [], gst_chat_turns = [] |)"

datatype (plugins only: code size) goal_journal_entry =
    GJ_Snapshot goal_store_snapshot
  | GJ_Event goal_event_record
  | GJ_OperatorEvent durable_event_envelope
  | GJ_Artifact artifact_record_request
  | GJ_Plan durable_plan
  | GJ_Draft goal_draft_record
  | GJ_EventSourceApproval event_source_approval_record
  | GJ_ChatTurn chat_turn_record

section \<open>Actions\<close>

definition action_from_approval :: "approval_record \<Rightarrow> operator_action" where
  "action_from_approval a = (| oac_action_id = ''approval:'' @ arc_approval_id a, oac_kind = OACK_ResolveApproval,
     oac_goal_id = arc_goal_id a, oac_task_id = arc_task_id a, oac_title = ''Resolve approval'',
     oac_question = ''Approve or reject: '' @ arc_requested_action a, oac_status = ''pending'',
     oac_allowed_resolutions = [OARK_Approve, OARK_Reject, OARK_CancelGoal], oac_approval = Some a, oac_thunk = None,
     oac_payload = [(''reason'', J_String (arc_reason a)), (''risk'', J_String (approval_risk_json (arc_risk a)))] |)"

definition task_action_shape ::
  "task_status \<Rightarrow> operator_action_kind \<times> string \<times> string \<times> operator_action_resolution_kind list" where
  "task_action_shape st =
     (case st of
        TS_WaitingInput \<Rightarrow> (OACK_ResumeThunk, ''Continue waiting task'', ''Provide the missing input or continue this task.'',
          [OARK_Continue, OARK_Answer, OARK_AddContext, OARK_Replan, OARK_CreateThunk, OARK_CancelGoal])
      | TS_WaitingApproval \<Rightarrow> (OACK_ResolveApproval, ''Resolve approval'', ''Resolve the approval needed for this task.'',
          [OARK_Approve, OARK_Reject, OARK_CancelGoal])
      | TS_Failed \<Rightarrow> (OACK_RestartTask, ''Recover failed task'', ''Retry, replan, or cancel this failed task.'',
          [OARK_Retry, OARK_Replan, OARK_CreateThunk, OARK_CancelGoal])
      | _ \<Rightarrow> (OACK_ReplanTask, ''Recover blocked task'', ''Retry, replan, or cancel this blocked task.'',
          [OARK_Retry, OARK_Replan, OARK_CreateThunk, OARK_CancelGoal]))"

definition action_from_task :: "task_record \<Rightarrow> operator_action" where
  "action_from_task t =
     (case task_action_shape (trc_status t) of (kind, title, question, resolutions) \<Rightarrow> (|
        oac_action_id = ''task:'' @ trc_task_id t @ '':'' @ task_status_json (trc_status t), oac_kind = kind,
        oac_goal_id = trc_goal_id t, oac_task_id = Some (trc_task_id t), oac_title = title,
        oac_question = question @ '' Task: '' @ trc_title t, oac_status = ''pending'',
        oac_allowed_resolutions = resolutions, oac_approval = None, oac_thunk = None,
        oac_payload = [(''recovery'', J_String ''coordinator_action_required''),
          (''subgoal_id'', json_option (trc_subgoal_id t)),
          (''task_status'', J_String (task_status_json (trc_status t))), (''task_title'', J_String (trc_title t))] |))"

definition action_needed_task_status :: "task_status \<Rightarrow> bool" where
  "action_needed_task_status st \<longleftrightarrow> st \<in> {TS_Blocked, TS_Failed, TS_WaitingApproval, TS_WaitingInput}"

definition has_pending_approval :: "approval_record list \<Rightarrow> uuid \<Rightarrow> bool" where
  "has_pending_approval as t \<longleftrightarrow> (\<exists>a \<in> set as. arc_task_id a = Some t \<and> arc_status a = AS_Pending)"

definition actions_from_snapshot :: "goal_store_snapshot \<Rightarrow> operator_action list" where
  "actions_from_snapshot s =
     map action_from_approval (filter (\<lambda>a. arc_status a = AS_Pending) (gss_approvals s))
     @ map action_from_task (filter (\<lambda>t. action_needed_task_status (trc_status t) \<and>
         \<not> has_pending_approval (gss_approvals s) (trc_task_id t)) (gss_tasks s))"

definition draft_action :: "goal_draft_record \<Rightarrow> operator_action option" where
  "draft_action d =
     (case gdr_goal_id d of
        None \<Rightarrow> None
      | Some g \<Rightarrow>
          if gdr_status d \<in> {''accepted'', ''discarded'', ''compiled''} then None
          else Some (| oac_action_id = ''draft:'' @ gdr_draft_id d @ '':accept'', oac_kind = OACK_AcceptDraft,
            oac_goal_id = g, oac_task_id = None, oac_title = ''Accept draft'',
            oac_question = ''Submit draft goal: '' @ gdr_title d, oac_status = ''pending'',
            oac_allowed_resolutions = [OARK_AcceptDraft, OARK_DiscardDraft], oac_approval = None, oac_thunk = None,
            oac_payload = [(''draft_id'', J_String (gdr_draft_id d)), (''objective'', J_String (gdr_objective d)),
              (''plan_id'', json_option (gdr_plan_id d))] |))"

fun plan_status_json :: "plan_status \<Rightarrow> string" where
  "plan_status_json PLS_Draft = ''draft''"
| "plan_status_json PLS_NeedsQuestions = ''needs_questions''"
| "plan_status_json PLS_ReadyForReview = ''ready_for_review''"
| "plan_status_json PLS_Approved = ''approved''"
| "plan_status_json PLS_Compiled = ''compiled''"
| "plan_status_json PLS_Superseded = ''superseded''"
| "plan_status_json PLS_Archived = ''archived''"

definition draft_from_plan :: "(durable_plan \<Rightarrow> json) \<Rightarrow> durable_plan \<Rightarrow> goal_draft_record option" where
  "draft_from_plan to_json p =
     (if dp_status p \<in> {PLS_Archived, PLS_Superseded} then None
      else Some (| gdr_draft_id = dp_id p, gdr_idempotency_key = Some (''plan:'' @ dp_id p @ '':draft''),
        gdr_session_id = None, gdr_plan_id = Some (dp_id p), gdr_goal_id = dp_compiled_goal_id p,
        gdr_title = dp_title p, gdr_objective = dp_objective p, gdr_status = plan_status_json (dp_status p),
        gdr_created_at = dp_created_at p, gdr_updated_at = dp_updated_at p, gdr_payload = to_json p |))"

definition status_for_operator_transition :: "operator_transition \<Rightarrow> string option" where
  "status_for_operator_transition t =
     (if t \<in> {OT_DraftAccepted, OT_ThunkResumed, OT_ApprovalResolved, OT_GoalSatisfied} then Some ''resolved''
      else if t = OT_GoalCancelled then Some ''cancelled''
      else None)"

definition action_kind_for_operator_transition :: "operator_transition \<Rightarrow> operator_action_kind option" where
  "action_kind_for_operator_transition t =
     (case t of
        OT_DraftAccepted \<Rightarrow> Some OACK_AcceptDraft
      | OT_ThunkResumed \<Rightarrow> Some OACK_ResumeThunk
      | OT_ApprovalResolved \<Rightarrow> Some OACK_ResolveApproval
      | _ \<Rightarrow> None)"

definition json_uuid_at :: "(string \<Rightarrow> uuid option) \<Rightarrow> json \<Rightarrow> string list \<Rightarrow> uuid option" where
  "json_uuid_at parse v path = (case json_string_at v path of Some s \<Rightarrow> parse s | None \<Rightarrow> None)"

definition action_matches_resolution_event ::
  "(string \<Rightarrow> uuid option) \<Rightarrow> operator_action \<Rightarrow> durable_event_envelope \<Rightarrow> operator_action_kind option \<Rightarrow> bool" where
  "action_matches_resolution_event parse a e kind \<longleftrightarrow>
     (case kind of None \<Rightarrow> True | Some k \<Rightarrow> oac_kind a = k) \<and>
     (case kind of
        Some OACK_AcceptDraft \<Rightarrow>
          (case json_uuid_at parse (dee_payload e) [''draft_id''] of
             None \<Rightarrow> True
           | Some d \<Rightarrow> json_uuid_at parse (J_Object (oac_payload a)) [''draft_id''] = Some d)
      | Some OACK_ResolveApproval \<Rightarrow>
          (case json_uuid_at parse (dee_payload e) [''approval_id''] of
             None \<Rightarrow> True
           | Some i \<Rightarrow> (case oac_approval a of Some r \<Rightarrow> arc_approval_id r = i | None \<Rightarrow> False))
      | _ \<Rightarrow> True)"

section \<open>The store\<close>

definition event_known :: "goal_event_record list \<Rightarrow> goal_event_record \<Rightarrow> bool" where
  "event_known es e \<longleftrightarrow> (\<exists>x \<in> set es. ger_sequence x = ger_sequence e \<or> ger_idempotency_key x = ger_idempotency_key e)"

definition entries_of :: "('k, 'v list) btree \<Rightarrow> 'k \<Rightarrow> 'v list" where
  "entries_of m k = (case bt_get m k of Some vs \<Rightarrow> vs | None \<Rightarrow> [])"

definition apply_event :: "goal_event_record \<Rightarrow> goal_store \<Rightarrow> goal_store" where
  "apply_event e st =
     (let es = entries_of (gst_events st) (ger_goal_id e)
      in st (| gst_events := bt_insert (ger_goal_id e) (if event_known es e then es else es @ [e]) (gst_events st) |))"

definition put_action :: "operator_action \<Rightarrow> (string, operator_action) btree \<Rightarrow> (string, operator_action) btree" where
  "put_action a = bt_insert (oac_action_id a) a"

definition put_draft_action ::
  "goal_draft_record \<Rightarrow> (string, operator_action) btree \<Rightarrow> (string, operator_action) btree" where
  "put_draft_action d m = (case draft_action d of Some a \<Rightarrow> put_action a m | None \<Rightarrow> m)"

definition rebuild_goal_actions :: "uuid \<Rightarrow> goal_store \<Rightarrow> goal_store" where
  "rebuild_goal_actions g st =
     (let kept = filter (\<lambda>(k, a). oac_goal_id a \<noteq> g) (gst_actions st);
          wanted = (case bt_get (gst_snapshots st) g of Some s \<Rightarrow> fold put_action (actions_from_snapshot s) kept | None \<Rightarrow> kept)
      in st (| gst_actions :=
           fold put_draft_action (filter (\<lambda>d. gdr_goal_id d = Some g) (bt_values (gst_drafts st))) wanted |))"

definition apply_snapshot :: "goal_store_snapshot \<Rightarrow> goal_store \<Rightarrow> goal_store" where
  "apply_snapshot s st =
     (let g = grc_goal_id (gss_goal s);
          st1 = st (| gst_goals := bt_insert g (gss_goal s) (gst_goals st),
                      gst_tasks := fold (\<lambda>t. bt_insert (trc_task_id t) t) (gss_tasks s) (gst_tasks st),
                      gst_artifacts := bt_insert g (gss_artifacts s) (gst_artifacts st),
                      gst_approvals := bt_insert g (gss_approvals s) (gst_approvals st) |);
          st2 = fold apply_event (gss_events s) st1
      in rebuild_goal_actions g (st2 (| gst_snapshots := bt_insert g s (gst_snapshots st2) |)))"

definition resolve_action ::
  "(string \<Rightarrow> uuid option) \<Rightarrow> durable_event_envelope \<Rightarrow> uuid \<Rightarrow> string \<Rightarrow> operator_action \<Rightarrow> operator_action" where
  "resolve_action parse e g status a =
     (if oac_goal_id a = g \<and>
         (case oar_task_id (dee_actor e) of None \<Rightarrow> True | Some t \<Rightarrow> oac_task_id a = Some t) \<and>
         action_matches_resolution_event parse a e (action_kind_for_operator_transition (dee_transition e)) \<and>
         oac_status a \<in> {''pending'', ''open''}
      then a (| oac_status := status,
                oac_payload := bt_insert ''resolution_event_id'' (J_String (dee_event_id e)) (oac_payload a) |)
      else a)"

definition resolve_actions_for_event :: "(string \<Rightarrow> uuid option) \<Rightarrow> durable_event_envelope \<Rightarrow> goal_store \<Rightarrow> goal_store" where
  "resolve_actions_for_event parse e st =
     (case oar_goal_id (dee_actor e) of
        None \<Rightarrow> st
      | Some g \<Rightarrow> (case status_for_operator_transition (dee_transition e) of
          None \<Rightarrow> st
        | Some status \<Rightarrow> st (| gst_actions := bt_map_values (resolve_action parse e g status) (gst_actions st) |)))"

definition operator_event_known :: "durable_event_envelope list \<Rightarrow> durable_event_envelope \<Rightarrow> bool" where
  "operator_event_known es e \<longleftrightarrow>
     (\<exists>x \<in> set es. dee_event_id x = dee_event_id e \<or> dee_idempotency_key x = dee_idempotency_key e)"

definition apply_operator_event :: "(string \<Rightarrow> uuid option) \<Rightarrow> durable_event_envelope \<Rightarrow> goal_store \<Rightarrow> goal_store" where
  "apply_operator_event parse e st =
     (if operator_event_known (gst_operator_events st) e then st
      else (resolve_actions_for_event parse e st) (| gst_operator_events := gst_operator_events st @ [e] |))"

definition apply_artifact :: "goal_artifact_record \<Rightarrow> goal_store \<Rightarrow> goal_store" where
  "apply_artifact r st = st (| gst_artifacts :=
     bt_insert (gac_goal_id r) (entries_of (gst_artifacts st) (gac_goal_id r) @ [r]) (gst_artifacts st) |)"

definition apply_artifacts :: "goal_artifact_record list \<Rightarrow> goal_store \<Rightarrow> goal_store" where
  "apply_artifacts rs = fold apply_artifact rs"

definition apply_plan :: "durable_plan \<Rightarrow> goal_store \<Rightarrow> goal_store" where
  "apply_plan p st = st (| gst_plans := bt_insert (dp_id p) p (gst_plans st) |)"

definition draft_key_taken :: "(uuid, goal_draft_record) btree \<Rightarrow> goal_draft_record \<Rightarrow> bool" where
  "draft_key_taken m d \<longleftrightarrow> (\<exists>x \<in> set (bt_values m). gdr_draft_id x \<noteq> gdr_draft_id d \<and>
     gdr_idempotency_key x \<noteq> None \<and> gdr_idempotency_key x = gdr_idempotency_key d)"

definition apply_draft :: "goal_draft_record \<Rightarrow> goal_store \<Rightarrow> goal_store" where
  "apply_draft d st =
     (if draft_key_taken (gst_drafts st) d then st
      else let stale = (case bt_get (gst_drafts st) (gdr_draft_id d) of
                 None \<Rightarrow> gst_actions st
               | Some old \<Rightarrow> (case draft_action old of Some a \<Rightarrow> bt_remove (oac_action_id a) (gst_actions st) | None \<Rightarrow> gst_actions st))
           in st (| gst_actions := put_draft_action d stale, gst_drafts := bt_insert (gdr_draft_id d) d (gst_drafts st) |))"

definition apply_event_source_approval :: "event_source_approval_record \<Rightarrow> goal_store \<Rightarrow> goal_store" where
  "apply_event_source_approval r st =
     st (| gst_event_source_approvals := bt_insert (esa_record_id r) r (gst_event_source_approvals st) |)"

definition turn_known :: "chat_turn_record list \<Rightarrow> chat_turn_record \<Rightarrow> bool" where
  "turn_known ts t \<longleftrightarrow> (\<exists>x \<in> set ts. ctu_id x = ctu_id t \<or>
     ctu_idempotency_key x \<noteq> None \<and> ctu_idempotency_key x = ctu_idempotency_key t)"

definition apply_chat_turn :: "chat_turn_record \<Rightarrow> goal_store \<Rightarrow> goal_store" where
  "apply_chat_turn t st =
     (let ts = entries_of (gst_chat_turns st) (ctu_session_id t)
      in st (| gst_chat_turns := bt_insert (ctu_session_id t) (if turn_known ts t then ts else ts @ [t]) (gst_chat_turns st) |))"

fun apply_journal :: "(string \<Rightarrow> uuid option) \<Rightarrow> goal_journal_entry \<Rightarrow> goal_store \<Rightarrow> goal_store" where
  "apply_journal parse (GJ_Snapshot s) = apply_snapshot s"
| "apply_journal parse (GJ_Event e) = apply_event e"
| "apply_journal parse (GJ_OperatorEvent e) = apply_operator_event parse e"
| "apply_journal parse (GJ_Artifact q) = apply_artifacts (into_records q)"
| "apply_journal parse (GJ_Plan p) = apply_plan p"
| "apply_journal parse (GJ_Draft d) = apply_draft d"
| "apply_journal parse (GJ_EventSourceApproval r) = apply_event_source_approval r"
| "apply_journal parse (GJ_ChatTurn t) = apply_chat_turn t"

type_synonym goal_journal = "goal_journal_entry journal_file"

text \<open>The error of a replay is the number of the line that does not parse.\<close>

fun replay_goal_lines :: "(string \<Rightarrow> uuid option) \<Rightarrow> nat \<Rightarrow> goal_journal_entry file_line list \<Rightarrow> goal_store \<Rightarrow> nat + goal_store" where
  "replay_goal_lines parse n [] st = Inr st"
| "replay_goal_lines parse n (FL_Entry e # ls) st = replay_goal_lines parse (Suc n) ls (apply_journal parse e st)"
| "replay_goal_lines parse n (FL_Blank # ls) st = replay_goal_lines parse (Suc n) ls st"
| "replay_goal_lines parse n (FL_Invalid # ls) st = Inl n"

definition replay_goal_journal :: "(string \<Rightarrow> uuid option) \<Rightarrow> goal_journal option \<Rightarrow> nat + goal_store" where
  "replay_goal_journal parse journal =
     (case journal of None \<Rightarrow> Inr empty_goal_store | Some f \<Rightarrow> replay_goal_lines parse 1 (jf_lines f) empty_goal_store)"

text \<open>The store a service starts with, when its backend is not Postgres.\<close>

definition start_goal_store :: "(string \<Rightarrow> uuid option) \<Rightarrow> goal_journal option \<Rightarrow> goal_store" where
  "start_goal_store parse journal =
     (case replay_goal_journal parse journal of Inr st \<Rightarrow> st | Inl _ \<Rightarrow> empty_goal_store)"

end
