(* ===== verification/Goal_Service.thy ===== *)
theory Goal_Service
  imports Goal_Store
begin

text \<open>
  The handlers of the goal store (\<open>crates/goal-store/src/main.rs\<close>).  A handler is an operation on
  \<open>goal_service\<close>: the store, the journal when a path is set, and the database when the backend is Postgres.

  The SQL functions are the record \<open>goal_postgres\<close>.  What else lies outside (how an append to the journal
  ends, \<open>Uuid::parse_str\<close>, the serialisation of a plan) is the record \<open>store_env\<close>.  The time and the
  identifiers a handler draws are its arguments.
\<close>

section \<open>Service and environment\<close>

datatype (plugins only: code size) api_status =
    API_Internal
  | API_Bad_Request
  | API_Not_Found

type_synonym api_error = "api_status \<times> string"

record store_env =
  se_append :: "goal_journal \<Rightarrow> goal_journal_entry \<Rightarrow> append_outcome"
  se_parse_uuid :: "string \<Rightarrow> uuid option"
  se_plan_json :: "durable_plan \<Rightarrow> json"

record 'db goal_postgres =
  pg_write :: "goal_journal_entry \<Rightarrow> 'db \<Rightarrow> string + 'db"
  pg_get_plan :: "uuid \<Rightarrow> 'db \<Rightarrow> string + durable_plan option"
  pg_get_goal :: "uuid \<Rightarrow> 'db \<Rightarrow> string + goal_record option"
  pg_get_draft :: "uuid \<Rightarrow> 'db \<Rightarrow> string + goal_draft_record option"
  pg_chat_session :: "string \<Rightarrow> 'db \<Rightarrow> string + chat_turn_record list"

record 'db goal_service =
  gsv_store :: goal_store
  gsv_journal :: "goal_journal option"
  gsv_database :: "'db option"

definition new_goal_service :: "goal_journal option \<Rightarrow> 'db option \<Rightarrow> 'db goal_service" where
  "new_goal_service journal db = (| gsv_store = empty_goal_store, gsv_journal = journal, gsv_database = db |)"

definition restart_goal_service :: "store_env \<Rightarrow> 'db goal_service \<Rightarrow> 'db goal_service" where
  "restart_goal_service env v = v (| gsv_store :=
     (if gsv_database v \<noteq> None then empty_goal_store else start_goal_store (se_parse_uuid env) (gsv_journal v)) |)"

section \<open>Writing\<close>

definition append_goal_journal :: "store_env \<Rightarrow> goal_journal_entry \<Rightarrow> goal_journal \<Rightarrow> goal_journal" where
  "append_goal_journal env e f = append_entry (se_append env f e) e f"

text \<open>A write goes to the database, whose error stops the handler, or to the journal, whose error is logged.\<close>

definition write_entry ::
  "'db goal_postgres \<Rightarrow> store_env \<Rightarrow> goal_journal_entry \<Rightarrow> 'db goal_service \<Rightarrow> string + 'db goal_service" where
  "write_entry pg env e v =
     (case gsv_database v of
        Some db \<Rightarrow> (case pg_write pg e db of Inl err \<Rightarrow> Inl err | Inr db' \<Rightarrow> Inr (v (| gsv_database := Some db' |)))
      | None \<Rightarrow> Inr (v (| gsv_journal := map_option (append_goal_journal env e) (gsv_journal v) |)))"

definition record_entry ::
  "'db goal_postgres \<Rightarrow> store_env \<Rightarrow> goal_journal_entry \<Rightarrow> 'db goal_service \<Rightarrow> (string + unit) \<times> 'db goal_service" where
  "record_entry pg env e v =
     (case write_entry pg env e v of
        Inl err \<Rightarrow> (Inl err, v)
      | Inr w \<Rightarrow> (Inr (), w (| gsv_store := apply_journal (se_parse_uuid env) e (gsv_store w) |)))"

definition reply :: "(string + unit) \<times> 'db goal_service \<Rightarrow> 'a \<Rightarrow> (api_error + 'a) \<times> 'db goal_service" where
  "reply r x = (case r of (Inl err, v) \<Rightarrow> (Inl (API_Internal, err), v) | (Inr _, v) \<Rightarrow> (Inr x, v))"

definition upsert_snapshot ::
  "'db goal_postgres \<Rightarrow> store_env \<Rightarrow> goal_store_snapshot \<Rightarrow> 'db goal_service \<Rightarrow>
   (api_error + goal_record \<times> nat) \<times> 'db goal_service" where
  "upsert_snapshot pg env s v =
     reply (record_entry pg env (GJ_Snapshot s) v) (gss_goal s, as_u32 (length (gss_tasks s)))"

definition append_event ::
  "'db goal_postgres \<Rightarrow> store_env \<Rightarrow> goal_event_record \<Rightarrow> 'db goal_service \<Rightarrow> (api_error + nat) \<times> 'db goal_service" where
  "append_event pg env e v = reply (record_entry pg env (GJ_Event e) v) (ger_sequence e)"

definition append_operator_event ::
  "'db goal_postgres \<Rightarrow> store_env \<Rightarrow> durable_event_envelope \<Rightarrow> 'db goal_service \<Rightarrow>
   (api_error + uuid) \<times> 'db goal_service" where
  "append_operator_event pg env e v = reply (record_entry pg env (GJ_OperatorEvent e) v) (dee_event_id e)"

definition record_artifacts ::
  "'db goal_postgres \<Rightarrow> store_env \<Rightarrow> artifact_record_request \<Rightarrow> 'db goal_service \<Rightarrow>
   (api_error + nat) \<times> 'db goal_service" where
  "record_artifacts pg env q v = reply (record_entry pg env (GJ_Artifact q) v) (as_u32 (length (into_records q)))"

definition record_event_source_approval ::
  "'db goal_postgres \<Rightarrow> store_env \<Rightarrow> event_source_approval_record \<Rightarrow> 'db goal_service \<Rightarrow>
   (api_error + event_source_approval_record) \<times> 'db goal_service" where
  "record_event_source_approval pg env r v = reply (record_entry pg env (GJ_EventSourceApproval r) v) r"

section \<open>Drafts and chat turns\<close>

definition normalize_optional_string :: "string option \<Rightarrow> string option" where
  "normalize_optional_string x = (case x of None \<Rightarrow> None | Some s \<Rightarrow> (let t = trim s in if t = [] then None else Some t))"

definition draft_record_from_request :: "uuid \<Rightarrow> goal_draft_record_request \<Rightarrow> api_error + goal_draft_record" where
  "draft_record_from_request i q =
     (let title = trim (gdq_title q); objective = trim (gdq_objective q) in
      if title = [] then Inl (API_Bad_Request, ''draft title is required'')
      else if objective = [] then Inl (API_Bad_Request, ''draft objective is required'')
      else Inr (|
        gdr_draft_id = unwrap_or (gdq_draft_id q) i,
        gdr_idempotency_key = normalize_optional_string (gdq_idempotency_key q),
        gdr_session_id = normalize_optional_string (gdq_session_id q), gdr_plan_id = gdq_plan_id q,
        gdr_goal_id = gdq_goal_id q, gdr_title = title, gdr_objective = objective,
        gdr_status = unwrap_or (map_option to_ascii_lowercase (normalize_optional_string (gdq_status q))) ''draft'',
        gdr_created_at = normalize_optional_string (gdq_created_at q),
        gdr_updated_at = normalize_optional_string (gdq_updated_at q),
        gdr_payload = unwrap_or (gdq_payload q) (J_Object []) |))"

definition chat_turn_from_request :: "uuid \<Rightarrow> chat_turn_append_request \<Rightarrow> api_error + chat_turn_record" where
  "chat_turn_from_request i q =
     (let session = trim (ctq_session_id q); role = to_ascii_lowercase (trim (ctq_role q)); content = trim (ctq_content q) in
      if session = [] then Inl (API_Bad_Request, ''chat turn session_id is required'')
      else if role \<noteq> ''user'' \<and> role \<noteq> ''assistant'' then Inl (API_Bad_Request, ''chat turn role must be user or assistant'')
      else if content = [] then Inl (API_Bad_Request, ''chat turn content is required'')
      else Inr (|
        ctu_id = unwrap_or (ctq_id q) i, ctu_idempotency_key = normalize_optional_string (ctq_idempotency_key q),
        ctu_draft_id = ctq_draft_id q, ctu_session_id = session, ctu_goal_id = ctq_goal_id q,
        ctu_mode = unwrap_or (normalize_optional_string (ctq_mode q)) ''general'', ctu_role = role,
        ctu_content = content, ctu_created_at = normalize_optional_string (ctq_created_at q),
        ctu_provider = normalize_optional_string (ctq_provider q), ctu_model = normalize_optional_string (ctq_model q),
        ctu_payload = unwrap_or (ctq_payload q) (J_Object []) |))"

definition record_draft ::
  "'db goal_postgres \<Rightarrow> store_env \<Rightarrow> uuid \<Rightarrow> goal_draft_record_request \<Rightarrow> 'db goal_service \<Rightarrow>
   (api_error + goal_draft_record) \<times> 'db goal_service" where
  "record_draft pg env i q v =
     (case draft_record_from_request i q of
        Inl err \<Rightarrow> (Inl err, v)
      | Inr d \<Rightarrow> reply (record_entry pg env (GJ_Draft d) v) d)"

definition append_chat_turn ::
  "'db goal_postgres \<Rightarrow> store_env \<Rightarrow> uuid \<Rightarrow> chat_turn_append_request \<Rightarrow> 'db goal_service \<Rightarrow>
   (api_error + chat_turn_record) \<times> 'db goal_service" where
  "append_chat_turn pg env i q v =
     (case chat_turn_from_request i q of
        Inl err \<Rightarrow> (Inl err, v)
      | Inr t \<Rightarrow> reply (record_entry pg env (GJ_ChatTurn t) v) t)"

section \<open>Plans\<close>

definition load_plan :: "'db goal_postgres \<Rightarrow> uuid \<Rightarrow> 'db goal_service \<Rightarrow> string + durable_plan option" where
  "load_plan pg i v =
     (case gsv_database v of
        Some db \<Rightarrow> pg_get_plan pg i db
      | None \<Rightarrow> Inr (bt_get (gst_plans (gsv_store v)) i))"

definition upsert_plan_record ::
  "'db goal_postgres \<Rightarrow> store_env \<Rightarrow> durable_plan \<Rightarrow> 'db goal_service \<Rightarrow> (string + unit) \<times> 'db goal_service" where
  "upsert_plan_record pg env p v =
     (case validate_action_items p of
        Inl err \<Rightarrow> (Inl err, v)
      | Inr _ \<Rightarrow> (case record_entry pg env (GJ_Plan p) v of
          (Inl err, w) \<Rightarrow> (Inl err, w)
        | (Inr _, w) \<Rightarrow> (case draft_from_plan (se_plan_json env) p of
            None \<Rightarrow> (Inr (), w)
          | Some d \<Rightarrow> record_entry pg env (GJ_Draft d) w)))"

definition with_plan ::
  "'db goal_postgres \<Rightarrow> string \<Rightarrow> uuid \<Rightarrow> 'db goal_service \<Rightarrow> (durable_plan \<Rightarrow> (api_error + 'a) \<times> 'db goal_service) \<Rightarrow>
   (api_error + 'a) \<times> 'db goal_service" where
  "with_plan pg what i v k =
     (case load_plan pg i v of
        Inl err \<Rightarrow> (Inl (API_Internal, err), v)
      | Inr None \<Rightarrow> (Inl (API_Not_Found, what @ i @ '' not found''), v)
      | Inr (Some p) \<Rightarrow> k p)"

definition create_plan ::
  "'db goal_postgres \<Rightarrow> store_env \<Rightarrow> string \<Rightarrow> uuid \<Rightarrow> uuid \<Rightarrow> plan_draft_request \<Rightarrow> 'db goal_service \<Rightarrow>
   (api_error + durable_plan) \<times> 'db goal_service" where
  "create_plan pg env at i j q v = (let p = draft_plan at i j q in reply (upsert_plan_record pg env p v) p)"

definition revise_plan ::
  "'db goal_postgres \<Rightarrow> store_env \<Rightarrow> string \<Rightarrow> uuid \<Rightarrow> uuid \<Rightarrow> plan_revision_request \<Rightarrow> 'db goal_service \<Rightarrow>
   (api_error + durable_plan) \<times> 'db goal_service" where
  "revise_plan pg env at i plan q v = with_plan pg ''plan '' plan v (\<lambda>p.
     let p' = apply_revision at i q p in reply (upsert_plan_record pg env p' v) p')"

definition compile_plan ::
  "'db goal_postgres \<Rightarrow> store_env \<Rightarrow> string \<Rightarrow> uuid \<Rightarrow> uuid \<Rightarrow> plan_compile_request \<Rightarrow> 'db goal_service \<Rightarrow>
   (api_error + plan_compile_result) \<times> 'db goal_service" where
  "compile_plan pg env at i plan q v = with_plan pg ''plan '' plan v (\<lambda>p.
     case compile_goal at i (q (| pcr_plan_id := Some plan |)) p of
       (r, p') \<Rightarrow> reply (upsert_plan_record pg env p' v) r)"

definition ensure_candidate_branch :: "uuid \<Rightarrow> durable_plan \<Rightarrow> api_error + unit" where
  "ensure_candidate_branch source candidate =
     (if dp_id candidate = source then Inl (API_Bad_Request, ''candidate plan cannot be the source plan'')
      else if dp_source_plan_id candidate \<noteq> Some source
      then Inl (API_Bad_Request, ''candidate plan '' @ dp_id candidate @ '' is not a branch of source plan '' @ source)
      else Inr ())"

definition vote_plan_candidate ::
  "'db goal_postgres \<Rightarrow> store_env \<Rightarrow> string \<Rightarrow> uuid \<Rightarrow> uuid \<Rightarrow> plan_candidate_vote_request \<Rightarrow> 'db goal_service \<Rightarrow>
   (api_error + durable_plan \<times> plan_candidate_vote) \<times> 'db goal_service" where
  "vote_plan_candidate pg env at i plan q v = with_plan pg ''plan '' plan v (\<lambda>p.
     with_plan pg ''candidate plan '' (pcq_candidate_plan_id q) v (\<lambda>c.
       case ensure_candidate_branch plan c of
         Inl err \<Rightarrow> (Inl err, v)
       | Inr _ \<Rightarrow> (let p' = record_candidate_vote at i q p
                   in reply (upsert_plan_record pg env p' v) (p', candidate_vote_of at i q p))))"

definition select_plan_candidate ::
  "'db goal_postgres \<Rightarrow> store_env \<Rightarrow> string \<Rightarrow> uuid \<Rightarrow> plan_candidate_selection_request \<Rightarrow> 'db goal_service \<Rightarrow>
   (api_error + durable_plan \<times> plan_candidate_selection) \<times> 'db goal_service" where
  "select_plan_candidate pg env at plan q v = with_plan pg ''plan '' plan v (\<lambda>p.
     with_plan pg ''candidate plan '' (psq_candidate_plan_id q) v (\<lambda>c.
       case ensure_candidate_branch plan c of
         Inl err \<Rightarrow> (Inl err, v)
       | Inr _ \<Rightarrow>
           if psq_require_compiled_goal q \<and> dp_compiled_goal_id c = None
           then (Inl (API_Bad_Request, ''candidate plan '' @ dp_id c @ '' has no compiled_goal_id''), v)
           else (let p' = select_candidate_plan at q (dp_compiled_goal_id c) p
                 in reply (upsert_plan_record pg env p' v) (p', selection_of at q (dp_compiled_goal_id c) p))))"

section \<open>Reading\<close>

definition read_or :: "('db \<Rightarrow> string + 'a) \<Rightarrow> (goal_store \<Rightarrow> 'a) \<Rightarrow> 'db goal_service \<Rightarrow> api_error + 'a" where
  "read_or pg_read read v =
     (case gsv_database v of
        Some db \<Rightarrow> (case pg_read db of Inl err \<Rightarrow> Inl (API_Internal, err) | Inr x \<Rightarrow> Inr x)
      | None \<Rightarrow> Inr (read (gsv_store v)))"

definition get_goal :: "'db goal_postgres \<Rightarrow> uuid \<Rightarrow> 'db goal_service \<Rightarrow> api_error + goal_record option" where
  "get_goal pg i = read_or (pg_get_goal pg i) (\<lambda>st. bt_get (gst_goals st) i)"

definition get_plan :: "'db goal_postgres \<Rightarrow> uuid \<Rightarrow> 'db goal_service \<Rightarrow> api_error + durable_plan option" where
  "get_plan pg i = read_or (pg_get_plan pg i) (\<lambda>st. bt_get (gst_plans st) i)"

definition get_draft :: "'db goal_postgres \<Rightarrow> uuid \<Rightarrow> 'db goal_service \<Rightarrow> api_error + goal_draft_record" where
  "get_draft pg i v =
     (case read_or (pg_get_draft pg i) (\<lambda>st. bt_get (gst_drafts st) i) v of
        Inl err \<Rightarrow> Inl err
      | Inr None \<Rightarrow> Inl (API_Not_Found, ''draft '' @ i @ '' not found'')
      | Inr (Some d) \<Rightarrow> Inr d)"

definition get_chat_session :: "'db goal_postgres \<Rightarrow> string \<Rightarrow> 'db goal_service \<Rightarrow> api_error + chat_turn_record list" where
  "get_chat_session pg i = read_or (pg_chat_session pg i) (\<lambda>st. entries_of (gst_chat_turns st) i)"

end
