(* ===== verification/Store_Facts.thy ===== *)
theory Store_Facts
  imports Goal_Service
begin

text \<open>
  What the goal store keeps: its maps stay well formed and keyed, its three logs take an entry once, every
  action can be resolved; the replay of the journal; the log of a goal, and the queue of actions, as
  functions of the snapshots received.
\<close>

section \<open>Logs that take an entry once\<close>

definition apart :: "('e \<Rightarrow> 'e \<Rightarrow> bool) \<Rightarrow> 'e list \<Rightarrow> bool" where
  "apart same es \<longleftrightarrow> sorted_wrt (\<lambda>x y. \<not> same x y) es"

definition append_new :: "('e list \<Rightarrow> 'e \<Rightarrow> bool) \<Rightarrow> 'e \<Rightarrow> 'e list \<Rightarrow> 'e list" where
  "append_new known e es = (if known es e then es else es @ [e])"

locale dedup_log =
  fixes known :: "'e list \<Rightarrow> 'e \<Rightarrow> bool" and same :: "'e \<Rightarrow> 'e \<Rightarrow> bool"
  assumes known_iff: "known es e \<longleftrightarrow> (\<exists>x \<in> set es. same x e)"
    and same_refl: "same e e"
begin

lemma keeps_apart: "apart same es \<Longrightarrow> apart same (append_new known e es)"
  by (auto simp: apart_def append_new_def sorted_wrt_append known_iff)

lemma appended_known: "known (append_new known e es) e"
  using same_refl by (auto simp: append_new_def known_iff)

lemma again [simp]: "append_new known e (append_new known e es) = append_new known e es"
  using appended_known [of e es] by (subst append_new_def) simp

lemma fold_known: "(\<And>e. e \<in> set new \<Longrightarrow> known es e) \<Longrightarrow> fold (append_new known) new es = es"
  by (induction new) (simp_all add: append_new_def)

lemma fold_new:
  "(\<And>e. e \<in> set new \<Longrightarrow> \<not> known es e) \<Longrightarrow> apart same new \<Longrightarrow> fold (append_new known) new es = es @ new"
proof (induction new arbitrary: es)
  case (Cons e new)
  then have "append_new known e es = es @ [e]" by (simp add: append_new_def)
  moreover have "fold (append_new known) new (es @ [e]) = (es @ [e]) @ new"
    by (rule Cons.IH) (use Cons.prems in \<open>auto simp: known_iff apart_def\<close>)
  ultimately show ?case by simp
qed simp

text \<open>Of a list and a prefix of it, in either order and however often, the list remains.\<close>

lemma fold_prefix:
  assumes "apart same (take (max m n) es)"
  shows "fold (append_new known) (take n es) (take m es) = take (max m n) es"
proof (cases "n \<le> m")
  case True
  have "known (take m es) e" if "e \<in> set (take n es)" for e
    using that True set_take_subset_set_take [of n m es] same_refl by (auto simp: known_iff)
  from fold_known [OF this] True show ?thesis by (simp add: max_def)
next
  case False
  then have m: "take m (take n es) = take m es" by (simp add: min_def)
  have t: "take n es = take m es @ drop m (take n es)" using append_take_drop_id [of m "take n es"] unfolding m by simp
  have seen: "fold (append_new known) (take m es) (take m es) = take m es"
    by (rule fold_known) (use same_refl in \<open>auto simp: known_iff\<close>)
  have "fold (append_new known) (take n es) (take m es) =
      fold (append_new known) (drop m (take n es)) (fold (append_new known) (take m es) (take m es))"
    by (subst t) simp
  also have "\<dots> = fold (append_new known) (drop m (take n es)) (take m es)" unfolding seen ..
  also have "\<dots> = take m es @ drop m (take n es)"
  proof (rule fold_new)
    have "apart same (take m es @ drop m (take n es))" using assms False t by (simp add: max_def)
    then show "\<not> known (take m es) e" if "e \<in> set (drop m (take n es))" for e
      using that by (auto simp: known_iff apart_def sorted_wrt_append)
    show "apart same (drop m (take n es))"
      using \<open>apart same (take m es @ drop m (take n es))\<close> by (simp add: apart_def sorted_wrt_append)
  qed
  finally show ?thesis using t False by (simp add: max_def)
qed

end

definition same_event :: "goal_event_record \<Rightarrow> goal_event_record \<Rightarrow> bool" where
  "same_event x e \<longleftrightarrow> ger_sequence x = ger_sequence e \<or> ger_idempotency_key x = ger_idempotency_key e"

definition same_operator_event :: "durable_event_envelope \<Rightarrow> durable_event_envelope \<Rightarrow> bool" where
  "same_operator_event x e \<longleftrightarrow> dee_event_id x = dee_event_id e \<or> dee_idempotency_key x = dee_idempotency_key e"

definition same_turn :: "chat_turn_record \<Rightarrow> chat_turn_record \<Rightarrow> bool" where
  "same_turn x t \<longleftrightarrow> ctu_id x = ctu_id t \<or> ctu_idempotency_key x \<noteq> None \<and> ctu_idempotency_key x = ctu_idempotency_key t"

interpretation event_log: dedup_log event_known same_event
  by unfold_locales (simp_all add: event_known_def same_event_def)

interpretation operator_log: dedup_log operator_event_known same_operator_event
  by unfold_locales (simp_all add: operator_event_known_def same_operator_event_def)

interpretation chat_log: dedup_log turn_known same_turn
  by unfold_locales (simp_all add: turn_known_def same_turn_def)

lemma apply_event_log:
  "apply_event e st = st (| gst_events := bt_insert (ger_goal_id e)
     (append_new event_known e (entries_of (gst_events st) (ger_goal_id e))) (gst_events st) |)"
  by (simp add: apply_event_def append_new_def Let_def)

lemma apply_chat_turn_log:
  "apply_chat_turn t st = st (| gst_chat_turns := bt_insert (ctu_session_id t)
     (append_new turn_known t (entries_of (gst_chat_turns st) (ctu_session_id t))) (gst_chat_turns st) |)"
  by (simp add: apply_chat_turn_def append_new_def Let_def)

section \<open>The invariant of the store\<close>

definition keyed_map :: "('v \<Rightarrow> 'k :: linorder) \<Rightarrow> ('k, 'v) btree \<Rightarrow> bool" where
  "keyed_map key m \<longleftrightarrow> bt_wf m \<and> all_entries (\<lambda>k v. key v = k) m"

definition log_map :: "('e \<Rightarrow> 'e \<Rightarrow> bool) \<Rightarrow> ('e \<Rightarrow> 'k :: linorder) \<Rightarrow> ('k, 'e list) btree \<Rightarrow> bool" where
  "log_map same key m \<longleftrightarrow> bt_wf m \<and> all_entries (\<lambda>k es. apart same es \<and> (\<forall>e \<in> set es. key e = k)) m"

definition action_ok :: "operator_action \<Rightarrow> bool" where
  "action_ok a \<longleftrightarrow> oac_allowed_resolutions a \<noteq> [] \<and> oac_status a \<in> {''pending'', ''resolved'', ''cancelled''}"

definition drafts_unique :: "(uuid, goal_draft_record) btree \<Rightarrow> bool" where
  "drafts_unique m \<longleftrightarrow> (\<forall>d \<in> set (bt_values m). \<forall>e \<in> set (bt_values m).
     gdr_idempotency_key d \<noteq> None \<and> gdr_idempotency_key d = gdr_idempotency_key e \<longrightarrow> gdr_draft_id d = gdr_draft_id e)"

definition store_sound :: "goal_store \<Rightarrow> bool" where
  "store_sound st \<longleftrightarrow>
     keyed_map grc_goal_id (gst_goals st) \<and> keyed_map trc_task_id (gst_tasks st) \<and>
     keyed_map (\<lambda>s. grc_goal_id (gss_goal s)) (gst_snapshots st) \<and> keyed_map dp_id (gst_plans st) \<and>
     keyed_map esa_record_id (gst_event_source_approvals st) \<and> keyed_map gdr_draft_id (gst_drafts st) \<and>
     log_map same_event ger_goal_id (gst_events st) \<and> log_map same_turn ctu_session_id (gst_chat_turns st) \<and>
     apart same_operator_event (gst_operator_events st) \<and> drafts_unique (gst_drafts st) \<and>
     keyed_map oac_action_id (gst_actions st) \<and> (\<forall>a \<in> set (bt_values (gst_actions st)). action_ok a) \<and>
     bt_wf (gst_artifacts st) \<and> bt_wf (gst_approvals st)"

lemma keyed_map_insert: "keyed_map key m \<Longrightarrow> key v = k \<Longrightarrow> keyed_map key (bt_insert k v m)"
  by (simp add: keyed_map_def bt_wf_insert all_entries_insert)

lemma log_map_insert:
  "log_map same key m \<Longrightarrow> apart same es \<Longrightarrow> (\<And>e. e \<in> set es \<Longrightarrow> key e = k) \<Longrightarrow> log_map same key (bt_insert k es m)"
  by (simp add: log_map_def bt_wf_insert all_entries_insert)

lemma log_map_entries:
  assumes "log_map same key m"
  shows "apart same (entries_of m k)" and "e \<in> set (entries_of m k) \<Longrightarrow> key e = k"
proof -
  have "apart same (entries_of m k) \<and> (\<forall>e \<in> set (entries_of m k). key e = k)"
  proof (cases "bt_get m k")
    case None
    then show ?thesis by (simp add: entries_of_def apart_def)
  next
    case (Some es)
    with assms show ?thesis by (auto simp: log_map_def entries_of_def dest: all_entries_get)
  qed
  then show "apart same (entries_of m k)" "e \<in> set (entries_of m k) \<Longrightarrow> key e = k" by blast+
qed

lemma empty_store_sound: "store_sound empty_goal_store"
  by (simp add: store_sound_def empty_goal_store_def keyed_map_def log_map_def all_entries_def bt_values_def drafts_unique_def
      apart_def btree.wf_emp)

text \<open>The actions the store builds.\<close>

lemma action_from_approval_simps [simp]:
  "action_ok (action_from_approval a)" "oac_status (action_from_approval a) = ''pending''"
  "oac_action_id (action_from_approval a) = ''approval:'' @ arc_approval_id a"
  "oac_goal_id (action_from_approval a) = arc_goal_id a" "oac_task_id (action_from_approval a) = arc_task_id a"
  "oac_approval (action_from_approval a) = Some a"
  by (simp_all add: action_from_approval_def action_ok_def)

lemma action_from_task_simps [simp]:
  "action_ok (action_from_task t)" "oac_status (action_from_task t) = ''pending''"
  "oac_action_id (action_from_task t) = ''task:'' @ trc_task_id t @ '':'' @ task_status_json (trc_status t)"
  "oac_goal_id (action_from_task t) = trc_goal_id t" "oac_task_id (action_from_task t) = Some (trc_task_id t)"
  by (simp_all add: action_from_task_def action_ok_def task_action_shape_def split: task_status.splits)

lemma draft_action_simps:
  "draft_action d = Some a \<Longrightarrow> action_ok a \<and> oac_status a = ''pending'' \<and> gdr_goal_id d = Some (oac_goal_id a) \<and>
     oac_action_id a = ''draft:'' @ gdr_draft_id d @ '':accept'' \<and> oac_task_id a = None"
  by (auto simp: draft_action_def action_ok_def split: option.splits if_splits)

lemma actions_from_snapshot_ok: "a \<in> set (actions_from_snapshot s) \<Longrightarrow> action_ok a \<and> oac_status a = ''pending''"
  by (auto simp: actions_from_snapshot_def)

definition actions_ok :: "(string, operator_action) btree \<Rightarrow> bool" where
  "actions_ok m \<longleftrightarrow> keyed_map oac_action_id m \<and> (\<forall>a \<in> set (bt_values m). action_ok a)"

lemma actions_ok_alt: "actions_ok m \<longleftrightarrow> bt_wf m \<and> all_entries (\<lambda>k a. oac_action_id a = k \<and> action_ok a) m"
  unfolding actions_ok_def keyed_map_def all_entries_values [symmetric] by (auto simp: all_entries_def)

lemma actions_ok_put: "actions_ok m \<Longrightarrow> action_ok a \<Longrightarrow> actions_ok (put_action a m)"
  by (simp add: actions_ok_alt put_action_def bt_wf_insert all_entries_insert)

lemma actions_ok_put_draft: "actions_ok m \<Longrightarrow> actions_ok (put_draft_action d m)"
  unfolding put_draft_action_def using draft_action_simps [of d] by (auto intro: actions_ok_put split: option.splits)

lemma fold_keeps: "(\<And>x m. x \<in> set xs \<Longrightarrow> Q m \<Longrightarrow> Q (f x m)) \<Longrightarrow> Q m \<Longrightarrow> Q (fold f xs m)"
  by (induction xs arbitrary: m) auto

lemma actions_ok_filter: "actions_ok m \<Longrightarrow> actions_ok (filter P m)"
  by (auto simp: actions_ok_alt bt_wf_def all_entries_def sorted_wrt_filter strict_sorted_iff distinct_map_filter sorted_filter)

lemma actions_ok_remove: "actions_ok m \<Longrightarrow> actions_ok (bt_remove k m)"
  by (simp add: actions_ok_alt bt_wf_remove all_entries_remove)

lemma resolve_action_simps [simp]:
  "oac_action_id (resolve_action parse e g st a) = oac_action_id a"
  "action_ok a \<Longrightarrow> st \<in> {''resolved'', ''cancelled''} \<Longrightarrow> action_ok (resolve_action parse e g st a)"
  by (auto simp: resolve_action_def action_ok_def)

lemma actions_ok_resolve:
  assumes "actions_ok m" and "st \<in> {''resolved'', ''cancelled''}"
  shows "actions_ok (bt_map_values (resolve_action parse e g st) m)"
  using assms unfolding actions_ok_alt by (auto intro: all_entries_map_values)

lemma store_sound_alt:
  "store_sound st \<longleftrightarrow>
     keyed_map grc_goal_id (gst_goals st) \<and> keyed_map trc_task_id (gst_tasks st) \<and>
     keyed_map (\<lambda>s. grc_goal_id (gss_goal s)) (gst_snapshots st) \<and> keyed_map dp_id (gst_plans st) \<and>
     keyed_map esa_record_id (gst_event_source_approvals st) \<and> keyed_map gdr_draft_id (gst_drafts st) \<and>
     log_map same_event ger_goal_id (gst_events st) \<and> log_map same_turn ctu_session_id (gst_chat_turns st) \<and>
     apart same_operator_event (gst_operator_events st) \<and> drafts_unique (gst_drafts st) \<and>
     actions_ok (gst_actions st) \<and> bt_wf (gst_artifacts st) \<and> bt_wf (gst_approvals st)"
  by (simp add: store_sound_def actions_ok_def)

subsection \<open>Every operation keeps it\<close>

context dedup_log
begin

lemma log_put:
  assumes "log_map same key m"
  shows "log_map same key (bt_insert (key e) (append_new known e (entries_of m (key e))) m)"
proof (rule log_map_insert [OF assms])
  show "apart same (append_new known e (entries_of m (key e)))"
    by (rule keeps_apart) (rule log_map_entries(1) [OF assms])
  show "key x = key e" if "x \<in> set (append_new known e (entries_of m (key e)))" for x
    using that log_map_entries(2) [OF assms, of x "key e"] by (auto simp: append_new_def split: if_splits)
qed

end

lemma apply_event_sound: "store_sound st \<Longrightarrow> store_sound (apply_event e st)"
  unfolding store_sound_alt apply_event_log by (simp add: event_log.log_put)

lemma apply_chat_turn_sound: "store_sound st \<Longrightarrow> store_sound (apply_chat_turn t st)"
  unfolding store_sound_alt apply_chat_turn_log by (simp add: chat_log.log_put)

lemma apply_event_others [simp]:
  "gst_goals (apply_event e st) = gst_goals st" "gst_tasks (apply_event e st) = gst_tasks st"
  "gst_drafts (apply_event e st) = gst_drafts st" "gst_actions (apply_event e st) = gst_actions st"
  "gst_snapshots (apply_event e st) = gst_snapshots st" "gst_plans (apply_event e st) = gst_plans st"
  by (simp_all add: apply_event_def Let_def)

lemma rebuild_goal_actions_sound:
  assumes "store_sound st"
  shows "store_sound (rebuild_goal_actions g st)"
proof -
  have ok: "actions_ok (gst_actions st)" using assms by (simp add: store_sound_alt)
  then have "actions_ok (filter (\<lambda>(k, a). oac_goal_id a \<noteq> g) (gst_actions st))" by (rule actions_ok_filter)
  then have "actions_ok (gst_actions (rebuild_goal_actions g st))"
    unfolding rebuild_goal_actions_def Let_def
    by (auto split: option.splits intro!: fold_keeps [where Q = actions_ok] actions_ok_put_draft actions_ok_put
        dest: actions_from_snapshot_ok)
  with assms show ?thesis unfolding store_sound_alt by (simp add: rebuild_goal_actions_def Let_def)
qed

lemma fold_insert_keyed: "keyed_map key m \<Longrightarrow> keyed_map key (fold (\<lambda>v. bt_insert (key v) v) vs m)"
  by (rule fold_keeps [where Q = "keyed_map key"]) (simp_all add: keyed_map_insert)

lemma apply_snapshot_sound:
  assumes "store_sound st"
  shows "store_sound (apply_snapshot s st)"
proof -
  let ?g = "grc_goal_id (gss_goal s)"
  let ?st1 = "st (| gst_goals := bt_insert ?g (gss_goal s) (gst_goals st),
                gst_tasks := fold (\<lambda>t. bt_insert (trc_task_id t) t) (gss_tasks s) (gst_tasks st),
                gst_artifacts := bt_insert ?g (gss_artifacts s) (gst_artifacts st),
                gst_approvals := bt_insert ?g (gss_approvals s) (gst_approvals st) |)"
  have "store_sound ?st1"
    using assms unfolding store_sound_alt by (simp add: keyed_map_insert fold_insert_keyed bt_wf_insert)
  then have "store_sound (fold apply_event (gss_events s) ?st1)"
    by (intro fold_keeps [where Q = store_sound] apply_event_sound)
  then have "store_sound ((fold apply_event (gss_events s) ?st1)
      (| gst_snapshots := bt_insert ?g s (gst_snapshots (fold apply_event (gss_events s) ?st1)) |))"
    unfolding store_sound_alt by (simp add: keyed_map_insert)
  then show ?thesis unfolding apply_snapshot_def Let_def by (rule rebuild_goal_actions_sound)
qed

lemma apply_operator_event_sound:
  assumes "store_sound st"
  shows "store_sound (apply_operator_event parse e st)"
proof (cases "operator_event_known (gst_operator_events st) e")
  case False
  let ?A = "gst_actions (resolve_actions_for_event parse e st)"
  have "actions_ok ?A"
    using assms actions_ok_resolve [of "gst_actions st"]
    by (auto simp: resolve_actions_for_event_def store_sound_alt status_for_operator_transition_def split: option.splits if_splits)
  moreover have "apart same_operator_event (gst_operator_events st @ [e])"
    using assms operator_log.keeps_apart [of "gst_operator_events st" e] False
    by (simp add: store_sound_alt append_new_def)
  moreover have "resolve_actions_for_event parse e st = st (| gst_actions := ?A |)"
    by (simp add: resolve_actions_for_event_def split: option.splits)
  then have "apply_operator_event parse e st = st (| gst_actions := ?A, gst_operator_events := gst_operator_events st @ [e] |)"
    using False by (simp add: apply_operator_event_def)
  ultimately show ?thesis using assms unfolding store_sound_alt by simp
qed (use assms in \<open>simp add: apply_operator_event_def\<close>)

lemma apply_artifacts_sound: "store_sound st \<Longrightarrow> store_sound (apply_artifacts rs st)"
  unfolding apply_artifacts_def
  by (rule fold_keeps [where Q = store_sound]) (simp_all add: apply_artifact_def store_sound_alt bt_wf_insert)

lemma values_insert: "v \<in> set (bt_values (bt_insert k x m)) \<Longrightarrow> v = x \<or> v \<in> set (bt_values m)"
  unfolding bt_values_def by (induction k x m rule: bt_insert.induct) (auto split: if_splits)

lemma drafts_unique_insert:
  assumes "drafts_unique m" and "\<not> draft_key_taken m d"
  shows "drafts_unique (bt_insert (gdr_draft_id d) d m)"
  using assms unfolding drafts_unique_def draft_key_taken_def by (metis values_insert)

lemma apply_draft_sound:
  assumes "store_sound st"
  shows "store_sound (apply_draft d st)"
proof (cases "draft_key_taken (gst_drafts st) d")
  case False
  define A where "A = gst_actions (apply_draft d st)"
  have "actions_ok A"
    using assms False by (auto simp: A_def apply_draft_def store_sound_alt Let_def actions_ok_put_draft actions_ok_remove split: option.splits)
  moreover have "drafts_unique (bt_insert (gdr_draft_id d) d (gst_drafts st))"
    using assms False by (intro drafts_unique_insert) (simp_all add: store_sound_alt)
  moreover have "apply_draft d st = st (| gst_actions := A, gst_drafts := bt_insert (gdr_draft_id d) d (gst_drafts st) |)"
    using False by (simp add: A_def apply_draft_def Let_def)
  ultimately show ?thesis using assms keyed_map_insert [of gdr_draft_id "gst_drafts st" d] unfolding store_sound_alt by simp
qed (use assms in \<open>simp add: apply_draft_def\<close>)

lemma apply_journal_sound: "store_sound st \<Longrightarrow> store_sound (apply_journal parse e st)"
  by (cases e)
     (simp_all add: apply_snapshot_sound apply_event_sound apply_operator_event_sound apply_artifacts_sound apply_draft_sound
       apply_chat_turn_sound, simp_all add: apply_plan_def apply_event_source_approval_def store_sound_alt keyed_map_insert)

section \<open>Replay\<close>

definition apply_entries :: "(string \<Rightarrow> uuid option) \<Rightarrow> goal_journal_entry list \<Rightarrow> goal_store \<Rightarrow> goal_store" where
  "apply_entries parse = fold (apply_journal parse)"

definition line_entries :: "goal_journal_entry file_line list \<Rightarrow> goal_journal_entry list" where
  "line_entries ls = concat (map (\<lambda>l. case l of FL_Entry e \<Rightarrow> [e] | _ \<Rightarrow> []) ls)"

lemma replay_goal_lines_eq:
  "replay_goal_lines parse n ls st =
     (if FL_Invalid \<in> set ls then Inl (n + length (takeWhile (\<lambda>l. l \<noteq> FL_Invalid) ls))
      else Inr (apply_entries parse (line_entries ls) st))"
  by (induction parse n ls st rule: replay_goal_lines.induct) (simp_all add: line_entries_def apply_entries_def)

lemma start_goal_store_eq:
  "start_goal_store parse journal =
     (case journal of None \<Rightarrow> empty_goal_store
      | Some f \<Rightarrow> if FL_Invalid \<in> set (jf_lines f) then empty_goal_store
          else apply_entries parse (line_entries (jf_lines f)) empty_goal_store)"
  by (auto simp: start_goal_store_def replay_goal_journal_def replay_goal_lines_eq split: option.splits)

lemma apply_entries_sound: "store_sound st \<Longrightarrow> store_sound (apply_entries parse es st)"
  unfolding apply_entries_def by (rule fold_keeps [where Q = store_sound]) (simp_all add: apply_journal_sound)

section \<open>Runs of the service\<close>

text \<open>A request to one of the handlers that write, with the time and the identifiers it draws.\<close>

datatype (plugins only: code size) goal_request =
    GQ_Snapshot goal_store_snapshot
  | GQ_Event goal_event_record
  | GQ_Operator_Event durable_event_envelope
  | GQ_Artifacts artifact_record_request
  | GQ_Event_Source_Approval event_source_approval_record
  | GQ_Draft uuid goal_draft_record_request
  | GQ_Chat_Turn uuid chat_turn_append_request
  | GQ_Create_Plan string uuid uuid plan_draft_request
  | GQ_Revise_Plan string uuid uuid plan_revision_request
  | GQ_Compile_Plan string uuid uuid plan_compile_request
  | GQ_Vote string uuid uuid plan_candidate_vote_request
  | GQ_Select string uuid plan_candidate_selection_request

fun handle_request :: "'db goal_postgres \<Rightarrow> store_env \<Rightarrow> goal_request \<Rightarrow> 'db goal_service \<Rightarrow> 'db goal_service" where
  "handle_request pg env (GQ_Snapshot s) v = snd (upsert_snapshot pg env s v)"
| "handle_request pg env (GQ_Event e) v = snd (append_event pg env e v)"
| "handle_request pg env (GQ_Operator_Event e) v = snd (append_operator_event pg env e v)"
| "handle_request pg env (GQ_Artifacts q) v = snd (record_artifacts pg env q v)"
| "handle_request pg env (GQ_Event_Source_Approval r) v = snd (record_event_source_approval pg env r v)"
| "handle_request pg env (GQ_Draft i q) v = snd (record_draft pg env i q v)"
| "handle_request pg env (GQ_Chat_Turn i q) v = snd (append_chat_turn pg env i q v)"
| "handle_request pg env (GQ_Create_Plan at i j q) v = snd (create_plan pg env at i j q v)"
| "handle_request pg env (GQ_Revise_Plan at i plan q) v = snd (revise_plan pg env at i plan q v)"
| "handle_request pg env (GQ_Compile_Plan at i plan q) v = snd (compile_plan pg env at i plan q v)"
| "handle_request pg env (GQ_Vote at i plan q) v = snd (vote_plan_candidate pg env at i plan q v)"
| "handle_request pg env (GQ_Select at plan q) v = snd (select_plan_candidate pg env at plan q v)"

inductive goal_service_run :: "'db goal_postgres \<Rightarrow> store_env \<Rightarrow> 'db goal_service \<Rightarrow> bool" for pg env where
  fresh: "goal_service_run pg env (new_goal_service (if journaled then Some new_journal_file else None) db)"
| request: "goal_service_run pg env v \<Longrightarrow> goal_service_run pg env (handle_request pg env q v)"
| restart: "goal_service_run pg env v \<Longrightarrow> goal_service_run pg env (restart_goal_service env v)"

text \<open>
  Every handler writes by \<open>record_entry\<close> only, and a plan it writes is a new draft or a step of a plan that it
  has loaded.
\<close>

definition next_plan :: "'db goal_postgres \<Rightarrow> 'db goal_service \<Rightarrow> durable_plan \<Rightarrow> bool" where
  "next_plan pg v p \<longleftrightarrow> (\<exists>at i j q. p = draft_plan at i j q) \<or> (\<exists>i p0 e. load_plan pg i v = Inr (Some p0) \<and> p = plan_step e p0)"

lemma snd_answer [simp]: "snd (reply r x) = snd r"
  by (simp add: reply_def split: prod.splits sum.splits)

lemma with_plan_keeps:
  "P v \<Longrightarrow> (\<And>p. load_plan pg i v = Inr (Some p) \<Longrightarrow> P (snd (k p))) \<Longrightarrow> P (snd (with_plan pg what i v k))"
  by (simp add: with_plan_def split: sum.splits option.splits)

lemma upsert_plan_record_keeps:
  assumes P: "P v" and step: "\<And>e v. P v \<Longrightarrow> (\<And>p. e = GJ_Plan p \<Longrightarrow> next_plan pg v p) \<Longrightarrow> P (snd (record_entry pg env e v))"
    and p: "next_plan pg v p"
  shows "P (snd (upsert_plan_record pg env p v))"
proof -
  obtain r w where w: "record_entry pg env (GJ_Plan p) v = (r, w)" by fastforce
  have "P w" using step [OF P, of "GJ_Plan p"] p w by simp
  then have "P (snd (record_entry pg env (GJ_Draft d) w))" for d using step [of w "GJ_Draft d"] by simp
  with \<open>P w\<close> P show ?thesis by (simp add: upsert_plan_record_def w split: sum.splits option.splits)
qed

lemma serve_keeps:
  assumes P: "P v" and step: "\<And>e v. P v \<Longrightarrow> (\<And>p. e = GJ_Plan p \<Longrightarrow> next_plan pg v p) \<Longrightarrow> P (snd (record_entry pg env e v))"
  shows "P (handle_request pg env q v)"
proof -
  have plain: "P (snd (record_entry pg env e v))" if "\<And>p. e \<noteq> GJ_Plan p" for e
    using step [OF P] that by blast
  have drafted: "P (snd (upsert_plan_record pg env (draft_plan at i j r) v))" for at i j r
    by (rule upsert_plan_record_keeps [OF P step]) (auto simp: next_plan_def)
  have stepped: "P (snd (upsert_plan_record pg env (plan_step e p) v))" if "load_plan pg i v = Inr (Some p)" for e p i
    by (rule upsert_plan_record_keeps [OF P step]) (use that in \<open>unfold next_plan_def, blast+\<close>)
  show ?thesis
  proof (cases q)
    case (GQ_Draft i r)
    then show ?thesis using P plain by (simp add: record_draft_def split: sum.splits)
  next
    case (GQ_Chat_Turn i r)
    then show ?thesis using P plain by (simp add: append_chat_turn_def split: sum.splits)
  next
    case (GQ_Create_Plan at i j r)
    then show ?thesis using drafted by (simp add: create_plan_def Let_def)
  next
    case (GQ_Revise_Plan at i plan r)
    show ?thesis
      unfolding GQ_Revise_Plan handle_request.simps revise_plan_def Let_def
      by (rule with_plan_keeps [where P = P, OF P], unfold snd_answer, rule stepped [where e = "PE_Revise at i r", unfolded plan_step.simps])
  next
    case (GQ_Compile_Plan at i plan r)
    show ?thesis
      unfolding GQ_Compile_Plan handle_request.simps compile_plan_def case_prod_unfold
      by (rule with_plan_keeps [where P = P, OF P], unfold snd_answer,
          rule stepped [where e = "PE_Compile at i (r (| pcr_plan_id := Some plan |))", unfolded plan_step.simps])
  next
    case (GQ_Vote at i plan r)
    have "P (snd (upsert_plan_record pg env (record_candidate_vote at i r p) v))" if "load_plan pg plan v = Inr (Some p)" for p
      using stepped [OF that, of "PE_Vote at i r"] by simp
    with P show ?thesis
      unfolding GQ_Vote handle_request.simps vote_plan_candidate_def Let_def
      by (intro with_plan_keeps [where P = P]) (simp_all split: sum.splits)
  next
    case (GQ_Select at plan r)
    have "P (snd (upsert_plan_record pg env (select_candidate_plan at r c p) v))" if "load_plan pg plan v = Inr (Some p)" for p c
      using stepped [OF that, of "PE_Select at r c"] by simp
    with P show ?thesis
      unfolding GQ_Select handle_request.simps select_plan_candidate_def Let_def
      by (intro with_plan_keeps [where P = P]) (simp_all split: sum.splits)
  qed (use plain in \<open>simp_all add: upsert_snapshot_def append_event_def append_operator_event_def record_artifacts_def
      record_event_source_approval_def\<close>)
qed

section \<open>The journal follows the store\<close>

lemma record_entry_local:
  "gsv_database v = None \<Longrightarrow> record_entry pg env e v =
     (Inr (), v (| gsv_journal := map_option (append_goal_journal env e) (gsv_journal v),
        gsv_store := apply_journal (se_parse_uuid env) e (gsv_store v) |))"
  by (simp add: record_entry_def write_entry_def)

lemma record_entry_database [simp]: "gsv_database (snd (record_entry pg env e v)) = None \<longleftrightarrow> gsv_database v = None"
  by (auto simp: record_entry_def write_entry_def split: option.splits sum.splits)

definition mirrors :: "store_env \<Rightarrow> 'db goal_service \<Rightarrow> bool" where
  "mirrors env v \<longleftrightarrow> (case gsv_journal v of None \<Rightarrow> True
     | Some f \<Rightarrow> gsv_database v = None \<longrightarrow> \<not> jf_unfinished f \<and> FL_Invalid \<notin> set (jf_lines f) \<and>
         gsv_store v = apply_entries (se_parse_uuid env) (line_entries (jf_lines f)) empty_goal_store)"

lemma line_entries_append [simp]:
  "line_entries (ls @ [FL_Entry e]) = line_entries ls @ [e]"
  by (simp add: line_entries_def)

lemma mirrors_record_entry:
  assumes "\<And>f e. se_append env f e = AO_Written" and "mirrors env v"
  shows "mirrors env (snd (record_entry pg env e v))"
proof (cases "gsv_database v")
  case None
  with assms show ?thesis
    by (auto simp: record_entry_local mirrors_def append_goal_journal_def append_written apply_entries_def split: option.splits)
next
  case (Some db)
  then show ?thesis by (simp add: mirrors_def split: option.split)
qed

lemma restart_simps [simp]:
  "gsv_journal (restart_goal_service env v) = gsv_journal v" "gsv_database (restart_goal_service env v) = gsv_database v"
  by (simp_all add: restart_goal_service_def)

lemma run_mirrors:
  assumes written: "\<And>f e. se_append env f e = AO_Written" and run: "goal_service_run pg env v"
  shows "mirrors env v"
  using run
proof induction
  case (fresh journaled db)
  show ?case
    by (simp add: mirrors_def new_goal_service_def new_journal_file_def apply_entries_def line_entries_def)
next
  case (request v q)
  show ?case by (rule serve_keeps [where P = "mirrors env", OF request.IH]) (rule mirrors_record_entry [OF written])
next
  case (restart v)
  then show ?case
    by (auto simp: mirrors_def restart_goal_service_def start_goal_store_eq split: option.splits)
qed

section \<open>Plans in the store\<close>

definition plans_ok :: "goal_store \<Rightarrow> bool" where
  "plans_ok st \<longleftrightarrow> all_entries (\<lambda>_. plan_reachable) (gst_plans st)"

definition entry_plan_ok :: "goal_journal_entry \<Rightarrow> bool" where
  "entry_plan_ok e \<longleftrightarrow> (case e of GJ_Plan p \<Rightarrow> plan_reachable p | _ \<Rightarrow> True)"

definition journal_plans_ok :: "goal_journal \<Rightarrow> bool" where
  "journal_plans_ok f \<longleftrightarrow> (\<forall>e. FL_Entry e \<in> set (jf_lines f) \<longrightarrow> entry_plan_ok e)"

lemma plans_of_other_entries [simp]:
  "gst_plans (apply_snapshot s st) = gst_plans st" "gst_plans (apply_operator_event parse e st) = gst_plans st"
  "gst_plans (apply_artifacts rs st) = gst_plans st" "gst_plans (apply_draft d st) = gst_plans st"
  "gst_plans (apply_chat_turn t st) = gst_plans st" "gst_plans (apply_event_source_approval r st) = gst_plans st"
proof -
  have events: "gst_plans (fold apply_event es st) = gst_plans st" for es st by (induction es arbitrary: st) simp_all
  show "gst_plans (apply_snapshot s st) = gst_plans st"
    by (simp add: apply_snapshot_def rebuild_goal_actions_def Let_def events)
  show "gst_plans (apply_operator_event parse e st) = gst_plans st"
    by (simp add: apply_operator_event_def resolve_actions_for_event_def split: option.splits)
  show "gst_plans (apply_artifacts rs st) = gst_plans st"
    unfolding apply_artifacts_def by (induction rs arbitrary: st) (simp_all add: apply_artifact_def)
qed (simp_all add: apply_draft_def apply_chat_turn_def apply_event_source_approval_def Let_def)

lemma apply_journal_plans: "plans_ok st \<Longrightarrow> entry_plan_ok e \<Longrightarrow> plans_ok (apply_journal parse e st)"
  by (cases e) (simp_all add: plans_ok_def entry_plan_ok_def apply_plan_def all_entries_insert)

definition local_plans_ok :: "'db goal_service \<Rightarrow> bool" where
  "local_plans_ok v \<longleftrightarrow> (gsv_database v = None \<longrightarrow> plans_ok (gsv_store v) \<and>
     (case gsv_journal v of None \<Rightarrow> True | Some f \<Rightarrow> journal_plans_ok f))"

lemma append_plans_ok: "journal_plans_ok f \<Longrightarrow> entry_plan_ok e \<Longrightarrow> journal_plans_ok (append_goal_journal env e f)"
  by (auto simp: journal_plans_ok_def append_goal_journal_def dest: append_entry_lines)

lemma local_plans_record_entry:
  assumes "local_plans_ok v" and "\<And>p. e = GJ_Plan p \<Longrightarrow> next_plan pg v p"
  shows "local_plans_ok (snd (record_entry pg env e v))"
proof (cases "gsv_database v")
  case None
  have "entry_plan_ok e"
  proof (cases e)
    case (GJ_Plan p)
    have "plan_reachable p0" if "load_plan pg i v = Inr (Some p0)" for i p0
      using that assms(1) None by (auto simp: load_plan_def local_plans_ok_def plans_ok_def dest: all_entries_get)
    with assms(2) [OF GJ_Plan] GJ_Plan show ?thesis
      by (auto simp: entry_plan_ok_def next_plan_def intro: plan_reachable.intros)
  qed (simp_all add: entry_plan_ok_def)
  with assms(1) None show ?thesis
    by (auto simp: record_entry_local local_plans_ok_def apply_journal_plans append_plans_ok split: option.splits)
qed (simp add: local_plans_ok_def)

lemma empty_plans_ok [simp]: "plans_ok empty_goal_store"
  by (simp add: plans_ok_def empty_goal_store_def all_entries_def)

lemma start_plans_ok:
  assumes "case journal of None \<Rightarrow> True | Some f \<Rightarrow> journal_plans_ok f"
  shows "plans_ok (start_goal_store parse journal)"
proof -
  have "plans_ok (fold (apply_journal parse) es st)" if "\<forall>e \<in> set es. entry_plan_ok e" "plans_ok st" for es st
    using that by (induction es arbitrary: st) (simp_all add: apply_journal_plans)
  moreover have "e \<in> set (line_entries ls) \<Longrightarrow> FL_Entry e \<in> set ls" for e ls
    by (auto simp: line_entries_def split: file_line.splits)
  ultimately show ?thesis
    using assms by (simp add: start_goal_store_eq apply_entries_def journal_plans_ok_def split: option.splits)
qed

lemma run_plans_ok: "goal_service_run pg env v \<Longrightarrow> local_plans_ok v"
proof (induction rule: goal_service_run.induct)
  case (fresh journaled db)
  show ?case by (simp add: local_plans_ok_def new_goal_service_def new_journal_file_def journal_plans_ok_def)
next
  case (request v q)
  show ?case by (rule serve_keeps [where P = local_plans_ok, OF request.IH]) (rule local_plans_record_entry)
next
  case (restart v)
  then show ?case
    unfolding local_plans_ok_def restart_simps by (auto simp: restart_goal_service_def start_plans_ok)
qed

lemma run_sound: "goal_service_run pg env v \<Longrightarrow> store_sound (gsv_store v)"
proof (induction rule: goal_service_run.induct)
  case (fresh journaled db)
  show ?case by (simp add: new_goal_service_def empty_store_sound)
next
  case (request v q)
  show ?case
    by (rule serve_keeps [where P = "\<lambda>v. store_sound (gsv_store v)", OF request.IH])
       (auto simp: record_entry_def write_entry_def apply_journal_sound split: sum.splits option.splits)
next
  case (restart v)
  show ?case
    by (auto simp: restart_goal_service_def start_goal_store_eq empty_store_sound apply_entries_sound split: option.splits)
qed

section \<open>Torn lines\<close>

definition torn :: "'db goal_service \<Rightarrow> bool" where
  "torn v \<longleftrightarrow> gsv_database v = None \<and> (\<exists>f. gsv_journal v = Some f \<and> FL_Invalid \<in> set (jf_lines f))"

lemma torn_record_entry: "torn v \<Longrightarrow> torn (snd (record_entry pg env e v))"
  by (auto simp: torn_def record_entry_local append_goal_journal_def append_keeps_invalid)

lemma torn_serve: "torn v \<Longrightarrow> torn (fold (handle_request pg env) qs v)"
proof (induction qs arbitrary: v)
  case (Cons q qs)
  have "torn (handle_request pg env q v)" by (rule serve_keeps [where P = torn, OF Cons.prems]) (rule torn_record_entry)
  then show ?case using Cons.IH by simp
qed simp

lemma torn_restart: "torn v \<Longrightarrow> gsv_store (restart_goal_service env v) = empty_goal_store"
  by (auto simp: torn_def restart_goal_service_def start_goal_store_eq)

section \<open>Errors\<close>

definition error_of :: "(api_error + 'a) \<times> 'db goal_service \<Rightarrow> api_error option" where
  "error_of r = (case fst r of Inl e \<Rightarrow> Some e | Inr _ \<Rightarrow> None)"

text \<open>The error with which a request is answered, when it is.\<close>

fun request_error :: "'db goal_postgres \<Rightarrow> store_env \<Rightarrow> goal_request \<Rightarrow> 'db goal_service \<Rightarrow> api_error option" where
  "request_error pg env (GQ_Snapshot s) v = error_of (upsert_snapshot pg env s v)"
| "request_error pg env (GQ_Event e) v = error_of (append_event pg env e v)"
| "request_error pg env (GQ_Operator_Event e) v = error_of (append_operator_event pg env e v)"
| "request_error pg env (GQ_Artifacts q) v = error_of (record_artifacts pg env q v)"
| "request_error pg env (GQ_Event_Source_Approval r) v = error_of (record_event_source_approval pg env r v)"
| "request_error pg env (GQ_Draft i q) v = error_of (record_draft pg env i q v)"
| "request_error pg env (GQ_Chat_Turn i q) v = error_of (append_chat_turn pg env i q v)"
| "request_error pg env (GQ_Create_Plan at i j q) v = error_of (create_plan pg env at i j q v)"
| "request_error pg env (GQ_Revise_Plan at i plan q) v = error_of (revise_plan pg env at i plan q v)"
| "request_error pg env (GQ_Compile_Plan at i plan q) v = error_of (compile_plan pg env at i plan q v)"
| "request_error pg env (GQ_Vote at i plan q) v = error_of (vote_plan_candidate pg env at i plan q v)"
| "request_error pg env (GQ_Select at plan q) v = error_of (select_plan_candidate pg env at plan q v)"

text \<open>A reply is clean when it is not an internal error and an error changed nothing.\<close>

definition clean :: "'db goal_service \<Rightarrow> (api_error + 'a) \<times> 'db goal_service \<Rightarrow> bool" where
  "clean v r \<longleftrightarrow> (case fst r of Inr _ \<Rightarrow> True | Inl e \<Rightarrow> fst e \<noteq> API_Internal \<and> snd r = v)"

lemma clean_error [simp]: "clean v (Inl e, w) \<longleftrightarrow> fst e \<noteq> API_Internal \<and> w = v"
  by (simp add: clean_def)

lemma clean_record: "gsv_database v = None \<Longrightarrow> clean v (reply (record_entry pg env e v) x)"
  by (simp add: record_entry_local reply_def clean_def)

lemma reachable_plan_valid: "plan_reachable p \<Longrightarrow> validate_action_items p = Inr ()"
  using plan_reachable_ok [of p] derived_actions [of p "derive_phase p"]
  by (simp add: validate_action_items_def validate_actions_Inr derived_ok_def)

lemma upsert_local:
  assumes "gsv_database v = None" and "plan_reachable p"
  shows "\<exists>w. upsert_plan_record pg env p v = (Inr (), w) \<and> bt_get (gst_plans (gsv_store w)) (dp_id p) = Some p"
proof -
  obtain w where w: "record_entry pg env (GJ_Plan p) v = (Inr (), w)" "gsv_database w = None"
      "bt_get (gst_plans (gsv_store w)) (dp_id p) = Some p"
    using assms(1) by (simp add: record_entry_local apply_plan_def get_insert)
  have "bt_get (gst_plans (gsv_store (snd (record_entry pg env (GJ_Draft d) w)))) (dp_id p) = Some p" for d
    using w(2,3) by (simp add: record_entry_local)
  then show ?thesis
    using w reachable_plan_valid [OF assms(2)]
    by (auto simp: upsert_plan_record_def record_entry_local [OF w(2)] split: option.splits)
qed

lemma clean_upsert:
  assumes "gsv_database v = None" and "plan_reachable p"
  shows "clean v (reply (upsert_plan_record pg env p v) x)"
  using upsert_local [OF assms, of pg env] by (auto simp: reply_def clean_def)

lemma clean_with_plan:
  assumes "gsv_database v = None" and "plans_ok (gsv_store v)"
    and "\<And>p. plan_reachable p \<Longrightarrow> bt_get (gst_plans (gsv_store v)) i = Some p \<Longrightarrow> clean v (k p)"
  shows "clean v (with_plan pg what i v k)"
  using assms by (auto simp: with_plan_def load_plan_def plans_ok_def dest: all_entries_get split: option.splits)

lemma from_request_errors:
  "draft_record_from_request i q = Inl e \<Longrightarrow> fst e = API_Bad_Request"
  "chat_turn_from_request i t = Inl e \<Longrightarrow> fst e = API_Bad_Request"
  "ensure_candidate_branch plan c = Inl e \<Longrightarrow> fst e = API_Bad_Request"
  by (auto simp: draft_record_from_request_def chat_turn_from_request_def ensure_candidate_branch_def Let_def split: if_splits)

lemma clean_requests:
  assumes db: "gsv_database v = None" and ok: "plans_ok (gsv_store v)"
  shows "clean v (record_draft pg env i1 q1 v)" and "clean v (append_chat_turn pg env i2 q2 v)"
    and "clean v (create_plan pg env at3 i3 j3 q3 v)" and "clean v (revise_plan pg env at4 i4 p4 q4 v)"
    and "clean v (compile_plan pg env at5 i5 p5 q5 v)" and "clean v (vote_plan_candidate pg env at6 i6 p6 q6 v)"
    and "clean v (select_plan_candidate pg env at7 p7 q7 v)"
proof -
  show "clean v (record_draft pg env i1 q1 v)" "clean v (append_chat_turn pg env i2 q2 v)"
    using from_request_errors by (auto simp: record_draft_def append_chat_turn_def clean_record [OF db] split: sum.splits)
  have step: "plan_reachable (plan_step e p)" if "plan_reachable p" for e p using that by (rule plan_reachable.stepped)
  show "clean v (create_plan pg env at3 i3 j3 q3 v)"
    unfolding create_plan_def Let_def by (rule clean_upsert [OF db]) (rule plan_reachable.drafted)
  show "clean v (revise_plan pg env at4 i4 p4 q4 v)"
    unfolding revise_plan_def Let_def
    by (rule clean_with_plan [OF db ok], rule clean_upsert [OF db], rule step [where e = "PE_Revise at4 i4 q4", unfolded plan_step.simps])
  show "clean v (compile_plan pg env at5 i5 p5 q5 v)"
    unfolding compile_plan_def case_prod_unfold
    by (rule clean_with_plan [OF db ok], rule clean_upsert [OF db],
        rule step [where e = "PE_Compile at5 i5 (q5 (| pcr_plan_id := Some p5 |))", unfolded plan_step.simps])
  have vote: "plan_reachable (record_candidate_vote at6 i6 q6 p)" if "plan_reachable p" for p
    using step [OF that, of "PE_Vote at6 i6 q6"] by simp
  have select: "plan_reachable (select_candidate_plan at7 q7 c p)" if "plan_reachable p" for p c
    using step [OF that, of "PE_Select at7 q7 c"] by simp
  show "clean v (vote_plan_candidate pg env at6 i6 p6 q6 v)"
    unfolding vote_plan_candidate_def Let_def
    by (rule clean_with_plan [OF db ok], rule clean_with_plan [OF db ok])
       (auto simp: from_request_errors clean_upsert [OF db] vote split: sum.splits)
  show "clean v (select_plan_candidate pg env at7 p7 q7 v)"
    unfolding select_plan_candidate_def Let_def
    by (rule clean_with_plan [OF db ok], rule clean_with_plan [OF db ok])
       (auto simp: from_request_errors clean_upsert [OF db] select split: sum.splits)
qed

lemma clean_serve: "clean v r \<Longrightarrow> error_of r = Some e \<Longrightarrow> snd r = v \<and> fst e \<noteq> API_Internal"
  by (auto simp: clean_def error_of_def split: sum.splits)

lemma record_never_fails: "gsv_database v = None \<Longrightarrow> error_of (reply (record_entry pg env e v) x) = None"
  by (simp add: record_entry_local reply_def error_of_def)

lemma request_errors_clean:
  assumes db: "gsv_database v = None" and ok: "plans_ok (gsv_store v)" and e: "request_error pg env q v = Some e"
  shows "handle_request pg env q v = v \<and> fst e \<noteq> API_Internal"
proof -
  note clean = clean_requests [OF db ok, THEN clean_serve]
  show ?thesis
    using e by (cases q) (auto simp: upsert_snapshot_def append_event_def append_operator_event_def record_artifacts_def
      record_event_source_approval_def record_never_fails [OF db] dest: clean)
qed

section \<open>The log of a goal\<close>

lemma rebuild_events [simp]: "gst_events (rebuild_goal_actions g st) = gst_events st" "gst_drafts (rebuild_goal_actions g st) = gst_drafts st"
  by (simp_all add: rebuild_goal_actions_def Let_def)

lemma entries_of_apply_event:
  "entries_of (gst_events (apply_event e st)) (ger_goal_id e) = append_new event_known e (entries_of (gst_events st) (ger_goal_id e))"
  unfolding apply_event_log by (subst entries_of_def) (simp add: get_insert)

lemma entries_of_events:
  "(\<And>e. e \<in> set es \<Longrightarrow> ger_goal_id e = g) \<Longrightarrow>
   entries_of (gst_events (fold apply_event es st)) g = fold (append_new event_known) es (entries_of (gst_events st) g)"
proof (induction es arbitrary: st)
  case (Cons e es)
  then have "entries_of (gst_events (apply_event e st)) g = append_new event_known e (entries_of (gst_events st) g)"
    using entries_of_apply_event [of e st] by simp
  with Cons show ?case by simp
qed simp

lemma snapshot_events:
  assumes "\<And>e. e \<in> set (gss_events s) \<Longrightarrow> ger_goal_id e = g"
  shows "entries_of (gst_events (apply_snapshot s st)) g = fold (append_new event_known) (gss_events s) (entries_of (gst_events st) g)"
  unfolding apply_snapshot_def Let_def rebuild_events using entries_of_events [OF assms] by simp

lemma length_event_records [simp]: "length (event_records pj g es) = length es"
  by (simp add: event_records_def)

lemma nth_event_records: "k < length es \<Longrightarrow> event_records pj g es ! k = event_record pj g k (es ! k)"
  by (simp add: event_records_def nth_enumerate_eq)

lemma take_event_records: "take n (event_records pj g es) = event_records pj g (take n es)"
  by (rule nth_equalityI) (simp_all add: nth_event_records)

lemma event_records_goal: "e \<in> set (event_records pj g es) \<Longrightarrow> ger_goal_id e = g"
  by (auto simp: event_records_def event_record_def Let_def)

lemma event_records_apart:
  assumes "\<forall>e \<in> set es. ev_sequence e = 0"
  shows "apart same_event (event_records pj g es)"
  unfolding apart_def sorted_wrt_iff_nth_less
  using assms by (auto simp: nth_event_records event_record_def same_event_def Let_def)

lemma events_in_any_order:
  assumes "\<forall>s \<in> set ss. gsp_id (gs_goal s) = g \<and> prefix (gs_events s) es" and "\<forall>e \<in> set es. ev_sequence e = 0"
    and "entries_of (gst_events st) g = event_records pj g (take m es)"
  shows "entries_of (gst_events (fold (\<lambda>s. apply_snapshot (snapshot_of pj s)) ss st)) g =
    event_records pj g (take (fold max (map (\<lambda>s. length (gs_events s)) ss) m) es)"
  using assms(1,3)
proof (induction ss arbitrary: st m)
  case (Cons s ss)
  let ?n = "length (gs_events s)"
  have goal: "gsp_id (gs_goal s) = g" and "prefix (gs_events s) es" using Cons.prems(1) by auto
  then have s: "gs_events s = take ?n es" by (auto simp: prefix_def)
  have events: "gss_events (snapshot_of pj s) = event_records pj g (take ?n es)"
    using s goal by (simp add: snapshot_of_def Let_def)
  have "entries_of (gst_events (apply_snapshot (snapshot_of pj s) st)) g =
      fold (append_new event_known) (take ?n (event_records pj g es)) (take m (event_records pj g es))"
    using snapshot_events [of "snapshot_of pj s" g st] event_records_goal Cons.prems(2) by (simp add: events take_event_records)
  also have "\<dots> = take (max m ?n) (event_records pj g es)"
    by (rule event_log.fold_prefix) (unfold take_event_records, rule event_records_apart, use assms(2) in \<open>auto dest: in_set_takeD\<close>)
  finally have "entries_of (gst_events (apply_snapshot (snapshot_of pj s) st)) g = event_records pj g (take (max m ?n) es)"
    by (simp add: take_event_records)
  then show ?case using Cons.IH [of "apply_snapshot (snapshot_of pj s) st" "max m ?n"] Cons.prems(1) by (simp add: max.commute)
qed simp

section \<open>The queue of actions\<close>

lemma get_fold_put_other: "k \<notin> oac_action_id ` set as \<Longrightarrow> bt_get (fold put_action as m) k = bt_get m k"
  by (induction as arbitrary: m) (simp_all add: put_action_def get_insert)

lemma get_fold_put:
  "distinct (map oac_action_id as) \<Longrightarrow> a \<in> set as \<Longrightarrow> bt_get (fold put_action as m) (oac_action_id a) = Some a"
proof (induction as arbitrary: m)
  case (Cons x as)
  show ?case
  proof (cases "a = x")
    case True
    with Cons.prems have "bt_get (fold put_action as (put_action x m)) (oac_action_id a) = bt_get (put_action x m) (oac_action_id a)"
      by (intro get_fold_put_other) auto
    also have "\<dots> = Some a" using True by (simp add: put_action_def get_insert)
    finally show ?thesis by simp
  qed (use Cons in auto)
qed simp

lemma get_fold_drafts:
  "(\<And>i. k \<noteq> ''draft:'' @ i @ '':accept'') \<Longrightarrow> bt_get (fold put_draft_action ds m) k = bt_get m k"
proof (induction ds arbitrary: m)
  case (Cons d ds)
  have "bt_get (put_draft_action d m) k = bt_get m k"
  proof (cases "draft_action d")
    case (Some a)
    then show ?thesis using draft_action_simps [OF Some] Cons.prems by (simp add: put_draft_action_def put_action_def get_insert)
  qed (simp add: put_draft_action_def)
  with Cons show ?case by simp
qed simp

lemma status_no_colon: "CHR '':'' \<notin> set (task_status_json st)"
  by (cases st) simp_all

lemma last_colon:
  assumes "xs @ c # s = ys @ c # t" and "c \<notin> set s" and "c \<notin> set t"
  shows "xs = ys \<and> s = t"
proof -
  have "takeWhile (\<lambda>x. x \<noteq> c) (rev (zs @ c # u)) = rev u" if "c \<notin> set u" for zs u
    using that by (subst rev_append, simp, subst takeWhile_append2) auto
  then have "rev s = rev t" using assms by metis
  with assms(1) show ?thesis by simp
qed

lemma distinct_task_ids:
  assumes "wf_world w"
  shows "distinct (map tn_id (tasks_of w))"
proof -
  have "map tn_id (tasks_of w) = map fst (gs_tasks w)"
    unfolding tasks_of_def bt_values_def map_map
  proof (rule map_cong [OF refl])
    fix p assume "p \<in> set (gs_tasks w)"
    then have "bt_get (gs_tasks w) (fst p) = Some (snd p)"
      using btree.entries_get [OF wf_world_bt [OF assms], of "fst p" "snd p"] by simp
    from wf_world_id [OF assms this] show "(tn_id \<circ> snd) p = fst p" by simp
  qed
  then show ?thesis using bt_wf_distinct [OF wf_world_bt [OF assms]] by simp
qed
lemma distinct_snapshot_actions:
  assumes "wf_world w" and "distinct (map apr_id (gs_approvals w))"
  shows "distinct (map oac_action_id (actions_from_snapshot (snapshot_of pj w)))"
proof -
  let ?as = "filter (\<lambda>a. arc_status a = AS_Pending) (map (approval_record_of pj) (gs_approvals w))"
  let ?P = "\<lambda>t. action_needed_task_status (trc_status t) \<and> \<not> has_pending_approval (map (approval_record_of pj) (gs_approvals w)) (trc_task_id t)"
  let ?ts = "filter ?P (map (task_record_of pj w) (tasks_of w))"
  have "distinct (map arc_approval_id (map (approval_record_of pj) (gs_approvals w)))"
    using assms(2) by (simp add: approval_record_of_def comp_def)
  then have "distinct (map arc_approval_id ?as)" by (rule distinct_map_filter)
  then have as: "distinct (map oac_action_id (map action_from_approval ?as))"
    by (auto simp: distinct_map inj_on_def)
  have "distinct (map trc_task_id (map (task_record_of pj w) (tasks_of w)))"
    using distinct_task_ids [OF assms(1)] by (simp add: task_record_of_def comp_def Let_def)
  then have "distinct (map trc_task_id ?ts)" by (rule distinct_map_filter)
  moreover have "trc_task_id t = trc_task_id u"
    if "oac_action_id (action_from_task t) = oac_action_id (action_from_task u)" for t u
    using that last_colon [of "trc_task_id t" "CHR '':''" "task_status_json (trc_status t)" "trc_task_id u"
        "task_status_json (trc_status u)"] status_no_colon by simp
  ultimately have ts: "distinct (map oac_action_id (map action_from_task ?ts))"
    unfolding distinct_map map_map by (fastforce simp: inj_on_def)
  have "actions_from_snapshot (snapshot_of pj w) = map action_from_approval ?as @ map action_from_task ?ts"
    by (simp add: actions_from_snapshot_def snapshot_of_def Let_def)
  with as ts show ?thesis by auto
qed

lemma snapshot_action_kept:
  assumes "distinct (map oac_action_id (actions_from_snapshot s))" and a: "a \<in> set (actions_from_snapshot s)"
  shows "a \<in> set (bt_values (gst_actions (apply_snapshot s st)))"
proof -
  have "oac_action_id a \<noteq> ''draft:'' @ i @ '':accept''" for i
    using a by (auto simp: actions_from_snapshot_def)
  then have "bt_get (fold put_draft_action ds (fold put_action (actions_from_snapshot s) m)) (oac_action_id a) = Some a" for ds m
    using get_fold_put [OF assms] by (simp add: get_fold_drafts)
  then show ?thesis
    by (intro get_Some_values [of _ "oac_action_id a"]) (simp add: apply_snapshot_def rebuild_goal_actions_def Let_def get_insert)
qed

lemma fold_events_others [simp]:
  "gst_drafts (fold apply_event es st) = gst_drafts st" "gst_actions (fold apply_event es st) = gst_actions st"
  by (induction es arbitrary: st) simp_all

lemma drafts_of_snapshot [simp]: "gst_drafts (apply_snapshot s st) = gst_drafts st"
  by (simp add: apply_snapshot_def Let_def)

lemma snapshot_action_origin:
  assumes "a \<in> set (bt_values (gst_actions (apply_snapshot s st)))" and "oac_goal_id a = grc_goal_id (gss_goal s)"
  shows "a \<in> set (actions_from_snapshot s) \<or> (\<exists>d \<in> set (bt_values (gst_drafts st)). draft_action d = Some a)"
proof -
  let ?g = "grc_goal_id (gss_goal s)"
  let ?Q = "\<lambda>m. \<forall>a \<in> set (bt_values m). oac_goal_id a = ?g \<longrightarrow>
      a \<in> set (actions_from_snapshot s) \<or> (\<exists>d \<in> set (bt_values (gst_drafts st)). draft_action d = Some a)"
  have kept: "?Q (filter (\<lambda>(k, a). oac_goal_id a \<noteq> ?g) m)" for m by (auto simp: bt_values_def)
  have wanted: "?Q (fold put_action (actions_from_snapshot s) m)" if "?Q m" for m
    by (rule fold_keeps [where Q = ?Q, OF _ that]) (auto simp: put_action_def dest: values_insert)
  have drafted: "?Q (fold put_draft_action (filter (\<lambda>d. gdr_goal_id d = Some ?g) (bt_values (gst_drafts st))) m)" if "?Q m" for m
    by (rule fold_keeps [where Q = ?Q, OF _ that])
       (auto simp: put_draft_action_def put_action_def dest!: values_insert split: option.splits)
  have "?Q (gst_actions (apply_snapshot s st))"
    using drafted [OF wanted [OF kept]] by (simp add: apply_snapshot_def rebuild_goal_actions_def Let_def get_insert)
  then show ?thesis using assms by blast
qed

section \<open>Properties\<close>

definition sample_env :: "(goal_journal \<Rightarrow> goal_journal_entry \<Rightarrow> append_outcome) \<Rightarrow> store_env" where
  "sample_env f = (| se_append = f, se_parse_uuid = Some, se_plan_json = (\<lambda>_. J_Null) |)"

definition sample_postgres :: "unit goal_postgres" where
  "sample_postgres = (| pg_write = (\<lambda>_ db. Inr db), pg_get_plan = (\<lambda>_ _. Inr None), pg_get_goal = (\<lambda>_ _. Inr None),
     pg_get_draft = (\<lambda>_ _. Inr None), pg_chat_session = (\<lambda>_ _. Inr []) |)"

definition sample_projector :: projector where
  "sample_projector = (| pj_uuid_v5 = (\<lambda>s. s), pj_goal = (\<lambda>_. J_Null), pj_state = (\<lambda>_. J_Null), pj_task = (\<lambda>_. J_Null),
     pj_event = (\<lambda>_. J_Null), pj_approval = (\<lambda>_. J_Null) |)"

definition sample_snapshot :: goal_store_snapshot where
  "sample_snapshot = snapshot_of sample_projector (world_of sample_goal [sample_task ''a'' TS_Failed])"

definition sample_revision :: plan_revision_request where
  "sample_revision = (| prr_author = None, prr_summary = None, prr_operator_message = None, prr_status = None,
     prr_authoring = None, prr_plan = None, prr_initial_tasks = None, prr_questions = [], prr_decisions = [] |)"

text \<open>A service with a journal that has created one plan.\<close>

definition sample_service :: "(goal_journal \<Rightarrow> goal_journal_entry \<Rightarrow> append_outcome) \<Rightarrow> unit goal_service" where
  "sample_service f = handle_request sample_postgres (sample_env f) (GQ_Create_Plan ''t'' ''r'' ''x'' sample_draft)
     (new_goal_service (Some new_journal_file) None)"

lemma sample_service_run: "goal_service_run sample_postgres (sample_env f) (sample_service f)"
  unfolding sample_service_def
  by (rule goal_service_run.request)
     (use goal_service_run.fresh [where journaled = True and db = None and pg = sample_postgres and env = "sample_env f"] in simp)

lemma sample_service_local: "gsv_database (sample_service f) = None"
  unfolding sample_service_def
  by (rule serve_keeps [where P = "\<lambda>v. gsv_database v = None"]) (simp_all add: new_goal_service_def)

lemma goal_store_stays_sound_parts:
  assumes "goal_service_run pg env v"
  shows "store_sound (gsv_store v)"
    and "gsv_database v = None \<Longrightarrow> bt_get (gst_plans (gsv_store v)) i = Some p \<Longrightarrow> plan_reachable p \<and> dp_id p = i"
proof -
  show sound: "store_sound (gsv_store v)" by (rule run_sound [OF assms])
  assume "gsv_database v = None" "bt_get (gst_plans (gsv_store v)) i = Some p"
  with run_plans_ok [OF assms] sound show "plan_reachable p \<and> dp_id p = i"
    by (auto simp: local_plans_ok_def plans_ok_def store_sound_def keyed_map_def dest: all_entries_get)
qed

text \<open>
  C10: The goal store stays sound.  Whatever requests and restarts the service has gone through, and whatever
  the database answers: its maps are ordered and keyed by their records; the log of a goal has no
  two events with one sequence number or key, the operator log no two with one id or key, a chat session no
  two turns with one id or key; no two drafts share a key; every action can be resolved in some way and is
  pending, resolved or cancelled; and, without a database, every plan has a sound history.
\<close>
theorem goal_store_stays_sound:
  assumes "goal_service_run pg env v"
  shows "store_sound (gsv_store v) \<and>
    (gsv_database v = None \<longrightarrow> (\<forall>i p. bt_get (gst_plans (gsv_store v)) i = Some p \<longrightarrow> plan_reachable p \<and> dp_id p = i))"
  using goal_store_stays_sound_parts [OF assms] by blast

theorem goal_store_stays_sound_witness:
  "store_sound (gsv_store (sample_service (\<lambda>_ _. AO_Written)))"
  by (rule goal_store_stays_sound [THEN conjunct1]) (rule sample_service_run)

lemma restart_restores_the_goal_store_parts:
  assumes "goal_service_run pg env v" and "\<And>f e. se_append env f e = AO_Written"
    and "gsv_database v = None" and "gsv_journal v = Some f"
  shows "replay_goal_journal (se_parse_uuid env) (gsv_journal v) = Inr (gsv_store v)"
    and "restart_goal_service env v = v"
proof -
  have m: "FL_Invalid \<notin> set (jf_lines f)"
      "gsv_store v = apply_entries (se_parse_uuid env) (line_entries (jf_lines f)) empty_goal_store"
    using run_mirrors [OF assms(2,1)] assms(3,4) by (simp_all add: mirrors_def)
  then show "replay_goal_journal (se_parse_uuid env) (gsv_journal v) = Inr (gsv_store v)"
    by (simp add: replay_goal_journal_def assms(4) replay_goal_lines_eq)
  show "restart_goal_service env v = v"
    using m by (simp add: restart_goal_service_def assms start_goal_store_eq)
qed

text \<open>
  C31: A restart restores the goal store.  After any run of a service with a journal in which every append was
  written, replaying the journal gives exactly the store that the service holds in memory.
\<close>
theorem restart_restores_the_goal_store:
  assumes "goal_service_run pg env v" and "\<And>f e. se_append env f e = AO_Written"
    and "gsv_database v = None" and "gsv_journal v = Some f"
  shows "replay_goal_journal (se_parse_uuid env) (gsv_journal v) = Inr (gsv_store v) \<and> restart_goal_service env v = v"
  using restart_restores_the_goal_store_parts [OF assms] by blast

theorem restart_restores_the_goal_store_witness:
  "restart_goal_service (sample_env (\<lambda>_ _. AO_Written)) (sample_service (\<lambda>_ _. AO_Written)) = sample_service (\<lambda>_ _. AO_Written)"
proof -
  have "gsv_journal (sample_service (\<lambda>_ _. AO_Written)) \<noteq> None"
    unfolding sample_service_def
    by (rule serve_keeps [where P = "\<lambda>v. gsv_database v = None \<and> gsv_journal v \<noteq> None", THEN conjunct2])
       (simp_all add: new_goal_service_def record_entry_local)
  then obtain f where "gsv_journal (sample_service (\<lambda>_ _. AO_Written)) = Some f" by blast
  from restart_restores_the_goal_store [OF sample_service_run _ sample_service_local this] show ?thesis
    by (simp add: sample_env_def)
qed

lemma torn_line_loses_the_store_parts:
  assumes "gsv_database v = None" and "gsv_journal v = Some f" and "se_append env f (GJ_Snapshot s) = AO_Partial"
  shows "\<exists>x. fst (upsert_snapshot pg env s v) = Inr x"
    and "gsv_store (restart_goal_service env (fold (handle_request pg env) qs (handle_request pg env (GQ_Snapshot s) v))) = empty_goal_store"
proof -
  show "\<exists>x. fst (upsert_snapshot pg env s v) = Inr x"
    by (simp add: upsert_snapshot_def reply_def record_entry_local [OF assms(1)])
  have "torn (handle_request pg env (GQ_Snapshot s) v)"
    using assms by (simp add: upsert_snapshot_def torn_def record_entry_local append_goal_journal_def append_entry_def add_line_def)
  then show "gsv_store (restart_goal_service env (fold (handle_request pg env) qs (handle_request pg env (GQ_Snapshot s) v))) = empty_goal_store"
    by (intro torn_restart torn_serve)
qed

text \<open>
  C34: A torn line loses the store.  When an append breaks off inside its line the request is still answered as
  accepted, and from then on, whatever else is requested and appended, every restart comes up with the
  empty store, because the replay stops at the first line that does not parse.
\<close>
theorem torn_line_loses_the_store:
  assumes "gsv_database v = None" and "gsv_journal v = Some f" and "se_append env f (GJ_Snapshot s) = AO_Partial"
  shows "(\<exists>x. fst (upsert_snapshot pg env s v) = Inr x) \<and>
    gsv_store (restart_goal_service env (fold (handle_request pg env) qs (handle_request pg env (GQ_Snapshot s) v))) = empty_goal_store"
  using torn_line_loses_the_store_parts [OF assms] by blast

theorem torn_line_loses_the_store_witness:
  "\<exists>f. gsv_store (restart_goal_service (sample_env f) (handle_request sample_postgres (sample_env f) (GQ_Snapshot sample_snapshot) (sample_service f))) = empty_goal_store
     \<and> gst_plans (gsv_store (sample_service f)) \<noteq> []"
proof -
  let ?f = "\<lambda>_ e. case e of GJ_Snapshot _ \<Rightarrow> AO_Partial | _ \<Rightarrow> AO_Written"
  have "gsv_journal (sample_service ?f) \<noteq> None"
    unfolding sample_service_def
    by (rule serve_keeps [where P = "\<lambda>v. gsv_database v = None \<and> gsv_journal v \<noteq> None", THEN conjunct2])
       (simp_all add: new_goal_service_def record_entry_local)
  then obtain j where j: "gsv_journal (sample_service ?f) = Some j" by blast
  have "se_append (sample_env ?f) j (GJ_Snapshot sample_snapshot) = AO_Partial" by (simp add: sample_env_def)
  from torn_line_loses_the_store [OF sample_service_local j this, of sample_postgres "[]"]
  have "gsv_store (restart_goal_service (sample_env ?f) (handle_request sample_postgres (sample_env ?f) (GQ_Snapshot sample_snapshot) (sample_service ?f))) = empty_goal_store"
    by simp
  moreover have "bt_get (gst_plans (gsv_store (sample_service ?f))) (dp_id (draft_plan ''t'' ''r'' ''x'' sample_draft)) \<noteq> None"
    using upsert_local [OF _ plan_reachable.drafted, of "new_goal_service (Some new_journal_file) None" sample_postgres "sample_env ?f"
        "''t''" "''r''" "''x''" sample_draft]
    by (auto simp: sample_service_def create_plan_def Let_def new_goal_service_def)
  then have "gst_plans (gsv_store (sample_service ?f)) \<noteq> []" by (auto simp: bt_get_def)
  ultimately show ?thesis by blast
qed

text \<open>
  Without a database an error is the client's and changes nothing.  Whatever run the service has gone
  through, a request that is answered with an error is answered with 400 or 404, never 500, and leaves the
  store and the journal as they were.
\<close>
theorem errors_change_nothing:
  assumes "goal_service_run pg env v" and "gsv_database v = None" and "request_error pg env q v = Some e"
  shows "handle_request pg env q v = v" and "fst e \<in> {API_Bad_Request, API_Not_Found}"
proof -
  have "plans_ok (gsv_store v)" using run_plans_ok [OF assms(1)] assms(2) by (simp add: local_plans_ok_def)
  from request_errors_clean [OF assms(2) this assms(3)]
  show "handle_request pg env q v = v" and "fst e \<in> {API_Bad_Request, API_Not_Found}" by (cases "fst e"; simp)+
qed

theorem errors_change_nothing_witness:
  "handle_request sample_postgres (sample_env (\<lambda>_ _. AO_Written)) (GQ_Revise_Plan ''t'' ''r'' ''q'' sample_revision) (new_goal_service None None) = new_goal_service None None"
proof -
  have run: "goal_service_run sample_postgres (sample_env (\<lambda>_ _. AO_Written)) (new_goal_service None None)"
    using goal_service_run.fresh [where journaled = False and db = None] by simp
  have "request_error sample_postgres (sample_env (\<lambda>_ _. AO_Written)) (GQ_Revise_Plan ''t'' ''r'' ''q'' sample_revision) (new_goal_service None None) =
      Some (API_Not_Found, ''plan '' @ ''q'' @ '' not found'')"
    by (simp add: revise_plan_def with_plan_def load_plan_def new_goal_service_def empty_goal_store_def bt_get_def error_of_def)
  from errors_change_nothing(1) [OF run _ this] show ?thesis by (simp add: new_goal_service_def)
qed

text \<open>
  C32: The event log of a goal follows the goal.  When the coordinator projects states of a goal whose logs extend
  each other, in any order and as often as it likes, into a store that has no events of that goal, the log
  in the store is the log of the longest of them, numbered from 1, each event once.
\<close>
theorem event_log_follows_the_goal:
  assumes "\<forall>s \<in> set ss. gsp_id (gs_goal s) = g \<and> prefix (gs_events s) es" and "\<forall>e \<in> set es. ev_sequence e = 0"
    and "bt_get (gst_events st) g = None"
  shows "entries_of (gst_events (fold (\<lambda>s. apply_snapshot (snapshot_of pj s)) ss st)) g =
    event_records pj g (take (Max (insert 0 ((\<lambda>s. length (gs_events s)) ` set ss))) es)"
proof -
  have "entries_of (gst_events st) g = event_records pj g (take 0 es)"
    by (simp add: entries_of_def assms(3) event_records_def)
  from events_in_any_order [OF assms(1,2) this]
  have "entries_of (gst_events (fold (\<lambda>s. apply_snapshot (snapshot_of pj s)) ss st)) g =
    event_records pj g (take (fold max (map (\<lambda>s. length (gs_events s)) ss) 0) es)" .
  moreover have "fold max (map (\<lambda>s. length (gs_events s)) ss) 0 = Max (insert 0 ((\<lambda>s. length (gs_events s)) ` set ss))"
    using Max.set_eq_fold [of 0 "map (\<lambda>s. length (gs_events s)) ss"] by simp
  ultimately show ?thesis by simp
qed

theorem event_log_follows_the_goal_witness:
  "entries_of (gst_events (fold (\<lambda>s. apply_snapshot (snapshot_of sample_projector s))
     [(world_of sample_goal []) (| gs_events := [state_event_new ''goal_started'', state_event_new ''cancelled:x''] |),
      (world_of sample_goal []) (| gs_events := [state_event_new ''goal_started''] |)] empty_goal_store)) ''g'' =
   event_records sample_projector ''g'' [state_event_new ''goal_started'', state_event_new ''cancelled:x'']"
proof -
  let ?es = "[state_event_new ''goal_started'', state_event_new ''cancelled:x'']"
  let ?ss = "[(world_of sample_goal []) (| gs_events := ?es |), (world_of sample_goal []) (| gs_events := [state_event_new ''goal_started''] |)]"
  have "\<forall>s \<in> set ?ss. gsp_id (gs_goal s) = ''g'' \<and> prefix (gs_events s) ?es" by (simp add: prefix_def)
  moreover have "\<forall>e \<in> set ?es. ev_sequence e = 0" by (simp add: state_event_new_def)
  moreover have "bt_get (gst_events empty_goal_store) ''g'' = None" by (simp add: empty_goal_store_def bt_get_def)
  ultimately show ?thesis using event_log_follows_the_goal [of ?ss "''g''" ?es empty_goal_store sample_projector] by simp
qed

lemma record_parts [simp]:
  "arc_status (approval_record_of pj r) = apr_status r" "arc_task_id (approval_record_of pj r) = apr_task_id r"
  "trc_status (task_record_of pj w t) = tn_status t" "trc_task_id (task_record_of pj w t) = tn_id t"
  by (simp_all add: approval_record_of_def task_record_of_def Let_def)

lemma snapshot_parts:
  "gss_approvals (snapshot_of pj w) = map (approval_record_of pj) (gs_approvals w)"
  "gss_tasks (snapshot_of pj w) = map (task_record_of pj w) (tasks_of w)"
  by (simp_all add: snapshot_of_def Let_def)

lemma set_map_filter_map: "set (map f (filter P (map g xs)) @ ys) = (\<lambda>x. f (g x)) ` {x \<in> set xs. P (g x)} \<union> set ys"
  "set (map f (filter P (map g xs))) = (\<lambda>x. f (g x)) ` {x \<in> set xs. P (g x)}"
  by auto

lemma action_queue_is_complete_parts:
  assumes w: "wf_world w" and ids: "distinct (map apr_id (gs_approvals w))"
  shows "t \<in> set (tasks_of w) \<Longrightarrow> action_needed_task_status (tn_status t) \<Longrightarrow>
      \<exists>a \<in> set (bt_values (gst_actions (apply_snapshot (snapshot_of pj w) st))).
        oac_task_id a = Some (tn_id t) \<and> oac_status a = ''pending'' \<and> oac_allowed_resolutions a \<noteq> []"
    and "r \<in> set (gs_approvals w) \<Longrightarrow> apr_status r = AS_Pending \<Longrightarrow>
      \<exists>a \<in> set (bt_values (gst_actions (apply_snapshot (snapshot_of pj w) st))).
        oac_approval a = Some (approval_record_of pj r) \<and> oac_status a = ''pending''"
    and "a \<in> set (bt_values (gst_actions (apply_snapshot (snapshot_of pj w) st))) \<Longrightarrow> oac_goal_id a = gsp_id (gs_goal w) \<Longrightarrow>
      (\<exists>r \<in> set (gs_approvals w). apr_status r = AS_Pending \<and> a = action_from_approval (approval_record_of pj r)) \<or>
      (\<exists>t \<in> set (tasks_of w). action_needed_task_status (tn_status t) \<and> a = action_from_task (task_record_of pj w t) \<and>
         \<not> (\<exists>r \<in> set (gs_approvals w). apr_task_id r = Some (tn_id t) \<and> apr_status r = AS_Pending)) \<or>
      (\<exists>d \<in> set (bt_values (gst_drafts st)). draft_action d = Some a)"
proof -
  let ?s = "snapshot_of pj w"
  have pending: "has_pending_approval (gss_approvals ?s) i \<longleftrightarrow> (\<exists>r \<in> set (gs_approvals w). apr_task_id r = Some i \<and> apr_status r = AS_Pending)" for i
    by (auto simp: has_pending_approval_def snapshot_parts)
  have wanted: "set (actions_from_snapshot ?s) =
      (\<lambda>r. action_from_approval (approval_record_of pj r)) ` {r \<in> set (gs_approvals w). apr_status r = AS_Pending} \<union>
      (\<lambda>t. action_from_task (task_record_of pj w t)) ` {t \<in> set (tasks_of w). action_needed_task_status (tn_status t) \<and>
         \<not> (\<exists>r \<in> set (gs_approvals w). apr_task_id r = Some (tn_id t) \<and> apr_status r = AS_Pending)}"
    unfolding actions_from_snapshot_def pending
    by (simp add: snapshot_parts set_map_filter_map del: set_map set_filter)
  note kept = snapshot_action_kept [OF distinct_snapshot_actions [OF w ids]]
  have approval: "action_from_approval (approval_record_of pj r) \<in> set (bt_values (gst_actions (apply_snapshot ?s st)))"
    if "r \<in> set (gs_approvals w)" "apr_status r = AS_Pending" for r
    by (rule kept) (use that wanted in blast)
  have fields: "oac_allowed_resolutions b \<noteq> []" if "action_ok b" for b using that by (simp add: action_ok_def)
  show "\<exists>a \<in> set (bt_values (gst_actions (apply_snapshot ?s st))). oac_approval a = Some (approval_record_of pj r) \<and> oac_status a = ''pending''"
    if "r \<in> set (gs_approvals w)" "apr_status r = AS_Pending"
    using approval [OF that] by (rule bexI [rotated]) simp
  show "\<exists>a \<in> set (bt_values (gst_actions (apply_snapshot ?s st))).
        oac_task_id a = Some (tn_id t) \<and> oac_status a = ''pending'' \<and> oac_allowed_resolutions a \<noteq> []"
    if t: "t \<in> set (tasks_of w)" "action_needed_task_status (tn_status t)"
  proof (cases "\<exists>r \<in> set (gs_approvals w). apr_task_id r = Some (tn_id t) \<and> apr_status r = AS_Pending")
    case True
    then obtain r where r: "r \<in> set (gs_approvals w)" "apr_task_id r = Some (tn_id t)" "apr_status r = AS_Pending" by blast
    show ?thesis
      by (rule bexI [OF _ approval [OF r(1,3)]]) (use r(2) fields in simp)
  next
    case False
    have "action_from_task (task_record_of pj w t) \<in> set (bt_values (gst_actions (apply_snapshot ?s st)))"
      by (rule kept) (use t False wanted in blast)
    then show ?thesis by (rule bexI [rotated]) (use fields in simp)
  qed
  assume "a \<in> set (bt_values (gst_actions (apply_snapshot ?s st)))" and "oac_goal_id a = gsp_id (gs_goal w)"
  then have "a \<in> set (actions_from_snapshot ?s) \<or> (\<exists>d \<in> set (bt_values (gst_drafts st)). draft_action d = Some a)"
    by (intro snapshot_action_origin) (simp_all add: snapshot_of_def goal_record_of_def Let_def)
  then show "(\<exists>r \<in> set (gs_approvals w). apr_status r = AS_Pending \<and> a = action_from_approval (approval_record_of pj r)) \<or>
      (\<exists>t \<in> set (tasks_of w). action_needed_task_status (tn_status t) \<and> a = action_from_task (task_record_of pj w t) \<and>
         \<not> (\<exists>r \<in> set (gs_approvals w). apr_task_id r = Some (tn_id t) \<and> apr_status r = AS_Pending)) \<or>
      (\<exists>d \<in> set (bt_values (gst_drafts st)). draft_action d = Some a)"
    unfolding wanted by blast
qed

text \<open>
  C13: The queue of actions is complete and exact.  After the projection of a state, every task that is blocked,
  failed or waiting has a pending action that can be resolved, and so has every pending approval; and every
  action of the goal in the queue is one for a pending approval, for such a task without a pending approval,
  or for a draft of the goal.
\<close>
theorem action_queue_is_complete:
  assumes "wf_world w" and "distinct (map apr_id (gs_approvals w))"
    and "queue = bt_values (gst_actions (apply_snapshot (snapshot_of pj w) st))"
  shows "(\<forall>t \<in> set (tasks_of w). action_needed_task_status (tn_status t) \<longrightarrow>
      (\<exists>a \<in> set queue. oac_task_id a = Some (tn_id t) \<and> oac_status a = ''pending'' \<and> oac_allowed_resolutions a \<noteq> [])) \<and>
    (\<forall>r \<in> set (gs_approvals w). apr_status r = AS_Pending \<longrightarrow>
      (\<exists>a \<in> set queue. oac_approval a = Some (approval_record_of pj r) \<and> oac_status a = ''pending'')) \<and>
    (\<forall>a \<in> set queue. oac_goal_id a = gsp_id (gs_goal w) \<longrightarrow>
      (\<exists>r \<in> set (gs_approvals w). apr_status r = AS_Pending \<and> a = action_from_approval (approval_record_of pj r)) \<or>
      (\<exists>t \<in> set (tasks_of w). action_needed_task_status (tn_status t) \<and> a = action_from_task (task_record_of pj w t) \<and>
         \<not> (\<exists>r \<in> set (gs_approvals w). apr_task_id r = Some (tn_id t) \<and> apr_status r = AS_Pending)) \<or>
      (\<exists>d \<in> set (bt_values (gst_drafts st)). draft_action d = Some a))"
  unfolding assms(3)
  by (intro conjI ballI impI; rule action_queue_is_complete_parts [OF assms(1,2)]; assumption)

theorem action_queue_is_complete_witness:
  "\<exists>a \<in> set (bt_values (gst_actions (apply_snapshot sample_snapshot empty_goal_store))). oac_task_id a = Some ''a'' \<and> oac_allowed_resolutions a \<noteq> []"
proof -
  let ?t = "sample_task ''a'' TS_Failed"
  let ?w = "world_of sample_goal [?t]"
  have wf: "wf_world ?w" by (simp add: wf_world_of_one)
  have "distinct (map apr_id (gs_approvals ?w))" by (simp add: world_of_def)
  moreover have "?t \<in> set (tasks_of ?w)"
    by (simp add: tasks_of_def world_of_def bt_of_list_def bt_values_def)
  moreover have "action_needed_task_status (tn_status ?t)" "tn_id ?t = ''a''"
    by (simp_all add: action_needed_task_status_def sample_task_def root_of_def)
  ultimately show ?thesis
    using action_queue_is_complete [OF wf _ refl, of sample_projector empty_goal_store, THEN conjunct1, rule_format, of ?t]
    by (auto simp: sample_snapshot_def)
qed

text \<open>
  A plan never asks for the acceptance of its draft.  The draft that \<open>draft_from_plan\<close> writes beside a plan has
  a goal only once the plan is compiled, and then its status is one for which \<open>draft_action\<close> offers nothing:
  the queue of actions never shows an AcceptDraft action for a plan.
\<close>
theorem plan_drafts_offer_no_action:
  assumes "plan_reachable p" and "draft_from_plan f p = Some d"
  shows "draft_action d = None"
proof (cases "dp_compiled_goal_id p")
  case None
  with assms(2) show ?thesis by (auto simp: draft_from_plan_def draft_action_def split: if_splits)
next
  case (Some g)
  with plan_reachable_ok [OF assms(1)] have "dp_status p \<in> {PLS_Compiled, PLS_Superseded}" by (simp add: compiled_ok_def)
  with assms(2) have "gdr_status d = ''compiled''" by (auto simp: draft_from_plan_def)
  then show ?thesis by (simp add: draft_action_def split: option.split)
qed

theorem plan_drafts_offer_no_action_witness:
  "draft_action (the (draft_from_plan (\<lambda>_. J_Null) (plan_step (PE_Compile ''t'' ''g'' (| pcr_plan_id = None, pcr_goal_id = None,
     pcr_title_override = None, pcr_objective_override = None, pcr_strict_review = True, pcr_human_steered = False,
     pcr_enable_branching = False |)) (draft_plan ''t'' ''r'' ''x'' sample_draft)))) = None"
proof -
  let ?p = "plan_step (PE_Compile ''t'' ''g'' (| pcr_plan_id = None, pcr_goal_id = None,
     pcr_title_override = None, pcr_objective_override = None, pcr_strict_review = True, pcr_human_steered = False,
     pcr_enable_branching = False |)) (draft_plan ''t'' ''r'' ''x'' sample_draft)"
  have r: "plan_reachable ?p" by (rule plan_reachable.stepped, rule plan_reachable.drafted)
  have "dp_status ?p = PLS_Compiled" by (simp add: compile_goal_def Let_def)
  then have "\<exists>d. draft_from_plan (\<lambda>_. J_Null) ?p = Some d" by (simp add: draft_from_plan_def)
  then obtain d where "draft_from_plan (\<lambda>_. J_Null) ?p = Some d" ..
  with plan_drafts_offer_no_action [OF r this] show ?thesis by simp
qed

end
