(* ===== verification/Spec2Isabelle.thy ===== *)
theory Spec2Isabelle
  imports Notifier Commands Cycles Store_Facts
begin

text \<open>
  Verification of the task graph's goal state machine.

  The program turns a goal into a tree of tasks that workers carry out, review, branch, vote
  on, restart and finally declare done.  What it decides are methods of \<open>GoalState\<close> in
  \<open>crates/domain/src/lib.rs\<close>; the coordinator (\<open>crates/coordinator/src/main.rs\<close>) drives them, and
  the other services (goal store, gateways, runners) move requests and results over HTTP.
  This development models the data and the operations of \<open>GoalState\<close> and the handlers of the
  coordinator, and proves what they promise.

  Conventions.  A struct is a record, an enum a datatype with the source's constructors.  The
  state is \<open>goal_state\<close>; a \<open>world\<close> extends it with a tape of fresh identifiers and of clock
  readings, from which \<open>Uuid::new_v4\<close> and \<open>Utc::now\<close> draw.  A method on \<open>&mut self\<close> that
  returns \<open>Result<T, DomainError>\<close> is an operation \<open>T wop\<close>: a function from a world to a
  \<open>domain_error + T\<close> and the world it leaves behind, also when it fails, so that partial effects
  before an error are visible (theory Prelude: \<open>ok\<close>, \<open>fail\<close>, \<open>bindR\<close>, \<open>for_each\<close>, \<open>preserves\<close>).
  A panic is None.  \<open>BTreeMap\<close> is a sorted association list (Rust_Map), \<open>sort_by\<close>, \<open>max_by\<close> and
  \<open>total_cmp\<close> are in Rust_Order, strings are lists of characters with \<open>trim\<close>, \<open>format!\<close> and
  decimal printing in Rust_Text, \<open>f32\<close> is an exact binary model (Float32), casts and wrapping
  are in Rust_Int.  Counters of type \<open>u32\<close> and \<open>u64\<close> that the code only increments, compares or
  saturates are natural numbers; where the width matters it is kept: bids and supports are 64-bit
  words whose scores wrap as \<open>i64\<close>, vote weights are cast to \<open>i32\<close>, and \<open>len() as u32\<close> is taken
  modulo \<open>2 ^ 32\<close>.  Arithmetic is that of a release build.

  Data.  Execution_Profile (profiles, runners, routes, tool and auth policies, sandboxes),
  Review_Doctrine (doctrine presets and their override resolution), Task_Model (tasks, budgets,
  worker results, validation reports, thunks, approvals), Goal_Model (the goal specification,
  its policies and \<open>GoalState\<close> with its guards).

  Operations, in the order in which a goal lives through them.  Task_Tree: \<open>GoalState::new\<close>,
  \<open>insert_child_task\<close>, \<open>SpawnPolicy\<close>, the invariant \<open>wf_world\<close> (the task map is one tree whose
  parents, children, depths and identifiers agree, and fresh identifiers are new).  Scheduling:
  \<open>runnable_tasks\<close> and \<open>mark_running\<close>.  Satisfaction: \<open>satisfaction_report\<close>,
  \<open>refresh_goal_status\<close>, \<open>is_done\<close>, \<open>cancel\<close>.  Approval: the approval gate and its requests.
  Thunks: durable waits.  Restart: restarts and timeouts.  Worker_Result: \<open>apply_agent_result\<close>
  with normalisation and recovery.  Branching and Frontier: competing candidates, votes,
  unifiers, review rounds, actor retries, \<open>apply_validation\<close>.  Ranking: priority votes.
  Mechanism: ballots and auctions.  Steering: human directives.  Validation:
  \<open>ValidationReport::from_result\<close> with its collectors, and \<open>contract_met\<close>, what a result has to
  meet, stated criterion by criterion.

  The coordinator.  Control: \<open>apply_serialized_control_transition\<close>, a control operation whose
  errors are domain errors or skips.  Drive: \<open>drive_state\<close>, \<open>apply_goal_control\<close> and \<open>run\<close> as
  operations on a session, the pair of the live state and the state last stored with
  \<open>ctx.set\<close>; runners, notifier and goal store are functions in the record \<open>services\<close> whose
  answers may depend on the whole state and may be failures.  The system \<open>driver_step\<close> is
  what the driver may do to a goal; the locale \<open>kept_by_events\<close> carries every predicate that it
  keeps through all handlers.  Handlers: the states that are ever stored, and when the
  driver stops.

  Runners.  Scaling: \<open>RunnerScalingDecision::recommend\<close>, how many runners a pool should have.
  Routing: \<open>ModelRoute::select_candidate\<close>, which of a runner's models serves a task.  Dispatch:
  \<open>RunnerRegistration::evaluate_for_task\<close> and \<open>RunnerDispatchDecision::choose\<close>, which runner gets a
  task, against \<open>can_serve\<close>, what a runner has to meet.  Registry: the service in
  \<open>crates/runner-registry\<close>, its leases, its journal and what a restart makes of them.
  Distributed: the agent-runner service of the coordinator, from dispatch to the result, with the
  local stub.

  Other services.  Journal_File: the file that the goal store and the notifier append to, with torn and
  unfinished lines.  Notifier: the service in \<open>crates/notifier\<close>, its feedback threads and its outbox
  with deliveries, retries, acknowledgements and dead letters, and its journal; the handlers of a
  run are an inductive predicate, and the locale \<open>outbox_invariant\<close> carries a predicate of entries
  through all of them.  Commands: the command service of \<open>crates/sandbox-runner\<close>, plans and runs of
  local commands against \<open>permitted\<close>, what a tool policy allows, and the process that a timed-out run leaves
  behind.  Cycles: \<open>detect_cycles\<close>, the check of a task graph, also when dependencies name no task.

  What operators see.  Anchors: every thunk that names a task names one of the goal, in every reachable
  state.  Progress: the read-only views \<open>progress\<close>, \<open>compute_graph\<close> and \<open>find_tasks\<close>, against the graph
  \<open>graph_vertices\<close>, \<open>graph_arcs\<close> read off the state.  Projection: the snapshot that the coordinator sends to the
  goal store.  Operators: the actors of \<open>crates/domain/src/operator.rs\<close>, which transition is allowed on
  which record; the locale \<open>operator_actor\<close> is the trait, interpreted on all seven actors.  Plans:
  \<open>DurablePlan\<close>, from draft to compiled goal, and \<open>GoalSpec::quality_report\<close> against \<open>goal_ready\<close>.

  The goal store (\<open>crates/goal-store\<close>).  Json: values and what the services read from them.  Goal_Store: the
  maps of the store, what an entry does to them, the queue of actions, the journal and its replay.
  Goal_Service: the handlers, over the journal or a database.  Store_Facts: runs of the service, its
  invariant \<open>store_sound\<close>, and its properties; the locale \<open>dedup_log\<close> carries the logs that refuse
  duplicates, interpreted on goal events, operator events and chat turns.

  Lemmas.  Each theory first shows that its operations keep \<open>wf_world\<close> (collection
  \<open>preserves_rules\<close>), then states its own invariant with a collection of preservation rules
  (\<open>thunk_rules\<close>, \<open>branch_rules\<close>, \<open>review_rules\<close>, \<open>retry_rules\<close>), then characterises what an
  operation does when it succeeds, and proves its properties from that.  Frames reduces
  what an operation leaves alone to facts about record updates.  Branch_Facts and
  Review_Facts hold the facts about branching and reviewing.

  Whole runs.  Footprints states, as a hierarchy of locales over an arbitrary view of the
  world, which parts of the state each handler can touch.  Transitions makes every public
  method an event, \<open>fire\<close> runs one, and \<open>reachable\<close> collects the states of all runs.
  Invariants interprets the footprint locales on the views of the component invariants and
  carries these to all reachable states by the locale \<open>invariant_of\<close>.  Lifecycle holds the
  properties of runs.  Locales elsewhere: ordered maps and comparators (Rust_Map, Rust_Order),
  interpreted on the model's maps, scores, bids, votes and ready-queue order.

  Bounds.  Every loop of the operations runs over a list or a map that is fixed when the loop
  starts, so that the recursion is structural, and every theorem about a result is about an
  operation that returns.  The exception is \<open>detect_cycles\<close>, whose search has one step of fuel
  more than there are tasks; that this is enough is part of its property.  The driver runs at most
  \<open>max_frontier_rounds\<close> (32) rounds, as in the source.

  Parameters.  \<open>Uuid::new_v5\<close> is an argument of \<open>start_mechanism_round\<close>.  The
  \<open>DefaultHasher\<close> of weighted routing is the record \<open>std_hash\<close>, the clocks of the registry are
  arguments of its handlers, and the HTTP replies that the agent-runner service gets are the
  record \<open>network\<close>.  The replies, secrets, mails and journal appends of the notifier are the
  record \<open>outside\<close>; the files, processes and clock of the command service the record
  \<open>runner_env\<close>.  What the projection serialises is the record \<open>projector\<close>; the appends, \<open>Uuid::parse_str\<close> and
  plan serialisation of the goal store are the record \<open>store_env\<close>, its SQL functions the record
  \<open>goal_postgres\<close>, and the times and identifiers that its handlers draw are their arguments.  Freshness of
  identifiers is the hypothesis that the tape is injective, and it is part of \<open>wf_world\<close>.

  Not modelled.  Of the goal store the list endpoints with their filters and the SQL; of the sandbox
  runner all but its command service; the event gateway, the memory gateway, the tool registry and the
  command line (HTTP, SQL, processes, terminals); tracing and the journal of the workflow engine; the
  serialisation of the records; schema generation.  Timestamps are opaque strings.  The handlers of a service run one after the other:
  interleavings of concurrent requests are not modelled, except for the stale retry of the notifier.
\<close>

end
